(* ===== verification/Prelude.thy ===== *)
theory Prelude
  imports Main "HOL-Library.Word"
begin

text \<open>
  Shared vocabulary of the development: byte strings, the result type that stands for
  "returns or throws", the effect type that stands for an asynchronous function run against
  an environment, little-endian integers, and the generic lemmas the component theories
  rewrite with.

  A JavaScript or Rust function that may fail is a HOL function into \<open>'e + 'a\<close>:
  \<open>Inl e\<close> is the thrown exception or the \<^verbatim>\<open>Err\<close>, \<open>Inr x\<close> the returned value. A function that
  talks to the outside (an RPC client, a file system) is a function of type
  \<open>('w, 'e, 'a) io\<close>: it takes the state \<open>'w\<close> of its environment and gives back the outcome
  together with the environment's next state. The environment is arbitrary, so a theorem
  about such a function holds for every behaviour of the outside.
\<close>

section \<open>Bytes and results\<close>

type_synonym byte = "8 word"
type_synonym bytes = "byte list"

named_theorems result_simps \<open>inversion of the result and effect combinators\<close>
named_theorems byte_simps \<open>lengths and slices of encoded byte strings\<close>

definition bind_r :: "'e + 'a \<Rightarrow> ('a \<Rightarrow> 'e + 'b) \<Rightarrow> 'e + 'b" where
  "bind_r m f = (case m of Inl e \<Rightarrow> Inl e | Inr x \<Rightarrow> f x)"

definition map_err :: "('e \<Rightarrow> 'f) \<Rightarrow> 'e + 'a \<Rightarrow> 'f + 'a" where
  "map_err g m = (case m of Inl e \<Rightarrow> Inl (g e) | Inr x \<Rightarrow> Inr x)"

definition is_ok :: "'e + 'a \<Rightarrow> bool" where
  "is_ok m = (case m of Inl e \<Rightarrow> False | Inr x \<Rightarrow> True)"

lemma bind_r_simps [simp, code]:
  "bind_r (Inl e) f = Inl e"
  "bind_r (Inr x) f = f x"
  by (simp_all add: bind_r_def)

lemma bind_r_Inr_iff [result_simps]:
  "bind_r m f = Inr y \<longleftrightarrow> (\<exists>x. m = Inr x \<and> f x = Inr y)"
  by (cases m) (auto simp: bind_r_def)

lemma bind_r_Inl_iff [result_simps]:
  "bind_r m f = Inl e \<longleftrightarrow> m = Inl e \<or> (\<exists>x. m = Inr x \<and> f x = Inl e)"
  by (cases m) (auto simp: bind_r_def)

lemma map_err_simps [simp, code]:
  "map_err g (Inl e) = Inl (g e)"
  "map_err g (Inr x) = Inr x"
  by (simp_all add: map_err_def)

lemma map_err_Inr_iff [result_simps]: "map_err g m = Inr x \<longleftrightarrow> m = Inr x"
  by (cases m) (auto simp: map_err_def)

lemma map_err_Inl_iff [result_simps]: "map_err g m = Inl e \<longleftrightarrow> (\<exists>e'. m = Inl e' \<and> e = g e')"
  by (cases m) (auto simp: map_err_def)

lemma is_ok_simps [simp, code]:
  "is_ok (Inl e) = False"
  "is_ok (Inr x) = True"
  by (simp_all add: is_ok_def)

lemma is_ok_iff [result_simps]: "is_ok m \<longleftrightarrow> (\<exists>x. m = Inr x)"
  by (cases m) auto

lemma if_Inl_Inr_iff [result_simps]:
  "(if c then Inl e else m) = Inr x \<longleftrightarrow> \<not> c \<and> m = Inr x"
  "(if c then m else Inl e) = Inr x \<longleftrightarrow> c \<and> m = Inr x"
  by auto

text \<open>\<^verbatim>\<open>for\<close> loops whose body may throw: the first failure stops the loop.\<close>

fun map_r :: "('a \<Rightarrow> 'e + 'b) \<Rightarrow> 'a list \<Rightarrow> 'e + 'b list" where
  "map_r f [] = Inr []"
| "map_r f (x # xs) = bind_r (f x) (\<lambda>y. bind_r (map_r f xs) (\<lambda>ys. Inr (y # ys)))"

lemma map_r_Inr_iff [result_simps]:
  "map_r f xs = Inr ys \<longleftrightarrow> list_all2 (\<lambda>x y. f x = Inr y) xs ys"
  by (induction xs arbitrary: ys) (auto simp: result_simps list_all2_Cons1)

section \<open>Effects\<close>

type_synonym ('w, 'e, 'a) io = "'w \<Rightarrow> ('e + 'a) \<times> 'w"

definition bind_io :: "('w, 'e, 'a) io \<Rightarrow> ('a \<Rightarrow> ('w, 'e, 'b) io) \<Rightarrow> ('w, 'e, 'b) io" where
  "bind_io m f = (\<lambda>w. case m w of (Inl e, w') \<Rightarrow> (Inl e, w') | (Inr x, w') \<Rightarrow> f x w')"

definition lift_io :: "'e + 'a \<Rightarrow> ('w, 'e, 'a) io" where
  "lift_io r = (\<lambda>w. (r, w))"

text \<open>\<^verbatim>\<open>try { m } catch (e) { h e }\<close>.\<close>

definition catch_io :: "('w, 'e, 'a) io \<Rightarrow> ('e \<Rightarrow> ('w, 'f, 'a) io) \<Rightarrow> ('w, 'f, 'a) io" where
  "catch_io m h = (\<lambda>w. case m w of (Inl e, w') \<Rightarrow> h e w' | (Inr x, w') \<Rightarrow> (Inr x, w'))"

abbreviation return_io :: "'a \<Rightarrow> ('w, 'e, 'a) io" where
  "return_io x \<equiv> lift_io (Inr x)"

abbreviation throw_io :: "'e \<Rightarrow> ('w, 'e, 'a) io" where
  "throw_io e \<equiv> lift_io (Inl e)"

lemma lift_io_simp [simp]: "lift_io r w = (r, w)"
  by (simp add: lift_io_def)

lemma bind_io_Inr_iff [result_simps]:
  "bind_io m f w = (Inr y, w'') \<longleftrightarrow> (\<exists>x w'. m w = (Inr x, w') \<and> f x w' = (Inr y, w''))"
  by (auto simp: bind_io_def split: prod.splits sum.splits)

lemma bind_io_Inl_iff [result_simps]:
  "bind_io m f w = (Inl e, w'') \<longleftrightarrow>
     m w = (Inl e, w'') \<or> (\<exists>x w'. m w = (Inr x, w') \<and> f x w' = (Inl e, w''))"
  by (auto simp: bind_io_def split: prod.splits sum.splits)

lemma bind_io_run [simp]:
  "m w = (Inr x, w') \<Longrightarrow> bind_io m f w = f x w'"
  "m w = (Inl e, w') \<Longrightarrow> bind_io m f w = (Inl e, w')"
  by (simp_all add: bind_io_def)

lemma bind_io_lift [simp]:
  "bind_io (lift_io (Inr x)) f = f x"
  "bind_io (lift_io (Inl e)) f = lift_io (Inl e)"
  by (simp_all add: bind_io_def fun_eq_iff)

section \<open>Little-endian integers\<close>

fun le_bytes :: "nat \<Rightarrow> nat \<Rightarrow> bytes" where
  "le_bytes 0 v = []"
| "le_bytes (Suc n) v = word_of_nat (v mod 256) # le_bytes n (v div 256)"

fun of_le :: "bytes \<Rightarrow> nat" where
  "of_le [] = 0"
| "of_le (b # bs) = unat b + 256 * of_le bs"

lemma unat_bound: "unat (b :: byte) < 256"
  using unsigned_less [of b] by simp

lemma unat_nibble [simp]: "unat (b :: byte) div 16 < 16"
  using unat_bound [of b] by simp

lemma unat_word_of_nat: "n < 256 \<Longrightarrow> unat (word_of_nat n :: byte) = n"
  by (simp add: unat_of_nat)

lemma length_le_bytes [simp, byte_simps]: "length (le_bytes n v) = n"
  by (induction n arbitrary: v) auto

lemma le_bytes_eq_Nil [simp]: "le_bytes n v = [] \<longleftrightarrow> n = 0"
  by (cases n) auto

lemma le_bytes_numeral:
  "le_bytes (numeral k) v = word_of_nat (v mod 256) # le_bytes (pred_numeral k) (v div 256)"
  by (simp only: numeral_eq_Suc le_bytes.simps)

lemma of_le_le_bytes: "of_le (le_bytes n v) = v mod 256 ^ n"
proof (induction n arbitrary: v)
  case (Suc n)
  have "unat (word_of_nat (v mod 256) :: byte) = v mod 256"
    by (simp add: unat_of_nat)
  then show ?case
    using Suc by (simp add: mod_mult2_eq)
qed simp

lemma of_le_le_bytes_small [simp]: "v < 256 ^ n \<Longrightarrow> of_le (le_bytes n v) = v"
  by (simp add: of_le_le_bytes)

lemma of_le_bound: "of_le bs < 256 ^ length bs"
proof (induction bs)
  case (Cons b bs)
  with unat_bound [of b] show ?case by simp
qed simp

lemma le_bytes_of_le: "length bs = n \<Longrightarrow> le_bytes n (of_le bs) = bs"
proof (induction bs arbitrary: n)
  case (Cons b bs)
  with unat_bound [of b] show ?case by auto
qed simp

lemma of_le_inj: "length bs = length cs \<Longrightarrow> of_le bs = of_le cs \<Longrightarrow> bs = cs"
  by (metis le_bytes_of_le)

section \<open>Slices\<close>

text \<open>Offsets stay sums: \<open>off + 2\<close> is not rewritten to \<open>Suc (Suc off)\<close>.\<close>

declare add_2_eq_Suc [simp del] add_2_eq_Suc' [simp del]

text \<open>\<open>seg a b xs\<close> is JavaScript's \<^verbatim>\<open>xs.slice(a, b)\<close> and Rust's \<^verbatim>\<open>&xs[a..b]\<close> for \<open>a \<le> b\<close>.\<close>

definition seg :: "nat \<Rightarrow> nat \<Rightarrow> 'a list \<Rightarrow> 'a list" where
  "seg a b xs = take (b - a) (drop a xs)"

text \<open>\<open>idx xs i\<close> is JavaScript's \<^verbatim>\<open>xs[i]\<close>: \<open>None\<close> is \<^verbatim>\<open>undefined\<close>.\<close>

definition idx :: "'a list \<Rightarrow> nat \<Rightarrow> 'a option" where
  "idx xs i = (if i < length xs then Some (xs ! i) else None)"

lemma length_seg [simp, byte_simps]: "length (seg a b xs) = min (b - a) (length xs - a)"
  by (simp add: seg_def)

lemma seg_skip [byte_simps]:
  "length xs \<le> a \<Longrightarrow> seg a b (xs @ ys) = seg (a - length xs) (b - length xs) ys"
  by (simp add: seg_def)

lemma seg_front [byte_simps]: "b \<le> length xs \<Longrightarrow> seg a b (xs @ ys) = seg a b xs"
  by (cases "a \<le> b") (simp_all add: seg_def)

lemma seg_all [byte_simps]: "length xs \<le> b \<Longrightarrow> seg 0 b xs = xs"
  by (simp add: seg_def)

lemma seg_exact [byte_simps]: "b = length xs \<Longrightarrow> seg 0 b (xs @ ys) = xs"
  by (simp add: seg_def)

lemma seg_middle [byte_simps]:
  "a = length xs \<Longrightarrow> b = length xs + length ys \<Longrightarrow> seg a b (xs @ ys @ zs) = ys"
  by (simp add: seg_def)

lemma seg_append_seg: "a \<le> b \<Longrightarrow> b \<le> c \<Longrightarrow> seg a b xs @ seg b c xs = seg a c xs"
proof -
  assume "a \<le> b" and "b \<le> c"
  then have "take (c - a) (drop a xs) = take (b - a) (drop a xs) @ take (c - b) (drop (b - a) (drop a xs))"
    by (metis le_add_diff_inverse2 take_add diff_add_assoc2 add.commute)
  with \<open>a \<le> b\<close> show ?thesis by (simp add: seg_def)
qed

lemma idx_skip [byte_simps]: "length xs \<le> i \<Longrightarrow> idx (xs @ ys) i = idx ys (i - length xs)"
  by (auto simp: idx_def nth_append)

lemma idx_front [byte_simps]: "i < length xs \<Longrightarrow> idx (xs @ ys) i = idx xs i"
  by (auto simp: idx_def nth_append)

lemma idx_Some_iff: "idx xs i = Some x \<longleftrightarrow> i < length xs \<and> xs ! i = x"
  by (auto simp: idx_def)

section \<open>Wire formats\<close>

text \<open>
  The contract between an encoder on one side of the wire and a parser on the other. \<open>rep\<close>
  embeds the values the parser returns into the encoder's inputs, \<open>valid\<close> is the encoder's
  own acceptance condition.
\<close>

locale wire_format =
  fixes encode :: "'a \<Rightarrow> 'e + bytes" and decode :: "bytes \<Rightarrow> 'f + 'b"
    and rep :: "'b \<Rightarrow> 'a" and valid :: "'b \<Rightarrow> bool"
  assumes encode_iff_decode: "encode x = Inr d \<longleftrightarrow> (\<exists>y. x = rep y \<and> valid y \<and> decode d = Inr y)"
    and rep_inject: "rep y = rep z \<Longrightarrow> y = z"
begin

lemma decode_encode: "encode (rep y) = Inr d \<Longrightarrow> decode d = Inr y"
  using encode_iff_decode rep_inject by blast

lemma encode_decode: "decode d = Inr y \<Longrightarrow> valid y \<Longrightarrow> encode (rep y) = Inr d"
  using encode_iff_decode by blast

lemma encode_injective: "encode x = Inr d \<Longrightarrow> encode x' = Inr d \<Longrightarrow> x = x'"
  by (metis encode_iff_decode sum.inject(2))

lemma non_malleable: "decode d = Inr y \<Longrightarrow> decode d' = Inr y \<Longrightarrow> valid y \<Longrightarrow> d = d'"
  by (metis encode_decode sum.inject(2))

end

end
