(* ===== verification/Js.thy ===== *)
theory Js
  imports Prelude
begin

text \<open>
  The JavaScript runtime the TypeScript sources rely on: thrown values, numbers, dynamic
  values (\<^verbatim>\<open>unknown\<close>), strings and decimal printing.

  Strings are lists of code units below 256 (HOL's \<open>string\<close>); every string the sources
  compare, slice or build is ASCII. A \<^verbatim>\<open>number\<close> is \<open>JInt i\<close> for an integral double and
  \<open>JNonInt\<close> for every other one (fractions, NaN, infinities): the sources test
  \<^verbatim>\<open>Number.isInteger\<close> before they compute with one. A \<^verbatim>\<open>bigint\<close> is an \<open>int\<close>.
\<close>

section \<open>Thrown values\<close>

text \<open>\<^verbatim>\<open>ApiErrorBodySchema\<close>'s \<^verbatim>\<open>code\<close> enumeration (demo/src/shared/schemas.ts).\<close>

datatype api_error_code =
    BAD_ORIGIN
  | INVALID_REQUEST
  | KEY_UNAVAILABLE
  | DEPLOYMENT_INVALID
  | ACCOUNT_NOT_CREATED
  | ACCOUNT_MISMATCH
  | INSUFFICIENT_BALANCE
  | BOOTSTRAP_FAILED
  | CONFIRMATION_TIMEOUT
  | INTERNAL_ERROR

text \<open>\<^verbatim>\<open>DemoApiErrorCode\<close> (demo/src/client/api.ts) adds two codes to the server's.\<close>

datatype demo_api_error_code =
    Server api_error_code
  | API_UNAVAILABLE
  | INVALID_RESPONSE

text \<open>
  Everything the sources throw or inspect in a \<^verbatim>\<open>catch\<close>. \<open>NamedError\<close> is any other instance
  of \<^verbatim>\<open>Error\<close> by its \<^verbatim>\<open>name\<close> and \<^verbatim>\<open>message\<close>, such as the client library's
  \<^verbatim>\<open>ErrorClientWaitTransactionTimeout\<close>, and \<open>DOMException\<close> one of the browser's; \<open>ThrownValue\<close> is a thrown value that is no \<^verbatim>\<open>Error\<close>.
\<close>

datatype js_error =
    TypeError string
  | RangeError string
  | PlainError string
  | SyntaxError string
  | ZodError
  | ApiError api_error_code nat string
  | DemoApiError demo_api_error_code string "nat option"
  | PasskeyCancelledError
  | PasskeyProtocolError string
  | DOMException string string
  | NamedError string string
  | ThrownValue

type_synonym 'a js = "js_error + 'a"

section \<open>Numbers\<close>

datatype js_number = JInt int | JNonInt

abbreviation JNat :: "nat \<Rightarrow> js_number" where
  "JNat n \<equiv> JInt (int n)"

definition max_safe_integer :: int where
  "max_safe_integer = 9007199254740991"

definition is_safe_integer :: "int \<Rightarrow> bool" where
  "is_safe_integer i \<longleftrightarrow> \<bar>i\<bar> \<le> max_safe_integer"

section \<open>Strings\<close>

text \<open>\<^verbatim>\<open>s.padStart(n, c)\<close> for a one-character filler.\<close>

definition padStart :: "nat \<Rightarrow> char \<Rightarrow> string \<Rightarrow> string" where
  "padStart n c s = replicate (n - length s) c @ s"

definition startsWith :: "string \<Rightarrow> string \<Rightarrow> bool" where
  "startsWith s p \<longleftrightarrow> take (length p) s = p"

text \<open>\<^verbatim>\<open>s.includes(needle)\<close>.\<close>

fun contains :: "string \<Rightarrow> string \<Rightarrow> bool" where
  "contains needle [] \<longleftrightarrow> needle = []"
| "contains needle (c # cs) \<longleftrightarrow> startsWith (c # cs) needle \<or> contains needle cs"

definition char_lower :: "char \<Rightarrow> char" where
  "char_lower c = (let n = of_char c :: nat in if 65 \<le> n \<and> n \<le> 90 then char_of (n + 32) else c)"

definition toLowerCase :: "string \<Rightarrow> string" where
  "toLowerCase s = map char_lower s"

definition digit_char :: "nat \<Rightarrow> char" where
  "digit_char n = char_of (48 + n)"

definition is_digit :: "char \<Rightarrow> bool" where
  "is_digit c \<longleftrightarrow> 48 \<le> (of_char c :: nat) \<and> (of_char c :: nat) \<le> 57"

text \<open>\<^verbatim>\<open>String(n)\<close> and \<^verbatim>\<open>n.toString()\<close> of a non-negative integer.\<close>

fun dec :: "nat \<Rightarrow> string" where
  "dec n = (if n < 10 then [digit_char n] else dec (n div 10) @ [digit_char (n mod 10)])"

declare dec.simps [simp del]

definition dec_int :: "int \<Rightarrow> string" where
  "dec_int i = (if i < 0 then CHR ''-'' # dec (nat (- i)) else dec (nat i))"

definition number_string :: "js_number \<Rightarrow> string" where
  "number_string x = (case x of JInt i \<Rightarrow> dec_int i | JNonInt \<Rightarrow> ''NaN'')"

text \<open>\<^verbatim>\<open>BigInt(s)\<close> of a string of decimal digits.\<close>

definition digit_value :: "char \<Rightarrow> nat" where
  "digit_value c = of_char c - 48"

definition of_dec :: "string \<Rightarrow> nat" where
  "of_dec s = foldl (\<lambda>n c. 10 * n + digit_value c) 0 s"

lemma is_digit_digit_char [simp]: "n < 10 \<Longrightarrow> is_digit (digit_char n)"
  by (simp add: is_digit_def digit_char_def of_char_of)

lemma digit_value_digit_char [simp]: "n < 10 \<Longrightarrow> digit_value (digit_char n) = n"
  by (simp add: digit_value_def digit_char_def of_char_of)

lemma dec_digits: "list_all is_digit (dec n)"
proof (induction n rule: dec.induct)
  case (1 n)
  then show ?case by (subst dec.simps) simp
qed

lemma dec_nonempty [simp]: "dec n \<noteq> []"
  by (subst dec.simps) simp

lemma of_dec_dec [simp]: "of_dec (dec n) = n"
proof (induction n rule: dec.induct)
  case (1 n)
  show ?case
  proof (cases "n < 10")
    case True
    then show ?thesis by (subst dec.simps) (simp add: of_dec_def)
  next
    case False
    with 1 have "of_dec (dec (n div 10)) = n div 10" by simp
    with False show ?thesis
      by (subst dec.simps) (simp add: of_dec_def)
  qed
qed

lemma hd_dec: "0 < n \<Longrightarrow> hd (dec n) \<noteq> CHR ''0''"
proof (induction n rule: dec.induct)
  case (1 n)
  show ?case
  proof (cases "n < 10")
    case True
    have "digit_value CHR ''0'' = 0" by (simp add: digit_value_def)
    with 1 True have "digit_char n \<noteq> CHR ''0''"
      by (metis digit_value_digit_char less_numeral_extra(3))
    with True show ?thesis by (subst dec.simps) simp
  next
    case False
    with 1 have "hd (dec (n div 10)) \<noteq> CHR ''0''" by simp
    with False show ?thesis by (subst dec.simps) (simp add: hd_append)
  qed
qed

section \<open>Dynamic values\<close>

text \<open>
  The values a TypeScript \<^verbatim>\<open>unknown\<close> ranges over in these sources: what \<^verbatim>\<open>JSON.parse\<close> can
  return, and \<^verbatim>\<open>undefined\<close>. An object is an association list in insertion order.
\<close>

datatype js_value =
    JUndefined
  | JNull
  | JBool bool
  | JNum js_number
  | JStr string
  | JArr "js_value list"
  | JObj "(string \<times> js_value) list"

text \<open>\<^verbatim>\<open>o.k\<close>, with \<^verbatim>\<open>undefined\<close> for a missing key.\<close>

definition jget :: "(string \<times> js_value) list \<Rightarrow> string \<Rightarrow> js_value" where
  "jget o' k = (case map_of o' k of None \<Rightarrow> JUndefined | Some v \<Rightarrow> v)"

text \<open>\<^verbatim>\<open>v?.k\<close>: \<^verbatim>\<open>undefined\<close> unless \<open>v\<close> is an object with the key.\<close>

definition jget_opt :: "js_value \<Rightarrow> string \<Rightarrow> js_value" where
  "jget_opt v k = (case v of JObj fs \<Rightarrow> jget fs k | _ \<Rightarrow> JUndefined)"

definition jstr :: "js_value \<Rightarrow> string" where
  "jstr v = (case v of JStr s \<Rightarrow> s | _ \<Rightarrow> [])"

definition jint :: "js_value \<Rightarrow> int" where
  "jint v = (case v of JNum (JInt i) \<Rightarrow> i | _ \<Rightarrow> 0)"

lemma jget_Cons [simp]: "jget ((k, v) # fs) k' = (if k = k' then v else jget fs k')"
  by (simp add: jget_def)

lemma jget_Nil [simp]: "jget [] k = JUndefined"
  by (simp add: jget_def)

lemma jget_opt_JObj [simp]: "jget_opt (JObj fs) k = jget fs k"
  by (simp add: jget_opt_def)

lemma jstr_JStr [simp]: "jstr (JStr s) = s"
  by (simp add: jstr_def)

lemma jint_JInt [simp]: "jint (JNum (JInt i)) = i"
  by (simp add: jint_def)

end
