(* ===== verification/Bytes.thy ===== *)
theory Bytes
  imports Js
begin

text \<open>
  demo/src/shared/bytes.ts: canonical lowercase hex, concatenation and the little-endian
  integer encodings the wire formats are made of. A \<^verbatim>\<open>Uint8Array\<close> is a list of bytes.
\<close>

section \<open>Definitions\<close>

definition hex_digit :: "nat \<Rightarrow> char" where
  "hex_digit n = (if n < 10 then char_of (48 + n) else char_of (87 + n))"

text \<open>\<^verbatim>\<open>[0-9a-f]\<close> and \<^verbatim>\<open>[0-9a-fA-F]\<close>.\<close>

definition is_hex :: "char \<Rightarrow> bool" where
  "is_hex c = (let n = of_char c :: nat in 48 \<le> n \<and> n \<le> 57 \<or> 97 \<le> n \<and> n \<le> 102)"

definition is_hex_any :: "char \<Rightarrow> bool" where
  "is_hex_any c = (let n = of_char c :: nat in
     48 \<le> n \<and> n \<le> 57 \<or> 97 \<le> n \<and> n \<le> 102 \<or> 65 \<le> n \<and> n \<le> 70)"

text \<open>\<^verbatim>\<open>Number.parseInt(s, 16)\<close> of a string of lowercase hex digits.\<close>

definition hex_value :: "char \<Rightarrow> nat" where
  "hex_value c = (let n = of_char c in if n \<le> 57 then n - 48 else n - 87)"

definition parse_hex_int :: "string \<Rightarrow> nat" where
  "parse_hex_int s = foldl (\<lambda>n c. 16 * n + hex_value c) 0 s"

text \<open>\<^verbatim>\<open>byte.toString(16)\<close>.\<close>

definition to_string16 :: "nat \<Rightarrow> string" where
  "to_string16 n = (if n < 16 then [hex_digit n] else [hex_digit (n div 16), hex_digit (n mod 16)])"

text \<open>The regular expression \<^verbatim>\<open>/^0x(?:[0-9a-f]{2})+$/\<close>.\<close>

fun hex_pairs :: "string \<Rightarrow> bool" where
  "hex_pairs [] = True"
| "hex_pairs [c] = False"
| "hex_pairs (c # d # s) = (is_hex c \<and> is_hex d \<and> hex_pairs s)"

definition canonical_hex :: "string \<Rightarrow> bool" where
  "canonical_hex s \<longleftrightarrow> take 2 s = ''0x'' \<and> drop 2 s \<noteq> [] \<and> hex_pairs (drop 2 s)"

definition bytesFromHex :: "string \<Rightarrow> bytes js" where
  "bytesFromHex hex =
     (if \<not> canonical_hex hex then Inl (TypeError ''expected canonical lowercase 0x hex'')
      else Inr (map (\<lambda>i. word_of_nat (parse_hex_int (seg (2 + i * 2) (4 + i * 2) hex)))
                  [0..<(length hex - 2) div 2]))"

definition hex_of_byte :: "byte \<Rightarrow> string" where
  "hex_of_byte b = padStart 2 CHR ''0'' (to_string16 (unat b))"

definition hexFromBytes :: "bytes \<Rightarrow> string" where
  "hexFromBytes bs = ''0x'' @ concat (map hex_of_byte bs)"

text \<open>
  \<open>concat_length\<close> is the first loop of \<^verbatim>\<open>bytesConcat\<close>: the running length, with its
  \<^verbatim>\<open>isSafeInteger\<close> test after every part.
\<close>

fun concat_length :: "nat \<Rightarrow> bytes list \<Rightarrow> nat js" where
  "concat_length n [] = Inr n"
| "concat_length n (p # ps) =
     (if is_safe_integer (int (n + length p)) then concat_length (n + length p) ps
      else Inl (RangeError ''byte length''))"

definition bytesConcat :: "bytes list \<Rightarrow> bytes js" where
  "bytesConcat parts = bind_r (concat_length 0 parts) (\<lambda>n. Inr (concat parts))"

text \<open>\<^verbatim>\<open>Uint8Array.of(value & 0xff, value >>> 8)\<close>: a typed array keeps the low eight bits.\<close>

definition u16le :: "js_number \<Rightarrow> bytes js" where
  "u16le x = (case x of
     JNonInt \<Rightarrow> Inl (RangeError ''u16'')
   | JInt v \<Rightarrow>
       if v < 0 \<or> v > 65535 then Inl (RangeError ''u16'')
       else Inr [word_of_int (v mod 256), word_of_int (v div 256)])"

definition u32le :: "js_number \<Rightarrow> bytes js" where
  "u32le x = (case x of
     JNonInt \<Rightarrow> Inl (RangeError ''u32'')
   | JInt v \<Rightarrow>
       if v < 0 \<or> v > 4294967295 then Inl (RangeError ''u32'') else Inr (le_bytes 4 (nat v)))"

definition u64le :: "int \<Rightarrow> bytes js" where
  "u64le v =
     (if v < 0 \<or> v > 18446744073709551615 then Inl (RangeError ''u64'')
      else Inr (le_bytes 8 (nat v)))"

section \<open>Hex digits\<close>

lemma hex_value_digit [simp]: "n < 16 \<Longrightarrow> hex_value (hex_digit n) = n"
  by (auto simp: hex_value_def hex_digit_def of_char_of)

lemma is_hex_digit [simp]: "n < 16 \<Longrightarrow> is_hex (hex_digit n)"
  by (auto simp: is_hex_def hex_digit_def of_char_of)

lemma hex_digit_value [simp]: "is_hex c \<Longrightarrow> hex_digit (hex_value c) = c"
  by (auto simp: is_hex_def hex_digit_def hex_value_def Let_def)

lemma hex_value_bound: "is_hex c \<Longrightarrow> hex_value c < 16"
  by (auto simp: is_hex_def hex_value_def Let_def)

lemma hex_digit_0: "hex_digit 0 = CHR ''0''"
  by (simp add: hex_digit_def char_of_eq_iff eq_commute)

lemma hex_of_byte_digits:
  "hex_of_byte b = [hex_digit (unat b div 16), hex_digit (unat b mod 16)]"
  by (auto simp: hex_of_byte_def padStart_def to_string16_def hex_digit_0)

lemma hex_of_byte_parse: "parse_hex_int (hex_of_byte b) = unat b"
  by (simp add: hex_of_byte_digits parse_hex_int_def)

lemma hex_of_byte_pair:
  assumes "is_hex c" and "is_hex d"
  shows "hex_of_byte (word_of_nat (parse_hex_int [c, d])) = [c, d]"
proof -
  have "hex_value c < 16" "hex_value d < 16"
    using assms by (simp_all add: hex_value_bound)
  then have "parse_hex_int [c, d] < 256" and "parse_hex_int [c, d] = 16 * hex_value c + hex_value d"
    by (simp_all add: parse_hex_int_def)
  then have "unat (word_of_nat (parse_hex_int [c, d]) :: byte) = 16 * hex_value c + hex_value d"
    by (metis unat_word_of_nat)
  then show ?thesis
    using \<open>hex_value d < 16\<close> assms by (simp add: hex_of_byte_digits)
qed

section \<open>Round trips of the hex encoding\<close>

text \<open>The loop of \<open>bytesFromHex\<close> by structural recursion, two characters at a time.\<close>

fun pair_bytes :: "string \<Rightarrow> bytes" where
  "pair_bytes (c # d # s) = word_of_nat (parse_hex_int [c, d]) # pair_bytes s"
| "pair_bytes s = []"

lemma pair_bytes_loop:
  "hex_pairs s \<Longrightarrow>
   map (\<lambda>i. word_of_nat (parse_hex_int (seg (i * 2) (i * 2 + 2) s))) [0..<length s div 2] = pair_bytes s"
proof (induction s rule: hex_pairs.induct)
  case (3 c d s)
  have "map (\<lambda>i. word_of_nat (parse_hex_int (seg (i * 2) (i * 2 + 2) (c # d # s)))) [0..<Suc (length s div 2)]
      = word_of_nat (parse_hex_int [c, d]) #
        map (\<lambda>i. word_of_nat (parse_hex_int (seg (i * 2) (i * 2 + 2) s)) :: byte) [0..<length s div 2]"
    by (simp add: upt_conv_Cons seg_def add_2_eq_Suc map_Suc_upt [symmetric] del: upt_Suc)
  with 3 show ?case by simp
qed (simp_all)

lemma bytesFromHex_eq:
  "bytesFromHex hex =
     (if canonical_hex hex then Inr (pair_bytes (drop 2 hex))
      else Inl (TypeError ''expected canonical lowercase 0x hex''))"
proof (cases "canonical_hex hex")
  case True
  have "seg (2 + i * 2) (4 + i * 2) hex = seg (i * 2) (i * 2 + 2) (drop 2 hex)" for i
    by (simp add: seg_def add.commute)
  with True pair_bytes_loop [of "drop 2 hex"] show ?thesis
    by (simp add: bytesFromHex_def canonical_hex_def)
qed (simp add: bytesFromHex_def)

lemma pair_bytes_hex: "pair_bytes (concat (map hex_of_byte bs)) = bs"
proof (induction bs)
  case (Cons b bs)
  then show ?case
    using hex_of_byte_parse [of b] by (simp add: hex_of_byte_digits)
qed simp

lemma hex_pairs_hex: "hex_pairs (concat (map hex_of_byte bs))"
proof (induction bs)
  case (Cons b bs)
  then show ?case by (simp add: hex_of_byte_digits)
qed simp

lemma hex_pair_bytes: "hex_pairs s \<Longrightarrow> concat (map hex_of_byte (pair_bytes s)) = s"
  by (induction s rule: hex_pairs.induct) (auto simp: hex_of_byte_pair)

lemma hexFromBytes_drop [simp]: "drop 2 (hexFromBytes bs) = concat (map hex_of_byte bs)"
  by (simp add: hexFromBytes_def)

lemma canonical_hexFromBytes: "canonical_hex (hexFromBytes bs) \<longleftrightarrow> bs \<noteq> []"
  using hex_pairs_hex [of bs]
  by (cases bs) (auto simp: canonical_hex_def hexFromBytes_def hex_of_byte_digits)

lemma bytesFromHex_hexFromBytes [simp]: "bs \<noteq> [] \<Longrightarrow> bytesFromHex (hexFromBytes bs) = Inr bs"
  by (simp add: bytesFromHex_eq canonical_hexFromBytes pair_bytes_hex)

lemma hexFromBytes_bytesFromHex: "bytesFromHex hex = Inr bs \<Longrightarrow> hexFromBytes bs = hex"
  by (auto simp: bytesFromHex_eq canonical_hex_def hexFromBytes_def hex_pair_bytes split: if_splits)
     (metis append_take_drop_id append_Cons append_Nil)

lemma pair_bytes_nonempty: "hex_pairs s \<Longrightarrow> s \<noteq> [] \<Longrightarrow> pair_bytes s \<noteq> []"
  by (cases s rule: hex_pairs.cases) auto

lemma bytesFromHex_nonempty: "bytesFromHex hex = Inr bs \<Longrightarrow> bs \<noteq> []"
  by (auto simp: bytesFromHex_eq canonical_hex_def pair_bytes_nonempty simp del: drop_eq_Nil
      split: if_splits)

lemma hexFromBytes_inject [simp]: "hexFromBytes a = hexFromBytes b \<longleftrightarrow> a = b"
  by (metis hexFromBytes_drop pair_bytes_hex)

lemma length_hexFromBytes [simp]: "length (hexFromBytes bs) = 2 + 2 * length bs"
  by (induction bs) (auto simp: hexFromBytes_def hex_of_byte_digits)

lemma length_bytesFromHex: "bytesFromHex hex = Inr bs \<Longrightarrow> length hex = 2 + 2 * length bs"
  using hexFromBytes_bytesFromHex [of hex bs] length_hexFromBytes [of bs] by simp

section \<open>Concatenation\<close>

lemma concat_length_Inr_iff:
  "concat_length n ps = Inr m \<longleftrightarrow>
     m = n + length (concat ps) \<and> (ps \<noteq> [] \<longrightarrow> int m \<le> max_safe_integer)"
proof (induction ps arbitrary: n)
  case (Cons p ps)
  show ?case
    using Cons [of "n + length p"] by (cases "ps = []") (auto simp: is_safe_integer_def)
qed auto

lemma bytesConcat_Inr_iff [result_simps]:
  "bytesConcat ps = Inr bs \<longleftrightarrow> bs = concat ps \<and> int (length (concat ps)) \<le> max_safe_integer"
  by (auto simp: bytesConcat_def result_simps concat_length_Inr_iff max_safe_integer_def)

lemma bytesConcat_ok:
  "int (length (concat ps)) \<le> max_safe_integer \<Longrightarrow> bytesConcat ps = Inr (concat ps)"
  by (simp add: bytesConcat_Inr_iff)

section \<open>Fixed-width integers\<close>

text \<open>
  The contract of an unsigned little-endian encoder: values of the width are encoded in
  exactly \<open>width\<close> bytes, all others are refused. Clients use only these laws.
\<close>

locale le_encoder =
  fixes enc :: "nat \<Rightarrow> bytes js" and width :: nat
  assumes enc_in_range: "v < 256 ^ width \<Longrightarrow> enc v = Inr (le_bytes width v)"
    and enc_out_of_range: "\<not> v < 256 ^ width \<Longrightarrow> \<exists>msg. enc v = Inl (RangeError msg)"
begin

lemma enc_Inr_iff: "enc v = Inr bs \<longleftrightarrow> v < 256 ^ width \<and> bs = le_bytes width v"
proof (cases "v < 256 ^ width")
  case False
  then show ?thesis using enc_out_of_range [OF False] by auto
qed (auto simp: enc_in_range)

lemma enc_decodes: "enc v = Inr bs \<Longrightarrow> of_le bs = v \<and> length bs = width"
  by (auto simp: enc_Inr_iff)

lemma enc_inject: "enc v = Inr bs \<Longrightarrow> enc w = Inr bs \<Longrightarrow> v = w"
  by (metis enc_decodes)

lemma enc_onto: "length bs = width \<Longrightarrow> enc (of_le bs) = Inr bs"
  using of_le_bound [of bs] by (auto simp: enc_in_range le_bytes_of_le)

end

lemma u16le_nat: "n \<le> 65535 \<Longrightarrow> u16le (JNat n) = Inr (le_bytes 2 n)"
proof -
  assume "n \<le> 65535"
  then have "n div 256 mod 256 = n div 256" by simp
  moreover have "int n mod 256 = int (n mod 256)" "int n div 256 = int (n div 256)"
    by (simp_all add: zmod_int zdiv_int)
  ultimately show ?thesis
    using \<open>n \<le> 65535\<close> by (simp add: u16le_def numeral_2_eq_2 del: of_nat_mod of_nat_div)
qed

interpretation u16: le_encoder "\<lambda>n. u16le (JNat n)" 2
  by unfold_locales (simp_all add: u16le_nat, simp add: u16le_def)

interpretation u32: le_encoder "\<lambda>n. u32le (JNat n)" 4
  by unfold_locales (auto simp: u32le_def)

interpretation u64: le_encoder "\<lambda>n. u64le (int n)" 8
  by unfold_locales (auto simp: u64le_def)

lemmas uint_iffs [result_simps] = u16.enc_Inr_iff u32.enc_Inr_iff u64.enc_Inr_iff

section \<open>Properties\<close>

text \<open>
  \<^verbatim>\<open>bytesFromHex\<close> and \<^verbatim>\<open>hexFromBytes\<close> are inverse bijections between non-empty byte
  strings and canonical lowercase hex: decoding is defined exactly on canonical strings,
  encoding the decoded bytes gives the very same string back, and decoding an encoding gives
  the bytes back, except that the empty byte string encodes to \<^verbatim>\<open>0x\<close>, which is refused.
\<close>

lemma hex_roundtrip:
  "(bytesFromHex hex = Inr bs) = (bs \<noteq> [] \<and> hexFromBytes bs = hex)"
  using bytesFromHex_nonempty hexFromBytes_bytesFromHex by auto

lemma u16le_Inr_iff:
  "u16le x = Inr bs \<longleftrightarrow> (\<exists>n. x = JNat n \<and> n < 2 ^ 16 \<and> bs = le_bytes 2 n)"
proof (cases x)
  case (JInt i)
  show ?thesis
  proof (cases "0 \<le> i")
    case True
    then obtain n where "i = int n" by (metis nonneg_int_cases)
    with JInt show ?thesis by (simp add: u16.enc_Inr_iff)
  qed (simp add: JInt u16le_def)
qed (simp add: u16le_def)

lemma u32le_Inr_iff:
  "u32le x = Inr bs \<longleftrightarrow> (\<exists>n. x = JNat n \<and> n < 2 ^ 32 \<and> bs = le_bytes 4 n)"
proof (cases x)
  case (JInt i)
  show ?thesis
  proof (cases "0 \<le> i")
    case True
    then obtain n where "i = int n" by (metis nonneg_int_cases)
    with JInt show ?thesis by (simp add: u32.enc_Inr_iff)
  qed (simp add: JInt u32le_def)
qed (simp add: u32le_def)

lemma u64le_Inr_nat_iff:
  "u64le v = Inr bs \<longleftrightarrow> (\<exists>n. v = int n \<and> n < 2 ^ 64 \<and> bs = le_bytes 8 n)"
proof (cases "0 \<le> v")
  case True
  then obtain n where "v = int n" by (metis nonneg_int_cases)
  then show ?thesis by (simp add: u64.enc_Inr_iff)
qed (simp add: u64le_def)

lemma le_bytes_iff: "n < 256 ^ k \<Longrightarrow> bs = le_bytes k n \<longleftrightarrow> length bs = k \<and> of_le bs = n"
  by (auto simp: le_bytes_of_le)

text \<open>
  Each of \<^verbatim>\<open>u16le\<close>, \<^verbatim>\<open>u32le\<close> and \<^verbatim>\<open>u64le\<close> accepts exactly the integers of its width and
  writes them in that many bytes, least significant first; every other number throws.
\<close>

lemma uint_encoders:
  "(u16le x = Inr bs) = (\<exists>n. x = JNat n \<and> n < 2 ^ 16 \<and> length bs = 2 \<and> of_le bs = n)
   \<and> (u32le x = Inr bs) = (\<exists>n. x = JNat n \<and> n < 2 ^ 32 \<and> length bs = 4 \<and> of_le bs = n)
   \<and> (u64le v = Inr bs) = (\<exists>n. v = int n \<and> n < 2 ^ 64 \<and> length bs = 8 \<and> of_le bs = n)"
  using le_bytes_iff [of _ 2 bs] le_bytes_iff [of _ 4 bs] le_bytes_iff [of _ 8 bs]
  by (auto simp: u16le_Inr_iff u32le_Inr_iff u64le_Inr_nat_iff)

end
