(* ===== verification/Ccc.thy ===== *)
theory Ccc
  imports Bytes
begin

text \<open>
  The CKB data the sources build through \<^verbatim>\<open>@ckb-ccc/core\<close>, and that library itself as a
  parameter. The value types (\<^verbatim>\<open>Script\<close>, \<^verbatim>\<open>OutPoint\<close>, \<^verbatim>\<open>CellDep\<close>, \<^verbatim>\<open>CellOutput\<close>, \<^verbatim>\<open>Cell\<close>,
  \<^verbatim>\<open>Transaction\<close>, \<^verbatim>\<open>WitnessArgs\<close>) are records of the fields the sources read and write; hex
  fields stay strings, as in the library. Everything the library computes is a field of the
  record \<open>ccc\<close>, an argument of the definitions that call it. What the sources rely on is
  stated as predicates on that record, each the library's documented behaviour:
  \<open>ccc_hex\<close> (hex and bytes convert into each other), \<open>ccc_hashes\<close> (hashes are 32 bytes of
  canonical hex), \<open>ccc_raw_hash\<close> (a transaction hash covers the raw transaction, not its
  witnesses) and \<open>ccc_molecule\<close> (\<^verbatim>\<open>WitnessArgs\<close> is serialized as its Molecule table).
\<close>

section \<open>Chain data\<close>

record script =
  codeHash :: string
  hashType :: string
  args :: string

record out_point =
  op_txHash :: string
  op_index :: int

record cell_dep =
  dep_outPoint :: out_point
  depType :: string

record cell_input =
  previousOutput :: out_point
  since :: int

record cell_output =
  capacity :: int
  lock :: script
  type_script :: "script option"

record cell =
  outPoint :: out_point
  cellOutput :: cell_output
  outputData :: string

record transaction =
  cellDeps :: "cell_dep list"
  inputs :: "cell_input list"
  outputs :: "cell_output list"
  outputsData :: "string list"
  witnesses :: "string list"

record witness_args =
  wa_lock :: "string option"
  wa_inputType :: "string option"
  wa_outputType :: "string option"

section \<open>The library as a parameter\<close>

record ccc =
  ccc_bytesFrom :: "string \<Rightarrow> bytes js"
  ccc_hexFrom :: "bytes \<Rightarrow> string"
  ccc_hexFromHex :: "string \<Rightarrow> string js"
  ccc_hashCkb :: "bytes \<Rightarrow> string"
  ccc_scriptHash :: "script \<Rightarrow> string"
  ccc_txHash :: "transaction \<Rightarrow> string"
  ccc_hashTypeId :: "cell_input \<Rightarrow> nat \<Rightarrow> string"
  ccc_estimateFee :: "transaction \<Rightarrow> int \<Rightarrow> int"
  ccc_occupiedSize :: "cell_output \<Rightarrow> nat"
  ccc_addressScript :: "string \<Rightarrow> script js"
  ccc_witnessArgsFromBytes :: "bytes \<Rightarrow> witness_args js"
  ccc_witnessArgsToBytes :: "witness_args \<Rightarrow> bytes"

definition ccc_hex :: "ccc \<Rightarrow> bool" where
  "ccc_hex C \<longleftrightarrow>
     (\<forall>bs. ccc_hexFrom C bs = hexFromBytes bs
         \<and> ccc_bytesFrom C (hexFromBytes bs) = Inr bs
         \<and> ccc_hexFromHex C (hexFromBytes bs) = Inr (hexFromBytes bs))"

definition hash32 :: "string \<Rightarrow> bool" where
  "hash32 s \<longleftrightarrow> (\<exists>h. length h = 32 \<and> s = hexFromBytes h)"

definition ccc_hashes :: "ccc \<Rightarrow> bool" where
  "ccc_hashes C \<longleftrightarrow>
     (\<forall>d. hash32 (ccc_hashCkb C d)) \<and> (\<forall>s. hash32 (ccc_scriptHash C s))
     \<and> (\<forall>tx. hash32 (ccc_txHash C tx)) \<and> (\<forall>i n. hash32 (ccc_hashTypeId C i n))"

definition ccc_raw_hash :: "ccc \<Rightarrow> bool" where
  "ccc_raw_hash C \<longleftrightarrow> (\<forall>tx ws. ccc_txHash C (tx\<lparr>witnesses := ws\<rparr>) = ccc_txHash C tx)"

text \<open>
  The Molecule layout of \<^verbatim>\<open>WitnessArgs\<close>, a table of three \<^verbatim>\<open>BytesOpt\<close> fields: the total size
  and three offsets as 32-bit little-endian numbers, then the fields, each empty when absent
  and otherwise a \<^verbatim>\<open>Bytes\<close> (length, then contents).
\<close>

definition mol_bytes_opt :: "bytes option \<Rightarrow> bytes" where
  "mol_bytes_opt x = (case x of None \<Rightarrow> [] | Some b \<Rightarrow> le_bytes 4 (length b) @ b)"

definition mol_table3 :: "bytes \<Rightarrow> bytes \<Rightarrow> bytes \<Rightarrow> bytes" where
  "mol_table3 a b c =
     le_bytes 4 (16 + length a + length b + length c) @ le_bytes 4 16
     @ le_bytes 4 (16 + length a) @ le_bytes 4 (16 + length a + length b) @ a @ b @ c"

definition mol_witness_args :: "bytes option \<Rightarrow> bytes option \<Rightarrow> bytes option \<Rightarrow> bytes" where
  "mol_witness_args l i o' = mol_table3 (mol_bytes_opt l) (mol_bytes_opt i) (mol_bytes_opt o')"

definition witness_args_hex :: "bytes option \<Rightarrow> bytes option \<Rightarrow> bytes option \<Rightarrow> witness_args" where
  "witness_args_hex l i o' =
     \<lparr>wa_lock = map_option hexFromBytes l, wa_inputType = map_option hexFromBytes i,
      wa_outputType = map_option hexFromBytes o'\<rparr>"

definition ccc_molecule :: "ccc \<Rightarrow> bool" where
  "ccc_molecule C \<longleftrightarrow>
     (\<forall>l i o'. length (mol_witness_args l i o') < 2 ^ 32 \<longrightarrow>
        ccc_witnessArgsToBytes C (witness_args_hex l i o') = mol_witness_args l i o'
        \<and> ccc_witnessArgsFromBytes C (mol_witness_args l i o') = Inr (witness_args_hex l i o'))"

lemma ccc_moleculeD:
  assumes "ccc_molecule C" and "length (mol_witness_args l i o') < 2 ^ 32"
  shows "ccc_witnessArgsToBytes C (witness_args_hex l i o') = mol_witness_args l i o'"
    and "ccc_witnessArgsFromBytes C (mol_witness_args l i o') = Inr (witness_args_hex l i o')"
  using assms by (simp_all add: ccc_molecule_def)

lemma length_mol_bytes_opt [simp]:
  "length (mol_bytes_opt x) = (case x of None \<Rightarrow> 0 | Some b \<Rightarrow> 4 + length b)"
  by (simp add: mol_bytes_opt_def split: option.split)

lemma length_mol_table3 [simp]: "length (mol_table3 a b c) = 16 + length a + length b + length c"
  by (simp add: mol_table3_def)

text \<open>A reference instance of the library, used only to show that the hypotheses can hold.\<close>

definition ref_digest :: "nat \<Rightarrow> string" where
  "ref_digest n = hexFromBytes (le_bytes 32 n)"

definition ref_bytesFrom :: "string \<Rightarrow> bytes js" where
  "ref_bytesFrom s = (if s = ''0x'' then Inr [] else bytesFromHex s)"

definition opt_bytes :: "bytes \<Rightarrow> string option" where
  "opt_bytes f = (if f = [] then None else Some (hexFromBytes (drop 4 f)))"

definition ref_fromBytes :: "bytes \<Rightarrow> witness_args js" where
  "ref_fromBytes d =
     (let a = of_le (seg 4 8 d); b = of_le (seg 8 12 d); c = of_le (seg 12 16 d)
      in Inr \<lparr>wa_lock = opt_bytes (seg a b d), wa_inputType = opt_bytes (seg b c d),
              wa_outputType = opt_bytes (drop c d)\<rparr>)"

definition ref_field :: "string option \<Rightarrow> bytes option" where
  "ref_field x = (case x of None \<Rightarrow> None
     | Some s \<Rightarrow> (case ref_bytesFrom s of Inl e \<Rightarrow> None | Inr b \<Rightarrow> Some b))"

definition ref_ccc :: ccc where
  "ref_ccc = \<lparr>
     ccc_bytesFrom = ref_bytesFrom,
     ccc_hexFrom = hexFromBytes,
     ccc_hexFromHex = Inr,
     ccc_hashCkb = (\<lambda>d. ref_digest (of_le d)),
     ccc_scriptHash = (\<lambda>s. ref_digest (length (args s))),
     ccc_txHash = (\<lambda>tx. ref_digest (length (inputs tx) + 16 * length (outputs tx))),
     ccc_hashTypeId = (\<lambda>i n. ref_digest (n + nat (op_index (previousOutput i)))),
     ccc_estimateFee = (\<lambda>tx r. r),
     ccc_occupiedSize = (\<lambda>o'. 61),
     ccc_addressScript = (\<lambda>a. Inr \<lparr>codeHash = ref_digest 9, hashType = ''type'', args = ''0x''\<rparr>),
     ccc_witnessArgsFromBytes = ref_fromBytes,
     ccc_witnessArgsToBytes = (\<lambda>w. mol_witness_args (ref_field (wa_lock w))
        (ref_field (wa_inputType w)) (ref_field (wa_outputType w)))\<rparr>"

lemma hexFromBytes_eq_0x [simp]: "hexFromBytes bs = ''0x'' \<longleftrightarrow> bs = []"
  by (metis hexFromBytes_inject hexFromBytes_def append_Nil2 concat.simps(1) list.map(1))

lemma ref_bytesFrom_hex [simp]: "ref_bytesFrom (hexFromBytes bs) = Inr bs"
  by (simp add: ref_bytesFrom_def)

lemma ref_ccc_hex: "ccc_hex ref_ccc"
  by (simp add: ccc_hex_def ref_ccc_def)

lemma ref_ccc_hashes: "ccc_hashes ref_ccc"
  by (auto simp: ccc_hashes_def ref_ccc_def hash32_def ref_digest_def intro: exI [of _ "le_bytes 32 _"])

lemma ref_ccc_raw_hash: "ccc_raw_hash ref_ccc"
  by (simp add: ccc_raw_hash_def ref_ccc_def)

lemma opt_bytes_mol [simp]: "opt_bytes (mol_bytes_opt x) = map_option hexFromBytes x"
  by (auto simp: opt_bytes_def mol_bytes_opt_def split: option.splits)

lemma ref_field_hex [simp]: "ref_field (map_option hexFromBytes x) = x"
  by (cases x) (simp_all add: ref_field_def)

lemma mol_table3_fields:
  assumes "length (mol_table3 a b c) < 2 ^ 32"
  shows "of_le (seg 0 4 (mol_table3 a b c)) = length (mol_table3 a b c)"
    "of_le (seg 4 8 (mol_table3 a b c)) = 16"
    "of_le (seg 8 12 (mol_table3 a b c)) = 16 + length a"
    "of_le (seg 12 16 (mol_table3 a b c)) = 16 + length a + length b"
    "seg 16 (16 + length a) (mol_table3 a b c) = a"
    "seg (16 + length a) (16 + length a + length b) (mol_table3 a b c) = b"
    "drop (16 + length a + length b) (mol_table3 a b c) = c"
  using assms by (simp_all add: mol_table3_def seg_def)

lemma ref_fromBytes_table:
  assumes "length (mol_table3 a b c) < 2 ^ 32"
  shows "ref_fromBytes (mol_table3 a b c) =
    Inr \<lparr>wa_lock = opt_bytes a, wa_inputType = opt_bytes b, wa_outputType = opt_bytes c\<rparr>"
  using mol_table3_fields [OF assms] by (simp add: ref_fromBytes_def Let_def)

lemma ref_ccc_molecule: "ccc_molecule ref_ccc"
  unfolding ccc_molecule_def
proof (intro allI impI conjI)
  fix l i o' assume "length (mol_witness_args l i o') < 2 ^ 32"
  then show "ccc_witnessArgsFromBytes ref_ccc (mol_witness_args l i o') = Inr (witness_args_hex l i o')"
    unfolding mol_witness_args_def
    by (simp only: ref_fromBytes_table ref_ccc_def ccc.select_convs witness_args_hex_def opt_bytes_mol)
qed (simp add: ref_ccc_def witness_args_hex_def)



end
