(* ===== verification/Zod.thy ===== *)
theory Zod
  imports Ccc
begin

text \<open>
  The schema language of the \<^verbatim>\<open>zod\<close> package as far as demo/src/shared/schemas.ts uses it. A schema
  is a value of the datatype \<open>schema\<close>; the package's parser is the parameter \<open>z_safeParse\<close> of
  type \<open>zod\<close>, and \<open>zod_ok\<close> states its documented behaviour: a value is accepted exactly when
  it has the shape the schema describes (strict objects refuse unknown keys, \<^verbatim>\<open>int()\<close> accepts
  safe integers), and the returned data are the value's fields in the order of the schema.
  The formats \<^verbatim>\<open>datetime()\<close> and \<^verbatim>\<open>url()\<close> are left abstract in \<open>z_format\<close>.
\<close>

datatype string_check =
    SRegex "string \<Rightarrow> bool"
  | SMin nat
  | SMax nat
  | SFormat string

datatype int_check = AnyInt | NonNegative | Positive

datatype schema =
    ZString "string_check list"
  | ZLiteral js_value
  | ZEnum "string list"
  | ZBoolean
  | ZInt int_check
  | ZObject "(string \<times> bool \<times> schema) list"
  | ZNullable schema
  | ZUnion "schema list"
  | ZRefine "js_value \<Rightarrow> bool" schema

text \<open>A strict object: each field with its key, whether it is optional, and its schema.\<close>

abbreviation req :: "string \<Rightarrow> schema \<Rightarrow> string \<times> bool \<times> schema" where
  "req k s \<equiv> (k, False, s)"

abbreviation opt :: "string \<Rightarrow> schema \<Rightarrow> string \<times> bool \<times> schema" where
  "opt k s \<equiv> (k, True, s)"

definition check_ok :: "(string \<Rightarrow> string \<Rightarrow> bool) \<Rightarrow> string \<Rightarrow> string_check \<Rightarrow> bool" where
  "check_ok F s c = (case c of
     SRegex r \<Rightarrow> r s
   | SMin n \<Rightarrow> n \<le> length s
   | SMax n \<Rightarrow> length s \<le> n
   | SFormat f \<Rightarrow> F f s)"

definition int_ok :: "int_check \<Rightarrow> int \<Rightarrow> bool" where
  "int_ok c i \<longleftrightarrow> is_safe_integer i
     \<and> (case c of AnyInt \<Rightarrow> True | NonNegative \<Rightarrow> 0 \<le> i | Positive \<Rightarrow> 0 < i)"

fun zaccepts :: "(string \<Rightarrow> string \<Rightarrow> bool) \<Rightarrow> schema \<Rightarrow> js_value \<Rightarrow> bool"
  and zfields :: "(string \<Rightarrow> string \<Rightarrow> bool) \<Rightarrow> (string \<times> bool \<times> schema) list \<Rightarrow> (string \<times> js_value) list \<Rightarrow> bool"
  and zany :: "(string \<Rightarrow> string \<Rightarrow> bool) \<Rightarrow> schema list \<Rightarrow> js_value \<Rightarrow> bool"
where
  "zaccepts F (ZString cs) v = (case v of JStr s \<Rightarrow> list_all (check_ok F s) cs | _ \<Rightarrow> False)"
| "zaccepts F (ZLiteral l) v = (v = l)"
| "zaccepts F (ZEnum es) v = (case v of JStr s \<Rightarrow> s \<in> set es | _ \<Rightarrow> False)"
| "zaccepts F ZBoolean v = (case v of JBool b \<Rightarrow> True | _ \<Rightarrow> False)"
| "zaccepts F (ZInt c) v = (case v of JNum (JInt i) \<Rightarrow> int_ok c i | _ \<Rightarrow> False)"
| "zaccepts F (ZObject shape) v = (case v of
     JObj fs \<Rightarrow> list_all (\<lambda>x. fst x \<in> set (map fst shape)) fs \<and> zfields F shape fs
   | _ \<Rightarrow> False)"
| "zaccepts F (ZNullable s) v = (v = JNull \<or> zaccepts F s v)"
| "zaccepts F (ZUnion ss) v = zany F ss v"
| "zaccepts F (ZRefine p s) v = (zaccepts F s v \<and> p v)"
| "zfields F [] fs = True"
| "zfields F ((k, optional, s) # shape) fs =
     ((if map_of fs k = None then optional
       else zaccepts F s (jget fs k) \<or> optional \<and> jget fs k = JUndefined)
      \<and> zfields F shape fs)"
| "zany F [] v = False"
| "zany F (s # ss) v = (zaccepts F s v \<or> zany F ss v)"

fun zdata :: "(string \<Rightarrow> string \<Rightarrow> bool) \<Rightarrow> schema \<Rightarrow> js_value \<Rightarrow> js_value"
  and zdata_fields :: "(string \<Rightarrow> string \<Rightarrow> bool) \<Rightarrow> (string \<times> bool \<times> schema) list \<Rightarrow> (string \<times> js_value) list \<Rightarrow> (string \<times> js_value) list"
  and zdata_any :: "(string \<Rightarrow> string \<Rightarrow> bool) \<Rightarrow> schema list \<Rightarrow> js_value \<Rightarrow> js_value"
where
  "zdata F (ZObject shape) v = (case v of JObj fs \<Rightarrow> JObj (zdata_fields F shape fs) | _ \<Rightarrow> v)"
| "zdata F (ZNullable s) v = (if v = JNull then v else zdata F s v)"
| "zdata F (ZUnion ss) v = zdata_any F ss v"
| "zdata F (ZRefine p s) v = zdata F s v"
| "zdata F s v = v"
| "zdata_fields F [] fs = []"
| "zdata_fields F ((k, optional, s) # shape) fs =
     (if map_of fs k = None then zdata_fields F shape fs
      else (k, zdata F s (jget fs k)) # zdata_fields F shape fs)"
| "zdata_any F [] v = v"
| "zdata_any F (s # ss) v = (if zaccepts F s v then zdata F s v else zdata_any F ss v)"

record zod =
  z_safeParse :: "schema \<Rightarrow> js_value \<Rightarrow> js_value option"
  z_format :: "string \<Rightarrow> string \<Rightarrow> bool"

definition zod_ok :: "zod \<Rightarrow> bool" where
  "zod_ok Z \<longleftrightarrow> (\<forall>s v. z_safeParse Z s v =
     (if zaccepts (z_format Z) s v then Some (zdata (z_format Z) s v) else None))"

text \<open>\<^verbatim>\<open>schema.parse(v)\<close> throws a \<^verbatim>\<open>ZodError\<close> where \<^verbatim>\<open>safeParse\<close> reports failure.\<close>

definition z_parse :: "zod \<Rightarrow> schema \<Rightarrow> js_value \<Rightarrow> js_value js" where
  "z_parse Z s v = (case z_safeParse Z s v of None \<Rightarrow> Inl ZodError | Some d \<Rightarrow> Inr d)"

text \<open>A reference parser, used only to show that the hypothesis can hold.\<close>

definition ref_zod :: zod where
  "ref_zod = \<lparr>z_safeParse = (\<lambda>s v. if zaccepts (\<lambda>f x. True) s v then Some (zdata (\<lambda>f x. True) s v) else None),
     z_format = (\<lambda>f x. True)\<rparr>"

lemma ref_zod_ok: "zod_ok ref_zod"
  by (simp add: zod_ok_def ref_zod_def)

lemma z_safeParse_Some_iff:
  "zod_ok Z \<Longrightarrow> z_safeParse Z s v = Some d \<longleftrightarrow> zaccepts (z_format Z) s v \<and> d = zdata (z_format Z) s v"
  by (auto simp: zod_ok_def)

lemma z_safeParse_None_iff: "zod_ok Z \<Longrightarrow> z_safeParse Z s v = None \<longleftrightarrow> \<not> zaccepts (z_format Z) s v"
  by (auto simp: zod_ok_def)

lemma z_parse_Inr_iff:
  "zod_ok Z \<Longrightarrow> z_parse Z s v = Inr d \<longleftrightarrow> zaccepts (z_format Z) s v \<and> d = zdata (z_format Z) s v"
  by (auto simp: z_parse_def zod_ok_def)

lemma zaccepts_ZString_iff:
  "zaccepts F (ZString cs) v \<longleftrightarrow> (\<exists>s. v = JStr s \<and> list_all (check_ok F s) cs)"
  by (cases v) auto

lemma zaccepts_ZEnum_iff: "zaccepts F (ZEnum es) v \<longleftrightarrow> (\<exists>s. v = JStr s \<and> s \<in> set es)"
  by (cases v) auto

lemma zaccepts_ZBoolean_iff: "zaccepts F ZBoolean v \<longleftrightarrow> (\<exists>b. v = JBool b)"
  by (cases v) auto

lemma zaccepts_ZInt_iff: "zaccepts F (ZInt c) v \<longleftrightarrow> (\<exists>i. v = JNum (JInt i) \<and> int_ok c i)"
  by (cases v) (auto split: js_number.split)

lemma zaccepts_ZObject_iff:
  "zaccepts F (ZObject shape) v \<longleftrightarrow>
     (\<exists>fs. v = JObj fs \<and> list_all (\<lambda>x. fst x \<in> set (map fst shape)) fs \<and> zfields F shape fs)"
  by (cases v) auto

lemmas zaccepts_iffs = zaccepts_ZString_iff zaccepts_ZEnum_iff zaccepts_ZBoolean_iff
  zaccepts_ZInt_iff zaccepts_ZObject_iff

lemma map_of_None_jget: "map_of fs k = None \<Longrightarrow> jget fs k = JUndefined"
  by (simp add: jget_def)

text \<open>A required field, once its schema accepts no \<^verbatim>\<open>undefined\<close>.\<close>

lemma required_field:
  "\<not> zaccepts F s JUndefined \<Longrightarrow>
   (if map_of fs k = None then False
    else zaccepts F s (jget fs k) \<or> False \<and> jget fs k = JUndefined) \<longleftrightarrow> zaccepts F s (jget fs k)"
  by (auto simp: jget_def split: option.split)

lemma zfields_req:
  "\<not> zaccepts F s JUndefined \<Longrightarrow>
   zfields F (req k s # shape) fs \<longleftrightarrow> zaccepts F s (jget fs k) \<and> zfields F shape fs"
  using required_field [of F s fs k] by simp

lemma zdata_fields_req:
  "zaccepts F s (jget fs k) \<Longrightarrow> \<not> zaccepts F s JUndefined \<Longrightarrow>
   zdata_fields F (req k s # shape) fs = (k, zdata F s (jget fs k)) # zdata_fields F shape fs"
  by (auto simp: jget_def split: option.splits)

end
