(* ===== verification/Schemas.thy ===== *)
theory Schemas
  imports Zod
begin

text \<open>
  demo/src/shared/schemas.ts and constants.ts: the data exchanged between browser, server and
  disk. Every exported schema is a value of type \<open>schema\<close>; every \<^verbatim>\<open>z.infer\<close> type is a record of
  its non-constant fields, with the function that reads it out of a parsed value (\<open>..._of\<close>) and
  the one that writes it as a JSON object in schema order (\<open>..._json\<close>).
\<close>

section \<open>Constants\<close>

definition CLIENT_ORIGIN :: string where
  "CLIENT_ORIGIN = ''http://localhost:5173''"

definition RP_ID :: string where
  "RP_ID = ''localhost''"

definition API_PORT :: nat where
  "API_PORT = 8790"

definition API_ORIGIN :: string where
  "API_ORIGIN = ''http://127.0.0.1:'' @ dec API_PORT"

definition SHANNONS_PER_CKB :: int where
  "SHANNONS_PER_CKB = 100000000"

definition INITIAL_ASSET :: int where
  "INITIAL_ASSET = 200 * SHANNONS_PER_CKB"

definition TRANSFER_CAPACITY :: int where
  "TRANSFER_CAPACITY = 100 * SHANNONS_PER_CKB"

definition FEE_RATE :: int where
  "FEE_RATE = 1000"

definition OP_SPEND_TS :: int where
  "OP_SPEND_TS = 1"

definition EXPLORER_URL :: string where
  "EXPLORER_URL = ''https://pudge.explorer.nervos.org/transaction/''"

section \<open>String shapes\<close>

text \<open>\<^verbatim>\<open>/^(0|[1-9][0-9]*)$/\<close>\<close>

definition decimal_re :: "string \<Rightarrow> bool" where
  "decimal_re s = (case s of
     [] \<Rightarrow> False
   | c # cs \<Rightarrow> c = CHR ''0'' \<and> cs = [] \<or> is_digit c \<and> c \<noteq> CHR ''0'' \<and> list_all is_digit cs)"

text \<open>\<^verbatim>\<open>/^[A-Za-z0-9_-]+$/\<close>\<close>

definition is_base64url :: "char \<Rightarrow> bool" where
  "is_base64url c = (let n = of_char c :: nat in
     48 \<le> n \<and> n \<le> 57 \<or> 65 \<le> n \<and> n \<le> 90 \<or> 97 \<le> n \<and> n \<le> 122 \<or> n = 95 \<or> n = 45)"

definition base64url_re :: "string \<Rightarrow> bool" where
  "base64url_re s \<longleftrightarrow> s \<noteq> [] \<and> list_all is_base64url s"

text \<open>\<^verbatim>\<open>/^<prefix>[0-9a-f]{n}$/\<close>\<close>

definition prefixed_hex :: "string \<Rightarrow> nat \<Rightarrow> string \<Rightarrow> bool" where
  "prefixed_hex p n s \<longleftrightarrow>
     take (length p) s = p \<and> length s = length p + n \<and> list_all is_hex (drop (length p) s)"

definition decimalString :: schema where
  "decimalString = ZString [SRegex decimal_re]"

definition base64urlString :: schema where
  "base64urlString = ZString [SMin 1, SRegex base64url_re]"

definition hexBytes :: "nat \<Rightarrow> schema" where
  "hexBytes n = ZString [SRegex (prefixed_hex ''0x'' (n * 2))]"

definition Hash32Schema :: schema where
  "Hash32Schema = hexBytes 32"

definition PublicKeySchema :: schema where
  "PublicKeySchema = ZString [SRegex (prefixed_hex ''0x04'' 128)]"

definition AccountLockArgsSchema :: schema where
  "AccountLockArgsSchema = ZString [SRegex (prefixed_hex ''0x01'' 64)]"

section \<open>Deployment manifest\<close>

text \<open>\<open>extend({ name: z.literal(n) })\<close> replaces the enumeration by the one name.\<close>

definition DeploymentArtifactSchema :: "schema \<Rightarrow> schema" where
  "DeploymentArtifactSchema name = ZObject
     [req ''name'' name, req ''dataHash'' Hash32Schema, req ''hashType'' (ZLiteral (JStr ''data2'')),
      req ''txHash'' Hash32Schema, req ''index'' (ZInt NonNegative),
      req ''capacityShannons'' decimalString]"

definition DeploymentManifestSchema :: schema where
  "DeploymentManifestSchema = ZObject
     [req ''schema_version'' (ZLiteral (JNum (JInt 1))), req ''network'' (ZLiteral (JStr ''testnet'')),
      req ''published'' (ZLiteral (JBool True)), req ''hash_type'' (ZLiteral (JStr ''data2'')),
      opt ''note'' (ZString [SMax 500]),
      req ''artifacts'' (ZObject
        [req ''account_lock'' (DeploymentArtifactSchema (ZLiteral (JStr ''account_lock''))),
         req ''verifier_p256'' (DeploymentArtifactSchema (ZLiteral (JStr ''verifier_p256'')))])]"

record deployment_artifact =
  da_name :: string
  da_dataHash :: string
  da_hashType :: string
  da_txHash :: string
  da_index :: int
  da_capacityShannons :: string

record deployment_manifest =
  dm_note :: "string option"
  dm_account_lock :: deployment_artifact
  dm_verifier_p256 :: deployment_artifact

definition deployment_artifact_of :: "js_value \<Rightarrow> deployment_artifact" where
  "deployment_artifact_of v =
     \<lparr>da_name = jstr (jget_opt v ''name''), da_dataHash = jstr (jget_opt v ''dataHash''),
      da_hashType = jstr (jget_opt v ''hashType''), da_txHash = jstr (jget_opt v ''txHash''),
      da_index = jint (jget_opt v ''index''),
      da_capacityShannons = jstr (jget_opt v ''capacityShannons'')\<rparr>"

definition deployment_manifest_of :: "js_value \<Rightarrow> deployment_manifest" where
  "deployment_manifest_of v =
     \<lparr>dm_note = (case jget_opt v ''note'' of JStr s \<Rightarrow> Some s | _ \<Rightarrow> None),
      dm_account_lock = deployment_artifact_of (jget_opt (jget_opt v ''artifacts'') ''account_lock''),
      dm_verifier_p256 = deployment_artifact_of (jget_opt (jget_opt v ''artifacts'') ''verifier_p256'')\<rparr>"

definition deployment_artifact_json :: "deployment_artifact \<Rightarrow> js_value" where
  "deployment_artifact_json a = JObj
     [(''name'', JStr (da_name a)), (''dataHash'', JStr (da_dataHash a)),
      (''hashType'', JStr (da_hashType a)), (''txHash'', JStr (da_txHash a)),
      (''index'', JNum (JInt (da_index a))), (''capacityShannons'', JStr (da_capacityShannons a))]"

definition deployment_manifest_json :: "deployment_manifest \<Rightarrow> js_value" where
  "deployment_manifest_json m = JObj
     ([(''schema_version'', JNum (JInt 1)), (''network'', JStr ''testnet''),
       (''published'', JBool True), (''hash_type'', JStr ''data2'')]
      @ (case dm_note m of None \<Rightarrow> [] | Some s \<Rightarrow> [(''note'', JStr s)])
      @ [(''artifacts'', JObj
          [(''account_lock'', deployment_artifact_json (dm_account_lock m)),
           (''verifier_p256'', deployment_artifact_json (dm_verifier_p256 m))])])"

section \<open>Account manifest\<close>

definition OutPointSchema :: schema where
  "OutPointSchema = ZObject [req ''tx_hash'' Hash32Schema, req ''index'' (ZInt NonNegative)]"

definition account_manifest_refined :: "js_value \<Rightarrow> bool" where
  "account_manifest_refined v \<longleftrightarrow>
     drop 4 (jstr (jget_opt (jget_opt v ''account_lock'') ''args''))
     = drop 2 (jstr (jget_opt v ''account_id''))"

definition AccountManifestSchema :: schema where
  "AccountManifestSchema = ZRefine account_manifest_refined (ZObject
     [req ''schema_version'' (ZLiteral (JNum (JInt 1))), req ''network'' (ZLiteral (JStr ''testnet'')),
      req ''account_id'' Hash32Schema,
      req ''account_lock'' (ZObject
        [req ''code_hash'' Hash32Schema, req ''hash_type'' (ZLiteral (JStr ''data2'')),
         req ''args'' AccountLockArgsSchema]),
      req ''type_id_args'' Hash32Schema, req ''state_out_point'' OutPointSchema,
      req ''asset_out_point'' OutPointSchema, req ''state_bytes'' (ZInt Positive)])"

record manifest_out_point =
  mo_tx_hash :: string
  mo_index :: int

record account_manifest =
  am_account_id :: string
  am_lock_code_hash :: string
  am_lock_hash_type :: string
  am_lock_args :: string
  am_type_id_args :: string
  am_state_out_point :: manifest_out_point
  am_asset_out_point :: manifest_out_point
  am_state_bytes :: int

definition manifest_out_point_of :: "js_value \<Rightarrow> manifest_out_point" where
  "manifest_out_point_of v =
     \<lparr>mo_tx_hash = jstr (jget_opt v ''tx_hash''), mo_index = jint (jget_opt v ''index'')\<rparr>"

definition account_manifest_of :: "js_value \<Rightarrow> account_manifest" where
  "account_manifest_of v =
     \<lparr>am_account_id = jstr (jget_opt v ''account_id''),
      am_lock_code_hash = jstr (jget_opt (jget_opt v ''account_lock'') ''code_hash''),
      am_lock_hash_type = jstr (jget_opt (jget_opt v ''account_lock'') ''hash_type''),
      am_lock_args = jstr (jget_opt (jget_opt v ''account_lock'') ''args''),
      am_type_id_args = jstr (jget_opt v ''type_id_args''),
      am_state_out_point = manifest_out_point_of (jget_opt v ''state_out_point''),
      am_asset_out_point = manifest_out_point_of (jget_opt v ''asset_out_point''),
      am_state_bytes = jint (jget_opt v ''state_bytes'')\<rparr>"

definition manifest_out_point_json :: "manifest_out_point \<Rightarrow> js_value" where
  "manifest_out_point_json p =
     JObj [(''tx_hash'', JStr (mo_tx_hash p)), (''index'', JNum (JInt (mo_index p)))]"

definition account_manifest_json :: "account_manifest \<Rightarrow> js_value" where
  "account_manifest_json m = JObj
     [(''schema_version'', JNum (JInt 1)), (''network'', JStr ''testnet''),
      (''account_id'', JStr (am_account_id m)),
      (''account_lock'', JObj
        [(''code_hash'', JStr (am_lock_code_hash m)), (''hash_type'', JStr (am_lock_hash_type m)),
         (''args'', JStr (am_lock_args m))]),
      (''type_id_args'', JStr (am_type_id_args m)),
      (''state_out_point'', manifest_out_point_json (am_state_out_point m)),
      (''asset_out_point'', manifest_out_point_json (am_asset_out_point m)),
      (''state_bytes'', JNum (JInt (am_state_bytes m)))]"

section \<open>Passkey, requests, status\<close>

definition PasskeyRecordSchema :: schema where
  "PasskeyRecordSchema = ZObject
     [req ''schemaVersion'' (ZLiteral (JNum (JInt 1))), req ''credentialId'' base64urlString,
      req ''publicKey'' PublicKeySchema, req ''keyId'' Hash32Schema,
      req ''rpId'' (ZLiteral (JStr RP_ID)), req ''origin'' (ZLiteral (JStr CLIENT_ORIGIN)),
      req ''createdAt'' (ZString [SFormat ''datetime''])]"

record passkey_record =
  pk_credentialId :: string
  pk_publicKey :: string
  pk_keyId :: string
  pk_rpId :: string
  pk_origin :: string
  pk_createdAt :: string

definition passkey_record_of :: "js_value \<Rightarrow> passkey_record" where
  "passkey_record_of v =
     \<lparr>pk_credentialId = jstr (jget_opt v ''credentialId''), pk_publicKey = jstr (jget_opt v ''publicKey''),
      pk_keyId = jstr (jget_opt v ''keyId''), pk_rpId = jstr (jget_opt v ''rpId''),
      pk_origin = jstr (jget_opt v ''origin''), pk_createdAt = jstr (jget_opt v ''createdAt'')\<rparr>"

definition passkey_record_json :: "passkey_record \<Rightarrow> js_value" where
  "passkey_record_json p = JObj
     [(''schemaVersion'', JNum (JInt 1)), (''credentialId'', JStr (pk_credentialId p)),
      (''publicKey'', JStr (pk_publicKey p)), (''keyId'', JStr (pk_keyId p)),
      (''rpId'', JStr (pk_rpId p)), (''origin'', JStr (pk_origin p)),
      (''createdAt'', JStr (pk_createdAt p))]"

definition BootstrapRequestSchema :: schema where
  "BootstrapRequestSchema =
     ZObject [req ''publicKey'' PublicKeySchema, req ''credentialId'' base64urlString]"

record bootstrap_request =
  br_publicKey :: string
  br_credentialId :: string

definition bootstrap_request_of :: "js_value \<Rightarrow> bootstrap_request" where
  "bootstrap_request_of v =
     \<lparr>br_publicKey = jstr (jget_opt v ''publicKey''), br_credentialId = jstr (jget_opt v ''credentialId'')\<rparr>"

definition bootstrap_request_json :: "bootstrap_request \<Rightarrow> js_value" where
  "bootstrap_request_json r =
     JObj [(''publicKey'', JStr (br_publicKey r)), (''credentialId'', JStr (br_credentialId r))]"

definition DemoStatusSchema :: schema where
  "DemoStatusSchema = ZObject
     [req ''schemaVersion'' (ZLiteral (JNum (JInt 1))), req ''network'' (ZLiteral (JStr ''testnet'')),
      req ''origin'' (ZLiteral (JStr CLIENT_ORIGIN)), req ''rpId'' (ZLiteral (JStr RP_ID)),
      req ''deploymentVerified'' ZBoolean, req ''deployment'' DeploymentManifestSchema,
      req ''funderAddress'' (ZString [SMin 1, SMax 200]), req ''funderBalanceShannons'' decimalString,
      req ''account'' (ZNullable AccountManifestSchema)]"

record demo_status =
  ds_deploymentVerified :: bool
  ds_deployment :: deployment_manifest
  ds_funderAddress :: string
  ds_funderBalanceShannons :: string
  ds_account :: "account_manifest option"

definition demo_status_of :: "js_value \<Rightarrow> demo_status" where
  "demo_status_of v =
     \<lparr>ds_deploymentVerified = (jget_opt v ''deploymentVerified'' = JBool True),
      ds_deployment = deployment_manifest_of (jget_opt v ''deployment''),
      ds_funderAddress = jstr (jget_opt v ''funderAddress''),
      ds_funderBalanceShannons = jstr (jget_opt v ''funderBalanceShannons''),
      ds_account = (if jget_opt v ''account'' = JNull then None
                    else Some (account_manifest_of (jget_opt v ''account'')))\<rparr>"

definition demo_status_json :: "demo_status \<Rightarrow> js_value" where
  "demo_status_json s = JObj
     [(''schemaVersion'', JNum (JInt 1)), (''network'', JStr ''testnet''),
      (''origin'', JStr CLIENT_ORIGIN), (''rpId'', JStr RP_ID),
      (''deploymentVerified'', JBool (ds_deploymentVerified s)),
      (''deployment'', deployment_manifest_json (ds_deployment s)),
      (''funderAddress'', JStr (ds_funderAddress s)),
      (''funderBalanceShannons'', JStr (ds_funderBalanceShannons s)),
      (''account'', case ds_account s of None \<Rightarrow> JNull | Some m \<Rightarrow> account_manifest_json m)]"

section \<open>Receipts and errors\<close>

definition receipt_fields :: "string \<Rightarrow> (string \<times> bool \<times> schema) list" where
  "receipt_fields status =
     [req ''txHash'' Hash32Schema, req ''explorerUrl'' (ZString [SFormat ''url'']),
      req ''remainingCapacityShannons'' decimalString, req ''status'' (ZLiteral (JStr status))]"

definition SubmittedReceiptSchema :: schema where
  "SubmittedReceiptSchema = ZObject (receipt_fields ''submitted'')"

definition CommittedReceiptSchema :: schema where
  "CommittedReceiptSchema = ZObject (receipt_fields ''committed'')"

definition ConfirmationTimedOutReceiptSchema :: schema where
  "ConfirmationTimedOutReceiptSchema = ZObject (receipt_fields ''confirmation_timeout'')"

definition TransactionReceiptSchema :: schema where
  "TransactionReceiptSchema =
     ZUnion [SubmittedReceiptSchema, CommittedReceiptSchema, ConfirmationTimedOutReceiptSchema]"

record receipt =
  r_txHash :: string
  r_explorerUrl :: string
  r_remainingCapacityShannons :: string
  r_status :: string

definition receipt_of :: "js_value \<Rightarrow> receipt" where
  "receipt_of v =
     \<lparr>r_txHash = jstr (jget_opt v ''txHash''), r_explorerUrl = jstr (jget_opt v ''explorerUrl''),
      r_remainingCapacityShannons = jstr (jget_opt v ''remainingCapacityShannons''),
      r_status = jstr (jget_opt v ''status'')\<rparr>"

definition receipt_json :: "receipt \<Rightarrow> js_value" where
  "receipt_json r = JObj
     [(''txHash'', JStr (r_txHash r)), (''explorerUrl'', JStr (r_explorerUrl r)),
      (''remainingCapacityShannons'', JStr (r_remainingCapacityShannons r)),
      (''status'', JStr (r_status r))]"

definition error_code_string :: "api_error_code \<Rightarrow> string" where
  "error_code_string c = (case c of
     BAD_ORIGIN \<Rightarrow> ''BAD_ORIGIN''
   | INVALID_REQUEST \<Rightarrow> ''INVALID_REQUEST''
   | KEY_UNAVAILABLE \<Rightarrow> ''KEY_UNAVAILABLE''
   | DEPLOYMENT_INVALID \<Rightarrow> ''DEPLOYMENT_INVALID''
   | ACCOUNT_NOT_CREATED \<Rightarrow> ''ACCOUNT_NOT_CREATED''
   | ACCOUNT_MISMATCH \<Rightarrow> ''ACCOUNT_MISMATCH''
   | INSUFFICIENT_BALANCE \<Rightarrow> ''INSUFFICIENT_BALANCE''
   | BOOTSTRAP_FAILED \<Rightarrow> ''BOOTSTRAP_FAILED''
   | CONFIRMATION_TIMEOUT \<Rightarrow> ''CONFIRMATION_TIMEOUT''
   | INTERNAL_ERROR \<Rightarrow> ''INTERNAL_ERROR'')"

definition api_error_codes :: "api_error_code list" where
  "api_error_codes = [BAD_ORIGIN, INVALID_REQUEST, KEY_UNAVAILABLE, DEPLOYMENT_INVALID,
     ACCOUNT_NOT_CREATED, ACCOUNT_MISMATCH, INSUFFICIENT_BALANCE, BOOTSTRAP_FAILED,
     CONFIRMATION_TIMEOUT, INTERNAL_ERROR]"

definition ApiErrorBodySchema :: schema where
  "ApiErrorBodySchema = ZObject [req ''error'' (ZObject
     [req ''code'' (ZEnum (map error_code_string api_error_codes)),
      req ''message'' (ZString [SMax 240])])]"

record api_error_body =
  eb_code :: api_error_code
  eb_message :: string

definition error_code_of :: "string \<Rightarrow> api_error_code" where
  "error_code_of s = (case filter (\<lambda>c. error_code_string c = s) api_error_codes of
     c # _ \<Rightarrow> c | [] \<Rightarrow> INTERNAL_ERROR)"

definition api_error_body_of :: "js_value \<Rightarrow> api_error_body" where
  "api_error_body_of v =
     \<lparr>eb_code = error_code_of (jstr (jget_opt (jget_opt v ''error'') ''code'')),
      eb_message = jstr (jget_opt (jget_opt v ''error'') ''message'')\<rparr>"

definition api_error_body_json :: "api_error_body \<Rightarrow> js_value" where
  "api_error_body_json b = JObj [(''error'', JObj
     [(''code'', JStr (error_code_string (eb_code b))), (''message'', JStr (eb_message b))])]"

end
