(* ===== verification/Codecs.thy ===== *)
theory Codecs
  imports Schemas
begin

text \<open>
  What the schemas of demo/src/shared/schemas.ts promise. Each schema with its record is an
  instance of the interface \<open>codec\<close>: a value the schema accepts is, up to key order, the JSON
  form of a record with valid fields, and the JSON form of every such record is accepted.
  Clients reason about records and their validity only.
\<close>

section \<open>The interface\<close>

definition parse_as :: "zod \<Rightarrow> schema \<Rightarrow> (js_value \<Rightarrow> 'a) \<Rightarrow> js_value \<Rightarrow> 'a option" where
  "parse_as Z s f v = map_option f (z_safeParse Z s v)"

definition parse_or_throw :: "zod \<Rightarrow> schema \<Rightarrow> (js_value \<Rightarrow> 'a) \<Rightarrow> js_value \<Rightarrow> 'a js" where
  "parse_or_throw Z s f v = bind_r (z_parse Z s v) (\<lambda>d. Inr (f d))"

locale codec =
  fixes sch :: schema and of_json :: "js_value \<Rightarrow> 'a" and to_json :: "'a \<Rightarrow> js_value"
    and ok :: "(string \<Rightarrow> string \<Rightarrow> bool) \<Rightarrow> 'a \<Rightarrow> bool"
  assumes accepted: "zaccepts F sch v \<Longrightarrow> of_json (zdata F sch v) = of_json v \<and> ok F (of_json v)"
    and printed: "ok F x \<Longrightarrow> zaccepts F sch (to_json x)"
    and of_to: "of_json (to_json x) = x"
begin

lemma of_zdata: "zaccepts F sch v \<Longrightarrow> of_json (zdata F sch v) = of_json v"
  using accepted by blast

lemma printed_iff: "zaccepts F sch (to_json x) \<longleftrightarrow> ok F x"
  using accepted [of F "to_json x"] printed of_to by metis

lemma parse_as_Some_iff:
  assumes "zod_ok Z"
  shows "parse_as Z sch of_json v = Some x \<longleftrightarrow> zaccepts (z_format Z) sch v \<and> x = of_json v"
  using of_zdata by (auto simp: parse_as_def z_safeParse_Some_iff [OF assms])

lemma parse_as_ok: "zod_ok Z \<Longrightarrow> parse_as Z sch of_json v = Some x \<Longrightarrow> ok (z_format Z) x"
  using accepted by (auto simp: parse_as_Some_iff)

lemma parse_as_None_iff:
  "zod_ok Z \<Longrightarrow> parse_as Z sch of_json v = None \<longleftrightarrow> \<not> zaccepts (z_format Z) sch v"
  by (simp add: parse_as_def z_safeParse_None_iff)

lemma parse_printed:
  assumes "zod_ok Z"
  shows "parse_as Z sch of_json (to_json x) = (if ok (z_format Z) x then Some x else None)"
proof (cases "ok (z_format Z) x")
  case True
  then show ?thesis using assms printed of_to by (simp add: parse_as_Some_iff)
next
  case False
  then show ?thesis using assms printed_iff by (simp add: parse_as_None_iff)
qed

lemma parse_or_throw_Inr_iff:
  "zod_ok Z \<Longrightarrow> parse_or_throw Z sch of_json v = Inr x \<longleftrightarrow> zaccepts (z_format Z) sch v \<and> x = of_json v"
  using of_zdata by (auto simp: parse_or_throw_def result_simps z_parse_Inr_iff)

lemma parse_or_throw_printed:
  assumes "zod_ok Z"
  shows "parse_or_throw Z sch of_json (to_json x) = (if ok (z_format Z) x then Inr x else Inl ZodError)"
proof (cases "ok (z_format Z) x")
  case True
  then show ?thesis using assms printed of_to by (simp add: parse_or_throw_Inr_iff)
next
  case False
  then show ?thesis
    using assms printed_iff by (simp add: parse_or_throw_def z_parse_def zod_ok_def)
qed

lemma reparse: "zod_ok Z \<Longrightarrow> parse_as Z sch of_json v = Some x \<Longrightarrow> parse_as Z sch of_json (to_json x) = Some x"
  using parse_as_ok by (auto simp: parse_printed)

end

text \<open>
  A schema without optional keys: the parsed data are the canonical JSON form of the record.
\<close>

locale canonical_codec = codec +
  assumes canonical: "zaccepts F sch v \<Longrightarrow> zdata F sch v = to_json (of_json v)"
begin

lemma z_parse_printed: "zod_ok Z \<Longrightarrow> ok (z_format Z) x \<Longrightarrow> z_parse Z sch (to_json x) = Inr (to_json x)"
  using canonical [OF printed] of_to by (simp add: z_parse_Inr_iff printed)

end

section \<open>Valid records\<close>

abbreviation hash32_hex :: "string \<Rightarrow> bool" where
  "hash32_hex \<equiv> prefixed_hex ''0x'' 64"

definition out_point_ok :: "manifest_out_point \<Rightarrow> bool" where
  "out_point_ok p \<longleftrightarrow> hash32_hex (mo_tx_hash p) \<and> int_ok NonNegative (mo_index p)"

definition account_manifest_ok :: "account_manifest \<Rightarrow> bool" where
  "account_manifest_ok m \<longleftrightarrow>
     hash32_hex (am_account_id m) \<and> hash32_hex (am_lock_code_hash m) \<and> am_lock_hash_type m = ''data2''
     \<and> prefixed_hex ''0x01'' 64 (am_lock_args m) \<and> drop 4 (am_lock_args m) = drop 2 (am_account_id m)
     \<and> hash32_hex (am_type_id_args m) \<and> out_point_ok (am_state_out_point m)
     \<and> out_point_ok (am_asset_out_point m) \<and> int_ok Positive (am_state_bytes m)"

definition artifact_ok :: "string \<Rightarrow> deployment_artifact \<Rightarrow> bool" where
  "artifact_ok n a \<longleftrightarrow>
     da_name a = n \<and> hash32_hex (da_dataHash a) \<and> da_hashType a = ''data2'' \<and> hash32_hex (da_txHash a)
     \<and> int_ok NonNegative (da_index a) \<and> decimal_re (da_capacityShannons a)"

definition deployment_manifest_ok :: "deployment_manifest \<Rightarrow> bool" where
  "deployment_manifest_ok m \<longleftrightarrow>
     (case dm_note m of None \<Rightarrow> True | Some s \<Rightarrow> length s \<le> 500)
     \<and> artifact_ok ''account_lock'' (dm_account_lock m) \<and> artifact_ok ''verifier_p256'' (dm_verifier_p256 m)"

definition passkey_record_ok :: "(string \<Rightarrow> string \<Rightarrow> bool) \<Rightarrow> passkey_record \<Rightarrow> bool" where
  "passkey_record_ok F p \<longleftrightarrow>
     base64url_re (pk_credentialId p) \<and> prefixed_hex ''0x04'' 128 (pk_publicKey p)
     \<and> hash32_hex (pk_keyId p) \<and> pk_rpId p = RP_ID \<and> pk_origin p = CLIENT_ORIGIN
     \<and> F ''datetime'' (pk_createdAt p)"

definition bootstrap_request_ok :: "bootstrap_request \<Rightarrow> bool" where
  "bootstrap_request_ok r \<longleftrightarrow>
     prefixed_hex ''0x04'' 128 (br_publicKey r) \<and> base64url_re (br_credentialId r)"

definition receipt_ok :: "string \<Rightarrow> (string \<Rightarrow> string \<Rightarrow> bool) \<Rightarrow> receipt \<Rightarrow> bool" where
  "receipt_ok st F r \<longleftrightarrow>
     hash32_hex (r_txHash r) \<and> F ''url'' (r_explorerUrl r)
     \<and> decimal_re (r_remainingCapacityShannons r) \<and> r_status r = st"

lemma canonical_codecI:
  assumes "\<And>F v. zaccepts F sch v \<Longrightarrow> zdata F sch v = to_json (of_json v) \<and> ok F (of_json v)"
    and "\<And>F x. ok F x \<Longrightarrow> zaccepts F sch (to_json x)" and "\<And>x. of_json (to_json x) = x"
  shows "canonical_codec sch of_json to_json ok"
  by unfold_locales (use assms in auto)

section \<open>Reading accepted objects\<close>

lemma jget_present: "jget fs k \<noteq> JUndefined \<Longrightarrow> map_of fs k \<noteq> None"
  by (auto simp: jget_def split: option.splits)

lemma zdata_fields_present:
  "jget fs k \<noteq> JUndefined \<Longrightarrow>
   zdata_fields F (req k s # shape) fs = (k, zdata F s (jget fs k)) # zdata_fields F shape fs"
  by (auto simp: jget_def split: option.splits)

lemma zfields_Nil: "zfields F [] fs"
  by simp

lemma base64_check:
  "list_all (check_ok F s) [SMin 1, SRegex base64url_re] \<longleftrightarrow> base64url_re s"
  by (cases s) (auto simp: check_ok_def base64url_re_def)

lemmas leaf_schemas = Hash32Schema_def hexBytes_def PublicKeySchema_def AccountLockArgsSchema_def
  decimalString_def base64urlString_def

lemmas shape_simps = zfields_req zdata_fields_present zaccepts_iffs leaf_schemas check_ok_def

declare zaccepts.simps(1,3,4,5,6) [simp del] zfields.simps(2) [simp del] zdata_fields.simps(2) [simp del]

interpretation out_point: canonical_codec OutPointSchema manifest_out_point_of manifest_out_point_json "\<lambda>F. out_point_ok"
proof (rule canonical_codecI)
  show "zaccepts F OutPointSchema v \<Longrightarrow>
      zdata F OutPointSchema v = manifest_out_point_json (manifest_out_point_of v) \<and> out_point_ok (manifest_out_point_of v)" for F v
    by (auto simp: OutPointSchema_def shape_simps manifest_out_point_json_def
        manifest_out_point_of_def out_point_ok_def)
  show "out_point_ok x \<Longrightarrow> zaccepts F OutPointSchema (manifest_out_point_json x)" for F x
    by (simp add: OutPointSchema_def shape_simps manifest_out_point_json_def out_point_ok_def)
qed (simp add: manifest_out_point_json_def manifest_out_point_of_def)

lemma no_undefined [simp]:
  "\<not> zaccepts F OutPointSchema JUndefined" "\<not> zaccepts F DeploymentManifestSchema JUndefined"
  "\<not> zaccepts F AccountManifestSchema JUndefined" "\<not> zaccepts F (DeploymentArtifactSchema n) JUndefined"
  "\<not> zaccepts F AccountManifestSchema JNull"
  by (simp_all add: OutPointSchema_def DeploymentManifestSchema_def AccountManifestSchema_def
      DeploymentArtifactSchema_def zaccepts_ZObject_iff)

lemma accepted_present: "zaccepts F s v \<Longrightarrow> \<not> zaccepts F s JUndefined \<Longrightarrow> v \<noteq> JUndefined"
  by auto

interpretation artifact: canonical_codec "DeploymentArtifactSchema (ZLiteral (JStr n))" deployment_artifact_of
  deployment_artifact_json "\<lambda>F. artifact_ok n" for n
proof (rule canonical_codecI)
  show "zaccepts F (DeploymentArtifactSchema (ZLiteral (JStr n))) v \<Longrightarrow>
      zdata F (DeploymentArtifactSchema (ZLiteral (JStr n))) v = deployment_artifact_json (deployment_artifact_of v)
      \<and> artifact_ok n (deployment_artifact_of v)" for F v
    by (auto simp: DeploymentArtifactSchema_def shape_simps deployment_artifact_json_def
        deployment_artifact_of_def artifact_ok_def)
  show "artifact_ok n x \<Longrightarrow> zaccepts F (DeploymentArtifactSchema (ZLiteral (JStr n))) (deployment_artifact_json x)" for F x
    by (simp add: DeploymentArtifactSchema_def shape_simps deployment_artifact_json_def artifact_ok_def)
qed (simp add: deployment_artifact_json_def deployment_artifact_of_def)

interpretation account_manifest: canonical_codec AccountManifestSchema account_manifest_of account_manifest_json
  "\<lambda>F. account_manifest_ok"
proof (rule canonical_codecI)
  show "zaccepts F AccountManifestSchema v \<Longrightarrow>
      zdata F AccountManifestSchema v = account_manifest_json (account_manifest_of v)
      \<and> account_manifest_ok (account_manifest_of v)" for F v
    by (auto simp: AccountManifestSchema_def shape_simps account_manifest_json_def out_point.canonical out_point.accepted
        account_manifest_of_def account_manifest_ok_def account_manifest_refined_def
        accepted_present [OF _ no_undefined(1)])
  show "account_manifest_ok x \<Longrightarrow> zaccepts F AccountManifestSchema (account_manifest_json x)" for F x
    by (simp add: AccountManifestSchema_def shape_simps account_manifest_json_def account_manifest_ok_def
        out_point.printed account_manifest_refined_def)
qed (simp add: account_manifest_json_def account_manifest_of_def out_point.of_to)

interpretation passkey: canonical_codec PasskeyRecordSchema passkey_record_of passkey_record_json passkey_record_ok
proof (rule canonical_codecI)
  show "zaccepts F PasskeyRecordSchema v \<Longrightarrow>
      zdata F PasskeyRecordSchema v = passkey_record_json (passkey_record_of v)
      \<and> passkey_record_ok F (passkey_record_of v)" for F v
    by (auto simp: PasskeyRecordSchema_def shape_simps passkey_record_json_def
        passkey_record_of_def passkey_record_ok_def)
  show "passkey_record_ok F x \<Longrightarrow> zaccepts F PasskeyRecordSchema (passkey_record_json x)" for F x
    by (auto simp: PasskeyRecordSchema_def shape_simps passkey_record_json_def passkey_record_ok_def
        base64url_re_def Suc_le_eq)
qed (simp add: passkey_record_json_def passkey_record_of_def)

interpretation bootstrap_request: canonical_codec BootstrapRequestSchema bootstrap_request_of bootstrap_request_json
  "\<lambda>F. bootstrap_request_ok"
proof (rule canonical_codecI)
  show "zaccepts F BootstrapRequestSchema v \<Longrightarrow>
      zdata F BootstrapRequestSchema v = bootstrap_request_json (bootstrap_request_of v)
      \<and> bootstrap_request_ok (bootstrap_request_of v)" for F v
    by (auto simp: BootstrapRequestSchema_def shape_simps bootstrap_request_json_def
        bootstrap_request_of_def bootstrap_request_ok_def)
  show "bootstrap_request_ok x \<Longrightarrow> zaccepts F BootstrapRequestSchema (bootstrap_request_json x)" for F x
    by (auto simp: BootstrapRequestSchema_def shape_simps bootstrap_request_json_def
        bootstrap_request_ok_def base64url_re_def Suc_le_eq)
qed (simp add: bootstrap_request_json_def bootstrap_request_of_def)

interpretation receipt: canonical_codec "ZObject (receipt_fields st)" receipt_of receipt_json "receipt_ok st" for st
proof (rule canonical_codecI)
  show "zaccepts F (ZObject (receipt_fields st)) v \<Longrightarrow>
      zdata F (ZObject (receipt_fields st)) v = receipt_json (receipt_of v) \<and> receipt_ok st F (receipt_of v)" for F v
    by (auto simp: receipt_fields_def shape_simps receipt_json_def receipt_of_def receipt_ok_def)
  show "receipt_ok st F x \<Longrightarrow> zaccepts F (ZObject (receipt_fields st)) (receipt_json x)" for F x
    by (simp add: receipt_fields_def shape_simps receipt_json_def receipt_ok_def)
qed (simp add: receipt_json_def receipt_of_def)

lemma zfields_opt:
  "zfields F (opt k s # shape) fs \<longleftrightarrow>
     (jget fs k = JUndefined \<or> zaccepts F s (jget fs k)) \<and> zfields F shape fs"
  by (auto simp: zfields.simps(2) jget_def split: option.splits)

lemma jget_zdata_fields_opt:
  "jget (zdata_fields F (opt k s # shape) fs) k' =
     (if k = k' \<and> map_of fs k \<noteq> None then zdata F s (jget fs k) else jget (zdata_fields F shape fs) k')"
  by (auto simp: zdata_fields.simps(2))

interpretation deployment_manifest: codec DeploymentManifestSchema deployment_manifest_of
  deployment_manifest_json "\<lambda>F. deployment_manifest_ok"
proof
  fix F v assume "zaccepts F DeploymentManifestSchema v"
  then show "deployment_manifest_of (zdata F DeploymentManifestSchema v) = deployment_manifest_of v
      \<and> deployment_manifest_ok (deployment_manifest_of v)"
    by (auto simp: DeploymentManifestSchema_def shape_simps zfields_opt jget_zdata_fields_opt
        artifact.of_zdata artifact.accepted accepted_present [OF _ no_undefined(4)] map_of_None_jget
        deployment_manifest_of_def deployment_manifest_ok_def dest: jget_present [of _ "''note''"])
       (metis jget_present js_value.distinct(7) option.exhaust)
next
  show "deployment_manifest_ok x \<Longrightarrow> zaccepts F DeploymentManifestSchema (deployment_manifest_json x)" for F x
    by (cases "dm_note x") (simp_all add: DeploymentManifestSchema_def shape_simps zfields_opt
        deployment_manifest_json_def deployment_manifest_ok_def artifact.printed)
next
  show "deployment_manifest_of (deployment_manifest_json x) = x" for x
    by (cases "dm_note x") (simp_all add: deployment_manifest_of_def deployment_manifest_json_def artifact.of_to)
qed

lemma error_code_of_string [simp]: "error_code_of (error_code_string c) = c"
  by (cases c) (simp_all add: error_code_of_def error_code_string_def api_error_codes_def)

lemma error_code_string_of: "s \<in> set (map error_code_string api_error_codes) \<Longrightarrow> error_code_string (error_code_of s) = s"
  by auto

lemma error_code_listed: "error_code_string c \<in> set (map error_code_string api_error_codes)"
  by (cases c) (simp_all add: api_error_codes_def)

interpretation api_error_body: canonical_codec ApiErrorBodySchema api_error_body_of api_error_body_json
  "\<lambda>F b. length (eb_message b) \<le> 240"
proof (rule canonical_codecI)
  show "zaccepts F ApiErrorBodySchema v \<Longrightarrow> zdata F ApiErrorBodySchema v = api_error_body_json (api_error_body_of v)
      \<and> length (eb_message (api_error_body_of v)) \<le> 240" for F v
    using error_code_string_of
    by (auto simp: ApiErrorBodySchema_def shape_simps api_error_body_json_def api_error_body_of_def
        simp del: set_map)
  show "length (eb_message x) \<le> 240 \<Longrightarrow> zaccepts F ApiErrorBodySchema (api_error_body_json x)" for F x
    using error_code_listed [of "eb_code x"]
    by (simp add: ApiErrorBodySchema_def shape_simps api_error_body_json_def)
qed (simp add: api_error_body_json_def api_error_body_of_def)

end
