(* ===== verification/Protocol.thy ===== *)
theory Protocol
  imports Ccc
begin

text \<open>
  demo/src/shared/protocol.ts: the browser's encoders of the WebAuthn proof and of
  AccountWitnessV1, the canonical group sighash and the authorization digest.
\<close>

section \<open>Constants\<close>

definition ascii :: "string \<Rightarrow> bytes" where
  "ascii s = map (\<lambda>c. word_of_nat (of_char c)) s"

definition ACCOUNT_WITNESS_MAGIC :: bytes where
  "ACCOUNT_WITNESS_MAGIC = [0x43, 0x4b, 0x41, 0x57]"

definition ACCOUNT_WITNESS_VERSION :: byte where
  "ACCOUNT_WITNESS_VERSION = 1"

definition ACCOUNT_WITNESS_MAX_LOCK_LEN :: nat where
  "ACCOUNT_WITNESS_MAX_LOCK_LEN = 131072"

definition AUTHENTICATOR_MAX_COUNT :: nat where
  "AUTHENTICATOR_MAX_COUNT = 16"

definition AUTH_DOMAIN :: bytes where
  "AUTH_DOMAIN = ascii ''CKB_ACCOUNT_LOCK_V1''"

section \<open>Inputs\<close>

record p256_proof_input =
  publicKey :: bytes
  origin :: bytes
  authenticatorData :: bytes
  clientDataJson :: bytes
  signature :: bytes

record witness_proof =
  slot :: js_number
  proof_bytes :: bytes

text \<open>\<^verbatim>\<open>operation\<close> is statically \<^verbatim>\<open>1 | 2 | 3\<close>; the run-time check is kept.\<close>

record authorization_input =
  operation :: int
  accountId :: bytes
  sequence :: int
  state_data :: bytes
  group_sighash :: bytes

section \<open>Operations\<close>

definition requireOperation :: "int \<Rightarrow> unit js" where
  "requireOperation op =
     (if op \<noteq> 1 \<and> op \<noteq> 2 \<and> op \<noteq> 3 then Inl (RangeError ''operation'') else Inr ())"

definition requireLength :: "bytes \<Rightarrow> nat \<Rightarrow> string \<Rightarrow> unit js" where
  "requireLength bs n label = (if length bs \<noteq> n then Inl (RangeError label) else Inr ())"

definition ckbHash :: "ccc \<Rightarrow> bytes \<Rightarrow> bytes js" where
  "ckbHash C d = ccc_bytesFrom C (ccc_hashCkb C d)"

definition encodeP256Proof :: "p256_proof_input \<Rightarrow> bytes js" where
  "encodeP256Proof p =
     (if length (publicKey p) \<noteq> 65 \<or> idx (publicKey p) 0 \<noteq> Some 0x04
      then Inl (TypeError ''P-256 public key must be uncompressed SEC1'')
      else if length (origin p) = 0 \<or> length (origin p) > 0xff
      then Inl (RangeError ''origin length'')
      else if length (authenticatorData p) < 37
      then Inl (RangeError ''authenticator data length'')
      else if length (clientDataJson p) = 0 \<or> length (signature p) = 0
      then Inl (RangeError ''empty P-256 proof field'')
      else
        bind_r (u16le (JNat (length (authenticatorData p)))) (\<lambda>a.
        bind_r (u16le (JNat (length (clientDataJson p)))) (\<lambda>c.
        bind_r (u16le (JNat (length (signature p)))) (\<lambda>s.
        bytesConcat
          [publicKey p, [word_of_nat (length (origin p))], origin p, a, authenticatorData p,
           c, clientDataJson p, s, signature p]))))"

text \<open>One proof of AccountWitnessV1: the body of the loop in \<^verbatim>\<open>encodeAccountWitness\<close>.\<close>

definition encodeProof :: "int \<Rightarrow> witness_proof \<Rightarrow> (int \<times> bytes) js" where
  "encodeProof previousSlot p = (case slot p of
     JNonInt \<Rightarrow> Inl (RangeError ''proof slot'')
   | JInt s \<Rightarrow>
       if s < 0 \<or> s > 0xffff then Inl (RangeError ''proof slot'')
       else if s \<le> previousSlot then Inl (TypeError ''proof slots must be unique and ascending'')
       else if length (proof_bytes p) = 0 then Inl (RangeError ''empty proof'')
       else
         bind_r (u16le (JInt s)) (\<lambda>sl.
         bind_r (u32le (JNat (length (proof_bytes p)))) (\<lambda>ln.
         bind_r (bytesConcat [sl, [0, 0], ln, proof_bytes p]) (\<lambda>e.
         Inr (s, e)))))"

fun encodeProofs :: "int \<Rightarrow> witness_proof list \<Rightarrow> bytes list js" where
  "encodeProofs previousSlot [] = Inr []"
| "encodeProofs previousSlot (p # ps) =
     bind_r (encodeProof previousSlot p) (\<lambda>(s, e).
     bind_r (encodeProofs s ps) (\<lambda>es. Inr (e # es)))"

definition encodeAccountWitness :: "int \<Rightarrow> int \<Rightarrow> witness_proof list \<Rightarrow> bytes js" where
  "encodeAccountWitness op seq proofs =
     bind_r (requireOperation op) (\<lambda>_.
     if length proofs > AUTHENTICATOR_MAX_COUNT then Inl (RangeError ''proof count'')
     else
       bind_r (encodeProofs (-1) proofs) (\<lambda>encodedProofs.
       bind_r (u64le seq) (\<lambda>sq.
       bind_r (bytesConcat
         ([ACCOUNT_WITNESS_MAGIC,
           [ACCOUNT_WITNESS_VERSION, word_of_int op, word_of_nat (length proofs), 0], sq]
          @ encodedProofs)) (\<lambda>encoded.
       if length encoded > ACCOUNT_WITNESS_MAX_LOCK_LEN
       then Inl (RangeError ''AccountWitnessV1 length'')
       else Inr encoded))))"

definition lengthPrefixed :: "bytes \<Rightarrow> bytes js" where
  "lengthPrefixed w = bind_r (u64le (int (length w))) (\<lambda>n. bytesConcat [n, w])"

definition groupSighash :: "ccc \<Rightarrow> bytes \<Rightarrow> bytes list \<Rightarrow> bytes list \<Rightarrow> bytes js" where
  "groupSighash C txHash groupWitnesses extraWitnesses =
     bind_r (requireLength txHash 32 ''transaction hash'') (\<lambda>_.
     case groupWitnesses of
       [] \<Rightarrow> Inl (RangeError ''missing group witness'')
     | firstBytes # rest \<Rightarrow>
         bind_r (ccc_witnessArgsFromBytes C firstBytes) (\<lambda>first.
         let canonical = ccc_witnessArgsToBytes C
               \<lparr>wa_lock = Some ''0x'', wa_inputType = wa_inputType first,
                wa_outputType = wa_outputType first\<rparr>
         in
         bind_r (lengthPrefixed canonical) (\<lambda>c.
         bind_r (map_r lengthPrefixed rest) (\<lambda>g.
         bind_r (map_r lengthPrefixed extraWitnesses) (\<lambda>e.
         bind_r (bytesConcat ([txHash, c] @ g @ e)) (\<lambda>m.
         ckbHash C m))))))"

definition authorizationDigest :: "ccc \<Rightarrow> authorization_input \<Rightarrow> bytes js" where
  "authorizationDigest C i =
     bind_r (requireOperation (operation i)) (\<lambda>_.
     bind_r (requireLength (accountId i) 32 ''account ID'') (\<lambda>_.
     bind_r (requireLength (group_sighash i) 32 ''group sighash'') (\<lambda>_.
     bind_r (u64le (sequence i)) (\<lambda>sq.
     bind_r (ckbHash C (state_data i)) (\<lambda>h.
     bind_r (bytesConcat [AUTH_DOMAIN, [word_of_int (operation i)], accountId i, sq, h,
                          group_sighash i]) (\<lambda>m.
     ckbHash C m))))))"

definition packAccountWitness :: "ccc \<Rightarrow> bytes \<Rightarrow> bytes" where
  "packAccountWitness C witness =
     ccc_witnessArgsToBytes C
       \<lparr>wa_lock = Some (hexFromBytes witness), wa_inputType = None, wa_outputType = None\<rparr>"

definition unpackAccountWitness :: "ccc \<Rightarrow> bytes \<Rightarrow> bytes js" where
  "unpackAccountWitness C witnessArgs =
     bind_r (ccc_witnessArgsFromBytes C witnessArgs) (\<lambda>w.
     case wa_lock w of
       None \<Rightarrow> Inl (TypeError ''WitnessArgs lock is absent'')
     | Some l \<Rightarrow> bind_r (ccc_hexFromHex C l) (ccc_bytesFrom C))"

end
