(* ===== verification/Wire.thy ===== *)
theory Wire
  imports Prelude
begin

unbundle bit_operations_syntax

text \<open>
  crates/protocol/src: the consensus parsers of AccountLock args, AccountStateV1 and
  AccountWitnessV1 that the on-chain lock runs. Lengths and offsets are natural numbers with
  \<^verbatim>\<open>checked_add\<close> written out for a 64-bit \<^verbatim>\<open>usize\<close>; flag and capability sets are words. A slice
  \<^verbatim>\<open>&data[a..b]\<close> or an index out of range panics, which is the outcome \<open>Panic\<close>: the parsers are
  shown never to reach it. A parser that takes a callback \<^verbatim>\<open>FnMut\<close> takes a step function on
  the callback's state.
\<close>

section \<open>Constants and errors\<close>

datatype protocol_error =
    InvalidArgs
  | InvalidState
  | InvalidWitness
  | StateNotFound
  | DuplicateState
  | StateConsumedOnSpend
  | InvalidTransition
  | InvalidSequence
  | ThresholdUnsatisfied
  | InvalidCapability
  | InvalidVerifierRef
  | VerifierFailure
  | UnsupportedVersion
  | UnsupportedAlgorithm
  | RecoveryLocked
  | InvalidRequest
  | InvalidProof
  | InvalidOperation
  | UnsatisfiableThreshold
  | LengthOverflow

datatype rust_error = Panic | Err protocol_error

type_synonym 'a rust = "rust_error + 'a"

abbreviation ACCOUNT_STATE_MAGIC :: bytes where "ACCOUNT_STATE_MAGIC \<equiv> [0x43, 0x4b, 0x41, 0x53]"
abbreviation WITNESS_MAGIC :: bytes where "WITNESS_MAGIC \<equiv> [0x43, 0x4b, 0x41, 0x57]"
abbreviation ACCOUNT_LOCK_ARGS_LEN :: nat where "ACCOUNT_LOCK_ARGS_LEN \<equiv> 33"
abbreviation ACCOUNT_STATE_HEADER_LEN :: nat where "ACCOUNT_STATE_HEADER_LEN \<equiv> 32"
abbreviation ACCOUNT_STATE_MAX_LEN :: nat where "ACCOUNT_STATE_MAX_LEN \<equiv> 16384"
abbreviation MAX_AUTHENTICATORS :: nat where "MAX_AUTHENTICATORS \<equiv> 16"
abbreviation WITNESS_HEADER_LEN :: nat where "WITNESS_HEADER_LEN \<equiv> 16"
abbreviation WITNESS_MAX_LOCK_LEN :: nat where "WITNESS_MAX_LOCK_LEN \<equiv> 131072"

abbreviation OP_SPEND :: byte where "OP_SPEND \<equiv> 1"
abbreviation OP_ROTATE :: byte where "OP_ROTATE \<equiv> 2"
abbreviation OP_RECOVERY :: byte where "OP_RECOVERY \<equiv> 3"

abbreviation CAP_SPEND :: "16 word" where "CAP_SPEND \<equiv> 1"
abbreviation CAP_ROTATE :: "16 word" where "CAP_ROTATE \<equiv> 2"
abbreviation CAP_RECOVERY :: "16 word" where "CAP_RECOVERY \<equiv> 4"
abbreviation CAP_KNOWN_MASK :: "16 word" where "CAP_KNOWN_MASK \<equiv> 15"

abbreviation STATE_FLAG_RECOVERY_ENABLED :: byte where "STATE_FLAG_RECOVERY_ENABLED \<equiv> 1"
abbreviation STATE_FLAGS_KNOWN_MASK :: byte where "STATE_FLAGS_KNOWN_MASK \<equiv> 3"

section \<open>Reading\<close>

definition rd :: "nat \<Rightarrow> nat \<Rightarrow> bytes \<Rightarrow> bytes rust" where
  "rd a b d = (if a \<le> b \<and> b \<le> length d then Inr (seg a b d) else Inl Panic)"

definition rd_byte :: "nat \<Rightarrow> bytes \<Rightarrow> byte rust" where
  "rd_byte i d = (if i < length d then Inr (d ! i) else Inl Panic)"

definition le_u16 :: "bytes \<Rightarrow> nat rust" where
  "le_u16 b = (if length b \<noteq> 2 then Inl (Err InvalidState) else Inr (of_le b))"

definition le_u32 :: "bytes \<Rightarrow> nat rust" where
  "le_u32 b = (if length b \<noteq> 4 then Inl (Err InvalidWitness) else Inr (of_le b))"

definition le_u64 :: "bytes \<Rightarrow> nat rust" where
  "le_u64 b = (if length b \<noteq> 8 then Inl (Err InvalidState) else Inr (of_le b))"

definition checked_add :: "nat \<Rightarrow> nat \<Rightarrow> nat option" where
  "checked_add a b = (if a + b < 2 ^ 64 then Some (a + b) else None)"

definition checked_end :: "nat \<Rightarrow> nat \<Rightarrow> nat \<Rightarrow> nat rust" where
  "checked_end offset len limit = (case checked_add offset len of
     None \<Rightarrow> Inl (Err LengthOverflow)
   | Some e \<Rightarrow> if e \<le> limit then Inr e else Inl (Err LengthOverflow))"

definition err_to :: "protocol_error \<Rightarrow> 'a rust \<Rightarrow> 'a rust" where
  "err_to e = map_err (\<lambda>x. case x of Panic \<Rightarrow> Panic | Err _ \<Rightarrow> Err e)"

definition is_supported_algorithm :: "nat \<Rightarrow> bool" where
  "is_supported_algorithm a \<longleftrightarrow> a = 0x0001 \<or> a = 0x0101 \<or> a = 0x0102 \<or> a = 0x0103 \<or> a = 0x0201"

definition capability_for_operation :: "byte \<Rightarrow> 16 word rust" where
  "capability_for_operation op =
     (if op = OP_SPEND then Inr CAP_SPEND
      else if op = OP_ROTATE then Inr CAP_ROTATE
      else if op = OP_RECOVERY then Inr CAP_RECOVERY
      else Inl (Err InvalidOperation))"

section \<open>AccountLock args\<close>

record account_lock_args =
  la_version :: byte
  la_account_id :: bytes

definition parse_lock_args :: "bytes \<Rightarrow> account_lock_args rust" where
  "parse_lock_args d =
     (if length d \<noteq> ACCOUNT_LOCK_ARGS_LEN then Inl (Err InvalidArgs)
      else bind_r (rd_byte 0 d) (\<lambda>v.
        if v \<noteq> 1 then Inl (Err UnsupportedVersion)
        else bind_r (rd 1 33 d) (\<lambda>account.
          Inr \<lparr>la_version = v, la_account_id = account\<rparr>)))"

section \<open>AccountStateV1\<close>

record state_header =
  sh_flags :: byte
  sh_sequence :: nat
  sh_spend_threshold :: nat
  sh_rotate_threshold :: nat
  sh_recovery_threshold :: nat
  sh_authenticator_count :: nat
  sh_recovery_since :: nat

definition parse_state_header :: "bytes \<Rightarrow> state_header rust" where
  "parse_state_header d =
     (if length d < ACCOUNT_STATE_HEADER_LEN \<or> length d > ACCOUNT_STATE_MAX_LEN
      then Inl (Err InvalidState)
      else
        bind_r (rd 0 4 d) (\<lambda>magic.
        if magic \<noteq> ACCOUNT_STATE_MAGIC then Inl (Err InvalidState) else
        bind_r (rd_byte 4 d) (\<lambda>version.
        if version \<noteq> 1 then Inl (Err UnsupportedVersion) else
        bind_r (rd_byte 5 d) (\<lambda>flags.
        if flags AND NOT STATE_FLAGS_KNOWN_MASK \<noteq> 0 then Inl (Err InvalidState) else
        bind_r (bind_r (rd 6 8 d) le_u16) (\<lambda>header_len.
        if header_len \<noteq> ACCOUNT_STATE_HEADER_LEN then Inl (Err InvalidState) else
        bind_r (rd_byte 23 d) (\<lambda>reserved.
        if reserved \<noteq> 0 then Inl (Err InvalidState) else
        bind_r (rd_byte 22 d) (\<lambda>count.
        if count = 0 \<or> unat count > MAX_AUTHENTICATORS then Inl (Err InvalidState) else
        bind_r (bind_r (rd 8 16 d) le_u64) (\<lambda>seq.
        bind_r (bind_r (rd 16 18 d) le_u16) (\<lambda>spend.
        bind_r (bind_r (rd 18 20 d) le_u16) (\<lambda>rotate.
        bind_r (bind_r (rd 20 22 d) le_u16) (\<lambda>recovery.
        bind_r (bind_r (rd 24 32 d) le_u64) (\<lambda>since.
        Inr \<lparr>sh_flags = flags, sh_sequence = seq, sh_spend_threshold = spend,
             sh_rotate_threshold = rotate, sh_recovery_threshold = recovery,
             sh_authenticator_count = unat count, sh_recovery_since = since\<rparr>))))))))))))"

record authenticator_entry =
  ae_slot :: nat
  ae_algorithm_id :: nat
  ae_capabilities :: "16 word"
  ae_weight :: nat
  ae_verifier_hash_type :: byte
  ae_verifier_abi :: byte
  ae_verifier_code_hash :: bytes
  ae_key_id :: bytes
  ae_aux :: bytes

text \<open>One turn of the loop of \<^verbatim>\<open>parse_authenticators\<close>: the entry at \<open>off\<close> and its length.\<close>

definition parse_entry :: "bytes \<Rightarrow> nat \<Rightarrow> nat option \<Rightarrow> (authenticator_entry \<times> nat) rust" where
  "parse_entry state off prev =
     bind_r (err_to InvalidState (checked_end off 48 (length state))) (\<lambda>_.
     bind_r (bind_r (rd off (off + 2) state) le_u16) (\<lambda>entry_len.
     bind_r (bind_r (rd (off + 2) (off + 4) state) le_u16) (\<lambda>slot.
     bind_r (bind_r (rd (off + 4) (off + 6) state) le_u16) (\<lambda>algorithm_id.
     bind_r (bind_r (rd (off + 6) (off + 8) state) le_u16) (\<lambda>capabilities.
     bind_r (bind_r (rd (off + 8) (off + 10) state) le_u16) (\<lambda>weight.
     bind_r (rd_byte (off + 10) state) (\<lambda>verifier_hash_type.
     bind_r (rd_byte (off + 11) state) (\<lambda>verifier_abi.
     bind_r (rd (off + 12) (off + 44) state) (\<lambda>verifier_code_hash.
     bind_r (bind_r (rd (off + 44) (off + 46) state) le_u16) (\<lambda>key_len.
     bind_r (bind_r (rd (off + 46) (off + 48) state) le_u16) (\<lambda>aux_len.
     if entry_len \<noteq> 48 + key_len + aux_len then Inl (Err InvalidState) else
     bind_r (err_to InvalidState (checked_end off entry_len (length state))) (\<lambda>_.
     if (case prev of None \<Rightarrow> False | Some p \<Rightarrow> slot \<le> p) then Inl (Err InvalidState) else
     if weight = 0 \<or> (word_of_nat capabilities :: 16 word) AND NOT CAP_KNOWN_MASK \<noteq> 0
     then Inl (Err InvalidState) else
     if unat verifier_hash_type > 1 \<or> verifier_abi \<noteq> 1 then Inl (Err InvalidVerifierRef) else
     bind_r (rd (off + 48) (off + 48 + key_len) state) (\<lambda>key_id.
     bind_r (rd (off + 48 + key_len) (off + entry_len) state) (\<lambda>aux.
     Inr (\<lparr>ae_slot = slot, ae_algorithm_id = algorithm_id,
           ae_capabilities = word_of_nat capabilities, ae_weight = weight,
           ae_verifier_hash_type = verifier_hash_type, ae_verifier_abi = verifier_abi,
           ae_verifier_code_hash = verifier_code_hash, ae_key_id = key_id, ae_aux = aux\<rparr>,
          entry_len)))))))))))))))"

fun parse_entries ::
  "('s \<Rightarrow> authenticator_entry \<Rightarrow> 's rust) \<Rightarrow> bytes \<Rightarrow> nat \<Rightarrow> nat \<Rightarrow> nat option \<Rightarrow> 's \<Rightarrow> (nat \<times> 's) rust"
where
  "parse_entries f state 0 off prev s = Inr (off, s)"
| "parse_entries f state (Suc n) off prev s =
     bind_r (parse_entry state off prev) (\<lambda>(entry, entry_len).
     bind_r (f s entry) (\<lambda>s'.
     parse_entries f state n (off + entry_len) (Some (ae_slot entry)) s'))"

definition parse_authenticators ::
  "bytes \<Rightarrow> state_header \<Rightarrow> ('s \<Rightarrow> authenticator_entry \<Rightarrow> 's rust) \<Rightarrow> 's \<Rightarrow> 's rust"
where
  "parse_authenticators state header f s =
     bind_r (parse_entries f state (sh_authenticator_count header) ACCOUNT_STATE_HEADER_LEN None s)
       (\<lambda>(off, s'). if off \<noteq> length state then Inl (Err InvalidState) else Inr s')"

record state_summary =
  spend_weight :: nat
  rotate_weight :: nat
  recovery_weight :: nat

definition add_weight :: "bool \<Rightarrow> nat \<Rightarrow> nat \<Rightarrow> nat rust" where
  "add_weight enabled acc w =
     (if enabled then if acc + w < 2 ^ 32 then Inr (acc + w) else Inl (Err LengthOverflow)
      else Inr acc)"

definition summarize :: "state_summary \<Rightarrow> authenticator_entry \<Rightarrow> state_summary rust" where
  "summarize s e =
     (if \<not> is_supported_algorithm (ae_algorithm_id e) then Inl (Err UnsupportedAlgorithm) else
      if length (ae_key_id e) \<noteq> 32 \<or> ae_aux e = [] then Inl (Err InvalidState) else
      bind_r (add_weight (ae_capabilities e AND CAP_SPEND \<noteq> 0) (spend_weight s) (ae_weight e)) (\<lambda>sw.
      bind_r (add_weight (ae_capabilities e AND CAP_ROTATE \<noteq> 0) (rotate_weight s) (ae_weight e)) (\<lambda>rw.
      bind_r (add_weight (ae_capabilities e AND CAP_RECOVERY \<noteq> 0) (recovery_weight s) (ae_weight e)) (\<lambda>cw.
      Inr \<lparr>spend_weight = sw, rotate_weight = rw, recovery_weight = cw\<rparr>))))"

definition validate_state :: "bytes \<Rightarrow> (state_header \<times> state_summary) rust" where
  "validate_state state =
     bind_r (parse_state_header state) (\<lambda>h.
     bind_r (parse_authenticators state h summarize
       \<lparr>spend_weight = 0, rotate_weight = 0, recovery_weight = 0\<rparr>) (\<lambda>sm.
     if sh_spend_threshold h = 0 \<or> sh_rotate_threshold h = 0
        \<or> sh_spend_threshold h > spend_weight sm \<or> sh_rotate_threshold h > rotate_weight sm
     then Inl (Err UnsatisfiableThreshold)
     else if sh_flags h AND STATE_FLAG_RECOVERY_ENABLED \<noteq> 0
     then if sh_recovery_threshold h = 0 \<or> sh_recovery_threshold h > recovery_weight sm
          then Inl (Err UnsatisfiableThreshold) else Inr (h, sm)
     else if sh_recovery_threshold h \<noteq> 0 \<or> sh_recovery_since h \<noteq> 0
     then Inl (Err InvalidState)
     else Inr (h, sm)))"

section \<open>AccountWitnessV1\<close>

record witness_header =
  wh_operation :: byte
  wh_proof_count :: nat
  wh_state_sequence :: nat

definition parse_witness_header :: "bytes \<Rightarrow> witness_header rust" where
  "parse_witness_header d =
     (if length d < WITNESS_HEADER_LEN \<or> length d > WITNESS_MAX_LOCK_LEN
      then Inl (Err InvalidWitness)
      else
        bind_r (rd 0 4 d) (\<lambda>magic.
        bind_r (rd_byte 4 d) (\<lambda>version.
        bind_r (rd_byte 7 d) (\<lambda>reserved.
        if magic \<noteq> WITNESS_MAGIC \<or> version \<noteq> 1 \<or> reserved \<noteq> 0 then Inl (Err InvalidWitness) else
        bind_r (rd_byte 5 d) (\<lambda>op.
        if op \<noteq> OP_SPEND \<and> op \<noteq> OP_ROTATE \<and> op \<noteq> OP_RECOVERY then Inl (Err InvalidWitness) else
        bind_r (rd_byte 6 d) (\<lambda>count.
        bind_r (err_to InvalidWitness (bind_r (rd 8 16 d) le_u64)) (\<lambda>seq.
        Inr \<lparr>wh_operation = op, wh_proof_count = unat count, wh_state_sequence = seq\<rparr>)))))))"

definition parse_one_proof :: "bytes \<Rightarrow> nat \<Rightarrow> nat option \<Rightarrow> (nat \<times> bytes \<times> nat) rust" where
  "parse_one_proof d off prev =
     bind_r (err_to InvalidWitness (checked_end off 8 (length d))) (\<lambda>_.
     bind_r (err_to InvalidWitness (bind_r (rd off (off + 2) d) le_u16)) (\<lambda>slot.
     bind_r (rd_byte (off + 2) d) (\<lambda>r0.
     bind_r (rd_byte (off + 3) d) (\<lambda>r1.
     if r0 \<noteq> 0 \<or> r1 \<noteq> 0 then Inl (Err InvalidWitness) else
     bind_r (bind_r (rd (off + 4) (off + 8) d) le_u32) (\<lambda>len.
     case checked_add off 8 of None \<Rightarrow> Inl (Err InvalidWitness) | Some payload \<Rightarrow>
     bind_r (err_to InvalidWitness (checked_end payload len (length d))) (\<lambda>e.
     if len = 0 then Inl (Err InvalidWitness) else
     if (case prev of None \<Rightarrow> False | Some p \<Rightarrow> slot \<le> p) then Inl (Err InvalidWitness) else
     bind_r (rd payload e d) (\<lambda>proof.
     Inr (slot, proof, e))))))))"

fun parse_proof_entries ::
  "('s \<Rightarrow> nat \<Rightarrow> bytes \<Rightarrow> 's rust) \<Rightarrow> bytes \<Rightarrow> nat \<Rightarrow> nat \<Rightarrow> nat option \<Rightarrow> 's \<Rightarrow> (nat \<times> 's) rust"
where
  "parse_proof_entries f d 0 off prev s = Inr (off, s)"
| "parse_proof_entries f d (Suc n) off prev s =
     bind_r (parse_one_proof d off prev) (\<lambda>(slot, proof, e).
     bind_r (f s slot proof) (\<lambda>s'.
     parse_proof_entries f d n e (Some slot) s'))"

definition parse_proofs ::
  "bytes \<Rightarrow> witness_header \<Rightarrow> ('s \<Rightarrow> nat \<Rightarrow> bytes \<Rightarrow> 's rust) \<Rightarrow> 's \<Rightarrow> 's rust"
where
  "parse_proofs d header f s =
     bind_r (parse_proof_entries f d (wh_proof_count header) WITNESS_HEADER_LEN None s)
       (\<lambda>(off, s'). if off \<noteq> length d then Inl (Err InvalidWitness) else Inr s')"

end
