(* ===== verification/Layout.thy ===== *)
theory Layout
  imports Wire
begin

text \<open>
  The byte formats as the protocol documents describe them, independent of any parser or
  encoder: a proof entry and a whole AccountWitnessV1, an authenticator entry and a whole
  AccountStateV1. The parsers of \<open>Wire\<close> are shown to accept exactly these layouts and to
  return the fields they were laid out from.
\<close>

section \<open>Formats\<close>

definition proof_layout :: "nat \<times> bytes \<Rightarrow> bytes" where
  "proof_layout x = (case x of (slot, p) \<Rightarrow> le_bytes 2 slot @ [0, 0] @ le_bytes 4 (length p) @ p)"

definition proof_ok :: "nat \<times> bytes \<Rightarrow> bool" where
  "proof_ok x \<longleftrightarrow> fst x < 2 ^ 16 \<and> snd x \<noteq> [] \<and> length (snd x) < 2 ^ 32"

definition ascending_from :: "nat option \<Rightarrow> nat list \<Rightarrow> bool" where
  "ascending_from prev ss \<longleftrightarrow>
     sorted_wrt (<) ss \<and> (case prev of None \<Rightarrow> True | Some p \<Rightarrow> list_all ((<) p) ss)"

definition witness_layout :: "byte \<Rightarrow> nat \<Rightarrow> (nat \<times> bytes) list \<Rightarrow> bytes" where
  "witness_layout op seq ps =
     WITNESS_MAGIC @ [1, op, word_of_nat (length ps), 0] @ le_bytes 8 seq
     @ concat (map proof_layout ps)"

definition witness_ok :: "byte \<Rightarrow> nat \<Rightarrow> (nat \<times> bytes) list \<Rightarrow> bool" where
  "witness_ok op seq ps \<longleftrightarrow>
     op \<in> {OP_SPEND, OP_ROTATE, OP_RECOVERY} \<and> seq < 2 ^ 64 \<and> length ps < 256
     \<and> list_all proof_ok ps \<and> ascending_from None (map fst ps)
     \<and> length (witness_layout op seq ps) \<le> WITNESS_MAX_LOCK_LEN"

section \<open>Reading a layout\<close>

lemma rd_Inr_iff [result_simps]: "rd a b d = Inr x \<longleftrightarrow> a \<le> b \<and> b \<le> length d \<and> x = seg a b d"
  by (auto simp: rd_def)

lemma rd_byte_Inr_iff [result_simps]: "rd_byte i d = Inr x \<longleftrightarrow> i < length d \<and> x = d ! i"
  by (auto simp: rd_byte_def)

lemma le_u_Inr_iff [result_simps]:
  "le_u16 b = Inr n \<longleftrightarrow> length b = 2 \<and> n = of_le b"
  "le_u32 b = Inr n \<longleftrightarrow> length b = 4 \<and> n = of_le b"
  "le_u64 b = Inr n \<longleftrightarrow> length b = 8 \<and> n = of_le b"
  by (auto simp: le_u16_def le_u32_def le_u64_def)

lemma err_to_Inr_iff [result_simps]: "err_to e m = Inr x \<longleftrightarrow> m = Inr x"
  by (simp add: err_to_def result_simps)

lemma checked_end_Inr_iff [result_simps]:
  "checked_end off n limit = Inr e \<longleftrightarrow> e = off + n \<and> e \<le> limit \<and> e < 2 ^ 64"
  by (auto simp: checked_end_def checked_add_def)

lemma not_slot_le [result_simps]:
  "\<not> (case prev of None \<Rightarrow> False | Some p \<Rightarrow> (s :: nat) \<le> p)
     \<longleftrightarrow> (case prev of None \<Rightarrow> True | Some p \<Rightarrow> p < s)"
  by (simp add: not_le split: option.split)

lemma seg_drop: "seg (off + a) (off + b) d = seg a b (drop off d)"
  by (simp add: seg_def add.commute)

lemma drop_seg: "a \<le> b \<Longrightarrow> drop a d = seg a b d @ drop b d"
  by (metis append_take_drop_id drop_drop le_add_diff_inverse2 seg_def)

lemma seg_two: "Suc a < length d \<Longrightarrow> seg a (a + 2) d = [d ! a, d ! Suc a]"
  by (simp add: seg_def numeral_2_eq_2 take_Suc_conv_app_nth take_Suc hd_drop_conv_nth
      tl_drop [symmetric] drop_Suc [symmetric] del: drop_Suc)

lemma seg_le: "b - a = n \<Longrightarrow> b \<le> length d \<Longrightarrow> le_bytes n (of_le (seg a b d)) = seg a b d"
  by (rule le_bytes_of_le) simp

lemma of_le_seg_bound: "of_le (seg a b d) < 256 ^ (b - a)"
proof -
  have "of_le (seg a b d) < 256 ^ length (seg a b d)" by (rule of_le_bound)
  also have "(256 :: nat) ^ length (seg a b d) \<le> 256 ^ (b - a)"
    by (rule power_increasing) simp_all
  finally show ?thesis .
qed

section \<open>Proof entries\<close>

lemma length_proof_layout [simp, byte_simps]: "length (proof_layout (s, p)) = 8 + length p"
  by (simp add: proof_layout_def)

lemma parse_one_proof_fields:
  assumes "parse_one_proof d off prev = Inr (s, p, e)"
  shows "e = off + 8 + length p" and "e \<le> length d" and "proof_ok (s, p)"
    and "drop off d = proof_layout (s, p) @ drop e d"
    and "case prev of None \<Rightarrow> True | Some q \<Rightarrow> q < s"
proof -
  from assms have off: "off + 8 \<le> length d" and s: "s = of_le (seg off (off + 2) d)"
    and z: "d ! (off + 2) = 0" "d ! (off + 3) = 0"
    and e: "e = off + 8 + of_le (seg (off + 4) (off + 8) d)" "e \<le> length d"
    and p: "p = seg (off + 8) e d" and ne: "of_le (seg (off + 4) (off + 8) d) \<noteq> 0"
    and prev: "case prev of None \<Rightarrow> True | Some q \<Rightarrow> q < s"
    by (auto simp: parse_one_proof_def result_simps checked_add_def Let_def
        split: if_splits option.splits)
  have len: "length p = of_le (seg (off + 4) (off + 8) d)"
    using e p by simp
  show "e = off + 8 + length p" "e \<le> length d" "case prev of None \<Rightarrow> True | Some q \<Rightarrow> q < s"
    using e len prev by simp_all
  have "s < 2 ^ 16" using of_le_seg_bound [of off "off + 2" d] s by simp
  moreover have "length p < 2 ^ 32" using of_le_seg_bound [of "off + 4" "off + 8" d] len by simp
  ultimately show "proof_ok (s, p)" using ne len by (auto simp: proof_ok_def)
  have "drop off d = seg off (off + 2) d @ seg (off + 2) (off + 4) d @ seg (off + 4) (off + 8) d @ p @ drop e d"
    using e p by (simp add: drop_seg [symmetric] flip: append_assoc)
  moreover have "seg (off + 2) (off + 4) d = [0, 0]"
    using seg_two [of "off + 2" d] z off by (simp add: eval_nat_numeral)
  moreover have "le_bytes 2 s = seg off (off + 2) d" "le_bytes 4 (length p) = seg (off + 4) (off + 8) d"
    using s len off by (simp_all add: seg_le)
  ultimately show "drop off d = proof_layout (s, p) @ drop e d"
    by (simp add: proof_layout_def)
qed

lemma nth_drop_eq: "drop off d = xs \<Longrightarrow> i < length xs \<Longrightarrow> d ! (off + i) = xs ! i"
  by (metis add.commute add_less_cancel_right drop_eq_Nil leI length_drop less_diff_conv less_zeroE list.size(3) nat_less_le nth_drop)

lemma parse_one_proof_layout:
  assumes "drop off d = proof_layout (s, p) @ rest" and "proof_ok (s, p)" and "length d < 2 ^ 64"
    and "off \<le> length d"
    and "case prev of None \<Rightarrow> True | Some q \<Rightarrow> q < s"
  shows "parse_one_proof d off prev = Inr (s, p, off + 8 + length p)"
proof -
  have len: "length d = off + 8 + length p + length rest"
    using arg_cong [OF assms(1), of length] assms(4) by simp
  have seg: "seg (off + a) (off + b) d = seg a b (proof_layout (s, p) @ rest)" for a b
    by (simp add: seg_drop assms(1))
  have nth: "i < 8 \<Longrightarrow> d ! (off + i) = (proof_layout (s, p) @ rest) ! i" for i
    using assms(1) by (rule nth_drop_eq) simp
  have "seg off (off + 2) d = le_bytes 2 s" "seg (off + 4) (off + 8) d = le_bytes 4 (length p)"
    "seg (off + 8) (off + 8 + length p) d = p"
    using seg [of 0 2] seg [of 4 8] seg [of 8 "8 + length p"]
    by (simp_all add: proof_layout_def seg_def add.assoc)
  moreover have "d ! (off + 2) = 0" "d ! (off + 3) = 0"
    using nth [of 2] nth [of 3] by (simp_all add: proof_layout_def nth_append)
  ultimately show ?thesis
    using assms(2,3,5) len
    by (auto simp: parse_one_proof_def result_simps rd_def rd_byte_def le_u16_def le_u32_def
        err_to_def checked_end_def checked_add_def proof_ok_def split: option.splits)
qed

section \<open>Sequences of proofs\<close>

text \<open>Running a callback over the entries, as the parser does while it reads them.\<close>

fun fold_r :: "('s \<Rightarrow> 'a \<Rightarrow> 's rust) \<Rightarrow> 'a list \<Rightarrow> 's \<Rightarrow> 's rust" where
  "fold_r f [] s = Inr s"
| "fold_r f (x # xs) s = bind_r (f s x) (fold_r f xs)"

lemma fold_r_append: "fold_r f (xs @ ys) s = bind_r (fold_r f xs s) (fold_r f ys)"
  by (induction xs arbitrary: s) (auto simp: bind_r_def split: sum.split)

lemma ascending_from_Cons:
  "ascending_from prev (s # ss) \<longleftrightarrow>
     (case prev of None \<Rightarrow> True | Some q \<Rightarrow> q < s) \<and> ascending_from (Some s) ss"
  by (cases prev) (auto simp: ascending_from_def list_all_iff)

lemma ascending_from_Nil [simp]: "ascending_from prev []"
  by (simp add: ascending_from_def split: option.split)

lemma parse_proof_entries_sound:
  assumes "parse_proof_entries f d n off prev s = Inr (e, s')" and "off \<le> length d"
  shows "\<exists>ps. length ps = n \<and> list_all proof_ok ps \<and> ascending_from prev (map fst ps)
    \<and> drop off d = concat (map proof_layout ps) @ drop e d \<and> e \<le> length d
    \<and> fold_r (\<lambda>s (slot, p). f s slot p) ps s = Inr s'"
  using assms
proof (induction n arbitrary: off prev s)
  case 0
  then show ?case by auto
next
  case (Suc n)
  from Suc.prems(1) obtain slot p o1 s1 where one: "parse_one_proof d off prev = Inr (slot, p, o1)"
    and f: "f s slot p = Inr s1" and rest: "parse_proof_entries f d n o1 (Some slot) s1 = Inr (e, s')"
    by (auto simp: result_simps)
  note fields = parse_one_proof_fields [OF one]
  obtain ps where ps: "length ps = n" "list_all proof_ok ps" "ascending_from (Some slot) (map fst ps)"
    "drop o1 d = concat (map proof_layout ps) @ drop e d" "e \<le> length d"
    "fold_r (\<lambda>s (slot, p). f s slot p) ps s1 = Inr s'"
    using Suc.IH [OF rest fields(2)] by blast
  show ?case
    by (rule exI [of _ "(slot, p) # ps"])
       (use ps fields f in \<open>simp add: ascending_from_Cons\<close>)
qed

lemma parse_proof_entries_layout:
  assumes "drop off d = concat (map proof_layout ps) @ rest" and "list_all proof_ok ps"
    and "ascending_from prev (map fst ps)" and "length d < 2 ^ 64" and "off \<le> length d"
  shows "parse_proof_entries f d (length ps) off prev s =
    bind_r (fold_r (\<lambda>s (slot, p). f s slot p) ps s)
      (\<lambda>s'. Inr (off + length (concat (map proof_layout ps)), s'))"
  using assms
proof (induction ps arbitrary: off prev s)
  case (Cons x ps)
  obtain slot p where x: "x = (slot, p)" by (cases x)
  have one: "parse_one_proof d off prev = Inr (slot, p, off + 8 + length p)"
    using Cons.prems x by (intro parse_one_proof_layout [where rest = "concat (map proof_layout ps) @ rest"])
      (auto simp: ascending_from_Cons)
  have "drop (off + 8 + length p) d = concat (map proof_layout ps) @ rest"
    using Cons.prems(1) x
    by (metis add.commute add.left_commute append.assoc append_eq_conv_conj concat.simps(2) drop_drop length_proof_layout list.simps(9))
  moreover have "off + 8 + length p \<le> length d"
    using arg_cong [OF Cons.prems(1), of length] Cons.prems(5) x by simp
  ultimately have IH: "parse_proof_entries f d (length ps) (off + 8 + length p) (Some slot) s =
      bind_r (fold_r (\<lambda>s (slot, p). f s slot p) ps s)
        (\<lambda>s'. Inr (off + 8 + length p + length (concat (map proof_layout ps)), s'))" for s
    using Cons.prems x by (intro Cons.IH) (auto simp: ascending_from_Cons)
  show ?case
    by (cases "f s slot p") (simp_all add: x one IH, simp add: add.assoc)
qed simp

section \<open>AccountWitnessV1\<close>

lemma length_witness_layout: 
  "length (witness_layout op seq ps) = 16 + length (concat (map proof_layout ps))"
  by (simp add: witness_layout_def)

lemma parse_witness_header_Inr_iff:
  "parse_witness_header d = Inr h \<longleftrightarrow>
     16 \<le> length d \<and> length d \<le> WITNESS_MAX_LOCK_LEN \<and> seg 0 4 d = WITNESS_MAGIC \<and> d ! 4 = 1
     \<and> d ! 7 = 0 \<and> d ! 5 \<in> {OP_SPEND, OP_ROTATE, OP_RECOVERY}
     \<and> h = \<lparr>wh_operation = d ! 5, wh_proof_count = unat (d ! 6),
            wh_state_sequence = of_le (seg 8 16 d)\<rparr>"
  by (auto simp: parse_witness_header_def result_simps rd_def rd_byte_def le_u64_def err_to_def)

lemma split16: "16 \<le> length d \<Longrightarrow>
  d = seg 0 4 d @ [d ! 4, d ! 5, d ! 6, d ! 7] @ seg 8 16 d @ drop 16 d"
proof -
  assume len: "16 \<le> length d"
  have "d = seg 0 4 d @ seg 4 6 d @ seg 6 8 d @ seg 8 16 d @ drop 16 d"
    by (simp add: drop_seg [symmetric] flip: append_assoc)
  then show ?thesis
    using seg_two [of 4 d] seg_two [of 6 d] len by (simp add: eval_nat_numeral)
qed

lemma witness_layout_header:
  assumes "witness_ok op seq ps"
  shows "parse_witness_header (witness_layout op seq ps) =
    Inr \<lparr>wh_operation = op, wh_proof_count = length ps, wh_state_sequence = seq\<rparr>"
proof -
  have "seg 0 4 (witness_layout op seq ps) = WITNESS_MAGIC"
    "witness_layout op seq ps ! 4 = 1" "witness_layout op seq ps ! 5 = op"
    "witness_layout op seq ps ! 6 = word_of_nat (length ps)" "witness_layout op seq ps ! 7 = 0"
    "seg 8 16 (witness_layout op seq ps) = le_bytes 8 seq"
    by (simp_all add: witness_layout_def seg_def)
  then show ?thesis
    using assms
    by (simp add: parse_witness_header_Inr_iff witness_ok_def length_witness_layout unat_word_of_nat)
qed

lemma parse_witness_complete:
  assumes "witness_ok op seq ps"
  shows "parse_proofs (witness_layout op seq ps)
      \<lparr>wh_operation = op, wh_proof_count = length ps, wh_state_sequence = seq\<rparr> f s =
    fold_r (\<lambda>s (slot, p). f s slot p) ps s"
proof -
  have "drop 16 (witness_layout op seq ps) = concat (map proof_layout ps) @ []"
    by (simp add: witness_layout_def)
  then have "parse_proof_entries f (witness_layout op seq ps) (length ps) 16 None s =
      bind_r (fold_r (\<lambda>s (slot, p). f s slot p) ps s)
        (\<lambda>s'. Inr (16 + length (concat (map proof_layout ps)), s'))"
    using assms by (intro parse_proof_entries_layout [where rest = "[]"])
      (auto simp: witness_ok_def length_witness_layout)
  then show ?thesis
    by (cases "fold_r (\<lambda>s (slot, p). f s slot p) ps s")
       (simp_all add: parse_proofs_def length_witness_layout)
qed

lemma parse_witness_sound:
  assumes "parse_witness_header d = Inr h" and "parse_proofs d h f s = Inr s'"
  shows "\<exists>ps. d = witness_layout (wh_operation h) (wh_state_sequence h) ps
    \<and> witness_ok (wh_operation h) (wh_state_sequence h) ps \<and> length ps = wh_proof_count h
    \<and> fold_r (\<lambda>s (slot, p). f s slot p) ps s = Inr s'"
proof -
  from assms(1) have hd: "16 \<le> length d" "length d \<le> WITNESS_MAX_LOCK_LEN"
    "seg 0 4 d = WITNESS_MAGIC" "d ! 4 = 1" "d ! 7 = 0" "d ! 5 \<in> {OP_SPEND, OP_ROTATE, OP_RECOVERY}"
    and h: "h = \<lparr>wh_operation = d ! 5, wh_proof_count = unat (d ! 6),
            wh_state_sequence = of_le (seg 8 16 d)\<rparr>"
    unfolding parse_witness_header_Inr_iff by blast+
  from assms(2) have "parse_proof_entries f d (wh_proof_count h) 16 None s = Inr (length d, s')"
    by (auto simp: parse_proofs_def result_simps split: if_splits)
  from parse_proof_entries_sound [OF this] hd(1) obtain ps where ps: "length ps = wh_proof_count h"
    "list_all proof_ok ps" "ascending_from None (map fst ps)"
    "drop 16 d = concat (map proof_layout ps)" "fold_r (\<lambda>s (slot, p). f s slot p) ps s = Inr s'"
    by auto
  have "le_bytes 8 (of_le (seg 8 16 d)) = seg 8 16 d"
    using hd(1) by (simp add: seg_le)
  moreover have "word_of_nat (length ps) = d ! 6"
    using ps(1) h by simp
  ultimately have d: "d = witness_layout (wh_operation h) (wh_state_sequence h) ps"
    using split16 [OF hd(1)] hd h ps(4) by (simp add: witness_layout_def)
  have "length (witness_layout (wh_operation h) (wh_state_sequence h) ps) \<le> WITNESS_MAX_LOCK_LEN"
    using hd(2) by (simp only: d [symmetric])
  moreover have "of_le (seg 8 16 d) < 2 ^ 64"
    using of_le_seg_bound [of 8 16 d] by simp
  ultimately have "witness_ok (wh_operation h) (wh_state_sequence h) ps"
    unfolding witness_ok_def using hd(6) h ps(1-3) unat_bound [of "d ! 6"] by simp
  with d ps show ?thesis by blast
qed

end
