(* ===== verification/StateLayout.thy ===== *)
theory StateLayout
  imports Layout
begin

unbundle bit_operations_syntax

text \<open>
  The AccountStateV1 format and the refinement of \<open>validate_state\<close> to it: the consensus
  validator accepts a byte string exactly when it is the layout of a well-formed header and
  a strictly slot-ordered list of well-formed authenticators whose weights can satisfy every
  enabled threshold.
\<close>

section \<open>Format\<close>

definition entry_layout :: "authenticator_entry \<Rightarrow> bytes" where
  "entry_layout e =
     le_bytes 2 (48 + length (ae_key_id e) + length (ae_aux e)) @ le_bytes 2 (ae_slot e)
     @ le_bytes 2 (ae_algorithm_id e) @ le_bytes 2 (unat (ae_capabilities e))
     @ le_bytes 2 (ae_weight e) @ [ae_verifier_hash_type e, ae_verifier_abi e]
     @ ae_verifier_code_hash e @ le_bytes 2 (length (ae_key_id e)) @ le_bytes 2 (length (ae_aux e))
     @ ae_key_id e @ ae_aux e"

definition entry_ok :: "authenticator_entry \<Rightarrow> bool" where
  "entry_ok e \<longleftrightarrow>
     ae_slot e < 2 ^ 16 \<and> ae_algorithm_id e < 2 ^ 16 \<and> 0 < ae_weight e \<and> ae_weight e < 2 ^ 16
     \<and> ae_capabilities e AND NOT CAP_KNOWN_MASK = 0 \<and> unat (ae_verifier_hash_type e) \<le> 1
     \<and> ae_verifier_abi e = 1 \<and> length (ae_verifier_code_hash e) = 32
     \<and> 48 + length (ae_key_id e) + length (ae_aux e) < 2 ^ 16"

lemma length_entry_layout:
  "entry_ok e \<Longrightarrow> length (entry_layout e) = 48 + length (ae_key_id e) + length (ae_aux e)"
  by (simp add: entry_layout_def entry_ok_def)

lemma le_u_ok:
  "length b = 2 \<Longrightarrow> le_u16 b = Inr (of_le b)"
  "length b = 4 \<Longrightarrow> le_u32 b = Inr (of_le b)"
  "length b = 8 \<Longrightarrow> le_u64 b = Inr (of_le b)"
  by (simp_all add: le_u16_def le_u32_def le_u64_def)

lemma rd_ok: "a \<le> b \<Longrightarrow> b \<le> length d \<Longrightarrow> rd a b d = Inr (seg a b d)"
  by (simp add: rd_def)

lemma rd_byte_ok: "i < length d \<Longrightarrow> rd_byte i d = Inr (d ! i)"
  by (simp add: rd_byte_def)

lemma parse_entry_eq:
  assumes "off + 48 \<le> length d" and "length d < 2 ^ 64"
  shows "parse_entry d off prev =
    (let n = of_le (seg off (off + 2) d); slot = of_le (seg (off + 2) (off + 4) d);
         caps = word_of_nat (of_le (seg (off + 6) (off + 8) d)) :: 16 word;
         weight = of_le (seg (off + 8) (off + 10) d);
         k = of_le (seg (off + 44) (off + 46) d); a = of_le (seg (off + 46) (off + 48) d)
     in if n \<noteq> 48 + k + a \<or> off + n > length d
        then Inl (Err InvalidState)
        else if (case prev of None \<Rightarrow> False | Some p \<Rightarrow> slot \<le> p) \<or> weight = 0
          \<or> caps AND NOT CAP_KNOWN_MASK \<noteq> 0 then Inl (Err InvalidState)
        else if unat (d ! (off + 10)) > 1 \<or> d ! (off + 11) \<noteq> 1 then Inl (Err InvalidVerifierRef)
        else Inr (\<lparr>ae_slot = slot, ae_algorithm_id = of_le (seg (off + 4) (off + 6) d),
           ae_capabilities = caps, ae_weight = weight,
           ae_verifier_hash_type = d ! (off + 10), ae_verifier_abi = d ! (off + 11),
           ae_verifier_code_hash = seg (off + 12) (off + 44) d,
           ae_key_id = seg (off + 48) (off + 48 + k) d,
           ae_aux = seg (off + 48 + k) (off + n) d\<rparr>, n))"
proof -
  have "err_to InvalidState (checked_end off n (length d)) =
      (if off + n > length d then Inl (Err InvalidState) else Inr (off + n))" for n
    using assms by (simp add: checked_end_def checked_add_def err_to_def)
  then show ?thesis
    using assms(1) by (simp add: parse_entry_def le_u_ok rd_byte_ok rd_ok Let_def)
qed

lemma parse_entry_short: "length d < off + 48 \<Longrightarrow> parse_entry d off prev = Inl (Err InvalidState)"
  by (simp add: parse_entry_def checked_end_def checked_add_def err_to_def)

lemma parse_entry_Inr_iff:
  assumes "length d < 2 ^ 64"
  shows "parse_entry d off prev = Inr (e, n) \<longleftrightarrow>
    (let k = of_le (seg (off + 44) (off + 46) d); a = of_le (seg (off + 46) (off + 48) d)
     in off + n \<le> length d \<and> n = of_le (seg off (off + 2) d) \<and> n = 48 + k + a
        \<and> (case prev of None \<Rightarrow> True | Some q \<Rightarrow> q < ae_slot e)
        \<and> 0 < ae_weight e \<and> ae_capabilities e AND NOT CAP_KNOWN_MASK = 0
        \<and> unat (ae_verifier_hash_type e) \<le> 1 \<and> ae_verifier_abi e = 1
        \<and> e = \<lparr>ae_slot = of_le (seg (off + 2) (off + 4) d),
           ae_algorithm_id = of_le (seg (off + 4) (off + 6) d),
           ae_capabilities = word_of_nat (of_le (seg (off + 6) (off + 8) d)),
           ae_weight = of_le (seg (off + 8) (off + 10) d),
           ae_verifier_hash_type = d ! (off + 10), ae_verifier_abi = d ! (off + 11),
           ae_verifier_code_hash = seg (off + 12) (off + 44) d,
           ae_key_id = seg (off + 48) (off + 48 + k) d,
           ae_aux = seg (off + 48 + k) (off + n) d\<rparr>)"
proof (cases "off + 48 \<le> length d")
  case True
  then show ?thesis
    by (subst parse_entry_eq [OF True assms])
       (auto simp only: Let_def if_Inl_Inr_iff de_Morgan_disj not_slot_le not_less not_not
         authenticator_entry.select_convs prod.inject sum.inject neq0_conv)
next
  case False
  then show ?thesis
    by (auto simp: parse_entry_short Let_def)
qed

lemma parse_entry_fields:
  assumes "parse_entry d off prev = Inr (e, n)" and "length d < 2 ^ 64"
  shows "n = length (entry_layout e)" and "off + n \<le> length d" and "entry_ok e"
    and "drop off d = entry_layout e @ drop (off + n) d"
    and "case prev of None \<Rightarrow> True | Some q \<Rightarrow> q < ae_slot e"
proof -
  let ?k = "of_le (seg (off + 44) (off + 46) d)"
  let ?a = "of_le (seg (off + 46) (off + 48) d)"
  have raw: "off + n \<le> length d" "n = of_le (seg off (off + 2) d)" "n = 48 + ?k + ?a"
    "case prev of None \<Rightarrow> True | Some q \<Rightarrow> q < ae_slot e" "0 < ae_weight e"
    "ae_capabilities e AND NOT CAP_KNOWN_MASK = 0" "unat (ae_verifier_hash_type e) \<le> 1"
    "ae_verifier_abi e = 1"
    and e: "e = \<lparr>ae_slot = of_le (seg (off + 2) (off + 4) d),
           ae_algorithm_id = of_le (seg (off + 4) (off + 6) d),
           ae_capabilities = word_of_nat (of_le (seg (off + 6) (off + 8) d)),
           ae_weight = of_le (seg (off + 8) (off + 10) d),
           ae_verifier_hash_type = d ! (off + 10), ae_verifier_abi = d ! (off + 11),
           ae_verifier_code_hash = seg (off + 12) (off + 44) d,
           ae_key_id = seg (off + 48) (off + 48 + ?k) d,
           ae_aux = seg (off + 48 + ?k) (off + n) d\<rparr>"
    using assms(1) unfolding parse_entry_Inr_iff [OF assms(2)] Let_def by blast+
  have klen: "length (ae_key_id e) = ?k" and alen: "length (ae_aux e) = ?a"
    using raw(1,3) by (simp_all add: e)
  have caps: "unat (ae_capabilities e) = of_le (seg (off + 6) (off + 8) d)"
    using of_le_seg_bound [of "off + 6" "off + 8" d] by (simp add: e unat_of_nat)
  have "ae_slot e < 2 ^ 16" "ae_algorithm_id e < 2 ^ 16" "ae_weight e < 2 ^ 16" "n < 2 ^ 16"
    "length (ae_verifier_code_hash e) = 32"
    using of_le_seg_bound [of off "off + 2" d] of_le_seg_bound [of "off + 2" "off + 4" d]
      of_le_seg_bound [of "off + 4" "off + 6" d] of_le_seg_bound [of "off + 8" "off + 10" d] raw(1-3)
    by (simp_all add: e)
  then show ok: "entry_ok e"
    unfolding entry_ok_def using raw klen alen by simp
  show n: "n = length (entry_layout e)"
    using raw(3) klen alen ok by (simp add: length_entry_layout)
  show "off + n \<le> length d" "case prev of None \<Rightarrow> True | Some q \<Rightarrow> q < ae_slot e"
    using raw by simp_all
  have "drop off d = seg off (off + 2) d @ seg (off + 2) (off + 4) d @ seg (off + 4) (off + 6) d
      @ seg (off + 6) (off + 8) d @ seg (off + 8) (off + 10) d @ seg (off + 10) (off + 12) d
      @ seg (off + 12) (off + 44) d @ seg (off + 44) (off + 46) d @ seg (off + 46) (off + 48) d
      @ ae_key_id e @ ae_aux e @ drop (off + n) d"
    using raw(3) by (simp add: e drop_seg [symmetric])
  moreover have "seg (off + 10) (off + 12) d = [ae_verifier_hash_type e, ae_verifier_abi e]"
    using seg_two [of "off + 10" d] raw(1,3) by (simp add: e add.assoc) (simp add: eval_nat_numeral)
  moreover
  have le: "seg (off + i) (off + j) d = le_bytes 2 (of_le (seg (off + i) (off + j) d))"
    if "j = i + 2" and "j \<le> 48" for i j
    using raw(1,3) that by (simp add: seg_le)
  have "seg off (off + 2) d = le_bytes 2 (48 + length (ae_key_id e) + length (ae_aux e))"
    using le [of 2 0] raw(2,3) klen alen by simp
  moreover have "seg (off + 2) (off + 4) d = le_bytes 2 (ae_slot e)"
    "seg (off + 4) (off + 6) d = le_bytes 2 (ae_algorithm_id e)"
    "seg (off + 8) (off + 10) d = le_bytes 2 (ae_weight e)"
    using le [of 4 2] le [of 6 4] le [of 10 8] by (simp_all add: e)
  moreover have "seg (off + 6) (off + 8) d = le_bytes 2 (unat (ae_capabilities e))"
    "seg (off + 44) (off + 46) d = le_bytes 2 (length (ae_key_id e))"
    "seg (off + 46) (off + 48) d = le_bytes 2 (length (ae_aux e))"
    unfolding caps klen alen using le [of 8 6] le [of 46 44] le [of 48 46] by simp_all
  moreover have "seg (off + 12) (off + 44) d = ae_verifier_code_hash e"
    by (simp add: e)
  ultimately show "drop off d = entry_layout e @ drop (off + n) d"
    by (simp add: entry_layout_def)
qed

lemma entry_layout_aux:
  assumes "length (ae_verifier_code_hash e) = 32"
  shows "seg (48 + length (ae_key_id e)) (48 + length (ae_key_id e) + length (ae_aux e))
    (entry_layout e @ rest) = ae_aux e"
proof -
  define pre where "pre = le_bytes 2 (48 + length (ae_key_id e) + length (ae_aux e)) @ le_bytes 2 (ae_slot e)
     @ le_bytes 2 (ae_algorithm_id e) @ le_bytes 2 (unat (ae_capabilities e))
     @ le_bytes 2 (ae_weight e) @ [ae_verifier_hash_type e, ae_verifier_abi e]
     @ ae_verifier_code_hash e @ le_bytes 2 (length (ae_key_id e)) @ le_bytes 2 (length (ae_aux e))
     @ ae_key_id e"
  have "entry_layout e @ rest = pre @ ae_aux e @ rest" and "length pre = 48 + length (ae_key_id e)"
    using assms by (simp_all add: entry_layout_def pre_def)
  then show ?thesis by (simp add: seg_middle)
qed

lemma parse_entry_layout:
  assumes d: "drop off d = entry_layout e @ rest" and ok: "entry_ok e" and "length d < 2 ^ 64"
    and "off \<le> length d" and prev: "case prev of None \<Rightarrow> True | Some q \<Rightarrow> q < ae_slot e"
  shows "parse_entry d off prev = Inr (e, length (entry_layout e))"
proof -
  let ?n = "length (entry_layout e)"
  have n: "?n = 48 + length (ae_key_id e) + length (ae_aux e)"
    using ok by (rule length_entry_layout)
  have len: "length d = off + ?n + length rest"
    using arg_cong [OF d, of length] assms(4) by simp
  have seg: "seg (off + a) (off + b) d = seg a b (entry_layout e @ rest)" for a b
    by (simp add: seg_drop d)
  have nth: "i < 48 \<Longrightarrow> d ! (off + i) = (entry_layout e @ rest) ! i" for i
    using d by (rule nth_drop_eq) (simp add: n)
  have ch: "length (ae_verifier_code_hash e) = 32" using ok by (simp add: entry_ok_def)
  note sizes = entry_layout_def seg_def ch
  have segs: "seg off (off + 2) d = le_bytes 2 (48 + length (ae_key_id e) + length (ae_aux e))"
    "seg (off + 2) (off + 4) d = le_bytes 2 (ae_slot e)"
    "seg (off + 4) (off + 6) d = le_bytes 2 (ae_algorithm_id e)"
    "seg (off + 6) (off + 8) d = le_bytes 2 (unat (ae_capabilities e))"
    "seg (off + 8) (off + 10) d = le_bytes 2 (ae_weight e)"
    "seg (off + 12) (off + 44) d = ae_verifier_code_hash e"
    "seg (off + 44) (off + 46) d = le_bytes 2 (length (ae_key_id e))"
    "seg (off + 46) (off + 48) d = le_bytes 2 (length (ae_aux e))"
    "seg (off + 48) (off + 48 + length (ae_key_id e)) d = ae_key_id e"
    "seg (off + 48 + length (ae_key_id e)) (off + (48 + length (ae_key_id e) + length (ae_aux e))) d = ae_aux e"
    using seg [of 0 2] seg [of 2 4] seg [of 4 6] seg [of 6 8] seg [of 8 10] seg [of 12 44]
      seg [of 44 46] seg [of 46 48] seg [of 48 "48 + length (ae_key_id e)"]
      seg [of "48 + length (ae_key_id e)" "48 + length (ae_key_id e) + length (ae_aux e)"]
      entry_layout_aux [OF ch, of rest]
    by (simp_all add: sizes add.assoc)
  have nths: "d ! (off + 10) = ae_verifier_hash_type e" "d ! (off + 11) = ae_verifier_abi e"
    using nth [of 10] nth [of 11] by (simp_all add: entry_layout_def nth_append)
  have caps: "unat (ae_capabilities e) < 256 ^ 2"
    using unsigned_less [of "ae_capabilities e"] by simp
  show ?thesis
    using ok prev len n assms(3) caps
    by (simp add: parse_entry_def rd_def rd_byte_def le_u16_def err_to_def checked_end_def
        checked_add_def segs nths entry_ok_def not_slot_le [unfolded not_not])
qed

section \<open>Sequences of authenticators\<close>

abbreviation entries_layout :: "authenticator_entry list \<Rightarrow> bytes" where
  "entries_layout es \<equiv> concat (map entry_layout es)"

lemma parse_entries_sound:
  assumes "parse_entries f d n off prev s = Inr (e, s')" and "off \<le> length d" and "length d < 2 ^ 64"
  shows "\<exists>es. length es = n \<and> list_all entry_ok es \<and> ascending_from prev (map ae_slot es)
    \<and> drop off d = entries_layout es @ drop e d \<and> e \<le> length d \<and> fold_r f es s = Inr s'"
  using assms
proof (induction n arbitrary: off prev s)
  case 0
  then show ?case by auto
next
  case (Suc n)
  from Suc.prems(1) obtain x k s1 where one: "parse_entry d off prev = Inr (x, k)"
    and f: "f s x = Inr s1" and rest: "parse_entries f d n (off + k) (Some (ae_slot x)) s1 = Inr (e, s')"
    by (auto simp: result_simps)
  note fields = parse_entry_fields [OF one Suc.prems(3)]
  obtain es where es: "length es = n" "list_all entry_ok es" "ascending_from (Some (ae_slot x)) (map ae_slot es)"
    "drop (off + k) d = entries_layout es @ drop e d" "e \<le> length d" "fold_r f es s1 = Inr s'"
    using Suc.IH [OF rest fields(2) Suc.prems(3)] by blast
  show ?case
    by (rule exI [of _ "x # es"]) (use es fields f in \<open>simp add: ascending_from_Cons\<close>)
qed

lemma parse_entries_layout:
  assumes "drop off d = entries_layout es @ rest" and "list_all entry_ok es"
    and "ascending_from prev (map ae_slot es)" and "length d < 2 ^ 64" and "off \<le> length d"
  shows "parse_entries f d (length es) off prev s =
    bind_r (fold_r f es s) (\<lambda>s'. Inr (off + length (entries_layout es), s'))"
  using assms
proof (induction es arbitrary: off prev s)
  case (Cons x es)
  let ?n = "length (entry_layout x)"
  have one: "parse_entry d off prev = Inr (x, ?n)"
    using Cons.prems by (intro parse_entry_layout [where rest = "entries_layout es @ rest"])
      (auto simp: ascending_from_Cons)
  have "drop (off + ?n) d = drop ?n (drop off d)"
    by (simp add: add.commute)
  then have "drop (off + ?n) d = entries_layout es @ rest"
    using Cons.prems(1) by simp
  moreover have "off + ?n \<le> length d"
    using arg_cong [OF Cons.prems(1), of length] Cons.prems(5) by simp
  ultimately have IH: "parse_entries f d (length es) (off + ?n) (Some (ae_slot x)) s =
      bind_r (fold_r f es s) (\<lambda>s'. Inr (off + ?n + length (entries_layout es), s'))" for s
    using Cons.prems by (intro Cons.IH) (auto simp: ascending_from_Cons)
  show ?case
    by (cases "f s x") (simp_all add: one IH, simp add: add.assoc)
qed simp

section \<open>AccountStateV1\<close>

definition state_layout :: "state_header \<Rightarrow> authenticator_entry list \<Rightarrow> bytes" where
  "state_layout h es =
     ACCOUNT_STATE_MAGIC @ [1, sh_flags h] @ le_bytes 2 32 @ le_bytes 8 (sh_sequence h)
     @ le_bytes 2 (sh_spend_threshold h) @ le_bytes 2 (sh_rotate_threshold h)
     @ le_bytes 2 (sh_recovery_threshold h) @ [word_of_nat (sh_authenticator_count h), 0]
     @ le_bytes 8 (sh_recovery_since h) @ entries_layout es"

definition header_ok :: "state_header \<Rightarrow> bool" where
  "header_ok h \<longleftrightarrow>
     sh_flags h AND NOT STATE_FLAGS_KNOWN_MASK = 0 \<and> sh_sequence h < 2 ^ 64
     \<and> sh_spend_threshold h < 2 ^ 16 \<and> sh_rotate_threshold h < 2 ^ 16
     \<and> sh_recovery_threshold h < 2 ^ 16 \<and> 0 < sh_authenticator_count h
     \<and> sh_authenticator_count h \<le> MAX_AUTHENTICATORS \<and> sh_recovery_since h < 2 ^ 64"

lemma parse_state_header_eq:
  assumes "32 \<le> length d"
  shows "parse_state_header d =
      (if length d > ACCOUNT_STATE_MAX_LEN then Inl (Err InvalidState)
       else if seg 0 4 d \<noteq> ACCOUNT_STATE_MAGIC then Inl (Err InvalidState)
       else if d ! 4 \<noteq> 1 then Inl (Err UnsupportedVersion)
       else if d ! 5 AND NOT STATE_FLAGS_KNOWN_MASK \<noteq> 0 then Inl (Err InvalidState)
       else if of_le (seg 6 8 d) \<noteq> 32 then Inl (Err InvalidState)
       else if d ! 23 \<noteq> 0 then Inl (Err InvalidState)
       else if d ! 22 = 0 \<or> unat (d ! 22) > MAX_AUTHENTICATORS then Inl (Err InvalidState)
       else Inr \<lparr>sh_flags = d ! 5, sh_sequence = of_le (seg 8 16 d),
            sh_spend_threshold = of_le (seg 16 18 d), sh_rotate_threshold = of_le (seg 18 20 d),
            sh_recovery_threshold = of_le (seg 20 22 d), sh_authenticator_count = unat (d ! 22),
            sh_recovery_since = of_le (seg 24 32 d)\<rparr>)"
  using assms by (simp add: parse_state_header_def le_u_ok rd_byte_ok rd_ok)

lemma parse_state_header_Inr_iff:
  "parse_state_header d = Inr h \<longleftrightarrow>
     32 \<le> length d \<and> length d \<le> ACCOUNT_STATE_MAX_LEN \<and> seg 0 4 d = ACCOUNT_STATE_MAGIC
     \<and> d ! 4 = 1 \<and> d ! 5 AND NOT STATE_FLAGS_KNOWN_MASK = 0 \<and> of_le (seg 6 8 d) = 32
     \<and> d ! 23 = 0 \<and> d ! 22 \<noteq> 0 \<and> unat (d ! 22) \<le> MAX_AUTHENTICATORS
     \<and> h = \<lparr>sh_flags = d ! 5, sh_sequence = of_le (seg 8 16 d),
            sh_spend_threshold = of_le (seg 16 18 d), sh_rotate_threshold = of_le (seg 18 20 d),
            sh_recovery_threshold = of_le (seg 20 22 d), sh_authenticator_count = unat (d ! 22),
            sh_recovery_since = of_le (seg 24 32 d)\<rparr>"
proof (cases "32 \<le> length d")
  case True
  then show ?thesis
    unfolding parse_state_header_eq [OF True]
    by (auto simp only: if_Inl_Inr_iff not_less not_not de_Morgan_disj sum.inject)
qed (simp add: parse_state_header_def)

definition cap_weight :: "16 word \<Rightarrow> authenticator_entry list \<Rightarrow> nat" where
  "cap_weight c es = sum_list (map (\<lambda>e. if ae_capabilities e AND c \<noteq> 0 then ae_weight e else 0) es)"

definition weights :: "authenticator_entry list \<Rightarrow> state_summary" where
  "weights es = \<lparr>spend_weight = cap_weight CAP_SPEND es, rotate_weight = cap_weight CAP_ROTATE es,
     recovery_weight = cap_weight CAP_RECOVERY es\<rparr>"

definition entry_known :: "authenticator_entry \<Rightarrow> bool" where
  "entry_known e \<longleftrightarrow>
     is_supported_algorithm (ae_algorithm_id e) \<and> length (ae_key_id e) = 32 \<and> ae_aux e \<noteq> []"

definition thresholds_ok :: "state_header \<Rightarrow> state_summary \<Rightarrow> bool" where
  "thresholds_ok h sm \<longleftrightarrow>
     0 < sh_spend_threshold h \<and> sh_spend_threshold h \<le> spend_weight sm
     \<and> 0 < sh_rotate_threshold h \<and> sh_rotate_threshold h \<le> rotate_weight sm
     \<and> (if sh_flags h AND STATE_FLAG_RECOVERY_ENABLED \<noteq> 0
        then 0 < sh_recovery_threshold h \<and> sh_recovery_threshold h \<le> recovery_weight sm
        else sh_recovery_threshold h = 0 \<and> sh_recovery_since h = 0)"

definition state_ok :: "state_header \<Rightarrow> authenticator_entry list \<Rightarrow> bool" where
  "state_ok h es \<longleftrightarrow>
     header_ok h \<and> length es = sh_authenticator_count h \<and> list_all entry_ok es
     \<and> list_all entry_known es \<and> ascending_from None (map ae_slot es)
     \<and> length (state_layout h es) \<le> ACCOUNT_STATE_MAX_LEN \<and> thresholds_ok h (weights es)"

lemma cap_weight_simps [simp]:
  "cap_weight c [] = 0"
  "cap_weight c (e # es) = (if ae_capabilities e AND c \<noteq> 0 then ae_weight e else 0) + cap_weight c es"
  by (simp_all add: cap_weight_def)

lemma cap_weight_bound: "list_all entry_ok es \<Longrightarrow> cap_weight c es \<le> 65535 * length es"
  by (induction es) (auto simp: entry_ok_def)

lemma add_weight_ok:
  "acc + w < 2 ^ 32 \<Longrightarrow> add_weight b acc w = Inr (acc + (if b then w else 0))"
  by (simp add: add_weight_def)

lemma summarize_ok:
  assumes "entry_known e" and "spend_weight s + ae_weight e < 2 ^ 32"
    and "rotate_weight s + ae_weight e < 2 ^ 32" and "recovery_weight s + ae_weight e < 2 ^ 32"
  shows "summarize s e = Inr
    \<lparr>spend_weight = spend_weight s + cap_weight CAP_SPEND [e],
     rotate_weight = rotate_weight s + cap_weight CAP_ROTATE [e],
     recovery_weight = recovery_weight s + cap_weight CAP_RECOVERY [e]\<rparr>"
  using assms by (simp only: summarize_def entry_known_def add_weight_ok) simp

lemma summarize_unknown: "\<not> entry_known e \<Longrightarrow> \<exists>x. summarize s e = Inl x"
  by (auto simp: summarize_def entry_known_def)

lemma fold_summarize:
  assumes "list_all entry_ok es" and "spend_weight s + 65535 * length es < 2 ^ 32"
    and "rotate_weight s + 65535 * length es < 2 ^ 32" and "recovery_weight s + 65535 * length es < 2 ^ 32"
  shows "fold_r summarize es s = Inr s' \<longleftrightarrow> list_all entry_known es \<and> s' =
    \<lparr>spend_weight = spend_weight s + cap_weight CAP_SPEND es,
     rotate_weight = rotate_weight s + cap_weight CAP_ROTATE es,
     recovery_weight = recovery_weight s + cap_weight CAP_RECOVERY es\<rparr>"
  using assms
proof (induction es arbitrary: s)
  case Nil
  then show ?case by (cases s) auto
next
  case (Cons e es)
  show ?case
  proof (cases "entry_known e")
    case True
    have w: "ae_weight e < 65536" using Cons.prems(1) by (simp add: entry_ok_def)
    note step = summarize_ok [OF True, of s]
    show ?thesis
      using Cons.prems w True
      by (subst fold_r.simps) (subst step, simp, simp, simp, simp add: Cons.IH add.assoc)
  next
    case False
    with summarize_unknown [OF False, of s] show ?thesis by auto
  qed
qed

lemma length_state_layout: "length (state_layout h es) = 32 + length (entries_layout es)"
  by (simp add: state_layout_def)

lemma thresholds_eq:
  "(if sh_spend_threshold h = 0 \<or> sh_rotate_threshold h = 0
        \<or> sh_spend_threshold h > spend_weight sm \<or> sh_rotate_threshold h > rotate_weight sm
     then Inl (Err UnsatisfiableThreshold)
     else if sh_flags h AND STATE_FLAG_RECOVERY_ENABLED \<noteq> 0
     then if sh_recovery_threshold h = 0 \<or> sh_recovery_threshold h > recovery_weight sm
          then Inl (Err UnsatisfiableThreshold) else Inr (h, sm)
     else if sh_recovery_threshold h \<noteq> 0 \<or> sh_recovery_since h \<noteq> 0
     then Inl (Err InvalidState)
     else Inr (h, sm)) = Inr x \<longleftrightarrow> thresholds_ok h sm \<and> x = (h, sm)"
  by (auto simp: thresholds_ok_def)

lemma split32:
  assumes "32 \<le> length d"
  shows "d = seg 0 4 d @ [d ! 4, d ! 5] @ seg 6 8 d @ seg 8 16 d @ seg 16 18 d @ seg 18 20 d
    @ seg 20 22 d @ [d ! 22, d ! 23] @ seg 24 32 d @ drop 32 d"
proof -
  have "d = seg 0 4 d @ seg 4 6 d @ seg 6 8 d @ seg 8 16 d @ seg 16 18 d @ seg 18 20 d
    @ seg 20 22 d @ seg 22 24 d @ seg 24 32 d @ drop 32 d"
    by (simp add: drop_seg [symmetric])
  then show ?thesis
    using seg_two [of 4 d] seg_two [of 22 d] assms by (simp add: eval_nat_numeral)
qed

lemma state_layout_header:
  assumes "header_ok h" and "length (state_layout h es) \<le> ACCOUNT_STATE_MAX_LEN"
  shows "parse_state_header (state_layout h es) = Inr h"
proof -
  let ?d = "state_layout h es"
  have "seg 0 4 ?d = ACCOUNT_STATE_MAGIC" "?d ! 4 = 1" "?d ! 5 = sh_flags h"
    "seg 6 8 ?d = le_bytes 2 32" "seg 8 16 ?d = le_bytes 8 (sh_sequence h)"
    "seg 16 18 ?d = le_bytes 2 (sh_spend_threshold h)" "seg 18 20 ?d = le_bytes 2 (sh_rotate_threshold h)"
    "seg 20 22 ?d = le_bytes 2 (sh_recovery_threshold h)"
    "?d ! 22 = word_of_nat (sh_authenticator_count h)" "?d ! 23 = 0"
    "seg 24 32 ?d = le_bytes 8 (sh_recovery_since h)"
    by (simp_all add: state_layout_def seg_def nth_append)
  moreover have "unat (word_of_nat (sh_authenticator_count h) :: byte) = sh_authenticator_count h"
    using assms(1) by (intro unat_word_of_nat) (simp add: header_ok_def)
  moreover from this have "(word_of_nat (sh_authenticator_count h) :: byte) \<noteq> 0"
    using assms(1) by (metis header_ok_def less_numeral_extra(3) unsigned_0)
  ultimately show ?thesis
    using assms unfolding parse_state_header_Inr_iff by (simp add: header_ok_def length_state_layout)
qed

lemma parse_authenticators_layout:
  assumes "header_ok h" and "length es = sh_authenticator_count h" and "list_all entry_ok es"
    and "ascending_from None (map ae_slot es)" and "length (state_layout h es) \<le> ACCOUNT_STATE_MAX_LEN"
  shows "parse_authenticators (state_layout h es) h f s = fold_r f es s"
proof -
  have "drop 32 (state_layout h es) = entries_layout es @ []"
    by (simp add: state_layout_def)
  then have "parse_entries f (state_layout h es) (length es) 32 None s =
      bind_r (fold_r f es s) (\<lambda>s'. Inr (32 + length (entries_layout es), s'))"
    using assms by (intro parse_entries_layout [where rest = "[]"]) (auto simp: length_state_layout)
  then show ?thesis
    using assms(2) by (cases "fold_r f es s") (simp_all add: parse_authenticators_def length_state_layout)
qed

lemma parse_state_sound:
  assumes "parse_state_header d = Inr h" and "parse_authenticators d h f s = Inr s'"
  shows "\<exists>es. d = state_layout h es \<and> header_ok h \<and> length es = sh_authenticator_count h
    \<and> list_all entry_ok es \<and> ascending_from None (map ae_slot es)
    \<and> length (state_layout h es) \<le> ACCOUNT_STATE_MAX_LEN \<and> fold_r f es s = Inr s'"
proof -
  from assms(1) have hd: "32 \<le> length d" "length d \<le> ACCOUNT_STATE_MAX_LEN"
    "seg 0 4 d = ACCOUNT_STATE_MAGIC" "d ! 4 = 1" "d ! 5 AND NOT STATE_FLAGS_KNOWN_MASK = 0"
    "of_le (seg 6 8 d) = 32" "d ! 23 = 0" "d ! 22 \<noteq> 0" "unat (d ! 22) \<le> MAX_AUTHENTICATORS"
    and h: "h = \<lparr>sh_flags = d ! 5, sh_sequence = of_le (seg 8 16 d),
            sh_spend_threshold = of_le (seg 16 18 d), sh_rotate_threshold = of_le (seg 18 20 d),
            sh_recovery_threshold = of_le (seg 20 22 d), sh_authenticator_count = unat (d ! 22),
            sh_recovery_since = of_le (seg 24 32 d)\<rparr>"
    unfolding parse_state_header_Inr_iff by blast+
  from assms(2) have "parse_entries f d (sh_authenticator_count h) 32 None s = Inr (length d, s')"
    by (auto simp: parse_authenticators_def result_simps split: if_splits)
  from parse_entries_sound [OF this] hd(1,2) obtain es where es:
    "length es = sh_authenticator_count h" "list_all entry_ok es" "ascending_from None (map ae_slot es)"
    "drop 32 d = entries_layout es" "fold_r f es s = Inr s'"
    by auto
  have le: "j - i = n \<Longrightarrow> j \<le> 32 \<Longrightarrow> le_bytes n (of_le (seg i j d)) = seg i j d" for i j n
    using hd(1) by (simp add: seg_le)
  have d: "d = state_layout h es"
    using split32 [OF hd(1)] hd le [of 8 6 2] le [of 16 8 8] le [of 18 16 2] le [of 20 18 2]
      le [of 22 20 2] le [of 32 24 8] es(4)
    by (simp add: state_layout_def h)
  have "0 < unat (d ! 22)" using hd(8) by (metis gr0I unat_eq_zero)
  then have "header_ok h"
    unfolding header_ok_def h
    using hd(5,9) of_le_seg_bound [of 8 16 d] of_le_seg_bound [of 16 18 d] of_le_seg_bound [of 18 20 d]
      of_le_seg_bound [of 20 22 d] of_le_seg_bound [of 24 32 d] by simp
  moreover have "length (state_layout h es) \<le> ACCOUNT_STATE_MAX_LEN"
    using hd(2) by (simp only: d [symmetric])
  ultimately show ?thesis using d es by blast
qed

lemma fold_weights:
  assumes "list_all entry_ok es" and "length es \<le> MAX_AUTHENTICATORS"
  shows "fold_r summarize es \<lparr>spend_weight = 0, rotate_weight = 0, recovery_weight = 0\<rparr> = Inr sm
    \<longleftrightarrow> list_all entry_known es \<and> sm = weights es"
  using assms by (subst fold_summarize) (auto simp: weights_def)

lemma validate_state_iff:
  "validate_state d = Inr (h, sm) \<longleftrightarrow> (\<exists>es. d = state_layout h es \<and> state_ok h es \<and> sm = weights es)"
proof
  assume "validate_state d = Inr (h, sm)"
  then have p: "parse_state_header d = Inr h" "parse_authenticators d h summarize
      \<lparr>spend_weight = 0, rotate_weight = 0, recovery_weight = 0\<rparr> = Inr sm" "thresholds_ok h sm"
    by (auto simp only: validate_state_def bind_r_Inr_iff thresholds_eq prod.inject)
  obtain es where es: "d = state_layout h es" "header_ok h" "length es = sh_authenticator_count h"
    "list_all entry_ok es" "ascending_from None (map ae_slot es)"
    "length (state_layout h es) \<le> ACCOUNT_STATE_MAX_LEN"
    and f: "fold_r summarize es \<lparr>spend_weight = 0, rotate_weight = 0, recovery_weight = 0\<rparr> = Inr sm"
    using parse_state_sound [OF p(1,2)] by blast
  from f have "list_all entry_known es \<and> sm = weights es"
    using es(2,3,4) by (subst (asm) fold_weights) (auto simp: header_ok_def)
  with es p(3) show "\<exists>es. d = state_layout h es \<and> state_ok h es \<and> sm = weights es"
    unfolding state_ok_def by blast
next
  assume "\<exists>es. d = state_layout h es \<and> state_ok h es \<and> sm = weights es"
  then obtain es where d: "d = state_layout h es" and ok: "state_ok h es" and sm: "sm = weights es"
    by blast
  have "parse_state_header d = Inr h"
    using ok unfolding d state_ok_def by (intro state_layout_header) simp_all
  moreover have "parse_authenticators d h summarize
      \<lparr>spend_weight = 0, rotate_weight = 0, recovery_weight = 0\<rparr> = Inr sm"
    using ok fold_weights [of es] unfolding d state_ok_def
    by (subst parse_authenticators_layout) (auto simp: sm header_ok_def)
  ultimately show "validate_state d = Inr (h, sm)"
    using ok unfolding validate_state_def bind_r_Inr_iff thresholds_eq state_ok_def sm by blast
qed

section \<open>No panic\<close>

definition no_panic :: "'a rust \<Rightarrow> bool" where
  "no_panic m \<longleftrightarrow> m \<noteq> Inl Panic"

lemma no_panic_simps [simp]:
  "no_panic (Inr x)"
  "no_panic (Inl (Err e))"
  "no_panic (if c then m else n) \<longleftrightarrow> (if c then no_panic m else no_panic n)"
  by (simp_all add: no_panic_def)

lemma no_panic_bind [intro!]:
  "no_panic m \<Longrightarrow> (\<And>x. m = Inr x \<Longrightarrow> no_panic (f x)) \<Longrightarrow> no_panic (bind_r m f)"
  by (cases m) (auto simp: no_panic_def)

lemma parse_entry_no_panic: "length d < 2 ^ 64 \<Longrightarrow> no_panic (parse_entry d off prev)"
  by (cases "off + 48 \<le> length d") (simp_all add: parse_entry_eq parse_entry_short Let_def)

lemma parse_entries_no_panic:
  "length d < 2 ^ 64 \<Longrightarrow> (\<And>s e. no_panic (f s e)) \<Longrightarrow> no_panic (parse_entries f d n off prev s)"
  by (induction n arbitrary: off prev s) (auto simp: parse_entry_no_panic)

lemma parse_state_header_no_panic: "no_panic (parse_state_header d)"
  by (cases "32 \<le> length d") (simp_all add: parse_state_header_eq, simp add: parse_state_header_def)

lemma summarize_no_panic: "no_panic (summarize s e)"
  by (auto simp: summarize_def add_weight_def)

lemma validate_state_no_panic: "no_panic (validate_state d)"
  unfolding validate_state_def
proof (rule no_panic_bind [OF parse_state_header_no_panic])
  fix h assume "parse_state_header d = Inr h"
  then have "length d < 2 ^ 64" by (simp add: parse_state_header_Inr_iff)
  then show "no_panic (bind_r (parse_authenticators d h summarize
       \<lparr>spend_weight = 0, rotate_weight = 0, recovery_weight = 0\<rparr>) (\<lambda>sm.
     if sh_spend_threshold h = 0 \<or> sh_rotate_threshold h = 0
        \<or> sh_spend_threshold h > spend_weight sm \<or> sh_rotate_threshold h > rotate_weight sm
     then Inl (Err UnsatisfiableThreshold)
     else if sh_flags h AND STATE_FLAG_RECOVERY_ENABLED \<noteq> 0
     then if sh_recovery_threshold h = 0 \<or> sh_recovery_threshold h > recovery_weight sm
          then Inl (Err UnsatisfiableThreshold) else Inr (h, sm)
     else if sh_recovery_threshold h \<noteq> 0 \<or> sh_recovery_since h \<noteq> 0
     then Inl (Err InvalidState)
     else Inr (h, sm)))"
    by (auto simp: parse_authenticators_def parse_entries_no_panic summarize_no_panic)
qed

lemma parse_one_proof_no_panic:
  assumes "length d < 2 ^ 64"
  shows "no_panic (parse_one_proof d off prev)"
proof (cases "off + 8 \<le> length d")
  case True
  have "err_to InvalidWitness (checked_end (off + 8) n (length d)) =
      (if off + 8 + n > length d then Inl (Err InvalidWitness) else Inr (off + 8 + n))"
    "err_to InvalidWitness (checked_end off 8 (length d)) = Inr (off + 8)"
    "checked_add off 8 = Some (off + 8)" for n
    using assms True by (simp_all add: checked_end_def checked_add_def err_to_def)
  with True show ?thesis
    by (simp add: parse_one_proof_def le_u_ok rd_byte_ok rd_ok err_to_def)
next
  case False
  then show ?thesis by (simp add: parse_one_proof_def checked_end_def checked_add_def err_to_def)
qed

lemma parse_proof_entries_no_panic:
  "length d < 2 ^ 64 \<Longrightarrow> (\<And>s k p. no_panic (f s k p))
   \<Longrightarrow> no_panic (parse_proof_entries f d n off prev s)"
  by (induction n arbitrary: off prev s) (auto simp: parse_one_proof_no_panic)

lemma parse_witness_header_no_panic: "no_panic (parse_witness_header d)"
  by (auto simp: parse_witness_header_def le_u_ok rd_byte_ok rd_ok err_to_def)

section \<open>Properties\<close>

text \<open>
  C13: the consensus validator of AccountStateV1 (\<^verbatim>\<open>validate_state\<close>) accepts a byte string exactly
  when it is the layout of a well-formed header followed by its declared number of
  well-formed, known authenticators in strictly ascending slot order, every enabled threshold
  positive and reachable by the capability weights; it returns that header and those weights.
  In particular the encoding of a state is unique, and the 32-bit weight sums cannot overflow.
\<close>

theorem validate_state_refines_layout:
  "(validate_state d = Inr (h, sm)) = (\<exists>es. d = state_layout h es \<and> state_ok h es \<and> sm = weights es)"
  by (rule validate_state_iff)

text \<open>
  None of the consensus parsers can panic on any input: no slice or index of the lock args,
  state or witness parsers is ever out of range, whatever bytes a transaction supplies (the
  callback run on each proof is assumed not to panic itself).
\<close>

lemma parsers_never_panic:
  assumes "\<And>s k p. f s k p \<noteq> Inl Panic"
  shows "parse_lock_args d \<noteq> Inl Panic \<and> validate_state d \<noteq> Inl Panic
    \<and> bind_r (parse_witness_header d) (\<lambda>h. parse_proofs d h f s) \<noteq> Inl Panic"
  unfolding no_panic_def [symmetric]
proof (intro conjI validate_state_no_panic no_panic_bind [OF parse_witness_header_no_panic])
  show "no_panic (parse_lock_args d)"
    by (simp add: parse_lock_args_def rd_def rd_byte_def)
  fix h assume "parse_witness_header d = Inr h"
  then have "length d < 2 ^ 64" by (simp add: parse_witness_header_Inr_iff)
  then show "no_panic (parse_proofs d h f s)"
    using assms by (auto simp: parse_proofs_def no_panic_def [of "f _ _ _"] parse_proof_entries_no_panic)
qed

end
