(* ===== verification/AccountLock.thy ===== *)
theory AccountLock
  imports Protocol StateLayout
begin

text \<open>
  The parts of contracts/account-lock/src/main.rs that the browser has to agree with byte for
  byte: reading the lock field out of a serialized \<^verbatim>\<open>WitnessArgs\<close>, its canonical form, the group
  sighash and the authorization digest. The transaction the script runs in is the record
  \<open>script_env\<close>, \<open>H\<close> is the CKB hash. The theorems show that packing, sighash and digest of
  demo/src/shared/protocol.ts compute exactly what the lock script computes.
\<close>

section \<open>Molecule fields\<close>

definition al_le_u32 :: "bytes \<Rightarrow> nat rust" where
  "al_le_u32 b = (if length b \<noteq> 4 then Inl (Err InvalidWitness) else Inr (of_le b))"

definition table3_fields :: "bytes \<Rightarrow> (bytes \<times> bytes \<times> bytes) rust" where
  "table3_fields d =
     (if length d < 16 then Inl (Err InvalidWitness) else
      bind_r (bind_r (rd 0 4 d) al_le_u32) (\<lambda>n.
      if n \<noteq> length d then Inl (Err InvalidWitness) else
      bind_r (bind_r (rd 4 8 d) al_le_u32) (\<lambda>first.
      bind_r (bind_r (rd 8 12 d) al_le_u32) (\<lambda>second.
      bind_r (bind_r (rd 12 16 d) al_le_u32) (\<lambda>third.
      if first \<noteq> 16 \<or> first > second \<or> second > third \<or> third > length d
      then Inl (Err InvalidWitness)
      else
        bind_r (rd first second d) (\<lambda>f0.
        bind_r (rd second third d) (\<lambda>f1.
        bind_r (rd third (length d) d) (\<lambda>f2.
        Inr (f0, f1, f2)))))))))"

definition molecule_bytes :: "bytes \<Rightarrow> bytes rust" where
  "molecule_bytes f =
     (if length f < 4 then Inl (Err InvalidWitness) else
      bind_r (bind_r (rd 0 4 f) al_le_u32) (\<lambda>n.
      if n \<noteq> length f - 4 then Inl (Err InvalidWitness) else rd 4 (length f) f))"

definition witness_lock :: "bytes \<Rightarrow> bytes rust" where
  "witness_lock w =
     bind_r (table3_fields w) (\<lambda>(f0, f1, f2).
     if f0 = [] then Inl (Err InvalidWitness) else molecule_bytes f0)"

definition canonical_witness :: "bytes \<Rightarrow> bytes rust" where
  "canonical_witness w =
     bind_r (table3_fields w) (\<lambda>(f0, f1, f2).
     case Option.bind (checked_add 20 (length f1)) (\<lambda>v. checked_add v (length f2)) of
       None \<Rightarrow> Inl (Err LengthOverflow)
     | Some tot \<Rightarrow>
         (case checked_add 20 (length f1) of
            None \<Rightarrow> Inl (Err LengthOverflow)
          | Some third \<Rightarrow>
              Inr (le_bytes 4 tot @ le_bytes 4 16 @ le_bytes 4 20 @ le_bytes 4 third
                   @ le_bytes 4 0 @ f1 @ f2)))"

section \<open>Sighash and digest\<close>

record script_env =
  env_txHash :: bytes
  env_groupWitnesses :: "bytes list"
  env_extraWitnesses :: "bytes list"

definition MAX_WITNESS :: nat where
  "MAX_WITNESS = WITNESS_MAX_LOCK_LEN + 1024"

text \<open>A witness longer than the bound, or a missing one, does not load.\<close>

definition env_load_witness :: "bytes option \<Rightarrow> bytes rust" where
  "env_load_witness w = (case w of
     None \<Rightarrow> Inl (Err InvalidWitness)
   | Some b \<Rightarrow> if length b \<le> MAX_WITNESS then Inr b else Inl (Err InvalidWitness))"

definition hash_witness :: "bytes \<Rightarrow> bytes" where
  "hash_witness w = le_bytes 8 (length w) @ w"

definition env_group_sighash :: "(bytes \<Rightarrow> bytes) \<Rightarrow> script_env \<Rightarrow> bytes rust" where
  "env_group_sighash H env =
     bind_r (env_load_witness (idx (env_groupWitnesses env) 0)) (\<lambda>first.
     bind_r (canonical_witness first) (\<lambda>canonical.
     if length (env_txHash env) \<noteq> 32 then Inl (Err InvalidWitness) else
     bind_r (map_r (\<lambda>w. env_load_witness (Some w)) (drop 1 (env_groupWitnesses env))) (\<lambda>g.
     bind_r (map_r (\<lambda>w. env_load_witness (Some w)) (env_extraWitnesses env)) (\<lambda>e.
     Inr (H (env_txHash env @ hash_witness canonical @ concat (map hash_witness (g @ e))))))))"

definition authorization_digest ::
  "(bytes \<Rightarrow> bytes) \<Rightarrow> byte \<Rightarrow> bytes \<Rightarrow> nat \<Rightarrow> bytes \<Rightarrow> bytes \<Rightarrow> bytes"
where
  "authorization_digest H op account_id seq state sighash =
     H (AUTH_DOMAIN @ [op] @ account_id @ le_bytes 8 seq @ H state @ sighash)"

section \<open>Reading a serialized WitnessArgs\<close>

lemma table3_fields_mol:
  assumes "length (mol_table3 a b c) < 2 ^ 32"
  shows "table3_fields (mol_table3 a b c) = Inr (a, b, c)"
proof -
  let ?d = "mol_table3 a b c"
  note f = mol_table3_fields [OF assms]
  have "seg (16 + length a + length b) (length ?d) ?d = c"
    using f(7) by (simp add: seg_def)
  with f show ?thesis
    by (simp add: table3_fields_def rd_ok al_le_u32_def)
qed

lemma molecule_bytes_Some:
  "length w < 2 ^ 32 \<Longrightarrow> molecule_bytes (mol_bytes_opt (Some w)) = Inr w"
  by (simp add: molecule_bytes_def mol_bytes_opt_def rd_def al_le_u32_def seg_def)

lemma witness_lock_mol:
  assumes "length (mol_witness_args (Some w) i o') < 2 ^ 32"
  shows "witness_lock (mol_witness_args (Some w) i o') = Inr w"
proof -
  have "mol_bytes_opt (Some w) \<noteq> []" by (simp add: mol_bytes_opt_def)
  moreover have "length w < 2 ^ 32" using assms by (simp add: mol_witness_args_def)
  ultimately show ?thesis
    using assms unfolding witness_lock_def mol_witness_args_def
    by (simp only: table3_fields_mol bind_r_simps case_prod_conv if_False molecule_bytes_Some)
qed

lemma canonical_witness_mol:
  assumes "length (mol_witness_args l i o') < 2 ^ 32" and "length (mol_witness_args (Some []) i o') < 2 ^ 32"
  shows "canonical_witness (mol_witness_args l i o') = Inr (mol_witness_args (Some []) i o')"
  using assms unfolding canonical_witness_def mol_witness_args_def
  by (simp only: table3_fields_mol bind_r_simps case_prod_conv)
     (simp add: checked_add_def mol_table3_def mol_bytes_opt_def)

section \<open>The two sides of the sighash\<close>

lemma hexFromBytes_Nil: "hexFromBytes [] = ''0x''"
  by simp

lemma lengthPrefixed_Inr_iff [result_simps]:
  "lengthPrefixed w = Inr b \<longleftrightarrow> b = hash_witness w \<and> int (8 + length w) \<le> max_safe_integer"
  by (auto simp: lengthPrefixed_def hash_witness_def result_simps max_safe_integer_def)

lemma lengthPrefixed_ok:
  "length w \<le> 2 ^ 32 \<Longrightarrow> lengthPrefixed w = Inr (hash_witness w)"
  by (simp add: lengthPrefixed_Inr_iff max_safe_integer_def)

lemma map_r_ok: "(\<And>x. x \<in> set xs \<Longrightarrow> f x = Inr (g x)) \<Longrightarrow> map_r f xs = Inr (map g xs)"
  by (induction xs) auto

lemma groupSighash_mol:
  assumes "ccc_molecule C" and "length txHash = 32"
    and "length (mol_witness_args l i o') < 2 ^ 32" and "length (mol_witness_args (Some []) i o') < 2 ^ 32"
    and "\<forall>w \<in> set (gs @ es). length w \<le> 2 ^ 32"
    and "int (length (concat (map hash_witness (gs @ es)))) \<le> 2 ^ 52"
  shows "groupSighash C txHash (mol_witness_args l i o' # gs) es =
    ckbHash C (txHash @ hash_witness (mol_witness_args (Some []) i o') @ concat (map hash_witness (gs @ es)))"
proof -
  let ?c = "mol_witness_args (Some []) i o'"
  have canon: "ccc_witnessArgsFromBytes C (mol_witness_args l i o') = Inr (witness_args_hex l i o')"
    "ccc_witnessArgsToBytes C (witness_args_hex (Some []) i o') = ?c"
    using ccc_moleculeD [OF assms(1)] assms(3,4) by simp_all
  have parts: "lengthPrefixed ?c = Inr (hash_witness ?c)"
    "map_r lengthPrefixed gs = Inr (map hash_witness gs)" "map_r lengthPrefixed es = Inr (map hash_witness es)"
    using assms(4,5) by (auto intro!: lengthPrefixed_ok map_r_ok)
  have "bytesConcat ([txHash, hash_witness ?c] @ map hash_witness gs @ map hash_witness es) =
      Inr (concat ([txHash, hash_witness ?c] @ map hash_witness gs @ map hash_witness es))"
    using assms(2,4,6) by (intro bytesConcat_ok) (simp add: hash_witness_def [of ?c] max_safe_integer_def)
  then show ?thesis
    using assms(2) canon parts
    by (simp add: groupSighash_def requireLength_def witness_args_hex_def hexFromBytes_Nil Let_def)
qed

lemma map_load_ok:
  "\<forall>w \<in> set ws. length w \<le> MAX_WITNESS \<Longrightarrow> map_r (\<lambda>w. env_load_witness (Some w)) ws = Inr ws"
  using map_r_ok [of ws "\<lambda>w. env_load_witness (Some w)" id] by (simp add: env_load_witness_def)

lemma ckbHash_length: "ccc_hex C \<Longrightarrow> ccc_hashes C \<Longrightarrow> \<exists>h. ckbHash C d = Inr h \<and> length h = 32"
  unfolding ccc_hex_def ccc_hashes_def hash32_def ckbHash_def by metis

text \<open>
  \<open>hash_agrees C H\<close>: the browser's hash function is the one the lock script uses, and its
  results are 32 bytes long.
\<close>

definition hash_agrees :: "ccc \<Rightarrow> (bytes \<Rightarrow> bytes) \<Rightarrow> bool" where
  "hash_agrees C H \<longleftrightarrow> (\<forall>d. ckbHash C d = Inr (H d) \<and> length (H d) = 32)"

definition digest_preimage :: "(bytes \<Rightarrow> bytes) \<Rightarrow> authorization_input \<Rightarrow> bytes" where
  "digest_preimage H i =
     AUTH_DOMAIN @ [word_of_int (operation i)] @ accountId i @ le_bytes 8 (nat (sequence i))
     @ H (state_data i) @ group_sighash i"

definition authorization_ok :: "authorization_input \<Rightarrow> bool" where
  "authorization_ok i \<longleftrightarrow>
     operation i \<in> {1, 2, 3} \<and> length (accountId i) = 32 \<and> 0 \<le> sequence i \<and> sequence i < 2 ^ 64
     \<and> length (group_sighash i) = 32"

lemma length_AUTH_DOMAIN [simp]: "length AUTH_DOMAIN = 19"
  by (simp add: AUTH_DOMAIN_def ascii_def)

lemma authorizationDigest_Inr_iff:
  assumes "hash_agrees C H"
  shows "authorizationDigest C i = Inr d \<longleftrightarrow> authorization_ok i \<and> d = H (digest_preimage H i)"
proof -
  have h: "ckbHash C x = Inr (H x)" "length (H x) = 32" for x
    using assms by (simp_all add: hash_agrees_def)
  have sq: "u64le (sequence i) = Inr b \<longleftrightarrow>
      0 \<le> sequence i \<and> sequence i < 2 ^ 64 \<and> b = le_bytes 8 (nat (sequence i))" for b
    by (auto simp: u64le_Inr_nat_iff nat_less_iff intro: exI [of _ "nat (sequence i)"])
  show ?thesis
    by (auto simp: authorizationDigest_def requireOperation_def requireLength_def result_simps
        sq h authorization_ok_def digest_preimage_def max_safe_integer_def)
qed

lemma digest_preimage_fields:
  assumes "hash_agrees C H" and "authorization_ok i" and "authorization_ok j"
    and "digest_preimage H i = digest_preimage H j"
  shows "operation i = operation j \<and> accountId i = accountId j \<and> sequence i = sequence j
    \<and> H (state_data i) = H (state_data j) \<and> group_sighash i = group_sighash j"
proof -
  have len: "length (H x) = 32" for x using assms(1) by (simp add: hash_agrees_def)
  have op: "(word_of_int a :: byte) = word_of_int b \<Longrightarrow> a \<in> {1, 2, 3} \<Longrightarrow> b \<in> {1, 2, 3} \<Longrightarrow> a = b" for a b :: int
    by auto
  have eqs: "(word_of_int (operation i) :: byte) = word_of_int (operation j)" "accountId i = accountId j"
    "le_bytes 8 (nat (sequence i)) = le_bytes 8 (nat (sequence j))" "H (state_data i) = H (state_data j)"
    "group_sighash i = group_sighash j"
    using assms(2-4) len by (auto simp: digest_preimage_def authorization_ok_def)
  have "nat (sequence i) = nat (sequence j)"
    using arg_cong [OF eqs(3), of of_le] assms(2,3) by (simp add: authorization_ok_def nat_less_iff)
  then have "sequence i = sequence j" using assms(2,3) by (metis authorization_ok_def eq_nat_nat_iff)
  moreover have "operation i = operation j" using eqs(1) assms(2,3) op by (simp add: authorization_ok_def)
  ultimately show ?thesis using eqs by simp
qed

lemma ref_hash_agrees: "hash_agrees ref_ccc (\<lambda>d. le_bytes 32 (of_le d))"
  by (simp add: hash_agrees_def ckbHash_def ref_ccc_def ref_digest_def)

section \<open>Properties\<close>

text \<open>
  A witness the browser packs is read back by the lock script. For every AccountWitnessV1
  of at most the protocol's maximal length, \<^verbatim>\<open>packAccountWitness\<close> gives a \<^verbatim>\<open>WitnessArgs\<close> that the
  contract loads and whose lock field the contract reads as exactly that witness, and
  \<^verbatim>\<open>unpackAccountWitness\<close> gives it back too.
\<close>

lemma packed_witness_read_on_chain:
  assumes "ccc_hex C" and "ccc_molecule C" and "length w \<le> ACCOUNT_WITNESS_MAX_LOCK_LEN"
  shows "unpackAccountWitness C (packAccountWitness C w) = Inr w
    \<and> bind_r (env_load_witness (Some (packAccountWitness C w))) witness_lock = Inr w"
proof -
  have len: "length (mol_witness_args (Some w) None None) = 20 + length w"
    by (simp add: mol_witness_args_def)
  then have bound: "length (mol_witness_args (Some w) None None) < 2 ^ 32"
    using assms(3) by (simp add: ACCOUNT_WITNESS_MAX_LOCK_LEN_def)
  note mol = ccc_moleculeD [OF assms(2) bound]
  have pack: "packAccountWitness C w = mol_witness_args (Some w) None None"
    using mol(1) by (simp add: packAccountWitness_def witness_args_hex_def)
  have "unpackAccountWitness C (packAccountWitness C w) = Inr w"
    using assms(1) by (simp add: unpackAccountWitness_def pack mol(2) witness_args_hex_def ccc_hex_def)
  moreover have "env_load_witness (Some (packAccountWitness C w)) = Inr (mol_witness_args (Some w) None None)"
    using assms(3) len by (simp add: env_load_witness_def pack MAX_WITNESS_def ACCOUNT_WITNESS_MAX_LOCK_LEN_def)
  ultimately show ?thesis
    using witness_lock_mol [OF bound] by simp
qed

lemma env_sighash_agrees:
  assumes "ccc_molecule C" and "hash_agrees C H" and "length txHash = 32"
    and "length (mol_witness_args l i o') \<le> MAX_WITNESS"
    and "\<forall>w \<in> set (gs @ es). length w \<le> MAX_WITNESS"
    and "int (length (concat (map hash_witness (gs @ es)))) \<le> 2 ^ 52"
  shows "\<exists>h. groupSighash C txHash (mol_witness_args l i o' # gs) es = Inr h
    \<and> env_group_sighash H
        \<lparr>env_txHash = txHash, env_groupWitnesses = mol_witness_args l i o' # gs, env_extraWitnesses = es\<rparr>
      = Inr h"
proof -
  have len: "length (mol_witness_args l i o') < 2 ^ 32" "length (mol_witness_args (Some []) i o') < 2 ^ 32"
    using assms(4) by (simp_all add: MAX_WITNESS_def mol_witness_args_def)
  have "\<forall>w \<in> set (gs @ es). length w \<le> 2 ^ 32"
    using assms(5) by (fastforce simp: MAX_WITNESS_def)
  then have ts: "groupSighash C txHash (mol_witness_args l i o' # gs) es =
      Inr (H (txHash @ hash_witness (mol_witness_args (Some []) i o') @ concat (map hash_witness (gs @ es))))"
    using assms(2) groupSighash_mol [OF assms(1,3) len _ assms(6)] by (simp add: hash_agrees_def)
  have "map_r (\<lambda>w. env_load_witness (Some w)) gs = Inr gs" "map_r (\<lambda>w. env_load_witness (Some w)) es = Inr es"
    using assms(5) by (auto intro: map_load_ok)
  moreover have "env_load_witness (idx (mol_witness_args l i o' # gs) 0) = Inr (mol_witness_args l i o')"
    using assms(4) by (simp add: env_load_witness_def idx_def)
  ultimately show ?thesis
    using ts assms(3) canonical_witness_mol [OF len] by (simp add: env_group_sighash_def)
qed

text \<open>
  The group sighash does not depend on the lock field of the first witness. The digest
  signed over the transaction with its placeholder witness is therefore the digest of the
  transaction with the signature put in, whatever the two lock fields are.
\<close>

lemma group_sighash_ignores_lock:
  assumes "ccc_molecule C" and "length (mol_witness_args l i o') < 2 ^ 32"
    and "length (mol_witness_args l' i o') < 2 ^ 32"
  shows "groupSighash C txHash (mol_witness_args l i o' # gs) es =
    groupSighash C txHash (mol_witness_args l' i o' # gs) es"
  using assms by (simp add: groupSighash_def ccc_molecule_def witness_args_hex_def)

text \<open>
  \<^verbatim>\<open>authorizationDigest\<close> returns exactly when the operation is one of the three, the account
  id and the sighash are 32 bytes and the sequence is a 64-bit number, and then it is the
  digest the lock script computes from the same operation, account, sequence, state and sighash.
\<close>

lemma authorization_digest_agrees:
  assumes "hash_agrees C H"
  shows "(authorizationDigest C i = Inr d) =
    (authorization_ok i \<and> d = authorization_digest H (word_of_int (operation i)) (accountId i)
       (nat (sequence i)) (state_data i) (group_sighash i))"
  by (simp add: authorizationDigest_Inr_iff [OF assms] authorization_digest_def digest_preimage_def)

text \<open>
  C12: a digest authorizes one thing. If two authorization inputs have the same digest, then
  they agree in operation, account, sequence, sighash and state, unless the two different
  digest preimages, or the two different states, are themselves a collision of the hash.
\<close>

theorem authorization_digest_binding:
  assumes "hash_agrees C H" and "authorizationDigest C i = Inr d" and "authorizationDigest C j = Inr d"
  shows "i = j
    \<or> digest_preimage H i \<noteq> digest_preimage H j \<and> H (digest_preimage H i) = H (digest_preimage H j)
    \<or> state_data i \<noteq> state_data j \<and> H (state_data i) = H (state_data j)"
  using digest_preimage_fields [OF assms(1), of i j] assms
  by (simp add: authorizationDigest_Inr_iff) (metis authorization_input.equality old.unit.exhaust)

theorem authorization_digest_binding_witness:
  "\<exists>d. \<forall>j. authorizationDigest ref_ccc
        \<lparr>operation = 1, accountId = replicate 32 1, sequence = 7, state_data = [1], group_sighash = replicate 32 2\<rparr>
      = Inr d
    \<and> (authorizationDigest ref_ccc j = Inr d \<and> operation j = 2 \<longrightarrow>
       digest_preimage (\<lambda>d. le_bytes 32 (of_le d)) j \<noteq> digest_preimage (\<lambda>d. le_bytes 32 (of_le d))
         \<lparr>operation = 1, accountId = replicate 32 1, sequence = 7, state_data = [1], group_sighash = replicate 32 2\<rparr>
       \<or> state_data j \<noteq> [1])"
proof -
  let ?i = "\<lparr>operation = 1, accountId = replicate 32 1, sequence = 7, state_data = [1], group_sighash = replicate 32 2\<rparr>"
  have "authorization_ok ?i" by (simp add: authorization_ok_def)
  then obtain d where d: "authorizationDigest ref_ccc ?i = Inr d"
    using authorizationDigest_Inr_iff [OF ref_hash_agrees] by blast
  show ?thesis
    using d authorization_digest_binding [OF ref_hash_agrees d] by fastforce
qed

end
