(* ===== verification/Manifests.thy ===== *)
theory Manifests
  imports Codecs AccountLock
begin

text \<open>
  demo/src/shared/manifests.ts: turning untrusted manifest JSON into verified scripts and cell
  dependencies. \<^verbatim>\<open>Script.from\<close> and \<^verbatim>\<open>CellDep.from\<close> copy their (already canonical) fields.
\<close>

section \<open>Definitions\<close>

definition TYPE_ID_CODE_HASH :: string where
  "TYPE_ID_CODE_HASH = ''0x00000000000000000000000000000000000000000000000000545950455f4944''"

record verified_deployment =
  vd_manifest :: deployment_manifest
  accountLockCode :: script
  verifierP256Code :: script
  accountLockDep :: cell_dep
  verifierP256Dep :: cell_dep

record verified_account =
  va_manifest :: account_manifest
  va_deployment :: verified_deployment
  accountLock :: script
  stateType :: script
  stateDep :: cell_dep

definition invalidManifest :: "string \<Rightarrow> js_error" where
  "invalidManifest label = TypeError (label @ '' manifest is invalid'')"

definition code_dep :: "string \<Rightarrow> int \<Rightarrow> cell_dep" where
  "code_dep h i = \<lparr>dep_outPoint = \<lparr>op_txHash = h, op_index = i\<rparr>, depType = ''code''\<rparr>"

definition validateDeployment :: "zod \<Rightarrow> js_value \<Rightarrow> verified_deployment js" where
  "validateDeployment Z value = (case parse_as Z DeploymentManifestSchema deployment_manifest_of value of
     None \<Rightarrow> Inl (invalidManifest ''Deployment'')
   | Some manifest \<Rightarrow>
       Inr \<lparr>vd_manifest = manifest,
            accountLockCode = \<lparr>codeHash = da_dataHash (dm_account_lock manifest),
              hashType = da_hashType (dm_account_lock manifest), args = ''0x''\<rparr>,
            verifierP256Code = \<lparr>codeHash = da_dataHash (dm_verifier_p256 manifest),
              hashType = da_hashType (dm_verifier_p256 manifest), args = ''0x''\<rparr>,
            accountLockDep = code_dep (da_txHash (dm_account_lock manifest)) (da_index (dm_account_lock manifest)),
            verifierP256Dep = code_dep (da_txHash (dm_verifier_p256 manifest)) (da_index (dm_verifier_p256 manifest))\<rparr>)"

definition validateAccount :: "ccc \<Rightarrow> zod \<Rightarrow> js_value \<Rightarrow> verified_deployment \<Rightarrow> verified_account js" where
  "validateAccount C Z value deployment = (case parse_as Z AccountManifestSchema account_manifest_of value of
     None \<Rightarrow> Inl (invalidManifest ''Account'')
   | Some manifest \<Rightarrow>
       if am_lock_code_hash manifest \<noteq> codeHash (accountLockCode deployment)
       then Inl (TypeError ''Account manifest does not match the verified deployment'')
       else if mo_index (am_state_out_point manifest) \<noteq> 0 \<or> mo_index (am_asset_out_point manifest) \<noteq> 1
         \<or> mo_tx_hash (am_state_out_point manifest) \<noteq> mo_tx_hash (am_asset_out_point manifest)
       then Inl (TypeError ''Account manifest has invalid bootstrap outpoints'')
       else
         let lock = \<lparr>codeHash = am_lock_code_hash manifest, hashType = am_lock_hash_type manifest,
                     args = am_lock_args manifest\<rparr>;
             expectedArgs = ''0x01'' @ drop 2 (am_account_id manifest)
         in
         if args lock \<noteq> expectedArgs
         then Inl (TypeError ''AccountLock args do not bind the account ID'')
         else
           let st = \<lparr>codeHash = TYPE_ID_CODE_HASH, hashType = ''type'', args = am_type_id_args manifest\<rparr> in
           if ccc_scriptHash C st \<noteq> am_account_id manifest
           then Inl (TypeError ''Type ID script hash does not match the account ID'')
           else Inr \<lparr>va_manifest = manifest, va_deployment = deployment, accountLock = lock, stateType = st,
                stateDep = code_dep (mo_tx_hash (am_state_out_point manifest)) (mo_index (am_state_out_point manifest))\<rparr>)"

section \<open>Hex strings of fixed length\<close>

lemma hex_pairs_iff: "hex_pairs s \<longleftrightarrow> even (length s) \<and> list_all is_hex s"
  by (induction s rule: hex_pairs.induct) auto

lemma prefixed_hex_iff_bytes:
  assumes "hex_pairs (drop 2 p)" and "take 2 p = ''0x''" and "0 < n"
  shows "prefixed_hex p (2 * n) s \<longleftrightarrow> (\<exists>b. length b = n \<and> s = p @ concat (map hex_of_byte b))"
proof
  assume "prefixed_hex p (2 * n) s"
  then have s: "s = p @ drop (length p) s" "length (drop (length p) s) = 2 * n" "hex_pairs (drop (length p) s)"
    by (auto simp: prefixed_hex_def hex_pairs_iff) (metis append_take_drop_id)
  let ?b = "pair_bytes (drop (length p) s)"
  have c: "concat (map hex_of_byte ?b) = drop (length p) s"
    using s(3) by (rule hex_pair_bytes)
  have "2 * length ?b = length (concat (map hex_of_byte ?b))"
    using length_hexFromBytes [of ?b] by (simp add: hexFromBytes_def)
  then have "length ?b = n" using s(2) c by simp
  with s(1) c show "\<exists>b. length b = n \<and> s = p @ concat (map hex_of_byte b)" by metis
next
  assume "\<exists>b. length b = n \<and> s = p @ concat (map hex_of_byte b)"
  then obtain b where b: "length b = n" "s = p @ concat (map hex_of_byte b)" by blast
  have "length (concat (map hex_of_byte b)) = 2 * n"
    using length_hexFromBytes [of b] b(1) by (simp add: hexFromBytes_def)
  then show "prefixed_hex p (2 * n) s"
    using hex_pairs_hex [of b] by (simp add: b(2) prefixed_hex_def hex_pairs_iff)
qed

lemma hash32_hex_iff: "hash32_hex s \<longleftrightarrow> hash32 s"
  using prefixed_hex_iff_bytes [of "''0x''" 32 s] by (simp add: hash32_def hexFromBytes_def)

lemma hash32_hexD: "hash32_hex s \<Longrightarrow> \<exists>b. length b = 32 \<and> s = hexFromBytes b \<and> bytesFromHex s = Inr b"
  unfolding hash32_hex_iff hash32_def
  by (metis bytesFromHex_hexFromBytes length_greater_0_conv zero_less_numeral)

lemma hex01: "''0x01'' @ concat (map hex_of_byte b) = hexFromBytes (1 # b)"
  by (simp add: hexFromBytes_def hex_of_byte_digits hex_digit_def char_of_eq_iff eq_commute)

lemma hex04: "''0x04'' @ concat (map hex_of_byte b) = hexFromBytes (4 # b)"
  by (simp add: hexFromBytes_def hex_of_byte_digits hex_digit_def char_of_eq_iff eq_commute)

lemma lock_args_hexD: "prefixed_hex ''0x01'' 64 s \<Longrightarrow> \<exists>b. length b = 32 \<and> s = hexFromBytes (1 # b)"
  using prefixed_hex_iff_bytes [of "''0x01''" 32 s] hex01 by (auto simp: is_hex_def)

lemma public_key_hexD: "prefixed_hex ''0x04'' 128 s \<Longrightarrow>
  \<exists>b. length b = 64 \<and> s = hexFromBytes (4 # b) \<and> bytesFromHex s = Inr (4 # b)"
  using prefixed_hex_iff_bytes [of "''0x04''" 64 s] hex04 by (auto simp: is_hex_def)

section \<open>Verified accounts\<close>

text \<open>What every caller may rely on once an account manifest has been validated.\<close>

definition account_consistent :: "ccc \<Rightarrow> verified_account \<Rightarrow> bool" where
  "account_consistent C a \<longleftrightarrow>
     account_manifest_ok (va_manifest a)
     \<and> accountLock a = \<lparr>codeHash = codeHash (accountLockCode (va_deployment a)), hashType = ''data2'',
         args = ''0x01'' @ drop 2 (am_account_id (va_manifest a))\<rparr>
     \<and> stateType a = \<lparr>codeHash = TYPE_ID_CODE_HASH, hashType = ''type'', args = am_type_id_args (va_manifest a)\<rparr>
     \<and> ccc_scriptHash C (stateType a) = am_account_id (va_manifest a)
     \<and> am_state_out_point (va_manifest a) = \<lparr>mo_tx_hash = mo_tx_hash (am_asset_out_point (va_manifest a)), mo_index = 0\<rparr>
     \<and> mo_index (am_asset_out_point (va_manifest a)) = 1
     \<and> stateDep a = code_dep (mo_tx_hash (am_state_out_point (va_manifest a))) 0"

lemma validateAccount_Inr:
  assumes "zod_ok Z" and "validateAccount C Z v d = Inr a"
  shows "account_consistent C a \<and> va_deployment a = d \<and> zaccepts (z_format Z) AccountManifestSchema v
    \<and> va_manifest a = account_manifest_of v"
proof -
  from assms(2) obtain m where m: "parse_as Z AccountManifestSchema account_manifest_of v = Some m"
    and c: "am_lock_code_hash m = codeHash (accountLockCode d)" "mo_index (am_state_out_point m) = 0"
      "mo_index (am_asset_out_point m) = 1" "mo_tx_hash (am_state_out_point m) = mo_tx_hash (am_asset_out_point m)"
      "am_lock_args m = ''0x01'' @ drop 2 (am_account_id m)"
      "ccc_scriptHash C \<lparr>codeHash = TYPE_ID_CODE_HASH, hashType = ''type'', args = am_type_id_args m\<rparr> = am_account_id m"
    and a: "a = \<lparr>va_manifest = m, va_deployment = d,
        accountLock = \<lparr>codeHash = am_lock_code_hash m, hashType = am_lock_hash_type m, args = am_lock_args m\<rparr>,
        stateType = \<lparr>codeHash = TYPE_ID_CODE_HASH, hashType = ''type'', args = am_type_id_args m\<rparr>,
        stateDep = code_dep (mo_tx_hash (am_state_out_point m)) (mo_index (am_state_out_point m))\<rparr>"
    by (auto simp: validateAccount_def Let_def split: option.splits if_splits)
  have "account_manifest_ok m" using account_manifest.parse_as_ok [OF assms(1) m] .
  then show ?thesis
    using c m account_manifest.parse_as_Some_iff [OF assms(1)]
    by (simp add: a account_consistent_def account_manifest_ok_def)
qed

section \<open>Binding\<close>

text \<open>
  An account that \<^verbatim>\<open>validateAccount\<close> accepts can be unlocked. Its lock args decode to the
  version byte and 32 bytes that the lock script parses as the account id, that id is the hash
  of the Type ID script of the state cell, the code hash is the deployment's AccountLock, and
  the state and asset cells are outputs 0 and 1 of one transaction.
\<close>

lemma validated_account_binds_lock:
  assumes "zod_ok Z" and "validateAccount C Z v d = Inr a"
  shows "\<exists>b. bytesFromHex (args (accountLock a)) = Inr b
    \<and> (\<exists>i. parse_lock_args b = Inr \<lparr>la_version = 1, la_account_id = i\<rparr>
         \<and> hexFromBytes i = ccc_scriptHash C (stateType a))
    \<and> codeHash (accountLock a) = codeHash (accountLockCode d)
    \<and> hashType (accountLock a) = ''data2''
    \<and> stateDep a = code_dep (mo_tx_hash (am_asset_out_point (va_manifest a))) 0
    \<and> mo_index (am_asset_out_point (va_manifest a)) = 1"
proof -
  have con: "account_consistent C a" and d: "va_deployment a = d"
    using validateAccount_Inr [OF assms] by blast+
  then have ok: "account_manifest_ok (va_manifest a)"
    and lk: "accountLock a = \<lparr>codeHash = codeHash (accountLockCode d), hashType = ''data2'',
         args = ''0x01'' @ drop 2 (am_account_id (va_manifest a))\<rparr>"
    by (simp_all add: account_consistent_def)
  obtain i where i: "length i = 32" "am_account_id (va_manifest a) = hexFromBytes i"
    using ok hash32_hexD by (auto simp: account_manifest_ok_def)
  have args: "args (accountLock a) = hexFromBytes (1 # i)"
    by (simp add: lk i(2) hex01 [simplified])
  have "parse_lock_args (1 # i) = Inr \<lparr>la_version = 1, la_account_id = i\<rparr>"
    using i(1) by (simp add: parse_lock_args_def rd_byte_def rd_def seg_def)
  moreover have "bytesFromHex (args (accountLock a)) = Inr (1 # i)"
    by (simp add: args)
  moreover have "hexFromBytes i = ccc_scriptHash C (stateType a)"
    "stateDep a = code_dep (mo_tx_hash (am_asset_out_point (va_manifest a))) 0"
    "mo_index (am_asset_out_point (va_manifest a)) = 1"
    using con i(2) unfolding account_consistent_def by (metis manifest_out_point.select_convs(1))+
  ultimately show ?thesis
    by (intro exI [of _ "1 # i"] exI [of _ i] conjI) (simp_all add: lk)
qed

text \<open>A concrete manifest and deployment, for the reference library.\<close>

lemma hash32_ref_digest [simp]: "hash32_hex (ref_digest n)"
  unfolding hash32_hex_iff hash32_def ref_digest_def by (metis length_le_bytes)

definition example_artifact :: "string \<Rightarrow> nat \<Rightarrow> deployment_artifact" where
  "example_artifact name n = \<lparr>da_name = name, da_dataHash = ref_digest n, da_hashType = ''data2'',
     da_txHash = ref_digest (n + 10), da_index = 0, da_capacityShannons = ''1''\<rparr>"

definition example_deployment :: deployment_manifest where
  "example_deployment = \<lparr>dm_note = None, dm_account_lock = example_artifact ''account_lock'' 1,
     dm_verifier_p256 = example_artifact ''verifier_p256'' 2\<rparr>"

definition example_manifest :: account_manifest where
  "example_manifest = \<lparr>am_account_id = ref_digest 66, am_lock_code_hash = ref_digest 1,
     am_lock_hash_type = ''data2'', am_lock_args = ''0x01'' @ drop 2 (ref_digest 66),
     am_type_id_args = ref_digest 5,
     am_state_out_point = \<lparr>mo_tx_hash = ref_digest 4, mo_index = 0\<rparr>,
     am_asset_out_point = \<lparr>mo_tx_hash = ref_digest 4, mo_index = 1\<rparr>, am_state_bytes = 177\<rparr>"

lemma example_deployment_ok: "deployment_manifest_ok example_deployment"
  by (simp add: deployment_manifest_ok_def example_deployment_def artifact_ok_def example_artifact_def
      int_ok_def is_safe_integer_def max_safe_integer_def decimal_re_def is_digit_def)

lemma hash32_01: "hash32_hex s \<Longrightarrow> prefixed_hex ''0x01'' 64 (''0x01'' @ drop 2 s)"
  by (simp add: prefixed_hex_def numeral_2_eq_2)

lemma example_manifest_ok: "account_manifest_ok example_manifest"
  using hash32_01 [OF hash32_ref_digest, of 66]
  by (simp add: account_manifest_ok_def example_manifest_def out_point_ok_def
      int_ok_def is_safe_integer_def max_safe_integer_def)

lemma length_ref_digest [simp]: "length (ref_digest n) = 66"
  by (simp add: ref_digest_def)

definition example_verified_deployment :: verified_deployment where
  "example_verified_deployment = \<lparr>vd_manifest = example_deployment,
     accountLockCode = \<lparr>codeHash = ref_digest 1, hashType = ''data2'', args = ''0x''\<rparr>,
     verifierP256Code = \<lparr>codeHash = ref_digest 2, hashType = ''data2'', args = ''0x''\<rparr>,
     accountLockDep = code_dep (ref_digest 11) 0, verifierP256Dep = code_dep (ref_digest 12) 0\<rparr>"

definition example_account :: verified_account where
  "example_account = \<lparr>va_manifest = example_manifest, va_deployment = example_verified_deployment,
     accountLock = \<lparr>codeHash = ref_digest 1, hashType = ''data2'', args = am_lock_args example_manifest\<rparr>,
     stateType = \<lparr>codeHash = TYPE_ID_CODE_HASH, hashType = ''type'', args = ref_digest 5\<rparr>,
     stateDep = code_dep (ref_digest 4) 0\<rparr>"

lemma example_deployment_validates:
  "validateDeployment ref_zod (deployment_manifest_json example_deployment) = Inr example_verified_deployment"
  using deployment_manifest.parse_printed [OF ref_zod_ok, of example_deployment] example_deployment_ok
  by (simp add: validateDeployment_def example_verified_deployment_def example_deployment_def example_artifact_def)

lemma example_account_validates:
  "validateAccount ref_ccc ref_zod (account_manifest_json example_manifest) example_verified_deployment
   = Inr example_account"
  using account_manifest.parse_printed [OF ref_zod_ok, of example_manifest] example_manifest_ok
  by (simp add: validateAccount_def example_verified_deployment_def example_manifest_def example_account_def
      Let_def ref_ccc_def)

end
