(* ===== verification/AccountState.thy ===== *)
theory AccountState
  imports Manifests
begin

unbundle bit_operations_syntax

text \<open>
  \<^verbatim>\<open>parseAccountState\<close> of demo/src/client/chain.ts, the browser's reader of the live account
  state, against \<^verbatim>\<open>validate_state\<close> of the consensus code: the browser accepts exactly the states
  of one profile (one P-256 authenticator, all thresholds 1), and each of them is a state the
  chain accepts with the same sequence number.
\<close>

section \<open>Definitions\<close>

definition STATE_HEADER_BYTES :: nat where
  "STATE_HEADER_BYTES = 32"

definition STATE_ENTRY_BYTES_WITHOUT_VARIABLE_DATA :: nat where
  "STATE_ENTRY_BYTES_WITHOUT_VARIABLE_DATA = 48"

definition STATE_MAGIC :: string where
  "STATE_MAGIC = ''CKAS''"

definition EXPECTED_RP_ID_HASH :: string where
  "EXPECTED_RP_ID_HASH = ''49960de5880e8c687434170f6476605b8fe4aeb9a28632c7995cf3ba831d9763''"

definition EXPECTED_ORIGIN_HASH :: string where
  "EXPECTED_ORIGIN_HASH = ''4e90ec8f9d9b8d5bd3877ac003797738ff48419fcf8f97821a875ea4671955b6''"

record parsed_state =
  ps_sequence :: nat
  ps_keyId :: bytes

definition fail :: "string \<Rightarrow> 'a js" where
  "fail message = Inl (TypeError message)"

text \<open>\<^verbatim>\<open>DataView\<close> reads, which throw outside the buffer.\<close>

definition getUint16 :: "bytes \<Rightarrow> nat \<Rightarrow> nat js" where
  "getUint16 d off =
     (if off + 2 \<le> length d then Inr (of_le (seg off (off + 2) d))
      else Inl (RangeError ''Offset is outside the bounds of the DataView''))"

definition getBigUint64 :: "bytes \<Rightarrow> nat \<Rightarrow> nat js" where
  "getBigUint64 d off =
     (if off + 8 \<le> length d then Inr (of_le (seg off (off + 8) d))
      else Inl (RangeError ''Offset is outside the bounds of the DataView''))"

text \<open>
  Decoding four bytes gives \<^verbatim>\<open>"CKAS"\<close> exactly when they are its ASCII codes, so the magic test
  compares bytes. Reads that the guards above them make safe are still written as reads.
\<close>

definition parseAccountState :: "string \<Rightarrow> verified_account \<Rightarrow> parsed_state js" where
  "parseAccountState dataHex account =
     bind_r (bytesFromHex dataHex) (\<lambda>data.
     if int (length data) \<noteq> am_state_bytes (va_manifest account) \<or> length data < STATE_HEADER_BYTES
     then fail ''Live account state data length does not match the manifest''
     else if seg 0 4 data \<noteq> ascii STATE_MAGIC \<or> idx data 4 \<noteq> Some 1
     then fail ''Live account state data has an unsupported header''
     else
       bind_r (getUint16 data 6) (\<lambda>u6.
       bind_r (getUint16 data 16) (\<lambda>u16.
       bind_r (getUint16 data 18) (\<lambda>u18.
       bind_r (getUint16 data 20) (\<lambda>u20.
       bind_r (getBigUint64 data 24) (\<lambda>u24.
       if idx data 5 \<noteq> Some 1 \<or> u6 \<noteq> STATE_HEADER_BYTES \<or> u16 \<noteq> 1 \<or> u18 \<noteq> 1 \<or> u20 \<noteq> 1
          \<or> idx data 22 \<noteq> Some 1 \<or> idx data 23 \<noteq> Some 0 \<or> u24 \<noteq> 0
       then fail ''Live account state data does not match the supported account profile''
       else
         bind_r (getUint16 data 32) (\<lambda>entryLength.
         bind_r (getUint16 data 76) (\<lambda>keyIdLength.
         bind_r (getUint16 data 78) (\<lambda>auxLength.
         bind_r (getUint16 data 34) (\<lambda>u34.
         bind_r (getUint16 data 36) (\<lambda>u36.
         bind_r (getUint16 data 38) (\<lambda>u38.
         bind_r (getUint16 data 40) (\<lambda>u40.
         if entryLength \<noteq> length data - STATE_HEADER_BYTES
            \<or> entryLength \<noteq> STATE_ENTRY_BYTES_WITHOUT_VARIABLE_DATA + keyIdLength + auxLength
            \<or> u34 \<noteq> 0 \<or> u36 \<noteq> 1 \<or> u38 \<noteq> 7 \<or> u40 \<noteq> 1 \<or> idx data 42 \<noteq> Some 0 \<or> idx data 43 \<noteq> Some 1
            \<or> keyIdLength \<noteq> 32 \<or> auxLength \<noteq> 65
         then fail ''Live account state authenticator is not the supported P-256 profile''
         else if hexFromBytes (seg 44 76 data) \<noteq> codeHash (verifierP256Code (va_deployment account))
         then fail ''Live account state verifier does not match the deployment''
         else
           let keyIdStart = 80; auxStart = keyIdStart + keyIdLength;
               expectedAux = ''01'' @ EXPECTED_RP_ID_HASH @ EXPECTED_ORIGIN_HASH
           in
           if drop 2 (hexFromBytes (drop auxStart data)) \<noteq> expectedAux
           then fail ''Live account state data has an unexpected WebAuthn binding''
           else
             bind_r (getBigUint64 data 8) (\<lambda>sequence.
             Inr \<lparr>ps_sequence = sequence, ps_keyId = seg keyIdStart auxStart data\<rparr>))))))))))))))"

section \<open>The profile\<close>

definition expected_aux :: bytes where
  "expected_aux = pair_bytes (''01'' @ EXPECTED_RP_ID_HASH @ EXPECTED_ORIGIN_HASH)"

definition profile_header :: "nat \<Rightarrow> state_header" where
  "profile_header seq = \<lparr>sh_flags = 1, sh_sequence = seq, sh_spend_threshold = 1, sh_rotate_threshold = 1,
     sh_recovery_threshold = 1, sh_authenticator_count = 1, sh_recovery_since = 0\<rparr>"

definition profile_entry :: "bytes \<Rightarrow> bytes \<Rightarrow> authenticator_entry" where
  "profile_entry verifier key = \<lparr>ae_slot = 0, ae_algorithm_id = 1, ae_capabilities = 7, ae_weight = 1,
     ae_verifier_hash_type = 0, ae_verifier_abi = 1, ae_verifier_code_hash = verifier,
     ae_key_id = key, ae_aux = expected_aux\<rparr>"

definition profile_state :: "nat \<Rightarrow> bytes \<Rightarrow> bytes \<Rightarrow> bytes" where
  "profile_state seq verifier key = state_layout (profile_header seq) [profile_entry verifier key]"

lemma getUint16_Inr_iff [result_simps]:
  "getUint16 d off = Inr n \<longleftrightarrow> off + 2 \<le> length d \<and> n = of_le (seg off (off + 2) d)"
  by (auto simp: getUint16_def)

lemma getBigUint64_Inr_iff [result_simps]:
  "getBigUint64 d off = Inr n \<longleftrightarrow> off + 8 \<le> length d \<and> n = of_le (seg off (off + 8) d)"
  by (auto simp: getBigUint64_def)

text \<open>The browser's conditions on the bytes, without the order of its tests.\<close>

definition profile_bytes :: "bytes \<Rightarrow> bool" where
  "profile_bytes d \<longleftrightarrow>
     length d = 177 \<and> seg 0 4 d = ACCOUNT_STATE_MAGIC \<and> d ! 4 = 1 \<and> d ! 5 = 1
     \<and> of_le (seg 6 8 d) = 32 \<and> of_le (seg 16 18 d) = 1 \<and> of_le (seg 18 20 d) = 1
     \<and> of_le (seg 20 22 d) = 1 \<and> d ! 22 = 1 \<and> d ! 23 = 0 \<and> of_le (seg 24 32 d) = 0
     \<and> of_le (seg 32 34 d) = 145 \<and> of_le (seg 34 36 d) = 0 \<and> of_le (seg 36 38 d) = 1
     \<and> of_le (seg 38 40 d) = 7 \<and> of_le (seg 40 42 d) = 1 \<and> d ! 42 = 0 \<and> d ! 43 = 1
     \<and> of_le (seg 76 78 d) = 32 \<and> of_le (seg 78 80 d) = 65 \<and> drop 112 d = expected_aux"

lemma ascii_STATE_MAGIC: "ascii STATE_MAGIC = ACCOUNT_STATE_MAGIC"
  by (simp add: ascii_def STATE_MAGIC_def)

lemma expected_aux_hex:
  "concat (map hex_of_byte expected_aux) = ''01'' @ EXPECTED_RP_ID_HASH @ EXPECTED_ORIGIN_HASH"
  unfolding expected_aux_def
  by (rule hex_pair_bytes) (simp add: EXPECTED_RP_ID_HASH_def EXPECTED_ORIGIN_HASH_def is_hex_def)

lemma drop_hex_inject:
  "concat (map hex_of_byte b) = CHR ''0'' # CHR ''1'' # EXPECTED_RP_ID_HASH @ EXPECTED_ORIGIN_HASH
   \<longleftrightarrow> b = expected_aux"
  using expected_aux_hex by (metis append_Cons append_Nil pair_bytes_hex)

lemma length_expected_aux [simp]: "length expected_aux = 65"
proof -
  have "length (concat (map hex_of_byte expected_aux)) = 130"
    unfolding expected_aux_hex by (simp add: EXPECTED_RP_ID_HASH_def EXPECTED_ORIGIN_HASH_def)
  then show ?thesis
    using length_hexFromBytes [of expected_aux] by (simp add: hexFromBytes_def)
qed

lemma parseAccountState_Inr_iff:
  "parseAccountState hex a = Inr ps \<longleftrightarrow>
     (\<exists>d. bytesFromHex hex = Inr d \<and> am_state_bytes (va_manifest a) = 177 \<and> profile_bytes d
        \<and> hexFromBytes (seg 44 76 d) = codeHash (verifierP256Code (va_deployment a))
        \<and> ps = \<lparr>ps_sequence = of_le (seg 8 16 d), ps_keyId = seg 80 112 d\<rparr>)"
proof (cases "bytesFromHex hex")
  case (Inr d)
  show ?thesis
    unfolding parseAccountState_def Inr bind_r_simps profile_bytes_def
    by (auto simp: result_simps fail_def STATE_HEADER_BYTES_def STATE_ENTRY_BYTES_WITHOUT_VARIABLE_DATA_def
        ascii_STATE_MAGIC idx_Some_iff Let_def drop_hex_inject split: if_splits)
qed (simp add: parseAccountState_def)

lemma fold_collect_entries: "fold_r (\<lambda>acc e. Inr (acc @ [e])) es acc = Inr (acc @ es)"
  by (induction es arbitrary: acc) auto

lemma profile_bytes_parse:
  assumes "profile_bytes d"
  shows "d = profile_state (of_le (seg 8 16 d)) (seg 44 76 d) (seg 80 112 d)"
proof -
  let ?h = "profile_header (of_le (seg 8 16 d))"
  let ?e = "profile_entry (seg 44 76 d) (seg 80 112 d)"
  note pb = assms [unfolded profile_bytes_def]
  have h: "parse_state_header d = Inr ?h"
    using pb by (simp add: parse_state_header_Inr_iff profile_header_def)
  have aux: "seg 112 177 d = expected_aux"
    using pb by (simp add: seg_def)
  have e: "parse_entry d 32 None = Inr (?e, 145)"
    using pb aux by (subst parse_entry_Inr_iff) (simp_all add: profile_entry_def)
  have "parse_authenticators d ?h (\<lambda>acc e. Inr (acc @ [e])) [] = Inr [?e]"
    using pb by (simp add: parse_authenticators_def profile_header_def e)
  from parse_state_sound [OF h this] show ?thesis
    by (auto simp: fold_collect_entries profile_state_def)
qed

lemma profile_state_bytes:
  assumes "length verifier = 32" and "length key = 32" and "seq < 2 ^ 64"
  shows "profile_bytes (profile_state seq verifier key)"
    and "of_le (seg 8 16 (profile_state seq verifier key)) = seq"
    and "seg 44 76 (profile_state seq verifier key) = verifier"
    and "seg 80 112 (profile_state seq verifier key) = key"
  using assms
  by (simp_all add: profile_bytes_def profile_state_def state_layout_def profile_header_def
      profile_entry_def entry_layout_def seg_def nth_append)

lemma profile_bytes_iff:
  "profile_bytes d \<longleftrightarrow> (\<exists>seq verifier key. length verifier = 32 \<and> length key = 32 \<and> seq < 2 ^ 64
     \<and> d = profile_state seq verifier key)"
proof
  assume pb: "profile_bytes d"
  then have "length d = 177" by (simp add: profile_bytes_def)
  then show "\<exists>seq verifier key. length verifier = 32 \<and> length key = 32 \<and> seq < 2 ^ 64
     \<and> d = profile_state seq verifier key"
    using profile_bytes_parse [OF pb] of_le_seg_bound [of 8 16 d]
    by (intro exI [of _ "of_le (seg 8 16 d)"] exI [of _ "seg 44 76 d"] exI [of _ "seg 80 112 d"]) simp
qed (auto simp: profile_state_bytes)

lemma parseAccountState_profile:
  "parseAccountState hex a = Inr ps \<longleftrightarrow>
     (\<exists>verifier. length verifier = 32 \<and> length (ps_keyId ps) = 32 \<and> ps_sequence ps < 2 ^ 64
        \<and> hexFromBytes verifier = codeHash (verifierP256Code (va_deployment a))
        \<and> am_state_bytes (va_manifest a) = 177
        \<and> hex = hexFromBytes (profile_state (ps_sequence ps) verifier (ps_keyId ps)))"
proof
  assume "parseAccountState hex a = Inr ps"
  then obtain d where d: "bytesFromHex hex = Inr d" "am_state_bytes (va_manifest a) = 177" "profile_bytes d"
    "hexFromBytes (seg 44 76 d) = codeHash (verifierP256Code (va_deployment a))"
    "ps = \<lparr>ps_sequence = of_le (seg 8 16 d), ps_keyId = seg 80 112 d\<rparr>"
    by (auto simp: parseAccountState_Inr_iff)
  have "length d = 177" using d(3) by (simp add: profile_bytes_def)
  moreover have "hex = hexFromBytes d" using hexFromBytes_bytesFromHex [OF d(1)] by simp
  ultimately show "\<exists>verifier. length verifier = 32 \<and> length (ps_keyId ps) = 32 \<and> ps_sequence ps < 2 ^ 64
        \<and> hexFromBytes verifier = codeHash (verifierP256Code (va_deployment a))
        \<and> am_state_bytes (va_manifest a) = 177
        \<and> hex = hexFromBytes (profile_state (ps_sequence ps) verifier (ps_keyId ps))"
    using d profile_bytes_parse [OF d(3)] of_le_seg_bound [of 8 16 d]
    by (intro exI [of _ "seg 44 76 d"]) simp
next
  assume "\<exists>verifier. length verifier = 32 \<and> length (ps_keyId ps) = 32 \<and> ps_sequence ps < 2 ^ 64
        \<and> hexFromBytes verifier = codeHash (verifierP256Code (va_deployment a))
        \<and> am_state_bytes (va_manifest a) = 177
        \<and> hex = hexFromBytes (profile_state (ps_sequence ps) verifier (ps_keyId ps))"
  then obtain verifier where v: "length verifier = 32" "length (ps_keyId ps) = 32" "ps_sequence ps < 2 ^ 64"
    "hexFromBytes verifier = codeHash (verifierP256Code (va_deployment a))"
    "am_state_bytes (va_manifest a) = 177"
    and hex: "hex = hexFromBytes (profile_state (ps_sequence ps) verifier (ps_keyId ps))"
    by blast
  note pb = profile_state_bytes [OF v(1-3)]
  have "profile_state (ps_sequence ps) verifier (ps_keyId ps) \<noteq> []"
    using pb(1) by (auto simp: profile_bytes_def)
  then show "parseAccountState hex a = Inr ps"
    using pb v unfolding parseAccountState_Inr_iff hex by simp
qed

lemma profile_state_ok:
  assumes "length verifier = 32" and "length key = 32" and "seq < 2 ^ 64"
  shows "state_ok (profile_header seq) [profile_entry verifier key]"
proof -
  have "expected_aux \<noteq> []" using length_expected_aux by (metis length_0_conv zero_neq_numeral)
  then have ok: "entry_ok (profile_entry verifier key)" "entry_known (profile_entry verifier key)"
    using assms
    by (auto simp: entry_ok_def entry_known_def profile_entry_def is_supported_algorithm_def)
  have "length (profile_state seq verifier key) = 177"
    using profile_state_bytes(1) [OF assms] by (simp add: profile_bytes_def)
  then show ?thesis
    using ok assms(3)
    by (simp add: state_ok_def header_ok_def profile_header_def profile_state_def ascending_from_def
        thresholds_ok_def weights_def profile_entry_def)
qed

lemma profile_state_valid:
  assumes "length verifier = 32" and "length key = 32" and "seq < 2 ^ 64"
  shows "validate_state (profile_state seq verifier key) =
    Inr (profile_header seq, \<lparr>spend_weight = 1, rotate_weight = 1, recovery_weight = 1\<rparr>)"
proof -
  have "weights [profile_entry verifier key] = \<lparr>spend_weight = 1, rotate_weight = 1, recovery_weight = 1\<rparr>"
    by (simp add: weights_def profile_entry_def)
  then show ?thesis
    unfolding validate_state_iff profile_state_def using profile_state_ok [OF assms] by metis
qed

lemma parsed_state_valid:
  assumes "parseAccountState hex a = Inr ps"
  shows "\<exists>d verifier sm. bytesFromHex hex = Inr d \<and> validate_state d = Inr (profile_header (ps_sequence ps), sm)
    \<and> d = state_layout (profile_header (ps_sequence ps)) [profile_entry verifier (ps_keyId ps)]
    \<and> hexFromBytes verifier = codeHash (verifierP256Code (va_deployment a))
    \<and> ae_capabilities (profile_entry verifier (ps_keyId ps)) AND CAP_SPEND \<noteq> 0
    \<and> sh_spend_threshold (profile_header (ps_sequence ps)) \<le> ae_weight (profile_entry verifier (ps_keyId ps))"
proof -
  obtain verifier where v: "length verifier = 32" "length (ps_keyId ps) = 32" "ps_sequence ps < 2 ^ 64"
    "hexFromBytes verifier = codeHash (verifierP256Code (va_deployment a))"
    and hex: "hex = hexFromBytes (profile_state (ps_sequence ps) verifier (ps_keyId ps))"
    using assms unfolding parseAccountState_profile by blast
  have "profile_state (ps_sequence ps) verifier (ps_keyId ps) \<noteq> []"
    using profile_state_bytes(1) [OF v(1-3)] by (auto simp: profile_bytes_def)
  then have "bytesFromHex hex = Inr (profile_state (ps_sequence ps) verifier (ps_keyId ps))"
    by (simp add: hex)
  with v(4) profile_state_valid [OF v(1-3)] show ?thesis
    by (intro exI conjI) (assumption | simp add: profile_state_def profile_entry_def profile_header_def)+
qed

section \<open>Properties\<close>

text \<open>
  The browser trusts a live state only if the chain does. Every state \<^verbatim>\<open>parseAccountState\<close>
  accepts is accepted by the consensus validator, which reads the same sequence number, and its
  single authenticator is the deployed P-256 verifier in slot 0 with the capability to spend, the
  key id the browser returned, and weight enough to reach the spend threshold on its own.
\<close>

lemma parsed_state_valid_on_chain:
  assumes "parseAccountState hex a = Inr ps"
  shows "\<exists>d verifier sm. bytesFromHex hex = Inr d \<and> validate_state d = Inr (profile_header (ps_sequence ps), sm)
    \<and> d = state_layout (profile_header (ps_sequence ps)) [profile_entry verifier (ps_keyId ps)]
    \<and> hexFromBytes verifier = codeHash (verifierP256Code (va_deployment a))
    \<and> ae_capabilities (profile_entry verifier (ps_keyId ps)) AND CAP_SPEND \<noteq> 0
    \<and> sh_spend_threshold (profile_header (ps_sequence ps)) \<le> ae_weight (profile_entry verifier (ps_keyId ps))"
  by (rule parsed_state_valid [OF assms])

text \<open>
  The browser's state parser is exact. It accepts a hex string if and only if it is the
  canonical encoding of a state of the demo's profile for the deployed verifier and the
  manifest records its 177 bytes; every other string, of any length, throws.
\<close>

lemma parse_account_state_exact:
  "(parseAccountState hex a = Inr ps) =
     (\<exists>verifier. length verifier = 32 \<and> length (ps_keyId ps) = 32 \<and> ps_sequence ps < 2 ^ 64
        \<and> hexFromBytes verifier = codeHash (verifierP256Code (va_deployment a))
        \<and> am_state_bytes (va_manifest a) = 177
        \<and> hex = hexFromBytes (profile_state (ps_sequence ps) verifier (ps_keyId ps)))"
  by (rule parseAccountState_profile)

lemma example_state_parses:
  assumes "length key = 32" and "seq < 2 ^ 64"
  shows "parseAccountState (hexFromBytes (profile_state seq (le_bytes 32 2) key)) example_account =
    Inr \<lparr>ps_sequence = seq, ps_keyId = key\<rparr>"
  unfolding parseAccountState_profile using assms
  by (intro exI [of _ "le_bytes 32 2"])
     (simp add: example_account_def example_manifest_def example_verified_deployment_def ref_digest_def)

end
