(* ===== verification/VerifierP256.thy ===== *)
theory VerifierP256
  imports Protocol Layout
begin

text \<open>
  \<^verbatim>\<open>parse_proof\<close> of contracts/verifier-p256/src/main.rs, the on-chain reader of the WebAuthn
  proof that \<^verbatim>\<open>encodeP256Proof\<close> of demo/src/shared/protocol.ts writes. Exit codes are integers.
\<close>

section \<open>Definitions\<close>

definition MALFORMED_PROOF :: int where
  "MALFORMED_PROOF = 7"

definition take_at :: "bytes \<Rightarrow> nat \<Rightarrow> nat \<Rightarrow> int + (bytes \<times> nat)" where
  "take_at d offset len = (case checked_add offset len of
     None \<Rightarrow> Inl MALFORMED_PROOF
   | Some e \<Rightarrow> if offset \<le> e \<and> e \<le> length d then Inr (seg offset e d, e) else Inl MALFORMED_PROOF)"

definition take_u16 :: "bytes \<Rightarrow> nat \<Rightarrow> int + (nat \<times> nat)" where
  "take_u16 d offset = bind_r (take_at d offset 2) (\<lambda>(bs, e). Inr (of_le bs, e))"

text \<open>The Rust struct \<^verbatim>\<open>PasskeyProof\<close> has the fields of the TypeScript \<^verbatim>\<open>P256ProofInput\<close>.\<close>

definition parse_proof :: "bytes \<Rightarrow> int + p256_proof_input" where
  "parse_proof d =
     bind_r (take_at d 0 65) (\<lambda>(public_key, o1).
     bind_r (take_at d o1 1) (\<lambda>(n, o2).
     bind_r (case n of [] \<Rightarrow> Inl MALFORMED_PROOF | b # _ \<Rightarrow> Inr (unat b)) (\<lambda>origin_len.
     bind_r (take_at d o2 origin_len) (\<lambda>(org, o3).
     bind_r (take_u16 d o3) (\<lambda>(authenticator_len, o4).
     bind_r (take_at d o4 authenticator_len) (\<lambda>(authenticator_data, o5).
     bind_r (take_u16 d o5) (\<lambda>(client_len, o6).
     bind_r (take_at d o6 client_len) (\<lambda>(client_data_json, o7).
     bind_r (take_u16 d o7) (\<lambda>(signature_len, o8).
     bind_r (take_at d o8 signature_len) (\<lambda>(sig, o9).
     if o9 \<noteq> length d \<or> org = [] \<or> length authenticator_data < 37 \<or> client_data_json = [] \<or> sig = []
     then Inl MALFORMED_PROOF
     else Inr \<lparr>publicKey = public_key, origin = org, authenticatorData = authenticator_data,
               clientDataJson = client_data_json, signature = sig\<rparr>))))))))))"

section \<open>The format\<close>

definition p256_layout :: "p256_proof_input \<Rightarrow> bytes" where
  "p256_layout p =
     publicKey p @ [word_of_nat (length (origin p))] @ origin p
     @ le_bytes 2 (length (authenticatorData p)) @ authenticatorData p
     @ le_bytes 2 (length (clientDataJson p)) @ clientDataJson p
     @ le_bytes 2 (length (signature p)) @ signature p"

definition p256_ok :: "p256_proof_input \<Rightarrow> bool" where
  "p256_ok p \<longleftrightarrow>
     length (publicKey p) = 65 \<and> origin p \<noteq> [] \<and> length (origin p) < 256
     \<and> 37 \<le> length (authenticatorData p) \<and> length (authenticatorData p) < 2 ^ 16
     \<and> clientDataJson p \<noteq> [] \<and> length (clientDataJson p) < 2 ^ 16
     \<and> signature p \<noteq> [] \<and> length (signature p) < 2 ^ 16"

definition sec1_tagged :: "p256_proof_input \<Rightarrow> bool" where
  "sec1_tagged p \<longleftrightarrow> idx (publicKey p) 0 = Some 4"

lemma take_at_Inr_iff [result_simps]:
  "take_at d off n = Inr (x, e) \<longleftrightarrow> e = off + n \<and> e \<le> length d \<and> e < 2 ^ 64 \<and> x = seg off e d"
  by (auto simp: take_at_def checked_add_def)

lemma take_u16_Inr_iff [result_simps]:
  "take_u16 d off = Inr (x, e) \<longleftrightarrow>
     e = off + 2 \<and> e \<le> length d \<and> e < 2 ^ 64 \<and> x = of_le (seg off e d)"
  by (auto simp: take_u16_def result_simps)

text \<open>The parser stands at offset \<open>off\<close> and \<open>rest\<close> is what it has still to read.\<close>

definition at_rest :: "bytes \<Rightarrow> nat \<Rightarrow> bytes \<Rightarrow> bool" where
  "at_rest d off rest \<longleftrightarrow> length d < 2 ^ 64 \<and> off \<le> length d \<and> drop off d = rest"

lemma take_at_rest:
  assumes "at_rest d off (xs @ rest)"
  shows "take_at d off (length xs) = Inr (xs, off + length xs)" and "at_rest d (off + length xs) rest"
proof -
  have "length (drop off d) = length (xs @ rest)"
    using assms by (simp only: at_rest_def)
  then have "length d - off = length xs + length rest" by simp
  with assms show "take_at d off (length xs) = Inr (xs, off + length xs)"
    by (auto simp: take_at_Inr_iff at_rest_def seg_def)
  from assms have "drop (length xs) (drop off d) = rest"
    by (simp add: at_rest_def)
  moreover have "off + length xs \<le> length d"
    using assms \<open>length d - off = length xs + length rest\<close> unfolding at_rest_def by linarith
  ultimately show "at_rest d (off + length xs) rest"
    using assms by (simp add: at_rest_def add.commute)
qed

lemma take_u16_rest:
  assumes "at_rest d off (le_bytes 2 v @ rest)" and "v < 2 ^ 16"
  shows "take_u16 d off = Inr (v, off + 2)" and "at_rest d (off + 2) rest"
  using take_at_rest [OF assms(1)] assms(2) by (simp_all add: take_u16_def)

lemma parse_proof_layout:
  assumes "p256_ok p" and "length (p256_layout p) < 2 ^ 64"
  shows "parse_proof (p256_layout p) = Inr p"
proof -
  let ?d = "p256_layout p"
  note ok = assms(1) [unfolded p256_ok_def]
  have s0: "at_rest ?d 0 (publicKey p @ [word_of_nat (length (origin p))] @ origin p
     @ le_bytes 2 (length (authenticatorData p)) @ authenticatorData p
     @ le_bytes 2 (length (clientDataJson p)) @ clientDataJson p
     @ le_bytes 2 (length (signature p)) @ signature p @ [])"
    using assms(2) by (simp add: at_rest_def p256_layout_def)
  note s1 = take_at_rest [OF s0]
  note s2 = take_at_rest [OF s1(2)]
  note s3 = take_at_rest [OF s2(2)]
  note s4 = take_u16_rest [OF s3(2)]
  note s5 = take_at_rest [OF s4(2)]
  note s6 = take_u16_rest [OF s5(2)]
  note s7 = take_at_rest [OF s6(2)]
  note s8 = take_u16_rest [OF s7(2)]
  note s9 = take_at_rest [OF s8(2)]
  have len: "length ?d = 72 + length (origin p) + length (authenticatorData p)
      + length (clientDataJson p) + length (signature p)"
    using ok by (simp add: p256_layout_def)
  show ?thesis
    using s1(1) s2(1) s3(1) s4(1) s5(1) s6(1) s7(1) s8(1) s9(1) ok len
    by (simp add: parse_proof_def unat_word_of_nat add.assoc)
qed

lemma take_at_step:
  assumes "take_at d off n = Inr (x, e)"
  shows "drop off d = x @ drop e d" and "length x = n"
  using assms drop_seg [of off e d] by (auto simp: take_at_Inr_iff)

lemma take_u16_step:
  assumes "take_u16 d off = Inr (v, e)"
  shows "drop off d = le_bytes 2 v @ drop e d" and "v < 2 ^ 16"
proof -
  from assms have e: "e = off + 2" "e \<le> length d" and v: "v = of_le (seg off e d)"
    by (simp_all add: take_u16_Inr_iff)
  then have "le_bytes 2 v = seg off e d" by (simp add: seg_le)
  then show "drop off d = le_bytes 2 v @ drop e d" using drop_seg [of off e d] e(1) by simp
  show "v < 2 ^ 16" using of_le_seg_bound [of off e d] e(1) v by simp
qed

lemma parse_proof_sound:
  assumes "parse_proof d = Inr p"
  shows "p256_ok p \<and> d = p256_layout p"
proof -
  from assms obtain pk o1 n o2 k org o3 al o4 ad o5 cl o6 cd o7 sl o8 sg o9 where
    t: "take_at d 0 65 = Inr (pk, o1)" "take_at d o1 1 = Inr (n, o2)"
      "take_at d o2 k = Inr (org, o3)" "take_u16 d o3 = Inr (al, o4)" "take_at d o4 al = Inr (ad, o5)"
      "take_u16 d o5 = Inr (cl, o6)" "take_at d o6 cl = Inr (cd, o7)" "take_u16 d o7 = Inr (sl, o8)"
      "take_at d o8 sl = Inr (sg, o9)"
    and k: "(case n of [] \<Rightarrow> Inl MALFORMED_PROOF | b # _ \<Rightarrow> Inr (unat b)) = Inr k"
    and ok: "o9 = length d" "org \<noteq> []" "37 \<le> length ad" "cd \<noteq> []" "sg \<noteq> []"
    and p: "\<lparr>publicKey = pk, origin = org, authenticatorData = ad, clientDataJson = cd, signature = sg\<rparr> = p"
    unfolding parse_proof_def bind_r_Inr_iff split_paired_Ex case_prod_conv
      if_Inl_Inr_iff de_Morgan_disj not_not not_less sum.inject
    by (elim exE conjE) (rule that, assumption+)
  have n: "n = [word_of_nat k]" "k < 256"
    using take_at_step(2) [OF t(2)] k unat_bound by (auto simp: length_Suc_conv)
  note lens = take_at_step(2) [OF t(1)] take_at_step(2) [OF t(3)] take_at_step(2) [OF t(5)]
    take_at_step(2) [OF t(7)] take_at_step(2) [OF t(9)]
  note bounds = take_u16_step(2) [OF t(4)] take_u16_step(2) [OF t(6)] take_u16_step(2) [OF t(8)]
  have "drop 0 d = p256_layout p"
    unfolding take_at_step(1) [OF t(1)] take_at_step(1) [OF t(2)] take_at_step(1) [OF t(3)]
      take_u16_step(1) [OF t(4)] take_at_step(1) [OF t(5)] take_u16_step(1) [OF t(6)]
      take_at_step(1) [OF t(7)] take_u16_step(1) [OF t(8)] take_at_step(1) [OF t(9)]
    by (simp add: p256_layout_def p [symmetric] n(1) lens ok(1))
  then show ?thesis
    using ok lens bounds n(2) by (simp add: p256_ok_def p [symmetric])
qed

lemma encodeP256Proof_Inr_iff:
  "encodeP256Proof p = Inr d \<longleftrightarrow> p256_ok p \<and> sec1_tagged p \<and> d = p256_layout p"
  by (auto simp: encodeP256Proof_def result_simps p256_ok_def sec1_tagged_def p256_layout_def
      max_safe_integer_def)

lemma p256_layout_bound: "p256_ok p \<Longrightarrow> length (p256_layout p) < 2 ^ 64"
  by (simp add: p256_layout_def p256_ok_def)

lemma p256_roundtrip_iff: "encodeP256Proof p = Inr d \<longleftrightarrow> sec1_tagged p \<and> parse_proof d = Inr p"
  using parse_proof_sound parse_proof_layout p256_layout_bound
  by (auto simp: encodeP256Proof_Inr_iff)

interpretation p256: wire_format encodeP256Proof parse_proof id sec1_tagged
  by unfold_locales (auto simp: p256_roundtrip_iff)

section \<open>Properties\<close>

text \<open>
  The browser's \<^verbatim>\<open>encodeP256Proof\<close> and the verifier contract's \<^verbatim>\<open>parse_proof\<close> are exact
  inverses: a byte string is the encoding of a proof if and only if the contract parses it
  into the same five fields and the public key carries the uncompressed SEC1 tag, the one
  condition the browser checks and the parser leaves to the key decoder.
\<close>

lemma p256_proof_wire_exact:
  "(encodeP256Proof p = Inr d) = (idx (publicKey p) 0 = Some 4 \<and> parse_proof d = Inr p)"
  using p256.encode_decode p256.decode_encode
  by (metis p256_roundtrip_iff sec1_tagged_def)

end
