(* ===== verification/Conformance.thy ===== *)
theory Conformance
  imports StateLayout VerifierP256
begin

text \<open>
  The browser's encoders (demo/src/shared/protocol.ts) against the parsers that run on chain:
  AccountWitnessV1 against crates/protocol/src/wire.rs and the WebAuthn proof against
  \<^verbatim>\<open>parse_proof\<close> of contracts/verifier-p256/src/main.rs. Both pairs are instances of the
  interface \<open>wire_format\<close>: the encoder and the parser are inverse to each other on the values
  the encoder accepts.
\<close>

section \<open>AccountWitnessV1\<close>

definition to_proof :: "nat \<times> bytes \<Rightarrow> witness_proof" where
  "to_proof x = \<lparr>slot = JNat (fst x), proof_bytes = snd x\<rparr>"

text \<open>Reading a whole witness with the on-chain parsers, collecting the proofs.\<close>

definition read_account_witness :: "bytes \<Rightarrow> (int \<times> int \<times> (nat \<times> bytes) list) rust" where
  "read_account_witness d =
     bind_r (parse_witness_header d) (\<lambda>h.
     bind_r (parse_proofs d h (\<lambda>acc k p. Inr (acc @ [(k, p)])) []) (\<lambda>ps.
     Inr (uint (wh_operation h), int (wh_state_sequence h), ps)))"

lemma fold_collect: "fold_r (\<lambda>acc (k, p). Inr (acc @ [(k, p)])) ps acc = Inr (acc @ ps)"
  by (induction ps arbitrary: acc) auto

lemma encodeProof_Inr_iff:
  "encodeProof prev p = Inr (s, e) \<longleftrightarrow>
     (\<exists>n. p = to_proof (n, proof_bytes p) \<and> s = int n \<and> prev < int n
        \<and> proof_ok (n, proof_bytes p) \<and> e = proof_layout (n, proof_bytes p))"
proof (cases "slot p")
  case (JInt i)
  show ?thesis
  proof (cases "0 \<le> i")
    case True
    then obtain n where i: "i = int n" by (metis nonneg_int_cases)
    have "p = to_proof (m, proof_bytes p) \<longleftrightarrow> m = n" for m
      using JInt i by (cases p) (auto simp: to_proof_def)
    then show ?thesis
      using JInt i
      by (auto simp: encodeProof_def result_simps proof_ok_def proof_layout_def max_safe_integer_def
          simp flip: append_assoc)
  qed (use JInt in \<open>auto simp: encodeProof_def to_proof_def dest: arg_cong [where f = slot]\<close>)
qed (auto simp: encodeProof_def to_proof_def dest: arg_cong [where f = slot])

lemma encodeProofs_Inr_iff:
  "encodeProofs prev proofs = Inr es \<longleftrightarrow>
     (\<exists>ps. proofs = map to_proof ps \<and> list_all proof_ok ps \<and> sorted_wrt (<) (map fst ps)
        \<and> list_all (\<lambda>x. prev < int (fst x)) ps \<and> es = map proof_layout ps)"
proof (induction proofs arbitrary: prev es)
  case (Cons p proofs)
  show ?case
  proof
    assume "encodeProofs prev (p # proofs) = Inr es"
    then obtain n ps where n: "p = to_proof (n, proof_bytes p)" "prev < int n" "proof_ok (n, proof_bytes p)"
      and ps: "proofs = map to_proof ps" "list_all proof_ok ps" "sorted_wrt (<) (map fst ps)"
      "list_all (\<lambda>x. int n < int (fst x)) ps" "es = proof_layout (n, proof_bytes p) # map proof_layout ps"
      by (auto simp: result_simps encodeProof_Inr_iff Cons.IH)
    have "list_all (\<lambda>x. prev < int (fst x)) ps"
      using ps(4) n(2) by (auto simp: list_all_iff)
    with n ps show "\<exists>ps. p # proofs = map to_proof ps \<and> list_all proof_ok ps
        \<and> sorted_wrt (<) (map fst ps) \<and> list_all (\<lambda>x. prev < int (fst x)) ps \<and> es = map proof_layout ps"
      by (intro exI [of _ "(n, proof_bytes p) # ps"]) (auto simp: list_all_iff)
  next
    assume "\<exists>ps. p # proofs = map to_proof ps \<and> list_all proof_ok ps
        \<and> sorted_wrt (<) (map fst ps) \<and> list_all (\<lambda>x. prev < int (fst x)) ps \<and> es = map proof_layout ps"
    then obtain n b ps where ps: "p = to_proof (n, b)" "proofs = map to_proof ps"
      "list_all proof_ok ((n, b) # ps)" "sorted_wrt (<) (n # map fst ps)" "prev < int n"
      "es = map proof_layout ((n, b) # ps)"
      by (auto simp: Cons_eq_map_conv)
    then have "encodeProof prev p = Inr (int n, proof_layout (n, b))"
      by (simp add: encodeProof_Inr_iff to_proof_def)
    moreover have "encodeProofs (int n) proofs = Inr (map proof_layout ps)"
      unfolding Cons.IH using ps(2-4) by (auto simp: list_all_iff)
    ultimately show "encodeProofs prev (p # proofs) = Inr es"
      using ps(6) by simp
  qed
qed auto

lemma op_word:
  "op \<in> {1, 2, 3} \<Longrightarrow> (word_of_int op :: byte) \<in> {OP_SPEND, OP_ROTATE, OP_RECOVERY} \<and> uint (word_of_int op :: byte) = op"
  by auto

lemma encodeAccountWitness_Inr_iff:
  "encodeAccountWitness op seq proofs = Inr d \<longleftrightarrow>
     (\<exists>n ps. op \<in> {1, 2, 3} \<and> seq = int n \<and> proofs = map to_proof ps \<and> length ps \<le> 16
        \<and> witness_ok (word_of_int op) n ps \<and> d = witness_layout (word_of_int op) n ps)"
proof
  assume "encodeAccountWitness op seq proofs = Inr d"
  then obtain n ps where op: "op \<in> {1, 2, 3}" and n: "seq = int n" "n < 2 ^ 64"
    and ps: "proofs = map to_proof ps" "length ps \<le> 16" "list_all proof_ok ps" "sorted_wrt (<) (map fst ps)"
    and d: "d = witness_layout (word_of_int op) n ps" "length d \<le> WITNESS_MAX_LOCK_LEN"
    by (auto simp: encodeAccountWitness_def requireOperation_def result_simps encodeProofs_Inr_iff
        u64le_Inr_nat_iff AUTHENTICATOR_MAX_COUNT_def ACCOUNT_WITNESS_MAX_LOCK_LEN_def
        ACCOUNT_WITNESS_MAGIC_def ACCOUNT_WITNESS_VERSION_def witness_layout_def split: if_splits)
  then have "witness_ok (word_of_int op) n ps"
    using op_word [OF op] by (auto simp: witness_ok_def ascending_from_def)
  with op n ps d show "\<exists>n ps. op \<in> {1, 2, 3} \<and> seq = int n \<and> proofs = map to_proof ps \<and> length ps \<le> 16
        \<and> witness_ok (word_of_int op) n ps \<and> d = witness_layout (word_of_int op) n ps" by blast
next
  assume "\<exists>n ps. op \<in> {1, 2, 3} \<and> seq = int n \<and> proofs = map to_proof ps \<and> length ps \<le> 16
        \<and> witness_ok (word_of_int op) n ps \<and> d = witness_layout (word_of_int op) n ps"
  then obtain n ps where op: "op \<in> {1, 2, 3}" and n: "seq = int n" and ps: "proofs = map to_proof ps"
    "length ps \<le> 16" and ok: "witness_ok (word_of_int op) n ps"
    and d: "d = witness_layout (word_of_int op) n ps" by blast
  have "encodeProofs (-1) proofs = Inr (map proof_layout ps)"
    unfolding encodeProofs_Inr_iff using ok ps
    by (auto simp: witness_ok_def ascending_from_def list_all_iff)
  moreover have "u64le seq = Inr (le_bytes 8 n)"
    using ok n by (simp add: u64le_Inr_nat_iff witness_ok_def)
  moreover have "requireOperation op = Inr ()"
    using op by (auto simp: requireOperation_def)
  moreover have "bytesConcat ([ACCOUNT_WITNESS_MAGIC,
      [ACCOUNT_WITNESS_VERSION, word_of_int op, word_of_nat (length ps), 0], le_bytes 8 n]
      @ map proof_layout ps) = Inr d"
    using ok unfolding bytesConcat_Inr_iff
    by (simp add: d witness_ok_def witness_layout_def ACCOUNT_WITNESS_MAGIC_def
        ACCOUNT_WITNESS_VERSION_def max_safe_integer_def)
  ultimately show "encodeAccountWitness op seq proofs = Inr d"
    using ps(2) ok
    by (simp add: encodeAccountWitness_def AUTHENTICATOR_MAX_COUNT_def ACCOUNT_WITNESS_MAX_LOCK_LEN_def
        witness_ok_def d ps(1))
qed

lemma read_account_witness_Inr_iff:
  "read_account_witness d = Inr (op, seq, ps) \<longleftrightarrow>
     (\<exists>w n. op = uint w \<and> seq = int n \<and> witness_ok w n ps \<and> d = witness_layout w n ps)"
proof
  assume "read_account_witness d = Inr (op, seq, ps)"
  then obtain h where h: "parse_witness_header d = Inr h"
    and p: "parse_proofs d h (\<lambda>acc k p. Inr (acc @ [(k, p)])) [] = Inr ps"
    and eq: "op = uint (wh_operation h)" "seq = int (wh_state_sequence h)"
    by (auto simp: read_account_witness_def result_simps)
  from parse_witness_sound [OF h p] eq show
    "\<exists>w n. op = uint w \<and> seq = int n \<and> witness_ok w n ps \<and> d = witness_layout w n ps"
    by (auto simp: fold_collect)
next
  assume "\<exists>w n. op = uint w \<and> seq = int n \<and> witness_ok w n ps \<and> d = witness_layout w n ps"
  then obtain w n where "op = uint w" "seq = int n" and ok: "witness_ok w n ps"
    and d: "d = witness_layout w n ps" by blast
  then show "read_account_witness d = Inr (op, seq, ps)"
    by (simp add: read_account_witness_def d witness_layout_header [OF ok]
        parse_witness_complete [OF ok] fold_collect)
qed

lemma witness_roundtrip_iff:
  "encodeAccountWitness op seq proofs = Inr d \<longleftrightarrow>
     (\<exists>ps. proofs = map to_proof ps \<and> length ps \<le> 16 \<and> read_account_witness d = Inr (op, seq, ps))"
proof -
  have "witness_ok w n ps \<Longrightarrow> uint w \<in> {1, 2, 3} \<and> word_of_int (uint w) = w" for w n ps
    by (auto simp: witness_ok_def)
  then show ?thesis
    unfolding encodeAccountWitness_Inr_iff read_account_witness_Inr_iff
    using op_word by metis
qed

lemma inj_to_proof: "inj to_proof"
  by (auto simp: inj_def to_proof_def)

interpretation aw: wire_format
  "\<lambda>(op, seq, proofs). encodeAccountWitness op seq proofs" read_account_witness
  "\<lambda>(op, seq, ps). (op, seq, map to_proof ps)" "\<lambda>(op, seq, ps). length ps \<le> 16"
  by unfold_locales (auto simp: witness_roundtrip_iff inj_to_proof split: prod.splits)

section \<open>Properties\<close>

text \<open>
  C15: the browser's \<^verbatim>\<open>encodeAccountWitness\<close> and the on-chain witness parser are exact inverses.
  A byte string is the encoding of an operation, a sequence and a proof list if and only if
  the chain parses it into exactly that operation, that sequence and those proofs, and there
  are at most 16 of them; in particular every non-integral or out-of-range slot, every slot
  list that is not strictly ascending and every empty proof is refused.
\<close>

theorem account_witness_wire_exact:
  "(encodeAccountWitness op seq proofs = Inr d) =
     (\<exists>ps. proofs = map (\<lambda>(n, b). \<lparr>slot = JNat n, proof_bytes = b\<rparr>) ps \<and> length ps \<le> 16
        \<and> read_account_witness d = Inr (op, seq, ps))"
proof -
  have "to_proof = (\<lambda>(n, b). \<lparr>slot = JNat n, proof_bytes = b\<rparr>)"
    by (auto simp: fun_eq_iff to_proof_def)
  then show ?thesis
    using witness_roundtrip_iff [of op seq proofs d] by simp
qed

text \<open>
  An accepted AccountWitnessV1 is canonical. Two byte strings the chain parses to the same
  operation, sequence and at most 16 proofs are equal, and the encoder never maps two
  different inputs to one byte string, so nobody can re-encode a witness without changing
  what it says.
\<close>

lemma account_witness_canonical:
  "(read_account_witness d = Inr (op, seq, ps) \<and> read_account_witness d' = Inr (op, seq, ps)
      \<and> length ps \<le> 16 \<longrightarrow> d = d')
   \<and> (encodeAccountWitness op1 seq1 proofs1 = Inr d \<and> encodeAccountWitness op2 seq2 proofs2 = Inr d
      \<longrightarrow> op1 = op2 \<and> seq1 = seq2 \<and> proofs1 = proofs2)"
  using aw.non_malleable [of d "(op, seq, ps)" d']
    aw.encode_injective [of "(op1, seq1, proofs1)" d "(op2, seq2, proofs2)"] by auto

end
