(* ===== verification/Base64.thy ===== *)
theory Base64
  imports Schemas
begin

text \<open>
  Base64url as demo/src/client/passkey.ts (\<^verbatim>\<open>base64urlEncode\<close>, \<^verbatim>\<open>base64urlDecode\<close>) and
  demo/src/client/chain.ts (\<^verbatim>\<open>base64url\<close>) build it from the platform's \<^verbatim>\<open>btoa\<close> and \<^verbatim>\<open>atob\<close>, and the
  challenge string contracts/verifier-p256/src/main.rs computes from a digest.
\<close>

section \<open>btoa and atob\<close>

definition b64_char :: "nat \<Rightarrow> char" where
  "b64_char n =
     (if n < 26 then char_of (65 + n) else if n < 52 then char_of (71 + n)
      else if n < 62 then char_of (n - 4) else if n = 62 then CHR ''+'' else CHR ''/'')"

definition b64_value :: "char \<Rightarrow> nat option" where
  "b64_value c = (let n = of_char c :: nat in
     if 65 \<le> n \<and> n \<le> 90 then Some (n - 65)
     else if 97 \<le> n \<and> n \<le> 122 then Some (n - 71)
     else if 48 \<le> n \<and> n \<le> 57 then Some (n + 4)
     else if n = 43 then Some 62 else if n = 47 then Some 63 else None)"

text \<open>\<^verbatim>\<open>btoa\<close> of a binary string, given by its bytes.\<close>

fun btoa :: "bytes \<Rightarrow> string" where
  "btoa [] = []"
| "btoa [a] = [b64_char (unat a div 4), b64_char (unat a mod 4 * 16), CHR ''='', CHR ''='']"
| "btoa [a, b] =
     [b64_char (unat a div 4), b64_char (unat a mod 4 * 16 + unat b div 16),
      b64_char (unat b mod 16 * 4), CHR ''='']"
| "btoa (a # b # c # r) =
     [b64_char (unat a div 4), b64_char (unat a mod 4 * 16 + unat b div 16),
      b64_char (unat b mod 16 * 4 + unat c div 64), b64_char (unat c mod 64)] @ btoa r"

text \<open>
  \<^verbatim>\<open>atob\<close> of a string without white space: up to two padding characters are dropped when the
  length is a multiple of four, one leftover character is an error, leftover bits are discarded.
\<close>

fun sextets :: "string \<Rightarrow> nat list option" where
  "sextets [] = Some []"
| "sextets (c # s) = (case b64_value c of
     None \<Rightarrow> None
   | Some n \<Rightarrow> (case sextets s of None \<Rightarrow> None | Some ns \<Rightarrow> Some (n # ns)))"

fun unsextet :: "nat list \<Rightarrow> bytes option" where
  "unsextet [] = Some []"
| "unsextet [p] = None"
| "unsextet [p, q] = Some [word_of_nat (p * 4 + q div 16)]"
| "unsextet [p, q, r] = Some [word_of_nat (p * 4 + q div 16), word_of_nat (q mod 16 * 16 + r div 4)]"
| "unsextet (p # q # r # s # rest) = (case unsextet rest of
     None \<Rightarrow> None
   | Some bs \<Rightarrow> Some (word_of_nat (p * 4 + q div 16) # word_of_nat (q mod 16 * 16 + r div 4)
                     # word_of_nat (r mod 4 * 64 + s) # bs))"

definition drop_padding :: "string \<Rightarrow> string" where
  "drop_padding s =
     (if length s mod 4 \<noteq> 0 then s
      else if s \<noteq> [] \<and> last s = CHR ''='' then
        (let t = butlast s in if t \<noteq> [] \<and> last t = CHR ''='' then butlast t else t)
      else s)"

definition atob :: "string \<Rightarrow> bytes option" where
  "atob s = Option.bind (sextets (drop_padding s)) unsextet"

section \<open>The sources' base64url\<close>

definition replaceAll :: "char \<Rightarrow> char \<Rightarrow> string \<Rightarrow> string" where
  "replaceAll c d s = map (\<lambda>x. if x = c then d else x) s"

definition strip_trailing :: "char \<Rightarrow> string \<Rightarrow> string" where
  "strip_trailing c s = rev (dropWhile (\<lambda>x. x = c) (rev s))"

definition base64urlEncode :: "bytes \<Rightarrow> string" where
  "base64urlEncode bs =
     strip_trailing CHR ''='' (replaceAll CHR ''/'' CHR ''_'' (replaceAll CHR ''+'' CHR ''-'' (btoa bs)))"

definition padEnd :: "nat \<Rightarrow> char \<Rightarrow> string \<Rightarrow> string" where
  "padEnd n c s = s @ replicate (n - length s) c"

definition base64urlDecode :: "string \<Rightarrow> bytes js" where
  "base64urlDecode value =
     (if \<not> base64url_re value
      then Inl (PasskeyProtocolError ''Credential ID is not canonical base64url'')
      else
        let padded = padEnd ((length value + 3) div 4 * 4) CHR ''=''
              (replaceAll CHR ''_'' CHR ''/'' (replaceAll CHR ''-'' CHR ''+'' value))
        in case atob padded of
             None \<Rightarrow> Inl (PasskeyProtocolError ''Credential ID is not canonical base64url'')
           | Some decoded \<Rightarrow>
               if decoded = [] \<or> base64urlEncode decoded \<noteq> value
               then Inl (PasskeyProtocolError ''Credential ID is not canonical base64url'')
               else Inr decoded)"

section \<open>Round trip\<close>

lemma b64_value_char: "n < 64 \<Longrightarrow> b64_value (b64_char n) = Some n"
  by (auto simp: b64_value_def b64_char_def of_char_of Let_def)

text \<open>The url-safe characters.\<close>

definition u64_char :: "nat \<Rightarrow> char" where
  "u64_char n = (let c = b64_char n in if c = CHR ''+'' then CHR ''-'' else if c = CHR ''/'' then CHR ''_'' else c)"

definition std_char :: "char \<Rightarrow> char" where
  "std_char x = (let y = (if x = CHR ''-'' then CHR ''+'' else x) in if y = CHR ''_'' then CHR ''/'' else y)"

lemma b64_char_cases: "n < 64 \<Longrightarrow> b64_char n \<noteq> CHR ''='' \<and> b64_char n \<noteq> CHR ''-'' \<and> b64_char n \<noteq> CHR ''_''"
  using b64_value_char [of n] by (auto simp: b64_value_def)

lemma u64_char_facts:
  assumes "n < 64"
  shows "is_base64url (u64_char n)" "u64_char n \<noteq> CHR ''=''" "std_char (u64_char n) = b64_char n"
proof -
  show "is_base64url (u64_char n)"
    using assms by (auto simp: is_base64url_def u64_char_def b64_char_def of_char_of Let_def)
  show "u64_char n \<noteq> CHR ''=''" "std_char (u64_char n) = b64_char n"
    using b64_char_cases [OF assms] by (auto simp: u64_char_def std_char_def Let_def)
qed

fun sixes :: "bytes \<Rightarrow> nat list" where
  "sixes [] = []"
| "sixes [a] = [unat a div 4, unat a mod 4 * 16]"
| "sixes [a, b] = [unat a div 4, unat a mod 4 * 16 + unat b div 16, unat b mod 16 * 4]"
| "sixes (a # b # c # r) =
     unat a div 4 # (unat a mod 4 * 16 + unat b div 16) # (unat b mod 16 * 4 + unat c div 64)
      # unat c mod 64 # sixes r"

definition pad_of :: "bytes \<Rightarrow> nat" where
  "pad_of bs = (3 - length bs mod 3) mod 3"

lemma pad_of_simps [simp]:
  "pad_of [] = 0" "pad_of [a] = 2" "pad_of [a, b] = 1" "pad_of (a # b # c # r) = pad_of r"
  by (simp_all add: pad_of_def mod_Suc)

lemma sextet_bounds:
  "unat (a :: byte) div 4 < 64" "unat a mod 4 * 16 < 64" "unat a mod 4 * 16 + unat (b :: byte) div 16 < 64"
  "unat b mod 16 * 4 < 64" "unat b mod 16 * 4 + unat (c :: byte) div 64 < 64" "unat c mod 64 < 64"
  using unat_bound [of a] unat_bound [of b] unat_bound [of c]
  by (simp_all add: less_mult_imp_div_less)

lemma sixes_bound: "list_all (\<lambda>n. n < 64) (sixes bs)"
  by (induction bs rule: sixes.induct) (simp_all add: sextet_bounds)

lemma btoa_sixes: "btoa bs = map b64_char (sixes bs) @ replicate (pad_of bs) CHR ''=''"
  by (induction bs rule: sixes.induct) (simp_all add: numeral_2_eq_2)

lemma length_sixes: "length (sixes bs) + pad_of bs = (length (sixes bs) + 3) div 4 * 4"
proof (induction bs rule: sixes.induct)
  case (4 a b c r)
  have "(4 + length (sixes r) + 3) div 4 * 4 = 4 + (length (sixes r) + 3) div 4 * 4" by presburger
  with 4 show ?case by simp
qed simp_all

lemma pad_of_le: "pad_of bs \<le> 2"
  by (induction bs rule: sixes.induct) simp_all

lemma sextets_map: "list_all (\<lambda>n. n < 64) ns \<Longrightarrow> sextets (map b64_char ns) = Some ns"
  by (induction ns) (simp_all add: b64_value_char)

lemma sextet_join:
  fixes a b c :: nat
  assumes "b < 256" and "c < 256"
  shows "a div 4 * 4 + (a mod 4 * 16 + b div 16) div 16 = a"
    and "(a mod 4 * 16 + b div 16) mod 16 * 16 + (b mod 16 * 4 + c div 64) div 4 = b"
    and "(a mod 4 * 16 + b div 16) mod 16 * 16 + b mod 16 * 4 div 4 = b"
    and "(b mod 16 * 4 + c div 64) mod 4 * 64 + c mod 64 = c"
proof -
  have "b div 16 < 16" "c div 64 < 4" using assms by simp_all
  then have "(a mod 4 * 16 + b div 16) div 16 = a mod 4" "(a mod 4 * 16 + b div 16) mod 16 = b div 16"
    "(b mod 16 * 4 + c div 64) div 4 = b mod 16" "(b mod 16 * 4 + c div 64) mod 4 = c div 64"
    by simp_all
  then show "a div 4 * 4 + (a mod 4 * 16 + b div 16) div 16 = a"
    "(a mod 4 * 16 + b div 16) mod 16 * 16 + (b mod 16 * 4 + c div 64) div 4 = b"
    "(a mod 4 * 16 + b div 16) mod 16 * 16 + b mod 16 * 4 div 4 = b"
    "(b mod 16 * 4 + c div 64) mod 4 * 64 + c mod 64 = c"
    by simp_all
qed

lemma unsextet_sixes: "unsextet (sixes bs) = Some bs"
proof (induction bs rule: sixes.induct)
  case (2 a)
  have "unat a div 4 * 4 + unat a mod 4 * 16 div 16 = unat a" by simp
  then show ?case by (simp only: sixes.simps unsextet.simps) simp
next
  case (3 a b)
  show ?case
    by (simp only: sixes.simps unsextet.simps sextet_join [OF unat_bound unat_bound]) simp
next
  case (4 a b c r)
  then show ?case
    by (simp only: sixes.simps unsextet.simps sextet_join [OF unat_bound unat_bound]) simp
qed simp

lemma strip_trailing_append:
  "\<forall>x \<in> set xs. x \<noteq> c \<Longrightarrow> strip_trailing c (xs @ replicate k c) = xs"
  by (simp add: strip_trailing_def dropWhile_append) (metis dropWhile_eq_self_iff rev_rev_ident hd_in_set set_rev)

lemma base64urlEncode_sixes: "base64urlEncode bs = map u64_char (sixes bs)"
proof -
  have "replaceAll CHR ''/'' CHR ''_'' (replaceAll CHR ''+'' CHR ''-'' (btoa bs)) =
      map u64_char (sixes bs) @ replicate (pad_of bs) CHR ''=''"
    by (simp add: btoa_sixes replaceAll_def u64_char_def Let_def)
  moreover have "\<forall>x \<in> set (map u64_char (sixes bs)). x \<noteq> CHR ''=''"
    using sixes_bound [of bs] u64_char_facts(2) by (auto simp: list_all_iff)
  ultimately show ?thesis
    unfolding base64urlEncode_def by (simp only: strip_trailing_append)
qed

lemma drop_padding_append:
  assumes "\<forall>x \<in> set xs. x \<noteq> CHR ''=''" and "k \<le> 2" and "(length xs + k) mod 4 = 0"
  shows "drop_padding (xs @ replicate k CHR ''='') = xs"
proof -
  have last: "xs \<noteq> [] \<Longrightarrow> last xs \<noteq> CHR ''=''" using assms(1) last_in_set by blast
  consider "k = 0" | "k = 1" | "k = 2" using assms(2) by linarith
  then show ?thesis
  proof cases
    case 1
    then show ?thesis using assms(3) last by (auto simp: drop_padding_def)
  next
    case 2
    have "drop_padding (xs @ [CHR ''='']) = xs"
      using assms(3) last 2 by (auto simp: drop_padding_def Let_def)
    with 2 show ?thesis by simp
  next
    case 3
    have "drop_padding ((xs @ [CHR ''='']) @ [CHR ''='']) = xs"
      using assms(3) last 3 by (simp add: drop_padding_def Let_def butlast_snoc add_2_eq_Suc' del: append_assoc)
    with 3 show ?thesis by (simp add: numeral_2_eq_2)
  qed
qed

lemma atob_btoa: "atob (btoa bs) = Some bs"
proof -
  have "\<forall>x \<in> set (map b64_char (sixes bs)). x \<noteq> CHR ''=''"
    using sixes_bound [of bs] b64_char_cases by (auto simp: list_all_iff)
  moreover have "(length (map b64_char (sixes bs)) + pad_of bs) mod 4 = 0"
    using length_sixes [of bs] by simp
  ultimately have "drop_padding (btoa bs) = map b64_char (sixes bs)"
    unfolding btoa_sixes using pad_of_le by (intro drop_padding_append)
  then show ?thesis
    by (simp add: atob_def sextets_map [OF sixes_bound] unsextet_sixes)
qed

lemma std_u64: "list_all (\<lambda>n. n < 64) ns \<Longrightarrow>
  replaceAll CHR ''_'' CHR ''/'' (replaceAll CHR ''-'' CHR ''+'' (map u64_char ns)) = map b64_char ns"
proof -
  assume "list_all (\<lambda>n. n < 64) ns"
  moreover have "replaceAll CHR ''_'' CHR ''/'' (replaceAll CHR ''-'' CHR ''+'' xs) = map std_char xs" for xs
    by (simp add: replaceAll_def std_char_def Let_def)
  ultimately show ?thesis
    using u64_char_facts(3) by (simp add: list_all_iff)
qed

lemma base64urlEncode_re: "bs \<noteq> [] \<Longrightarrow> base64url_re (base64urlEncode bs)"
proof -
  assume "bs \<noteq> []"
  then have "sixes bs \<noteq> []" by (cases bs rule: sixes.cases) auto
  then show ?thesis
    using sixes_bound [of bs] u64_char_facts(1)
    by (auto simp: base64urlEncode_sixes base64url_re_def list_all_iff)
qed

lemma base64urlDecode_encode: "bs \<noteq> [] \<Longrightarrow> base64urlDecode (base64urlEncode bs) = Inr bs"
proof -
  assume ne: "bs \<noteq> []"
  have "padEnd ((length (base64urlEncode bs) + 3) div 4 * 4) CHR ''=''
      (replaceAll CHR ''_'' CHR ''/'' (replaceAll CHR ''-'' CHR ''+'' (base64urlEncode bs))) = btoa bs"
    using length_sixes [of bs]
    by (simp add: base64urlEncode_sixes std_u64 [OF sixes_bound] padEnd_def btoa_sixes)
  then show ?thesis
    using ne by (simp add: base64urlDecode_def base64urlEncode_re atob_btoa Let_def)
qed

lemma base64urlDecode_sound: "base64urlDecode v = Inr bs \<Longrightarrow> bs \<noteq> [] \<and> base64urlEncode bs = v"
  by (auto simp: base64urlDecode_def Let_def split: if_splits option.splits)

section \<open>Properties\<close>

text \<open>
  Base64url is canonical. \<^verbatim>\<open>base64urlDecode\<close> accepts exactly the strings that
  \<^verbatim>\<open>base64urlEncode\<close> produces from non-empty byte strings and gives those bytes back; every
  other string (foreign characters, padding, non-zero leftover bits, impossible lengths) throws.
\<close>

lemma base64url_canonical:
  "(base64urlDecode v = Inr bs) = (bs \<noteq> [] \<and> base64urlEncode bs = v)"
  using base64urlDecode_sound base64urlDecode_encode by blast

end
