(* ===== verification/Spend.thy ===== *)
theory Spend
  imports AccountState Conformance Base64
begin

text \<open>
  The rest of demo/src/client/chain.ts: discovering the account's cells, preparing the fixed
  transfer, finalizing it with a WebAuthn assertion, submitting and confirming it.

  The RPC client is the record \<open>spend_client\<close> of operations on an arbitrary environment \<open>'w\<close>, so
  every theorem holds for every answer of the node and the indexer. The asynchronous generator
  of \<^verbatim>\<open>findCellsByLock\<close> is the finite list of the results it yields, an \<open>Inl\<close> being a rejected step.
  \<^verbatim>\<open>JSON.parse\<close> and the fatal UTF-8 \<^verbatim>\<open>TextDecoder\<close> are the fields of \<open>js_runtime\<close>.
\<close>

section \<open>Data\<close>

record 'w spend_client =
  getCellLive :: "out_point \<Rightarrow> ('w, js_error, cell option) io"
  findCellsByLock :: "script \<Rightarrow> 'w \<Rightarrow> (js_error + cell) list \<times> 'w"
  sendTransaction :: "transaction \<Rightarrow> ('w, js_error, string) io"
  waitTransaction :: "string \<Rightarrow> ('w, js_error, unit option) io"

record js_runtime =
  rt_decodeUtf8 :: "bytes \<Rightarrow> string option"
  rt_jsonParse :: "string \<Rightarrow> js_value option"

record spend_review =
  inputCapacityShannons :: string
  transferCapacityShannons :: string
  changeCapacityShannons :: string
  feeShannons :: string
  rv_funderAddress :: string
  inputOutPoint :: "string \<times> int"
  dependencies :: "(string \<times> string \<times> int) list"

record prepared_spend =
  pr_transaction :: transaction
  pr_authorizationDigest :: bytes
  pr_review :: spend_review
  pr_maxWitnessBytes :: nat
  pr_sequence :: nat
  pr_credentialId :: string
  pr_publicKey :: string
  pr_accountId :: string
  pr_stateData :: string

text \<open>\<^verbatim>\<open>AssertionMaterial\<close> of demo/src/client/passkey.ts.\<close>

record assertion_material =
  as_credentialId :: string
  as_authenticatorData :: bytes
  as_clientDataJson :: bytes
  as_signature :: bytes

definition MAX_AUTHENTICATOR_DATA_BYTES :: nat where
  "MAX_AUTHENTICATOR_DATA_BYTES = 1024"

definition MAX_CLIENT_DATA_BYTES :: nat where
  "MAX_CLIENT_DATA_BYTES = 2048"

definition MAX_DER_SIGNATURE_BYTES :: nat where
  "MAX_DER_SIGNATURE_BYTES = 72"

definition MIN_AUTHENTICATOR_DATA_BYTES :: nat where
  "MIN_AUTHENTICATOR_DATA_BYTES = 37"

section \<open>Discovery\<close>

definition sameOutPoint :: "cell \<Rightarrow> manifest_out_point \<Rightarrow> bool" where
  "sameOutPoint c v \<longleftrightarrow> outPoint c = \<lparr>op_txHash = mo_tx_hash v, op_index = mo_index v\<rparr>"

definition verifyStateCell :: "cell \<Rightarrow> verified_account \<Rightarrow> parsed_state js" where
  "verifyStateCell state account =
     (if \<not> sameOutPoint state (am_state_out_point (va_manifest account))
      then fail ''Live state outpoint does not match the account manifest''
      else if lock (cellOutput state) \<noteq> accountLock account
      then fail ''Live state lock does not match AccountLock''
      else if type_script (cellOutput state) \<noteq> Some (stateType account)
      then fail ''Live state Type ID script does not match the account''
      else parseAccountState (outputData state) account)"

text \<open>The \<^verbatim>\<open>for await\<close> loop over the indexer's cells; it stops after the second asset.\<close>

fun scan_assets :: "verified_account \<Rightarrow> cell list \<Rightarrow> (js_error + cell) list \<Rightarrow> cell list js" where
  "scan_assets account assets [] = Inr assets"
| "scan_assets account assets (Inl e # rest) = Inl e"
| "scan_assets account assets (Inr c # rest) =
     (if lock (cellOutput c) \<noteq> accountLock account
      then Inl (TypeError ''Indexer returned a cell with a foreign lock'')
      else if sameOutPoint c (am_state_out_point (va_manifest account))
      then bind_r (verifyStateCell c account) (\<lambda>_. scan_assets account assets rest)
      else if type_script (cellOutput c) \<noteq> None
      then Inl (TypeError ''AccountLock scan returned a typed asset candidate'')
      else if outputData c \<noteq> ''0x''
      then Inl (TypeError ''AccountLock asset candidate contains data'')
      else if length (assets @ [c]) > 1 then Inr (assets @ [c])
      else scan_assets account (assets @ [c]) rest)"

definition out_point_of :: "manifest_out_point \<Rightarrow> out_point" where
  "out_point_of v = \<lparr>op_txHash = mo_tx_hash v, op_index = mo_index v\<rparr>"

definition asset_unchanged :: "verified_account \<Rightarrow> cell \<Rightarrow> cell option \<Rightarrow> bool" where
  "asset_unchanged account asset live = (case live of
     None \<Rightarrow> False
   | Some l \<Rightarrow>
       sameOutPoint l (am_asset_out_point (va_manifest account))
       \<and> lock (cellOutput l) = accountLock account \<and> type_script (cellOutput l) = None
       \<and> outputData l = ''0x'' \<and> capacity (cellOutput l) = capacity (cellOutput asset))"

text \<open>The checks after the scan: exactly one asset, at the recorded outpoint, still live and unchanged.\<close>

definition confirmAsset ::
  "'w spend_client \<Rightarrow> verified_account \<Rightarrow> cell \<Rightarrow> cell list \<Rightarrow> ('w, js_error, cell \<times> cell) io"
where
  "confirmAsset client account state assets = (case assets of
     [asset] \<Rightarrow>
       if \<not> sameOutPoint asset (am_asset_out_point (va_manifest account))
       then throw_io (TypeError ''Live asset outpoint does not match the account manifest'')
       else
         bind_io (getCellLive client (out_point_of (am_asset_out_point (va_manifest account)))) (\<lambda>live.
         if \<not> asset_unchanged account asset live
         then throw_io (TypeError ''AccountLock asset cell is spent or changed'')
         else return_io (state, the live))
   | _ \<Rightarrow> throw_io (TypeError ''Expected exactly one AccountLock asset cell''))"

definition discoverAccountCells ::
  "'w spend_client \<Rightarrow> verified_account \<Rightarrow> ('w, js_error, cell \<times> cell) io"
where
  "discoverAccountCells client account =
     bind_io (getCellLive client (out_point_of (am_state_out_point (va_manifest account)))) (\<lambda>found.
     case found of
       None \<Rightarrow> throw_io (TypeError ''Account state cell is spent or unavailable'')
     | Some state \<Rightarrow>
         bind_io (lift_io (verifyStateCell state account)) (\<lambda>_.
         bind_io (\<lambda>w. case findCellsByLock client (accountLock account) w of
                        (cells, w') \<Rightarrow> (scan_assets account [] cells, w')) (\<lambda>assets.
         confirmAsset client account state assets)))"

section \<open>Preparing\<close>

definition maximumWitness :: "ccc \<Rightarrow> bytes \<Rightarrow> nat \<Rightarrow> bytes js" where
  "maximumWitness C pubKey seq =
     (let sig = (replicate MAX_DER_SIGNATURE_BYTES 0)[0 := 0x30, 1 := word_of_nat (MAX_DER_SIGNATURE_BYTES - 2)] in
      bind_r (encodeP256Proof \<lparr>publicKey = pubKey, origin = ascii CLIENT_ORIGIN,
        authenticatorData = replicate MAX_AUTHENTICATOR_DATA_BYTES 0,
        clientDataJson = replicate MAX_CLIENT_DATA_BYTES 0, signature = sig\<rparr>) (\<lambda>p.
      bind_r (encodeAccountWitness OP_SPEND_TS (int seq) [\<lparr>slot = JInt 0, proof_bytes = p\<rparr>]) (\<lambda>w.
      Inr (packAccountWitness C w))))"

definition ensureOccupiedCapacity :: "ccc \<Rightarrow> cell_output \<Rightarrow> string \<Rightarrow> unit js" where
  "ensureOccupiedCapacity C output label =
     (let minimum = int (ccc_occupiedSize C output) * SHANNONS_PER_CKB in
      if capacity output < minimum then Inl (RangeError (label @ '' output is below occupied capacity''))
      else Inr ())"

definition spend_transaction :: "verified_account \<Rightarrow> cell \<Rightarrow> script \<Rightarrow> int \<Rightarrow> bytes \<Rightarrow> transaction" where
  "spend_transaction account asset funderLock change placeholder =
     \<lparr>cellDeps = [accountLockDep (va_deployment account), verifierP256Dep (va_deployment account), stateDep account],
      inputs = [\<lparr>previousOutput = outPoint asset, since = 0\<rparr>],
      outputs = [\<lparr>capacity = TRANSFER_CAPACITY, lock = funderLock, type_script = None\<rparr>,
                 \<lparr>capacity = change, lock = accountLock account, type_script = None\<rparr>],
      outputsData = [''0x'', ''0x''],
      witnesses = [hexFromBytes placeholder]\<rparr>"

definition dep_review :: "string \<Rightarrow> cell_dep \<Rightarrow> string \<times> string \<times> int" where
  "dep_review name d = (name, op_txHash (dep_outPoint d), op_index (dep_outPoint d))"

text \<open>Everything after the cells are known; it makes no further call to the client.\<close>

definition buildSpend ::
  "ccc \<Rightarrow> verified_account \<Rightarrow> string \<Rightarrow> passkey_record \<Rightarrow> bytes \<Rightarrow> cell \<Rightarrow> cell \<Rightarrow> prepared_spend js"
where
  "buildSpend C account funderAddress passkey pubKey state asset =
     bind_r (parseAccountState (outputData state) account) (\<lambda>parsedState.
     if hexFromBytes (ps_keyId parsedState) \<noteq> pk_keyId passkey
     then Inl (TypeError ''Passkey does not match the live account state'')
     else
       bind_r (ccc_addressScript C funderAddress) (\<lambda>funderLock.
       let inputCapacity = capacity (cellOutput asset) in
       if inputCapacity \<le> TRANSFER_CAPACITY
       then Inl (RangeError ''AccountLock asset cannot cover the fixed transfer and fee'')
       else
         bind_r (maximumWitness C pubKey (ps_sequence parsedState)) (\<lambda>placeholder.
         let fee = ccc_estimateFee C
               (spend_transaction account asset funderLock (inputCapacity - TRANSFER_CAPACITY) placeholder) FEE_RATE;
             change = inputCapacity - TRANSFER_CAPACITY - fee
         in
         if change \<le> 0
         then Inl (RangeError ''AccountLock asset cannot cover the fixed transfer and fee'')
         else
           let transaction = spend_transaction account asset funderLock change placeholder in
           bind_r (ensureOccupiedCapacity C (outputs transaction ! 0) ''Transfer'') (\<lambda>_.
           bind_r (ensureOccupiedCapacity C (outputs transaction ! 1) ''Change'') (\<lambda>_.
           bind_r (ccc_bytesFrom C (ccc_txHash C transaction)) (\<lambda>txHash.
           bind_r (ccc_bytesFrom C (witnesses transaction ! 0)) (\<lambda>firstWitness.
           bind_r (groupSighash C txHash [firstWitness] []) (\<lambda>canonicalGroupSighash.
           bind_r (bytesFromHex (am_account_id (va_manifest account))) (\<lambda>accountId.
           bind_r (bytesFromHex (outputData state)) (\<lambda>stateBytes.
           bind_r (authorizationDigest C \<lparr>operation = OP_SPEND_TS, accountId = accountId,
             sequence = int (ps_sequence parsedState), state_data = stateBytes,
             group_sighash = canonicalGroupSighash\<rparr>) (\<lambda>digest.
           Inr \<lparr>pr_transaction = transaction, pr_authorizationDigest = digest,
                pr_review = \<lparr>inputCapacityShannons = dec_int inputCapacity,
                  transferCapacityShannons = dec_int TRANSFER_CAPACITY,
                  changeCapacityShannons = dec_int change, feeShannons = dec_int fee,
                  rv_funderAddress = funderAddress,
                  inputOutPoint = (op_txHash (outPoint asset), op_index (outPoint asset)),
                  dependencies =
                    [dep_review ''account_lock'' (accountLockDep (va_deployment account)),
                     dep_review ''verifier_p256'' (verifierP256Dep (va_deployment account)),
                     dep_review ''account_state'' (stateDep account)]\<rparr>,
                pr_maxWitnessBytes = length placeholder,
                pr_sequence = ps_sequence parsedState, pr_credentialId = pk_credentialId passkey,
                pr_publicKey = pk_publicKey passkey,
                pr_accountId = am_account_id (va_manifest account),
                pr_stateData = outputData state\<rparr>)))))))))))"

definition prepareSpend ::
  "ccc \<Rightarrow> zod \<Rightarrow> 'w spend_client \<Rightarrow> verified_account \<Rightarrow> string \<Rightarrow> js_value \<Rightarrow> ('w, js_error, prepared_spend) io"
where
  "prepareSpend C Z client account funderAddress passkeyValue =
     bind_io (lift_io (parse_or_throw Z PasskeyRecordSchema passkey_record_of passkeyValue)) (\<lambda>passkey.
     bind_io (lift_io (bytesFromHex (pk_publicKey passkey))) (\<lambda>publicKey.
     bind_io (lift_io (ckbHash C publicKey)) (\<lambda>keyId.
     if hexFromBytes keyId \<noteq> pk_keyId passkey
     then throw_io (TypeError ''Stored passkey key ID does not match its public key'')
     else
       bind_io (discoverAccountCells client account) (\<lambda>(state, asset).
       lift_io (buildSpend C account funderAddress passkey publicKey state asset)))))"

section \<open>Finalizing\<close>

definition validateClientData :: "js_runtime \<Rightarrow> prepared_spend \<Rightarrow> bytes \<Rightarrow> unit js" where
  "validateClientData R prepared bs =
     (case Option.bind (rt_decodeUtf8 R bs) (rt_jsonParse R) of
        None \<Rightarrow> fail ''Assertion client data is not valid UTF-8 JSON''
      | Some value \<Rightarrow>
          (case value of
             JObj fs \<Rightarrow>
               if jget fs ''type'' \<noteq> JStr ''webauthn.get''
                  \<or> jget fs ''challenge'' \<noteq> JStr (base64urlEncode (pr_authorizationDigest prepared))
                  \<or> jget fs ''origin'' \<noteq> JStr CLIENT_ORIGIN
                  \<or> jget fs ''crossOrigin'' \<noteq> JUndefined \<and> jget fs ''crossOrigin'' \<noteq> JBool False
               then fail ''Assertion client data does not authorize this transaction''
               else Inr ()
           | JArr _ \<Rightarrow> fail ''Assertion client data does not authorize this transaction''
           | _ \<Rightarrow> fail ''Assertion client data is malformed''))"

definition validateDerSignature :: "bytes \<Rightarrow> unit js" where
  "validateDerSignature sig =
     (if length sig < 8 \<or> length sig > MAX_DER_SIGNATURE_BYTES \<or> idx sig 0 \<noteq> Some 0x30
         \<or> map_option unat (idx sig 1) \<noteq> Some (length sig - 2)
      then Inl (TypeError ''Assertion signature is not bounded P-256 DER'')
      else Inr ())"

definition finalizeSpend ::
  "ccc \<Rightarrow> zod \<Rightarrow> js_runtime \<Rightarrow> prepared_spend \<Rightarrow> js_value \<Rightarrow> assertion_material \<Rightarrow> transaction js"
where
  "finalizeSpend C Z R prepared passkeyValue assertion =
     bind_r (parse_or_throw Z PasskeyRecordSchema passkey_record_of passkeyValue) (\<lambda>passkey.
     if as_credentialId assertion \<noteq> pr_credentialId prepared
        \<or> pk_credentialId passkey \<noteq> pr_credentialId prepared
        \<or> pk_publicKey passkey \<noteq> pr_publicKey prepared
     then Inl (TypeError ''Assertion credential does not match the prepared spend'')
     else if length (as_authenticatorData assertion) < MIN_AUTHENTICATOR_DATA_BYTES
        \<or> length (as_authenticatorData assertion) > MAX_AUTHENTICATOR_DATA_BYTES
     then Inl (RangeError ''Assertion authenticator data is outside supported bounds'')
     else if length (as_clientDataJson assertion) = 0
        \<or> length (as_clientDataJson assertion) > MAX_CLIENT_DATA_BYTES
     then Inl (RangeError ''Assertion client data is outside supported bounds'')
     else
       bind_r (validateDerSignature (as_signature assertion)) (\<lambda>_.
       bind_r (validateClientData R prepared (as_clientDataJson assertion)) (\<lambda>_.
       bind_r (bytesFromHex (pk_publicKey passkey)) (\<lambda>publicKey.
       bind_r (encodeP256Proof \<lparr>publicKey = publicKey, origin = ascii CLIENT_ORIGIN,
         authenticatorData = as_authenticatorData assertion, clientDataJson = as_clientDataJson assertion,
         signature = as_signature assertion\<rparr>) (\<lambda>p.
       bind_r (encodeAccountWitness OP_SPEND_TS (int (pr_sequence prepared)) [\<lparr>slot = JInt 0, proof_bytes = p\<rparr>]) (\<lambda>w.
       let witness = packAccountWitness C w in
       if length witness > pr_maxWitnessBytes prepared
       then Inl (RangeError ''Assertion witness exceeds the prepared fee reservation'')
       else
         let finalized = (pr_transaction prepared)\<lparr>witnesses :=
               (case witnesses (pr_transaction prepared) of
                  [] \<Rightarrow> [hexFromBytes witness] | _ # ws \<Rightarrow> hexFromBytes witness # ws)\<rparr> in
         if ccc_txHash C finalized \<noteq> ccc_txHash C (pr_transaction prepared)
         then Inl (TypeError ''Finalizing the witness changed raw transaction fields'')
         else Inr finalized))))))"

section \<open>Submitting and confirming\<close>

definition submitSpend :: "zod \<Rightarrow> 'w spend_client \<Rightarrow> transaction \<Rightarrow> ('w, js_error, receipt) io" where
  "submitSpend Z client transaction =
     (if length (outputs transaction) \<noteq> 2 \<or> length (outputsData transaction) \<noteq> 2
      then throw_io (TypeError ''Spend transaction has an unexpected output shape'')
      else
        bind_io (sendTransaction client transaction) (\<lambda>txHash.
        lift_io (parse_or_throw Z SubmittedReceiptSchema receipt_of (JObj
          [(''status'', JStr ''submitted''), (''txHash'', JStr txHash),
           (''explorerUrl'', JStr (EXPLORER_URL @ txHash)),
           (''remainingCapacityShannons'', JStr (dec_int (capacity (outputs transaction ! 1))))]))))"

definition isConfirmationTimeout :: "js_error \<Rightarrow> bool" where
  "isConfirmationTimeout e = (case e of
     NamedError name msg \<Rightarrow> name = ''ErrorClientWaitTransactionTimeout'' | _ \<Rightarrow> False)"

text \<open>\<^verbatim>\<open>{ ...submitted, status }\<close>: the receipt with its status replaced in place.\<close>

definition with_status :: "receipt \<Rightarrow> string \<Rightarrow> js_value" where
  "with_status r st = receipt_json (r\<lparr>r_status := st\<rparr>)"

definition change_verified :: "receipt \<Rightarrow> cell option \<Rightarrow> bool" where
  "change_verified submitted change = (case change of
     None \<Rightarrow> False
   | Some c \<Rightarrow> type_script (cellOutput c) = None \<and> outputData c = ''0x''
       \<and> dec_int (capacity (cellOutput c)) = r_remainingCapacityShannons submitted)"

definition confirmSpend :: "zod \<Rightarrow> 'w spend_client \<Rightarrow> js_value \<Rightarrow> ('w, js_error, receipt) io" where
  "confirmSpend Z client submittedValue =
     bind_io (lift_io (parse_or_throw Z SubmittedReceiptSchema receipt_of submittedValue)) (\<lambda>submitted.
     bind_io
       (catch_io
          (bind_io (waitTransaction client (r_txHash submitted)) (\<lambda>response.
           case response of
             None \<Rightarrow> throw_io (TypeError ''Committed transaction response is unavailable'')
           | Some _ \<Rightarrow> return_io None))
          (\<lambda>e. if \<not> isConfirmationTimeout e then throw_io e
               else lift_io (bind_r (parse_or_throw Z ConfirmationTimedOutReceiptSchema receipt_of
                      (with_status submitted ''confirmation_timeout'')) (\<lambda>r. Inr (Some r)))))
       (\<lambda>early. case early of
          Some r \<Rightarrow> return_io r
        | None \<Rightarrow>
            bind_io (getCellLive client \<lparr>op_txHash = r_txHash submitted, op_index = 1\<rparr>) (\<lambda>change.
            if \<not> change_verified submitted change
            then throw_io (TypeError ''Committed AccountLock change could not be verified'')
            else lift_io (parse_or_throw Z CommittedReceiptSchema receipt_of (with_status submitted ''committed'')))))"

end
