(* ===== verification/SpendProps.thy ===== *)
theory SpendProps
  imports Spend
begin

text \<open>
  Correctness of the spend flow of demo/src/client/chain.ts: what discovery establishes, that
  preparing conserves capacity and signs over exactly what the lock script will hash, that
  finalizing cannot outgrow the reserved fee and yields a witness the chain parses into the
  assertion, and what a receipt means.
\<close>

section \<open>The spend witness\<close>

definition spend_proof :: "bytes \<Rightarrow> bytes \<Rightarrow> bytes \<Rightarrow> bytes \<Rightarrow> p256_proof_input" where
  "spend_proof pk ad cd sig = \<lparr>publicKey = pk, origin = ascii CLIENT_ORIGIN, authenticatorData = ad,
     clientDataJson = cd, signature = sig\<rparr>"

definition spend_witness :: "nat \<Rightarrow> p256_proof_input \<Rightarrow> bytes" where
  "spend_witness seq q = mol_witness_args (Some (witness_layout 1 seq [(0, p256_layout q)])) None None"

definition assertion_bounds :: "bytes \<Rightarrow> bytes \<Rightarrow> bytes \<Rightarrow> bool" where
  "assertion_bounds ad cd sig \<longleftrightarrow>
     37 \<le> length ad \<and> length ad \<le> 1024 \<and> cd \<noteq> [] \<and> length cd \<le> 2048 \<and> sig \<noteq> [] \<and> length sig \<le> 72"

lemma length_client_origin [simp]: "length (ascii CLIENT_ORIGIN) = 21"
  by (simp add: ascii_def CLIENT_ORIGIN_def)

lemma spend_proof_ok:
  assumes "length pk = 65" and "idx pk 0 = Some 4" and "assertion_bounds ad cd sig"
  shows "p256_ok (spend_proof pk ad cd sig)" and "sec1_tagged (spend_proof pk ad cd sig)"
    and "length (p256_layout (spend_proof pk ad cd sig)) = 158 - 65 + length ad + length cd + length sig"
proof -
  have "ascii CLIENT_ORIGIN \<noteq> []" by (metis length_client_origin list.size(3) zero_neq_numeral)
  with assms show "p256_ok (spend_proof pk ad cd sig)"
    by (simp add: p256_ok_def spend_proof_def assertion_bounds_def)
  show "sec1_tagged (spend_proof pk ad cd sig)"
    using assms(2) by (simp add: sec1_tagged_def spend_proof_def)
  show "length (p256_layout (spend_proof pk ad cd sig)) = 158 - 65 + length ad + length cd + length sig"
    using assms(1) by (simp add: p256_layout_def spend_proof_def)
qed

lemma spend_witness_encoded:
  assumes "length pk = 65" and "idx pk 0 = Some 4" and "assertion_bounds ad cd sig" and "seq < 2 ^ 64"
    and "ccc_molecule C"
  defines "q \<equiv> spend_proof pk ad cd sig"
  shows "encodeP256Proof q = Inr (p256_layout q)"
    and "encodeAccountWitness OP_SPEND_TS (int seq) [\<lparr>slot = JInt 0, proof_bytes = p256_layout q\<rparr>]
      = Inr (witness_layout 1 seq [(0, p256_layout q)])"
    and "packAccountWitness C (witness_layout 1 seq [(0, p256_layout q)]) = spend_witness seq q"
    and "length (spend_witness seq q) = 137 + length ad + length cd + length sig"
    and "length (spend_witness seq q) \<le> MAX_WITNESS"
    and "witness_ok 1 seq [(0, p256_layout q)]"
proof -
  note ok = spend_proof_ok [OF assms(1-3), folded q_def]
  show "encodeP256Proof q = Inr (p256_layout q)"
    using ok by (simp add: encodeP256Proof_Inr_iff)
  have len: "length (p256_layout q) = 93 + length ad + length cd + length sig" using ok(3) by simp
  then have "length (p256_layout q) \<noteq> 0" by simp
  then have "p256_layout q \<noteq> []" by simp
  then show wok: "witness_ok 1 seq [(0, p256_layout q)]"
    using assms(3,4) len
    by (simp add: witness_ok_def proof_ok_def ascending_from_def witness_layout_def assertion_bounds_def)
  then show "encodeAccountWitness OP_SPEND_TS (int seq) [\<lparr>slot = JInt 0, proof_bytes = p256_layout q\<rparr>]
      = Inr (witness_layout 1 seq [(0, p256_layout q)])"
    unfolding encodeAccountWitness_Inr_iff OP_SPEND_TS_def
    by (intro exI [of _ seq] exI [of _ "[(0, p256_layout q)]"]) (simp add: to_proof_def)
  have wlen: "length (spend_witness seq q) = 137 + length ad + length cd + length sig"
    using len by (simp add: spend_witness_def mol_witness_args_def witness_layout_def)
  then show "length (spend_witness seq q) = 137 + length ad + length cd + length sig" .
  then show "length (spend_witness seq q) \<le> MAX_WITNESS"
    using assms(3) by (simp add: MAX_WITNESS_def assertion_bounds_def)
  have "length (spend_witness seq q) < 2 ^ 32"
    using wlen assms(3) by (simp add: assertion_bounds_def)
  then show "packAccountWitness C (witness_layout 1 seq [(0, p256_layout q)]) = spend_witness seq q"
    using ccc_moleculeD(1) [OF assms(5), of "Some (witness_layout 1 seq [(0, p256_layout q)])" None None]
    by (simp add: packAccountWitness_def spend_witness_def witness_args_hex_def)
qed

definition max_proof :: "bytes \<Rightarrow> p256_proof_input" where
  "max_proof pk = spend_proof pk (replicate 1024 0) (replicate 2048 0) (0x30 # 70 # replicate 70 0)"

lemma maximumWitness_eq:
  assumes "length pk = 65" and "idx pk 0 = Some 4" and "seq < 2 ^ 64" and "ccc_molecule C"
  shows "maximumWitness C pk seq = Inr (spend_witness seq (max_proof pk))"
    and "length (spend_witness seq (max_proof pk)) = 3281"
proof -
  have b: "assertion_bounds (replicate 1024 0) (replicate 2048 0) (0x30 # 70 # replicate 70 0)"
    by (auto simp: assertion_bounds_def)
  have sig: "(replicate 72 0 :: bytes)[0 := 0x30, 1 := 70] = 0x30 # 70 # replicate 70 0"
    by (simp add: numeral_eq_Suc)
  note enc = spend_witness_encoded [OF assms(1,2) b assms(3,4), folded max_proof_def]
  show "maximumWitness C pk seq = Inr (spend_witness seq (max_proof pk))"
    using enc(1-3) sig
    by (simp add: maximumWitness_def MAX_DER_SIGNATURE_BYTES_def MAX_AUTHENTICATOR_DATA_BYTES_def
        MAX_CLIENT_DATA_BYTES_def max_proof_def spend_proof_def Let_def)
  show "length (spend_witness seq (max_proof pk)) = 3281"
    using enc(4) by simp
qed

section \<open>Discovery\<close>

definition state_cell_ok :: "verified_account \<Rightarrow> cell \<Rightarrow> bool" where
  "state_cell_ok a c \<longleftrightarrow>
     outPoint c = out_point_of (am_state_out_point (va_manifest a)) \<and> lock (cellOutput c) = accountLock a
     \<and> type_script (cellOutput c) = Some (stateType a) \<and> is_ok (parseAccountState (outputData c) a)"

definition asset_cell_ok :: "verified_account \<Rightarrow> cell \<Rightarrow> bool" where
  "asset_cell_ok a c \<longleftrightarrow>
     outPoint c = out_point_of (am_asset_out_point (va_manifest a)) \<and> lock (cellOutput c) = accountLock a
     \<and> type_script (cellOutput c) = None \<and> outputData c = ''0x''"

lemma verifyStateCell_Inr: "verifyStateCell c a = Inr ps \<Longrightarrow>
  state_cell_ok a c \<and> parseAccountState (outputData c) a = Inr ps"
  by (auto simp: verifyStateCell_def fail_def state_cell_ok_def sameOutPoint_def out_point_of_def is_ok_iff
      split: if_splits)

text \<open>Every cell the scan consumed is the state cell or a collected asset.\<close>

lemma scan_assets_sound:
  assumes "scan_assets a acc rs = Inr assets"
  shows "\<exists>new. assets = acc @ new \<and> list_all (\<lambda>c. lock (cellOutput c) = accountLock a
      \<and> type_script (cellOutput c) = None \<and> outputData c = ''0x'' \<and> Inr c \<in> set rs) new
    \<and> (length assets \<le> 1 \<longrightarrow> list_all (\<lambda>r. \<exists>c. r = Inr c \<and> (state_cell_ok a c \<or> c \<in> set assets)) rs)"
  using assms
proof (induction a acc rs rule: scan_assets.induct)
  case (3 account acc c rest)
  show ?case
  proof (cases "sameOutPoint c (am_state_out_point (va_manifest account))")
    case True
    with 3 show ?thesis
      by (auto simp: result_simps list_all_iff dest!: verifyStateCell_Inr split: if_splits)
  next
    case False
    show ?thesis
    proof (cases "acc = []")
      case True
      with False 3 show ?thesis by (fastforce simp: list_all_iff split: if_splits)
    next
      case ne: False
      with False 3(3) show ?thesis by (auto simp: list_all_iff split: if_splits)
    qed
  qed
qed auto

lemma confirmAsset_Inr:
  assumes "confirmAsset client a st assets w = (Inr (state, asset), w')"
  shows "state = st \<and> (\<exists>x. assets = [x] \<and> asset_unchanged a x (Some asset)
    \<and> getCellLive client (out_point_of (am_asset_out_point (va_manifest a))) w = (Inr (Some asset), w'))"
proof -
  consider "assets = []" | x where "assets = [x]" | x y zs where "assets = x # y # zs"
    by (metis neq_Nil_conv)
  then obtain x where x: "assets = [x]"
    by cases (use assms in \<open>simp_all add: confirmAsset_def\<close>)
  from assms obtain live where l: "getCellLive client (out_point_of (am_asset_out_point (va_manifest a))) w = (Inr live, w')"
    and u: "asset_unchanged a x live" and eq: "state = st" "asset = the live"
    unfolding confirmAsset_def x list.case by (auto simp: bind_io_Inr_iff split: if_split_asm)
  have "live = Some asset" using u eq(2) by (cases live) (simp_all add: asset_unchanged_def)
  with x l u eq(1) show ?thesis by simp
qed

lemma discoverAccountCells_Inr:
  assumes "discoverAccountCells client a w = (Inr (state, asset), w')"
  shows "\<exists>w1 w2 cells x. getCellLive client (out_point_of (am_state_out_point (va_manifest a))) w = (Inr (Some state), w1)
    \<and> is_ok (verifyStateCell state a)
    \<and> findCellsByLock client (accountLock a) w1 = (cells, w2) \<and> scan_assets a [] cells = Inr [x]
    \<and> getCellLive client (out_point_of (am_asset_out_point (va_manifest a))) w2 = (Inr (Some asset), w')
    \<and> asset_unchanged a x (Some asset)"
proof -
  from assms obtain s w1 where g: "getCellLive client (out_point_of (am_state_out_point (va_manifest a))) w = (Inr (Some s), w1)"
    and rest: "bind_io (lift_io (verifyStateCell s a)) (\<lambda>_.
         bind_io (\<lambda>w. case findCellsByLock client (accountLock a) w of
                        (cells, w') \<Rightarrow> (scan_assets a [] cells, w')) (\<lambda>assets.
         confirmAsset client a s assets)) w1 = (Inr (state, asset), w')"
    unfolding discoverAccountCells_def by (auto simp: bind_io_Inr_iff split: option.splits)
  obtain cells w2 where f: "findCellsByLock client (accountLock a) w1 = (cells, w2)"
    by (cases "findCellsByLock client (accountLock a) w1")
  from rest f obtain assets where v: "is_ok (verifyStateCell s a)" and sc: "scan_assets a [] cells = Inr assets"
    and last: "confirmAsset client a s assets w2 = (Inr (state, asset), w')"
    by (auto simp: bind_io_Inr_iff is_ok_iff)
  show ?thesis
    using confirmAsset_Inr [OF last] g f v sc by blast
qed

lemma discoverAccountCells_sound:
  assumes "discoverAccountCells client a w = (Inr (state, asset), w')"
  shows "state_cell_ok a state \<and> asset_cell_ok a asset"
  using discoverAccountCells_Inr [OF assms] verifyStateCell_Inr
  by (auto simp: is_ok_iff asset_unchanged_def asset_cell_ok_def sameOutPoint_def out_point_of_def)

section \<open>Preparing\<close>

text \<open>What a prepared spend consists of, in terms of the cells it was built from.\<close>

lemma ensureOccupiedCapacity_Inr [result_simps]:
  "ensureOccupiedCapacity C o' l = Inr u \<longleftrightarrow> int (ccc_occupiedSize C o') * SHANNONS_PER_CKB \<le> capacity o'"
  by (auto simp: ensureOccupiedCapacity_def Let_def)

lemma buildSpend_Inr:
  assumes "buildSpend C a fa pk pubKey state asset = Inr p"
  obtains ps fl ph fee change tx txh fw gs aid sb where
    "parseAccountState (outputData state) a = Inr ps" "hexFromBytes (ps_keyId ps) = pk_keyId pk"
    "ccc_addressScript C fa = Inr fl"
    "maximumWitness C pubKey (ps_sequence ps) = Inr ph"
    "fee = ccc_estimateFee C (spend_transaction a asset fl (capacity (cellOutput asset) - TRANSFER_CAPACITY) ph) FEE_RATE"
    "change = capacity (cellOutput asset) - TRANSFER_CAPACITY - fee" "0 < change"
    "tx = spend_transaction a asset fl change ph"
    "\<forall>o' \<in> set (outputs tx). int (ccc_occupiedSize C o') * SHANNONS_PER_CKB \<le> capacity o'"
    "ccc_bytesFrom C (ccc_txHash C tx) = Inr txh" "ccc_bytesFrom C (hexFromBytes ph) = Inr fw"
    "groupSighash C txh [fw] [] = Inr gs" "bytesFromHex (am_account_id (va_manifest a)) = Inr aid"
    "bytesFromHex (outputData state) = Inr sb"
    "authorizationDigest C \<lparr>operation = OP_SPEND_TS, accountId = aid, sequence = int (ps_sequence ps),
       state_data = sb, group_sighash = gs\<rparr> = Inr (pr_authorizationDigest p)"
    "pr_transaction p = tx" "pr_maxWitnessBytes p = length ph" "pr_sequence p = ps_sequence ps"
    "pr_credentialId p = pk_credentialId pk" "pr_publicKey p = pk_publicKey pk"
    "pr_accountId p = am_account_id (va_manifest a)" "pr_stateData p = outputData state"
    "inputCapacityShannons (pr_review p) = dec_int (capacity (cellOutput asset))"
    "transferCapacityShannons (pr_review p) = dec_int TRANSFER_CAPACITY"
    "changeCapacityShannons (pr_review p) = dec_int change" "feeShannons (pr_review p) = dec_int fee"
    "rv_funderAddress (pr_review p) = fa"
proof -
  from assms show thesis
    unfolding buildSpend_def Let_def bind_r_Inr_iff if_Inl_Inr_iff sum.inject
    by (elim exE conjE, intro that)
       (simp_all add: spend_transaction_def ensureOccupiedCapacity_Inr del: of_nat_mult, auto)
qed

lemma prepareSpend_Inr:
  assumes "zod_ok Z" and "prepareSpend C Z client a fa pv w = (Inr p, w')"
  obtains pk pubKey state asset where
    "pk = passkey_record_of pv" "passkey_record_ok (z_format Z) pk" "zaccepts (z_format Z) PasskeyRecordSchema pv"
    "bytesFromHex (pk_publicKey pk) = Inr pubKey" "length pubKey = 65" "idx pubKey 0 = Some 4"
    "state_cell_ok a state" "asset_cell_ok a asset"
    "buildSpend C a fa pk pubKey state asset = Inr p"
proof -
  have "\<exists>pk pubKey state asset. parse_or_throw Z PasskeyRecordSchema passkey_record_of pv = Inr pk
      \<and> bytesFromHex (pk_publicKey pk) = Inr pubKey
      \<and> discoverAccountCells client a w = (Inr (state, asset), w')
      \<and> buildSpend C a fa pk pubKey state asset = Inr p"
    using assms(2) unfolding prepareSpend_def
    by (auto simp: result_simps split: if_split_asm)
  then obtain pk pubKey state asset where
    pk: "parse_or_throw Z PasskeyRecordSchema passkey_record_of pv = Inr pk"
    and pub: "bytesFromHex (pk_publicKey pk) = Inr pubKey"
    and d: "discoverAccountCells client a w = (Inr (state, asset), w')"
    and b: "buildSpend C a fa pk pubKey state asset = Inr p"
    by blast
  have acc: "zaccepts (z_format Z) PasskeyRecordSchema pv" "pk = passkey_record_of pv"
    using pk passkey.parse_or_throw_Inr_iff [OF assms(1)] by auto
  then have ok: "passkey_record_ok (z_format Z) pk" using passkey.accepted by blast
  then obtain k where "length k = 64" "bytesFromHex (pk_publicKey pk) = Inr (4 # k)"
    using public_key_hexD by (auto simp: passkey_record_ok_def)
  with pub have k: "length pubKey = 65" "idx pubKey 0 = Some 4" by (auto simp: idx_def)
  have "state_cell_ok a state" "asset_cell_ok a asset" using discoverAccountCells_sound [OF d] by simp_all
  then show thesis by (rule that [OF acc(2) ok acc(1) pub k _ _ b])
qed

section \<open>Properties of preparing\<close>

text \<open>
  \<^verbatim>\<open>discoverAccountCells\<close> returns only the account's own cells. Whatever the node and the
  indexer answer, a returned state cell is the recorded outpoint under the account's lock and
  Type ID script with a parseable state, a returned asset cell is the recorded outpoint under
  the account's lock without type script or data, and every cell the indexer yielded was the
  state cell or that one asset.
\<close>

lemma discovered_cells_belong_to_account:
  assumes "discoverAccountCells client a w = (Inr (state, asset), w')"
  shows "state_cell_ok a state \<and> asset_cell_ok a asset
    \<and> (\<exists>w1 w2 cells x. findCellsByLock client (accountLock a) w1 = (cells, w2)
         \<and> list_all (\<lambda>r. \<exists>c. r = Inr c \<and> (state_cell_ok a c \<or> c = x)) cells
         \<and> capacity (cellOutput asset) = capacity (cellOutput x))"
proof -
  obtain w1 w2 cells x where f: "findCellsByLock client (accountLock a) w1 = (cells, w2)"
    and sc: "scan_assets a [] cells = Inr [x]" and u: "asset_unchanged a x (Some asset)"
    using discoverAccountCells_Inr [OF assms] by blast
  have "list_all (\<lambda>r. \<exists>c. r = Inr c \<and> (state_cell_ok a c \<or> c = x)) cells"
    using scan_assets_sound [OF sc] by simp
  with f u discoverAccountCells_sound [OF assms] show ?thesis
    by (auto simp: asset_unchanged_def)
qed

text \<open>
  C16: preparing a spend conserves capacity. The transaction spends exactly the account's asset
  cell and creates exactly two plain outputs, the fixed 100 CKB to the funder's lock and the
  change to the account's own lock; the input equals transfer plus change plus the estimated fee,
  the change is positive, both outputs cover their occupied size, and the review shown to the user
  states these very amounts.
\<close>

theorem prepare_conserves_capacity:
  assumes "zod_ok Z" and "prepareSpend C Z client a fa pv w = (Inr p, w')"
  shows "\<exists>asset fl fee change. asset_cell_ok a asset \<and> ccc_addressScript C fa = Inr fl
    \<and> inputs (pr_transaction p) = [\<lparr>previousOutput = outPoint asset, since = 0\<rparr>]
    \<and> outputs (pr_transaction p) =
        [\<lparr>capacity = TRANSFER_CAPACITY, lock = fl, type_script = None\<rparr>,
         \<lparr>capacity = change, lock = accountLock a, type_script = None\<rparr>]
    \<and> outputsData (pr_transaction p) = [''0x'', ''0x'']
    \<and> capacity (cellOutput asset) = TRANSFER_CAPACITY + change + fee \<and> 0 < change
    \<and> (\<forall>o' \<in> set (outputs (pr_transaction p)). int (ccc_occupiedSize C o') * SHANNONS_PER_CKB \<le> capacity o')
    \<and> inputCapacityShannons (pr_review p) = dec_int (capacity (cellOutput asset))
    \<and> transferCapacityShannons (pr_review p) = dec_int TRANSFER_CAPACITY
    \<and> changeCapacityShannons (pr_review p) = dec_int change \<and> feeShannons (pr_review p) = dec_int fee"
proof -
  obtain pk pubKey state asset where "asset_cell_ok a asset" and b: "buildSpend C a fa pk pubKey state asset = Inr p"
    using prepareSpend_Inr [OF assms] by metis
  from b show ?thesis
  proof (rule buildSpend_Inr)
    fix ps fl ph fee change tx
    assume "ccc_addressScript C fa = Inr fl" and "change = capacity (cellOutput asset) - TRANSFER_CAPACITY - fee"
      and "0 < change" and "tx = spend_transaction a asset fl change ph" and "pr_transaction p = tx"
      and "\<forall>o' \<in> set (outputs tx). int (ccc_occupiedSize C o') * SHANNONS_PER_CKB \<le> capacity o'"
      and "inputCapacityShannons (pr_review p) = dec_int (capacity (cellOutput asset))"
      and "transferCapacityShannons (pr_review p) = dec_int TRANSFER_CAPACITY"
      and "changeCapacityShannons (pr_review p) = dec_int change" "feeShannons (pr_review p) = dec_int fee"
    with \<open>asset_cell_ok a asset\<close> show ?thesis
      by (intro exI [of _ asset] exI [of _ fl] exI [of _ fee] exI [of _ change]) (simp add: spend_transaction_def)
  qed
qed

section \<open>Finalizing\<close>

lemma validateDerSignature_Inr: "validateDerSignature sig = Inr u \<Longrightarrow> sig \<noteq> [] \<and> length sig \<le> 72"
  by (auto simp: validateDerSignature_def MAX_DER_SIGNATURE_BYTES_def split: if_splits)

lemma validateClientData_Inr:
  assumes "validateClientData R p cd = Inr u"
  shows "\<exists>t fs. rt_decodeUtf8 R cd = Some t \<and> rt_jsonParse R t = Some (JObj fs)
    \<and> jget fs ''type'' = JStr ''webauthn.get''
    \<and> jget fs ''challenge'' = JStr (base64urlEncode (pr_authorizationDigest p))
    \<and> jget fs ''origin'' = JStr CLIENT_ORIGIN"
  using assms unfolding validateClientData_def
  by (auto simp: fail_def Option.bind_eq_Some_conv split: option.splits js_value.splits if_splits)

lemma prepared_facts:
  assumes "zod_ok Z" and "ccc_hex C" and "ccc_molecule C" and "prepareSpend C Z client a fa pv w = (Inr p, w')"
  shows "\<exists>pubKey. bytesFromHex (pr_publicKey p) = Inr pubKey \<and> length pubKey = 65 \<and> idx pubKey 0 = Some 4
    \<and> pr_sequence p < 2 ^ 64 \<and> pr_maxWitnessBytes p = 3281
    \<and> witnesses (pr_transaction p) = [hexFromBytes (spend_witness (pr_sequence p) (max_proof pubKey))]
    \<and> (\<exists>ps. parseAccountState (pr_stateData p) a = Inr ps \<and> ps_sequence ps = pr_sequence p
         \<and> hexFromBytes (ps_keyId ps) = pk_keyId (passkey_record_of pv))"
proof -
  obtain pk pubKey state asset where pk: "pk = passkey_record_of pv"
    and pub: "bytesFromHex (pk_publicKey pk) = Inr pubKey" "length pubKey = 65" "idx pubKey 0 = Some 4"
    and b: "buildSpend C a fa pk pubKey state asset = Inr p"
    using prepareSpend_Inr [OF assms(1,4)] by metis
  from b show ?thesis
  proof (rule buildSpend_Inr)
    fix ps fl ph fee change tx
    assume ps: "parseAccountState (outputData state) a = Inr ps" "hexFromBytes (ps_keyId ps) = pk_keyId pk"
      and mw: "maximumWitness C pubKey (ps_sequence ps) = Inr ph"
      and tx: "tx = spend_transaction a asset fl change ph" "pr_transaction p = tx"
      and eqs: "pr_maxWitnessBytes p = length ph" "pr_sequence p = ps_sequence ps" "pr_publicKey p = pk_publicKey pk"
        "pr_stateData p = outputData state"
    have seq: "ps_sequence ps < 2 ^ 64" using ps(1) by (auto simp: parseAccountState_profile)
    note max = maximumWitness_eq [OF pub(2,3) seq assms(3)]
    have "ph = spend_witness (ps_sequence ps) (max_proof pubKey)" using max(1) mw by simp
    with max(2) seq tx eqs pub ps pk show ?thesis
      by (auto simp: spend_transaction_def)
  qed
qed

text \<open>
  A client that accepts the prepared spend and the assertion never meets the two internal
  guards of \<^verbatim>\<open>finalizeSpend\<close>.
\<close>

lemma finalizeSpend_eq:
  assumes "zod_ok Z" and "ccc_hex C" and "ccc_molecule C" and "ccc_raw_hash C"
    and prep: "prepareSpend C Z client a fa pv w = (Inr p, w')"
    and pk: "zaccepts (z_format Z) PasskeyRecordSchema pv'"
    and cred: "as_credentialId as = pr_credentialId p" "pk_credentialId (passkey_record_of pv') = pr_credentialId p"
      "pk_publicKey (passkey_record_of pv') = pr_publicKey p"
    and b: "assertion_bounds (as_authenticatorData as) (as_clientDataJson as) (as_signature as)"
    and der: "validateDerSignature (as_signature as) = Inr ()"
    and cd: "validateClientData R p (as_clientDataJson as) = Inr ()"
    and pub: "bytesFromHex (pr_publicKey p) = Inr pubKey"
  shows "finalizeSpend C Z R p pv' as = Inr ((pr_transaction p)\<lparr>witnesses :=
    [hexFromBytes (spend_witness (pr_sequence p)
      (spend_proof pubKey (as_authenticatorData as) (as_clientDataJson as) (as_signature as)))]\<rparr>)"
proof -
  let ?q = "spend_proof pubKey (as_authenticatorData as) (as_clientDataJson as) (as_signature as)"
  have facts: "length pubKey = 65" "idx pubKey 0 = Some 4" "pr_sequence p < 2 ^ 64" "pr_maxWitnessBytes p = 3281"
    and wit: "\<exists>x. witnesses (pr_transaction p) = [x]"
    using prepared_facts [OF assms(1-3) prep] pub by auto
  note enc = spend_witness_encoded [OF facts(1,2) b facts(3) assms(3)]
  have "length (spend_witness (pr_sequence p) ?q) \<le> 3281"
    using enc(4) b by (simp add: assertion_bounds_def)
  moreover have "parse_or_throw Z PasskeyRecordSchema passkey_record_of pv' = Inr (passkey_record_of pv')"
    using pk by (simp add: passkey.parse_or_throw_Inr_iff [OF assms(1)])
  moreover have "ccc_txHash C ((pr_transaction p)\<lparr>witnesses := ws\<rparr>) = ccc_txHash C (pr_transaction p)" for ws
    using assms(4) by (simp add: ccc_raw_hash_def)
  ultimately show ?thesis
    using cred b der cd pub enc(1-3) facts(4) wit
    by (auto simp: finalizeSpend_def assertion_bounds_def MIN_AUTHENTICATOR_DATA_BYTES_def
        MAX_AUTHENTICATOR_DATA_BYTES_def MAX_CLIENT_DATA_BYTES_def spend_proof_def Let_def)
qed

lemma finalizeSpend_Inr:
  assumes "zod_ok Z" and "finalizeSpend C Z R p pv' as = Inr tx"
  shows "zaccepts (z_format Z) PasskeyRecordSchema pv' \<and> as_credentialId as = pr_credentialId p
    \<and> pk_credentialId (passkey_record_of pv') = pr_credentialId p
    \<and> pk_publicKey (passkey_record_of pv') = pr_publicKey p
    \<and> assertion_bounds (as_authenticatorData as) (as_clientDataJson as) (as_signature as)
    \<and> validateDerSignature (as_signature as) = Inr ()
    \<and> validateClientData R p (as_clientDataJson as) = Inr ()"
  using assms(2) validateDerSignature_Inr [of "as_signature as"]
  by (auto simp: finalizeSpend_def result_simps passkey.parse_or_throw_Inr_iff [OF assms(1)]
      assertion_bounds_def MIN_AUTHENTICATOR_DATA_BYTES_def MAX_AUTHENTICATOR_DATA_BYTES_def
      MAX_CLIENT_DATA_BYTES_def split: if_splits)

section \<open>What the lock script sees\<close>

lemma ccc_hashD:
  assumes "ccc_hex C" and "hash32 s"
  shows "\<exists>h. ccc_bytesFrom C s = Inr h \<and> length h = 32 \<and> s = hexFromBytes h"
  using assms unfolding ccc_hex_def hash32_def by metis

lemma spend_sighash:
  assumes "ccc_molecule C" and "length txh = 32" and "length (spend_witness seq q) \<le> MAX_WITNESS"
  shows "groupSighash C txh [spend_witness seq q] [] =
    ckbHash C (txh @ hash_witness (mol_witness_args (Some []) None None))"
proof -
  have "length (spend_witness seq q) < 2 ^ 32" using assms(3) by (simp add: MAX_WITNESS_def)
  moreover have "length (mol_witness_args (Some []) None None) < 2 ^ 32" by (simp add: mol_witness_args_def)
  ultimately show ?thesis
    using groupSighash_mol [OF assms(1,2), of "Some (witness_layout 1 seq [(0, p256_layout q)])" None None "[]" "[]"]
    by (simp add: spend_witness_def)
qed

lemma spend_sighash_on_chain:
  assumes "length txh = 32" and "length (spend_witness seq q) \<le> MAX_WITNESS"
  shows "env_group_sighash H \<lparr>env_txHash = txh, env_groupWitnesses = [spend_witness seq q], env_extraWitnesses = []\<rparr>
    = Inr (H (txh @ hash_witness (mol_witness_args (Some []) None None)))"
proof -
  have len: "length (spend_witness seq q) < 2 ^ 32" using assms(2) by (simp add: MAX_WITNESS_def)
  have "canonical_witness (spend_witness seq q) = Inr (mol_witness_args (Some []) None None)"
    unfolding spend_witness_def
    by (rule canonical_witness_mol) (use len in \<open>simp_all add: spend_witness_def, simp add: mol_witness_args_def\<close>)
  then show ?thesis
    using assms by (simp add: env_group_sighash_def env_load_witness_def idx_def)
qed

text \<open>The digest of a prepared spend, in the lock script's terms.\<close>

lemma prepared_digest:
  assumes "zod_ok Z" and "ccc_hex C" and "ccc_hashes C" and "ccc_molecule C" and "hash_agrees C H"
    and "prepareSpend C Z client a fa pv w = (Inr p, w')"
  shows "\<exists>txh aid sb. ccc_bytesFrom C (ccc_txHash C (pr_transaction p)) = Inr txh \<and> length txh = 32
    \<and> bytesFromHex (am_account_id (va_manifest a)) = Inr aid \<and> bytesFromHex (pr_stateData p) = Inr sb
    \<and> pr_authorizationDigest p = authorization_digest H 1 aid (pr_sequence p) sb
        (H (txh @ hash_witness (mol_witness_args (Some []) None None)))"
proof -
  obtain pk pubKey state asset where pub: "length pubKey = 65" "idx pubKey 0 = Some 4"
    and b: "buildSpend C a fa pk pubKey state asset = Inr p"
    using prepareSpend_Inr [OF assms(1,6)] by metis
  from b show ?thesis
  proof (rule buildSpend_Inr)
    fix ps fl ph fee change tx txh fw gs aid sb
    assume ps: "parseAccountState (outputData state) a = Inr ps"
      and mw: "maximumWitness C pubKey (ps_sequence ps) = Inr ph" and "pr_transaction p = tx"
      and txh: "ccc_bytesFrom C (ccc_txHash C tx) = Inr txh" and fw: "ccc_bytesFrom C (hexFromBytes ph) = Inr fw"
      and gs: "groupSighash C txh [fw] [] = Inr gs" and aid: "bytesFromHex (am_account_id (va_manifest a)) = Inr aid"
      and sb: "bytesFromHex (outputData state) = Inr sb" and "pr_stateData p = outputData state"
      and dg: "authorizationDigest C \<lparr>operation = OP_SPEND_TS, accountId = aid, sequence = int (ps_sequence ps),
         state_data = sb, group_sighash = gs\<rparr> = Inr (pr_authorizationDigest p)"
      and "pr_sequence p = ps_sequence ps"
    have seq: "ps_sequence ps < 2 ^ 64" using ps by (auto simp: parseAccountState_profile)
    have ph: "ph = spend_witness (ps_sequence ps) (max_proof pubKey)" "length ph = 3281"
      using maximumWitness_eq [OF pub seq assms(4)] mw by simp_all
    have len: "length txh = 32"
      using ccc_hashD [OF assms(2)] assms(3) txh unfolding ccc_hashes_def by (metis sum.inject(2))
    have "fw = ph" using fw assms(2) by (simp add: ccc_hex_def)
    then have "gs = H (txh @ hash_witness (mol_witness_args (Some []) None None))"
      using gs spend_sighash [OF assms(4) len, of "ps_sequence ps" "max_proof pubKey"] ph assms(5)
      by (simp add: MAX_WITNESS_def hash_agrees_def)
    with dg have "pr_authorizationDigest p = authorization_digest H 1 aid (ps_sequence ps) sb
        (H (txh @ hash_witness (mol_witness_args (Some []) None None)))"
      by (simp add: authorizationDigest_Inr_iff [OF assms(5)] authorization_digest_def digest_preimage_def OP_SPEND_TS_def)
    then show ?thesis
      using txh len aid sb \<open>pr_transaction p = tx\<close> \<open>pr_stateData p = outputData state\<close>
        \<open>pr_sequence p = ps_sequence ps\<close> by auto
  qed
qed


section \<open>The flow succeeds\<close>

lemma buildSpend_ok:
  assumes "ccc_hex C" and "ccc_hashes C" and "ccc_molecule C" and "hash32_hex (am_account_id (va_manifest a))"
    and ps: "parseAccountState (outputData state) a = Inr ps" "hexFromBytes (ps_keyId ps) = pk_keyId pk"
    and addr: "ccc_addressScript C fa = Inr fl" and pub: "length pubKey = 65" "idx pubKey 0 = Some 4"
    and fee: "fee = ccc_estimateFee C (spend_transaction a asset fl (capacity (cellOutput asset) - TRANSFER_CAPACITY)
        (spend_witness (ps_sequence ps) (max_proof pubKey))) FEE_RATE" "0 \<le> fee"
    and change: "change = capacity (cellOutput asset) - TRANSFER_CAPACITY - fee" "0 < change"
    and occ: "\<forall>o' \<in> {\<lparr>capacity = TRANSFER_CAPACITY, lock = fl, type_script = None\<rparr>,
        \<lparr>capacity = change, lock = accountLock a, type_script = None\<rparr>}.
        int (ccc_occupiedSize C o') * SHANNONS_PER_CKB \<le> capacity o'"
  shows "\<exists>p. buildSpend C a fa pk pubKey state asset = Inr p"
proof -
  have seq: "ps_sequence ps < 2 ^ 64" using ps by (auto simp: parseAccountState_profile)
  let ?ph = "spend_witness (ps_sequence ps) (max_proof pubKey)"
  let ?tx = "spend_transaction a asset fl change ?ph"
  note mw = maximumWitness_eq [OF pub seq assms(3)]
  obtain txh where txh: "ccc_bytesFrom C (ccc_txHash C ?tx) = Inr txh" "length txh = 32"
    using ccc_hashD [OF assms(1)] assms(2) unfolding ccc_hashes_def by metis
  have fw: "ccc_bytesFrom C (hexFromBytes ?ph) = Inr ?ph" using assms(1) by (simp add: ccc_hex_def)
  obtain gs where gs: "groupSighash C txh [?ph] [] = Inr gs" "length gs = 32"
    using spend_sighash [OF assms(3) txh(2), of "ps_sequence ps" "max_proof pubKey"] mw(2)
      ckbHash_length [OF assms(1,2)] by (auto simp: MAX_WITNESS_def)
  obtain aid where aid: "bytesFromHex (am_account_id (va_manifest a)) = Inr aid" "length aid = 32"
    using hash32_hexD [OF assms(4)] by blast
  obtain sb where sb: "bytesFromHex (outputData state) = Inr sb"
    using ps(1) by (auto simp: parseAccountState_Inr_iff)
  obtain H where H: "hash_agrees C H"
  proof
    show "hash_agrees C (\<lambda>d. projr (ckbHash C d))"
      using ckbHash_length [OF assms(1,2)] by (auto simp: hash_agrees_def) (metis sum.sel(2))+
  qed
  have "\<exists>dg. authorizationDigest C \<lparr>operation = OP_SPEND_TS, accountId = aid, sequence = int (ps_sequence ps),
       state_data = sb, group_sighash = gs\<rparr> = Inr dg"
    using seq gs(2) aid(2) by (simp add: authorizationDigest_Inr_iff [OF H] authorization_ok_def OP_SPEND_TS_def)
  then obtain dg where dg: "authorizationDigest C \<lparr>operation = OP_SPEND_TS, accountId = aid,
      sequence = int (ps_sequence ps), state_data = sb, group_sighash = gs\<rparr> = Inr dg" by blast
  have o1: "ensureOccupiedCapacity C (outputs ?tx ! 0) ''Transfer'' = Inr ()"
    and o2: "ensureOccupiedCapacity C (outputs ?tx ! 1) ''Change'' = Inr ()"
    using occ by (simp_all add: ensureOccupiedCapacity_Inr spend_transaction_def)
  have w0: "witnesses ?tx ! 0 = hexFromBytes ?ph" by (simp add: spend_transaction_def)
  have pos: "\<not> capacity (cellOutput asset) \<le> TRANSFER_CAPACITY" "\<not> change \<le> 0"
    using change fee(2) by simp_all
  show ?thesis
    unfolding buildSpend_def Let_def ps(1) bind_r_simps addr mw(1) fee(1) [symmetric] change(1) [symmetric]
      o1 o2 w0 txh(1) fw gs(1) aid(1) sb dg
    using ps(2) pos by simp
qed

text \<open>
  C36: the reserved fee always suffices. For a spend that was prepared and an assertion of the
  prepared credential within the documented bounds whose client data carries the challenge,
  \<^verbatim>\<open>finalizeSpend\<close> returns a transaction: the guards against outgrowing the fee reservation
  and against changed raw fields cannot fire.
\<close>

theorem finalize_never_exceeds_reservation:
  assumes "zod_ok Z" and "ccc_hex C" and "ccc_molecule C" and "ccc_raw_hash C"
    and "prepareSpend C Z client a fa pv w = (Inr p, w')"
    and "zaccepts (z_format Z) PasskeyRecordSchema pv'"
    and "as_credentialId as = pr_credentialId p" and "pk_credentialId (passkey_record_of pv') = pr_credentialId p"
    and "pk_publicKey (passkey_record_of pv') = pr_publicKey p"
    and "37 \<le> length (as_authenticatorData as)" and "length (as_authenticatorData as) \<le> 1024"
    and "as_clientDataJson as \<noteq> []" and "length (as_clientDataJson as) \<le> 2048"
    and "validateDerSignature (as_signature as) = Inr ()"
    and "validateClientData R p (as_clientDataJson as) = Inr ()"
  shows "\<exists>tx. finalizeSpend C Z R p pv' as = Inr tx"
proof -
  obtain pubKey where pub: "bytesFromHex (pr_publicKey p) = Inr pubKey"
    using prepared_facts [OF assms(1-3,5)] by blast
  have "assertion_bounds (as_authenticatorData as) (as_clientDataJson as) (as_signature as)"
    using assms(10-14) validateDerSignature_Inr by (simp add: assertion_bounds_def)
  with finalizeSpend_eq [OF assms(1-9) _ assms(14,15) pub] show ?thesis by blast
qed

section \<open>A concrete run\<close>

text \<open>One spend against the reference library and a node that answers with two fixed cells.\<close>

definition example_pubKey :: bytes where
  "example_pubKey = 4 # replicate 64 0"

definition example_passkey :: passkey_record where
  "example_passkey = \<lparr>pk_credentialId = ''AQ'', pk_publicKey = hexFromBytes example_pubKey,
     pk_keyId = ref_digest 4, pk_rpId = RP_ID, pk_origin = CLIENT_ORIGIN, pk_createdAt = ''now''\<rparr>"

definition example_state :: cell where
  "example_state = \<lparr>outPoint = \<lparr>op_txHash = ref_digest 4, op_index = 0\<rparr>,
     cellOutput = \<lparr>capacity = 316 * SHANNONS_PER_CKB, lock = accountLock example_account,
       type_script = Some (stateType example_account)\<rparr>,
     outputData = hexFromBytes (profile_state 7 (le_bytes 32 2) (le_bytes 32 4))\<rparr>"

definition example_asset :: cell where
  "example_asset = \<lparr>outPoint = \<lparr>op_txHash = ref_digest 4, op_index = 1\<rparr>,
     cellOutput = \<lparr>capacity = INITIAL_ASSET, lock = accountLock example_account, type_script = None\<rparr>,
     outputData = ''0x''\<rparr>"

definition example_client :: "unit spend_client" where
  "example_client = \<lparr>
     getCellLive = (\<lambda>op. return_io (if op_index op = 0 then Some example_state else Some example_asset)),
     findCellsByLock = (\<lambda>l w. ([Inr example_state, Inr example_asset], w)),
     sendTransaction = (\<lambda>tx. return_io (ref_digest 8)),
     waitTransaction = (\<lambda>h. return_io (Some ()))\<rparr>"

definition example_assertion :: assertion_material where
  "example_assertion = \<lparr>as_credentialId = ''AQ'', as_authenticatorData = replicate 37 0,
     as_clientDataJson = [1], as_signature = [0x30, 6, 0, 0, 0, 0, 0, 0]\<rparr>"

definition example_runtime :: "prepared_spend \<Rightarrow> js_runtime" where
  "example_runtime p = \<lparr>rt_decodeUtf8 = (\<lambda>b. Some ''json''),
     rt_jsonParse = (\<lambda>s. Some (JObj [(''type'', JStr ''webauthn.get''),
       (''challenge'', JStr (base64urlEncode (pr_authorizationDigest p))), (''origin'', JStr CLIENT_ORIGIN)]))\<rparr>"

lemma of_le_zeros [simp]: "of_le (replicate n 0) = 0"
  by (induction n) simp_all

lemma example_passkey_ok: "passkey_record_ok (z_format ref_zod) example_passkey"
proof -
  have "prefixed_hex ''0x04'' (2 * 64) (hexFromBytes example_pubKey)"
    using prefixed_hex_iff_bytes [of "''0x04''" 64 "hexFromBytes example_pubKey"] hex04 [of "replicate 64 0"]
    by (auto simp: is_hex_def example_pubKey_def intro!: exI [of _ "replicate 64 0"])
  then show ?thesis
    by (simp add: passkey_record_ok_def example_passkey_def ref_zod_def base64url_re_def is_base64url_def)
qed

lemma example_state_ps:
  "parseAccountState (outputData example_state) example_account = Inr \<lparr>ps_sequence = 7, ps_keyId = le_bytes 32 4\<rparr>"
  by (simp add: example_state_def example_state_parses)

lemma example_discover:
  "discoverAccountCells example_client example_account () = (Inr (example_state, example_asset), ())"
proof -
  have out: "am_state_out_point (va_manifest example_account) = \<lparr>mo_tx_hash = ref_digest 4, mo_index = 0\<rparr>"
    "am_asset_out_point (va_manifest example_account) = \<lparr>mo_tx_hash = ref_digest 4, mo_index = 1\<rparr>"
    by (simp_all add: example_account_def example_manifest_def)
  have cells: "outPoint example_state = \<lparr>op_txHash = ref_digest 4, op_index = 0\<rparr>"
    "outPoint example_asset = \<lparr>op_txHash = ref_digest 4, op_index = 1\<rparr>"
    "lock (cellOutput example_state) = accountLock example_account"
    "lock (cellOutput example_asset) = accountLock example_account"
    "type_script (cellOutput example_state) = Some (stateType example_account)"
    "type_script (cellOutput example_asset) = None" "outputData example_asset = ''0x''"
    by (simp_all add: example_state_def example_asset_def)
  have v: "verifyStateCell example_state example_account = Inr \<lparr>ps_sequence = 7, ps_keyId = le_bytes 32 4\<rparr>"
    by (simp add: verifyStateCell_def sameOutPoint_def out cells example_state_ps)
  have "scan_assets example_account [] [Inr example_state, Inr example_asset] = Inr [example_asset]"
    by (simp add: sameOutPoint_def out cells v)
  moreover have "confirmAsset example_client example_account example_state [example_asset] ()
      = (Inr (example_state, example_asset), ())"
    by (simp add: confirmAsset_def sameOutPoint_def out cells asset_unchanged_def example_client_def out_point_of_def
        bind_io_def)
  ultimately show ?thesis
    using v by (simp add: discoverAccountCells_def example_client_def out out_point_of_def bind_io_def)
qed

lemma example_build:
  "\<exists>p. buildSpend ref_ccc example_account ''a'' example_passkey example_pubKey example_state example_asset = Inr p"
proof (rule buildSpend_ok [OF ref_ccc_hex ref_ccc_hashes ref_ccc_molecule _ example_state_ps _ _ _ _ refl _ refl])
  show "hash32_hex (am_account_id (va_manifest example_account))"
    by (simp add: example_account_def example_manifest_def)
  show "hexFromBytes (ps_keyId \<lparr>ps_sequence = 7, ps_keyId = le_bytes 32 4\<rparr>) = pk_keyId example_passkey"
    by (simp add: example_passkey_def ref_digest_def)
qed (simp_all add: ref_ccc_def example_pubKey_def idx_def example_asset_def INITIAL_ASSET_def TRANSFER_CAPACITY_def
    SHANNONS_PER_CKB_def FEE_RATE_def)

lemma example_prepared:
  "\<exists>p. prepareSpend ref_ccc ref_zod example_client example_account ''a'' (passkey_record_json example_passkey) ()
     = (Inr p, ()) \<and> pr_credentialId p = ''AQ'' \<and> pr_publicKey p = hexFromBytes example_pubKey"
proof -
  obtain p where p: "buildSpend ref_ccc example_account ''a'' example_passkey example_pubKey example_state example_asset = Inr p"
    using example_build by blast
  have "parse_or_throw ref_zod PasskeyRecordSchema passkey_record_of (passkey_record_json example_passkey) = Inr example_passkey"
    using passkey.parse_or_throw_printed [OF ref_zod_ok] example_passkey_ok by simp
  moreover have "bytesFromHex (pk_publicKey example_passkey) = Inr example_pubKey"
    by (simp add: example_passkey_def example_pubKey_def)
  moreover have "ckbHash ref_ccc example_pubKey = Inr (le_bytes 32 4)"
    by (simp add: ckbHash_def ref_ccc_def ref_digest_def example_pubKey_def)
  moreover have "hexFromBytes (le_bytes 32 4) = pk_keyId example_passkey"
    by (simp add: example_passkey_def ref_digest_def)
  ultimately have "prepareSpend ref_ccc ref_zod example_client example_account ''a'' (passkey_record_json example_passkey) ()
     = (Inr p, ())"
    using example_discover p by (simp add: prepareSpend_def bind_io_def)
  moreover have "pr_credentialId p = ''AQ''" "pr_publicKey p = hexFromBytes example_pubKey"
    using p by (auto elim!: buildSpend_Inr simp: example_passkey_def)
  ultimately show ?thesis by blast
qed

theorem prepare_conserves_capacity_witness:
  "\<exists>p fee change. prepareSpend ref_ccc ref_zod example_client example_account ''a'' (passkey_record_json example_passkey) ()
      = (Inr p, ())
    \<and> 0 < change \<and> changeCapacityShannons (pr_review p) = dec_int change \<and> feeShannons (pr_review p) = dec_int fee
    \<and> map capacity (outputs (pr_transaction p)) = [TRANSFER_CAPACITY, change]"
proof -
  obtain p where p: "prepareSpend ref_ccc ref_zod example_client example_account ''a'' (passkey_record_json example_passkey) ()
      = (Inr p, ())" using example_prepared by blast
  from prepare_conserves_capacity [OF ref_zod_ok p] p show ?thesis by force
qed

lemma example_client_data: "validateClientData (example_runtime p) p (as_clientDataJson example_assertion) = Inr ()"
  by (simp add: validateClientData_def example_runtime_def)

lemma example_der: "validateDerSignature (as_signature example_assertion) = Inr ()"
  by (simp add: validateDerSignature_def example_assertion_def MAX_DER_SIGNATURE_BYTES_def idx_def)

lemma example_passkey_accepted:
  "zaccepts (z_format ref_zod) PasskeyRecordSchema (passkey_record_json example_passkey)"
  by (rule passkey.printed [OF example_passkey_ok])

theorem finalize_never_exceeds_reservation_witness:
  "\<exists>p tx. prepareSpend ref_ccc ref_zod example_client example_account ''a'' (passkey_record_json example_passkey) ()
      = (Inr p, ())
    \<and> finalizeSpend ref_ccc ref_zod (example_runtime p) p (passkey_record_json example_passkey) example_assertion = Inr tx"
proof -
  obtain p where p: "prepareSpend ref_ccc ref_zod example_client example_account ''a'' (passkey_record_json example_passkey) ()
      = (Inr p, ())" "pr_credentialId p = ''AQ''" "pr_publicKey p = hexFromBytes example_pubKey"
    using example_prepared by blast
  have "\<exists>tx. finalizeSpend ref_ccc ref_zod (example_runtime p) p (passkey_record_json example_passkey) example_assertion = Inr tx"
    by (rule finalize_never_exceeds_reservation [OF ref_zod_ok ref_ccc_hex ref_ccc_molecule ref_ccc_raw_hash p(1)
          example_passkey_accepted _ _ _ _ _ _ _ example_der example_client_data])
       (use p in \<open>simp_all add: example_assertion_def passkey.of_to example_passkey_def\<close>)
  with p show ?thesis by blast
qed

lemma example_finalized:
  "\<exists>p tx. prepareSpend ref_ccc ref_zod example_client example_account ''a'' (passkey_record_json example_passkey) ()
      = (Inr p, ())
    \<and> finalizeSpend ref_ccc ref_zod (example_runtime p) p (passkey_record_json example_passkey) example_assertion = Inr tx"
proof -
  obtain p where p: "prepareSpend ref_ccc ref_zod example_client example_account ''a'' (passkey_record_json example_passkey) ()
      = (Inr p, ())" "pr_credentialId p = ''AQ''" "pr_publicKey p = hexFromBytes example_pubKey"
    using example_prepared by blast
  have "bytesFromHex (pr_publicKey p) = Inr example_pubKey"
    by (simp add: p(3) example_pubKey_def)
  note eq = finalizeSpend_eq [OF ref_zod_ok ref_ccc_hex ref_ccc_molecule ref_ccc_raw_hash p(1)
          example_passkey_accepted _ _ _ _ example_der example_client_data this]
  have "\<exists>tx. finalizeSpend ref_ccc ref_zod (example_runtime p) p (passkey_record_json example_passkey) example_assertion = Inr tx"
    by (rule exI, rule eq)
       (use p in \<open>simp_all add: example_assertion_def passkey.of_to example_passkey_def assertion_bounds_def\<close>)
  with p show ?thesis by blast
qed


end
