(* ===== verification/Receipts.thy ===== *)
theory Receipts
  imports SpendProps
begin

text \<open>
  What a receipt of \<^verbatim>\<open>submitSpend\<close> and \<^verbatim>\<open>confirmSpend\<close> (demo/src/client/chain.ts) means, for every
  behaviour of the node.
\<close>

section \<open>Decimal strings\<close>

lemma dec_inject [simp]: "dec m = dec n \<longleftrightarrow> m = n"
  by (metis of_dec_dec)

lemma dec_no_minus: "dec n \<noteq> CHR ''-'' # s"
  using dec_digits [of n] by (auto simp: is_digit_def)

lemma dec_int_inject: "dec_int i = dec_int j \<longleftrightarrow> i = j"
  using dec_no_minus [of "nat i" "dec (nat (- j))"] dec_no_minus [of "nat j" "dec (nat (- i))", symmetric]
  by (auto simp: dec_int_def split: if_splits)

lemma decimal_re_minus: "\<not> decimal_re (CHR ''-'' # s)"
  by (simp add: decimal_re_def is_digit_def)

lemma decimal_re_dec_int: "decimal_re (dec_int i) \<longleftrightarrow> 0 \<le> i"
proof (cases "0 \<le> i")
  case True
  have "decimal_re (dec n)" for n
  proof (cases "n = 0")
    case True
    moreover have "dec 0 = ''0''" by code_simp
    ultimately show ?thesis by (simp add: decimal_re_def)
  next
    case False
    then have "hd (dec n) \<noteq> CHR ''0''" by (intro hd_dec) simp
    moreover have "list_all is_digit (dec n)" "dec n \<noteq> []" by (simp_all add: dec_digits)
    ultimately show ?thesis by (cases "dec n") (auto simp: decimal_re_def)
  qed
  with True show ?thesis by (simp add: dec_int_def)
next
  case False
  then show ?thesis by (simp add: dec_int_def decimal_re_minus)
qed

section \<open>Submission\<close>

lemma submitSpend_Inr:
  assumes "zod_ok Z" and "submitSpend Z client tx w = (Inr r, w')"
  shows "length (outputs tx) = 2 \<and> sendTransaction client tx w = (Inr (r_txHash r), w')
    \<and> receipt_ok ''submitted'' (z_format Z) r \<and> r_explorerUrl r = EXPLORER_URL @ r_txHash r
    \<and> r_remainingCapacityShannons r = dec_int (capacity (outputs tx ! 1))"
proof -
  from assms(2) obtain h where len: "length (outputs tx) = 2" and s: "sendTransaction client tx w = (Inr h, w')"
    and r: "parse_or_throw Z SubmittedReceiptSchema receipt_of (JObj
          [(''status'', JStr ''submitted''), (''txHash'', JStr h), (''explorerUrl'', JStr (EXPLORER_URL @ h)),
           (''remainingCapacityShannons'', JStr (dec_int (capacity (outputs tx ! 1))))]) = Inr r"
    by (auto simp: submitSpend_def result_simps split: if_splits)
  have "receipt_ok ''submitted'' (z_format Z) r"
    using r receipt.accepted by (auto simp: SubmittedReceiptSchema_def receipt.parse_or_throw_Inr_iff [OF assms(1)])
  with len s r show ?thesis
    by (auto simp: SubmittedReceiptSchema_def receipt.parse_or_throw_Inr_iff [OF assms(1)] receipt_of_def)
qed

lemma catch_io_Inr_iff [result_simps]:
  "catch_io m h w = (Inr x, w'') \<longleftrightarrow>
     m w = (Inr x, w'') \<or> (\<exists>e w'. m w = (Inl e, w') \<and> h e w' = (Inr x, w''))"
  by (auto simp: catch_io_def split: prod.splits sum.splits)

lemma with_status_parse:
  assumes "zod_ok Z" and "receipt_ok st (z_format Z) r"
  shows "parse_or_throw Z (ZObject (receipt_fields st')) receipt_of (with_status r st') = Inr (r\<lparr>r_status := st'\<rparr>)"
  using receipt.parse_or_throw_printed [OF assms(1), of st' "r\<lparr>r_status := st'\<rparr>"] assms(2)
  by (simp add: with_status_def receipt_ok_def)

lemma confirmSpend_Inr:
  assumes "zod_ok Z" and "confirmSpend Z client v w = (Inr r, w')"
  defines "s \<equiv> receipt_of v"
  shows "receipt_ok ''submitted'' (z_format Z) s \<and>
    (r = s\<lparr>r_status := ''committed''\<rparr>
       \<and> (\<exists>w1 c. waitTransaction client (r_txHash s) w = (Inr (Some ()), w1)
            \<and> getCellLive client \<lparr>op_txHash = r_txHash s, op_index = 1\<rparr> w1 = (Inr (Some c), w')
            \<and> type_script (cellOutput c) = None \<and> outputData c = ''0x''
            \<and> dec_int (capacity (cellOutput c)) = r_remainingCapacityShannons s)
     \<or> r = s\<lparr>r_status := ''confirmation_timeout''\<rparr>
       \<and> (\<exists>e. waitTransaction client (r_txHash s) w = (Inl e, w') \<and> isConfirmationTimeout e))"
proof -
  have ok: "receipt_ok ''submitted'' (z_format Z) s"
    using assms(2) receipt.accepted
    by (auto simp: confirmSpend_def result_simps SubmittedReceiptSchema_def s_def
        receipt.parse_or_throw_Inr_iff [OF assms(1)])
  note st = with_status_parse [OF assms(1) ok]
  from assms(2) show ?thesis
    unfolding confirmSpend_def SubmittedReceiptSchema_def CommittedReceiptSchema_def ConfirmationTimedOutReceiptSchema_def
    by (auto simp: result_simps receipt.parse_or_throw_Inr_iff [OF assms(1)] ok st [unfolded s_def] change_verified_def
        isConfirmationTimeout_def s_def ok [unfolded s_def] split: option.splits if_splits)
qed

section \<open>Properties\<close>

text \<open>
  C33: a committed receipt means the change is on chain. If a spend was submitted and later
  confirmed with the status \<^verbatim>\<open>committed\<close>, then waiting for its transaction succeeded and the node
  reported a live, plain output 1 of that very transaction whose capacity is exactly the
  capacity of output 1 of the submitted transaction.
\<close>

theorem committed_receipt_means_live_change:
  assumes "zod_ok Z" and "submitSpend Z client tx w = (Inr s, w1)"
    and "confirmSpend Z client (receipt_json s) w2 = (Inr r, w')" and "r_status r = ''committed''"
  shows "r_txHash r = r_txHash s \<and> sendTransaction client tx w = (Inr (r_txHash r), w1)
    \<and> (\<exists>w3 c. waitTransaction client (r_txHash r) w2 = (Inr (Some ()), w3)
         \<and> getCellLive client \<lparr>op_txHash = r_txHash r, op_index = 1\<rparr> w3 = (Inr (Some c), w')
         \<and> type_script (cellOutput c) = None \<and> outputData c = ''0x''
         \<and> capacity (cellOutput c) = capacity (outputs tx ! 1))"
proof -
  note sub = submitSpend_Inr [OF assms(1,2)]
  then have "decimal_re (dec_int (capacity (outputs tx ! 1)))" by (auto simp: receipt_ok_def)
  then have pos: "0 \<le> capacity (outputs tx ! 1)" by (simp add: decimal_re_dec_int)
  have "\<not> r = s\<lparr>r_status := ''confirmation_timeout''\<rparr>"
    using assms(4) by auto
  then obtain w3 c where r: "r = s\<lparr>r_status := ''committed''\<rparr>"
    and c: "waitTransaction client (r_txHash s) w2 = (Inr (Some ()), w3)"
      "getCellLive client \<lparr>op_txHash = r_txHash s, op_index = 1\<rparr> w3 = (Inr (Some c), w')"
      "type_script (cellOutput c) = None" "outputData c = ''0x''"
      "dec_int (capacity (cellOutput c)) = r_remainingCapacityShannons s"
    using confirmSpend_Inr [OF assms(1,3)] unfolding receipt.of_to by blast
  have "capacity (outputs tx ! 1) = capacity (cellOutput c)"
    using c(5) sub by (simp add: dec_int_inject)
  with r c sub show ?thesis by auto
qed

text \<open>
  A confirmation that times out is reported as such and never as committed or failed: for
  every answer of the node, a returned receipt keeps hash, link and amount of the submitted one;
  its status is \<^verbatim>\<open>confirmation_timeout\<close> exactly when waiting failed with the client's timeout
  error, and every other failure of waiting is rethrown unchanged.
\<close>

lemma confirmation_outcomes:
  assumes "zod_ok Z" and "receipt_ok ''submitted'' (z_format Z) s"
  shows "(\<forall>r w'. confirmSpend Z client (receipt_json s) w = (Inr r, w') \<longrightarrow>
           r_txHash r = r_txHash s \<and> r_explorerUrl r = r_explorerUrl s
           \<and> r_remainingCapacityShannons r = r_remainingCapacityShannons s
           \<and> (r_status r = ''committed'' \<or> r_status r = ''confirmation_timeout''))
    \<and> (\<forall>e w'. waitTransaction client (r_txHash s) w = (Inl e, w') \<longrightarrow>
         confirmSpend Z client (receipt_json s) w =
           (if isConfirmationTimeout e then Inr (s\<lparr>r_status := ''confirmation_timeout''\<rparr>) else Inl e, w'))"
proof (intro conjI allI impI)
  fix e w' assume "waitTransaction client (r_txHash s) w = (Inl e, w')"
  moreover have "parse_or_throw Z SubmittedReceiptSchema receipt_of (receipt_json s) = Inr s"
    using receipt.parse_or_throw_printed [OF assms(1), of "''submitted''" s] assms(2)
    by (simp add: SubmittedReceiptSchema_def)
  moreover have "parse_or_throw Z ConfirmationTimedOutReceiptSchema receipt_of (with_status s ''confirmation_timeout'')
      = Inr (s\<lparr>r_status := ''confirmation_timeout''\<rparr>)"
    using with_status_parse [OF assms] by (simp add: ConfirmationTimedOutReceiptSchema_def)
  ultimately show "confirmSpend Z client (receipt_json s) w =
      (if isConfirmationTimeout e then Inr (s\<lparr>r_status := ''confirmation_timeout''\<rparr>) else Inl e, w')"
    by (simp add: confirmSpend_def catch_io_def bind_io_def)
next
  fix r w' assume "confirmSpend Z client (receipt_json s) w = (Inr r, w')"
  from confirmSpend_Inr [OF assms(1) this]
  have "r = s\<lparr>r_status := ''committed''\<rparr> \<or> r = s\<lparr>r_status := ''confirmation_timeout''\<rparr>"
    unfolding receipt.of_to by blast
  then show "r_txHash r = r_txHash s" "r_explorerUrl r = r_explorerUrl s"
    "r_remainingCapacityShannons r = r_remainingCapacityShannons s"
    "r_status r = ''committed'' \<or> r_status r = ''confirmation_timeout''" by auto
qed

section \<open>Concrete receipts\<close>

definition example_receipt :: receipt where
  "example_receipt = \<lparr>r_txHash = ref_digest 8, r_explorerUrl = EXPLORER_URL @ ref_digest 8,
     r_remainingCapacityShannons = dec_int INITIAL_ASSET, r_status = ''submitted''\<rparr>"

definition example_tx :: transaction where
  "example_tx = \<lparr>cellDeps = [], inputs = [], outputs = [cellOutput example_asset, cellOutput example_asset],
     outputsData = [''0x'', ''0x''], witnesses = []\<rparr>"

lemma example_receipt_ok: "receipt_ok ''submitted'' (z_format ref_zod) example_receipt"
  by (simp add: receipt_ok_def example_receipt_def ref_zod_def decimal_re_dec_int INITIAL_ASSET_def SHANNONS_PER_CKB_def)

lemma example_submit: "submitSpend ref_zod example_client example_tx () = (Inr example_receipt, ())"
proof -
  let ?v = "JObj [(''status'', JStr ''submitted''), (''txHash'', JStr (ref_digest 8)),
      (''explorerUrl'', JStr (EXPLORER_URL @ ref_digest 8)),
      (''remainingCapacityShannons'', JStr (dec_int INITIAL_ASSET))]"
  have "zaccepts (z_format ref_zod) (ZObject (receipt_fields ''submitted'')) ?v"
    by (simp add: receipt_fields_def shape_simps ref_zod_def decimal_re_dec_int INITIAL_ASSET_def SHANNONS_PER_CKB_def)
  moreover have "receipt_of ?v = example_receipt"
    by (simp add: receipt_of_def example_receipt_def)
  ultimately have "parse_or_throw ref_zod SubmittedReceiptSchema receipt_of ?v = Inr example_receipt"
    by (simp add: SubmittedReceiptSchema_def receipt.parse_or_throw_Inr_iff [OF ref_zod_ok])
  then show ?thesis
    by (simp add: submitSpend_def example_tx_def example_client_def example_asset_def bind_io_def)
qed

lemma example_confirm:
  "confirmSpend ref_zod example_client (receipt_json example_receipt) () =
    (Inr (example_receipt\<lparr>r_status := ''committed''\<rparr>), ())"
proof -
  have "parse_or_throw ref_zod SubmittedReceiptSchema receipt_of (receipt_json example_receipt) = Inr example_receipt"
    using receipt.parse_or_throw_printed [OF ref_zod_ok, of "''submitted''" example_receipt] example_receipt_ok
    by (simp add: SubmittedReceiptSchema_def)
  moreover have "parse_or_throw ref_zod CommittedReceiptSchema receipt_of (with_status example_receipt ''committed'')
      = Inr (example_receipt\<lparr>r_status := ''committed''\<rparr>)"
    using with_status_parse [OF ref_zod_ok example_receipt_ok] by (simp add: CommittedReceiptSchema_def)
  moreover have "change_verified example_receipt (Some example_asset)"
    by (simp add: change_verified_def example_asset_def example_receipt_def)
  ultimately show ?thesis
    by (simp add: confirmSpend_def catch_io_def bind_io_def example_client_def)
qed

theorem committed_receipt_means_live_change_witness:
  "\<exists>w3 c. waitTransaction example_client (ref_digest 8) () = (Inr (Some ()), w3)
     \<and> getCellLive example_client \<lparr>op_txHash = ref_digest 8, op_index = 1\<rparr> w3 = (Inr (Some c), ())
     \<and> capacity (cellOutput c) = capacity (outputs example_tx ! 1)"
  using committed_receipt_means_live_change [OF ref_zod_ok example_submit example_confirm]
  by (auto simp: example_receipt_def)

end
