(* ===== verification/Node.thy ===== *)
theory Node
  imports Receipts
begin

text \<open>
  What the deployment tools and the server use of JavaScript objects and of Node's path module:
  truthiness, \<^verbatim>\<open>Object.entries\<close>, property assignment, string interpolation of dynamic values, and
  \<^verbatim>\<open>resolve\<close>, \<^verbatim>\<open>dirname\<close> and \<^verbatim>\<open>basename\<close> on absolute POSIX paths.
\<close>

section \<open>Objects\<close>

definition js_truthy :: "js_value \<Rightarrow> bool" where
  "js_truthy v = (case v of
     JUndefined \<Rightarrow> False | JNull \<Rightarrow> False | JBool b \<Rightarrow> b
   | JNum n \<Rightarrow> n \<noteq> JInt 0 \<and> n \<noteq> JNonInt
   | JStr s \<Rightarrow> s \<noteq> [] | JArr xs \<Rightarrow> True | JObj fs \<Rightarrow> True)"

text \<open>\<^verbatim>\<open>Object.entries(v)\<close> of a value that is neither \<^verbatim>\<open>null\<close> nor \<^verbatim>\<open>undefined\<close>.\<close>

definition js_entries :: "js_value \<Rightarrow> (string \<times> js_value) list" where
  "js_entries v = (case v of
     JObj fs \<Rightarrow> fs
   | JArr xs \<Rightarrow> zip (map dec [0..<length xs]) xs
   | JStr s \<Rightarrow> zip (map dec [0..<length s]) (map (\<lambda>c. JStr [c]) s)
   | _ \<Rightarrow> [])"

text \<open>\<^verbatim>\<open>o[k] = v\<close>: replaces in place, or appends.\<close>

fun obj_set :: "(string \<times> 'a) list \<Rightarrow> string \<Rightarrow> 'a \<Rightarrow> (string \<times> 'a) list" where
  "obj_set [] k v = [(k, v)]"
| "obj_set ((k', v') # fs) k v = (if k' = k then (k, v) # fs else (k', v') # obj_set fs k v)"

text \<open>\<^verbatim>\<open>Object.fromEntries(es)\<close>.\<close>

definition from_entries :: "(string \<times> 'a) list \<Rightarrow> (string \<times> 'a) list" where
  "from_entries es = foldl (\<lambda>acc (k, v). obj_set acc k v) [] es"

fun join_with :: "string \<Rightarrow> string list \<Rightarrow> string" where
  "join_with sep [] = []"
| "join_with sep [s] = s"
| "join_with sep (s # t # ss) = s @ sep @ join_with sep (t # ss)"

text \<open>\<^verbatim>\<open>`${v}`\<close>; an array joins its elements, with nothing for \<^verbatim>\<open>null\<close> and \<^verbatim>\<open>undefined\<close>.\<close>

fun js_text :: "js_value \<Rightarrow> string" where
  "js_text JUndefined = ''undefined''"
| "js_text JNull = ''null''"
| "js_text (JBool b) = (if b then ''true'' else ''false'')"
| "js_text (JNum n) = number_string n"
| "js_text (JStr s) = s"
| "js_text (JArr xs) = join_with '','' (map (\<lambda>x. if x = JNull \<or> x = JUndefined then [] else js_text x) xs)"
| "js_text (JObj fs) = ''[object Object]''"

text \<open>A string between single quotes.\<close>

definition quoted :: "string \<Rightarrow> string" where
  "quoted s = CHR 0x27 # s @ [CHR 0x27]"

text \<open>\<^verbatim>\<open>e.message\<close> and \<^verbatim>\<open>String(e)\<close> of a thrown value.\<close>

definition error_message :: "js_error \<Rightarrow> string" where
  "error_message e = (case e of
     TypeError m \<Rightarrow> m | RangeError m \<Rightarrow> m | PlainError m \<Rightarrow> m | SyntaxError m \<Rightarrow> m
   | ApiError c n m \<Rightarrow> m | DemoApiError c m n \<Rightarrow> m | PasskeyProtocolError m \<Rightarrow> m
   | DOMException k m \<Rightarrow> m | NamedError k m \<Rightarrow> m
   | PasskeyCancelledError \<Rightarrow> ''Passkey operation was cancelled'' | _ \<Rightarrow> [])"

definition error_text :: "js_error \<Rightarrow> string" where
  "error_text e = (case e of
     TypeError m \<Rightarrow> ''TypeError: '' @ m | RangeError m \<Rightarrow> ''RangeError: '' @ m
   | SyntaxError m \<Rightarrow> ''SyntaxError: '' @ m | NamedError k m \<Rightarrow> k @ '': '' @ m
   | DOMException k m \<Rightarrow> k @ '': '' @ m
   | _ \<Rightarrow> ''Error: '' @ error_message e)"

lemma map_of_obj_set [simp]: "map_of (obj_set fs k v) = (map_of fs)(k \<mapsto> v)"
  by (induction fs k v rule: obj_set.induct) (auto simp: fun_eq_iff)

lemma keys_obj_set: "map fst (obj_set fs k v) = (if k \<in> fst ` set fs then map fst fs else map fst fs @ [k])"
  by (induction fs k v rule: obj_set.induct) auto

lemma distinct_obj_set: "distinct (map fst fs) \<Longrightarrow> distinct (map fst (obj_set fs k v))"
  by (auto simp: keys_obj_set)

lemma fst_set_obj_set [simp]: "fst ` set (obj_set fs k v) = insert k (fst ` set fs)"
  using keys_obj_set [of fs k v] by (metis (no_types) insert_absorb list.set_map set_append list.set(2)
      Un_insert_right list.set(1) sup_bot_right)

lemma obj_set_new: "k \<notin> fst ` set fs \<Longrightarrow> obj_set fs k v = fs @ [(k, v)]"
  by (induction fs k v rule: obj_set.induct) auto

lemma foldl_obj_set_distinct:
  "distinct (map fst (acc @ es)) \<Longrightarrow> foldl (\<lambda>acc (k, v). obj_set acc k v) acc es = acc @ es"
proof (induction es arbitrary: acc)
  case (Cons e es)
  then show ?case by (cases e) (simp add: obj_set_new)
qed simp

lemma from_entries_distinct [simp]: "distinct (map fst es) \<Longrightarrow> from_entries es = es"
  using foldl_obj_set_distinct [of "[]" es] by (simp add: from_entries_def)

section \<open>Paths\<close>

fun split_path :: "string \<Rightarrow> string list" where
  "split_path [] = [[]]"
| "split_path (c # cs) = (if c = CHR ''/'' then [] # split_path cs
     else case split_path cs of [] \<Rightarrow> [[c]] | s # ss \<Rightarrow> (c # s) # ss)"

text \<open>Dots are resolved left to right; the accumulator is the reversed path so far.\<close>

fun normal_segments :: "string list \<Rightarrow> string list \<Rightarrow> string list" where
  "normal_segments acc [] = rev acc"
| "normal_segments acc (s # ss) =
     (if s = [] \<or> s = ''.'' then normal_segments acc ss
      else if s = ''..'' then normal_segments (tl acc) ss
      else normal_segments (s # acc) ss)"

text \<open>\<^verbatim>\<open>resolve(root, p)\<close> for an absolute \<open>root\<close>.\<close>

definition resolve :: "string \<Rightarrow> string \<Rightarrow> string" where
  "resolve root p = CHR ''/'' # join_with ''/'' (normal_segments []
     (if startsWith p ''/'' then split_path p else split_path root @ split_path p))"

definition basename :: "string \<Rightarrow> string" where
  "basename p = last (split_path p)"

definition dirname :: "string \<Rightarrow> string" where
  "dirname p = join_with ''/'' (butlast (split_path p))"

end
