(* ===== verification/Host.thy ===== *)
theory Host
  imports AccountState Node
begin

unbundle bit_operations_syntax

text \<open>
  crates/host: the encoder of AccountStateV1 (\<^verbatim>\<open>encode_state\<close> of src/lib.rs) and the validated
  bootstrap configuration (src/config.rs) behind the \<^verbatim>\<open>export_account_state\<close> example that the demo
  server runs. Rust's fixed-width fields are words. The \<^verbatim>\<open>hex\<close> crate's decoder is the parameter
  \<open>H\<close>, which gives the displayed error or the bytes.
\<close>

section \<open>Data\<close>

record authenticator =
  au_slot :: "16 word"
  au_algorithm_id :: "16 word"
  au_capabilities :: "16 word"
  au_weight :: "16 word"
  au_verifier_hash_type :: byte
  au_verifier_abi :: byte
  au_verifier_code_hash :: bytes
  au_key_id :: bytes
  au_aux :: bytes

record account_state =
  as_flags :: byte
  as_sequence :: "64 word"
  as_spend_threshold :: "16 word"
  as_rotate_threshold :: "16 word"
  as_recovery_threshold :: "16 word"
  as_recovery_since :: "64 word"
  as_authenticators :: "authenticator list"

record authenticator_config =
  ac_slot :: "16 word"
  ac_algorithm_id :: "16 word"
  ac_capabilities :: "16 word"
  ac_weight :: "16 word"
  ac_verifier_hash_type :: byte
  ac_verifier_abi :: byte
  ac_verifier_code_hash :: string
  ac_key_id :: string
  ac_aux :: string

record account_state_config =
  cf_flags :: byte
  cf_sequence :: "64 word"
  cf_spend_threshold :: "16 word"
  cf_rotate_threshold :: "16 word"
  cf_recovery_threshold :: "16 word"
  cf_recovery_since :: "64 word"
  cf_authenticators :: "authenticator_config list"

text \<open>\<^verbatim>\<open>ConfigError\<close>, and a panic.\<close>

datatype config_error = ConfigPanic | Invalid string | Protocol protocol_error

type_synonym 'a config = "config_error + 'a"

definition protocol_failure :: "rust_error \<Rightarrow> config_error" where
  "protocol_failure e = (case e of Panic \<Rightarrow> ConfigPanic | Err p \<Rightarrow> Protocol p)"

section \<open>Encoding a state\<close>

definition u16_len :: "nat \<Rightarrow> nat rust" where
  "u16_len value = (if value < 2 ^ 16 then Inr value else Inl (Err LengthOverflow))"

text \<open>One step of the \<^verbatim>\<open>try_fold\<close> over the authenticators' sizes.\<close>

definition add_entry_size :: "nat \<Rightarrow> authenticator \<Rightarrow> nat rust" where
  "add_entry_size acc auth = (case
     Option.bind (checked_add acc 48) (\<lambda>v.
     Option.bind (checked_add v (length (au_key_id auth))) (\<lambda>v.
     checked_add v (length (au_aux auth)))) of
       None \<Rightarrow> Inl (Err LengthOverflow) | Some v \<Rightarrow> Inr v)"

fun entries_size :: "nat \<Rightarrow> authenticator list \<Rightarrow> nat rust" where
  "entries_size acc [] = Inr acc"
| "entries_size acc (auth # auths) = bind_r (add_entry_size acc auth) (\<lambda>v. entries_size v auths)"

definition encode_entry :: "authenticator \<Rightarrow> bytes rust" where
  "encode_entry auth =
     bind_r (add_entry_size 0 auth) (\<lambda>entry_len.
     bind_r (u16_len entry_len) (\<lambda>n.
     bind_r (u16_len (length (au_key_id auth))) (\<lambda>k.
     bind_r (u16_len (length (au_aux auth))) (\<lambda>a.
     Inr (le_bytes 2 n @ le_bytes 2 (unat (au_slot auth)) @ le_bytes 2 (unat (au_algorithm_id auth))
       @ le_bytes 2 (unat (au_capabilities auth)) @ le_bytes 2 (unat (au_weight auth))
       @ [au_verifier_hash_type auth, au_verifier_abi auth] @ au_verifier_code_hash auth
       @ le_bytes 2 k @ le_bytes 2 a @ au_key_id auth @ au_aux auth)))))"

definition encode_state :: "account_state \<Rightarrow> bytes rust" where
  "encode_state state =
     (let auths = as_authenticators state in
      if \<not> length auths < 256 then Inl (Err InvalidState)
      else
        bind_r (entries_size 0 auths) (\<lambda>sizes.
        case checked_add ACCOUNT_STATE_HEADER_LEN sizes of
          None \<Rightarrow> Inl (Err LengthOverflow)
        | Some cap \<Rightarrow>
            if cap > ACCOUNT_STATE_MAX_LEN then Inl (Err InvalidState)
            else
              bind_r (map_r encode_entry auths) (\<lambda>entries.
              let out = ACCOUNT_STATE_MAGIC @ [1, as_flags state] @ le_bytes 2 ACCOUNT_STATE_HEADER_LEN
                    @ le_bytes 8 (unat (as_sequence state)) @ le_bytes 2 (unat (as_spend_threshold state))
                    @ le_bytes 2 (unat (as_rotate_threshold state)) @ le_bytes 2 (unat (as_recovery_threshold state))
                    @ [word_of_nat (length auths), 0] @ le_bytes 8 (unat (as_recovery_since state)) @ concat entries
              in bind_r (validate_state out) (\<lambda>_. Inr out))))"

section \<open>Configurations\<close>

fun hex_nat :: "nat \<Rightarrow> string" where
  "hex_nat n = (if n < 16 then [hex_digit n] else hex_nat (n div 16) @ [hex_digit (n mod 16)])"

declare hex_nat.simps [simp del]

text \<open>\<^verbatim>\<open>{:#0wx}\<close>\<close>

definition fmt_hex :: "nat \<Rightarrow> nat \<Rightarrow> string" where
  "fmt_hex w n = ''0x'' @ padStart (w - 2) CHR ''0'' (hex_nat n)"

definition parse_hex :: "(string \<Rightarrow> string + bytes) \<Rightarrow> string \<Rightarrow> string \<Rightarrow> bytes config" where
  "parse_hex H field value =
     (let trimmed = (if startsWith value ''0x'' then drop 2 value else value) in
      map_err (\<lambda>error. Invalid (''invalid hex in '' @ field @ '': '' @ error)) (H trimmed))"

definition parse_hash :: "(string \<Rightarrow> string + bytes) \<Rightarrow> string \<Rightarrow> string \<Rightarrow> bytes config" where
  "parse_hash H field value =
     bind_r (parse_hex H field value) (\<lambda>bs.
     if length bs = 32 then Inr bs else Inl (Invalid (field @ '' must be exactly 32 bytes'')))"

definition slot_error :: "authenticator_config \<Rightarrow> string \<Rightarrow> config_error" where
  "slot_error c message = Invalid (''slot '' @ dec (unat (ac_slot c)) @ '': '' @ message)"

definition to_authenticator :: "(string \<Rightarrow> string + bytes) \<Rightarrow> authenticator_config \<Rightarrow> authenticator config" where
  "to_authenticator H c =
     (if ac_verifier_abi c \<noteq> 1
      then Inl (slot_error c (''verifier_abi must be '' @ fmt_hex 4 1 @ '' for ABI v1, got '' @ fmt_hex 4 (unat (ac_verifier_abi c))))
      else if unat (ac_verifier_hash_type c) > 1
      then Inl (slot_error c ''verifier_hash_type must be 0 (data) or 1 (type)'')
      else if ac_capabilities c AND NOT CAP_KNOWN_MASK \<noteq> 0
      then Inl (slot_error c (''capabilities '' @ fmt_hex 6 (unat (ac_capabilities c))
             @ '' set bits outside the known mask '' @ fmt_hex 6 (unat CAP_KNOWN_MASK)))
      else if ac_weight c = 0
      then Inl (slot_error c ''weight 0 can never contribute to a threshold'')
      else
        bind_r (parse_hex H ''aux'' (ac_aux c)) (\<lambda>aux.
        if aux = [] then Inl (slot_error c ''aux must not be empty'')
        else if ac_algorithm_id c = 1 \<and> length aux \<noteq> 65
        then Inl (slot_error c (''P-256 aux must be exactly 65 bytes (profile || rp_id_hash || origin_hash), got ''
               @ dec (length aux)))
        else
          bind_r (parse_hash H ''verifier_code_hash'' (ac_verifier_code_hash c)) (\<lambda>code_hash.
          bind_r (parse_hash H ''key_id'' (ac_key_id c)) (\<lambda>key.
          Inr \<lparr>au_slot = ac_slot c, au_algorithm_id = ac_algorithm_id c, au_capabilities = ac_capabilities c,
               au_weight = ac_weight c, au_verifier_hash_type = ac_verifier_hash_type c,
               au_verifier_abi = ac_verifier_abi c, au_verifier_code_hash = code_hash, au_key_id = key, au_aux = aux\<rparr>))))"

definition available_weight :: "authenticator list \<Rightarrow> 16 word \<Rightarrow> nat" where
  "available_weight auths capability =
     sum_list (map (\<lambda>e. unat (au_weight e)) (filter (\<lambda>e. au_capabilities e AND capability \<noteq> 0) auths))"

definition require_satisfiable :: "string \<Rightarrow> 16 word \<Rightarrow> authenticator list \<Rightarrow> 16 word \<Rightarrow> unit config" where
  "require_satisfiable label threshold auths capability =
     (if threshold = 0
      then Inl (Invalid (label @ '' threshold must be at least 1; a zero threshold authorizes with no proof''))
      else
        let available = available_weight auths capability in
        if available < unat threshold
        then Inl (Invalid (label @ '' threshold '' @ dec (unat threshold) @ '' exceeds the total weight '' @ dec available
               @ '' of authenticators holding the '' @ label @ '' capability; the account would be permanently unusable for that operation''))
        else Inr ())"

text \<open>The loop over \<^verbatim>\<open>authenticators.windows(2)\<close>.\<close>

fun require_increasing :: "authenticator list \<Rightarrow> unit config" where
  "require_increasing (a # b # rest) =
     (if au_slot b \<le> au_slot a
      then Inl (Invalid (''authenticator slots must be strictly increasing, got '' @ dec (unat (au_slot b))
             @ '' after '' @ dec (unat (au_slot a))))
      else require_increasing (b # rest))"
| "require_increasing [a] = Inr ()"
| "require_increasing [] = Inr ()"

definition configured_state :: "account_state_config \<Rightarrow> authenticator list \<Rightarrow> account_state" where
  "configured_state c auths = \<lparr>as_flags = cf_flags c, as_sequence = cf_sequence c, as_spend_threshold = cf_spend_threshold c,
     as_rotate_threshold = cf_rotate_threshold c, as_recovery_threshold = cf_recovery_threshold c,
     as_recovery_since = cf_recovery_since c, as_authenticators = auths\<rparr>"

definition encode_config :: "(string \<Rightarrow> string + bytes) \<Rightarrow> account_state_config \<Rightarrow> bytes config" where
  "encode_config H c =
     (if cf_sequence c \<noteq> 0
      then Inl (Invalid (''initial state sequence must be 0, got '' @ dec (unat (cf_sequence c))))
      else if cf_flags c AND NOT STATE_FLAGS_KNOWN_MASK \<noteq> 0
      then Inl (Invalid (''flags '' @ fmt_hex 4 (unat (cf_flags c)) @ '' set bits outside the known mask ''
             @ fmt_hex 4 (unat STATE_FLAGS_KNOWN_MASK)))
      else if cf_authenticators c = [] then Inl (Invalid ''at least one authenticator is required'')
      else if length (cf_authenticators c) > MAX_AUTHENTICATORS
      then Inl (Invalid (''at most '' @ dec MAX_AUTHENTICATORS @ '' authenticators are allowed, got ''
             @ dec (length (cf_authenticators c))))
      else
        bind_r (map_r (to_authenticator H) (cf_authenticators c)) (\<lambda>auths.
        bind_r (require_increasing auths) (\<lambda>_.
        bind_r (require_satisfiable ''spend'' (cf_spend_threshold c) auths CAP_SPEND) (\<lambda>_.
        bind_r (require_satisfiable ''rotate'' (cf_rotate_threshold c) auths CAP_ROTATE) (\<lambda>_.
        bind_r (if cf_flags c AND STATE_FLAG_RECOVERY_ENABLED \<noteq> 0
          then require_satisfiable ''recovery'' (cf_recovery_threshold c) auths CAP_RECOVERY else Inr ()) (\<lambda>_.
        bind_r (map_err protocol_failure (encode_state (configured_state c auths))) (\<lambda>encoded.
        bind_r (map_err protocol_failure (validate_state encoded)) (\<lambda>_.
        Inr encoded))))))))"

section \<open>The encoder writes the layout\<close>

definition entry_of :: "authenticator \<Rightarrow> authenticator_entry" where
  "entry_of a = \<lparr>ae_slot = unat (au_slot a), ae_algorithm_id = unat (au_algorithm_id a), ae_capabilities = au_capabilities a,
     ae_weight = unat (au_weight a), ae_verifier_hash_type = au_verifier_hash_type a, ae_verifier_abi = au_verifier_abi a,
     ae_verifier_code_hash = au_verifier_code_hash a, ae_key_id = au_key_id a, ae_aux = au_aux a\<rparr>"

definition header_of :: "account_state \<Rightarrow> state_header" where
  "header_of st = \<lparr>sh_flags = as_flags st, sh_sequence = unat (as_sequence st),
     sh_spend_threshold = unat (as_spend_threshold st), sh_rotate_threshold = unat (as_rotate_threshold st),
     sh_recovery_threshold = unat (as_recovery_threshold st), sh_authenticator_count = length (as_authenticators st),
     sh_recovery_since = unat (as_recovery_since st)\<rparr>"

definition fits :: "authenticator \<Rightarrow> bool" where
  "fits a \<longleftrightarrow> 48 + length (au_key_id a) + length (au_aux a) < 2 ^ 16"

lemma add_entry_size_Inr_iff [result_simps]:
  "add_entry_size n a = Inr m \<longleftrightarrow> m = n + (48 + length (au_key_id a) + length (au_aux a)) \<and> m < 2 ^ 64"
  by (auto simp: add_entry_size_def checked_add_def split: option.split)

lemma encode_entry_Inr_iff [result_simps]:
  "encode_entry a = Inr bs \<longleftrightarrow> fits a \<and> bs = entry_layout (entry_of a)"
  by (auto simp: encode_entry_def result_simps u16_len_def fits_def entry_layout_def entry_of_def)

abbreviation entry_size :: "authenticator \<Rightarrow> nat" where
  "entry_size a \<equiv> 48 + length (au_key_id a) + length (au_aux a)"

lemma entries_size_ok:
  "n + sum_list (map entry_size auths) < 2 ^ 64 \<Longrightarrow> entries_size n auths = Inr (n + sum_list (map entry_size auths))"
proof (induction auths arbitrary: n)
  case (Cons a auths)
  then have "add_entry_size n a = Inr (n + entry_size a)"
    by (subst add_entry_size_Inr_iff) simp
  with Cons show ?case by (simp add: add.assoc)
qed simp

lemma map_encode_entry:
  "map_r encode_entry auths = Inr bss \<longleftrightarrow> list_all fits auths \<and> bss = map (entry_layout \<circ> entry_of) auths"
  unfolding map_r_Inr_iff
  by (auto simp: list_all2_conv_all_nth result_simps list_all_length intro!: nth_equalityI)

lemma ascending_increasing: "require_increasing auths = Inr () \<longleftrightarrow> ascending_from None (map (ae_slot \<circ> entry_of) auths)"
proof (induction auths rule: require_increasing.induct)
  case (1 a b rest)
  have "sorted_wrt (<) (unat (au_slot a) # unat (au_slot b) # xs)
      \<longleftrightarrow> unat (au_slot a) < unat (au_slot b) \<and> sorted_wrt (<) (unat (au_slot b) # xs)" for xs
    by auto
  then show ?case
    using 1 by (simp add: ascending_from_def entry_of_def not_le comp_def word_le_nat_alt del: sorted_wrt.simps)
qed (simp_all add: ascending_from_def)

lemma available_weight_cap: "available_weight auths c = cap_weight c (map entry_of auths)"
  by (induction auths) (simp_all add: available_weight_def entry_of_def)

lemma require_satisfiable_iff [result_simps]:
  "require_satisfiable label t auths c = Inr () \<longleftrightarrow> 0 < unat t \<and> unat t \<le> cap_weight c (map entry_of auths)"
  by (auto simp: require_satisfiable_def available_weight_cap Let_def unat_gt_0)

lemma state_layout_of:
  "state_layout (header_of st) (map entry_of (as_authenticators st)) =
     ACCOUNT_STATE_MAGIC @ [1, as_flags st] @ le_bytes 2 ACCOUNT_STATE_HEADER_LEN
       @ le_bytes 8 (unat (as_sequence st)) @ le_bytes 2 (unat (as_spend_threshold st))
       @ le_bytes 2 (unat (as_rotate_threshold st)) @ le_bytes 2 (unat (as_recovery_threshold st))
       @ [word_of_nat (length (as_authenticators st)), 0] @ le_bytes 8 (unat (as_recovery_since st))
       @ concat (map (entry_layout \<circ> entry_of) (as_authenticators st))"
  by (simp add: state_layout_def header_of_def comp_def)

section \<open>The configuration's checks\<close>

text \<open>A header and a list of entries, as \<^verbatim>\<open>encode_state\<close> lays them out, are determined by the bytes.\<close>

lemma state_layout_determined:
  assumes "state_layout h es = state_layout h' es'" and "state_ok h' es'" and "header_ok h"
    and "length es = sh_authenticator_count h" and "list_all entry_ok es" and "ascending_from None (map ae_slot es)"
  shows "h = h' \<and> es = es'"
proof -
  have len: "length (state_layout h es) \<le> ACCOUNT_STATE_MAX_LEN"
    using assms(1,2) by (simp add: state_ok_def)
  note ok' = assms(2) [unfolded state_ok_def]
  have "Inr h = (Inr h' :: state_header rust)"
    using state_layout_header [OF assms(3) len] state_layout_header [of h' es'] ok' assms(1) by metis
  then have h: "h = h'" by simp
  have "fold_r (\<lambda>acc e. Inr (acc @ [e])) es [] = fold_r (\<lambda>acc e. Inr (acc @ [e])) es' []"
    using parse_authenticators_layout [OF assms(3-6) len, of "\<lambda>acc e. Inr (acc @ [e])" "[]"]
      parse_authenticators_layout [of h' es' "\<lambda>acc e. Inr (acc @ [e])" "[]"] ok' assms(1) h by simp
  with h show ?thesis by (simp add: fold_collect_entries)
qed

lemma unat16: "unat (w :: 16 word) < 65536"
  using unsigned_less [of w] by simp

lemma unat64: "unat (w :: 64 word) < 18446744073709551616"
  using unsigned_less [of w] by simp

lemma to_authenticator_fields:
  assumes "to_authenticator H c = Inr a"
  shows "length (au_key_id a) = 32" and "au_aux a \<noteq> []" and "fits a \<Longrightarrow> entry_ok (entry_of a)"
    and "au_algorithm_id a = 1 \<Longrightarrow> length (au_aux a) = 65"
  using assms
  by (auto simp: to_authenticator_def parse_hash_def result_simps entry_ok_def entry_of_def fits_def unat_gt_0
      unat16 split: if_splits)

lemma entries_size_sound: "entries_size n auths = Inr m \<Longrightarrow> m = n + sum_list (map entry_size auths)"
  by (induction auths arbitrary: n) (fastforce simp: bind_r_Inr_iff add_entry_size_Inr_iff)+

lemma encode_state_Inr_iff:
  "encode_state st = Inr out \<longleftrightarrow>
     length (as_authenticators st) < 256 \<and> list_all fits (as_authenticators st)
     \<and> 32 + sum_list (map entry_size (as_authenticators st)) \<le> ACCOUNT_STATE_MAX_LEN
     \<and> out = state_layout (header_of st) (map entry_of (as_authenticators st)) \<and> (\<exists>r. validate_state out = Inr r)"
    (is "?l \<longleftrightarrow> ?r")
proof
  let ?auths = "as_authenticators st"
  assume enc: ?l
  then obtain m where m: "entries_size 0 ?auths = Inr m" and n: "length ?auths < 256"
    by (auto simp: encode_state_def Let_def bind_r_Inr_iff if_Inl_Inr_iff)
  have m': "m = sum_list (map entry_size ?auths)" using entries_size_sound [OF m] by simp
  from enc m n obtain cap where cap: "checked_add 32 m = Some cap" "cap \<le> ACCOUNT_STATE_MAX_LEN"
    by (auto simp: encode_state_def Let_def if_Inl_Inr_iff split: option.splits)
  with enc m n show ?r
    by (auto simp: encode_state_def Let_def bind_r_Inr_iff if_Inl_Inr_iff map_encode_entry state_layout_of
        m' [symmetric] checked_add_def split: option.splits if_splits)
next
  assume r: ?r
  then have "entries_size 0 (as_authenticators st) = Inr (sum_list (map entry_size (as_authenticators st)))"
    using entries_size_ok [of 0 "as_authenticators st"] by simp
  then show ?l
    using r by (auto simp: encode_state_def Let_def checked_add_def bind_r_Inr_iff if_Inl_Inr_iff map_encode_entry state_layout_of)
qed

text \<open>The state a configuration stands for, once its authenticators are decoded.\<close>

abbreviation config_layout :: "account_state_config \<Rightarrow> authenticator list \<Rightarrow> bytes" where
  "config_layout c auths \<equiv> state_layout (header_of (configured_state c auths)) (map entry_of auths)"

abbreviation config_state_ok :: "account_state_config \<Rightarrow> authenticator list \<Rightarrow> bool" where
  "config_state_ok c auths \<equiv> state_ok (header_of (configured_state c auths)) (map entry_of auths)"

lemma decoded_authenticators:
  assumes "map_r (to_authenticator H) cs = Inr auths"
  shows "length auths = length cs" and "list_all fits auths \<Longrightarrow> list_all entry_ok (map entry_of auths)"
  using assms unfolding map_r_Inr_iff
  by (auto simp: list_all2_conv_all_nth list_all_length to_authenticator_fields(3))

lemma header_ok_config:
  "cf_flags c AND NOT STATE_FLAGS_KNOWN_MASK = 0 \<Longrightarrow> auths \<noteq> [] \<Longrightarrow> length auths \<le> MAX_AUTHENTICATORS
   \<Longrightarrow> header_ok (header_of (configured_state c auths))"
  by (simp add: header_ok_def header_of_def configured_state_def unat16 unat64)

lemma encode_config_sound:
  assumes "encode_config H c = Inr out"
  shows "cf_sequence c = 0 \<and> (\<exists>auths. map_r (to_authenticator H) (cf_authenticators c) = Inr auths
    \<and> config_state_ok c auths \<and> out = config_layout c auths)"
proof -
  let ?st = "configured_state c"
  have c: "cf_sequence c = 0" "cf_flags c AND NOT STATE_FLAGS_KNOWN_MASK = 0" "cf_authenticators c \<noteq> []"
    "length (cf_authenticators c) \<le> MAX_AUTHENTICATORS"
    using assms unfolding encode_config_def if_Inl_Inr_iff by auto
  obtain auths where m: "map_r (to_authenticator H) (cf_authenticators c) = Inr auths"
    and inc: "require_increasing auths = Inr ()" and enc: "encode_state (?st auths) = Inr out"
    using assms unfolding encode_config_def if_Inl_Inr_iff bind_r_Inr_iff map_err_Inr_iff by auto
  note d = decoded_authenticators [OF m]
  have st: "as_authenticators (?st auths) = auths" by (simp add: configured_state_def)
  obtain h sm where v: "validate_state out = Inr (h, sm)" and out: "out = config_layout c auths" and "list_all fits auths"
    using enc unfolding encode_state_Inr_iff st by auto
  then obtain es where es: "out = state_layout h es" "state_ok h es"
    unfolding validate_state_iff by blast
  have "ascending_from None (map ae_slot (map entry_of auths))"
    using inc by (simp add: ascending_increasing)
  moreover have "header_ok (header_of (?st auths))"
    using c d(1) by (intro header_ok_config) auto
  moreover have "length (map entry_of auths) = sh_authenticator_count (header_of (?st auths))"
    by (simp add: header_of_def st)
  ultimately have "header_of (?st auths) = h \<and> map entry_of auths = es"
    using es out d(2) [OF \<open>list_all fits auths\<close>] by (intro state_layout_determined) simp_all
  with es(2) c(1) m out show ?thesis by auto
qed

lemma length_entries_of:
  "list_all entry_ok (map entry_of auths) \<Longrightarrow> length (entries_layout (map entry_of auths)) = sum_list (map entry_size auths)"
  by (induction auths) (simp_all add: length_entry_layout, simp add: entry_of_def)

lemma encode_config_complete:
  assumes "cf_sequence c = 0" and m: "map_r (to_authenticator H) (cf_authenticators c) = Inr auths"
    and ok: "config_state_ok c auths"
  shows "encode_config H c = Inr (config_layout c auths)"
proof -
  let ?h = "header_of (configured_state c auths)"
  note ok' = ok [unfolded state_ok_def header_ok_def]
  have st: "as_authenticators (configured_state c auths) = auths" by (simp add: configured_state_def)
  have flags: "sh_flags ?h = cf_flags c" and count: "sh_authenticator_count ?h = length auths"
    by (simp_all add: header_of_def configured_state_def)
  have fits: "list_all fits auths"
    using ok' by (auto simp: list_all_length entry_ok_def entry_of_def fits_def)
  have "length (entries_layout (map entry_of auths)) = sum_list (map entry_size auths)"
    using ok' length_entries_of [of auths] by blast
  then have size: "32 + sum_list (map entry_size auths) \<le> ACCOUNT_STATE_MAX_LEN"
    using ok' by (simp add: length_state_layout)
  have v: "validate_state (config_layout c auths) = Inr (?h, weights (map entry_of auths))"
    unfolding validate_state_iff using ok by blast
  have enc: "encode_state (configured_state c auths) = Inr (config_layout c auths)"
    unfolding encode_state_Inr_iff st using v size fits ok' count by simp
  have inc: "require_increasing auths = Inr ()"
    using ok' by (simp add: ascending_increasing)
  have t: "require_satisfiable l (cf_spend_threshold c) auths CAP_SPEND = Inr ()"
    "require_satisfiable l (cf_rotate_threshold c) auths CAP_ROTATE = Inr ()"
    "cf_flags c AND STATE_FLAG_RECOVERY_ENABLED \<noteq> 0 \<Longrightarrow> require_satisfiable l (cf_recovery_threshold c) auths CAP_RECOVERY = Inr ()" for l
    using ok' unfolding require_satisfiable_iff thresholds_ok_def flags
    by (simp_all add: weights_def header_of_def configured_state_def)
  show ?thesis
    using assms(1) ok' flags count decoded_authenticators(1) [OF m]
    by (auto simp: encode_config_def m inc t enc v)
qed

lemma encode_state_no_panic: "no_panic (encode_state st)"
proof -
  have size: "no_panic (entries_size n auths)" for n auths
    by (induction auths arbitrary: n) (auto simp: add_entry_size_def split: option.split)
  have entry: "no_panic (encode_entry a)" for a
    by (auto simp: encode_entry_def add_entry_size_def u16_len_def split: option.split)
  have "no_panic (map_r encode_entry auths)" for auths
    by (induction auths) (auto simp: entry)
  then show ?thesis
    by (auto simp: encode_state_def Let_def size validate_state_no_panic split: option.split)
qed

lemma protocol_failure_no_panic: "no_panic m \<Longrightarrow> map_err protocol_failure m \<noteq> Inl ConfigPanic"
  by (auto simp: no_panic_def protocol_failure_def map_err_Inl_iff split: rust_error.splits)

lemma encode_config_no_panic: "encode_config H c \<noteq> Inl ConfigPanic"
proof -
  have auth: "to_authenticator H a \<noteq> Inl ConfigPanic" for a
    by (auto simp: to_authenticator_def slot_error_def parse_hash_def parse_hex_def Let_def result_simps split: if_splits)
  have auths: "map_r (to_authenticator H) as \<noteq> Inl ConfigPanic" for as
    by (induction as) (auto simp: bind_r_Inl_iff auth)
  have "require_increasing as \<noteq> Inl ConfigPanic" "require_satisfiable l t as k \<noteq> Inl ConfigPanic" for as l t k
    by (induction as rule: require_increasing.induct) (auto simp: require_satisfiable_def Let_def)
  then show ?thesis
    by (auto simp: encode_config_def bind_r_Inl_iff auths encode_state_no_panic validate_state_no_panic protocol_failure_no_panic)
qed

section \<open>Property\<close>


end
