(* ===== verification/Request.thy ===== *)
theory Request
  imports StateLayout
begin

unbundle bit_operations_syntax

text \<open>
  The request that the account lock writes to a verifier: \<^verbatim>\<open>encode_request\<close> of
  contracts/account-lock/src/main.rs against \<^verbatim>\<open>VerifierRequest::parse\<close> of
  crates/protocol/src/wire.rs, and \<^verbatim>\<open>parse_public_key_proof\<close> of the same file.
\<close>

section \<open>Definitions\<close>

abbreviation VERIFIER_MAGIC :: bytes where "VERIFIER_MAGIC \<equiv> [0x43, 0x4b, 0x56, 0x52]"
abbreviation VERIFIER_ABI_V1 :: byte where "VERIFIER_ABI_V1 \<equiv> 1"
abbreviation VERIFIER_REQUEST_HEADER_LEN :: nat where "VERIFIER_REQUEST_HEADER_LEN \<equiv> 96"
abbreviation VERIFIER_MAX_AUX_LEN :: nat where "VERIFIER_MAX_AUX_LEN \<equiv> 4096"
abbreviation VERIFIER_MAX_PROOF_LEN :: nat where "VERIFIER_MAX_PROOF_LEN \<equiv> 65536"
abbreviation VERIFIER_MAX_REQUEST_LEN :: nat where "VERIFIER_MAX_REQUEST_LEN \<equiv> 69728"

record verifier_request =
  vr_algorithm_id :: nat
  vr_slot :: nat
  vr_operation :: byte
  vr_verifier_profile :: byte
  vr_authorization_digest :: bytes
  vr_key_id :: bytes
  vr_aux :: bytes
  vr_proof :: bytes

definition parse_verifier_request :: "bytes \<Rightarrow> verifier_request rust" where
  "parse_verifier_request d =
     (if length d < VERIFIER_REQUEST_HEADER_LEN \<or> length d > VERIFIER_MAX_REQUEST_LEN
      then Inl (Err InvalidRequest)
      else
        bind_r (rd 0 4 d) (\<lambda>magic.
        if magic \<noteq> VERIFIER_MAGIC then Inl (Err InvalidRequest) else
        bind_r (rd_byte 4 d) (\<lambda>version.
        if version \<noteq> VERIFIER_ABI_V1 then Inl (Err UnsupportedVersion) else
        bind_r (rd_byte 5 d) (\<lambda>reserved.
        if reserved \<noteq> 0 then Inl (Err InvalidRequest) else
        bind_r (bind_r (rd 6 8 d) le_u16) (\<lambda>header_len.
        if header_len \<noteq> VERIFIER_REQUEST_HEADER_LEN then Inl (Err InvalidRequest) else
        bind_r (bind_r (rd 8 10 d) le_u16) (\<lambda>algorithm_id.
        bind_r (bind_r (rd 10 12 d) le_u16) (\<lambda>slot.
        bind_r (rd_byte 12 d) (\<lambda>operation.
        bind_r (capability_for_operation operation) (\<lambda>_.
        bind_r (rd_byte 14 d) (\<lambda>r14.
        bind_r (rd_byte 15 d) (\<lambda>r15.
        bind_r (rd 88 96 d) (\<lambda>tail.
        if r14 \<noteq> 0 \<or> r15 \<noteq> 0 \<or> list_ex (\<lambda>b. b \<noteq> 0) tail then Inl (Err InvalidRequest) else
        bind_r (err_to InvalidRequest (bind_r (rd 80 84 d) le_u32)) (\<lambda>aux_len.
        bind_r (err_to InvalidRequest (bind_r (rd 84 88 d) le_u32)) (\<lambda>proof_len.
        if aux_len > VERIFIER_MAX_AUX_LEN \<or> proof_len > VERIFIER_MAX_PROOF_LEN
        then Inl (Err InvalidRequest) else
        (case checked_add VERIFIER_REQUEST_HEADER_LEN aux_len of
           None \<Rightarrow> Inl (Err LengthOverflow)
         | Some aux_end \<Rightarrow>
             (case checked_add aux_end proof_len of
                None \<Rightarrow> Inl (Err LengthOverflow)
              | Some tot \<Rightarrow>
                  if tot \<noteq> length d then Inl (Err InvalidRequest) else
                  bind_r (rd_byte 13 d) (\<lambda>profile.
                  bind_r (rd 16 48 d) (\<lambda>digest.
                  bind_r (rd 48 80 d) (\<lambda>key_id.
                  bind_r (rd VERIFIER_REQUEST_HEADER_LEN aux_end d) (\<lambda>aux.
                  bind_r (rd aux_end tot d) (\<lambda>payload.
                  Inr \<lparr>vr_algorithm_id = algorithm_id, vr_slot = slot, vr_operation = operation,
                       vr_verifier_profile = profile, vr_authorization_digest = digest,
                       vr_key_id = key_id, vr_aux = aux, vr_proof = payload\<rparr>)))))))))))))))))))))"

text \<open>
  The lock's encoder. \<^verbatim>\<open>as u32\<close> truncates, as \<open>le_bytes 4\<close> does; the digest is a \<^verbatim>\<open>[u8; 32]\<close>.
\<close>

definition encode_request :: "authenticator_entry \<Rightarrow> byte \<Rightarrow> bytes \<Rightarrow> bytes \<Rightarrow> bytes rust" where
  "encode_request auth operation digest payload =
     (if length (ae_key_id auth) \<noteq> 32 \<or> ae_aux auth = [] \<or> length payload > VERIFIER_MAX_PROOF_LEN
      then Inl (Err InvalidRequest)
      else
        (case Option.bind (checked_add VERIFIER_REQUEST_HEADER_LEN (length (ae_aux auth)))
                (\<lambda>v. checked_add v (length payload)) of
           None \<Rightarrow> Inl (Err LengthOverflow)
         | Some tot \<Rightarrow>
             if tot > VERIFIER_MAX_REQUEST_LEN then Inl (Err LengthOverflow) else
             bind_r (rd_byte 0 (ae_aux auth)) (\<lambda>profile.
             let output = VERIFIER_MAGIC @ [VERIFIER_ABI_V1, 0] @ le_bytes 2 VERIFIER_REQUEST_HEADER_LEN
               @ le_bytes 2 (ae_algorithm_id auth) @ le_bytes 2 (ae_slot auth)
               @ [operation, profile, 0, 0] @ digest @ ae_key_id auth
               @ le_bytes 4 (length (ae_aux auth)) @ le_bytes 4 (length payload)
               @ replicate 8 0 @ ae_aux auth @ payload
             in bind_r (parse_verifier_request output) (\<lambda>_. Inr output))))"

record public_key_proof =
  pp_public_key :: bytes
  pp_signature :: bytes

definition parse_public_key_proof :: "bytes \<Rightarrow> public_key_proof rust" where
  "parse_public_key_proof d =
     (if length d < 5 then Inl (Err InvalidProof) else
      bind_r (rd_byte 0 d) (\<lambda>version.
      if version \<noteq> 1 then Inl (Err InvalidProof) else
      bind_r (bind_r (rd 1 3 d) le_u16) (\<lambda>public_key_len.
      bind_r (bind_r (rd 3 5 d) le_u16) (\<lambda>signature_len.
      if public_key_len = 0 \<or> signature_len = 0 then Inl (Err InvalidProof) else
      (case checked_add 5 public_key_len of
         None \<Rightarrow> Inl (Err LengthOverflow)
       | Some key_end \<Rightarrow>
           (case checked_add key_end signature_len of
              None \<Rightarrow> Inl (Err LengthOverflow)
            | Some tot \<Rightarrow>
                if tot \<noteq> length d then Inl (Err InvalidProof) else
                bind_r (rd 5 key_end d) (\<lambda>key.
                bind_r (rd key_end tot d) (\<lambda>sig.
                Inr \<lparr>pp_public_key = key, pp_signature = sig\<rparr>))))))))"

section \<open>The format\<close>

definition request_header :: "verifier_request \<Rightarrow> bytes" where
  "request_header q =
     VERIFIER_MAGIC @ [VERIFIER_ABI_V1, 0] @ le_bytes 2 VERIFIER_REQUEST_HEADER_LEN
     @ le_bytes 2 (vr_algorithm_id q) @ le_bytes 2 (vr_slot q)
     @ [vr_operation q, vr_verifier_profile q, 0, 0] @ vr_authorization_digest q @ vr_key_id q
     @ le_bytes 4 (length (vr_aux q)) @ le_bytes 4 (length (vr_proof q)) @ replicate 8 0"

definition request_layout :: "verifier_request \<Rightarrow> bytes" where
  "request_layout q = request_header q @ vr_aux q @ vr_proof q"

definition request_ok :: "verifier_request \<Rightarrow> bool" where
  "request_ok q \<longleftrightarrow>
     vr_algorithm_id q < 2 ^ 16 \<and> vr_slot q < 2 ^ 16
     \<and> vr_operation q \<in> {OP_SPEND, OP_ROTATE, OP_RECOVERY}
     \<and> length (vr_authorization_digest q) = 32 \<and> length (vr_key_id q) = 32
     \<and> length (vr_aux q) \<le> VERIFIER_MAX_AUX_LEN \<and> length (vr_proof q) \<le> VERIFIER_MAX_PROOF_LEN"

lemma capability_ok_iff [result_simps]:
  "(\<exists>c. capability_for_operation op = Inr c) \<longleftrightarrow> op \<in> {OP_SPEND, OP_ROTATE, OP_RECOVERY}"
  by (auto simp: capability_for_operation_def)

lemma parse_verifier_request_eq:
  assumes "96 \<le> length d"
  shows "parse_verifier_request d =
    (if length d > VERIFIER_MAX_REQUEST_LEN then Inl (Err InvalidRequest)
     else if seg 0 4 d \<noteq> VERIFIER_MAGIC then Inl (Err InvalidRequest)
     else if d ! 4 \<noteq> 1 then Inl (Err UnsupportedVersion)
     else if d ! 5 \<noteq> 0 then Inl (Err InvalidRequest)
     else if of_le (seg 6 8 d) \<noteq> 96 then Inl (Err InvalidRequest)
     else if d ! 12 \<notin> {OP_SPEND, OP_ROTATE, OP_RECOVERY} then Inl (Err InvalidOperation)
     else if d ! 14 \<noteq> 0 \<or> d ! 15 \<noteq> 0 \<or> list_ex (\<lambda>b. b \<noteq> 0) (seg 88 96 d) then Inl (Err InvalidRequest)
     else let a = of_le (seg 80 84 d); p = of_le (seg 84 88 d) in
       if a > VERIFIER_MAX_AUX_LEN \<or> p > VERIFIER_MAX_PROOF_LEN then Inl (Err InvalidRequest)
       else if 96 + a + p \<noteq> length d then Inl (Err InvalidRequest)
       else Inr \<lparr>vr_algorithm_id = of_le (seg 8 10 d), vr_slot = of_le (seg 10 12 d),
            vr_operation = d ! 12, vr_verifier_profile = d ! 13,
            vr_authorization_digest = seg 16 48 d, vr_key_id = seg 48 80 d,
            vr_aux = seg 96 (96 + a) d, vr_proof = seg (96 + a) (96 + a + p) d\<rparr>)"
  using assms
  by (simp add: parse_verifier_request_def rd_ok rd_byte_ok le_u_ok err_to_def capability_for_operation_def
      checked_add_def Let_def cong: if_cong)

lemma parse_verifier_request_short: "length d < 96 \<Longrightarrow> parse_verifier_request d = Inl (Err InvalidRequest)"
  by (simp add: parse_verifier_request_def)

lemma replicate_zero: "\<not> list_ex (\<lambda>b. b \<noteq> 0) xs \<Longrightarrow> length xs = n \<Longrightarrow> xs = replicate n (0 :: byte)"
  by (simp add: list_ex_iff replicate_eqI)

lemma split96:
  assumes "96 \<le> length d"
  shows "d = seg 0 4 d @ [d ! 4, d ! 5] @ seg 6 8 d @ seg 8 10 d @ seg 10 12 d @ [d ! 12, d ! 13, d ! 14, d ! 15]
    @ seg 16 48 d @ seg 48 80 d @ seg 80 84 d @ seg 84 88 d @ seg 88 96 d @ drop 96 d"
proof -
  have "d = seg 0 4 d @ seg 4 6 d @ seg 6 8 d @ seg 8 10 d @ seg 10 12 d @ seg 12 14 d @ seg 14 16 d
    @ seg 16 48 d @ seg 48 80 d @ seg 80 84 d @ seg 84 88 d @ seg 88 96 d @ drop 96 d"
    by (simp add: drop_seg [symmetric])
  then show ?thesis
    using seg_two [of 4 d] seg_two [of 12 d] seg_two [of 14 d] assms by (simp add: eval_nat_numeral)
qed

lemma parse_verifier_request_sound:
  assumes "parse_verifier_request d = Inr q"
  shows "request_ok q \<and> d = request_layout q"
proof -
  let ?a = "of_le (seg 80 84 d)" and ?p = "of_le (seg 84 88 d)"
  have len: "96 \<le> length d" by (rule ccontr) (use assms parse_verifier_request_short [of d] in simp)
  from assms have c: "seg 0 4 d = VERIFIER_MAGIC" "d ! 4 = 1" "d ! 5 = 0" "of_le (seg 6 8 d) = 96"
    "d ! 12 \<in> {OP_SPEND, OP_ROTATE, OP_RECOVERY}" "d ! 14 = 0" "d ! 15 = 0"
    "\<not> list_ex (\<lambda>b. b \<noteq> 0) (seg 88 96 d)" "?a \<le> VERIFIER_MAX_AUX_LEN" "?p \<le> VERIFIER_MAX_PROOF_LEN"
    "96 + ?a + ?p = length d"
    and q: "q = \<lparr>vr_algorithm_id = of_le (seg 8 10 d), vr_slot = of_le (seg 10 12 d),
            vr_operation = d ! 12, vr_verifier_profile = d ! 13,
            vr_authorization_digest = seg 16 48 d, vr_key_id = seg 48 80 d,
            vr_aux = seg 96 (96 + ?a) d, vr_proof = seg (96 + ?a) (96 + ?a + ?p) d\<rparr>"
    unfolding parse_verifier_request_eq [OF len] Let_def
    by (auto simp only: if_Inl_Inr_iff not_less not_not de_Morgan_disj sum.inject)
  have "seg 88 96 d = replicate 8 0" using replicate_zero [OF c(8)] len by simp
  moreover have "seg 6 8 d = le_bytes 2 96" "le_bytes 2 (of_le (seg 8 10 d)) = seg 8 10 d"
    "le_bytes 2 (of_le (seg 10 12 d)) = seg 10 12 d" "le_bytes 4 ?a = seg 80 84 d" "le_bytes 4 ?p = seg 84 88 d"
    using len c(4) seg_le [of 8 6 2 d] by (simp_all add: seg_le)
  moreover have "drop 96 d = seg 96 (96 + ?a) d @ seg (96 + ?a) (96 + ?a + ?p) d"
    using c(11) by (simp add: seg_append_seg) (simp add: seg_def)
  moreover have "length (seg 96 (96 + ?a) d) = ?a" "length (seg (96 + ?a) (96 + ?a + ?p) d) = ?p"
    using c(11) by simp_all
  ultimately have "d = request_layout q"
    using split96 [OF len] c(1,2,3,6,7) q by (simp add: request_layout_def request_header_def)
  moreover have "request_ok q"
    using c len of_le_seg_bound [of 8 10 d] of_le_seg_bound [of 10 12 d] q
    by (simp add: request_ok_def)
  ultimately show ?thesis by simp
qed

definition request_sized :: "verifier_request \<Rightarrow> bool" where
  "request_sized q \<longleftrightarrow>
     vr_algorithm_id q < 2 ^ 16 \<and> vr_slot q < 2 ^ 16
     \<and> length (vr_authorization_digest q) = 32 \<and> length (vr_key_id q) = 32
     \<and> length (vr_aux q) < 2 ^ 32 \<and> length (vr_proof q) < 2 ^ 32"

lemma parse_verifier_request_of_layout:
  assumes "request_sized q"
  shows "parse_verifier_request (request_layout q) =
    (if length (request_layout q) > VERIFIER_MAX_REQUEST_LEN then Inl (Err InvalidRequest)
     else if vr_operation q \<notin> {OP_SPEND, OP_ROTATE, OP_RECOVERY} then Inl (Err InvalidOperation)
     else if length (vr_aux q) > VERIFIER_MAX_AUX_LEN \<or> length (vr_proof q) > VERIFIER_MAX_PROOF_LEN
     then Inl (Err InvalidRequest) else Inr q)"
proof -
  let ?d = "request_layout q"
  have f: "length (vr_authorization_digest q) = 32" "length (vr_key_id q) = 32"
    using assms by (simp_all add: request_sized_def)
  then have h: "length (request_header q) = 96" by (simp add: request_header_def)
  then have len: "length ?d = 96 + length (vr_aux q) + length (vr_proof q)"
    by (simp add: request_layout_def)
  have d: "?d = VERIFIER_MAGIC @ [1, 0] @ le_bytes 2 96 @ le_bytes 2 (vr_algorithm_id q) @ le_bytes 2 (vr_slot q)
     @ [vr_operation q, vr_verifier_profile q, 0, 0] @ vr_authorization_digest q @ vr_key_id q
     @ le_bytes 4 (length (vr_aux q)) @ le_bytes 4 (length (vr_proof q)) @ replicate 8 0 @ vr_aux q @ vr_proof q"
    by (simp add: request_layout_def request_header_def)
  have n: "?d ! 4 = 1" "?d ! 5 = 0" "?d ! 12 = vr_operation q" "?d ! 13 = vr_verifier_profile q"
    "?d ! 14 = 0" "?d ! 15 = 0"
    by (simp_all add: d nth_append)
  have s: "seg 0 4 ?d = VERIFIER_MAGIC" "seg 6 8 ?d = le_bytes 2 96" "seg 8 10 ?d = le_bytes 2 (vr_algorithm_id q)"
    "seg 10 12 ?d = le_bytes 2 (vr_slot q)" "seg 16 48 ?d = vr_authorization_digest q" "seg 48 80 ?d = vr_key_id q"
    "seg 80 84 ?d = le_bytes 4 (length (vr_aux q))" "seg 84 88 ?d = le_bytes 4 (length (vr_proof q))"
    "seg 88 96 ?d = replicate 8 0"
    by (simp_all add: d seg_def f)
  have v: "seg 96 (96 + length (vr_aux q)) ?d = vr_aux q"
    "seg (96 + length (vr_aux q)) (96 + length (vr_aux q) + length (vr_proof q)) ?d = vr_proof q"
    by (simp_all add: request_layout_def seg_def h)
  show ?thesis
    using assms by (simp add: parse_verifier_request_eq len n s v request_sized_def list_ex_iff Let_def)
qed

lemma parse_verifier_request_Inr_iff: "parse_verifier_request d = Inr q \<longleftrightarrow> request_ok q \<and> d = request_layout q"
proof
  assume q: "request_ok q \<and> d = request_layout q"
  then have "length (request_layout q) \<le> VERIFIER_MAX_REQUEST_LEN"
    by (simp add: request_ok_def request_layout_def request_header_def)
  moreover have "request_sized q" using q by (simp add: request_ok_def request_sized_def)
  ultimately show "parse_verifier_request d = Inr q"
    using q by (simp add: parse_verifier_request_of_layout request_ok_def)
qed (rule parse_verifier_request_sound)

definition request_of :: "authenticator_entry \<Rightarrow> byte \<Rightarrow> bytes \<Rightarrow> bytes \<Rightarrow> verifier_request" where
  "request_of auth operation digest payload =
     \<lparr>vr_algorithm_id = ae_algorithm_id auth, vr_slot = ae_slot auth, vr_operation = operation,
      vr_verifier_profile = hd (ae_aux auth), vr_authorization_digest = digest,
      vr_key_id = ae_key_id auth, vr_aux = ae_aux auth, vr_proof = payload\<rparr>"

lemma encode_request_eq:
  assumes "length (ae_key_id auth) = 32" and "ae_aux auth \<noteq> []" and "length (ae_aux auth) < 2 ^ 32"
    and "length payload \<le> VERIFIER_MAX_PROOF_LEN"
  shows "encode_request auth operation digest payload =
    (if 96 + length (ae_aux auth) + length payload > VERIFIER_MAX_REQUEST_LEN then Inl (Err LengthOverflow)
     else bind_r (parse_verifier_request (request_layout (request_of auth operation digest payload)))
       (\<lambda>_. Inr (request_layout (request_of auth operation digest payload))))"
  using assms
  by (simp add: encode_request_def checked_add_def rd_byte_def hd_conv_nth request_of_def request_layout_def
      request_header_def Let_def)

lemma encode_request_Inr_iff:
  assumes "ae_algorithm_id auth < 2 ^ 16" and "ae_slot auth < 2 ^ 16" and "length digest = 32"
    and "length (ae_aux auth) < 2 ^ 32"
  shows "encode_request auth operation digest payload = Inr r \<longleftrightarrow>
    ae_aux auth \<noteq> [] \<and> parse_verifier_request r = Inr (request_of auth operation digest payload)"
proof (cases "length (ae_key_id auth) = 32 \<and> ae_aux auth \<noteq> [] \<and> length payload \<le> VERIFIER_MAX_PROOF_LEN")
  case True
  let ?q = "request_of auth operation digest payload"
  have "request_sized ?q" using True assms by (simp add: request_sized_def request_of_def)
  moreover have "length (request_layout ?q) = 96 + length (ae_aux auth) + length payload"
    using True assms(3) by (simp add: request_layout_def request_header_def request_of_def)
  ultimately show ?thesis
    using True assms(4)
    by (auto simp: encode_request_eq parse_verifier_request_of_layout parse_verifier_request_Inr_iff result_simps
        request_ok_def request_sized_def request_of_def split: if_splits)
next
  case False
  then show ?thesis
    by (auto simp: encode_request_def parse_verifier_request_Inr_iff request_ok_def request_of_def)
qed

lemma parse_verifier_request_no_panic: "no_panic (parse_verifier_request d)"
  by (cases "96 \<le> length d") (simp_all add: parse_verifier_request_eq parse_verifier_request_short Let_def)

section \<open>Properties\<close>

text \<open>
  C8: the account lock's request writer and the verifiers' request reader are exact inverses.
  For an authenticator as the state parser gives it and a 32-byte digest, \<^verbatim>\<open>encode_request\<close>
  returns \<open>r\<close> exactly when the authenticator has auxiliary data and \<^verbatim>\<open>VerifierRequest::parse\<close> reads
  \<open>r\<close> back as the authenticator's algorithm, slot, key and auxiliary data with the given
  operation, digest and proof, and with the first auxiliary byte as the profile.
\<close>

theorem verifier_request_exact:
  assumes "entry_ok auth" and "length digest = 32"
  shows "(encode_request auth operation digest payload = Inr r) =
    (ae_aux auth \<noteq> [] \<and> parse_verifier_request r = Inr
       \<lparr>vr_algorithm_id = ae_algorithm_id auth, vr_slot = ae_slot auth, vr_operation = operation,
        vr_verifier_profile = hd (ae_aux auth), vr_authorization_digest = digest,
        vr_key_id = ae_key_id auth, vr_aux = ae_aux auth, vr_proof = payload\<rparr>)"
  using encode_request_Inr_iff [of auth digest operation payload r] assms
  by (simp add: entry_ok_def request_of_def)

definition sample_entry :: authenticator_entry where
  "sample_entry = \<lparr>ae_slot = 3, ae_algorithm_id = 1, ae_capabilities = 1, ae_weight = 1,
     ae_verifier_hash_type = 0, ae_verifier_abi = 1, ae_verifier_code_hash = replicate 32 9,
     ae_key_id = replicate 32 8, ae_aux = [1, 2]\<rparr>"

lemma sample_entry_ok: "entry_ok sample_entry" by (simp add: entry_ok_def sample_entry_def)

theorem verifier_request_exact_witness:
  "\<exists>r. encode_request sample_entry 1 (replicate 32 7) [5] = Inr r"
proof -
  let ?q = "request_of sample_entry 1 (replicate 32 7) [5]"
  have "parse_verifier_request (request_layout ?q) = Inr ?q"
    by (simp add: parse_verifier_request_Inr_iff request_ok_def request_of_def sample_entry_def)
  then show ?thesis
    using verifier_request_exact [OF sample_entry_ok, of "replicate 32 7" "1" "[5]" "request_layout ?q"]
    by (auto simp: request_of_def sample_entry_def)
qed

end
