(* ===== verification/LockScript.thy ===== *)
theory LockScript
  imports AccountLock Request
begin

unbundle bit_operations_syntax

text \<open>
  contracts/account-lock/src/main.rs, the lock script itself. The CKB-VM system calls are the
  record \<open>syscalls\<close>: a loading call takes the size of the buffer and gives the bytes it wrote or
  the error; the calls around a child process act on an arbitrary state \<open>'w\<close> of the machine. The
  CKB hash is the argument \<open>H\<close>; a hasher that is updated several times hashes the concatenation.
  A loop over \<^verbatim>\<open>0usize..\<close> is \<open>index_loop\<close>, which panics when the index overflows.
\<close>

section \<open>System calls\<close>

datatype source = Source_Input | Source_Output | Source_CellDep | Source_GroupInput

datatype cell_field = CellField_Type | CellField_TypeHash | CellField_DataHash

datatype sys_error =
    IndexOutOfBound
  | ItemMissing
  | LengthNotEnough nat
  | Encoding
  | InvalidFd
  | OtherEndClosed
  | Unknown nat

record 'w syscalls =
  sys_load_script :: "nat \<Rightarrow> sys_error + bytes"
  sys_load_tx_hash :: "nat \<Rightarrow> sys_error + bytes"
  sys_load_cell_data :: "nat \<Rightarrow> nat \<Rightarrow> source \<Rightarrow> sys_error + bytes"
  sys_load_witness :: "nat \<Rightarrow> nat \<Rightarrow> source \<Rightarrow> sys_error + bytes"
  sys_load_cell_by_field :: "nat \<Rightarrow> nat \<Rightarrow> source \<Rightarrow> cell_field \<Rightarrow> sys_error + bytes"
  sys_load_since :: "nat \<Rightarrow> nat \<Rightarrow> source \<Rightarrow> sys_error + bytes"
  sys_pipe :: "('w, sys_error, nat \<times> nat) io"
  sys_spawn :: "nat \<Rightarrow> source \<Rightarrow> nat \<Rightarrow> ('w, sys_error, nat) io"
  sys_close :: "nat \<Rightarrow> ('w, sys_error, unit) io"
  sys_write :: "nat \<Rightarrow> bytes \<Rightarrow> ('w, sys_error, nat) io"
  sys_wait :: "nat \<Rightarrow> ('w, sys_error, int) io"

datatype ('s, 'r) flow = Continue 's | Return 'r

function index_loop :: "(nat \<Rightarrow> 's \<Rightarrow> ('s, 'r rust) flow) \<Rightarrow> nat \<Rightarrow> 's \<Rightarrow> 'r rust" where
  "index_loop body i s =
     (if i < 2 ^ 64 then (case body i s of Continue s' \<Rightarrow> index_loop body (Suc i) s' | Return r \<Rightarrow> r)
      else Inl Panic)"
  by pat_completeness auto
termination by (relation "measure (\<lambda>(_, i, _). 2 ^ 64 - i)") auto

declare index_loop.simps [simp del]

section \<open>Loading\<close>

definition MAX_CELL_DATA :: nat where "MAX_CELL_DATA = ACCOUNT_STATE_MAX_LEN"
definition MAX_TYPE_SCRIPT :: nat where "MAX_TYPE_SCRIPT = 512"
definition MAX_SCRIPT :: nat where "MAX_SCRIPT = 512"

fun error_code :: "protocol_error \<Rightarrow> int" where
  "error_code InvalidArgs = 20"
| "error_code InvalidState = 21"
| "error_code InvalidWitness = 22"
| "error_code StateNotFound = 23"
| "error_code DuplicateState = 24"
| "error_code StateConsumedOnSpend = 25"
| "error_code InvalidTransition = 26"
| "error_code InvalidSequence = 27"
| "error_code ThresholdUnsatisfied = 28"
| "error_code InvalidCapability = 29"
| "error_code InvalidVerifierRef = 30"
| "error_code VerifierFailure = 31"
| "error_code UnsupportedVersion = 32"
| "error_code UnsupportedAlgorithm = 33"
| "error_code RecoveryLocked = 34"
| "error_code InvalidRequest = 35"
| "error_code InvalidProof = 36"
| "error_code InvalidOperation = 37"
| "error_code UnsatisfiableThreshold = 38"
| "error_code LengthOverflow = 39"

definition load_bounded :: "nat \<Rightarrow> (nat \<Rightarrow> sys_error + bytes) \<Rightarrow> bytes rust" where
  "load_bounded cap loader = (case loader 256 of
     Inr b \<Rightarrow> Inr b
   | Inl (LengthNotEnough actual) \<Rightarrow>
       if actual \<le> cap
       then (case loader actual of
           Inl _ \<Rightarrow> Inl (Err InvalidState)
         | Inr b \<Rightarrow> if length b \<noteq> actual then Inl (Err InvalidState) else Inr b)
       else Inl (Err InvalidState)
   | Inl _ \<Rightarrow> Inl (Err InvalidState))"

definition load_cell_data :: "'w syscalls \<Rightarrow> nat \<Rightarrow> source \<Rightarrow> bytes rust" where
  "load_cell_data S index src = load_bounded MAX_CELL_DATA (\<lambda>n. sys_load_cell_data S n index src)"

definition load_witness :: "'w syscalls \<Rightarrow> nat \<Rightarrow> source \<Rightarrow> bytes rust" where
  "load_witness S index src =
     err_to InvalidWitness (load_bounded MAX_WITNESS (\<lambda>n. sys_load_witness S n index src))"

definition script_args :: "bytes \<Rightarrow> bytes rust" where
  "script_args script =
     bind_r (err_to InvalidArgs (table3_fields script)) (\<lambda>(f0, f1, f2).
     err_to InvalidArgs (molecule_bytes f2))"

definition load_current_script :: "'w syscalls \<Rightarrow> bytes rust" where
  "load_current_script S = err_to InvalidArgs (load_bounded MAX_SCRIPT (sys_load_script S))"

definition load_type_script :: "'w syscalls \<Rightarrow> nat \<Rightarrow> source \<Rightarrow> bytes option rust" where
  "load_type_script S index src =
     (case load_bounded MAX_TYPE_SCRIPT (\<lambda>n. sys_load_cell_by_field S n index src CellField_Type) of
        Inr script \<Rightarrow> Inr (Some script)
      | Inl _ \<Rightarrow>
          (case sys_load_cell_by_field S 1 index src CellField_Type of
             Inl ItemMissing \<Rightarrow> Inr None
           | _ \<Rightarrow> Inl (Err InvalidState)))"

definition cell_type_hash :: "'w syscalls \<Rightarrow> nat \<Rightarrow> source \<Rightarrow> sys_error + bytes option" where
  "cell_type_hash S index src = (case sys_load_cell_by_field S 32 index src CellField_TypeHash of
     Inr hash \<Rightarrow> if length hash = 32 then Inr (Some hash) else Inl Encoding
   | Inl ItemMissing \<Rightarrow> Inr None
   | Inl e \<Rightarrow> Inl e)"

definition matching_body ::
  "'w syscalls \<Rightarrow> source \<Rightarrow> bytes \<Rightarrow> nat \<Rightarrow> nat list \<Rightarrow> (nat list, nat list rust) flow"
where
  "matching_body S src account_id index matches = (case cell_type_hash S index src of
     Inr (Some hash) \<Rightarrow> Continue (if hash = account_id then matches @ [index] else matches)
   | Inr None \<Rightarrow> Continue matches
   | Inl IndexOutOfBound \<Rightarrow> Return (Inr matches)
   | Inl _ \<Rightarrow> Return (Inl (Err InvalidState)))"

definition matching_type_indices :: "'w syscalls \<Rightarrow> source \<Rightarrow> bytes \<Rightarrow> nat list rust" where
  "matching_type_indices S src account_id = index_loop (matching_body S src account_id) 0 []"

section \<open>State resolution and transitions\<close>

record resolved_state =
  rs_current :: bytes
  rs_successor :: "bytes option"
  rs_state_input :: "nat option"

definition resolve_spend :: "'w syscalls \<Rightarrow> bytes \<Rightarrow> nat list \<Rightarrow> resolved_state rust" where
  "resolve_spend S account_id ins =
     (if ins \<noteq> [] then Inl (Err StateConsumedOnSpend) else
      bind_r (matching_type_indices S Source_CellDep account_id) (\<lambda>deps.
      case deps of
        [] \<Rightarrow> Inl (Err StateNotFound)
      | [dep] \<Rightarrow>
          bind_r (load_cell_data S dep Source_CellDep) (\<lambda>current.
          Inr \<lparr>rs_current = current, rs_successor = None, rs_state_input = None\<rparr>)
      | _ \<Rightarrow> Inl (Err DuplicateState)))"

definition resolve_update :: "'w syscalls \<Rightarrow> bytes \<Rightarrow> nat list \<Rightarrow> resolved_state rust" where
  "resolve_update S account_id ins = (case ins of
     [] \<Rightarrow> Inl (Err StateNotFound)
   | [input] \<Rightarrow>
       bind_r (matching_type_indices S Source_Output account_id) (\<lambda>outs.
       case outs of
         [output] \<Rightarrow>
           bind_r (load_type_script S input Source_Input) (\<lambda>it.
           case it of None \<Rightarrow> Inl (Err InvalidTransition) | Some input_type \<Rightarrow>
           bind_r (load_type_script S output Source_Output) (\<lambda>ot.
           case ot of None \<Rightarrow> Inl (Err InvalidTransition) | Some output_type \<Rightarrow>
           if input_type \<noteq> output_type then Inl (Err InvalidTransition) else
           bind_r (load_cell_data S input Source_Input) (\<lambda>current.
           bind_r (load_cell_data S output Source_Output) (\<lambda>successor.
           Inr \<lparr>rs_current = current, rs_successor = Some successor, rs_state_input = Some input\<rparr>))))
       | _ \<Rightarrow> Inl (Err InvalidTransition))
   | _ \<Rightarrow> Inl (Err DuplicateState))"

definition resolve_state :: "'w syscalls \<Rightarrow> byte \<Rightarrow> bytes \<Rightarrow> resolved_state rust" where
  "resolve_state S op account_id =
     bind_r (matching_type_indices S Source_Input account_id) (\<lambda>ins.
     if op = OP_SPEND then resolve_spend S account_id ins
     else if op = OP_ROTATE \<or> op = OP_RECOVERY then resolve_update S account_id ins
     else Inl (Err InvalidOperation))"

definition validate_transition :: "'w syscalls \<Rightarrow> byte \<Rightarrow> resolved_state \<Rightarrow> state_header \<Rightarrow> unit rust" where
  "validate_transition S op resolved current_header =
     (if op = OP_SPEND then Inr () else
      case rs_successor resolved of None \<Rightarrow> Inl (Err InvalidTransition) | Some successor \<Rightarrow>
      bind_r (validate_state successor) (\<lambda>(next_header, _).
      case checked_add (sh_sequence current_header) 1 of
        None \<Rightarrow> Inl (Err InvalidSequence)
      | Some expected \<Rightarrow>
          if sh_sequence next_header \<noteq> expected then Inl (Err InvalidSequence)
          else if op = OP_RECOVERY
          then if sh_flags current_header AND STATE_FLAG_RECOVERY_ENABLED = 0 then Inl (Err InvalidCapability)
               else (case rs_state_input resolved of
                   None \<Rightarrow> Inl (Err InvalidTransition)
                 | Some index \<Rightarrow>
                     (case sys_load_since S 8 index Source_Input of
                        Inl _ \<Rightarrow> Inl (Err RecoveryLocked)
                      | Inr sv \<Rightarrow>
                          if of_le sv < sh_recovery_since current_header
                          then Inl (Err RecoveryLocked) else Inr ()))
          else Inr ()))"

section \<open>Sighash\<close>

definition input_count_body :: "'w syscalls \<Rightarrow> nat \<Rightarrow> unit \<Rightarrow> (unit, nat rust) flow" where
  "input_count_body S index u = (case sys_load_since S 8 index Source_Input of
     Inr _ \<Rightarrow> Continue ()
   | Inl IndexOutOfBound \<Rightarrow> Return (Inr index)
   | Inl _ \<Rightarrow> Return (Inl (Err InvalidWitness)))"

definition input_count :: "'w syscalls \<Rightarrow> nat rust" where
  "input_count S = index_loop (input_count_body S) 0 ()"

text \<open>One turn of the two loops over further witnesses: probe, then load and hash.\<close>

definition hash_body :: "'w syscalls \<Rightarrow> source \<Rightarrow> nat \<Rightarrow> bytes \<Rightarrow> (bytes, bytes rust) flow" where
  "hash_body S src index hashed =
     (let load = (case load_witness S index src of
            Inl e \<Rightarrow> Return (Inl e)
          | Inr witness \<Rightarrow> Continue (hashed @ hash_witness witness))
      in case sys_load_witness S 1 index src of
           Inr _ \<Rightarrow> load
         | Inl (LengthNotEnough _) \<Rightarrow> load
         | Inl IndexOutOfBound \<Rightarrow> Return (Inr hashed)
         | Inl _ \<Rightarrow> Return (Inl (Err InvalidWitness)))"

definition canonical_group_sighash :: "'w syscalls \<Rightarrow> (bytes \<Rightarrow> bytes) \<Rightarrow> bytes rust" where
  "canonical_group_sighash S H =
     bind_r (load_witness S 0 Source_GroupInput) (\<lambda>first.
     bind_r (canonical_witness first) (\<lambda>canonical.
     case sys_load_tx_hash S 32 of
       Inl _ \<Rightarrow> Inl (Err InvalidWitness)
     | Inr tx_hash \<Rightarrow>
         if length tx_hash \<noteq> 32 then Inl (Err InvalidWitness) else
         bind_r (index_loop (hash_body S Source_GroupInput) 1 (tx_hash @ hash_witness canonical)) (\<lambda>hashed.
         bind_r (input_count S) (\<lambda>ins.
         bind_r (index_loop (hash_body S Source_Input) ins hashed) (\<lambda>all_hashed.
         Inr (H all_hashed))))))"

section \<open>Authorization\<close>

definition find_authenticator :: "bytes \<Rightarrow> state_header \<Rightarrow> nat \<Rightarrow> authenticator_entry rust" where
  "find_authenticator state header wanted =
     bind_r (parse_authenticators state header
       (\<lambda>found entry. Inr (if ae_slot entry = wanted then Some entry else found)) None) (\<lambda>found.
     case found of None \<Rightarrow> Inl (Err InvalidWitness) | Some entry \<Rightarrow> Inr entry)"

definition resolve_body ::
  "'w syscalls \<Rightarrow> cell_field \<Rightarrow> bytes \<Rightarrow> nat \<Rightarrow> nat option \<Rightarrow> (nat option, nat option rust) flow"
where
  "resolve_body S field code_hash index found =
     (case sys_load_cell_by_field S 32 index Source_CellDep field of
        Inr hash \<Rightarrow>
          if length hash = 32 \<and> hash = code_hash
          then if found \<noteq> None then Return (Inl (Err InvalidVerifierRef)) else Continue (Some index)
          else Continue found
      | Inl ItemMissing \<Rightarrow> Continue found
      | Inl IndexOutOfBound \<Rightarrow> Return (Inr found)
      | Inl _ \<Rightarrow> Return (Inl (Err InvalidVerifierRef)))"

definition resolve_verifier :: "'w syscalls \<Rightarrow> authenticator_entry \<Rightarrow> nat rust" where
  "resolve_verifier S auth =
     bind_r (index_loop (resolve_body S
         (if ae_verifier_hash_type auth = 0 then CellField_DataHash else CellField_TypeHash)
         (ae_verifier_code_hash auth)) 0 None) (\<lambda>found.
     case found of None \<Rightarrow> Inl (Err InvalidVerifierRef) | Some index \<Rightarrow> Inr index)"

definition sys_io :: "('w, sys_error, 'a) io \<Rightarrow> ('w, rust_error, 'a) io" where
  "sys_io m = (\<lambda>w. case m w of (r, w') \<Rightarrow> (map_err (\<lambda>_. Err VerifierFailure) r, w'))"

function write_all :: "'w syscalls \<Rightarrow> nat \<Rightarrow> bytes \<Rightarrow> nat \<Rightarrow> ('w, rust_error, unit) io" where
  "write_all S fd request offset w =
     (if offset < length request
      then (case sys_write S fd (drop offset request) w of
          (Inl _, w') \<Rightarrow> (Inl (Err VerifierFailure), w')
        | (Inr written, w') \<Rightarrow>
            if written = 0 then (Inl (Err VerifierFailure), w')
            else (case checked_add offset written of
                None \<Rightarrow> (Inl (Err LengthOverflow), w')
              | Some offset' \<Rightarrow> write_all S fd request offset' w'))
      else (Inr (), w))"
  by pat_completeness auto
termination
  by (relation "measure (\<lambda>(S, fd, request, offset, w). length request - offset)")
     (auto simp: checked_add_def split: if_splits)

declare write_all.simps [simp del]

definition close_reader :: "'w syscalls \<Rightarrow> nat \<Rightarrow> ('w, rust_error, unit) io" where
  "close_reader S fd w = (case sys_close S fd w of
     (Inr _, w') \<Rightarrow> (Inr (), w')
   | (Inl InvalidFd, w') \<Rightarrow> (Inr (), w')
   | (Inl _, w') \<Rightarrow> (Inl (Err VerifierFailure), w'))"

definition spawn_verifier :: "'w syscalls \<Rightarrow> nat \<Rightarrow> bytes \<Rightarrow> ('w, rust_error, bool) io" where
  "spawn_verifier S index request =
     bind_io (sys_io (sys_pipe S)) (\<lambda>(read_fd, write_fd).
     bind_io (sys_io (sys_spawn S index Source_CellDep read_fd)) (\<lambda>pid.
     bind_io (close_reader S read_fd) (\<lambda>_.
     bind_io (write_all S write_fd request 0) (\<lambda>_.
     bind_io (sys_io (sys_close S write_fd)) (\<lambda>_.
     bind_io (sys_io (sys_wait S pid)) (\<lambda>exit_code.
     return_io (exit_code = 0)))))))"

text \<open>The callback that \<^verbatim>\<open>run\<close> passes to \<^verbatim>\<open>parse_proofs\<close>, on the machine's state and the weight.\<close>

definition check_proof ::
  "'w syscalls \<Rightarrow> bytes \<Rightarrow> state_header \<Rightarrow> byte \<Rightarrow> 16 word \<Rightarrow> bytes \<Rightarrow> 'w \<times> nat \<Rightarrow> nat \<Rightarrow> bytes \<Rightarrow> ('w \<times> nat) rust"
where
  "check_proof S current header op capability digest = (\<lambda>(w, weight) wanted payload.
     bind_r (find_authenticator current header wanted) (\<lambda>auth.
     if ae_capabilities auth AND capability = 0 then Inl (Err InvalidCapability) else
     bind_r (resolve_verifier S auth) (\<lambda>verifier_index.
     bind_r (encode_request auth op digest payload) (\<lambda>request.
     case spawn_verifier S verifier_index request w of
       (Inl e, w') \<Rightarrow> Inl e
     | (Inr accepted, w') \<Rightarrow>
         if accepted
         then if weight + ae_weight auth < 2 ^ 32 then Inr (w', weight + ae_weight auth)
              else Inl (Err LengthOverflow)
         else Inr (w', weight)))))"

definition threshold_for_operation :: "byte \<Rightarrow> state_header \<Rightarrow> nat rust" where
  "threshold_for_operation op header =
     (if op = OP_SPEND then Inr (sh_spend_threshold header)
      else if op = OP_ROTATE then Inr (sh_rotate_threshold header)
      else if op = OP_RECOVERY then Inr (sh_recovery_threshold header)
      else Inl (Err InvalidOperation))"

definition run :: "'w syscalls \<Rightarrow> (bytes \<Rightarrow> bytes) \<Rightarrow> 'w \<Rightarrow> unit rust" where
  "run S H w =
     bind_r (load_current_script S) (\<lambda>script.
     bind_r (bind_r (script_args script) parse_lock_args) (\<lambda>lock_args.
     bind_r (load_witness S 0 Source_GroupInput) (\<lambda>first_witness.
     bind_r (witness_lock first_witness) (\<lambda>lk.
     bind_r (parse_witness_header lk) (\<lambda>wh.
     if wh_proof_count wh > MAX_AUTHENTICATORS then Inl (Err InvalidWitness) else
     bind_r (resolve_state S (wh_operation wh) (la_account_id lock_args)) (\<lambda>resolved.
     bind_r (validate_state (rs_current resolved)) (\<lambda>(state_header, _).
     if wh_state_sequence wh \<noteq> sh_sequence state_header then Inl (Err InvalidSequence) else
     bind_r (validate_transition S (wh_operation wh) resolved state_header) (\<lambda>_.
     bind_r (canonical_group_sighash S H) (\<lambda>sighash.
     let digest = authorization_digest H (wh_operation wh) (la_account_id lock_args)
           (sh_sequence state_header) (rs_current resolved) sighash in
     bind_r (capability_for_operation (wh_operation wh)) (\<lambda>capability.
     bind_r (threshold_for_operation (wh_operation wh) state_header) (\<lambda>threshold.
     bind_r (parse_proofs lk wh
       (check_proof S (rs_current resolved) state_header (wh_operation wh) capability digest) (w, 0))
       (\<lambda>(_, weight).
     if weight < threshold then Inl (Err ThresholdUnsatisfied) else Inr ()))))))))))))"

text \<open>The exit code; \<open>None\<close> is a panic.\<close>

definition program_entry :: "'w syscalls \<Rightarrow> (bytes \<Rightarrow> bytes) \<Rightarrow> 'w \<Rightarrow> int option" where
  "program_entry S H w = (case run S H w of
     Inr _ \<Rightarrow> Some 0
   | Inl (Err e) \<Rightarrow> Some (error_code e)
   | Inl Panic \<Rightarrow> None)"

end
