(* ===== verification/LockProps.thy ===== *)
theory LockProps
  imports LockScript
begin

unbundle bit_operations_syntax

text \<open>
  Correctness of the lock script of contracts/account-lock/src/main.rs on a transaction. The
  transaction is the record \<open>chain_tx\<close>; \<open>vm_serves\<close> states what the loading system calls give for
  it, \<open>child_laws\<close> what pipes and child processes do.
\<close>

section \<open>The transaction\<close>

record chain_cell =
  cc_data :: bytes
  cc_type :: "bytes option"

record chain_tx =
  ct_hash :: bytes
  ct_script :: bytes
  ct_inputs :: "(nat \<times> chain_cell) list"
  ct_outputs :: "chain_cell list"
  ct_deps :: "chain_cell list"
  ct_witnesses :: "bytes list"
  ct_group :: "nat list"

text \<open>A loading call with a buffer of \<open>n\<close> bytes.\<close>

definition served :: "nat \<Rightarrow> sys_error + bytes \<Rightarrow> sys_error + bytes" where
  "served n x = bind_r x (\<lambda>b. if length b \<le> n then Inr b else Inl (LengthNotEnough (length b)))"

definition item :: "'a list \<Rightarrow> nat \<Rightarrow> sys_error + 'a" where
  "item xs i = (if i < length xs then Inr (xs ! i) else Inl IndexOutOfBound)"

fun cells_of :: "chain_tx \<Rightarrow> source \<Rightarrow> chain_cell list" where
  "cells_of T Source_Input = map snd (ct_inputs T)"
| "cells_of T Source_Output = ct_outputs T"
| "cells_of T Source_CellDep = ct_deps T"
| "cells_of T Source_GroupInput = map (\<lambda>i. snd (ct_inputs T ! i)) (ct_group T)"

fun field_of :: "(bytes \<Rightarrow> bytes) \<Rightarrow> cell_field \<Rightarrow> chain_cell \<Rightarrow> sys_error + bytes" where
  "field_of H CellField_Type c = (case cc_type c of None \<Rightarrow> Inl ItemMissing | Some s \<Rightarrow> Inr s)"
| "field_of H CellField_TypeHash c = (case cc_type c of None \<Rightarrow> Inl ItemMissing | Some s \<Rightarrow> Inr (H s))"
| "field_of H CellField_DataHash c = Inr (H (cc_data c))"

definition witness_at :: "chain_tx \<Rightarrow> source \<Rightarrow> nat \<Rightarrow> sys_error + bytes" where
  "witness_at T src i = (case src of
     Source_GroupInput \<Rightarrow> bind_r (item (ct_group T) i) (item (ct_witnesses T))
   | _ \<Rightarrow> item (ct_witnesses T) i)"

definition vm_serves :: "(bytes \<Rightarrow> bytes) \<Rightarrow> 'w syscalls \<Rightarrow> chain_tx \<Rightarrow> bool" where
  "vm_serves H S T \<longleftrightarrow>
     (\<forall>n. sys_load_script S n = served n (Inr (ct_script T)))
     \<and> (\<forall>n. sys_load_tx_hash S n = served n (Inr (ct_hash T)))
     \<and> (\<forall>n i src. sys_load_cell_data S n i src = served n (bind_r (item (cells_of T src) i) (\<lambda>c. Inr (cc_data c))))
     \<and> (\<forall>n i src. sys_load_witness S n i src = served n (witness_at T src i))
     \<and> (\<forall>n i src f. sys_load_cell_by_field S n i src f = served n (bind_r (item (cells_of T src) i) (field_of H f)))
     \<and> (\<forall>n i. sys_load_since S n i Source_Input =
          served n (bind_r (item (ct_inputs T) i) (\<lambda>(since, c). Inr (le_bytes 8 since))))"

text \<open>The sizes of a real transaction: every index is a \<^verbatim>\<open>usize\<close>, a \<^verbatim>\<open>since\<close> has 64 bits.\<close>

definition tx_sized :: "chain_tx \<Rightarrow> bool" where
  "tx_sized T \<longleftrightarrow>
     length (ct_hash T) = 32 \<and> length (ct_inputs T) < 2 ^ 64 \<and> length (ct_outputs T) < 2 ^ 64
     \<and> length (ct_deps T) < 2 ^ 64 \<and> length (ct_witnesses T) < 2 ^ 64 \<and> length (ct_group T) < 2 ^ 64
     \<and> list_all (\<lambda>(since, c). since < 2 ^ 64) (ct_inputs T)"

lemma served_simps [simp]:
  "served n (Inl e) = Inl e"
  "length b \<le> n \<Longrightarrow> served n (Inr b) = Inr b"
  "n < length b \<Longrightarrow> served n (Inr b) = Inl (LengthNotEnough (length b))"
  by (simp_all add: served_def)

lemma load_bounded_served:
  assumes "256 \<le> cap" and "\<And>k. x \<noteq> Inl (LengthNotEnough k)"
  shows "load_bounded cap (\<lambda>n. served n x) = (case x of
      Inr b \<Rightarrow> if length b \<le> cap then Inr b else Inl (Err InvalidState)
    | Inl _ \<Rightarrow> Inl (Err InvalidState))"
proof (cases x)
  case (Inl e)
  then show ?thesis using assms(2) by (cases e) (auto simp: load_bounded_def)
next
  case (Inr b)
  then show ?thesis using assms(1)
    by (cases "length b \<le> 256") (auto simp: load_bounded_def)
qed

lemma item_simps:
  "i < length xs \<Longrightarrow> item xs i = Inr (xs ! i)" "\<not> i < length xs \<Longrightarrow> item xs i = Inl IndexOutOfBound"
  by (simp_all add: item_def)

section \<open>Loops\<close>

lemma index_loop_return:
  "i < 2 ^ 64 \<Longrightarrow> body i s = Return r \<Longrightarrow> index_loop body i s = r"
  by (subst index_loop.simps) simp

lemma index_loop_continue:
  "i < 2 ^ 64 \<Longrightarrow> body i s = Continue s' \<Longrightarrow> index_loop body i s = index_loop body (Suc i) s'"
  by (subst index_loop.simps) simp

text \<open>A loop that runs through the indices below \<open>n\<close> and stops at \<open>n\<close>.\<close>

lemma index_loop_scan:
  assumes "\<And>j. i \<le> j \<Longrightarrow> j < n \<Longrightarrow> body j (g j) = Continue (g (Suc j))" and "body n (g n) = Return r"
    and "i \<le> n" and "n < 2 ^ 64"
  shows "index_loop body i (g i) = r"
  using assms(1,3)
proof (induction "n - i" arbitrary: i)
  case 0
  then show ?case using assms(2,4) by (simp add: index_loop_return)
next
  case (Suc k)
  then have "body i (g i) = Continue (g (Suc i))" by simp
  moreover have "index_loop body (Suc i) (g (Suc i)) = r" using Suc by (intro Suc.hyps) simp_all
  ultimately show ?case using Suc.prems assms(4) Suc.hyps(2) by (simp add: index_loop_continue)
qed

definition matches :: "(bytes \<Rightarrow> bytes) \<Rightarrow> cell_field \<Rightarrow> bytes \<Rightarrow> chain_cell list \<Rightarrow> nat list" where
  "matches H f h cs = filter (\<lambda>i. field_of H f (cs ! i) = Inr h) [0..<length cs]"

lemma matches_unique:
  "matches H f h cs = [i] \<longleftrightarrow>
     i < length cs \<and> field_of H f (cs ! i) = Inr h \<and> (\<forall>j < length cs. field_of H f (cs ! j) = Inr h \<longrightarrow> j = i)"
proof
  assume m: "matches H f h cs = [i]"
  have "set (matches H f h cs) = {j. j < length cs \<and> field_of H f (cs ! j) = Inr h}"
    by (auto simp: matches_def)
  with m show "i < length cs \<and> field_of H f (cs ! i) = Inr h \<and> (\<forall>j < length cs. field_of H f (cs ! j) = Inr h \<longrightarrow> j = i)"
    by auto
next
  assume r: "i < length cs \<and> field_of H f (cs ! i) = Inr h \<and> (\<forall>j < length cs. field_of H f (cs ! j) = Inr h \<longrightarrow> j = i)"
  then have "set (matches H f h cs) = {i}" by (auto simp: matches_def)
  moreover have "distinct (matches H f h cs)" by (simp add: matches_def)
  ultimately show "matches H f h cs = [i]"
    by (metis distinct_card card.empty card_insert_disjoint empty_iff finite.emptyI length_0_conv length_Suc_conv list.set_intros(1) singletonD One_nat_def)
qed

lemma field_type_hash: "field_of H CellField_TypeHash c = Inr h \<longleftrightarrow> map_option H (cc_type c) = Some h"
  by (cases "cc_type c") auto

lemma cell_type_hash_served:
  assumes "vm_serves H S T" and "\<And>d. length (H d) = 32"
  shows "cell_type_hash S i src = bind_r (item (cells_of T src) i) (\<lambda>c. Inr (map_option H (cc_type c)))"
  using assms
  by (cases "i < length (cells_of T src)")
     (auto simp: cell_type_hash_def vm_serves_def item_simps split: option.split)

lemma length_cells: "tx_sized T \<Longrightarrow> length (cells_of T src) < 2 ^ 64"
  by (cases src) (simp_all add: tx_sized_def)

lemma matching_type_indices_served:
  assumes vm: "vm_serves H S T" and H: "\<And>d. length (H d) = 32" and T: "tx_sized T"
  shows "matching_type_indices S src aid = Inr (matches H CellField_TypeHash aid (cells_of T src))"
proof -
  let ?cs = "cells_of T src"
  let ?g = "\<lambda>j. filter (\<lambda>i. field_of H CellField_TypeHash (?cs ! i) = Inr aid) [0..<j]"
  have "index_loop (matching_body S src aid) 0 (?g 0) = Inr (?g (length ?cs))"
  proof (rule index_loop_scan [where g = ?g and n = "length ?cs"])
    fix j assume "j < length ?cs"
    then show "matching_body S src aid j (?g j) = Continue (?g (Suc j))"
      by (simp add: matching_body_def cell_type_hash_served [OF vm H] item_simps field_type_hash split: option.split)
  next
    show "matching_body S src aid (length ?cs) (?g (length ?cs)) = Return (Inr (?g (length ?cs)))"
      by (simp add: matching_body_def cell_type_hash_served [OF vm H] item_simps)
  qed (use length_cells [OF T] in simp_all)
  then show ?thesis by (simp add: matching_type_indices_def matches_def)
qed

lemma input_count_served:
  assumes "vm_serves H S T" and "tx_sized T"
  shows "input_count S = Inr (length (ct_inputs T))"
proof -
  have "index_loop (input_count_body S) 0 ((\<lambda>_. ()) 0) = Inr (length (ct_inputs T))"
    by (rule index_loop_scan [where n = "length (ct_inputs T)"])
       (use assms in \<open>simp_all add: input_count_body_def vm_serves_def item_simps tx_sized_def split: prod.split\<close>)
  then show ?thesis by (simp add: input_count_def)
qed

lemma resolve_loop:
  assumes vm: "vm_serves H S T" and H: "\<And>d. length (H d) = 32" and T: "tx_sized T"
    and f: "f \<noteq> CellField_Type" and i: "i \<le> length (ct_deps T)"
  shows "index_loop (resolve_body S f h) i found =
    (case (case found of None \<Rightarrow> [] | Some x \<Rightarrow> [x])
        @ filter (\<lambda>i. field_of H f (ct_deps T ! i) = Inr h) [i..<length (ct_deps T)] of
       [] \<Rightarrow> Inr None | [x] \<Rightarrow> Inr (Some x) | _ \<Rightarrow> Inl (Err InvalidVerifierRef))"
  using i
proof (induction "length (ct_deps T) - i" arbitrary: i found)
  case 0
  then have "resolve_body S f h i found = Return (Inr found)"
    using vm by (simp add: resolve_body_def vm_serves_def item_simps)
  with 0 T show ?case by (simp add: index_loop_return tx_sized_def split: option.split)
next
  case (Suc k)
  let ?c = "ct_deps T ! i"
  have i: "i < length (ct_deps T)" using Suc.hyps(2) by simp
  with T have i64: "i < 2 ^ 64" by (simp add: tx_sized_def)
  have sys: "sys_load_cell_by_field S 32 i Source_CellDep f = field_of H f ?c"
    using vm i f H by (cases f) (simp_all add: vm_serves_def item_simps split: option.split)
  have IH: "index_loop (resolve_body S f h) (Suc i) found =
    (case (case found of None \<Rightarrow> [] | Some x \<Rightarrow> [x])
        @ filter (\<lambda>i. field_of H f (ct_deps T ! i) = Inr h) [Suc i..<length (ct_deps T)] of
       [] \<Rightarrow> Inr None | [x] \<Rightarrow> Inr (Some x) | _ \<Rightarrow> Inl (Err InvalidVerifierRef))" for found
    using Suc by (intro Suc.hyps) simp_all
  have upt: "[i..<length (ct_deps T)] = i # [Suc i..<length (ct_deps T)]" using i by (simp add: upt_rec)
  show ?case
  proof (cases "field_of H f ?c = Inr h")
    case True
    have h: "length h = 32" using True H f by (cases f) (auto split: option.splits)
    show ?thesis
      by (cases found)
         (use True h i64 sys in \<open>simp_all add: upt IH index_loop_return index_loop_continue resolve_body_def\<close>)
  next
    case False
    have "resolve_body S f h i found = Continue found"
      using False sys f by (cases f) (auto simp: resolve_body_def split: option.splits)
    then show ?thesis using False i64 by (simp add: upt IH index_loop_continue)
  qed
qed

definition verifier_field :: "authenticator_entry \<Rightarrow> cell_field" where
  "verifier_field e = (if ae_verifier_hash_type e = 0 then CellField_DataHash else CellField_TypeHash)"

lemma resolve_verifier_served:
  assumes vm: "vm_serves H S T" and "\<And>d. length (H d) = 32" and "tx_sized T"
  shows "resolve_verifier S e = (case matches H (verifier_field e) (ae_verifier_code_hash e) (ct_deps T) of
      [i] \<Rightarrow> Inr i | _ \<Rightarrow> Inl (Err InvalidVerifierRef))"
proof -
  have "index_loop (resolve_body S (verifier_field e) (ae_verifier_code_hash e)) 0 None =
    (case matches H (verifier_field e) (ae_verifier_code_hash e) (ct_deps T) of
       [] \<Rightarrow> Inr None | [x] \<Rightarrow> Inr (Some x) | _ \<Rightarrow> Inl (Err InvalidVerifierRef))"
    using resolve_loop [OF assms, of "verifier_field e" 0 "ae_verifier_code_hash e" None]
    by (simp add: matches_def verifier_field_def)
  then show ?thesis
    by (simp add: resolve_verifier_def verifier_field_def split: list.split)
qed

section \<open>Loads and the sighash\<close>

lemma not_length_error:
  "item xs i \<noteq> Inl (LengthNotEnough k)" "witness_at T src i \<noteq> Inl (LengthNotEnough k)"
  "bind_r (item ys j) (\<lambda>c. Inr (cc_data c)) \<noteq> Inl (LengthNotEnough k)"
  "bind_r (item ys j) (field_of H f) \<noteq> Inl (LengthNotEnough k)"
  by (auto simp: item_def witness_at_def result_simps split: source.split cell_field.split)
     (cases f; auto split: option.splits)

lemma load_cell_data_served:
  assumes "vm_serves H S T"
  shows "load_cell_data S i src = Inr d \<longleftrightarrow>
    i < length (cells_of T src) \<and> d = cc_data (cells_of T src ! i) \<and> length d \<le> MAX_CELL_DATA"
  using assms load_bounded_served [of MAX_CELL_DATA, OF _ not_length_error(3)]
  by (auto simp: load_cell_data_def vm_serves_def MAX_CELL_DATA_def item_def)

lemma load_witness_served:
  assumes "vm_serves H S T"
  shows "load_witness S i src = (case witness_at T src i of
      Inr b \<Rightarrow> env_load_witness (Some b) | Inl _ \<Rightarrow> Inl (Err InvalidWitness))"
  using assms load_bounded_served [of MAX_WITNESS, OF _ not_length_error(2)]
  by (auto simp: load_witness_def vm_serves_def MAX_WITNESS_def env_load_witness_def err_to_def split: sum.split)

lemma load_script_served:
  assumes "vm_serves H S T"
  shows "load_current_script S = Inr s \<longleftrightarrow> s = ct_script T \<and> length s \<le> MAX_SCRIPT"
proof -
  have "sys_load_script S = (\<lambda>n. served n (Inr (ct_script T)))"
    using assms by (simp add: vm_serves_def fun_eq_iff)
  then show ?thesis
    using load_bounded_served [of MAX_SCRIPT "Inr (ct_script T)"]
    by (auto simp: load_current_script_def MAX_SCRIPT_def result_simps)
qed

lemma load_type_script_served:
  assumes "vm_serves H S T"
  shows "load_type_script S i src = Inr (Some s) \<longleftrightarrow>
    i < length (cells_of T src) \<and> cc_type (cells_of T src ! i) = Some s \<and> length s \<le> MAX_TYPE_SCRIPT"
  using assms load_bounded_served [of MAX_TYPE_SCRIPT, OF _ not_length_error(4)]
  by (auto simp: load_type_script_def vm_serves_def MAX_TYPE_SCRIPT_def item_def
      split: option.splits sum.splits sys_error.splits if_splits)

text \<open>The witnesses of the script group, up to the first input that has none.\<close>

definition group_witnesses :: "chain_tx \<Rightarrow> bytes list" where
  "group_witnesses T = map ((!) (ct_witnesses T)) (takeWhile (\<lambda>k. k < length (ct_witnesses T)) (ct_group T))"

definition env_of :: "chain_tx \<Rightarrow> script_env" where
  "env_of T = \<lparr>env_txHash = ct_hash T, env_groupWitnesses = group_witnesses T,
     env_extraWitnesses = drop (length (ct_inputs T)) (ct_witnesses T)\<rparr>"

lemma witness_at_group:
  assumes "i \<le> length (group_witnesses T)"
  shows "witness_at T Source_GroupInput i = item (group_witnesses T) i"
proof (cases "i < length (group_witnesses T)")
  case True
  let ?g = "takeWhile (\<lambda>k. k < length (ct_witnesses T)) (ct_group T)"
  have i: "i < length ?g" using True by (simp add: group_witnesses_def)
  have "ct_group T ! i = ?g ! i" using i by (simp add: takeWhile_nth)
  moreover have "?g ! i < length (ct_witnesses T)" using i nth_mem set_takeWhileD by fastforce
  moreover have "i < length (ct_group T)" using i length_takeWhile_le order_less_le_trans by blast
  ultimately show ?thesis
    using i True by (simp add: witness_at_def item_def group_witnesses_def)
next
  case False
  let ?g = "takeWhile (\<lambda>k. k < length (ct_witnesses T)) (ct_group T)"
  have i: "i = length ?g" using False assms by (simp add: group_witnesses_def)
  show ?thesis
  proof (cases "i < length (ct_group T)")
    case True
    then have "\<not> ct_group T ! i < length (ct_witnesses T)"
      using i nth_length_takeWhile by blast
    with True i False show ?thesis by (simp add: witness_at_def item_def)
  qed (use False in \<open>simp add: witness_at_def item_def\<close>)
qed

lemma env_load_witness_Inl: "env_load_witness w = Inl e \<Longrightarrow> e = Err InvalidWitness"
  by (auto simp: env_load_witness_def split: option.splits if_splits)

lemma hash_loop:
  assumes vm: "vm_serves H S T" and n: "n < 2 ^ 64" and ws: "n = length ws" and i: "i \<le> n"
    and at: "\<And>j. i \<le> j \<Longrightarrow> j \<le> n \<Longrightarrow> witness_at T src j = item ws j"
  shows "index_loop (hash_body S src) i acc =
    bind_r (map_r (\<lambda>w. env_load_witness (Some w)) (drop i ws)) (\<lambda>bs. Inr (acc @ concat (map hash_witness bs)))"
  using i at
proof (induction "n - i" arbitrary: i acc)
  case 0
  then have "hash_body S src i acc = Return (Inr acc)"
    using vm ws by (simp add: hash_body_def vm_serves_def item_simps)
  with 0 n ws show ?case by (simp add: index_loop_return)
next
  case (Suc k)
  have i: "i < length ws" "i < 2 ^ 64" using Suc.hyps(2) n ws by auto
  have at: "witness_at T src i = Inr (ws ! i)" using Suc.prems i ws by (simp add: item_simps)
  have body: "hash_body S src i acc = (case env_load_witness (Some (ws ! i)) of
      Inl e \<Rightarrow> Return (Inl e) | Inr w \<Rightarrow> Continue (acc @ hash_witness w))"
    using vm by (cases "length (ws ! i) \<le> 1")
      (simp_all add: hash_body_def vm_serves_def at load_witness_served [OF vm])
  have IH: "index_loop (hash_body S src) (Suc i) acc =
    bind_r (map_r (\<lambda>w. env_load_witness (Some w)) (drop (Suc i) ws)) (\<lambda>bs. Inr (acc @ concat (map hash_witness bs)))" for acc
    using Suc by (intro Suc.hyps) simp_all
  have d: "drop i ws = ws ! i # drop (Suc i) ws" using i by (simp add: Cons_nth_drop_Suc)
  show ?case
  proof (cases "env_load_witness (Some (ws ! i))")
    case (Inl e)
    then show ?thesis using body i by (simp add: d index_loop_return)
  next
    case (Inr w)
    then have "index_loop (hash_body S src) i acc = index_loop (hash_body S src) (Suc i) (acc @ hash_witness w)"
      using body i by (simp add: index_loop_continue)
    then show ?thesis
      using Inr by (simp add: d IH) (cases "map_r (\<lambda>w. env_load_witness (Some w)) (drop (Suc i) ws)"; simp)
  qed
qed

lemma hash_loop_input:
  assumes vm: "vm_serves H S T" and T: "tx_sized T" and i: "i < 2 ^ 64"
  shows "index_loop (hash_body S Source_Input) i acc =
    bind_r (map_r (\<lambda>w. env_load_witness (Some w)) (drop i (ct_witnesses T))) (\<lambda>bs. Inr (acc @ concat (map hash_witness bs)))"
proof (cases "i \<le> length (ct_witnesses T)")
  case True
  then show ?thesis using T by (intro hash_loop [OF vm _ refl]) (simp_all add: tx_sized_def witness_at_def)
next
  case False
  then have "hash_body S Source_Input i acc = Return (Inr acc)"
    using vm by (simp add: hash_body_def vm_serves_def witness_at_def item_simps)
  then show ?thesis using False i by (simp add: index_loop_return)
qed

lemma length_group_witnesses: "length (group_witnesses T) \<le> length (ct_group T)"
  by (simp add: group_witnesses_def length_takeWhile_le)

lemma first_witness_served:
  assumes "vm_serves H S T"
  shows "load_witness S 0 Source_GroupInput = env_load_witness (idx (group_witnesses T) 0)"
  using load_witness_served [OF assms, of 0 Source_GroupInput] witness_at_group [of 0 T]
  by (simp add: item_def idx_def env_load_witness_def)

text \<open>The script's sighash is the one of its transaction.\<close>

lemma canonical_group_sighash_served:
  assumes vm: "vm_serves H S T" and T: "tx_sized T"
  shows "canonical_group_sighash S H = env_group_sighash H (env_of T)"
proof (cases "group_witnesses T")
  case Nil
  then show ?thesis
    by (simp add: canonical_group_sighash_def env_group_sighash_def first_witness_served [OF vm] env_of_def
        env_load_witness_def idx_def)
next
  case (Cons first rest)
  have tx: "sys_load_tx_hash S 32 = Inr (ct_hash T)" "length (ct_hash T) = 32"
    using vm T by (simp_all add: vm_serves_def tx_sized_def)
  have n: "length (group_witnesses T) < 2 ^ 64" "length (ct_inputs T) < 2 ^ 64"
    using length_group_witnesses [of T] T by (simp_all add: tx_sized_def)
  have g: "index_loop (hash_body S Source_GroupInput) (Suc 0) acc =
      bind_r (map_r (\<lambda>w. env_load_witness (Some w)) rest) (\<lambda>bs. Inr (acc @ concat (map hash_witness bs)))" for acc
    using hash_loop [OF vm n(1) refl, of 1 Source_GroupInput acc] Cons by (simp add: witness_at_group)
  show ?thesis
    using tx n(2)
    by (simp add: canonical_group_sighash_def env_group_sighash_def first_witness_served [OF vm] env_of_def g
        input_count_served [OF vm T] hash_loop_input [OF vm T] Cons)
       (auto simp: bind_r_def split: sum.split)
qed

section \<open>Child processes\<close>

text \<open>
  What pipes and child processes do, through three observations of the machine: the bytes
  written to a pipe's write end, the cell dependency and the read end a child was started with,
  and the write end that belongs to a read end. \<open>exit_of i r\<close> is the exit code of the program in
  cell dependency \<open>i\<close> when its inherited descriptor delivers exactly the bytes \<open>r\<close>.
\<close>

record 'w child_view =
  cv_written :: "'w \<Rightarrow> nat \<Rightarrow> bytes"
  cv_child :: "'w \<Rightarrow> nat \<Rightarrow> (nat \<times> nat) option"
  cv_peer :: "'w \<Rightarrow> nat \<Rightarrow> nat option"

definition unseen :: "'w child_view \<Rightarrow> 'w \<Rightarrow> 'w \<Rightarrow> bool" where
  "unseen V w w' \<longleftrightarrow> cv_written V w' = cv_written V w \<and> cv_child V w' = cv_child V w \<and> cv_peer V w' = cv_peer V w"

definition child_laws :: "'w syscalls \<Rightarrow> 'w child_view \<Rightarrow> (nat \<Rightarrow> bytes \<Rightarrow> int) \<Rightarrow> bool" where
  "child_laws S V exit_of \<longleftrightarrow>
     (\<forall>w rfd wfd w'. sys_pipe S w = (Inr (rfd, wfd), w') \<longrightarrow> cv_written V w' wfd = [] \<and> cv_peer V w' rfd = Some wfd)
     \<and> (\<forall>w i rfd pid w'. sys_spawn S i Source_CellDep rfd w = (Inr pid, w') \<longrightarrow>
          cv_written V w' = cv_written V w \<and> cv_peer V w' = cv_peer V w \<and> cv_child V w' pid = Some (i, rfd))
     \<and> (\<forall>w fd x w'. sys_close S fd w = (x, w') \<longrightarrow> unseen V w w')
     \<and> (\<forall>w fd bs n w'. sys_write S fd bs w = (Inr n, w') \<longrightarrow>
          n \<le> length bs \<and> cv_written V w' = (cv_written V w)(fd := cv_written V w fd @ take n bs)
          \<and> cv_child V w' = cv_child V w \<and> cv_peer V w' = cv_peer V w)
     \<and> (\<forall>w pid x w' i rfd wfd. sys_wait S pid w = (Inr x, w') \<and> cv_child V w pid = Some (i, rfd)
          \<and> cv_peer V w rfd = Some wfd \<longrightarrow> x = exit_of i (cv_written V w wfd))"

text \<open>No call fails: the machine's resources suffice and the children read their requests.\<close>

definition child_live :: "'w syscalls \<Rightarrow> bool" where
  "child_live S \<longleftrightarrow>
     (\<forall>w. is_ok (fst (sys_pipe S w))) \<and> (\<forall>i src fd w. is_ok (fst (sys_spawn S i src fd w)))
     \<and> (\<forall>fd w. is_ok (fst (sys_close S fd w))) \<and> (\<forall>pid w. is_ok (fst (sys_wait S pid w)))
     \<and> (\<forall>fd bs w. bs \<noteq> [] \<longrightarrow> (\<exists>n w'. 0 < n \<and> sys_write S fd bs w = (Inr n, w')))"

lemma sys_io_Inr_iff [result_simps]: "sys_io m w = (Inr x, w') \<longleftrightarrow> m w = (Inr x, w')"
  by (auto simp: sys_io_def result_simps split: prod.splits)

lemma child_lawsD:
  assumes "child_laws S V exit_of"
  shows "sys_pipe S w = (Inr (rfd, wfd), w') \<Longrightarrow> cv_written V w' wfd = [] \<and> cv_peer V w' rfd = Some wfd"
    and "sys_spawn S i Source_CellDep rfd w = (Inr pid, w') \<Longrightarrow>
      cv_written V w' = cv_written V w \<and> cv_peer V w' = cv_peer V w \<and> cv_child V w' pid = Some (i, rfd)"
    and "sys_close S fd w = (c, w') \<Longrightarrow> unseen V w w'"
    and "sys_write S fd bs w = (Inr n, w') \<Longrightarrow>
      n \<le> length bs \<and> cv_written V w' = (cv_written V w)(fd := cv_written V w fd @ take n bs)
      \<and> cv_child V w' = cv_child V w \<and> cv_peer V w' = cv_peer V w"
    and "sys_wait S pid w = (Inr x, w') \<Longrightarrow> cv_child V w pid = Some (i, rfd) \<Longrightarrow> cv_peer V w rfd = Some wfd
      \<Longrightarrow> x = exit_of i (cv_written V w wfd)"
  using assms unfolding child_laws_def by (elim conjE, metis)+

lemma write_all_written:
  assumes laws: "child_laws S V exit_of" and "write_all S fd r off w = (Inr (), w')" and "off \<le> length r"
    and "cv_written V w fd = take off r"
  shows "cv_written V w' fd = r \<and> cv_child V w' = cv_child V w \<and> cv_peer V w' = cv_peer V w"
  using assms(2-4)
proof (induction "length r - off" arbitrary: off w rule: less_induct)
  case less
  show ?case
  proof (cases "off < length r")
    case False
    then show ?thesis using less.prems by (simp add: write_all.simps)
  next
    case True
    obtain n w1 where wr: "sys_write S fd (drop off r) w = (Inr n, w1)" "n \<noteq> 0"
      and rest: "write_all S fd r (off + n) w1 = (Inr (), w')"
      using less.prems(1) True
      by (subst (asm) write_all.simps) (auto simp: checked_add_def split: prod.splits sum.splits if_splits)
    note law = child_lawsD(4) [OF laws wr(1)]
    have "cv_written V w1 fd = take (off + n) r" using law less.prems(3) by (simp add: take_add)
    moreover have "length r - (off + n) < length r - off" "off + n \<le> length r"
      using law wr(2) True by auto
    ultimately show ?thesis
      using less.hyps [OF _ rest] law by simp
  qed
qed

lemma spawn_verifier_exit:
  assumes laws: "child_laws S V exit_of" and run: "spawn_verifier S i r w = (Inr b, w')"
  shows "b = (exit_of i r = 0)"
proof -
  from run obtain rfd wfd w1 pid w2 w3 w4 w5 x where
    pipe: "sys_pipe S w = (Inr (rfd, wfd), w1)" and spawn: "sys_spawn S i Source_CellDep rfd w1 = (Inr pid, w2)"
    and rclose: "close_reader S rfd w2 = (Inr (), w3)" and wr: "write_all S wfd r 0 w3 = (Inr (), w4)"
    and wclose: "sys_close S wfd w4 = (Inr (), w5)" and wait: "sys_wait S pid w5 = (Inr x, w')" and b: "b = (x = 0)"
    unfolding spawn_verifier_def bind_io_Inr_iff sys_io_Inr_iff split_paired_Ex case_prod_conv
    by auto
  obtain c where "sys_close S rfd w2 = (c, w3)"
    using rclose unfolding close_reader_def by (auto split: prod.splits sum.splits sys_error.splits)
  then have u: "unseen V w2 w3" "unseen V w4 w5"
    using child_lawsD(3) [OF laws] wclose by blast+
  note l1 = child_lawsD(1) [OF laws pipe] and l2 = child_lawsD(2) [OF laws spawn]
  have "cv_written V w3 wfd = take 0 r" using u(1) l1 l2 by (simp add: unseen_def)
  then have "cv_written V w4 wfd = r \<and> cv_child V w4 = cv_child V w3 \<and> cv_peer V w4 = cv_peer V w3"
    using write_all_written [OF laws wr] by simp
  then have "cv_written V w5 wfd = r" "cv_child V w5 pid = Some (i, rfd)" "cv_peer V w5 rfd = Some wfd"
    using u l1 l2 by (simp_all add: unseen_def)
  then show ?thesis using child_lawsD(5) [OF laws wait] b by simp
qed

lemma write_all_live:
  assumes "child_live S" and "child_laws S V exit_of" and "length r < 2 ^ 64"
  shows "\<exists>w'. write_all S fd r off w = (Inr (), w')"
proof (induction "length r - off" arbitrary: off w rule: less_induct)
  case less
  show ?case
  proof (cases "off < length r")
    case True
    then obtain n w1 where wr: "0 < n" "sys_write S fd (drop off r) w = (Inr n, w1)"
      using assms(1) unfolding child_live_def by (metis drop_eq_Nil leD)
    have "n \<le> length r - off" using child_lawsD(4) [OF assms(2) wr(2)] by simp
    then have "checked_add off n = Some (off + n)" using assms(3) True by (simp add: checked_add_def)
    moreover have "\<exists>w'. write_all S fd r (off + n) w1 = (Inr (), w')"
      using less [of "off + n" w1] wr(1) True by simp
    ultimately show ?thesis using True wr by (subst write_all.simps) simp
  qed (simp add: write_all.simps)
qed

lemma spawn_verifier_live:
  assumes "child_live S" and "child_laws S V exit_of" and "length r < 2 ^ 64"
  shows "\<exists>w'. spawn_verifier S i r w = (Inr (exit_of i r = 0), w')"
proof -
  note live = assms(1) [unfolded child_live_def]
  obtain rfd wfd w1 where 1: "sys_pipe S w = (Inr (rfd, wfd), w1)"
    using live by (metis is_ok_iff prod.collapse)
  obtain pid w2 where 2: "sys_spawn S i Source_CellDep rfd w1 = (Inr pid, w2)"
    using live by (metis is_ok_iff prod.collapse)
  obtain w3 where 3: "close_reader S rfd w2 = (Inr (), w3)"
    using live unfolding close_reader_def by (metis (mono_tags, lifting) is_ok_iff prod.collapse old.prod.case sum.case(2))
  obtain w4 where 4: "write_all S wfd r 0 w3 = (Inr (), w4)"
    using write_all_live [OF assms] by blast
  obtain w5 where 5: "sys_close S wfd w4 = (Inr (), w5)"
    using live by (metis (full_types) is_ok_iff old.unit.exhaust prod.collapse)
  obtain x w6 where 6: "sys_wait S pid w5 = (Inr x, w6)"
    using live by (metis is_ok_iff prod.collapse)
  have "spawn_verifier S i r w = (Inr (x = 0), w6)"
    using 1 2 3 4 5 6 by (simp add: spawn_verifier_def sys_io_def)
  moreover from this have "(x = 0) = (exit_of i r = 0)" by (rule spawn_verifier_exit [OF assms(2)])
  ultimately show ?thesis by simp
qed

section \<open>What a run has checked\<close>

text \<open>
  The account's current state: on a spend, the data of the only cell dependency whose type
  script hashes to the account id, no input being such a cell; otherwise the data of the only
  such input.
\<close>

definition current_state :: "(bytes \<Rightarrow> bytes) \<Rightarrow> chain_tx \<Rightarrow> bytes \<Rightarrow> byte \<Rightarrow> bytes \<Rightarrow> bool" where
  "current_state H T aid op d \<longleftrightarrow>
     (if op = OP_SPEND
      then matches H CellField_TypeHash aid (cells_of T Source_Input) = []
        \<and> (\<exists>i. matches H CellField_TypeHash aid (ct_deps T) = [i] \<and> d = cc_data (ct_deps T ! i))
      else (\<exists>i. matches H CellField_TypeHash aid (cells_of T Source_Input) = [i] \<and> d = cc_data (snd (ct_inputs T ! i))))"

text \<open>
  The state's replacement on a rotation or recovery: the only output of the account, under the
  type script of the input, holds a valid state with the next sequence number; a recovery is
  enabled and its input carries at least the required \<^verbatim>\<open>since\<close>.
\<close>

definition state_update :: "(bytes \<Rightarrow> bytes) \<Rightarrow> chain_tx \<Rightarrow> bytes \<Rightarrow> byte \<Rightarrow> state_header \<Rightarrow> bool" where
  "state_update H T aid op h \<longleftrightarrow>
     (\<exists>i j s h' sm'. matches H CellField_TypeHash aid (cells_of T Source_Input) = [i]
        \<and> matches H CellField_TypeHash aid (ct_outputs T) = [j]
        \<and> cc_type (snd (ct_inputs T ! i)) = Some s \<and> cc_type (ct_outputs T ! j) = Some s
        \<and> validate_state (cc_data (ct_outputs T ! j)) = Inr (h', sm') \<and> sh_sequence h' = sh_sequence h + 1
        \<and> (op = OP_RECOVERY \<longrightarrow>
             sh_flags h AND STATE_FLAG_RECOVERY_ENABLED \<noteq> 0 \<and> sh_recovery_since h \<le> fst (ct_inputs T ! i)))"

text \<open>Authenticator \<open>e\<close> accepted the proof: its verifier is one unambiguous cell dependency.\<close>

definition accepted_by ::
  "(bytes \<Rightarrow> bytes) \<Rightarrow> chain_tx \<Rightarrow> (nat \<Rightarrow> bytes \<Rightarrow> int) \<Rightarrow> byte \<Rightarrow> bytes \<Rightarrow> authenticator_entry \<Rightarrow> bytes \<Rightarrow> bool"
where
  "accepted_by H T exit_of op digest e payload \<longleftrightarrow>
     (\<exists>i r. matches H (verifier_field e) (ae_verifier_code_hash e) (ct_deps T) = [i]
        \<and> encode_request e op digest payload = Inr r \<and> exit_of i r = 0)"

lemma matches_bound: "matches H f h cs = [i] \<Longrightarrow> i < length cs"
  by (simp add: matches_unique)

lemma resolve_spend_served:
  assumes vm: "vm_serves H S T" and H: "\<And>d. length (H d) = 32" and T: "tx_sized T"
  shows "resolve_spend S aid ins = Inr rs \<longleftrightarrow>
    ins = [] \<and> (\<exists>i. matches H CellField_TypeHash aid (ct_deps T) = [i] \<and> length (cc_data (ct_deps T ! i)) \<le> MAX_CELL_DATA
      \<and> rs = \<lparr>rs_current = cc_data (ct_deps T ! i), rs_successor = None, rs_state_input = None\<rparr>)"
  using matches_bound [of H CellField_TypeHash aid "ct_deps T"]
  by (auto simp: resolve_spend_def matching_type_indices_served [OF vm H T] result_simps
      load_cell_data_served [OF vm] split: list.splits)

lemma resolve_update_served:
  assumes vm: "vm_serves H S T" and H: "\<And>d. length (H d) = 32" and T: "tx_sized T"
    and r: "resolve_update S aid ins = Inr rs"
  shows "\<exists>i j s. ins = [i] \<and> matches H CellField_TypeHash aid (ct_outputs T) = [j]
    \<and> cc_type (cells_of T Source_Input ! i) = Some s \<and> cc_type (ct_outputs T ! j) = Some s
    \<and> rs = \<lparr>rs_current = cc_data (cells_of T Source_Input ! i), rs_successor = Some (cc_data (ct_outputs T ! j)),
          rs_state_input = Some i\<rparr>"
proof -
  obtain i where i: "ins = [i]" using r by (auto simp: resolve_update_def split: list.splits)
  obtain j where j: "matches H CellField_TypeHash aid (ct_outputs T) = [j]"
    using r by (auto simp: resolve_update_def i matching_type_indices_served [OF vm H T] split: list.splits)
  obtain it where it: "load_type_script S i Source_Input = Inr it"
    using r by (auto simp: resolve_update_def i j matching_type_indices_served [OF vm H T] result_simps)
  obtain s where s: "it = Some s"
    using r by (cases it) (simp_all add: resolve_update_def i j it matching_type_indices_served [OF vm H T])
  obtain ot where ot: "load_type_script S j Source_Output = Inr ot"
    using r by (auto simp: resolve_update_def i j it s matching_type_indices_served [OF vm H T] result_simps)
  obtain s' where s': "ot = Some s'"
    using r by (cases ot) (simp_all add: resolve_update_def i j it s ot matching_type_indices_served [OF vm H T])
  from r have "s = s'" and rest: "bind_r (load_cell_data S i Source_Input) (\<lambda>current.
           bind_r (load_cell_data S j Source_Output) (\<lambda>successor.
           Inr \<lparr>rs_current = current, rs_successor = Some successor, rs_state_input = Some i\<rparr>)) = Inr rs"
    by (simp_all add: resolve_update_def i j it s ot s' matching_type_indices_served [OF vm H T] split: if_splits)
  then show ?thesis
    using i j it ot unfolding s s' load_type_script_served [OF vm] bind_r_Inr_iff load_cell_data_served [OF vm]
    by auto
qed

lemma resolve_state_served:
  assumes vm: "vm_serves H S T" and H: "\<And>d. length (H d) = 32" and T: "tx_sized T"
    and r: "resolve_state S op aid = Inr rs"
  shows "op \<in> {OP_SPEND, OP_ROTATE, OP_RECOVERY} \<and> current_state H T aid op (rs_current rs)
    \<and> (op \<noteq> OP_SPEND \<longrightarrow> (\<exists>i j s. matches H CellField_TypeHash aid (cells_of T Source_Input) = [i]
        \<and> matches H CellField_TypeHash aid (ct_outputs T) = [j]
        \<and> cc_type (snd (ct_inputs T ! i)) = Some s \<and> cc_type (ct_outputs T ! j) = Some s
        \<and> rs_successor rs = Some (cc_data (ct_outputs T ! j)) \<and> rs_state_input rs = Some i))"
proof -
  let ?ins = "matches H CellField_TypeHash aid (cells_of T Source_Input)"
  note m = matching_type_indices_served [OF vm H T]
  consider "op = OP_SPEND" "resolve_spend S aid ?ins = Inr rs"
    | "op = OP_ROTATE \<or> op = OP_RECOVERY" "op \<noteq> OP_SPEND" "resolve_update S aid ?ins = Inr rs"
    using r unfolding resolve_state_def m bind_r_simps by (auto split: if_splits)
  then show ?thesis
  proof cases
    case 1
    then show ?thesis unfolding resolve_spend_served [OF vm H T] by (auto simp: current_state_def)
  next
    case 2
    obtain i j s where "?ins = [i]" "matches H CellField_TypeHash aid (ct_outputs T) = [j]"
      "cc_type (cells_of T Source_Input ! i) = Some s" "cc_type (ct_outputs T ! j) = Some s"
      "rs = \<lparr>rs_current = cc_data (cells_of T Source_Input ! i), rs_successor = Some (cc_data (ct_outputs T ! j)),
          rs_state_input = Some i\<rparr>"
      using resolve_update_served [OF vm H T 2(3)] by blast
    moreover from this(1) have "cells_of T Source_Input ! i = snd (ct_inputs T ! i)"
      using matches_bound by fastforce
    ultimately show ?thesis using 2(1,2) unfolding current_state_def by auto
  qed
qed

lemma since_served:
  assumes "vm_serves H S T" and "tx_sized T" and "i < length (ct_inputs T)"
  shows "sys_load_since S 8 i Source_Input = Inr (le_bytes 8 (fst (ct_inputs T ! i)))"
    and "of_le (le_bytes 8 (fst (ct_inputs T ! i))) = fst (ct_inputs T ! i)"
proof -
  show "sys_load_since S 8 i Source_Input = Inr (le_bytes 8 (fst (ct_inputs T ! i)))"
    using assms(1,3) by (simp add: vm_serves_def item_simps split: prod.split)
  have "fst (ct_inputs T ! i) < 2 ^ 64"
    using assms(2,3) by (auto simp: tx_sized_def list_all_length case_prod_beta)
  then show "of_le (le_bytes 8 (fst (ct_inputs T ! i))) = fst (ct_inputs T ! i)" by simp
qed

lemma transition_served:
  assumes vm: "vm_serves H S T" and H: "\<And>d. length (H d) = 32" and T: "tx_sized T"
    and r: "resolve_state S op aid = Inr rs" and v: "validate_transition S op rs h = Inr ()" and op: "op \<noteq> OP_SPEND"
  shows "state_update H T aid op h"
proof -
  obtain i j s where rs: "matches H CellField_TypeHash aid (cells_of T Source_Input) = [i]"
    "matches H CellField_TypeHash aid (ct_outputs T) = [j]"
    "cc_type (snd (ct_inputs T ! i)) = Some s" "cc_type (ct_outputs T ! j) = Some s"
    "rs_successor rs = Some (cc_data (ct_outputs T ! j))" "rs_state_input rs = Some i"
    using resolve_state_served [OF vm H T r] op by blast
  have i: "i < length (ct_inputs T)" using matches_bound [OF rs(1)] by simp
  obtain h' sm' where "validate_state (cc_data (ct_outputs T ! j)) = Inr (h', sm')" "sh_sequence h' = sh_sequence h + 1"
    "op = OP_RECOVERY \<Longrightarrow>
       sh_flags h AND STATE_FLAG_RECOVERY_ENABLED \<noteq> 0 \<and> sh_recovery_since h \<le> fst (ct_inputs T ! i)"
    using v op since_served [OF vm T i]
    by (auto simp: validate_transition_def rs(5,6) result_simps checked_add_def split: if_splits)
  then show ?thesis using rs(1-4) unfolding state_update_def by blast
qed

lemma fold_find:
  assumes "distinct (map ae_slot es)"
  shows "fold_r (\<lambda>found e. Inr (if ae_slot e = s then Some e else found)) es x =
    Inr (case find (\<lambda>e. ae_slot e = s) es of None \<Rightarrow> x | Some e \<Rightarrow> Some e)"
  using assms
proof (induction es arbitrary: x)
  case (Cons e es)
  have "ae_slot e = s \<Longrightarrow> find (\<lambda>e. ae_slot e = s) es = None"
    using Cons.prems by (auto simp: find_None_iff) (metis image_eqI)
  then show ?case using Cons by simp
qed simp

lemma find_slot_iff:
  "distinct (map ae_slot es) \<Longrightarrow> find (\<lambda>e. ae_slot e = s) es = Some e \<longleftrightarrow> e \<in> set es \<and> ae_slot e = s"
  by (induction es) (auto simp: image_iff)

lemma ascending_distinct: "ascending_from None ss \<Longrightarrow> distinct ss"
  by (simp add: ascending_from_def strict_sorted_iff)

lemma find_authenticator_iff:
  assumes "state_ok h es"
  shows "find_authenticator (state_layout h es) h s = Inr e \<longleftrightarrow> e \<in> set es \<and> ae_slot e = s"
proof -
  have d: "distinct (map ae_slot es)" using assms ascending_distinct by (auto simp: state_ok_def)
  have "parse_authenticators (state_layout h es) h f None = fold_r f es None"
    for f :: "authenticator_entry option \<Rightarrow> authenticator_entry \<Rightarrow> authenticator_entry option rust"
    using assms by (intro parse_authenticators_layout) (simp_all add: state_ok_def)
  then have "find_authenticator (state_layout h es) h s = Inr e \<longleftrightarrow> find (\<lambda>e. ae_slot e = s) es = Some e"
    by (simp add: find_authenticator_def fold_find [OF d] split: option.split)
  then show ?thesis by (simp add: find_slot_iff [OF d])
qed

lemma check_proof_Inr:
  assumes vm: "vm_serves H S T" and H: "\<And>d. length (H d) = 32" and T: "tx_sized T"
    and laws: "child_laws S V exit_of" and ok: "state_ok h es"
    and c: "check_proof S (state_layout h es) h op cap dg (w, n) s p = Inr (w', m)"
  shows "\<exists>e \<in> set es. ae_slot e = s \<and> ae_capabilities e AND cap \<noteq> 0
    \<and> (m = n \<or> m = n + ae_weight e \<and> accepted_by H T exit_of op dg e p)"
proof -
  from c obtain e i r where e: "find_authenticator (state_layout h es) h s = Inr e" "ae_capabilities e AND cap \<noteq> 0"
    and v: "resolve_verifier S e = Inr i" and r: "encode_request e op dg p = Inr r"
    and sv: "(case spawn_verifier S i r w of (Inl e, w') \<Rightarrow> Inl e
       | (Inr accepted, w') \<Rightarrow>
           if accepted then if n + ae_weight e < 2 ^ 32 then Inr (w', n + ae_weight e) else Inl (Err LengthOverflow)
           else Inr (w', n)) = Inr (w', m)"
    unfolding check_proof_def case_prod_conv bind_r_Inr_iff if_Inl_Inr_iff by blast
  obtain b where sp: "spawn_verifier S i r w = (Inr b, w')" and m: "m = (if b then n + ae_weight e else n)"
    using sv by (cases "spawn_verifier S i r w" rule: prod.exhaust; cases "fst (spawn_verifier S i r w)")
      (auto split: if_splits)
  have "matches H (verifier_field e) (ae_verifier_code_hash e) (ct_deps T) = [i]"
    using v by (auto simp: resolve_verifier_served [OF vm H T] split: list.splits)
  then have "b \<Longrightarrow> accepted_by H T exit_of op dg e p"
    using r spawn_verifier_exit [OF laws sp] unfolding accepted_by_def by auto
  then show ?thesis
    using e m unfolding find_authenticator_iff [OF ok] by (intro bexI [of _ e]) auto
qed

lemma fold_check:
  assumes vm: "vm_serves H S T" and H: "\<And>d. length (H d) = 32" and T: "tx_sized T"
    and laws: "child_laws S V exit_of" and ok: "state_ok h es"
    and f: "fold_r (\<lambda>s (k, p). check_proof S (state_layout h es) h op cap dg s k p) ps (w, n) = Inr (w', m)"
    and d: "distinct (map fst ps)"
  shows "\<exists>A \<subseteq> set es. m = n + (\<Sum>e \<in> A. ae_weight e) \<and> (\<forall>e \<in> A. ae_capabilities e AND cap \<noteq> 0
    \<and> (\<exists>p. (ae_slot e, p) \<in> set ps \<and> accepted_by H T exit_of op dg e p))"
  using f d
proof (induction ps arbitrary: w n)
  case Nil
  then show ?case by (intro exI [of _ "{}"]) simp
next
  case (Cons x ps)
  obtain k p where x: "x = (k, p)" by (cases x)
  from Cons.prems x obtain w1 n1 where c: "check_proof S (state_layout h es) h op cap dg (w, n) k p = Inr (w1, n1)"
    and rest: "fold_r (\<lambda>s (k, p). check_proof S (state_layout h es) h op cap dg s k p) ps (w1, n1) = Inr (w', m)"
    by (auto simp: result_simps)
  obtain A where A: "A \<subseteq> set es" "m = n1 + (\<Sum>e \<in> A. ae_weight e)"
    "\<forall>e \<in> A. ae_capabilities e AND cap \<noteq> 0 \<and> (\<exists>p. (ae_slot e, p) \<in> set ps \<and> accepted_by H T exit_of op dg e p)"
    using Cons.IH [OF rest] Cons.prems(2) by auto
  obtain e where e: "e \<in> set es" "ae_slot e = k" "ae_capabilities e AND cap \<noteq> 0"
    "n1 = n \<or> n1 = n + ae_weight e \<and> accepted_by H T exit_of op dg e p"
    using check_proof_Inr [OF vm H T laws ok c] by blast
  from e(4) show ?case
  proof
    assume "n1 = n"
    then show ?thesis using A x by (intro exI [of _ A]) auto
  next
    assume acc: "n1 = n + ae_weight e \<and> accepted_by H T exit_of op dg e p"
    have "e \<notin> A" using A(3) e(2) Cons.prems(2) x by force
    then have "(\<Sum>e \<in> insert e A. ae_weight e) = ae_weight e + (\<Sum>e \<in> A. ae_weight e)"
      using A(1) finite_subset by (simp add: finite_subset [OF A(1)])
    then show ?thesis
      using A acc e x by (intro exI [of _ "insert e A"]) auto
  qed
qed

lemma run_Inr:
  assumes "run S H w = Inr ()"
  obtains script la first lk wh rs h sm sighash cap th w' weight where
    "load_current_script S = Inr script" "bind_r (script_args script) parse_lock_args = Inr la"
    "load_witness S 0 Source_GroupInput = Inr first" "witness_lock first = Inr lk"
    "parse_witness_header lk = Inr wh" "wh_proof_count wh \<le> MAX_AUTHENTICATORS"
    "resolve_state S (wh_operation wh) (la_account_id la) = Inr rs"
    "validate_state (rs_current rs) = Inr (h, sm)" "wh_state_sequence wh = sh_sequence h"
    "validate_transition S (wh_operation wh) rs h = Inr ()" "canonical_group_sighash S H = Inr sighash"
    "capability_for_operation (wh_operation wh) = Inr cap" "threshold_for_operation (wh_operation wh) h = Inr th"
    "parse_proofs lk wh (check_proof S (rs_current rs) h (wh_operation wh) cap
       (authorization_digest H (wh_operation wh) (la_account_id la) (sh_sequence h) (rs_current rs) sighash)) (w, 0)
     = Inr (w', weight)" "th \<le> weight"
  using assms unfolding run_def bind_r_Inr_iff [of "load_current_script S"] bind_r_Inr_iff [of "bind_r (script_args _) _"]
    bind_r_Inr_iff [of "load_witness _ _ _"] bind_r_Inr_iff [of "witness_lock _"] bind_r_Inr_iff [of "parse_witness_header _"]
    bind_r_Inr_iff [of "resolve_state _ _ _"] bind_r_Inr_iff [of "validate_state _"] bind_r_Inr_iff [of "validate_transition _ _ _ _"]
    bind_r_Inr_iff [of "canonical_group_sighash _ _"] bind_r_Inr_iff [of "capability_for_operation _"]
    bind_r_Inr_iff [of "threshold_for_operation _ _"] bind_r_Inr_iff [of "parse_proofs _ _ _ _"]
    if_Inl_Inr_iff not_less not_not split_paired_Ex case_prod_conv Let_def
  by (elim exE conjE) (rule that; (assumption | simp))

end
