(* ===== verification/ReferenceVm.thy ===== *)
theory ReferenceVm
  imports LockProps
begin

text \<open>
  A reference machine for the lock script: it serves a given transaction, writes a pipe at most
  seven bytes at a time and lets a child exit as a given function of its program and of the bytes
  written to it. It shows that the assumptions on the system calls can hold together.
\<close>

record machine =
  mc_next :: nat
  mc_written :: "nat \<Rightarrow> bytes"
  mc_child :: "nat \<Rightarrow> (nat \<times> nat) option"
  mc_peer :: "nat \<Rightarrow> nat option"

definition ref_vm :: "(bytes \<Rightarrow> bytes) \<Rightarrow> chain_tx \<Rightarrow> (nat \<Rightarrow> bytes \<Rightarrow> int) \<Rightarrow> machine syscalls" where
  "ref_vm H T exit_of = \<lparr>
     sys_load_script = (\<lambda>n. served n (Inr (ct_script T))),
     sys_load_tx_hash = (\<lambda>n. served n (Inr (ct_hash T))),
     sys_load_cell_data = (\<lambda>n i src. served n (bind_r (item (cells_of T src) i) (\<lambda>c. Inr (cc_data c)))),
     sys_load_witness = (\<lambda>n i src. served n (witness_at T src i)),
     sys_load_cell_by_field = (\<lambda>n i src f. served n (bind_r (item (cells_of T src) i) (field_of H f))),
     sys_load_since = (\<lambda>n i src. served n (bind_r (item (ct_inputs T) i) (\<lambda>(since, c). Inr (le_bytes 8 since)))),
     sys_pipe = (\<lambda>w. let k = mc_next w in (Inr (k, k + 1), w\<lparr>mc_next := k + 2,
       mc_written := (mc_written w)(k + 1 := []), mc_peer := (mc_peer w)(k := Some (k + 1))\<rparr>)),
     sys_spawn = (\<lambda>i src fd w. (Inr (mc_next w), w\<lparr>mc_next := mc_next w + 1,
       mc_child := (mc_child w)(mc_next w := Some (i, fd))\<rparr>)),
     sys_close = (\<lambda>fd w. (Inr (), w)),
     sys_write = (\<lambda>fd bs w. (Inr (min 7 (length bs)),
       w\<lparr>mc_written := (mc_written w)(fd := mc_written w fd @ take 7 bs)\<rparr>)),
     sys_wait = (\<lambda>pid w. (Inr (case mc_child w pid of None \<Rightarrow> 1
       | Some (i, fd) \<Rightarrow> (case mc_peer w fd of None \<Rightarrow> 1 | Some wfd \<Rightarrow> exit_of i (mc_written w wfd))), w))\<rparr>"

definition ref_view :: "machine child_view" where
  "ref_view = \<lparr>cv_written = mc_written, cv_child = mc_child, cv_peer = mc_peer\<rparr>"

definition boot :: machine where
  "boot = \<lparr>mc_next = 0, mc_written = (\<lambda>_. []), mc_child = (\<lambda>_. None), mc_peer = (\<lambda>_. None)\<rparr>"

lemma ref_vm_serves: "vm_serves H (ref_vm H T exit_of) T"
  by (simp add: vm_serves_def ref_vm_def)

lemma ref_vm_child_laws: "child_laws (ref_vm H T exit_of) ref_view exit_of"
  by (auto simp: child_laws_def ref_vm_def ref_view_def unseen_def Let_def min_def)

lemma ref_vm_child_live: "child_live (ref_vm H T exit_of)"
  by (auto simp: child_live_def ref_vm_def Let_def)

end
