(* ===== verification/LockAccepts.thy ===== *)
theory LockAccepts
  imports ReferenceVm
begin

unbundle bit_operations_syntax

text \<open>
  The converse of the lock script's soundness: a transaction that satisfies the documented rules
  and whose proofs the verifiers accept is unlocked. A reference machine shows that the
  assumptions on the system calls can be met, and the script never panics.
\<close>

section \<open>Completeness\<close>

lemma parse_verifier_request_length: "parse_verifier_request r = Inr q \<Longrightarrow> length r \<le> VERIFIER_MAX_REQUEST_LEN"
  by (cases "96 \<le> length r") (auto simp: parse_verifier_request_eq parse_verifier_request_short split: if_splits)

lemma encode_request_length:
  assumes "encode_request e op dg p = Inr r"
  shows "length r < 2 ^ 64"
proof -
  obtain q where "parse_verifier_request r = Inr q"
    using assms unfolding encode_request_def by (auto simp: result_simps Let_def split: if_splits option.splits)
  then show ?thesis using parse_verifier_request_length [of r q] by simp
qed

lemma check_proof_ok:
  assumes vm: "vm_serves H S T" and H: "\<And>d. length (H d) = 32" and T: "tx_sized T"
    and laws: "child_laws S V exit_of" and live: "child_live S" and ok: "state_ok h es"
    and e: "e \<in> set es" "ae_slot e = k" "ae_capabilities e AND cap \<noteq> 0" "accepted_by H T exit_of op dg e p"
    and n: "n + ae_weight e < 2 ^ 32"
  shows "\<exists>w'. check_proof S (state_layout h es) h op cap dg (w, n) k p = Inr (w', n + ae_weight e)"
proof -
  obtain i r where m: "matches H (verifier_field e) (ae_verifier_code_hash e) (ct_deps T) = [i]"
    and r: "encode_request e op dg p = Inr r" "exit_of i r = 0"
    using e(4) unfolding accepted_by_def by blast
  have f: "find_authenticator (state_layout h es) h k = Inr e"
    unfolding find_authenticator_iff [OF ok] using e by simp
  have v: "resolve_verifier S e = Inr i" by (simp add: resolve_verifier_served [OF vm H T] m)
  obtain w' where "spawn_verifier S i r w = (Inr True, w')"
    using spawn_verifier_live [OF live laws encode_request_length [OF r(1)], of i w] r(2) by auto
  with f v r(1) e(3) n show ?thesis by (simp add: check_proof_def)
qed

lemma fold_check_ok:
  assumes vm: "vm_serves H S T" and H: "\<And>d. length (H d) = 32" and T: "tx_sized T"
    and laws: "child_laws S V exit_of" and live: "child_live S" and ok: "state_ok h es"
    and ps: "\<And>k p. (k, p) \<in> set ps \<Longrightarrow> auth k \<in> set es \<and> ae_slot (auth k) = k
      \<and> ae_capabilities (auth k) AND cap \<noteq> 0 \<and> accepted_by H T exit_of op dg (auth k) p"
    and n: "n + (\<Sum>(k, p) \<leftarrow> ps. ae_weight (auth k)) < 2 ^ 32"
  shows "\<exists>w'. fold_r (\<lambda>s (k, p). check_proof S (state_layout h es) h op cap dg s k p) ps (w, n)
    = Inr (w', n + (\<Sum>(k, p) \<leftarrow> ps. ae_weight (auth k)))"
  using ps n
proof (induction ps arbitrary: w n)
  case (Cons x ps)
  obtain k p where x: "x = (k, p)" by (cases x)
  have a: "auth k \<in> set es" "ae_slot (auth k) = k" "ae_capabilities (auth k) AND cap \<noteq> 0"
    "accepted_by H T exit_of op dg (auth k) p"
    using Cons.prems(1) [of k p] x by simp_all
  obtain w1 where "check_proof S (state_layout h es) h op cap dg (w, n) k p = Inr (w1, n + ae_weight (auth k))"
    using check_proof_ok [OF vm H T laws live ok a, of n w] Cons.prems(2) x by auto
  moreover obtain w' where "fold_r (\<lambda>s (k, p). check_proof S (state_layout h es) h op cap dg s k p) ps
      (w1, n + ae_weight (auth k)) = Inr (w', n + ae_weight (auth k) + (\<Sum>(k, p) \<leftarrow> ps. ae_weight (auth k)))"
    using Cons.IH [of "n + ae_weight (auth k)" w1] Cons.prems x by fastforce
  ultimately show ?case by (simp add: x add.assoc)
qed simp

lemma entry_weight_bound: "state_ok h es \<Longrightarrow> e \<in> set es \<Longrightarrow> ae_weight e < 2 ^ 16"
  by (auto simp: state_ok_def list_all_iff entry_ok_def)

lemma weight_sum_bound:
  assumes "state_ok h es" and "\<And>k p. (k, p) \<in> set ps \<Longrightarrow> auth k \<in> set es" and "length ps \<le> 16"
  shows "(\<Sum>(k, p) \<leftarrow> ps. ae_weight (auth k)) < 2 ^ 32"
proof -
  have "(\<Sum>(k, p) \<leftarrow> ps. ae_weight (auth k)) \<le> (\<Sum>x \<leftarrow> ps. 2 ^ 16)"
    using assms(1,2) entry_weight_bound by (intro sum_list_mono) (auto intro!: less_imp_le)
  also have "\<dots> \<le> 16 * 2 ^ 16" using assms(3) by (simp add: sum_list_triv)
  finally show ?thesis by simp
qed

lemma resolve_spend_ok:
  assumes vm: "vm_serves H S T" and H: "\<And>d. length (H d) = 32" and T: "tx_sized T"
    and cur: "current_state H T aid OP_SPEND d" and len: "length d \<le> MAX_CELL_DATA"
  shows "resolve_state S OP_SPEND aid = Inr \<lparr>rs_current = d, rs_successor = None, rs_state_input = None\<rparr>"
  using cur len unfolding resolve_state_def matching_type_indices_served [OF vm H T] bind_r_simps if_P [OF refl]
    resolve_spend_served [OF vm H T] current_state_def by auto

lemma resolve_update_ok:
  assumes vm: "vm_serves H S T" and H: "\<And>d. length (H d) = 32" and T: "tx_sized T"
    and i: "matches H CellField_TypeHash aid (cells_of T Source_Input) = [i]"
    and j: "matches H CellField_TypeHash aid (ct_outputs T) = [j]"
    and s: "cc_type (snd (ct_inputs T ! i)) = Some s" "cc_type (ct_outputs T ! j) = Some s" "length s \<le> MAX_TYPE_SCRIPT"
    and len: "length (cc_data (snd (ct_inputs T ! i))) \<le> MAX_CELL_DATA" "length (cc_data (ct_outputs T ! j)) \<le> MAX_CELL_DATA"
    and op: "op = OP_ROTATE \<or> op = OP_RECOVERY"
  shows "resolve_state S op aid = Inr \<lparr>rs_current = cc_data (snd (ct_inputs T ! i)),
    rs_successor = Some (cc_data (ct_outputs T ! j)), rs_state_input = Some i\<rparr>"
proof -
  have b: "i < length (ct_inputs T)" "j < length (ct_outputs T)"
    using matches_bound [OF i] matches_bound [OF j] by simp_all
  have ty: "load_type_script S i Source_Input = Inr (Some s)" "load_type_script S j Source_Output = Inr (Some s)"
    using b s by (simp_all add: load_type_script_served [OF vm])
  have "load_cell_data S i Source_Input = Inr (cc_data (snd (ct_inputs T ! i)))"
    "load_cell_data S j Source_Output = Inr (cc_data (ct_outputs T ! j))"
    using b len by (simp_all add: load_cell_data_served [OF vm])
  then show ?thesis
    using op i j ty by (auto simp: resolve_state_def resolve_update_def matching_type_indices_served [OF vm H T])
qed

lemma validate_state_length: "validate_state d = Inr x \<Longrightarrow> length d \<le> MAX_CELL_DATA"
  by (cases x) (auto simp: validate_state_iff state_ok_def MAX_CELL_DATA_def)

text \<open>The state found by the script together with the transition it allows.\<close>

lemma resolved_ok:
  assumes vm: "vm_serves H S T" and H: "\<And>d. length (H d) = 32" and T: "tx_sized T"
    and op: "op \<in> {OP_SPEND, OP_ROTATE, OP_RECOVERY}"
    and cur: "current_state H T aid op (state_layout h es)" and ok: "state_ok h es"
    and up: "op \<noteq> OP_SPEND \<Longrightarrow> state_update H T aid op h"
    and ty: "\<And>c s. c \<in> set (cells_of T Source_Input) \<Longrightarrow> cc_type c = Some s \<Longrightarrow> length s \<le> MAX_TYPE_SCRIPT"
  shows "\<exists>rs. resolve_state S op aid = Inr rs \<and> rs_current rs = state_layout h es
    \<and> validate_transition S op rs h = Inr ()"
proof (cases "op = OP_SPEND")
  case True
  have "length (state_layout h es) \<le> MAX_CELL_DATA" using ok by (simp add: state_ok_def MAX_CELL_DATA_def)
  then have "resolve_state S op aid = Inr \<lparr>rs_current = state_layout h es, rs_successor = None, rs_state_input = None\<rparr>"
    using resolve_spend_ok [OF vm H T] cur unfolding True by blast
  then show ?thesis using True by (simp add: validate_transition_def)
next
  case False
  obtain i j s h' sm' where m: "matches H CellField_TypeHash aid (cells_of T Source_Input) = [i]"
    "matches H CellField_TypeHash aid (ct_outputs T) = [j]"
    and s: "cc_type (snd (ct_inputs T ! i)) = Some s" "cc_type (ct_outputs T ! j) = Some s"
    and nx: "validate_state (cc_data (ct_outputs T ! j)) = Inr (h', sm')" "sh_sequence h' = sh_sequence h + 1"
    and rc: "op = OP_RECOVERY \<Longrightarrow>
       sh_flags h AND STATE_FLAG_RECOVERY_ENABLED \<noteq> 0 \<and> sh_recovery_since h \<le> fst (ct_inputs T ! i)"
    using up [OF False] unfolding state_update_def by blast
  have i: "i < length (ct_inputs T)" using matches_bound [OF m(1)] by simp
  have cd: "cc_data (snd (ct_inputs T ! i)) = state_layout h es"
    using cur False m(1) by (simp add: current_state_def)
  have "length s \<le> MAX_TYPE_SCRIPT" using ty [of "snd (ct_inputs T ! i)" s] i s(1) by simp
  then have r: "resolve_state S op aid = Inr \<lparr>rs_current = state_layout h es,
      rs_successor = Some (cc_data (ct_outputs T ! j)), rs_state_input = Some i\<rparr>"
    using resolve_update_ok [OF vm H T m s] validate_state_length [OF nx(1)] op False ok cd
    by (simp add: state_ok_def MAX_CELL_DATA_def)
  have "sh_sequence h' < 2 ^ 64" using nx(1) by (auto simp: validate_state_iff state_ok_def header_ok_def)
  then have "checked_add (sh_sequence h) 1 = Some (sh_sequence h')" using nx(2) by (simp add: checked_add_def)
  then have "validate_transition S op \<lparr>rs_current = state_layout h es,
      rs_successor = Some (cc_data (ct_outputs T ! j)), rs_state_input = Some i\<rparr> h = Inr ()"
    using False nx(1) rc since_served [OF vm T i] by (auto simp: validate_transition_def)
  with r show ?thesis by auto
qed

lemma run_accepts:
  assumes vm: "vm_serves H S T" and H: "\<And>d. length (H d) = 32" and T: "tx_sized T"
    and laws: "child_laws S V exit_of" and live: "child_live S"
    and script: "length (ct_script T) \<le> MAX_SCRIPT"
      "bind_r (script_args (ct_script T)) parse_lock_args = Inr \<lparr>la_version = 1, la_account_id = aid\<rparr>"
    and ty: "\<And>c s. c \<in> set (cells_of T Source_Input) \<Longrightarrow> cc_type c = Some s \<Longrightarrow> length s \<le> MAX_TYPE_SCRIPT"
    and wit: "idx (group_witnesses T) 0 = Some wit" "witness_lock wit = Inr (witness_layout op (sh_sequence h) ps)"
      "witness_ok op (sh_sequence h) ps" "length ps \<le> MAX_AUTHENTICATORS"
    and cur: "current_state H T aid op (state_layout h es)" and ok: "state_ok h es"
    and up: "op \<noteq> OP_SPEND \<Longrightarrow> state_update H T aid op h"
    and sg: "env_group_sighash H (env_of T) = Inr sighash"
    and cap: "capability_for_operation op = Inr cap" "threshold_for_operation op h = Inr th"
    and auth: "\<And>k p. (k, p) \<in> set ps \<Longrightarrow> auth k \<in> set es \<and> ae_slot (auth k) = k
      \<and> ae_capabilities (auth k) AND cap \<noteq> 0
      \<and> accepted_by H T exit_of op (authorization_digest H op aid (sh_sequence h) (state_layout h es) sighash) (auth k) p"
    and th: "th \<le> (\<Sum>(k, p) \<leftarrow> ps. ae_weight (auth k))"
  shows "run S H w = Inr ()"
proof -
  let ?dg = "authorization_digest H op aid (sh_sequence h) (state_layout h es) sighash"
  have s: "load_current_script S = Inr (ct_script T)" using load_script_served [OF vm] script(1) by simp
  obtain g where "env_load_witness (idx (env_groupWitnesses (env_of T)) 0) = Inr g"
    using sg unfolding env_group_sighash_def by (auto simp: result_simps)
  then have w0: "load_witness S 0 Source_GroupInput = Inr wit"
    using wit(1) by (auto simp: first_witness_served [OF vm] env_of_def env_load_witness_def split: if_splits)
  note wh = witness_layout_header [OF wit(3)]
  have op: "op \<in> {OP_SPEND, OP_ROTATE, OP_RECOVERY}" using wit(3) by (simp add: witness_ok_def)
  obtain rs where rs: "resolve_state S op aid = Inr rs" "rs_current rs = state_layout h es"
    "validate_transition S op rs h = Inr ()"
    using resolved_ok [OF vm H T op cur ok] up ty by blast
  have vs: "validate_state (state_layout h es) = Inr (h, weights es)" using ok validate_state_iff by blast
  have "(\<Sum>(k, p) \<leftarrow> ps. ae_weight (auth k)) < 2 ^ 32"
    using weight_sum_bound [OF ok, of ps auth] auth wit(4) by blast
  then obtain w' where "fold_r (\<lambda>s (k, p). check_proof S (state_layout h es) h op cap ?dg s k p) ps (w, 0)
      = Inr (w', \<Sum>(k, p) \<leftarrow> ps. ae_weight (auth k))"
    using fold_check_ok [OF vm H T laws live ok auth, of ps 0 w] by auto
  then have pp: "parse_proofs (witness_layout op (sh_sequence h) ps)
      \<lparr>wh_operation = op, wh_proof_count = length ps, wh_state_sequence = sh_sequence h\<rparr>
      (check_proof S (state_layout h es) h op cap ?dg) (w, 0) = Inr (w', \<Sum>(k, p) \<leftarrow> ps. ae_weight (auth k))"
    by (simp add: parse_witness_complete [OF wit(3)])
  show ?thesis
    using s script(2) w0 wit(2,4) wh rs vs sg cap pp th canonical_group_sighash_served [OF vm T]
    by (simp add: run_def Let_def)
qed

section \<open>No panic\<close>

lemma no_panic_err_to [simp]: "no_panic (err_to e m) \<longleftrightarrow> no_panic m"
  by (cases m) (auto simp: err_to_def no_panic_def split: rust_error.splits)

lemma load_no_panic: "no_panic (load_bounded cap loader)"
  by (auto simp: load_bounded_def no_panic_def split: sum.splits sys_error.splits)

lemma molecule_no_panic: "no_panic (table3_fields d)" "no_panic (molecule_bytes f)"
proof -
  show "no_panic (table3_fields d)"
    by (cases "16 \<le> length d") (auto simp: table3_fields_def rd_def al_le_u32_def no_panic_def)
  show "no_panic (molecule_bytes f)"
    by (cases "4 \<le> length f") (auto simp: molecule_bytes_def rd_def al_le_u32_def no_panic_def)
qed

lemma witness_no_panic: "no_panic (witness_lock w)" "no_panic (canonical_witness w)" "no_panic (script_args d)"
  using molecule_no_panic
  by (auto simp: witness_lock_def canonical_witness_def script_args_def split: option.split prod.split)

lemma encode_request_no_panic: "no_panic (encode_request e op dg p)"
  using parse_verifier_request_no_panic
  by (auto simp: encode_request_def rd_byte_def no_panic_def Let_def result_simps split: option.split)

lemma write_all_no_panic: "no_panic (fst (write_all S fd r off w))"
proof (induction "length r - off" arbitrary: off w rule: less_induct)
  case less
  show ?case
    by (subst write_all.simps)
       (use less in \<open>auto simp: checked_add_def split: prod.split sum.split\<close>)
qed

lemma bind_io_no_panic:
  assumes "no_panic (fst (m w))" and "\<And>x w'. m w = (Inr x, w') \<Longrightarrow> no_panic (fst (f x w'))"
  shows "no_panic (fst (bind_io m f w))"
  using assms by (cases "m w"; cases "fst (m w)") (auto simp: no_panic_def)

lemma sys_io_no_panic: "no_panic (fst (sys_io m w))"
  by (cases "m w"; cases "fst (m w)") (auto simp: sys_io_def)

lemma close_reader_no_panic: "no_panic (fst (close_reader S fd w))"
  by (auto simp: close_reader_def split: prod.split sum.split sys_error.split)

lemma spawn_verifier_no_panic: "no_panic (fst (spawn_verifier S i r w))"
  unfolding spawn_verifier_def
  by (auto intro!: bind_io_no_panic sys_io_no_panic close_reader_no_panic write_all_no_panic)

lemma find_authenticator_no_panic: "length d < 2 ^ 64 \<Longrightarrow> no_panic (find_authenticator d h k)"
  by (auto simp: find_authenticator_def parse_authenticators_def parse_entries_no_panic split: option.split)

lemma check_proof_no_panic:
  assumes vm: "vm_serves H S T" and H: "\<And>d. length (H d) = 32" and T: "tx_sized T" and d: "length d < 2 ^ 64"
  shows "no_panic (check_proof S d h op cap dg s k p)"
proof -
  have v: "no_panic (resolve_verifier S e)" for e
    by (simp add: resolve_verifier_served [OF vm H T] split: list.split)
  have sp: "no_panic (case spawn_verifier S i r w of (Inl e, w') \<Rightarrow> Inl e
      | (Inr accepted, w') \<Rightarrow>
         if accepted then if n + m < 2 ^ 32 then Inr (w', n + m) else Inl (Err LengthOverflow)
         else Inr (w', n))" for i r w and n m :: nat
    using spawn_verifier_no_panic [of S i r w] by (auto simp: no_panic_def split: prod.split sum.split)
  show ?thesis
    by (cases s) (auto simp: check_proof_def find_authenticator_no_panic [OF d] v encode_request_no_panic sp)
qed

lemma resolve_state_no_panic:
  assumes vm: "vm_serves H S T" and H: "\<And>d. length (H d) = 32" and T: "tx_sized T"
  shows "no_panic (resolve_state S op aid)"
proof -
  have ld: "no_panic (load_cell_data S i src)" for i src by (simp add: load_cell_data_def load_no_panic)
  have lt: "no_panic (load_type_script S i src)" for i src
    by (auto simp: load_type_script_def split: sum.split sys_error.split)
  show ?thesis
    by (auto simp: resolve_state_def resolve_spend_def resolve_update_def matching_type_indices_served [OF vm H T]
        ld lt split: list.split option.split)
qed

lemma transition_no_panic: "no_panic (validate_transition S op rs h)"
  by (auto simp: validate_transition_def validate_state_no_panic split: option.split sum.split prod.split)

lemma env_sighash_no_panic: "no_panic (env_group_sighash H env)"
proof -
  have ew: "no_panic (env_load_witness w)" for w by (simp add: env_load_witness_def split: option.split)
  have m: "no_panic (map_r (\<lambda>w. env_load_witness (Some w)) ws)" for ws
    by (induction ws) (auto simp: ew)
  show ?thesis by (auto simp: env_group_sighash_def ew m witness_no_panic)
qed

lemma threshold_no_panic: "no_panic (threshold_for_operation op h)" "no_panic (capability_for_operation op)"
  by (simp_all add: threshold_for_operation_def capability_for_operation_def)

lemma run_no_panic:
  assumes vm: "vm_serves H S T" and H: "\<And>d. length (H d) = 32" and T: "tx_sized T"
  shows "no_panic (run S H w)"
proof -
  have script: "no_panic (load_current_script S)" "no_panic (load_witness S i src)" for i src
    by (simp_all add: load_current_script_def load_witness_def load_no_panic)
  have args: "no_panic (parse_lock_args d)" for d by (simp add: parse_lock_args_def rd_def rd_byte_def)
  have st: "length d < 2 ^ 64" if "validate_state d = Inr x" for d x
    using validate_state_length [OF that] by (simp add: MAX_CELL_DATA_def)
  have pp: "no_panic (parse_proofs lk wh (check_proof S d h op cap dg) s)"
    if "parse_witness_header lk = Inr wh" "validate_state d = Inr x" for lk wh d h op cap dg s x
  proof -
    have "length lk < 2 ^ 64" using that(1) by (simp add: parse_witness_header_Inr_iff)
    then have "no_panic (parse_proof_entries (check_proof S d h op cap dg) lk n off prev s)" for n off prev
      by (rule parse_proof_entries_no_panic) (rule check_proof_no_panic [OF vm H T st [OF that(2)]])
    then show ?thesis by (auto simp: parse_proofs_def)
  qed
  show ?thesis
    unfolding run_def Let_def
    by (intro no_panic_bind script args witness_no_panic parse_witness_header_no_panic
        resolve_state_no_panic [OF vm H T] validate_state_no_panic transition_no_panic threshold_no_panic
        | simp add: canonical_group_sighash_served [OF vm T] env_sighash_no_panic script args
            resolve_state_no_panic [OF vm H T] pp split: prod.split
        | safe)+
qed

section \<open>A sample transaction\<close>

text \<open>
  One account with a single authenticator in slot 0, spent with one proof that the program in the
  second cell dependency accepts.
\<close>

definition sample_hash :: "bytes \<Rightarrow> bytes" where "sample_hash d = le_bytes 32 (of_le d)"

definition sample_auth :: authenticator_entry where
  "sample_auth = \<lparr>ae_slot = 0, ae_algorithm_id = 1, ae_capabilities = 3, ae_weight = 1,
     ae_verifier_hash_type = 0, ae_verifier_abi = 1, ae_verifier_code_hash = sample_hash [2],
     ae_key_id = replicate 32 8, ae_aux = [1]\<rparr>"

definition sample_header :: state_header where
  "sample_header = \<lparr>sh_flags = 0, sh_sequence = 5, sh_spend_threshold = 1, sh_rotate_threshold = 1,
     sh_recovery_threshold = 0, sh_authenticator_count = 1, sh_recovery_since = 0\<rparr>"

definition sample_tx :: chain_tx where
  "sample_tx = \<lparr>ct_hash = replicate 32 7,
     ct_script = mol_table3 (replicate 32 3) [1] (mol_bytes_opt (Some (1 # sample_hash [1]))),
     ct_inputs = [(0, \<lparr>cc_data = [], cc_type = None\<rparr>)], ct_outputs = [],
     ct_deps = [\<lparr>cc_data = state_layout sample_header [sample_auth], cc_type = Some [1]\<rparr>,
                \<lparr>cc_data = [2], cc_type = None\<rparr>],
     ct_witnesses = [mol_witness_args (Some (witness_layout 1 5 [(0, [9])])) None None], ct_group = [0]\<rparr>"

definition sample_exit :: "nat \<Rightarrow> bytes \<Rightarrow> int" where
  "sample_exit i r = (if i = 1 then 0 else 1)"

definition sample_vm :: "machine syscalls" where
  "sample_vm = ref_vm sample_hash sample_tx sample_exit"

lemma sample_hash_length: "length (sample_hash d) = 32"
  by (simp add: sample_hash_def)

lemma sample_sized: "tx_sized sample_tx"
  by (simp add: tx_sized_def sample_tx_def)

lemma sample_state_ok: "state_ok sample_header [sample_auth]"
  by (simp add: state_ok_def header_ok_def sample_header_def entry_ok_def sample_auth_def entry_known_def
      is_supported_algorithm_def ascending_from_def thresholds_ok_def weights_def sample_hash_length
      length_state_layout entry_layout_def)

lemma hd_sample_hash: "hd (sample_hash (b # bs)) = b"
  using unat_bound [of b] by (subst sample_hash_def, subst le_bytes_numeral) simp

lemma sample_matches:
  "matches sample_hash CellField_TypeHash (sample_hash [1]) (cells_of sample_tx Source_Input) = []"
  "matches sample_hash CellField_TypeHash (sample_hash [1]) (ct_deps sample_tx) = [0]"
  "matches sample_hash CellField_DataHash (sample_hash [2]) (ct_deps sample_tx) = [1]"
proof -
  have "sample_hash (state_layout sample_header [sample_auth]) \<noteq> sample_hash [2]"
    using hd_sample_hash [of "0x43"] hd_sample_hash [of 2 "[]"] by (auto simp: state_layout_def dest: arg_cong [of _ _ hd])
  then show "matches sample_hash CellField_TypeHash (sample_hash [1]) (cells_of sample_tx Source_Input) = []"
  "matches sample_hash CellField_TypeHash (sample_hash [1]) (ct_deps sample_tx) = [0]"
  "matches sample_hash CellField_DataHash (sample_hash [2]) (ct_deps sample_tx) = [1]"
    by (simp_all add: matches_def sample_tx_def upt_rec)
qed

lemma sample_witness_ok: "witness_ok 1 5 [(0, [9])]"
  by (simp add: witness_ok_def proof_ok_def ascending_from_def length_witness_layout)

lemma sample_args:
  "bind_r (script_args (ct_script sample_tx)) parse_lock_args = Inr \<lparr>la_version = 1, la_account_id = sample_hash [1]\<rparr>"
proof -
  have "script_args (ct_script sample_tx) = Inr (1 # sample_hash [1])"
    by (simp add: script_args_def sample_tx_def table3_fields_mol molecule_bytes_Some sample_hash_length err_to_def)
  then show ?thesis
    by (simp add: parse_lock_args_def rd_byte_def rd_def sample_hash_length seg_def)
qed

lemma sample_group: "idx (group_witnesses sample_tx) 0 = Some (mol_witness_args (Some (witness_layout 1 5 [(0, [9])])) None None)"
  by (simp add: group_witnesses_def sample_tx_def idx_def)

lemma sample_lock: "witness_lock (mol_witness_args (Some (witness_layout 1 5 [(0, [9])])) None None) = Inr (witness_layout 1 5 [(0, [9])])"
  by (rule witness_lock_mol) (simp add: mol_witness_args_def length_witness_layout)

lemma sample_sighash: "\<exists>g. env_group_sighash sample_hash (env_of sample_tx) = Inr g"
proof -
  have "canonical_witness (mol_witness_args (Some (witness_layout 1 5 [(0, [9])])) None None) = Inr (mol_witness_args (Some []) None None)"
    by (rule canonical_witness_mol) (simp_all add: mol_witness_args_def length_witness_layout)
  then show ?thesis
    by (simp add: env_group_sighash_def env_of_def sample_group env_load_witness_def MAX_WITNESS_def
        mol_witness_args_def length_witness_layout)
       (simp add: group_witnesses_def sample_tx_def)
qed

lemma sample_accepted: "length dg = 32 \<Longrightarrow> accepted_by sample_hash sample_tx sample_exit 1 dg sample_auth [9]"
proof -
  assume dg: "length dg = 32"
  let ?q = "request_of sample_auth 1 dg [9]"
  have "parse_verifier_request (request_layout ?q) = Inr ?q"
    using dg by (simp add: parse_verifier_request_Inr_iff request_ok_def request_of_def sample_auth_def)
  then have "encode_request sample_auth 1 dg [9] = Inr (request_layout ?q)"
    using encode_request_Inr_iff [of sample_auth dg 1 "[9]" "request_layout ?q"] dg by (simp add: sample_auth_def)
  then show ?thesis
    using sample_matches(3) by (simp add: accepted_by_def verifier_field_def sample_auth_def sample_exit_def)
qed

lemma sample_digest: "length (authorization_digest sample_hash op aid seq st sg) = 32"
  by (simp add: authorization_digest_def sample_hash_length)

lemma sample_current: "current_state sample_hash sample_tx (sample_hash [1]) OP_SPEND (state_layout sample_header [sample_auth])"
  using sample_matches by (simp add: current_state_def) (simp add: sample_tx_def)

lemma sample_sizes:
  "length (ct_script sample_tx) \<le> MAX_SCRIPT" "c \<in> set (cells_of sample_tx Source_Input) \<Longrightarrow> cc_type c = Some s \<Longrightarrow> length s \<le> MAX_TYPE_SCRIPT"
  by (auto simp: sample_tx_def MAX_SCRIPT_def sample_hash_length)

lemma sample_header_simps:
  "sh_sequence sample_header = 5" "threshold_for_operation OP_SPEND sample_header = Inr 1" "capability_for_operation OP_SPEND = Inr CAP_SPEND"
  by (simp_all add: sample_header_def threshold_for_operation_def capability_for_operation_def)

lemma sample_run: "run sample_vm sample_hash boot = Inr ()"
proof -
  obtain g where g: "env_group_sighash sample_hash (env_of sample_tx) = Inr g" using sample_sighash by blast
  show ?thesis
    unfolding sample_vm_def
    by (rule run_accepts [where auth = "\<lambda>_. sample_auth" and ps = "[(0, [9])]" and h = sample_header and op = OP_SPEND,
        OF ref_vm_serves sample_hash_length sample_sized ref_vm_child_laws ref_vm_child_live sample_sizes(1) sample_args
          sample_sizes(2) sample_group _ _ _ sample_current sample_state_ok _ g sample_header_simps(3,2)])
       (auto simp: sample_lock sample_witness_ok sample_header_simps sample_accepted sample_digest,
        simp_all add: sample_auth_def)
qed

section \<open>Properties\<close>

text \<open>
  C2: the account lock unlocks only what the account's authenticators authorized. If the script
  exits with success on a transaction, then the transaction names one current state of the
  account, valid and of the sequence the witness claims; a rotation or recovery replaces it by
  exactly one valid successor; and there is a set of distinct authenticators of that state, each
  with the capability of the operation, each of whose verifiers (an unambiguous cell dependency
  with the recorded hash) accepted a proof from the witness for the authorization digest of this
  very transaction, whose weights together reach the operation's threshold.
\<close>

theorem account_lock_sound:
  assumes vm: "vm_serves H S T" and H: "\<And>d. length (H d) = 32" and T: "tx_sized T"
    and laws: "child_laws S V exit_of" and run: "run S H w = Inr ()"
  shows "\<exists>aid op h es ps wit sighash cap th A.
      bind_r (script_args (ct_script T)) parse_lock_args = Inr \<lparr>la_version = 1, la_account_id = aid\<rparr>
    \<and> idx (group_witnesses T) 0 = Some wit \<and> witness_lock wit = Inr (witness_layout op (sh_sequence h) ps)
    \<and> current_state H T aid op (state_layout h es) \<and> state_ok h es
    \<and> (op \<noteq> OP_SPEND \<longrightarrow> state_update H T aid op h)
    \<and> env_group_sighash H (env_of T) = Inr sighash
    \<and> capability_for_operation op = Inr cap \<and> threshold_for_operation op h = Inr th
    \<and> A \<subseteq> set es \<and> th \<le> (\<Sum>e \<in> A. ae_weight e)
    \<and> (\<forall>e \<in> A. ae_capabilities e AND cap \<noteq> 0 \<and> (\<exists>p. (ae_slot e, p) \<in> set ps
        \<and> accepted_by H T exit_of op
            (authorization_digest H op aid (sh_sequence h) (state_layout h es) sighash) e p))"
  using run
proof (rule run_Inr)
  fix script la first lk rs h sm sighash cap th w' weight and wh :: witness_header
  let ?op = "wh_operation wh"
  assume script: "load_current_script S = Inr script" "bind_r (script_args script) parse_lock_args = Inr la"
    and first: "load_witness S 0 Source_GroupInput = Inr first" "witness_lock first = Inr lk"
    and wh: "parse_witness_header lk = Inr wh" and rs: "resolve_state S ?op (la_account_id la) = Inr rs"
    and st: "validate_state (rs_current rs) = Inr (h, sm)" "wh_state_sequence wh = sh_sequence h"
    and tr: "validate_transition S ?op rs h = Inr ()" and sg: "canonical_group_sighash S H = Inr sighash"
    and cap: "capability_for_operation ?op = Inr cap" "threshold_for_operation ?op h = Inr th"
    and pp: "parse_proofs lk wh (check_proof S (rs_current rs) h ?op cap
       (authorization_digest H ?op (la_account_id la) (sh_sequence h) (rs_current rs) sighash)) (w, 0) = Inr (w', weight)"
    and weight: "th \<le> weight"
  obtain aid where la: "la = \<lparr>la_version = 1, la_account_id = aid\<rparr>"
    using script(2) by (auto simp: result_simps parse_lock_args_def split: if_splits)
  obtain es where es: "rs_current rs = state_layout h es" "state_ok h es"
    using st(1) validate_state_iff by blast
  obtain ps where ps: "lk = witness_layout ?op (sh_sequence h) ps" "witness_ok ?op (sh_sequence h) ps"
    "fold_r (\<lambda>s (k, p). check_proof S (state_layout h es) h ?op cap
       (authorization_digest H ?op aid (sh_sequence h) (state_layout h es) sighash) s k p) ps (w, 0) = Inr (w', weight)"
    using parse_witness_sound [OF wh pp] st(2) la es(1) by auto
  have d: "distinct (map fst ps)" using ps(2) ascending_distinct by (auto simp: witness_ok_def)
  have sc: "script = ct_script T" using script(1) load_script_served [OF vm] by simp
  have w0: "idx (group_witnesses T) 0 = Some first"
    using first(1) unfolding first_witness_served [OF vm] env_load_witness_def by (auto split: option.splits if_splits)
  have sh: "env_group_sighash H (env_of T) = Inr sighash" using sg canonical_group_sighash_served [OF vm T] by simp
  have up: "?op \<noteq> OP_SPEND \<Longrightarrow> state_update H T aid ?op h"
    using transition_served [OF vm H T rs tr] la by simp
  have cur: "current_state H T aid ?op (state_layout h es)"
    using resolve_state_served [OF vm H T rs] la es(1) by simp
  obtain A where "A \<subseteq> set es" "weight = 0 + (\<Sum>e \<in> A. ae_weight e)" "\<forall>e \<in> A. ae_capabilities e AND cap \<noteq> 0
    \<and> (\<exists>p. (ae_slot e, p) \<in> set ps \<and> accepted_by H T exit_of ?op
        (authorization_digest H ?op aid (sh_sequence h) (state_layout h es) sighash) e p)"
    using fold_check [OF vm H T laws es(2) ps(3) d] by blast
  then show ?thesis
    using script(2) la sc w0 first(2) ps(1) cur es(2) up sh cap weight
    by (intro exI [of _ aid] exI [of _ ?op] exI [of _ h] exI [of _ es] exI [of _ ps] exI [of _ first]
        exI [of _ sighash] exI [of _ cap] exI [of _ th] exI [of _ A]) simp
qed

theorem account_lock_sound_witness:
  "\<exists>aid op h es ps wit sighash cap th A.
      bind_r (script_args (ct_script sample_tx)) parse_lock_args = Inr \<lparr>la_version = 1, la_account_id = aid\<rparr>
    \<and> idx (group_witnesses sample_tx) 0 = Some wit \<and> witness_lock wit = Inr (witness_layout op (sh_sequence h) ps)
    \<and> current_state sample_hash sample_tx aid op (state_layout h es) \<and> state_ok h es
    \<and> capability_for_operation op = Inr cap \<and> threshold_for_operation op h = Inr th
    \<and> A \<subseteq> set es \<and> th \<le> (\<Sum>e \<in> A. ae_weight e)"
  using account_lock_sound [OF ref_vm_serves sample_hash_length sample_sized ref_vm_child_laws sample_run [unfolded sample_vm_def]]
  by fast



text \<open>
  C6: the browser and the lock script compute the same group sighash. For every transaction
  whose first group witness is a serialized \<^verbatim>\<open>WitnessArgs\<close> and whose group and extra witnesses
  the script can load, \<^verbatim>\<open>groupSighash\<close> of protocol.ts on the group's witnesses and on those beyond
  the inputs returns the value that \<^verbatim>\<open>canonical_group_sighash\<close> of the contract computes through its
  system calls; both return, so neither side rejects.
\<close>

theorem group_sighash_agrees:
  assumes "ccc_molecule C" and "hash_agrees C H" and "vm_serves H S T" and "tx_sized T"
    and "group_witnesses T = mol_witness_args l i o' # gs" and "drop (length (ct_inputs T)) (ct_witnesses T) = es"
    and "length (mol_witness_args l i o') \<le> MAX_WITNESS"
    and "\<forall>w \<in> set (gs @ es). length w \<le> MAX_WITNESS"
    and "int (length (concat (map hash_witness (gs @ es)))) \<le> 2 ^ 52"
  shows "\<exists>h. groupSighash C (ct_hash T) (group_witnesses T) (drop (length (ct_inputs T)) (ct_witnesses T)) = Inr h
    \<and> canonical_group_sighash S H = Inr h"
  using env_sighash_agrees [OF assms(1,2) _ assms(7-9), of "ct_hash T"] assms(4-6)
  by (simp add: canonical_group_sighash_served [OF assms(3,4)] env_of_def tx_sized_def)

theorem group_sighash_agrees_witness:
  "\<exists>h. groupSighash ref_ccc (replicate 32 7) (group_witnesses sample_tx) [] = Inr h
    \<and> canonical_group_sighash (ref_vm (\<lambda>d. le_bytes 32 (of_le d)) sample_tx sample_exit) (\<lambda>d. le_bytes 32 (of_le d)) = Inr h"
  using group_sighash_agrees [OF ref_ccc_molecule ref_hash_agrees ref_vm_serves sample_sized,
      of "Some (witness_layout 1 5 [(0, [9])])" None None "[]" "[]" sample_exit]
  by (simp add: sample_tx_def group_witnesses_def MAX_WITNESS_def mol_witness_args_def length_witness_layout)

text \<open>
  C14: the lock script never panics and always ends: on every transaction, whatever its cells and
  witnesses hold and however the child processes behave, it exits with success or with one of
  the protocol's error codes.
\<close>

theorem account_lock_total:
  assumes "vm_serves H S T" and "\<And>d. length (H d) = 32" and "tx_sized T"
  shows "program_entry S H w = Some 0 \<or> (\<exists>e. program_entry S H w = Some (error_code e) \<and> 20 \<le> error_code e \<and> error_code e \<le> 39)"
proof (cases "run S H w")
  case (Inl x)
  then obtain e where "x = Err e" using run_no_panic [OF assms, of w] by (cases x) (auto simp: no_panic_def)
  moreover have "20 \<le> error_code e \<and> error_code e \<le> 39" by (cases e) simp_all
  ultimately show ?thesis using Inl by (auto simp: program_entry_def)
qed (simp add: program_entry_def)

theorem account_lock_total_witness:
  "program_entry (ref_vm sample_hash (sample_tx\<lparr>ct_witnesses := []\<rparr>) sample_exit) sample_hash boot = Some 0
   \<or> (\<exists>e. program_entry (ref_vm sample_hash (sample_tx\<lparr>ct_witnesses := []\<rparr>) sample_exit) sample_hash boot = Some (error_code e)
        \<and> 20 \<le> error_code e \<and> error_code e \<le> 39)"
  by (rule account_lock_total [OF ref_vm_serves sample_hash_length]) (use sample_sized in \<open>simp add: tx_sized_def\<close>)

end
