(* ===== verification/Verifier.thy ===== *)
theory Verifier
  imports VerifierP256 LockScript Base64
begin

unbundle bit_operations_syntax

text \<open>
  contracts/verifier-p256/src/main.rs, the WebAuthn verifier that the account lock runs. The
  \<^verbatim>\<open>p256\<close> crate is the record \<open>p256_crate\<close> and \<^verbatim>\<open>Sha256::digest\<close> the argument \<open>sha\<close>; the CKB hash is
  \<open>H\<close>. The JSON scanner keeps the unread rest of the text instead of an offset: \<^verbatim>\<open>json.get(offset)\<close> is
  its head, \<^verbatim>\<open>offset += 1\<close> its tail, and \<^verbatim>\<open>offset != json.len()\<close> says that it is not empty.
\<close>

section \<open>Exit codes\<close>

definition VALID :: int where "VALID = 0"
definition INVALID_PROOF :: int where "INVALID_PROOF = 1"
definition MALFORMED_REQUEST :: int where "MALFORMED_REQUEST = 2"
definition UNSUPPORTED_ALGORITHM :: int where "UNSUPPORTED_ALGORITHM = 3"
definition UNSUPPORTED_PROFILE :: int where "UNSUPPORTED_PROFILE = 4"
definition KEY_ID_MISMATCH :: int where "KEY_ID_MISMATCH = 5"
definition MALFORMED_KEY :: int where "MALFORMED_KEY = 6"
definition DIGEST_BINDING_FAILURE :: int where "DIGEST_BINDING_FAILURE = 8"
definition AUX_MISMATCH :: int where "AUX_MISMATCH = 9"
definition INTERNAL_ERROR :: int where "INTERNAL_ERROR = 10"

section \<open>Reading the request\<close>

text \<open>
  The verifier's system calls. \<^verbatim>\<open>inherited_fds\<close> gives the number of inherited descriptors and the
  first of them; \<^verbatim>\<open>read\<close> into a buffer of \<open>n\<close> bytes gives the bytes read.
\<close>

record 'w child_syscalls =
  cs_inherited_fds :: "'w \<Rightarrow> (nat \<times> nat) \<times> 'w"
  cs_read :: "nat \<Rightarrow> nat \<Rightarrow> ('w, sys_error, bytes) io"
  cs_close :: "nat \<Rightarrow> ('w, sys_error, unit) io"

function read_exact :: "'w child_syscalls \<Rightarrow> nat \<Rightarrow> nat \<Rightarrow> ('w, unit, bytes) io" where
  "read_exact R fd n w =
     (if n = 0 then (Inr [], w) else
      case cs_read R fd n w of
        (Inl _, w') \<Rightarrow> (Inl (), w')
      | (Inr bs, w') \<Rightarrow>
          if bs = [] then (Inl (), w')
          else (case read_exact R fd (n - length bs) w' of
              (Inl e, w'') \<Rightarrow> (Inl e, w'')
            | (Inr rest, w'') \<Rightarrow> (Inr (bs @ rest), w'')))"
  by pat_completeness auto
termination by (relation "measure (\<lambda>(R, fd, n, w). n)") auto

declare read_exact.simps [simp del]

definition malformed :: "('w, 'e, 'a) io \<Rightarrow> ('w, int, 'a) io" where
  "malformed m = (\<lambda>w. case m w of (r, w') \<Rightarrow> (map_err (\<lambda>_. MALFORMED_REQUEST) r, w'))"

definition read_request :: "'w child_syscalls \<Rightarrow> ('w, int, bytes) io" where
  "read_request R w = (case cs_inherited_fds R w of ((n, fd), w0) \<Rightarrow>
     if n \<noteq> 1 then (Inl MALFORMED_REQUEST, w0) else
     bind_io (malformed (read_exact R fd VERIFIER_REQUEST_HEADER_LEN)) (\<lambda>header.
     let aux_len = of_le (seg 80 84 header); proof_len = of_le (seg 84 88 header) in
     case Option.bind (checked_add VERIFIER_REQUEST_HEADER_LEN aux_len) (\<lambda>v. checked_add v proof_len) of
       None \<Rightarrow> throw_io MALFORMED_REQUEST
     | Some tot \<Rightarrow>
         if tot > VERIFIER_MAX_REQUEST_LEN then throw_io MALFORMED_REQUEST else
         bind_io (malformed (read_exact R fd (tot - VERIFIER_REQUEST_HEADER_LEN))) (\<lambda>body.
         bind_io (\<lambda>w. case cs_read R fd 1 w of
             (Inr extra, w') \<Rightarrow> if extra = [] then (Inr (), w') else (Inl MALFORMED_REQUEST, w')
           | (Inl OtherEndClosed, w') \<Rightarrow> (Inr (), w')
           | (Inl _, w') \<Rightarrow> (Inl MALFORMED_REQUEST, w')) (\<lambda>_.
         bind_io (\<lambda>w. case cs_close R fd w of (r, w') \<Rightarrow> (map_err (\<lambda>_. INTERNAL_ERROR) r, w')) (\<lambda>_.
         return_io (header @ body))))) w0)"

section \<open>Challenge text\<close>

definition B64_TABLE :: bytes where
  "B64_TABLE = ascii ''ABCDEFGHIJKLMNOPQRSTUVWXYZabcdefghijklmnopqrstuvwxyz0123456789-_''"

definition table_at :: "32 word \<Rightarrow> byte" where
  "table_at v = B64_TABLE ! unat (v AND 63)"

text \<open>The loop over whole groups of three bytes, then the two bytes left of 32.\<close>

fun digest_groups :: "bytes \<Rightarrow> bytes" where
  "digest_groups (a # b # c # rest) =
     (let value = push_bit 16 (ucast a :: 32 word) OR push_bit 8 (ucast b) OR ucast c in
      [table_at (drop_bit 18 value), table_at (drop_bit 12 value), table_at (drop_bit 6 value), table_at value]
      @ digest_groups rest)"
| "digest_groups _ = []"

definition base64url_digest :: "bytes \<Rightarrow> bytes" where
  "base64url_digest input = digest_groups input
     @ (let value = push_bit 16 (ucast (input ! 30) :: 32 word) OR push_bit 8 (ucast (input ! 31)) in
        [table_at (drop_bit 18 value), table_at (drop_bit 12 value), table_at (drop_bit 6 value)])"

section \<open>Client data\<close>

definition whitespace :: "byte \<Rightarrow> bool" where
  "whitespace b \<longleftrightarrow> b = 0x20 \<or> b = 0x0a \<or> b = 0x0d \<or> b = 0x09"

fun skip_ws :: "bytes \<Rightarrow> bytes" where
  "skip_ws [] = []"
| "skip_ws (b # r) = (if whitespace b then skip_ws r else b # r)"

text \<open>The rest of a string after its opening quote: its contents and what follows.\<close>

fun string_rest :: "bytes \<Rightarrow> int + (bytes \<times> bytes)" where
  "string_rest [] = Inl DIGEST_BINDING_FAILURE"
| "string_rest (b # r) =
     (if b = 0x22 then Inr ([], r)
      else if b = 0x5c \<or> b < 0x20 then Inl DIGEST_BINDING_FAILURE
      else bind_r (string_rest r) (\<lambda>(v, r'). Inr (b # v, r')))"

definition json_string :: "bytes \<Rightarrow> int + (bytes \<times> bytes)" where
  "json_string r = (case r of
     [] \<Rightarrow> Inl DIGEST_BINDING_FAILURE
   | b # r' \<Rightarrow> if b = 0x22 then string_rest r' else Inl DIGEST_BINDING_FAILURE)"

fun primitive_rest :: "bytes \<Rightarrow> bytes" where
  "primitive_rest [] = []"
| "primitive_rest (b # r) = (if b = 0x2c \<or> b = 0x7d \<or> whitespace b then b # r else primitive_rest r)"

definition skip_primitive :: "bytes \<Rightarrow> int + bytes" where
  "skip_primitive r =
     (if length (primitive_rest r) = length r then Inl DIGEST_BINDING_FAILURE else Inr (primitive_rest r))"

record client_found =
  found_type :: bool
  found_challenge :: bool
  found_origin :: bool

definition take_member :: "bytes \<Rightarrow> bytes \<Rightarrow> bytes \<Rightarrow> bytes \<Rightarrow> client_found \<Rightarrow> int + client_found" where
  "take_member challenge org key v f =
     (if key = ascii ''type''
      then if found_type f \<or> v \<noteq> ascii ''webauthn.get'' then Inl DIGEST_BINDING_FAILURE
           else Inr (f\<lparr>found_type := True\<rparr>)
      else if key = ascii ''challenge''
      then if found_challenge f \<or> v \<noteq> challenge then Inl DIGEST_BINDING_FAILURE
           else Inr (f\<lparr>found_challenge := True\<rparr>)
      else if found_origin f \<or> v \<noteq> org then Inl DIGEST_BINDING_FAILURE
           else Inr (f\<lparr>found_origin := True\<rparr>))"

text \<open>One member of the object, from its key to the end of its value.\<close>

definition client_member :: "bytes \<Rightarrow> bytes \<Rightarrow> bytes \<Rightarrow> client_found \<Rightarrow> int + (bytes \<times> client_found)" where
  "client_member challenge org r f =
     bind_r (json_string r) (\<lambda>(key, r1).
     case skip_ws r1 of
       [] \<Rightarrow> Inl DIGEST_BINDING_FAILURE
     | c # r2 \<Rightarrow>
         if c \<noteq> 0x3a then Inl DIGEST_BINDING_FAILURE else
         let r3 = skip_ws r2 in
         if key = ascii ''type'' \<or> key = ascii ''challenge'' \<or> key = ascii ''origin''
         then bind_r (json_string r3) (\<lambda>(v, r4).
           bind_r (take_member challenge org key v f) (\<lambda>f'. Inr (r4, f')))
         else if idx r3 0 = Some 0x22
         then bind_r (json_string r3) (\<lambda>(_, r4). Inr (r4, f))
         else bind_r (skip_primitive r3) (\<lambda>r4. Inr (r4, f)))"

lemma length_skip_ws: "length (skip_ws r) \<le> length r"
  by (induction r) auto

lemma length_string_rest: "string_rest r = Inr (v, r') \<Longrightarrow> length r' < length r"
  by (induction r arbitrary: v) (fastforce simp: bind_r_Inr_iff split: if_splits)+

lemma length_json_string: "json_string r = Inr (v, r') \<Longrightarrow> length r' < length r"
  by (auto simp: json_string_def dest: length_string_rest split: list.splits if_splits)

lemma length_primitive_rest: "length (primitive_rest r) \<le> length r"
  by (induction r) auto

lemma length_client_member:
  assumes "client_member ch org r f = Inr (r', f')"
  shows "length r' < length r"
proof -
  from assms obtain key r1 where r1: "json_string r = Inr (key, r1)"
    by (auto simp: client_member_def bind_r_Inr_iff)
  with assms obtain c r2 where c: "skip_ws r1 = c # r2"
    by (cases "skip_ws r1") (simp_all add: client_member_def)
  have "length r' \<le> length (skip_ws r2)"
    using assms length_json_string [of "skip_ws r2"] length_primitive_rest [of "skip_ws r2"]
    by (auto simp: client_member_def r1 c bind_r_Inr_iff Let_def skip_primitive_def split: if_splits dest: less_imp_le)
  also have "\<dots> \<le> length r2" by (rule length_skip_ws)
  also have "\<dots> < length (skip_ws r1)" by (simp add: c)
  also have "\<dots> \<le> length r1" by (rule length_skip_ws)
  also have "\<dots> < length r" by (rule length_json_string [OF r1])
  finally show ?thesis .
qed

function client_members :: "bytes \<Rightarrow> bytes \<Rightarrow> bytes \<Rightarrow> client_found \<Rightarrow> int + (bytes \<times> client_found)" where
  "client_members challenge org r f =
     (if idx (skip_ws r) 0 = Some 0x7d then Inr (drop 1 (skip_ws r), f) else
      case client_member challenge org (skip_ws r) f of
        Inl e \<Rightarrow> Inl e
      | Inr (r1, f1) \<Rightarrow>
          (case skip_ws r1 of
             [] \<Rightarrow> Inl DIGEST_BINDING_FAILURE
           | c # r2 \<Rightarrow>
               if c = 0x2c then client_members challenge org r2 f1
               else if c = 0x7d then client_members challenge org (c # r2) f1
               else Inl DIGEST_BINDING_FAILURE))"
  by pat_completeness auto
termination
proof (relation "measure (\<lambda>(challenge, org, r, f). length r)", goal_cases)
  case (2 challenge org r f x r1 f1 c r2)
  then show ?case
    using length_client_member [of challenge org "skip_ws r" f r1 f1] length_skip_ws [of r] length_skip_ws [of r1] by simp
next
  case (3 challenge org r f x r1 f1 c r2)
  then show ?case
    using length_client_member [of challenge org "skip_ws r" f r1 f1] length_skip_ws [of r] length_skip_ws [of r1] by simp
qed simp

declare client_members.simps [simp del]

definition validate_client_data :: "bytes \<Rightarrow> bytes \<Rightarrow> bytes \<Rightarrow> int + unit" where
  "validate_client_data json challenge org = (case skip_ws json of
     [] \<Rightarrow> Inl DIGEST_BINDING_FAILURE
   | b # r \<Rightarrow>
       if b \<noteq> 0x7b then Inl DIGEST_BINDING_FAILURE else
       bind_r (client_members challenge org r
           \<lparr>found_type = False, found_challenge = False, found_origin = False\<rparr>) (\<lambda>(r', f).
       if skip_ws r' \<noteq> [] \<or> \<not> found_type f \<or> \<not> found_challenge f \<or> \<not> found_origin f
       then Inl DIGEST_BINDING_FAILURE else Inr ()))"

section \<open>Verification\<close>

record ('k, 's) p256_crate =
  p256_from_sec1_bytes :: "bytes \<Rightarrow> 'k option"
  p256_to_sec1_point :: "'k \<Rightarrow> bytes"
  p256_from_der :: "bytes \<Rightarrow> 's option"
  p256_to_der :: "'s \<Rightarrow> bytes"
  p256_verify_prehash :: "'k \<Rightarrow> bytes \<Rightarrow> 's \<Rightarrow> bool"

definition verify :: "('k, 's) p256_crate \<Rightarrow> (bytes \<Rightarrow> bytes) \<Rightarrow> (bytes \<Rightarrow> bytes) \<Rightarrow> bytes \<Rightarrow> int + unit" where
  "verify P H sha data =
     bind_r (map_err (\<lambda>_. MALFORMED_REQUEST) (parse_verifier_request data)) (\<lambda>request.
     if vr_algorithm_id request \<noteq> 0x0001 then Inl UNSUPPORTED_ALGORITHM else
     if vr_verifier_profile request \<noteq> 0x01 then Inl UNSUPPORTED_PROFILE else
     if length (vr_aux request) \<noteq> 65 \<or> vr_aux request ! 0 \<noteq> 0x01 then Inl AUX_MISMATCH else
     bind_r (parse_proof (vr_proof request)) (\<lambda>pf.
     if H (publicKey pf) \<noteq> vr_key_id request then Inl KEY_ID_MISMATCH else
     if sha (origin pf) \<noteq> seg 33 65 (vr_aux request) then Inl AUX_MISMATCH else
     if seg 0 32 (authenticatorData pf) \<noteq> seg 1 33 (vr_aux request)
        \<or> authenticatorData pf ! 32 AND 0x05 \<noteq> 0x05 then Inl AUX_MISMATCH else
     bind_r (validate_client_data (clientDataJson pf)
       (base64url_digest (vr_authorization_digest request)) (origin pf)) (\<lambda>_.
     if publicKey pf ! 0 \<noteq> 4 then Inl MALFORMED_KEY else
     case p256_from_sec1_bytes P (publicKey pf) of None \<Rightarrow> Inl MALFORMED_KEY | Some key \<Rightarrow>
     if p256_to_sec1_point P key \<noteq> publicKey pf then Inl MALFORMED_KEY else
     case p256_from_der P (signature pf) of None \<Rightarrow> Inl MALFORMED_PROOF | Some sig \<Rightarrow>
     if p256_to_der P sig \<noteq> signature pf then Inl MALFORMED_PROOF else
     if p256_verify_prehash P key (sha (authenticatorData pf @ sha (clientDataJson pf))) sig
     then Inr () else Inl INVALID_PROOF)))"

definition verifier_entry ::
  "'w child_syscalls \<Rightarrow> ('k, 's) p256_crate \<Rightarrow> (bytes \<Rightarrow> bytes) \<Rightarrow> (bytes \<Rightarrow> bytes) \<Rightarrow> 'w \<Rightarrow> int"
where
  "verifier_entry R P H sha w = (case read_request R w of
     (Inl c, _) \<Rightarrow> c
   | (Inr request, _) \<Rightarrow> (case verify P H sha request of Inl c \<Rightarrow> c | Inr _ \<Rightarrow> VALID))"

end
