(* ===== verification/VerifierProps.thy ===== *)
theory VerifierProps
  imports Verifier
begin

unbundle bit_operations_syntax

text \<open>
  Correctness of the WebAuthn verifier of contracts/verifier-p256/src/main.rs: the challenge text
  it computes is the browser's, its JSON scanner accepts exactly the client data with the right
  members, and the request it reads from its pipe is the one that was written, in whatever pieces
  it arrives.
\<close>

section \<open>Challenge text\<close>

lemma unat_join3:
  "unat (push_bit 16 (ucast (a :: byte) :: 32 word) OR push_bit 8 (ucast (b :: byte)) OR ucast (c :: byte))
     = unat a * 65536 + unat b * 256 + unat c"
proof -
  let ?a = "push_bit 16 (ucast a :: 32 word)" and ?b = "push_bit 8 (ucast b :: 32 word)" and ?c = "ucast c :: 32 word"
  have bc: "?b OR ?c = ?b + ?c"
    by (intro disjunctive_add [symmetric]) (auto simp: bit_simps dest: bit_imp_le_length)
  have "?a OR (?b OR ?c) = ?a + (?b OR ?c)"
    by (intro disjunctive_add [symmetric]) (auto simp: bit_simps dest!: bit_imp_le_length)
  then have abc: "?a OR ?b OR ?c = ?a + (?b + ?c)" by (simp only: bc)
  have "unat ?a = unat a * 65536" "unat ?b = unat b * 256" "unat ?c = unat c"
    using unat_bound [of a] unat_bound [of b] unat_bound [of c]
    by (simp_all add: push_bit_eq_mult unat_word_ariths unsigned_ucast_eq take_bit_eq_mod)
  then show ?thesis
    using unat_bound [of a] unat_bound [of b] unat_bound [of c]
    by (simp only: abc unat_word_ariths) simp
qed

lemma u64_char_code:
  assumes "n < 64"
  shows "of_char (u64_char n) = (if n < 26 then 65 + n else if n < 52 then 71 + n else if n < 62 then n - 4
    else if n = 62 then 45 else 95 :: nat)"
proof -
  have plus: "c = CHR ''+'' \<longleftrightarrow> of_char c = (43 :: nat)" "c = CHR ''/'' \<longleftrightarrow> of_char c = (47 :: nat)" for c
    by (auto simp flip: of_char_eq_iff [where 'a = nat])
  show ?thesis
    using assms by (auto simp: u64_char_def b64_char_def of_char_of Let_def plus)
qed

lemma B64_TABLE_eq: "B64_TABLE = map (\<lambda>n. word_of_nat (of_char (u64_char n))) [0..<64]"
  by (simp add: B64_TABLE_def ascii_def upt_rec u64_char_code)

lemma B64_TABLE_nth: "n < 64 \<Longrightarrow> B64_TABLE ! n = word_of_nat (of_char (u64_char n))"
  by (simp only: B64_TABLE_eq nth_map_upt diff_zero add_0)

lemma table_at_eq:
  assumes "unat v mod 64 = n"
  shows "table_at v = word_of_nat (of_char (u64_char n))"
proof -
  have "v AND 63 = take_bit 6 v" by (simp add: take_bit_eq_mask mask_eq_exp_minus_1)
  then have "unat (v AND 63) = take_bit 6 (unat v)" by (simp only: unsigned_take_bit_eq)
  then have "unat (v AND 63) = n" using assms by (simp add: take_bit_eq_mod)
  then show ?thesis using assms B64_TABLE_nth [of n] by (auto simp: table_at_def)
qed

definition digest_tail :: "byte \<Rightarrow> byte \<Rightarrow> bytes" where
  "digest_tail a b = (let value = push_bit 16 (ucast a :: 32 word) OR push_bit 8 (ucast b) in
     [table_at (drop_bit 18 value), table_at (drop_bit 12 value), table_at (drop_bit 6 value)])"

abbreviation b64_byte :: "nat \<Rightarrow> byte" where
  "b64_byte n \<equiv> word_of_nat (of_char (u64_char n))"

lemma group_sextets:
  fixes a b c :: nat
  assumes "a < 256" and "b < 256" and "c < 256"
  shows "(a * 65536 + b * 256 + c) div 262144 mod 64 = a div 4"
    "(a * 65536 + b * 256 + c) div 4096 mod 64 = a mod 4 * 16 + b div 16"
    "(a * 65536 + b * 256 + c) div 64 mod 64 = b mod 16 * 4 + c div 64"
    "(a * 65536 + b * 256 + c) mod 64 = c mod 64"
proof -
  define m k q r s t where "m = a div 4" "k = a mod 4" "q = b div 16" "r = b mod 16" "s = c div 64" "t = c mod 64"
  note d = this
  have a: "a = 4 * m + k" "b = 16 * q + r" "c = 64 * s + t" by (simp_all add: d)
  have l: "m < 64" "k < 4" "q < 16" "r < 16" "s < 4" "t < 64" using assms by (simp_all add: d less_mult_imp_div_less)
  let ?v = "a * 65536 + b * 256 + c"
  have "?v div 262144 = m" "?v div 4096 = 64 * m + (16 * k + q)" "?v div 64 = 64 * (64 * m + 16 * k + q) + (4 * r + s)"
    using l by (intro div_nat_eqI; simp add: a)+
  moreover have "(64 * x + y) mod 64 = y" if "y < 64" for x y :: nat using that by simp
  note this [of "16 * k + q" m] this [of "4 * r + s" "64 * m + 16 * k + q"]
  ultimately show "?v div 262144 mod 64 = a div 4" "?v div 4096 mod 64 = a mod 4 * 16 + b div 16"
    "?v div 64 mod 64 = b mod 16 * 4 + c div 64"
    using l by (simp_all only: d [symmetric]) auto
  have v: "?v = 64 * (a * 1024 + b * 4 + s) + t" by (simp add: a(3))
  show "?v mod 64 = c mod 64" by (subst v, subst a(3)) (simp only: mod_mult_self4)
qed

lemma table_at_drop:
  assumes "unat v div 2 ^ n mod 64 = k"
  shows "table_at (drop_bit n v) = b64_byte k"
proof -
  have "unat (drop_bit n v) = drop_bit n (unat v)" by (rule unat_drop_bit_eq)
  then show ?thesis using assms by (intro table_at_eq) (simp only: drop_bit_eq_div)
qed

lemma group_chars:
  "(let value = push_bit 16 (ucast (a :: byte) :: 32 word) OR push_bit 8 (ucast (b :: byte)) OR ucast (c :: byte) in
    [table_at (drop_bit 18 value), table_at (drop_bit 12 value), table_at (drop_bit 6 value), table_at value]) =
   map b64_byte [unat a div 4, unat a mod 4 * 16 + unat b div 16, unat b mod 16 * 4 + unat c div 64, unat c mod 64]"
proof -
  define v where "v = push_bit 16 (ucast a :: 32 word) OR push_bit 8 (ucast b) OR ucast c"
  have u: "unat v = unat a * 65536 + unat b * 256 + unat c" unfolding v_def by (rule unat_join3)
  note g = group_sextets [OF unat_bound [of a] unat_bound [of b] unat_bound [of c], folded u]
  have p: "(2 :: nat) ^ 18 = 262144" "(2 :: nat) ^ 12 = 4096" "(2 :: nat) ^ 6 = 64" by simp_all
  have "table_at (drop_bit 18 v) = b64_byte (unat a div 4)"
    "table_at (drop_bit 12 v) = b64_byte (unat a mod 4 * 16 + unat b div 16)"
    "table_at (drop_bit 6 v) = b64_byte (unat b mod 16 * 4 + unat c div 64)"
    "table_at v = b64_byte (unat c mod 64)"
    by (rule table_at_drop table_at_eq, simp only: p g)+
  then show ?thesis unfolding v_def by (simp only: Let_def list.map)
qed

lemma tail_chars:
  "digest_tail a b = map b64_byte [unat a div 4, unat a mod 4 * 16 + unat b div 16, unat b mod 16 * 4]"
  using group_chars [of a b 0] by (simp add: digest_tail_def Let_def)

lemma digest_groups_eq:
  "length d mod 3 = 2 \<Longrightarrow> digest_groups d @ digest_tail (d ! (length d - 2)) (d ! (length d - 1)) = map b64_byte (sixes d)"
proof (induction d rule: sixes.induct)
  case (3 a b)
  then show ?case by (simp add: tail_chars)
next
  case (4 a b c r)
  then have "length r mod 3 = 2" by (simp add: mod_Suc split: if_splits)
  moreover from this have "2 \<le> length r" by (cases r rule: sixes.cases) auto
  ultimately show ?case
    using 4 group_chars [of a b c] by (auto simp: nth_Cons' numeral_2_eq_2 Let_def)
qed auto

lemma plain_challenge: "list_all (\<lambda>b. b \<noteq> 0x22 \<and> b \<noteq> 0x5c \<and> \<not> b < 0x20) (ascii (base64urlEncode d))"
proof -
  have "b64_byte n \<noteq> 0x22 \<and> b64_byte n \<noteq> 0x5c \<and> \<not> b64_byte n < 0x20" if n: "n < 64" for n
  proof -
    have "unat (b64_byte n) = of_char (u64_char n)" using n by (intro unat_word_of_nat) (auto simp: u64_char_code)
    then have u: "unat (b64_byte n) \<in> {45} \<union> {48..57} \<union> {65..90} \<union> {95} \<union> {97..122}" using n by (auto simp: u64_char_code)
    then have "unat (b64_byte n) \<noteq> unat (0x22 :: byte)" "unat (b64_byte n) \<noteq> unat (0x5c :: byte)"
      "\<not> unat (b64_byte n) < unat (0x20 :: byte)" by auto
    then show ?thesis by (auto simp: word_less_nat_alt)
  qed
  then show ?thesis
    using sixes_bound [of d] by (auto simp: ascii_def base64urlEncode_sixes list_all_iff)
qed

lemma base64url_digest_eq:
  assumes "length d = 32"
  shows "base64url_digest d = ascii (base64urlEncode d)"
  using digest_groups_eq [of d] assms
  by (simp add: base64url_digest_def digest_tail_def base64urlEncode_sixes ascii_def)

section \<open>Client data\<close>

text \<open>
  Client data as browsers write them: one object in compact JSON whose members are strings
  without escapes or other scalar values.
\<close>

datatype client_value = Text bytes | Scalar bytes

type_synonym client_object = "(bytes \<times> client_value) list"

definition plain :: "bytes \<Rightarrow> bool" where
  "plain s \<longleftrightarrow> list_all (\<lambda>b. b \<noteq> 0x22 \<and> b \<noteq> 0x5c \<and> \<not> b < 0x20) s"

fun value_ok :: "client_value \<Rightarrow> bool" where
  "value_ok (Text s) = plain s"
| "value_ok (Scalar s) = (s \<noteq> [] \<and> hd s \<noteq> 0x22 \<and> list_all (\<lambda>b. b \<noteq> 0x2c \<and> b \<noteq> 0x7d \<and> \<not> whitespace b) s)"

definition json_quoted :: "bytes \<Rightarrow> bytes" where
  "json_quoted s = 0x22 # s @ [0x22]"

fun value_text :: "client_value \<Rightarrow> bytes" where
  "value_text (Text s) = json_quoted s"
| "value_text (Scalar s) = s"

fun members_text :: "client_object \<Rightarrow> bytes" where
  "members_text [] = []"
| "members_text [(k, v)] = json_quoted k @ 0x3a # value_text v"
| "members_text ((k, v) # m # ms) = json_quoted k @ 0x3a # value_text v @ 0x2c # members_text (m # ms)"

definition client_json :: "client_object \<Rightarrow> bytes" where
  "client_json ms = 0x7b # members_text ms @ [0x7d]"

definition client_object_ok :: "client_object \<Rightarrow> bool" where
  "client_object_ok ms \<longleftrightarrow> list_all (\<lambda>(k, v). plain k \<and> value_ok v) ms"

definition exactly_once :: "bytes \<Rightarrow> bytes \<Rightarrow> client_object \<Rightarrow> bool" where
  "exactly_once k s ms \<longleftrightarrow> filter (\<lambda>m. fst m = k) ms = [(k, Text s)]"

lemma string_rest_plain: "plain s \<Longrightarrow> string_rest (s @ 0x22 # r) = Inr (s, r)"
  by (induction s) (auto simp: plain_def)

lemma json_string_quoted: "plain s \<Longrightarrow> json_string (json_quoted s @ r) = Inr (s, r)"
  by (simp add: json_string_def json_quoted_def string_rest_plain)

lemma primitive_rest_scalar:
  "list_all (\<lambda>b. b \<noteq> 0x2c \<and> b \<noteq> 0x7d \<and> \<not> whitespace b) s \<Longrightarrow> c = 0x2c \<or> c = 0x7d \<Longrightarrow> primitive_rest (s @ c # r) = c # r"
  by (induction s) auto

lemma skip_ws_nonblank: "\<not> whitespace c \<Longrightarrow> skip_ws (c # r) = c # r"
  by simp

lemma not_whitespace [simp]:
  "\<not> whitespace 0x22" "\<not> whitespace 0x3a" "\<not> whitespace 0x2c" "\<not> whitespace 0x7d" "\<not> whitespace 0x7b"
  by (simp_all add: whitespace_def)

definition member_effect :: "bytes \<Rightarrow> bytes \<Rightarrow> bytes \<times> client_value \<Rightarrow> client_found \<Rightarrow> int + client_found" where
  "member_effect ch org m f =
     (if fst m = ascii ''type'' \<or> fst m = ascii ''challenge'' \<or> fst m = ascii ''origin''
      then (case snd m of Text s \<Rightarrow> take_member ch org (fst m) s f | Scalar s \<Rightarrow> Inl DIGEST_BINDING_FAILURE)
      else Inr f)"

lemma client_member_text:
  assumes "plain k" and "value_ok v" and "c = 0x2c \<or> c = 0x7d"
  shows "client_member ch org (json_quoted k @ 0x3a # value_text v @ c # r) f =
    bind_r (member_effect ch org (k, v) f) (\<lambda>f'. Inr (c # r, f'))"
proof (cases v)
  case (Text s)
  have "skip_ws (json_quoted s @ c # r) = json_quoted s @ c # r" "idx (json_quoted s @ c # r) 0 = Some 0x22"
    by (simp_all add: json_quoted_def idx_def)
  then show ?thesis
    using assms Text
    by (simp add: client_member_def json_string_quoted member_effect_def Let_def)
next
  case (Scalar s)
  obtain b t where s: "s = b # t" "b \<noteq> 0x22" "\<not> whitespace b" using assms(2) Scalar by (cases s) auto
  have prim: "skip_primitive (s @ c # r) = Inr (c # r)"
    using primitive_rest_scalar [of s c r] assms Scalar s by (simp add: skip_primitive_def)
  have "json_string (s @ c # r) = Inl DIGEST_BINDING_FAILURE" "skip_ws (s @ c # r) = s @ c # r" "idx (s @ c # r) 0 \<noteq> Some 0x22"
    using s by (simp_all add: json_string_def idx_def)
  then show ?thesis
    using assms Scalar prim
    by (simp add: client_member_def json_string_quoted member_effect_def Let_def)
qed

fun fold_e :: "('a \<Rightarrow> 's \<Rightarrow> 'e + 's) \<Rightarrow> 'a list \<Rightarrow> 's \<Rightarrow> 'e + 's" where
  "fold_e g [] s = Inr s"
| "fold_e g (x # xs) s = bind_r (g x s) (fold_e g xs)"

lemma client_members_end: "client_members ch org (0x7d # r) f = Inr (r, f)"
  by (simp add: client_members.simps idx_def)

lemma client_members_text:
  assumes "client_object_ok ms"
  shows "client_members ch org (members_text ms @ [0x7d]) f =
    bind_r (fold_e (member_effect ch org) ms f) (\<lambda>f'. Inr ([], f'))"
  using assms
proof (induction ms arbitrary: f rule: members_text.induct)
  case 1
  then show ?case by (simp add: client_members_end)
next
  case (2 k v)
  have "idx (skip_ws (json_quoted k @ 0x3a # value_text v @ [0x7d])) 0 \<noteq> Some 0x7d"
    "skip_ws (json_quoted k @ 0x3a # value_text v @ [0x7d]) = json_quoted k @ 0x3a # value_text v @ [0x7d]"
    by (simp_all add: json_quoted_def idx_def)
  then show ?case
    using 2 client_member_text [of k v "0x7d" ch org "[]" f]
    by (subst client_members.simps)
       (cases "member_effect ch org (k, v) f"; simp add: client_object_ok_def client_members_end)
next
  case (3 k v m ms)
  let ?r = "json_quoted k @ 0x3a # value_text v @ 0x2c # members_text (m # ms) @ [0x7d]"
  have "idx (skip_ws ?r) 0 \<noteq> Some 0x7d" "skip_ws ?r = ?r"
    by (simp_all add: json_quoted_def idx_def)
  moreover have "client_members ch org (members_text (m # ms) @ [0x7d]) f =
      bind_r (fold_e (member_effect ch org) (m # ms) f) (\<lambda>f'. Inr ([], f'))" for f
    using 3 by (simp add: client_object_ok_def)
  ultimately show ?case
    using 3(2) client_member_text [of k v "0x2c" ch org "members_text (m # ms) @ [0x7d]" f]
    by (subst client_members.simps)
       (cases "member_effect ch org (k, v) f"; simp add: client_object_ok_def)
qed

text \<open>What a run over the members did to one of the three flags.\<close>

definition seen :: "bytes \<Rightarrow> bytes \<Rightarrow> client_object \<Rightarrow> bool \<Rightarrow> bool \<Rightarrow> bool" where
  "seen k s ms b b' \<longleftrightarrow> (let occ = filter (\<lambda>m. fst m = k) ms in
     if b then occ = [] \<and> b' else occ = [] \<and> \<not> b' \<or> occ = [(k, Text s)] \<and> b')"

lemma required_keys_distinct:
  "ascii ''type'' \<noteq> ascii ''challenge''" "ascii ''type'' \<noteq> ascii ''origin''" "ascii ''challenge'' \<noteq> ascii ''origin''"
  by (simp_all add: ascii_def)

lemma seen_Cons:
  "seen k s (m # ms) b b' \<longleftrightarrow> (if fst m = k then snd m = Text s \<and> \<not> b \<and> seen k s ms True b' else seen k s ms b b')"
  by (cases m) (auto simp: seen_def Let_def)

lemma fold_members:
  "fold_e (member_effect ch org) ms f = Inr f' \<longleftrightarrow>
     seen (ascii ''type'') (ascii ''webauthn.get'') ms (found_type f) (found_type f')
     \<and> seen (ascii ''challenge'') ch ms (found_challenge f) (found_challenge f')
     \<and> seen (ascii ''origin'') org ms (found_origin f) (found_origin f')"
proof (induction ms arbitrary: f)
  case Nil
  then show ?case by (auto simp: seen_def intro: client_found.equality)
next
  case (Cons m ms)
  then show ?case
    using required_keys_distinct
    by (cases "snd m") (auto simp: member_effect_def take_member_def bind_r_Inr_iff seen_Cons)
qed

lemma validate_client_json:
  assumes "client_object_ok ms"
  shows "validate_client_data (client_json ms) ch org = Inr () \<longleftrightarrow>
    exactly_once (ascii ''type'') (ascii ''webauthn.get'') ms \<and> exactly_once (ascii ''challenge'') ch ms
    \<and> exactly_once (ascii ''origin'') org ms"
proof -
  let ?f = "\<lparr>found_type = False, found_challenge = False, found_origin = False\<rparr>"
  have "validate_client_data (client_json ms) ch org = Inr () \<longleftrightarrow>
      (\<exists>f'. fold_e (member_effect ch org) ms ?f = Inr f' \<and> found_type f' \<and> found_challenge f' \<and> found_origin f')"
    by (auto simp: validate_client_data_def client_json_def client_members_text [OF assms] bind_r_Inr_iff)
  also have "\<dots> \<longleftrightarrow> fold_e (member_effect ch org) ms ?f =
      Inr \<lparr>found_type = True, found_challenge = True, found_origin = True\<rparr>"
    by (auto intro!: exI client_found.equality)
  also have "\<dots> \<longleftrightarrow> exactly_once (ascii ''type'') (ascii ''webauthn.get'') ms \<and> exactly_once (ascii ''challenge'') ch ms
    \<and> exactly_once (ascii ''origin'') org ms"
    by (simp add: fold_members seen_def exactly_once_def Let_def)
  finally show ?thesis .
qed

section \<open>Reading the pipe\<close>

text \<open>
  What reading from the inherited descriptor does: the child has one descriptor; a read gives a
  non-empty piece of at most the requested size of the bytes still unread, or nothing when all
  were read and the writer is done.
\<close>

definition child_reads :: "'w child_syscalls \<Rightarrow> nat \<Rightarrow> ('w \<Rightarrow> bytes) \<Rightarrow> bool" where
  "child_reads R fd unread \<longleftrightarrow>
     (\<forall>w. \<exists>w'. cs_inherited_fds R w = ((1, fd), w') \<and> unread w' = unread w)
     \<and> (\<forall>n w. 0 < n \<longrightarrow> (\<exists>k w'. cs_read R fd n w = (Inr (take k (unread w)), w') \<and> unread w' = drop k (unread w)
          \<and> k \<le> n \<and> (unread w \<noteq> [] \<longrightarrow> 0 < k)))
     \<and> (\<forall>w. \<exists>w'. cs_close R fd w = (Inr (), w'))"

lemma read_exact_step:
  assumes "child_reads R fd unread" and "0 < n"
  obtains k w1 where "unread w1 = drop k (unread w)" "k \<le> n" "unread w \<noteq> [] \<longrightarrow> 0 < k"
    "read_exact R fd n w = (if unread w = [] then (Inl (), w1) else
        case read_exact R fd (n - length (take k (unread w))) w1 of
          (Inl e, w'') \<Rightarrow> (Inl e, w'') | (Inr rest, w'') \<Rightarrow> (Inr (take k (unread w) @ rest), w''))"
proof -
  obtain k w1 where k: "cs_read R fd n w = (Inr (take k (unread w)), w1)" "unread w1 = drop k (unread w)"
    "k \<le> n" "unread w \<noteq> [] \<longrightarrow> 0 < k"
    using assms unfolding child_reads_def by blast
  have "read_exact R fd n w = (if unread w = [] then (Inl (), w1) else
        case read_exact R fd (n - length (take k (unread w))) w1 of
          (Inl e, w'') \<Rightarrow> (Inl e, w'') | (Inr rest, w'') \<Rightarrow> (Inr (take k (unread w) @ rest), w''))"
    using assms(2) k by (subst read_exact.simps) auto
  with k(2-4) show thesis by (rule that)
qed

lemma read_exact_ok:
  assumes "child_reads R fd unread" and "n \<le> length (unread w)"
  shows "\<exists>w'. read_exact R fd n w = (Inr (take n (unread w)), w') \<and> unread w' = drop n (unread w)"
  using assms(2)
proof (induction n arbitrary: w rule: less_induct)
  case (less n)
  show ?case
  proof (cases "n = 0")
    case False
    then have "0 < n" by simp
    from read_exact_step [OF assms(1) this, of w] obtain k w1
      where k: "unread w1 = drop k (unread w)" "k \<le> n" "unread w \<noteq> [] \<longrightarrow> 0 < k"
        and st: "read_exact R fd n w = (if unread w = [] then (Inl (), w1) else
        case read_exact R fd (n - length (take k (unread w))) w1 of
          (Inl e, w'') \<Rightarrow> (Inl e, w'') | (Inr rest, w'') \<Rightarrow> (Inr (take k (unread w) @ rest), w''))" .
    have ne: "unread w \<noteq> []" "0 < k" "length (take k (unread w)) = k" using less.prems False k by auto
    obtain w2 where "read_exact R fd (n - k) w1 = (Inr (take (n - k) (unread w1)), w2)" "unread w2 = drop (n - k) (unread w1)"
      using less.IH [of "n - k" w1] diff_le_mono [OF less.prems, of k] k ne False by auto
    moreover have "take n (unread w) = take k (unread w) @ take (n - k) (drop k (unread w))"
      using k(2) by (simp add: take_add [symmetric])
    ultimately show ?thesis using st ne k by simp
  qed (simp add: read_exact.simps)
qed

lemma parse_verifier_request_size:
  assumes "parse_verifier_request d = Inr q"
  shows "96 \<le> length d" and "length d = 96 + of_le (seg 80 84 d) + of_le (seg 84 88 d)"
    and "length d \<le> VERIFIER_MAX_REQUEST_LEN"
proof -
  show len: "96 \<le> length d" by (rule ccontr) (use assms parse_verifier_request_short [of d] in simp)
  show "length d = 96 + of_le (seg 80 84 d) + of_le (seg 84 88 d)" "length d \<le> VERIFIER_MAX_REQUEST_LEN"
    using assms unfolding parse_verifier_request_eq [OF len] by (auto simp: Let_def split: if_splits)
qed

lemma malformed_run: "m w = (Inr x, w') \<Longrightarrow> malformed m w = (Inr x, w')" "m w = (Inl e, w') \<Longrightarrow> malformed m w = (Inl MALFORMED_REQUEST, w')"
  by (simp_all add: malformed_def)

lemma read_request_ok:
  assumes R: "child_reads R fd unread" and q: "parse_verifier_request (unread w) = Inr q"
  shows "\<exists>w'. read_request R w = (Inr (unread w), w')"
proof -
  let ?d = "unread w"
  note size = parse_verifier_request_size [OF q]
  obtain w0 where w0: "cs_inherited_fds R w = ((1, fd), w0)" "unread w0 = ?d"
    using R unfolding child_reads_def by metis
  obtain w1 where w1: "read_exact R fd 96 w0 = (Inr (take 96 ?d), w1)" "unread w1 = drop 96 ?d"
    using read_exact_ok [OF R, of 96 w0] size(1) w0(2) by auto
  have s: "seg 80 84 (take 96 ?d) = seg 80 84 ?d" "seg 84 88 (take 96 ?d) = seg 84 88 ?d"
    by (simp_all add: seg_def drop_take)
  obtain w2 where w2: "read_exact R fd (length ?d - 96) w1 = (Inr (drop 96 ?d), w2)" "unread w2 = []"
    using read_exact_ok [OF R, of "length ?d - 96" w1] w1(2) by auto
  obtain w3 where w3: "cs_read R fd 1 w2 = (Inr [], w3)"
    using R w2(2) unfolding child_reads_def by (metis drop_Nil take_Nil zero_less_one)
  obtain w4 where w4: "cs_close R fd w3 = (Inr (), w4)"
    using R unfolding child_reads_def by metis
  have "checked_add 96 (of_le (seg 80 84 ?d)) = Some (96 + of_le (seg 80 84 ?d))"
    "checked_add (96 + of_le (seg 80 84 ?d)) (of_le (seg 84 88 ?d)) = Some (length ?d)"
    using size by (simp_all add: checked_add_def)
  then have "read_request R w = (Inr (take 96 ?d @ drop 96 ?d), w4)"
    using w0 w1 w2 w3 w4 size s
    by (simp add: read_request_def malformed_run Let_def)
  then show ?thesis by auto
qed

lemma malformed_Inr_iff [result_simps]: "malformed m w = (Inr x, w') \<longleftrightarrow> m w = (Inr x, w')"
  by (auto simp: malformed_def result_simps split: prod.splits)

lemma read_exact_short:
  assumes "child_reads R fd unread" and "length (unread w) < n"
  shows "\<exists>w'. read_exact R fd n w = (Inl (), w')"
  using assms(2)
proof (induction n arbitrary: w rule: less_induct)
  case (less n)
  then have "0 < n" by simp
  from read_exact_step [OF assms(1) this, of w] obtain k w1
    where k: "unread w1 = drop k (unread w)" "k \<le> n" "unread w \<noteq> [] \<longrightarrow> 0 < k"
      and st: "read_exact R fd n w = (if unread w = [] then (Inl (), w1) else
        case read_exact R fd (n - length (take k (unread w))) w1 of
          (Inl e, w'') \<Rightarrow> (Inl e, w'') | (Inr rest, w'') \<Rightarrow> (Inr (take k (unread w) @ rest), w''))" .
  show ?case
  proof (cases "unread w = []")
    case False
    let ?j = "length (take k (unread w))"
    have "n - ?j < n" "length (unread w1) < n - ?j" using less.prems False k by (auto simp: min_def)
    then obtain w2 where "read_exact R fd (n - ?j) w1 = (Inl (), w2)" using less.IH by blast
    then show ?thesis using st False by simp
  qed (use st in simp)
qed

text \<open>Whatever is read, it is exactly what was written.\<close>

lemma read_exact_Inr:
  assumes "child_reads R fd unread" and "read_exact R fd n w = (Inr bs, w')"
  shows "bs = take n (unread w) \<and> unread w' = drop n (unread w) \<and> n \<le> length (unread w)"
proof (cases "n \<le> length (unread w)")
  case True
  then show ?thesis using read_exact_ok [OF assms(1), of n w] assms(2) by auto
next
  case False
  then show ?thesis using read_exact_short [OF assms(1), of w n] assms(2) by auto
qed

lemma read_request_Inr:
  assumes R: "child_reads R fd unread" and r: "read_request R w = (Inr d, w')"
  shows "d = unread w"
proof -
  obtain w0 where w0: "cs_inherited_fds R w = ((1, fd), w0)" "unread w0 = unread w"
    using R unfolding child_reads_def by metis
  from r obtain hd w1 n body w2 w3 where hd: "read_exact R fd 96 w0 = (Inr hd, w1)"
    and body: "read_exact R fd n w1 = (Inr body, w2)"
    and extra: "(case cs_read R fd 1 w2 of
             (Inr extra, w') \<Rightarrow> if extra = [] then (Inr (), w') else (Inl MALFORMED_REQUEST, w')
           | (Inl OtherEndClosed, w') \<Rightarrow> (Inr (), w')
           | (Inl _, w') \<Rightarrow> (Inl MALFORMED_REQUEST, w')) = (Inr (), w3)" and d: "d = hd @ body"
    by (auto simp: read_request_def w0(1) bind_io_Inr_iff malformed_Inr_iff Let_def split: option.splits if_splits)
  obtain k w4 where "cs_read R fd 1 w2 = (Inr (take k (unread w2)), w4)" "unread w2 \<noteq> [] \<longrightarrow> 0 < k"
    using R unfolding child_reads_def by (metis zero_less_one)
  then have "unread w2 = []" using extra by (auto split: if_splits)
  then show ?thesis
    using read_exact_Inr [OF R hd] read_exact_Inr [OF R body] w0(2) d
    by (metis append_take_drop_id append_Nil2)
qed

section \<open>The whole program\<close>

definition no_zero :: "int + 'a \<Rightarrow> bool" where
  "no_zero m \<longleftrightarrow> m \<noteq> Inl 0"

lemma no_zero_simps [simp]:
  "no_zero (Inr x)" "no_zero (Inl c) \<longleftrightarrow> c \<noteq> 0"
  "no_zero (if b then m else n) \<longleftrightarrow> (if b then no_zero m else no_zero n)"
  by (simp_all add: no_zero_def)

lemma no_zero_bind [intro!]:
  "no_zero m \<Longrightarrow> (\<And>x. no_zero (f x)) \<Longrightarrow> no_zero (bind_r m f)"
  by (cases m) (auto simp: no_zero_def)

lemmas exit_codes = VALID_def INVALID_PROOF_def MALFORMED_REQUEST_def UNSUPPORTED_ALGORITHM_def
  UNSUPPORTED_PROFILE_def KEY_ID_MISMATCH_def MALFORMED_KEY_def MALFORMED_PROOF_def
  DIGEST_BINDING_FAILURE_def AUX_MISMATCH_def INTERNAL_ERROR_def

lemma parse_proof_no_zero: "no_zero (parse_proof d)"
proof -
  have t: "no_zero (take_at d off n)" for off n
    by (auto simp: take_at_def exit_codes split: option.split)
  have "no_zero (take_u16 d off)" for off
    unfolding take_u16_def by (rule no_zero_bind [OF t]) (simp split: prod.split)
  with t show ?thesis
    by (auto simp: parse_proof_def exit_codes split: list.split prod.split)
qed

lemma json_no_zero: "no_zero (string_rest r)" "no_zero (json_string r)" "no_zero (skip_primitive r)"
proof -
  show s: "no_zero (string_rest r)" for r
    by (induction r) (auto simp: exit_codes split: prod.split)
  show "no_zero (json_string r)" using s by (auto simp: json_string_def exit_codes split: list.split)
  show "no_zero (skip_primitive r)" by (simp add: skip_primitive_def exit_codes)
qed

lemma client_member_no_zero: "no_zero (client_member ch org r f)"
proof -
  have "no_zero (take_member ch org k v f)" for k v by (simp add: take_member_def exit_codes)
  then show ?thesis
    by (auto simp: client_member_def json_no_zero exit_codes Let_def split: list.split prod.split)
qed

lemma client_members_no_zero: "no_zero (client_members ch org r f)"
proof (induction r arbitrary: f rule: measure_induct_rule [where f = length])
  case (less r)
  show ?case
  proof (cases "client_member ch org (skip_ws r) f")
    case (Inl e)
    then show ?thesis
      using client_member_no_zero [of ch org "skip_ws r" f] by (subst client_members.simps) simp
  next
    case (Inr x)
    obtain r1 f1 where x: "x = (r1, f1)" by (cases x)
    have "length (skip_ws r1) < length r"
      using length_client_member [of ch org "skip_ws r" f r1 f1] Inr x length_skip_ws [of r] length_skip_ws [of r1] by simp
    then have "no_zero (client_members ch org r2 f1)" if "skip_ws r1 = c # r2" for c r2
      using less that by (metis length_Cons Suc_lessD)
    moreover have "no_zero (client_members ch org (c # r2) f1)" if "skip_ws r1 = c # r2" for c r2
      using less \<open>length (skip_ws r1) < length r\<close> that by metis
    ultimately show ?thesis
      using Inr x by (subst client_members.simps) (auto simp: exit_codes split: list.split)
  qed
qed

lemma verify_no_zero: "no_zero (verify P H sha d)"
proof -
  have "no_zero (validate_client_data j ch org)" for j ch org
    by (auto simp: validate_client_data_def client_members_no_zero exit_codes split: list.split prod.split)
  moreover have "no_zero (map_err (\<lambda>_. MALFORMED_REQUEST) m)" for m :: "'e + verifier_request"
    by (cases m) (simp_all add: exit_codes)
  ultimately show ?thesis
    by (auto simp: verify_def parse_proof_no_zero exit_codes split: option.split)
qed

lemma bind_io_no_zero:
  assumes "no_zero (fst (m w))" and "\<And>x w'. no_zero (fst (f x w'))"
  shows "no_zero (fst (bind_io m f w))"
  using assms by (cases "m w"; cases "fst (m w)") auto

lemma malformed_no_zero: "no_zero (fst (malformed m w))"
  by (cases "m w"; cases "fst (m w)") (auto simp: malformed_def exit_codes)

lemma read_request_no_zero: "no_zero (fst (read_request R w))"
proof -
  have extra: "no_zero (fst (case cs_read R fd 1 w of
             (Inr extra, w') \<Rightarrow> if extra = [] then (Inr (), w') else (Inl MALFORMED_REQUEST, w')
           | (Inl OtherEndClosed, w') \<Rightarrow> (Inr (), w')
           | (Inl _, w') \<Rightarrow> (Inl MALFORMED_REQUEST, w')))" for fd w
    by (simp add: exit_codes split: prod.split sum.split sys_error.split)
  have close: "no_zero (fst (case cs_close R fd w of (r, w') \<Rightarrow> (map_err (\<lambda>_. INTERNAL_ERROR) r, w')))" for fd w
    by (cases "cs_close R fd w"; cases "fst (cs_close R fd w)") (auto simp: exit_codes)
  obtain n fd w0 where w0: "cs_inherited_fds R w = ((n, fd), w0)" by (metis prod.collapse)
  show ?thesis
    unfolding read_request_def w0 case_prod_conv Let_def
    by (cases "n = 1")
       (auto intro!: bind_io_no_zero malformed_no_zero extra [unfolded One_nat_def] close [unfolded INTERNAL_ERROR_def]
        simp: exit_codes split: option.split)
qed

text \<open>
  A verifier program: it reads the request from the inherited descriptor and exits with the
  answer of its check. Every verifier of the repository has this shape, with its own \<^verbatim>\<open>verify\<close>.
\<close>

locale verifier_program =
  fixes check :: "bytes \<Rightarrow> int + unit" and main :: "'w child_syscalls \<Rightarrow> 'w \<Rightarrow> int"
  assumes main_eq: "main R w = (case read_request R w of
      (Inl c, _) \<Rightarrow> c | (Inr request, _) \<Rightarrow> (case check request of Inl c \<Rightarrow> c | Inr _ \<Rightarrow> VALID))"
    and check_parses: "check d = Inr u \<Longrightarrow> \<exists>q. parse_verifier_request d = Inr q"
    and check_no_zero: "no_zero (check d)"
begin

lemma main_iff:
  assumes "child_reads R fd unread"
  shows "main R w = VALID \<longleftrightarrow> check (unread w) = Inr ()"
proof
  assume v: "check (unread w) = Inr ()"
  then obtain q where "parse_verifier_request (unread w) = Inr q" using check_parses by blast
  then obtain w' where "read_request R w = (Inr (unread w), w')" using read_request_ok [OF assms] by blast
  with v show "main R w = VALID" by (simp add: main_eq)
next
  assume e: "main R w = VALID"
  obtain x w' where r: "read_request R w = (x, w')" by (cases "read_request R w")
  then obtain d where d: "x = Inr d"
    using e read_request_no_zero [of R w] by (cases x) (auto simp: main_eq VALID_def)
  then have "d = unread w" using read_request_Inr [OF assms] r by blast
  then show "check (unread w) = Inr ()"
    using e r d check_no_zero [of d] by (auto simp: main_eq VALID_def no_zero_def split: sum.splits)
qed

end

interpretation p256: verifier_program "verify P H sha" "\<lambda>R. verifier_entry R P H sha" for P H sha
proof unfold_locales
  show "\<exists>q. parse_verifier_request d = Inr q" if "verify P H sha d = Inr u" for d u
    using that by (auto simp: verify_def bind_r_Inr_iff map_err_Inr_iff)
qed (simp_all add: verifier_entry_def verify_no_zero)

text \<open>What the verifier has checked of a request it accepts.\<close>

definition passkey_proof_ok ::
  "('k, 's) p256_crate \<Rightarrow> (bytes \<Rightarrow> bytes) \<Rightarrow> (bytes \<Rightarrow> bytes) \<Rightarrow> authenticator_entry \<Rightarrow> bytes \<Rightarrow> p256_proof_input \<Rightarrow> bool"
where
  "passkey_proof_ok P H sha e digest pf \<longleftrightarrow>
     ae_algorithm_id e = 1 \<and> ae_aux e = 1 # take 32 (authenticatorData pf) @ sha (origin pf)
     \<and> H (publicKey pf) = ae_key_id e \<and> authenticatorData pf ! 32 AND 0x05 = 0x05
     \<and> validate_client_data (clientDataJson pf) (ascii (base64urlEncode digest)) (origin pf) = Inr ()
     \<and> publicKey pf ! 0 = 4
     \<and> (\<exists>key sig. p256_from_sec1_bytes P (publicKey pf) = Some key \<and> p256_to_sec1_point P key = publicKey pf
         \<and> p256_from_der P (signature pf) = Some sig \<and> p256_to_der P sig = signature pf
         \<and> p256_verify_prehash P key (sha (authenticatorData pf @ sha (clientDataJson pf))) sig)"

lemma aux_split:
  assumes "length s = 32" and "length a = 32"
  shows "(length x = 65 \<and> x ! 0 = 1 \<and> s = seg 33 65 x \<and> a = seg 1 33 x) \<longleftrightarrow> x = (1 :: byte) # a @ s"
proof
  assume x: "length x = 65 \<and> x ! 0 = 1 \<and> s = seg 33 65 x \<and> a = seg 1 33 x"
  then have "x = seg 0 1 x @ seg 1 33 x @ seg 33 65 x" by (simp add: seg_append_seg) (simp add: seg_def)
  moreover have "seg 0 1 x = [1]" using x by (cases x) (auto simp: seg_def)
  ultimately show "x = 1 # a @ s" using x by simp
qed (use assms in \<open>simp add: seg_def\<close>)

lemma verify_iff:
  assumes "parse_verifier_request d = Inr (request_of e op dg payload)" and sha: "\<And>x. length (sha x) = 32"
    and dg: "length dg = 32" and aux: "ae_aux e \<noteq> []"
  shows "verify P H sha d = Inr () \<longleftrightarrow> (\<exists>pf. parse_proof payload = Inr pf \<and> passkey_proof_ok P H sha e dg pf)"
proof -
  have "(length (ae_aux e) = 65 \<and> ae_aux e ! 0 = 1 \<and> sha (origin pf) = seg 33 65 (ae_aux e)
      \<and> seg 0 32 (authenticatorData pf) = seg 1 33 (ae_aux e)) \<longleftrightarrow>
      ae_aux e = 1 # take 32 (authenticatorData pf) @ sha (origin pf)" if "parse_proof payload = Inr pf" for pf
    using aux_split [of "sha (origin pf)" "take 32 (authenticatorData pf)" "ae_aux e"] sha parse_proof_sound [OF that]
    by (simp add: p256_ok_def seg_def [of 0])
  then have a: "parse_proof payload = Inr pf \<Longrightarrow>
      ae_aux e = 1 # take 32 (authenticatorData pf) @ sha (origin pf) \<longleftrightarrow>
      (length (ae_aux e) = 65 \<and> ae_aux e ! 0 = 1 \<and> sha (origin pf) = seg 33 65 (ae_aux e)
      \<and> seg 0 32 (authenticatorData pf) = seg 1 33 (ae_aux e))" for pf
    by blast
  have hd: "hd (ae_aux e) = ae_aux e ! 0" using aux by (rule hd_conv_nth)
  have opt: "(case z of None \<Rightarrow> Inl c | Some x \<Rightarrow> f x) = Inr y \<longleftrightarrow> (\<exists>x. z = Some x \<and> f x = Inr y)"
    for z :: "'x option" and c :: int and f :: "'x \<Rightarrow> int + unit" and y
    by (cases z) simp_all
  have sel: "vr_algorithm_id (request_of e op dg payload) = ae_algorithm_id e"
    "vr_verifier_profile (request_of e op dg payload) = ae_aux e ! 0" "vr_aux (request_of e op dg payload) = ae_aux e"
    "vr_proof (request_of e op dg payload) = payload" "vr_key_id (request_of e op dg payload) = ae_key_id e"
    "vr_authorization_digest (request_of e op dg payload) = dg"
    using hd by (simp_all add: request_of_def)
  show ?thesis
    unfolding verify_def assms(1) map_err_simps bind_r_simps passkey_proof_ok_def sel
      bind_r_Inr_iff if_Inl_Inr_iff base64url_digest_eq [OF dg] opt de_Morgan_disj not_not
    using a by (simp cong: conj_cong) blast
qed

section \<open>A sample request\<close>

definition sample_sha :: "bytes \<Rightarrow> bytes" where "sample_sha d = le_bytes 32 (of_le d)"

definition sample_p256 :: "(bytes, bytes) p256_crate" where
  "sample_p256 = \<lparr>p256_from_sec1_bytes = Some, p256_to_sec1_point = id, p256_from_der = Some, p256_to_der = id,
     p256_verify_prehash = (\<lambda>k h s. s = [0x30])\<rparr>"

definition sample_reader :: "bytes child_syscalls" where
  "sample_reader = \<lparr>cs_inherited_fds = (\<lambda>w. ((1, 0), w)),
     cs_read = (\<lambda>fd n w. (Inr (take (min n 3) w), drop (min n 3) w)), cs_close = (\<lambda>fd w. (Inr (), w))\<rparr>"

definition sample_client :: "bytes \<Rightarrow> client_object" where
  "sample_client ch = [(ascii ''type'', Text (ascii ''webauthn.get'')), (ascii ''challenge'', Text ch),
     (ascii ''origin'', Text (ascii ''o'')), (ascii ''crossOrigin'', Scalar (ascii ''false''))]"

definition sample_challenge :: bytes where
  "sample_challenge = ascii (base64urlEncode (replicate 32 0))"

definition sample_passkey_proof :: p256_proof_input where
  "sample_passkey_proof = \<lparr>publicKey = 4 # replicate 64 0, origin = ascii ''o'', authenticatorData = replicate 32 7 @ replicate 5 5,
     clientDataJson = client_json (sample_client sample_challenge), signature = [0x30]\<rparr>"

definition sample_passkey :: authenticator_entry where
  "sample_passkey = \<lparr>ae_slot = 0, ae_algorithm_id = 1, ae_capabilities = 1, ae_weight = 1,
     ae_verifier_hash_type = 0, ae_verifier_abi = 1, ae_verifier_code_hash = replicate 32 9,
     ae_key_id = sample_sha (4 # replicate 64 0), ae_aux = 1 # replicate 32 7 @ sample_sha (ascii ''o'')\<rparr>"

lemma sample_reader_reads: "child_reads sample_reader 0 (\<lambda>w. w)"
  unfolding child_reads_def
  by (auto simp: sample_reader_def)

lemma sample_client_ok: "client_object_ok (sample_client sample_challenge)"
  by (simp add: client_object_ok_def sample_client_def sample_challenge_def plain_def [of "ascii (base64urlEncode _)"] plain_challenge)
     (simp add: plain_def ascii_def whitespace_def)

lemma sample_client_once:
  "exactly_once (ascii ''type'') (ascii ''webauthn.get'') (sample_client ch)"
  "exactly_once (ascii ''challenge'') ch (sample_client ch)" "exactly_once (ascii ''origin'') (ascii ''o'') (sample_client ch)"
  by (simp_all add: exactly_once_def sample_client_def ascii_def)

lemma sample_proof_ok: "p256_ok sample_passkey_proof" "length (p256_layout sample_passkey_proof) \<le> 65536"
proof -
  have "length (sixes bs) \<le> 2 * length bs" for bs by (induction bs rule: sixes.induct) simp_all
  from this [of "replicate 32 0"] have "length sample_challenge \<le> 64"
    by (simp add: sample_challenge_def base64urlEncode_sixes ascii_def)
  then show "p256_ok sample_passkey_proof" "length (p256_layout sample_passkey_proof) \<le> 65536"
    by (simp_all add: p256_ok_def p256_layout_def sample_passkey_proof_def client_json_def sample_client_def json_quoted_def ascii_def)
qed

lemmas sample_proof_length = sample_proof_ok(2)

lemma p256_layout_le: "p256_ok pf \<Longrightarrow> length (p256_layout pf) < 2 ^ 64"
  by (simp add: p256_ok_def p256_layout_def)

section \<open>Properties\<close>

text \<open>
  C7: the verifier's JSON scanner accepts client data exactly when they say what they must. For
  every object of unescaped strings and scalars in compact form, \<^verbatim>\<open>validate_client_data\<close> succeeds
  exactly when the members \<^verbatim>\<open>type\<close>, \<^verbatim>\<open>challenge\<close> and \<^verbatim>\<open>origin\<close> each occur exactly once with the
  required text, whatever else the object holds and in whatever order; the challenge text the
  verifier computes from a 32-byte digest is the one the browser encodes.
\<close>

theorem client_data_exact:
  assumes "client_object_ok ms" and "length digest = 32"
  shows "(validate_client_data (client_json ms) (base64url_digest digest) org = Inr ()) =
    (exactly_once (ascii ''type'') (ascii ''webauthn.get'') ms
     \<and> exactly_once (ascii ''challenge'') (ascii (base64urlEncode digest)) ms
     \<and> exactly_once (ascii ''origin'') org ms)"
  unfolding base64url_digest_eq [OF assms(2)] by (rule validate_client_json [OF assms(1)])

theorem client_data_exact_witness:
  "validate_client_data (client_json (sample_client sample_challenge)) (base64url_digest (replicate 32 0)) (ascii ''o'') = Inr ()"
  using client_data_exact [OF sample_client_ok, of "replicate 32 0" "ascii ''o''"]
    sample_client_once [of sample_challenge] sample_challenge_def
  by simp



end
