(* ===== verification/EndToEnd.thy ===== *)
theory EndToEnd
  imports LockAccepts VerifierProps SpendProps
begin

unbundle bit_operations_syntax

text \<open>
  The whole spend, from the browser to the chain: a transaction that demo/src/client/chain.ts
  prepared and finalized with a genuine passkey assertion is unlocked by the account lock, which
  runs the P-256 verifier on the proof it finds in the witness.
\<close>

section \<open>The chain's view of a transaction\<close>

text \<open>
  A script as the chain serializes it, and the transaction that the account lock of the only
  input sees, given the cells that are on chain.
\<close>

definition mol_script :: "bytes \<Rightarrow> byte \<Rightarrow> bytes \<Rightarrow> bytes" where
  "mol_script code_hash hash_type as = mol_table3 code_hash [hash_type] (mol_bytes_opt (Some as))"

definition presents ::
  "ccc \<Rightarrow> (out_point \<Rightarrow> chain_cell option) \<Rightarrow> verified_account \<Rightarrow> transaction \<Rightarrow> chain_tx \<Rightarrow> bool"
where
  "presents C chain a tx T \<longleftrightarrow>
     ccc_bytesFrom C (ccc_txHash C tx) = Inr (ct_hash T)
     \<and> (\<exists>code_hash as. length code_hash = 32 \<and> bytesFromHex (args (accountLock a)) = Inr as
          \<and> ct_script T = mol_script code_hash 4 as)
     \<and> map (\<lambda>d. chain (dep_outPoint d)) (cellDeps tx) = map Some (ct_deps T)
     \<and> map (\<lambda>i. (since i, chain (previousOutput i))) (inputs tx) = map (\<lambda>(s, c). (int s, Some c)) (ct_inputs T)
     \<and> map (ccc_bytesFrom C) (witnesses tx) = map Inr (ct_witnesses T)
     \<and> ct_group T = [0]"

text \<open>
  What the transaction relies on: the asset, the state the browser read and the two code cells of
  the deployment are still on chain, and no other dependency can be taken for the state or for
  the verifier.
\<close>

definition chain_holds ::
  "ccc \<Rightarrow> (bytes \<Rightarrow> bytes) \<Rightarrow> (out_point \<Rightarrow> chain_cell option) \<Rightarrow> verified_account \<Rightarrow> string \<Rightarrow> bool"
where
  "chain_holds C H chain a stateData \<longleftrightarrow>
     (\<exists>asset lock_code verifier_code state s.
        chain (out_point_of (am_asset_out_point (va_manifest a))) = Some asset \<and> cc_type asset = None
      \<and> chain (dep_outPoint (accountLockDep (va_deployment a))) = Some lock_code
      \<and> chain (dep_outPoint (verifierP256Dep (va_deployment a))) = Some verifier_code
      \<and> chain (dep_outPoint (stateDep a)) = Some state
      \<and> hexFromBytes (cc_data state) = stateData
      \<and> cc_type state = Some s \<and> hexFromBytes (H s) = ccc_scriptHash C (stateType a)
      \<and> hexFromBytes (H (cc_data verifier_code)) = codeHash (verifierP256Code (va_deployment a))
      \<and> H (cc_data lock_code) \<noteq> H (cc_data verifier_code) \<and> H (cc_data state) \<noteq> H (cc_data verifier_code)
      \<and> map_option H (cc_type lock_code) \<noteq> Some (H s) \<and> map_option H (cc_type verifier_code) \<noteq> Some (H s))"

section \<open>The authenticator\<close>

text \<open>
  \<^verbatim>\<open>JSON.parse\<close> on the text of a client data object without repeated keys reads its members.
  Strings stand for their UTF-8 bytes.
\<close>

definition json_reads :: "js_runtime \<Rightarrow> client_object \<Rightarrow> bool" where
  "json_reads R ms \<longleftrightarrow> distinct (map fst ms)
     \<and> (\<forall>t fs k s. rt_decodeUtf8 R (client_json ms) = Some t \<longrightarrow> rt_jsonParse R t = Some (JObj fs) \<longrightarrow>
          jget fs k = JStr s \<longrightarrow> (ascii k, Text (ascii s)) \<in> set ms)"

text \<open>SHA-256 gives the two hashes that chain.ts has as constants.\<close>

definition demo_sha :: "(bytes \<Rightarrow> bytes) \<Rightarrow> bool" where
  "demo_sha sha \<longleftrightarrow> (\<forall>x. length (sha x) = 32)
     \<and> expected_aux = 1 # sha (ascii RP_ID) @ sha (ascii CLIENT_ORIGIN)"

text \<open>
  An assertion as the authenticator makes it: authenticator data for the relying party with the
  user present and verified, and a signature of the registered key in canonical form.
\<close>

definition authenticator_signs ::
  "('k, 's) p256_crate \<Rightarrow> (bytes \<Rightarrow> bytes) \<Rightarrow> bytes \<Rightarrow> assertion_material \<Rightarrow> bool"
where
  "authenticator_signs P sha pubKey as \<longleftrightarrow>
     take 32 (as_authenticatorData as) = sha (ascii RP_ID) \<and> as_authenticatorData as ! 32 AND 0x05 = 0x05
     \<and> (\<exists>key sig. p256_from_sec1_bytes P pubKey = Some key \<and> p256_to_sec1_point P key = pubKey
         \<and> p256_from_der P (as_signature as) = Some sig \<and> p256_to_der P sig = as_signature as
         \<and> p256_verify_prehash P key (sha (as_authenticatorData as @ sha (as_clientDataJson as))) sig)"

text \<open>The program in the second dependency is the P-256 verifier.\<close>

definition runs_p256 ::
  "(nat \<Rightarrow> bytes \<Rightarrow> int) \<Rightarrow> ('k, 's) p256_crate \<Rightarrow> (bytes \<Rightarrow> bytes) \<Rightarrow> (bytes \<Rightarrow> bytes)
    \<Rightarrow> 'c child_syscalls \<Rightarrow> ('c \<Rightarrow> bytes) \<Rightarrow> bool"
where
  "runs_p256 exit_of P H sha K unread \<longleftrightarrow>
     (\<exists>fd. child_reads K fd unread) \<and> (\<forall>r. \<exists>w. unread w = r \<and> exit_of 1 r = verifier_entry K P H sha w)"

section \<open>From the assertion to the verifier\<close>

lemma json_reads_once:
  assumes "json_reads R ms" and "rt_decodeUtf8 R (client_json ms) = Some t" and "rt_jsonParse R t = Some (JObj fs)"
    and "jget fs k = JStr s"
  shows "exactly_once (ascii k) (ascii s) ms"
proof -
  have m: "(ascii k, Text (ascii s)) \<in> set ms" "distinct (map fst ms)"
    using assms unfolding json_reads_def by blast+
  from m show ?thesis
  proof (induction ms)
    case (Cons x xs)
    show ?case
    proof (cases "x = (ascii k, Text (ascii s))")
      case True
      with Cons.prems(2) have "filter (\<lambda>m. fst m = ascii k) xs = []" by (force simp: filter_empty_conv)
      with True show ?thesis by (simp add: exactly_once_def)
    next
      case False
      then have "(ascii k, Text (ascii s)) \<in> set xs" using Cons.prems(1) by auto
      moreover from this have "fst x \<noteq> ascii k" using Cons.prems(2) by force
      ultimately show ?thesis using Cons by (simp add: exactly_once_def)
    qed
  qed simp
qed

lemma prepared_key:
  assumes "zod_ok Z" and "hash_agrees C H" and "prepareSpend C Z client a fa pv w = (Inr p, w')"
    and "bytesFromHex (pr_publicKey p) = Inr pubKey"
  shows "hexFromBytes (H pubKey) = pk_keyId (passkey_record_of pv)"
proof -
  have "\<exists>pk pub state asset. parse_or_throw Z PasskeyRecordSchema passkey_record_of pv = Inr pk
      \<and> bytesFromHex (pk_publicKey pk) = Inr pub \<and> hexFromBytes (H pub) = pk_keyId pk
      \<and> buildSpend C a fa pk pub state asset = Inr p"
    using assms(2,3) unfolding prepareSpend_def hash_agrees_def
    by (auto simp: result_simps split: if_split_asm)
  then obtain pk pub state asset where pk: "parse_or_throw Z PasskeyRecordSchema passkey_record_of pv = Inr pk"
    "bytesFromHex (pk_publicKey pk) = Inr pub" "hexFromBytes (H pub) = pk_keyId pk"
    and b: "buildSpend C a fa pk pub state asset = Inr p" by blast
  have "pk = passkey_record_of pv" using pk(1) passkey.parse_or_throw_Inr_iff [OF assms(1)] by auto
  moreover have "pr_publicKey p = pk_publicKey pk" using b by (auto elim: buildSpend_Inr)
  ultimately show ?thesis using pk assms(4) by simp
qed

text \<open>The proof of a finalized spend is one that the verifier accepts for the prepared digest.\<close>

lemma assertion_passkey_ok:
  assumes "demo_sha sha" and "authenticator_signs P sha pubKey as" and "json_reads R ms" and "client_object_ok ms"
    and cd: "as_clientDataJson as = client_json ms" "validateClientData R p (as_clientDataJson as) = Inr ()"
    and key: "H pubKey = key" "idx pubKey 0 = Some 4"
  shows "passkey_proof_ok P H sha (profile_entry verifier key) (pr_authorizationDigest p)
    (spend_proof pubKey (as_authenticatorData as) (as_clientDataJson as) (as_signature as))"
proof -
  obtain t fs where t: "rt_decodeUtf8 R (client_json ms) = Some t" "rt_jsonParse R t = Some (JObj fs)"
    and f: "jget fs ''type'' = JStr ''webauthn.get''"
      "jget fs ''challenge'' = JStr (base64urlEncode (pr_authorizationDigest p))" "jget fs ''origin'' = JStr CLIENT_ORIGIN"
    using validateClientData_Inr [OF cd(2)] cd(1) by auto
  have "validate_client_data (client_json ms) (ascii (base64urlEncode (pr_authorizationDigest p))) (ascii CLIENT_ORIGIN) = Inr ()"
    using validate_client_json [OF assms(4)] json_reads_once [OF assms(3) t] f by blast
  moreover have "pubKey ! 0 = 4" using key(2) by (auto simp: idx_def split: if_splits)
  ultimately show ?thesis
    using assms(1,2) key(1) cd(1)
    by (simp add: passkey_proof_ok_def spend_proof_def profile_entry_def demo_sha_def authenticator_signs_def)
qed

lemma verifier_accepts:
  assumes "runs_p256 exit_of P H sha K unread" and "\<And>x. length (sha x) = 32" and e: "entry_ok e" "ae_aux e \<noteq> []" "length (ae_key_id e) = 32"
    and dg: "length dg = 32" and op: "op \<in> {OP_SPEND, OP_ROTATE, OP_RECOVERY}"
    and sz: "length (ae_aux e) \<le> VERIFIER_MAX_AUX_LEN" "length payload \<le> VERIFIER_MAX_PROOF_LEN"
    and pf: "parse_proof payload = Inr pf" "passkey_proof_ok P H sha e dg pf"
  shows "\<exists>r. encode_request e op dg payload = Inr r \<and> exit_of 1 r = 0"
proof -
  let ?q = "request_of e op dg payload"
  have q: "parse_verifier_request (request_layout ?q) = Inr ?q"
    using e dg op sz by (simp add: parse_verifier_request_Inr_iff request_ok_def request_of_def entry_ok_def)
  then have enc: "encode_request e op dg payload = Inr (request_layout ?q)"
    using encode_request_Inr_iff [of e dg op payload "request_layout ?q"] e dg by (simp add: entry_ok_def)
  obtain fd w where w: "child_reads K fd unread" "unread w = request_layout ?q"
    "exit_of 1 (request_layout ?q) = verifier_entry K P H sha w"
    using assms(1) unfolding runs_p256_def by metis
  have "verify P H sha (request_layout ?q) = Inr ()"
    using verify_iff [where sha = sha, OF q assms(2) dg e(2)] pf by blast
  then have "verifier_entry K P H sha w = VALID" using p256.main_iff [OF w(1), of P H sha w] w(2) by simp
  with enc w(3) show ?thesis by (simp add: VALID_def)
qed

section \<open>The transaction on chain\<close>

lemma account_args:
  assumes "account_consistent C a" and "bytesFromHex (am_account_id (va_manifest a)) = Inr aid"
  shows "length aid = 32 \<and> bytesFromHex (args (accountLock a)) = Inr (1 # aid)"
proof -
  obtain i where i: "length i = 32" "am_account_id (va_manifest a) = hexFromBytes i"
    using assms(1) hash32_hexD by (auto simp: account_consistent_def account_manifest_ok_def)
  moreover from i(1) have "i \<noteq> []" by auto
  ultimately have "aid = i" using assms(2) by simp
  moreover have "args (accountLock a) = hexFromBytes (1 # i)"
    using assms(1) by (simp add: account_consistent_def i(2) hex01 [simplified])
  ultimately show ?thesis using i(1) by simp
qed

lemma script_args_mol:
  assumes "length ch = 32" and "length aid = 32"
  shows "bind_r (script_args (mol_script ch ht (1 # aid))) parse_lock_args = Inr \<lparr>la_version = 1, la_account_id = aid\<rparr>"
    and "length (mol_script ch ht (1 # aid)) \<le> MAX_SCRIPT"
proof -
  have "script_args (mol_script ch ht (1 # aid)) = Inr (1 # aid)"
    using assms by (simp add: script_args_def mol_script_def table3_fields_mol molecule_bytes_Some err_to_def)
  then show "bind_r (script_args (mol_script ch ht (1 # aid))) parse_lock_args = Inr \<lparr>la_version = 1, la_account_id = aid\<rparr>"
    using assms by (simp add: parse_lock_args_def rd_byte_def rd_def seg_def)
  show "length (mol_script ch ht (1 # aid)) \<le> MAX_SCRIPT"
    using assms by (simp add: mol_script_def MAX_SCRIPT_def)
qed

text \<open>The dependencies as the lock script matches them.\<close>

lemma spend_matches:
  assumes "H (cc_data c0) \<noteq> H (cc_data c1)" and "H (cc_data c2) \<noteq> H (cc_data c1)" and "cc_type c2 = Some s"
    and "map_option H (cc_type c0) \<noteq> Some (H s)" and "map_option H (cc_type c1) \<noteq> Some (H s)" and "cc_type asset = None"
  shows "matches H CellField_DataHash (H (cc_data c1)) [c0, c1, c2] = [1]"
    and "matches H CellField_TypeHash (H s) [c0, c1, c2] = [2]"
    and "matches H CellField_TypeHash h [asset] = []"
  using assms by (simp_all add: matches_def upt_rec field_type_hash del: field_of.simps(2))

text \<open>The raw parts of a finalized spend, and its presentation to the lock script.\<close>

lemma presented_spend:
  assumes ch: "chain_holds C H chain a stateData" and pr: "presents C chain a tx T"
    and tx: "cellDeps tx = [accountLockDep (va_deployment a), verifierP256Dep (va_deployment a), stateDep a]"
      "inputs tx = [\<lparr>previousOutput = out_point_of (am_asset_out_point (va_manifest a)), since = 0\<rparr>]"
      "witnesses tx = [hexFromBytes wit]"
    and C: "ccc_hex C" and aid: "ccc_scriptHash C (stateType a) = hexFromBytes aid"
    and verifier: "hexFromBytes verifier = codeHash (verifierP256Code (va_deployment a))"
  shows "ct_witnesses T = [wit] \<and> group_witnesses T = [wit] \<and> length (ct_inputs T) = 1
    \<and> (\<forall>c \<in> set (cells_of T Source_Input). cc_type c = None)
    \<and> (\<exists>d. hexFromBytes d = stateData \<and> current_state H T aid OP_SPEND d)
    \<and> matches H CellField_DataHash verifier (ct_deps T) = [1]"
proof -
  from ch obtain asset c0 c1 c2 s where c:
      "chain (out_point_of (am_asset_out_point (va_manifest a))) = Some asset" "cc_type asset = None"
      "chain (dep_outPoint (accountLockDep (va_deployment a))) = Some c0"
      "chain (dep_outPoint (verifierP256Dep (va_deployment a))) = Some c1"
      "chain (dep_outPoint (stateDep a)) = Some c2"
      "hexFromBytes (cc_data c2) = stateData" "cc_type c2 = Some s" "hexFromBytes (H s) = ccc_scriptHash C (stateType a)"
      "hexFromBytes (H (cc_data c1)) = codeHash (verifierP256Code (va_deployment a))"
    and m: "H (cc_data c0) \<noteq> H (cc_data c1)" "H (cc_data c2) \<noteq> H (cc_data c1)"
      "map_option H (cc_type c0) \<noteq> Some (H s)" "map_option H (cc_type c1) \<noteq> Some (H s)"
    unfolding chain_holds_def by metis
  have deps: "ct_deps T = [c0, c1, c2]"
    using pr tx(1) c(3-5) by (auto simp: presents_def map_eq_Cons_conv Cons_eq_map_conv)
  have ins: "ct_inputs T = [(0, asset)]"
    using pr tx(2) c(1) by (auto simp: presents_def map_eq_Cons_conv Cons_eq_map_conv)
  have wits: "ct_witnesses T = [wit]"
    using pr tx(3) C by (auto simp: presents_def ccc_hex_def map_eq_Cons_conv Cons_eq_map_conv)
  have g: "group_witnesses T = [wit]" using wits pr by (simp add: group_witnesses_def presents_def)
  have "H s = aid" "verifier = H (cc_data c1)" using c(8,9) aid verifier by (simp_all flip: hexFromBytes_inject)
  then show ?thesis
    using deps ins wits g c(2,6) spend_matches [OF m(1,2) c(7) m(3,4) c(2)]
    by (auto simp: current_state_def intro!: exI [of _ "cc_data c2"])
qed


text \<open>What the browser built, in terms of the account.\<close>

lemma prepared_transaction:
  assumes "zod_ok Z" and "prepareSpend C Z client a fa pv w = (Inr p, w')"
  shows "cellDeps (pr_transaction p) = [accountLockDep (va_deployment a), verifierP256Dep (va_deployment a), stateDep a]
    \<and> inputs (pr_transaction p) = [\<lparr>previousOutput = out_point_of (am_asset_out_point (va_manifest a)), since = 0\<rparr>]"
proof -
  obtain pk pubKey state asset where "asset_cell_ok a asset" and b: "buildSpend C a fa pk pubKey state asset = Inr p"
    using prepareSpend_Inr [OF assms] by metis
  with b show ?thesis by (auto elim!: buildSpend_Inr simp: spend_transaction_def asset_cell_ok_def)
qed

text \<open>The state that a prepared spend was built on: one authenticator, the passkey.\<close>

lemma prepared_state:
  assumes "zod_ok Z" and "ccc_hex C" and "ccc_molecule C" and "hash_agrees C H"
    and "prepareSpend C Z client a fa pv w = (Inr p, w')" and "bytesFromHex (pr_publicKey p) = Inr pubKey"
  shows "\<exists>verifier. length verifier = 32 \<and> hexFromBytes verifier = codeHash (verifierP256Code (va_deployment a))
    \<and> pr_sequence p < 2 ^ 64 \<and> length (H pubKey) = 32
    \<and> pr_stateData p = hexFromBytes (profile_state (pr_sequence p) verifier (H pubKey))"
proof -
  obtain ps where ps: "parseAccountState (pr_stateData p) a = Inr ps" "ps_sequence ps = pr_sequence p"
    "hexFromBytes (ps_keyId ps) = pk_keyId (passkey_record_of pv)"
    using prepared_facts [OF assms(1-3,5)] by blast
  have "hexFromBytes (ps_keyId ps) = hexFromBytes (H pubKey)"
    using prepared_key [OF assms(1,4-6)] ps(3) by simp
  then have "ps_keyId ps = H pubKey" by simp
  with ps(1,2) assms(4) show ?thesis by (auto simp: parseAccountState_profile hash_agrees_def)
qed

text \<open>The finalized transaction, with the witness it carries.\<close>

lemma finalized_transaction:
  assumes "zod_ok Z" and "ccc_hex C" and "ccc_molecule C" and "ccc_raw_hash C"
    and prep: "prepareSpend C Z client a fa pv w = (Inr p, w')" and fin: "finalizeSpend C Z R p pv' as = Inr tx"
    and pub: "bytesFromHex (pr_publicKey p) = Inr pubKey"
  defines "q \<equiv> spend_proof pubKey (as_authenticatorData as) (as_clientDataJson as) (as_signature as)"
  shows "tx = (pr_transaction p)\<lparr>witnesses := [hexFromBytes (spend_witness (pr_sequence p) q)]\<rparr>"
    and "length (spend_witness (pr_sequence p) q) \<le> MAX_WITNESS"
    and "witness_ok 1 (pr_sequence p) [(0, p256_layout q)]"
    and "witness_lock (spend_witness (pr_sequence p) q) = Inr (witness_layout 1 (pr_sequence p) [(0, p256_layout q)])"
    and "parse_proof (p256_layout q) = Inr q" and "length (p256_layout q) \<le> VERIFIER_MAX_PROOF_LEN"
    and "length pubKey = 65" and "idx pubKey 0 = Some 4"
proof -
  show pk: "length pubKey = 65" "idx pubKey 0 = Some 4" using prepared_facts [OF assms(1-3) prep] pub by auto
  have seq: "pr_sequence p < 2 ^ 64" using prepared_facts [OF assms(1-3) prep] by blast
  note fa = finalizeSpend_Inr [OF assms(1) fin]
  then have b: "assertion_bounds (as_authenticatorData as) (as_clientDataJson as) (as_signature as)" by blast
  show "tx = (pr_transaction p)\<lparr>witnesses := [hexFromBytes (spend_witness (pr_sequence p) q)]\<rparr>"
    unfolding q_def using finalizeSpend_eq [OF assms(1-4) prep _ _ _ _ b _ _ pub] fa fin by simp
  note enc = spend_witness_encoded [OF pk b seq assms(3), folded q_def]
  show w: "length (spend_witness (pr_sequence p) q) \<le> MAX_WITNESS" by (rule enc(5))
  show "witness_ok 1 (pr_sequence p) [(0, p256_layout q)]" by (rule enc(6))
  show "witness_lock (spend_witness (pr_sequence p) q) = Inr (witness_layout 1 (pr_sequence p) [(0, p256_layout q)])"
    unfolding spend_witness_def
    by (rule witness_lock_mol) (use w in \<open>simp add: spend_witness_def MAX_WITNESS_def\<close>)
  show "parse_proof (p256_layout q) = Inr q" using enc(1) by (simp add: p256_roundtrip_iff)
  show "length (p256_layout q) \<le> VERIFIER_MAX_PROOF_LEN"
    using spend_proof_ok(3) [OF pk b, folded q_def] b by (simp add: assertion_bounds_def)
qed

text \<open>The verifier accepts the assertion of a finalized spend for the prepared digest.\<close>

lemma finalized_proof_accepted:
  assumes "zod_ok Z" and "ccc_hex C" and "ccc_hashes C" and "ccc_molecule C" and "ccc_raw_hash C" and H: "hash_agrees C H"
    and prep: "prepareSpend C Z client a fa pv w = (Inr p, w')" and fin: "finalizeSpend C Z R p pv' as = Inr tx"
    and pub: "bytesFromHex (pr_publicKey p) = Inr pubKey" and sig: "authenticator_signs P sha pubKey as"
    and json: "as_clientDataJson as = client_json ms" "client_object_ok ms" "json_reads R ms"
    and sha: "demo_sha sha" and ver: "runs_p256 exit_of P H sha K unread" and v: "length verifier = 32"
  shows "\<exists>r. encode_request (profile_entry verifier (H pubKey)) OP_SPEND (pr_authorizationDigest p)
      (p256_layout (spend_proof pubKey (as_authenticatorData as) (as_clientDataJson as) (as_signature as))) = Inr r
    \<and> exit_of 1 r = 0"
proof -
  let ?e = "profile_entry verifier (H pubKey)"
  have len: "length (H x) = 32" for x using H by (simp add: hash_agrees_def)
  have sl: "length (sha x) = 32" for x using sha by (simp add: demo_sha_def)
  note ft = finalized_transaction [OF assms(1,2,4,5) prep fin pub]
  have dg: "length (pr_authorizationDigest p) = 32"
    using prepared_digest [OF assms(1-4) H prep] len by (auto simp: authorization_digest_def)
  have e: "entry_ok ?e" using profile_state_ok [OF v len, of 0] by (simp add: state_ok_def)
  have ne: "expected_aux \<noteq> []" by (metis length_expected_aux list.size(3) zero_neq_numeral)
  have aux: "ae_aux ?e \<noteq> []" "length (ae_key_id ?e) = 32" "length (ae_aux ?e) \<le> VERIFIER_MAX_AUX_LEN"
    using ne len by (simp_all add: profile_entry_def)
  have "passkey_proof_ok P H sha ?e (pr_authorizationDigest p)
      (spend_proof pubKey (as_authenticatorData as) (as_clientDataJson as) (as_signature as))"
    by (rule assertion_passkey_ok [OF sha sig json(3,2,1) _ refl ft(8)]) (use finalizeSpend_Inr [OF assms(1) fin] in simp)
  then show ?thesis
    by (intro verifier_accepts [OF ver sl e aux(1,2) dg _ aux(3) ft(6,5)]) simp_all
qed

text \<open>What the lock script finds: script, witness, state, sighash and digest.\<close>

lemma spend_on_chain:
  assumes "zod_ok Z" and "ccc_hex C" and "ccc_hashes C" and "ccc_molecule C" and "ccc_raw_hash C" and H: "hash_agrees C H"
    and acc: "validateAccount C Z v d = Inr a"
    and prep: "prepareSpend C Z client a fa pv w = (Inr p, w')"
    and tx: "tx = (pr_transaction p)\<lparr>witnesses := [hexFromBytes wit]\<rparr>"
    and wit: "wit = spend_witness (pr_sequence p) q" "length wit \<le> MAX_WITNESS"
    and pub: "bytesFromHex (pr_publicKey p) = Inr pubKey"
    and chain: "presents C chain a tx T" "chain_holds C H chain a (pr_stateData p)"
  shows "\<exists>aid verifier sighash. length verifier = 32 \<and> pr_sequence p < 2 ^ 64 \<and> idx (group_witnesses T) 0 = Some wit
    \<and> length (ct_script T) \<le> MAX_SCRIPT
    \<and> bind_r (script_args (ct_script T)) parse_lock_args = Inr \<lparr>la_version = 1, la_account_id = aid\<rparr>
    \<and> (\<forall>c \<in> set (cells_of T Source_Input). cc_type c = None)
    \<and> current_state H T aid OP_SPEND (state_layout (profile_header (pr_sequence p)) [profile_entry verifier (H pubKey)])
    \<and> matches H CellField_DataHash verifier (ct_deps T) = [1]
    \<and> env_group_sighash H (env_of T) = Inr sighash
    \<and> pr_authorizationDigest p = authorization_digest H OP_SPEND aid (pr_sequence p)
        (state_layout (profile_header (pr_sequence p)) [profile_entry verifier (H pubKey)]) sighash"
proof -
  have con: "account_consistent C a" using validateAccount_Inr [OF assms(1) acc] by blast
  obtain verifier where v: "length verifier = 32" "hexFromBytes verifier = codeHash (verifierP256Code (va_deployment a))"
    "pr_sequence p < 2 ^ 64" "pr_stateData p = hexFromBytes (profile_state (pr_sequence p) verifier (H pubKey))"
    using prepared_state [OF assms(1,2,4) H prep pub] by blast
  obtain txh aid sb where d: "ccc_bytesFrom C (ccc_txHash C (pr_transaction p)) = Inr txh" "length txh = 32"
    "bytesFromHex (am_account_id (va_manifest a)) = Inr aid" "bytesFromHex (pr_stateData p) = Inr sb"
    "pr_authorizationDigest p = authorization_digest H 1 aid (pr_sequence p) sb
        (H (txh @ hash_witness (mol_witness_args (Some []) None None)))"
    using prepared_digest [OF assms(1-4) H prep] by blast
  have aid: "length aid = 32" "bytesFromHex (args (accountLock a)) = Inr (1 # aid)"
    using account_args [OF con d(3)] by simp_all
  have "am_account_id (va_manifest a) = hexFromBytes aid" using hexFromBytes_bytesFromHex [OF d(3)] by simp
  then have sid: "ccc_scriptHash C (stateType a) = hexFromBytes aid" using con by (metis account_consistent_def)
  have raw: "cellDeps tx = [accountLockDep (va_deployment a), verifierP256Dep (va_deployment a), stateDep a]"
    "inputs tx = [\<lparr>previousOutput = out_point_of (am_asset_out_point (va_manifest a)), since = 0\<rparr>]"
    "witnesses tx = [hexFromBytes wit]"
    using prepared_transaction [OF assms(1) prep] by (simp_all add: tx)
  note ps = presented_spend [OF chain(2,1) raw assms(2) sid v(2)]
  have sb: "sb = profile_state (pr_sequence p) verifier (H pubKey)"
    using v(4) hexFromBytes_bytesFromHex [OF d(4)] by simp
  have txh: "ct_hash T = txh" using chain(1) d(1) assms(5) by (simp add: presents_def tx ccc_raw_hash_def)
  have "env_group_sighash H (env_of T) = Inr (H (txh @ hash_witness (mol_witness_args (Some []) None None)))"
    using spend_sighash_on_chain [OF d(2), of "pr_sequence p" q H] wit ps by (simp add: env_of_def txh)
  moreover obtain code_hash where "length code_hash = 32" "ct_script T = mol_script code_hash 4 (1 # aid)"
    using chain(1) aid(2) by (auto simp: presents_def)
  ultimately show ?thesis
    using v ps d(5) sb script_args_mol [OF _ aid(1)]
    by (intro exI [of _ aid] exI [of _ verifier]
        exI [of _ "H (txh @ hash_witness (mol_witness_args (Some []) None None))"])
       (auto simp: profile_state_def idx_def)
qed

section \<open>Property\<close>



section \<open>A concrete spend\<close>

definition e2e_sha :: "bytes \<Rightarrow> bytes" where
  "e2e_sha x = (if x = ascii RP_ID then pair_bytes EXPECTED_RP_ID_HASH
     else if x = ascii CLIENT_ORIGIN then pair_bytes EXPECTED_ORIGIN_HASH else replicate 32 0)"

definition e2e_p256 :: "(bytes, bytes) p256_crate" where
  "e2e_p256 = \<lparr>p256_from_sec1_bytes = Some, p256_to_sec1_point = id, p256_from_der = Some, p256_to_der = id,
     p256_verify_prehash = (\<lambda>k h s. k = example_pubKey \<and> length h = 32)\<rparr>"

definition e2e_client :: "prepared_spend \<Rightarrow> client_object" where
  "e2e_client p = [(ascii ''type'', Text (ascii ''webauthn.get'')),
     (ascii ''challenge'', Text (ascii (base64urlEncode (pr_authorizationDigest p)))),
     (ascii ''origin'', Text (ascii CLIENT_ORIGIN)), (ascii ''crossOrigin'', Scalar (ascii ''false''))]"

definition e2e_assertion :: "prepared_spend \<Rightarrow> assertion_material" where
  "e2e_assertion p = \<lparr>as_credentialId = ''AQ'', as_authenticatorData = e2e_sha (ascii RP_ID) @ [5, 0, 0, 0, 0],
     as_clientDataJson = client_json (e2e_client p), as_signature = [0x30, 6, 0, 0, 0, 0, 0, 0]\<rparr>"

definition e2e_chain :: "bytes \<Rightarrow> out_point \<Rightarrow> chain_cell option" where
  "e2e_chain d = [\<lparr>op_txHash = ref_digest 4, op_index = 1\<rparr> \<mapsto> \<lparr>cc_data = [], cc_type = None\<rparr>,
     \<lparr>op_txHash = ref_digest 11, op_index = 0\<rparr> \<mapsto> \<lparr>cc_data = [1], cc_type = None\<rparr>,
     \<lparr>op_txHash = ref_digest 12, op_index = 0\<rparr> \<mapsto> \<lparr>cc_data = [2], cc_type = None\<rparr>,
     \<lparr>op_txHash = ref_digest 4, op_index = 0\<rparr> \<mapsto> \<lparr>cc_data = d, cc_type = Some [66]\<rparr>]"

definition e2e_tx :: "bytes \<Rightarrow> bytes \<Rightarrow> bytes \<Rightarrow> chain_tx" where
  "e2e_tx txh d wit = \<lparr>ct_hash = txh, ct_script = mol_script (replicate 32 0) 4 (1 # le_bytes 32 66),
     ct_inputs = [(0, \<lparr>cc_data = [], cc_type = None\<rparr>)], ct_outputs = [],
     ct_deps = [\<lparr>cc_data = [1], cc_type = None\<rparr>, \<lparr>cc_data = [2], cc_type = None\<rparr>,
       \<lparr>cc_data = d, cc_type = Some [66]\<rparr>],
     ct_witnesses = [wit], ct_group = [0]\<rparr>"

lemma ref_digest_inject: "m < 256 \<Longrightarrow> n < 256 \<Longrightarrow> ref_digest m = ref_digest n \<longleftrightarrow> m = n"
proof -
  assume mn: "m < 256" "n < 256"
  have "(256 :: nat) ^ 1 \<le> 256 ^ 32" by (rule power_increasing) simp_all
  then have "of_le (le_bytes 32 m) = m" "of_le (le_bytes 32 n) = n" using mn by simp_all
  then show ?thesis unfolding ref_digest_def hexFromBytes_inject by metis
qed

lemma ascii_inject: "ascii s = ascii t \<longleftrightarrow> s = t"
proof -
  have "inj (\<lambda>c. word_of_nat (of_char c) :: byte)"
  proof (rule injI)
    fix c d :: char
    assume "(word_of_nat (of_char c) :: byte) = word_of_nat (of_char d)"
    moreover have "(of_char c :: nat) < 256" "(of_char d :: nat) < 256"
      using range_nat_of_char by (metis atLeastLessThan_iff rangeI)+
    ultimately have "(of_char c :: nat) = of_char d" by (metis (no_types) unat_word_of_nat)
    then show "c = d" by simp
  qed
  then show ?thesis by (simp add: ascii_def inj_map_eq_map)
qed

lemma pair_bytes_append: "even (length s) \<Longrightarrow> pair_bytes (s @ t) = pair_bytes s @ pair_bytes t"
  by (induction s rule: pair_bytes.induct) auto

lemma length_pair_bytes: "length (pair_bytes s) = length s div 2"
  by (induction s rule: pair_bytes.induct) auto

lemma e2e_demo_sha: "demo_sha e2e_sha"
proof -
  have "RP_ID \<noteq> CLIENT_ORIGIN" by (simp add: RP_ID_def CLIENT_ORIGIN_def)
  moreover have len: "length EXPECTED_RP_ID_HASH = 64" "length EXPECTED_ORIGIN_HASH = 64"
    by (simp_all add: EXPECTED_RP_ID_HASH_def EXPECTED_ORIGIN_HASH_def)
  moreover have "pair_bytes ''01'' = [1]" by (simp add: parse_hex_int_def hex_value_def)
  ultimately show ?thesis
    by (auto simp: demo_sha_def e2e_sha_def ascii_inject length_pair_bytes expected_aux_def pair_bytes_append [of "''01''"]
        pair_bytes_append [OF _ , of EXPECTED_RP_ID_HASH])
qed

lemma e2e_client_ok: "client_object_ok (e2e_client p)"
  by (simp add: client_object_ok_def e2e_client_def plain_def [of "ascii (base64urlEncode _)"] plain_challenge)
     (simp add: plain_def ascii_def whitespace_def CLIENT_ORIGIN_def)

lemma e2e_json_reads: "json_reads (example_runtime p) (e2e_client p)"
  by (auto simp: json_reads_def e2e_client_def ascii_inject example_runtime_def jget_def split: if_splits)

lemma e2e_client_length:
  assumes "length (pr_authorizationDigest p) = 32"
  shows "length (client_json (e2e_client p)) \<le> 2048"
proof -
  have "length (sixes bs) \<le> 2 * length bs" for bs by (induction bs rule: sixes.induct) simp_all
  from this [of "pr_authorizationDigest p"] assms show ?thesis
    by (simp add: client_json_def e2e_client_def json_quoted_def base64urlEncode_sixes ascii_def CLIENT_ORIGIN_def)
qed


lemma sample_hash_agrees: "hash_agrees ref_ccc sample_hash"
  using ref_hash_agrees by (simp add: sample_hash_def [abs_def])

lemma e2e_signs: "authenticator_signs e2e_p256 e2e_sha example_pubKey (e2e_assertion p)"
  using e2e_demo_sha by (simp add: authenticator_signs_def e2e_assertion_def e2e_p256_def demo_sha_def nth_append)

lemma e2e_runs: "runs_p256 (\<lambda>i r. verifier_entry sample_reader P H sha r) P H sha sample_reader (\<lambda>w. w)"
  using sample_reader_reads by (auto simp: runs_p256_def)

text \<open>The small hashes of the reference library, told apart by their first byte.\<close>

lemma e2e_chain_holds:
  assumes "d = profile_state seq verifier key"
  shows "chain_holds ref_ccc sample_hash (e2e_chain d) example_account (hexFromBytes d)"
proof -
  have "d = 0x43 # tl d" by (simp add: assms profile_state_def state_layout_def)
  then have "hd (sample_hash d) = 0x43" by (metis hd_sample_hash)
  then have "sample_hash d \<noteq> sample_hash [2]" using hd_sample_hash [of 2 "[]"] by auto
  moreover have "sample_hash [1] \<noteq> sample_hash [2]" using hd_sample_hash [of 2 "[]"] hd_sample_hash [of 1 "[]"] by auto
  moreover have "hexFromBytes (sample_hash [66]) = ref_digest 66" "hexFromBytes (sample_hash [2]) = ref_digest 2"
    by (simp_all add: sample_hash_def ref_digest_def)
  ultimately show ?thesis
    unfolding chain_holds_def
    by (intro exI [of _ "\<lparr>cc_data = [], cc_type = None\<rparr>"] exI [of _ "\<lparr>cc_data = [1], cc_type = None\<rparr>"]
        exI [of _ "\<lparr>cc_data = [2], cc_type = None\<rparr>"] exI [of _ "\<lparr>cc_data = d, cc_type = Some [66]\<rparr>"] exI [of _ "[66]"])
       (simp add: e2e_chain_def ref_digest_inject example_account_def example_manifest_def example_verified_deployment_def
         out_point_of_def code_dep_def ref_ccc_def)
qed

lemma e2e_presents:
  assumes tx: "cellDeps tx = [accountLockDep (va_deployment example_account), verifierP256Dep (va_deployment example_account), stateDep example_account]"
      "inputs tx = [\<lparr>previousOutput = out_point_of (am_asset_out_point (va_manifest example_account)), since = 0\<rparr>]"
      "witnesses tx = [hexFromBytes wit]"
    and txh: "ccc_bytesFrom ref_ccc (ccc_txHash ref_ccc tx) = Inr txh"
  shows "presents ref_ccc (e2e_chain d) example_account tx (e2e_tx txh d wit)"
proof -
  have "bytesFromHex (args (accountLock example_account)) = Inr (1 # le_bytes 32 66)"
    using hex01 [of "le_bytes 32 66"] by (simp add: example_account_def example_manifest_def ref_digest_def)
  moreover have "ccc_bytesFrom ref_ccc (hexFromBytes wit) = Inr wit" using ref_ccc_hex by (simp add: ccc_hex_def)
  ultimately show ?thesis
    using txh
    by (simp add: presents_def e2e_tx_def tx e2e_chain_def ref_digest_inject example_account_def example_manifest_def
        example_verified_deployment_def out_point_of_def code_dep_def)
       (intro exI [of _ "replicate 32 0"], simp)
qed


end
