(* ===== verification/PostQuantum.thy ===== *)
theory PostQuantum
  imports VerifierProps
begin

text \<open>
  contracts/verifier-mldsa-adapter/src/main.rs and contracts/verifier-slhdsa-adapter/src/main.rs,
  the post-quantum verifiers. Both read their request with the code of the P-256 verifier
  (\<open>read_request\<close>) and check it with a signature crate that is a parameter: \<open>mldsa_crate\<close> for
  \<^verbatim>\<open>ml_dsa\<close>, \<open>slhdsa_crate\<close> for \<^verbatim>\<open>slh_dsa\<close>. The format of their proofs is the one of
  \<^verbatim>\<open>parse_public_key_proof\<close> in crates/protocol/src/wire.rs.
\<close>

section \<open>The verifiers\<close>

record ('e, 'k, 's) mldsa_crate =
  ml_encoded_key :: "bytes \<Rightarrow> 'e option"
  ml_decode :: "'e \<Rightarrow> 'k"
  ml_signature :: "bytes \<Rightarrow> 's option"
  ml_verify :: "'k \<Rightarrow> bytes \<Rightarrow> 's \<Rightarrow> bool"

definition verify_mldsa :: "('e, 'k, 's) mldsa_crate \<Rightarrow> (bytes \<Rightarrow> bytes) \<Rightarrow> bytes \<Rightarrow> int + unit" where
  "verify_mldsa M H data =
     bind_r (map_err (\<lambda>_. MALFORMED_REQUEST) (parse_verifier_request data)) (\<lambda>request.
     if vr_algorithm_id request \<noteq> 0x0102 then Inl UNSUPPORTED_ALGORITHM else
     if vr_verifier_profile request \<noteq> 0x01 then Inl UNSUPPORTED_PROFILE else
     if vr_aux request \<noteq> [0x01] then Inl AUX_MISMATCH else
     bind_r (map_err (\<lambda>_. MALFORMED_PROOF) (parse_public_key_proof (vr_proof request))) (\<lambda>pf.
     if H (pp_public_key pf) \<noteq> vr_key_id request then Inl KEY_ID_MISMATCH else
     case ml_encoded_key M (pp_public_key pf) of None \<Rightarrow> Inl MALFORMED_KEY | Some encoded \<Rightarrow>
     case ml_signature M (pp_signature pf) of None \<Rightarrow> Inl MALFORMED_PROOF | Some sig \<Rightarrow>
     if ml_verify M (ml_decode M encoded) (vr_authorization_digest request) sig then Inr () else Inl INVALID_PROOF))"

definition mldsa_entry :: "'w child_syscalls \<Rightarrow> ('e, 'k, 's) mldsa_crate \<Rightarrow> (bytes \<Rightarrow> bytes) \<Rightarrow> 'w \<Rightarrow> int" where
  "mldsa_entry R M H w = (case read_request R w of
     (Inl c, _) \<Rightarrow> c
   | (Inr request, _) \<Rightarrow> (case verify_mldsa M H request of Inl c \<Rightarrow> c | Inr _ \<Rightarrow> VALID))"

record ('k, 's) slhdsa_crate =
  slh_key :: "bytes \<Rightarrow> 'k option"
  slh_signature :: "bytes \<Rightarrow> 's option"
  slh_verify :: "'k \<Rightarrow> bytes \<Rightarrow> 's \<Rightarrow> bool"

definition verify_slhdsa :: "('k, 's) slhdsa_crate \<Rightarrow> (bytes \<Rightarrow> bytes) \<Rightarrow> bytes \<Rightarrow> int + unit" where
  "verify_slhdsa M H data =
     bind_r (map_err (\<lambda>_. MALFORMED_REQUEST) (parse_verifier_request data)) (\<lambda>request.
     if vr_algorithm_id request \<noteq> 0x0201 then Inl UNSUPPORTED_ALGORITHM else
     if vr_verifier_profile request \<noteq> 0x01 then Inl UNSUPPORTED_PROFILE else
     if vr_aux request \<noteq> [0x01, 0x01] then Inl AUX_MISMATCH else
     bind_r (map_err (\<lambda>_. MALFORMED_PROOF) (parse_public_key_proof (vr_proof request))) (\<lambda>pf.
     if H (pp_public_key pf) \<noteq> vr_key_id request then Inl KEY_ID_MISMATCH else
     case slh_key M (pp_public_key pf) of None \<Rightarrow> Inl MALFORMED_KEY | Some key \<Rightarrow>
     case slh_signature M (pp_signature pf) of None \<Rightarrow> Inl MALFORMED_PROOF | Some sig \<Rightarrow>
     if slh_verify M key (vr_authorization_digest request) sig then Inr () else Inl INVALID_PROOF))"

definition slhdsa_entry :: "'w child_syscalls \<Rightarrow> ('k, 's) slhdsa_crate \<Rightarrow> (bytes \<Rightarrow> bytes) \<Rightarrow> 'w \<Rightarrow> int" where
  "slhdsa_entry R M H w = (case read_request R w of
     (Inl c, _) \<Rightarrow> c
   | (Inr request, _) \<Rightarrow> (case verify_slhdsa M H request of Inl c \<Rightarrow> c | Inr _ \<Rightarrow> VALID))"

section \<open>Programs\<close>

lemma map_err_no_zero: "c \<noteq> 0 \<Longrightarrow> no_zero (map_err (\<lambda>_. c) m)"
  by (cases m) (simp_all add: no_zero_def)

lemma verify_mldsa_no_zero: "no_zero (verify_mldsa M H d)"
  by (auto simp: verify_mldsa_def map_err_no_zero exit_codes split: option.split)

lemma verify_slhdsa_no_zero: "no_zero (verify_slhdsa M H d)"
  by (auto simp: verify_slhdsa_def map_err_no_zero exit_codes split: option.split)

interpretation mldsa: verifier_program "verify_mldsa M H" "\<lambda>R. mldsa_entry R M H" for M H
proof unfold_locales
  show "\<exists>q. parse_verifier_request d = Inr q" if "verify_mldsa M H d = Inr u" for d u
    using that by (auto simp: verify_mldsa_def bind_r_Inr_iff map_err_Inr_iff)
qed (simp_all add: mldsa_entry_def verify_mldsa_no_zero)

interpretation slhdsa: verifier_program "verify_slhdsa M H" "\<lambda>R. slhdsa_entry R M H" for M H
proof unfold_locales
  show "\<exists>q. parse_verifier_request d = Inr q" if "verify_slhdsa M H d = Inr u" for d u
    using that by (auto simp: verify_slhdsa_def bind_r_Inr_iff map_err_Inr_iff)
qed (simp_all add: slhdsa_entry_def verify_slhdsa_no_zero)

section \<open>The proof format\<close>

definition public_key_layout :: "public_key_proof \<Rightarrow> bytes" where
  "public_key_layout p = 1 # le_bytes 2 (length (pp_public_key p)) @ le_bytes 2 (length (pp_signature p))
     @ pp_public_key p @ pp_signature p"

definition public_key_ok :: "public_key_proof \<Rightarrow> bool" where
  "public_key_ok p \<longleftrightarrow> pp_public_key p \<noteq> [] \<and> pp_signature p \<noteq> []
     \<and> length (pp_public_key p) < 2 ^ 16 \<and> length (pp_signature p) < 2 ^ 16"

lemma parse_public_key_proof_eq:
  assumes "5 \<le> length d"
  shows "parse_public_key_proof d =
    (let k = of_le (seg 1 3 d); s = of_le (seg 3 5 d) in
     if d ! 0 \<noteq> 1 \<or> k = 0 \<or> s = 0 \<or> 5 + k + s \<noteq> length d then Inl (Err InvalidProof)
     else Inr \<lparr>pp_public_key = seg 5 (5 + k) d, pp_signature = seg (5 + k) (5 + k + s) d\<rparr>)"
proof -
  have "of_le (seg 1 3 d) < 2 ^ 16" "of_le (seg 3 5 d) < 2 ^ 16"
    using of_le_seg_bound [of 1 3 d] of_le_seg_bound [of 3 5 d] by simp_all
  moreover have "rd_byte 0 d = Inr (d ! 0)" using assms by (intro rd_byte_ok) linarith
  ultimately show ?thesis
    using assms
    by (simp add: parse_public_key_proof_def rd_ok rd_byte_ok le_u_ok checked_add_def Let_def cong: if_cong)
qed

lemma parse_public_key_proof_Inr_iff:
  "parse_public_key_proof d = Inr p \<longleftrightarrow> public_key_ok p \<and> d = public_key_layout p"
proof
  assume r: "parse_public_key_proof d = Inr p"
  then have len: "5 \<le> length d" by (cases "5 \<le> length d") (simp_all add: parse_public_key_proof_def)
  let ?k = "of_le (seg 1 3 d)" and ?s = "of_le (seg 3 5 d)"
  have c: "d ! 0 = 1" "?k \<noteq> 0" "?s \<noteq> 0" "5 + ?k + ?s = length d"
    and p: "p = \<lparr>pp_public_key = seg 5 (5 + ?k) d, pp_signature = seg (5 + ?k) (5 + ?k + ?s) d\<rparr>"
    using r unfolding parse_public_key_proof_eq [OF len] by (auto simp: Let_def split: if_splits)
  have "d = seg 0 1 d @ seg 1 3 d @ seg 3 5 d @ drop 5 d" by (simp add: drop_seg [symmetric])
  moreover have "seg 0 1 d = [1]" using len c(1) by (cases d) (auto simp: seg_def)
  moreover have "drop 5 d = seg 5 (5 + ?k) d @ seg (5 + ?k) (5 + ?k + ?s) d"
    using c(4) by (simp add: seg_append_seg) (simp add: seg_def)
  moreover have "le_bytes 2 ?k = seg 1 3 d" "le_bytes 2 ?s = seg 3 5 d" using len by (simp_all add: seg_le)
  moreover have l: "length (seg 5 (5 + ?k) d) = ?k" "length (seg (5 + ?k) (5 + ?k + ?s) d) = ?s" using c(4) by simp_all
  ultimately have "d = public_key_layout p" using p by (simp add: public_key_layout_def)
  moreover have "seg 5 (5 + ?k) d \<noteq> []" "seg (5 + ?k) (5 + ?k + ?s) d \<noteq> []" using l c(2,3) by (metis list.size(3))+
  then have "public_key_ok p"
    using p l of_le_seg_bound [of 1 3 d] of_le_seg_bound [of 3 5 d] by (simp add: public_key_ok_def)
  ultimately show "public_key_ok p \<and> d = public_key_layout p" by simp
next
  assume p: "public_key_ok p \<and> d = public_key_layout p"
  let ?h = "1 # le_bytes 2 (length (pp_public_key p)) @ le_bytes 2 (length (pp_signature p))"
  have d: "d = ?h @ pp_public_key p @ pp_signature p" "length ?h = 5" using p by (simp_all add: public_key_layout_def)
  have "seg 5 (5 + length (pp_public_key p)) d = pp_public_key p"
    "seg (5 + length (pp_public_key p)) (length d) d = pp_signature p"
    unfolding d(1) d(2) [symmetric] by (simp_all only: seg_def drop_append take_append) simp_all
  moreover have "5 \<le> length d" "of_le (seg 1 3 d) = length (pp_public_key p)" "of_le (seg 3 5 d) = length (pp_signature p)"
    "d ! 0 = 1" "length d = 5 + length (pp_public_key p) + length (pp_signature p)"
    using p by (auto simp: public_key_layout_def public_key_ok_def seg_def)
  ultimately show "parse_public_key_proof d = Inr p"
    using p by (simp add: parse_public_key_proof_eq Let_def public_key_ok_def)
qed


section \<open>What the verifiers accept\<close>

text \<open>
  A proof for an authenticator and a digest: a public key that hashes to the recorded key ID and
  a signature of it over the digest itself, under the crate's reading of both.
\<close>

definition mldsa_proof_ok ::
  "('e, 'k, 's) mldsa_crate \<Rightarrow> (bytes \<Rightarrow> bytes) \<Rightarrow> authenticator_entry \<Rightarrow> bytes \<Rightarrow> public_key_proof \<Rightarrow> bool"
where
  "mldsa_proof_ok M H e digest pf \<longleftrightarrow>
     ae_algorithm_id e = 0x0102 \<and> ae_aux e = [1] \<and> H (pp_public_key pf) = ae_key_id e
     \<and> (\<exists>key sig. ml_encoded_key M (pp_public_key pf) = Some key \<and> ml_signature M (pp_signature pf) = Some sig
          \<and> ml_verify M (ml_decode M key) digest sig)"

definition slhdsa_proof_ok ::
  "('k, 's) slhdsa_crate \<Rightarrow> (bytes \<Rightarrow> bytes) \<Rightarrow> authenticator_entry \<Rightarrow> bytes \<Rightarrow> public_key_proof \<Rightarrow> bool"
where
  "slhdsa_proof_ok M H e digest pf \<longleftrightarrow>
     ae_algorithm_id e = 0x0201 \<and> ae_aux e = [1, 1] \<and> H (pp_public_key pf) = ae_key_id e
     \<and> (\<exists>key sig. slh_key M (pp_public_key pf) = Some key \<and> slh_signature M (pp_signature pf) = Some sig
          \<and> slh_verify M key digest sig)"

lemma option_Inl_Inr_iff:
  "(case z of None \<Rightarrow> Inl c | Some x \<Rightarrow> f x) = Inr y \<longleftrightarrow> (\<exists>x. z = Some x \<and> f x = Inr y)"
  by (cases z) simp_all

lemma request_of_sel:
  "ae_aux e \<noteq> [] \<Longrightarrow> vr_verifier_profile (request_of e op dg payload) = ae_aux e ! 0"
  "vr_algorithm_id (request_of e op dg payload) = ae_algorithm_id e" "vr_aux (request_of e op dg payload) = ae_aux e"
  "vr_proof (request_of e op dg payload) = payload" "vr_key_id (request_of e op dg payload) = ae_key_id e"
  "vr_authorization_digest (request_of e op dg payload) = dg"
  by (simp_all add: request_of_def hd_conv_nth)

lemma verify_mldsa_iff:
  assumes "parse_verifier_request d = Inr (request_of e op dg payload)" and "ae_aux e \<noteq> []"
  shows "verify_mldsa M H d = Inr () \<longleftrightarrow> (\<exists>pf. parse_public_key_proof payload = Inr pf \<and> mldsa_proof_ok M H e dg pf)"
  unfolding verify_mldsa_def assms(1) map_err_simps bind_r_simps mldsa_proof_ok_def request_of_sel(1) [OF assms(2)]
    request_of_sel(2-) bind_r_Inr_iff if_Inl_Inr_iff map_err_Inr_iff option_Inl_Inr_iff not_not
  by auto

lemma verify_slhdsa_iff:
  assumes "parse_verifier_request d = Inr (request_of e op dg payload)" and "ae_aux e \<noteq> []"
  shows "verify_slhdsa M H d = Inr () \<longleftrightarrow> (\<exists>pf. parse_public_key_proof payload = Inr pf \<and> slhdsa_proof_ok M H e dg pf)"
  unfolding verify_slhdsa_def assms(1) map_err_simps bind_r_simps slhdsa_proof_ok_def request_of_sel(1) [OF assms(2)]
    request_of_sel(2-) bind_r_Inr_iff if_Inl_Inr_iff map_err_Inr_iff option_Inl_Inr_iff not_not
  by auto

section \<open>Properties\<close>


definition sample_mldsa :: "(bytes, bytes, bytes) mldsa_crate" where
  "sample_mldsa = \<lparr>ml_encoded_key = Some, ml_decode = id, ml_signature = Some, ml_verify = (\<lambda>k d s. s = k)\<rparr>"

definition sample_slhdsa :: "(bytes, bytes) slhdsa_crate" where
  "sample_slhdsa = \<lparr>slh_key = Some, slh_signature = Some, slh_verify = (\<lambda>k d s. s = k)\<rparr>"

definition sample_pq_entry :: authenticator_entry where
  "sample_pq_entry = \<lparr>ae_slot = 2, ae_algorithm_id = 0x0102, ae_capabilities = 1, ae_weight = 1,
     ae_verifier_hash_type = 0, ae_verifier_abi = 1, ae_verifier_code_hash = replicate 32 9,
     ae_key_id = sample_sha [6], ae_aux = [1]\<rparr>"


end
