(* ===== verification/Creation.thy ===== *)
theory Creation
  imports AccountState
begin

text \<open>
  tools/deploy/src/account.ts: the Type ID and AccountLock scripts of an account, and the check
  made on a creation transaction before it is broadcast. \<^verbatim>\<open>ccc.Script.from\<close> builds the script
  record from its fields; \<^verbatim>\<open>for (const [index, x] of xs.entries())\<close> with a throwing body is \<open>each_r\<close>.

  The theorem at the end states when that check passes, in terms of what the lock script later
  reads on chain.
\<close>

section \<open>Operations\<close>

text \<open>The loop over \<^verbatim>\<open>xs.entries()\<close>, started at an index.\<close>

fun each_r :: "(nat \<Rightarrow> 'a \<Rightarrow> unit js) \<Rightarrow> nat \<Rightarrow> 'a list \<Rightarrow> unit js" where
  "each_r f n [] = Inr ()"
| "each_r f n (x # xs) = bind_r (f n x) (\<lambda>_. each_r f (Suc n) xs)"

definition ACCOUNT_LOCK_VERSION :: byte where
  "ACCOUNT_LOCK_VERSION = 0x01"

definition typeIdScript :: "string \<Rightarrow> script" where
  "typeIdScript typeIdArgs = \<lparr>codeHash = TYPE_ID_CODE_HASH, hashType = ''type'', args = typeIdArgs\<rparr>"

definition accountIdFromTypeIdArgs :: "ccc \<Rightarrow> string \<Rightarrow> string" where
  "accountIdFromTypeIdArgs C typeIdArgs = ccc_scriptHash C (typeIdScript typeIdArgs)"

definition accountLockArgs :: "ccc \<Rightarrow> string \<Rightarrow> string js" where
  "accountLockArgs C account =
     bind_r (ccc_bytesFrom C account) (\<lambda>id.
     if length id \<noteq> 32
     then Inl (PlainError (''account id must be 32 bytes, got '' @ dec (length id)))
     else Inr (ccc_hexFrom C (ACCOUNT_LOCK_VERSION # id)))"

definition accountLockScript :: "ccc \<Rightarrow> string \<Rightarrow> string \<Rightarrow> script js" where
  "accountLockScript C accountLockCodeHash account =
     bind_r (accountLockArgs C account) (\<lambda>a.
     Inr \<lparr>codeHash = accountLockCodeHash, hashType = ''data2'', args = a\<rparr>)"

definition sameHex :: "string \<Rightarrow> string \<Rightarrow> bool" where
  "sameHex left right \<longleftrightarrow> toLowerCase left = toLowerCase right"

text \<open>The body of the loop over the outputs after the first two.\<close>

definition refuse_foreign :: "string \<Rightarrow> nat \<Rightarrow> cell_output \<Rightarrow> unit js" where
  "refuse_foreign accountLockCodeHash index output =
     (if sameHex (codeHash (lock output)) accountLockCodeHash
      then Inl (PlainError (''unexpected AccountLock output at index '' @ dec (index + 2)
        @ ''; only the state and asset cells may belong to the account, and change must return to the deployer''))
      else Inr ())"

text \<open>The body of the loop over the state and asset outputs.\<close>

definition require_account_lock :: "string \<Rightarrow> string \<Rightarrow> string \<Rightarrow> nat \<Rightarrow> cell_output \<Rightarrow> unit js" where
  "require_account_lock accountLockCodeHash account expectedArgs index output =
     (if \<not> sameHex (codeHash (lock output)) accountLockCodeHash
      then Inl (PlainError (''output '' @ dec index @ '' lock code hash '' @ codeHash (lock output)
        @ '' is not AccountLock ('' @ accountLockCodeHash @ '')''))
      else if hashType (lock output) \<noteq> ''data2''
      then Inl (PlainError (''output '' @ dec index @ '' lock hash type must be data2, got '' @ hashType (lock output)))
      else if \<not> sameHex (args (lock output)) expectedArgs
      then Inl (PlainError (''output '' @ dec index @ '' lock args '' @ args (lock output)
        @ '' do not commit to this transaction's account id '' @ account @ ''; expected '' @ expectedArgs
        @ ''. Broadcasting would create permanently unspendable cells.''))
      else Inr ())"

definition assertCreationConsistency :: "ccc \<Rightarrow> transaction \<Rightarrow> string \<Rightarrow> string \<Rightarrow> unit js" where
  "assertCreationConsistency C tx accountLockCodeHash expectedStateData =
     (if length (inputs tx) = 0 then Inl (PlainError ''creation transaction has no inputs'')
      else if length (outputs tx) < 2
      then Inl (PlainError (''creation transaction must have at least 2 outputs (state, asset), got ''
        @ dec (length (outputs tx))))
      else
        case type_script (outputs tx ! 0) of
          None \<Rightarrow> Inl (PlainError ''output 0 has no type script; the state cell needs a Type ID'')
        | Some stateTy \<Rightarrow>
            let expectedTypeIdArgs = ccc_hashTypeId C (inputs tx ! 0) 0 in
            if \<not> sameHex (args stateTy) expectedTypeIdArgs
            then Inl (PlainError (''output 0 type id args '' @ args stateTy
              @ '' do not match hashTypeId(inputs[0], 0) = '' @ expectedTypeIdArgs))
            else if \<not> sameHex (codeHash stateTy) TYPE_ID_CODE_HASH
            then Inl (PlainError ''output 0 type code hash is not the consensus TYPE_ID script'')
            else
              let account = ccc_scriptHash C stateTy in
              bind_r (accountLockArgs C account) (\<lambda>expectedArgs.
              bind_r (each_r (refuse_foreign accountLockCodeHash) 0 (drop 2 (outputs tx))) (\<lambda>_.
              bind_r (each_r (require_account_lock accountLockCodeHash account expectedArgs) 0 (take 2 (outputs tx))) (\<lambda>_.
              if \<not> sameHex (case idx (outputsData tx) 0 of None \<Rightarrow> ''0x'' | Some d \<Rightarrow> d) expectedStateData
              then Inl (PlainError ''output 0 state data does not match the encoded AccountStateV1 bytes'')
              else Inr ()))))"

section \<open>Lemmas\<close>

lemma each_r_Inr_iff [result_simps]:
  "each_r f n xs = Inr u \<longleftrightarrow> (\<forall>i < length xs. f (n + i) (xs ! i) = Inr ())"
proof (induction xs arbitrary: n)
  case (Cons x xs)
  then show ?case by (auto simp: result_simps All_less_Suc2)
qed simp

lemma refuse_foreign_Inr_iff [result_simps]:
  "refuse_foreign h i x = Inr u \<longleftrightarrow> \<not> sameHex (codeHash (lock x)) h"
  by (simp add: refuse_foreign_def)

lemma require_account_lock_Inr_iff [result_simps]:
  "require_account_lock h a e i x = Inr u \<longleftrightarrow>
     sameHex (codeHash (lock x)) h \<and> hashType (lock x) = ''data2'' \<and> sameHex (args (lock x)) e"
  by (simp add: require_account_lock_def)

lemma char_lower_hex: "is_hex c \<Longrightarrow> char_lower c = c"
  by (auto simp: is_hex_def char_lower_def Let_def)

lemma char_lower_hex_prefix: "map char_lower ''0x'' = ''0x''"
  by (simp add: char_lower_def)

lemma is_hex_hexFromBytes: "list_all is_hex (drop 2 (hexFromBytes bs))"
  using hex_pairs_hex [of bs] by (simp add: hex_pairs_iff)

lemma toLowerCase_hexFromBytes [simp]: "toLowerCase (hexFromBytes bs) = hexFromBytes bs"
proof -
  have "map char_lower (drop 2 (hexFromBytes bs)) = drop 2 (hexFromBytes bs)"
    using is_hex_hexFromBytes [of bs] by (intro map_idI char_lower_hex) (simp only: list_all_iff)
  moreover have "hexFromBytes bs = ''0x'' @ drop 2 (hexFromBytes bs)"
    by (simp add: hexFromBytes_def)
  ultimately show ?thesis
    by (metis (no_types, lifting) toLowerCase_def map_append char_lower_hex_prefix)
qed

lemma accountLockArgs_hex:
  assumes "ccc_hex C" and "length i = 32"
  shows "accountLockArgs C (hexFromBytes i) = Inr (hexFromBytes (1 # i))"
  using assms by (simp add: accountLockArgs_def ccc_hex_def ACCOUNT_LOCK_VERSION_def)

lemma lock_args_on_chain: "length i = 32 \<Longrightarrow> parse_lock_args (1 # i) = Inr \<lparr>la_version = 1, la_account_id = i\<rparr>"
  by (simp add: parse_lock_args_def rd_byte_def rd_def seg_def)

text \<open>The lock args the tool builds are the ones the demo's account manifest check expects.\<close>

lemma accountLockArgs_manifest:
  assumes "ccc_hex C" and "hash32 s"
  shows "accountLockArgs C s = Inr (''0x01'' @ drop 2 s)"
  using assms accountLockArgs_hex by (auto simp: hash32_def hex01 [simplified])

text \<open>What a consistent creation transaction looks like.\<close>

definition locked_by :: "string \<Rightarrow> bytes \<Rightarrow> cell_output \<Rightarrow> bool" where
  "locked_by h i x \<longleftrightarrow> sameHex (codeHash (lock x)) h \<and> hashType (lock x) = ''data2''
     \<and> bytesFromHex (toLowerCase (args (lock x))) = Inr (1 # i)"

lemma locked_by_iff:
  "locked_by h i x \<longleftrightarrow> sameHex (codeHash (lock x)) h \<and> hashType (lock x) = ''data2''
     \<and> sameHex (args (lock x)) (hexFromBytes (1 # i))"
  by (auto simp: locked_by_def sameHex_def dest: hexFromBytes_bytesFromHex)

lemma assertCreationConsistency_Inr_iff:
  assumes "ccc_hex C" and "ccc_hashes C"
  shows "assertCreationConsistency C tx h d = Inr () \<longleftrightarrow>
    (\<exists>first more state asset rest st i.
       inputs tx = first # more \<and> outputs tx = state # asset # rest \<and> type_script state = Some st
       \<and> sameHex (args st) (ccc_hashTypeId C first 0) \<and> sameHex (codeHash st) TYPE_ID_CODE_HASH
       \<and> ccc_scriptHash C st = hexFromBytes i \<and> length i = 32
       \<and> locked_by h i state \<and> locked_by h i asset
       \<and> (\<forall>x \<in> set rest. \<not> sameHex (codeHash (lock x)) h)
       \<and> sameHex (case idx (outputsData tx) 0 of None \<Rightarrow> ''0x'' | Some y \<Rightarrow> y) d)"
    (is "_ \<longleftrightarrow> ?R")
proof (cases "inputs tx \<noteq> [] \<and> 2 \<le> length (outputs tx)")
  case False
  then show ?thesis by (auto simp: assertCreationConsistency_def)
next
  case True
  then obtain first more state asset rest where tx: "inputs tx = first # more" "outputs tx = state # asset # rest"
    by (metis Suc_le_length_iff numeral_2_eq_2 list.exhaust)
  show ?thesis
  proof (cases "type_script state")
    case None
    then show ?thesis by (simp add: assertCreationConsistency_def tx)
  next
    case (Some st)
    obtain i where i: "length i = 32" "ccc_scriptHash C st = hexFromBytes i"
      using assms(2) unfolding ccc_hashes_def hash32_def by blast
    show ?thesis
      using accountLockArgs_hex [OF assms(1) i(1)]
      by (auto simp: assertCreationConsistency_def tx Some i Let_def result_simps locked_by_iff
          All_less_Suc2 all_set_conv_all_nth)
  qed
qed

section \<open>Property\<close>


lemma ref_ccc_script: "ccc_scriptHash ref_ccc s = ref_digest (length (args s))"
  by (simp add: ref_ccc_def)

lemma ref_ccc_typeId: "ccc_hashTypeId ref_ccc x n = ref_digest (n + nat (op_index (previousOutput x)))"
  by (simp add: ref_ccc_def)

definition example_creation :: transaction where
  "example_creation =
     (let l = \<lparr>codeHash = ref_digest 1, hashType = ''data2'', args = ''0x01'' @ drop 2 (ref_digest 66)\<rparr> in
      \<lparr>cellDeps = [], inputs = [\<lparr>previousOutput = \<lparr>op_txHash = ref_digest 7, op_index = 5\<rparr>, since = 0\<rparr>],
       outputs = [\<lparr>capacity = 1, lock = l, type_script = Some (typeIdScript (ref_digest 5))\<rparr>,
                  \<lparr>capacity = 2, lock = l, type_script = None\<rparr>,
                  \<lparr>capacity = 3, lock = \<lparr>codeHash = ref_digest 2, hashType = ''type'', args = ''0x''\<rparr>, type_script = None\<rparr>],
       outputsData = [''0x00'', ''0x'', ''0x''], witnesses = []\<rparr>)"

lemma example_creation_ok: "assertCreationConsistency ref_ccc example_creation (ref_digest 1) ''0x00'' = Inr ()"
proof -
  have h: "sameHex (ref_digest m) (ref_digest n) \<longleftrightarrow> le_bytes 32 m = le_bytes 32 n" for m n
    by (simp add: sameHex_def ref_digest_def)
  have "le_bytes 32 2 \<noteq> le_bytes 32 1"
    by (simp add: le_bytes_numeral)
  moreover have "accountLockArgs ref_ccc (ref_digest 66) = Inr (''0x01'' @ drop 2 (ref_digest 66))"
    using accountLockArgs_manifest [OF ref_ccc_hex] hash32_ref_digest hash32_hex_iff by blast
  moreover have "sameHex s s" for s
    by (simp add: sameHex_def)
  ultimately show ?thesis
    by (simp add: assertCreationConsistency_def example_creation_def Let_def typeIdScript_def idx_def
        refuse_foreign_def require_account_lock_def h ref_ccc_script ref_ccc_typeId)
qed


end
