(* ===== verification/HostEncoders.thy ===== *)
theory HostEncoders
  imports Host EndToEnd PostQuantum Creation
begin

text \<open>
  The rest of crates/host/src/lib.rs: the third implementation of the formats, beside the browser's
  (demo/src/shared/protocol.ts) and the one on chain (crates/protocol, contracts). The CKB hash and
  the molecule tables of \<^verbatim>\<open>ckb_types\<close> are parameters: \<open>H\<close> is the hash, and \<open>relock\<close> reads a serialized
  \<^verbatim>\<open>WitnessArgs\<close> and builds it again with an empty lock. A fixed-size argument is a word or a byte
  string whose length the theorems state.
\<close>

section \<open>Encoders\<close>

record host_proof =
  hp_slot :: "16 word"
  hp_bytes :: bytes

definition u32_len :: "nat \<Rightarrow> nat rust" where
  "u32_len value = (if value < 2 ^ 32 then Inr value else Inl (Err LengthOverflow))"

definition host_encode_proof :: "host_proof \<Rightarrow> bytes rust" where
  "host_encode_proof p =
     (if hp_bytes p = [] then Inl (Err InvalidWitness) else
      bind_r (u32_len (length (hp_bytes p))) (\<lambda>n.
      Inr (le_bytes 2 (unat (hp_slot p)) @ [0, 0] @ le_bytes 4 n @ hp_bytes p)))"

definition encode_witness :: "byte \<Rightarrow> 64 word \<Rightarrow> host_proof list \<Rightarrow> bytes rust" where
  "encode_witness op state_sequence proofs =
     bind_r (capability_for_operation op) (\<lambda>_.
     if \<not> length proofs < 256 then Inl (Err InvalidWitness) else
     if length proofs > MAX_AUTHENTICATORS then Inl (Err InvalidWitness) else
     bind_r (map_r host_encode_proof proofs) (\<lambda>entries.
     let out = WITNESS_MAGIC @ [1, op, word_of_nat (length proofs), 0] @ le_bytes 8 (unat state_sequence)
       @ concat entries in
     bind_r (parse_witness_header out) (\<lambda>header.
     bind_r (parse_proofs out header (\<lambda>_ _ _. Inr ()) ()) (\<lambda>_.
     Inr out))))"

definition encode_verifier_request ::
  "16 word \<Rightarrow> 16 word \<Rightarrow> byte \<Rightarrow> byte \<Rightarrow> bytes \<Rightarrow> bytes \<Rightarrow> bytes \<Rightarrow> bytes \<Rightarrow> bytes rust"
where
  "encode_verifier_request algorithm_id sl op verifier_profile digest key_id aux payload =
     bind_r (capability_for_operation op) (\<lambda>_.
     if length aux > VERIFIER_MAX_AUX_LEN \<or> length payload > VERIFIER_MAX_PROOF_LEN then Inl (Err InvalidRequest) else
     (case Option.bind (checked_add VERIFIER_REQUEST_HEADER_LEN (length aux)) (\<lambda>v. checked_add v (length payload)) of
        None \<Rightarrow> Inl (Err LengthOverflow)
      | Some tot \<Rightarrow>
          if tot > VERIFIER_MAX_REQUEST_LEN then Inl (Err InvalidRequest) else
          bind_r (u32_len (length aux)) (\<lambda>aux_len.
          bind_r (u32_len (length payload)) (\<lambda>proof_len.
          let out = VERIFIER_MAGIC @ [VERIFIER_ABI_V1, 0] @ le_bytes 2 VERIFIER_REQUEST_HEADER_LEN
            @ le_bytes 2 (unat algorithm_id) @ le_bytes 2 (unat sl) @ [op, verifier_profile, 0, 0]
            @ digest @ key_id @ le_bytes 4 aux_len @ le_bytes 4 proof_len @ replicate 8 0 @ aux @ payload in
          bind_r (parse_verifier_request out) (\<lambda>_. Inr out)))))"

definition encode_p256_proof :: "p256_proof_input \<Rightarrow> bytes rust" where
  "encode_p256_proof p =
     (if length (publicKey p) \<noteq> 65 \<or> publicKey p ! 0 \<noteq> 0x04 \<or> origin p = [] \<or> length (origin p) > 255
         \<or> length (authenticatorData p) < 37 \<or> clientDataJson p = [] \<or> signature p = []
      then Inl (Err InvalidProof)
      else
        bind_r (u16_len (length (authenticatorData p))) (\<lambda>a.
        bind_r (u16_len (length (clientDataJson p))) (\<lambda>c.
        bind_r (u16_len (length (signature p))) (\<lambda>s.
        Inr (publicKey p @ [word_of_nat (length (origin p))] @ origin p @ le_bytes 2 a @ authenticatorData p
          @ le_bytes 2 c @ clientDataJson p @ le_bytes 2 s @ signature p)))))"

definition encode_public_key_proof :: "bytes \<Rightarrow> bytes \<Rightarrow> bytes rust" where
  "encode_public_key_proof public_key sig =
     (if public_key = [] \<or> sig = [] then Inl (Err InvalidProof) else
      bind_r (u16_len (length public_key)) (\<lambda>k.
      bind_r (u16_len (length sig)) (\<lambda>s.
      let out = [1] @ le_bytes 2 k @ le_bytes 2 s @ public_key @ sig in
      bind_r (parse_public_key_proof out) (\<lambda>_. Inr out))))"

section \<open>Identities and digests\<close>

definition TYPE_ID_CODE_HASH_BYTES :: bytes where
  "TYPE_ID_CODE_HASH_BYTES = replicate 25 0 @ [0x54, 0x59, 0x50, 0x45, 0x5f, 0x49, 0x44]"

definition type_id_script :: "bytes \<Rightarrow> bytes" where
  "type_id_script type_id_args = mol_script TYPE_ID_CODE_HASH_BYTES 1 type_id_args"

definition account_id_from_type_id_args :: "(bytes \<Rightarrow> bytes) \<Rightarrow> bytes \<Rightarrow> bytes" where
  "account_id_from_type_id_args H type_id_args = H (type_id_script type_id_args)"

definition host_account_lock_args :: "bytes \<Rightarrow> bytes" where
  "host_account_lock_args account_id = 1 # account_id"

definition host_authorization_digest ::
  "(bytes \<Rightarrow> bytes) \<Rightarrow> byte \<Rightarrow> bytes \<Rightarrow> 64 word \<Rightarrow> bytes \<Rightarrow> bytes \<Rightarrow> bytes rust"
where
  "host_authorization_digest H op account_id seq state sighash =
     bind_r (capability_for_operation op) (\<lambda>_.
     Inr (H (AUTH_DOMAIN @ [op] @ account_id @ le_bytes 8 (unat seq) @ H state @ sighash)))"

definition update_witness :: "bytes \<Rightarrow> bytes rust" where
  "update_witness witness =
     (if length witness < 2 ^ 64 then Inr (le_bytes 8 (length witness) @ witness) else Inl (Err LengthOverflow))"

definition host_group_sighash ::
  "(bytes \<Rightarrow> bytes) \<Rightarrow> (bytes \<Rightarrow> bytes option) \<Rightarrow> bytes \<Rightarrow> bytes list \<Rightarrow> bytes list \<Rightarrow> bytes rust"
where
  "host_group_sighash H relock tx_hash witnesses' extra = (case witnesses' of
     [] \<Rightarrow> Inl (Err InvalidWitness)
   | first # others \<Rightarrow> (case relock first of
       None \<Rightarrow> Inl (Err InvalidWitness)
     | Some canonical \<Rightarrow>
         bind_r (update_witness canonical) (\<lambda>c.
         bind_r (map_r update_witness others) (\<lambda>g.
         bind_r (map_r update_witness extra) (\<lambda>e.
         Inr (H (tx_hash @ c @ concat g @ concat e)))))))"

section \<open>Agreement\<close>

definition pair_of :: "host_proof \<Rightarrow> nat \<times> bytes" where
  "pair_of p = (unat (hp_slot p), hp_bytes p)"

text \<open>The same proof as the browser's encoder gets it.\<close>

definition browser_proof :: "host_proof \<Rightarrow> witness_proof" where
  "browser_proof p = \<lparr>slot = JNat (unat (hp_slot p)), proof_bytes = hp_bytes p\<rparr>"

lemma browser_proof_eq: "browser_proof p = to_proof (pair_of p)"
  by (simp add: browser_proof_def to_proof_def pair_of_def)

lemma host_encode_proof_Inr_iff: "host_encode_proof p = Inr e \<longleftrightarrow> proof_ok (pair_of p) \<and> e = proof_layout (pair_of p)"
  using unat16 [of "hp_slot p"]
  by (auto simp: host_encode_proof_def u32_len_def proof_ok_def proof_layout_def pair_of_def)

lemma map_encode_proof:
  "map_r host_encode_proof ps = Inr es \<longleftrightarrow> list_all proof_ok (map pair_of ps) \<and> es = map proof_layout (map pair_of ps)"
  unfolding map_r_Inr_iff by (induction ps arbitrary: es) (auto simp: list_all2_Cons1 host_encode_proof_Inr_iff)

lemma proof_layouts_inject:
  assumes "concat (map proof_layout ps) = concat (map proof_layout qs)" and "list_all proof_ok ps" and "list_all proof_ok qs"
  shows "ps = qs"
  using assms
proof (induction ps arbitrary: qs)
  case Nil
  then show ?case by (cases qs) (auto simp: proof_layout_def split: prod.splits)
next
  case (Cons x ps)
  obtain y qs' where qs: "qs = y # qs'"
    using Cons.prems(1) by (cases qs) (auto simp: proof_layout_def split: prod.splits)
  obtain s b s' b' where xy: "x = (s, b)" "y = (s', b')" by fastforce
  have ok: "s < 2 ^ 16" "s' < 2 ^ 16" "length b < 2 ^ 32" "length b' < 2 ^ 32"
    using Cons.prems(2,3) by (simp_all add: qs xy proof_ok_def)
  have "le_bytes 2 s = le_bytes 2 s'" "le_bytes 4 (length b) = le_bytes 4 (length b')"
    and rest: "b @ concat (map proof_layout ps) = b' @ concat (map proof_layout qs')"
    using Cons.prems(1) by (simp_all add: qs xy proof_layout_def [of "(s, b)"] proof_layout_def [of "(s', b')"])
  from arg_cong [OF this(1), of of_le] arg_cong [OF this(2), of of_le] ok have "s = s'" "length b = length b'" by simp_all
  with rest Cons.IH [of qs'] Cons.prems(2,3) show ?case by (simp add: qs xy)
qed

lemma witness_layout_inject:
  assumes "witness_layout op n ps = witness_layout op' n' qs" and "n < 2 ^ 64" and "n' < 2 ^ 64"
    and "list_all proof_ok ps" and "list_all proof_ok qs"
  shows "op = op' \<and> n = n' \<and> ps = qs"
proof -
  have "op = op'" "le_bytes 8 n = le_bytes 8 n'" "concat (map proof_layout ps) = concat (map proof_layout qs)"
    using assms(1) by (simp_all add: witness_layout_def)
  moreover from arg_cong [OF this(2), of of_le] assms(2,3) have "n = n'" by simp
  ultimately show ?thesis using proof_layouts_inject assms(4,5) by blast
qed

lemma fold_unit: "fold_r (\<lambda>s (k, p). Inr ()) ps s = Inr ()"
  by (induction ps arbitrary: s) auto

lemma encode_witness_Inr_iff:
  "encode_witness op seq ps = Inr d \<longleftrightarrow> length ps \<le> 16 \<and> witness_ok op (unat seq) (map pair_of ps)
     \<and> d = witness_layout op (unat seq) (map pair_of ps)"
proof -
  let ?ps = "map pair_of ps" and ?d = "witness_layout op (unat seq) (map pair_of ps)"
  have out: "WITNESS_MAGIC @ [1, op, word_of_nat (length ps), 0] @ le_bytes 8 (unat seq) @ concat (map proof_layout ?ps) = ?d"
    by (simp add: witness_layout_def)
  have "(\<exists>h. parse_witness_header ?d = Inr h \<and> parse_proofs ?d h (\<lambda>_ _ _. Inr ()) () = Inr ())
      \<longleftrightarrow> witness_ok op (unat seq) ?ps" if "list_all proof_ok ?ps" "length ps \<le> 16"
  proof
    assume "\<exists>h. parse_witness_header ?d = Inr h \<and> parse_proofs ?d h (\<lambda>_ _ _. Inr ()) () = Inr ()"
    then obtain h where h: "parse_witness_header ?d = Inr h" "parse_proofs ?d h (\<lambda>_ _ _. Inr ()) () = Inr ()" by blast
    from parse_witness_sound [OF h] obtain qs where qs: "?d = witness_layout (wh_operation h) (wh_state_sequence h) qs"
      "witness_ok (wh_operation h) (wh_state_sequence h) qs" by blast
    have "op = wh_operation h \<and> unat seq = wh_state_sequence h \<and> ?ps = qs"
      using qs that(1) unat64 [of seq] by (intro witness_layout_inject) (simp_all add: witness_ok_def)
    with qs(2) show "witness_ok op (unat seq) ?ps" by simp
  next
    assume ok: "witness_ok op (unat seq) ?ps"
    show "\<exists>h. parse_witness_header ?d = Inr h \<and> parse_proofs ?d h (\<lambda>_ _ _. Inr ()) () = Inr ()"
      using witness_layout_header [OF ok] parse_witness_complete [OF ok, of "\<lambda>_ _ _. Inr ()" "()"] by (simp add: fold_unit)
  qed
  then have parsed: "list_all proof_ok ?ps \<and> length ps \<le> 16
      \<and> (\<exists>h. parse_witness_header ?d = Inr h \<and> (\<exists>u. parse_proofs ?d h (\<lambda>_ _ _. Inr ()) () = Inr u))
      \<longleftrightarrow> length ps \<le> 16 \<and> witness_ok op (unat seq) ?ps"
    by (auto simp: witness_ok_def)
  have "encode_witness op seq ps = Inr d \<longleftrightarrow> (\<exists>c. capability_for_operation op = Inr c) \<and> d = ?d
      \<and> list_all proof_ok ?ps \<and> length ps \<le> 16
      \<and> (\<exists>h. parse_witness_header ?d = Inr h \<and> (\<exists>u. parse_proofs ?d h (\<lambda>_ _ _. Inr ()) () = Inr u))"
    unfolding encode_witness_def Let_def bind_r_Inr_iff if_Inl_Inr_iff map_encode_proof by (auto simp: out simp del: map_map append.simps append_assoc append_Cons)
  also have "\<dots> \<longleftrightarrow> length ps \<le> 16 \<and> witness_ok op (unat seq) ?ps \<and> d = ?d"
    using parsed by (auto simp: capability_ok_iff witness_ok_def)
  finally show ?thesis .
qed

lemma encode_witness_browser:
  "encode_witness op seq ps = Inr d \<longleftrightarrow> encodeAccountWitness (uint op) (int (unat seq)) (map browser_proof ps) = Inr d"
proof -
  have proofs: "map browser_proof ps = map to_proof qs \<longleftrightarrow> qs = map pair_of ps" for qs
    using inj_map_eq_map [OF inj_to_proof, of "map pair_of ps" qs] by (auto simp: browser_proof_eq fun_eq_iff comp_def cong: map_cong)
  have seq: "int (unat seq) = int n \<longleftrightarrow> n = unat seq" for n by (metis of_nat_eq_iff)
  have "uint op \<in> {1, 2, 3}" if "witness_ok op (unat seq) (map pair_of ps)" using that by (auto simp: witness_ok_def)
  then show ?thesis
    unfolding encode_witness_Inr_iff encodeAccountWitness_Inr_iff proofs seq word_of_int_uint by auto
qed

lemma encode_verifier_request_Inr_iff:
  assumes "length digest = 32" and "length key = 32"
    and q: "q = \<lparr>vr_algorithm_id = unat a, vr_slot = unat s, vr_operation = op, vr_verifier_profile = profile,
      vr_authorization_digest = digest, vr_key_id = key, vr_aux = aux, vr_proof = payload\<rparr>"
  shows "encode_verifier_request a s op profile digest key aux payload = Inr r \<longleftrightarrow> request_ok q \<and> r = request_layout q"
proof (cases "length aux \<le> VERIFIER_MAX_AUX_LEN \<and> length payload \<le> VERIFIER_MAX_PROOF_LEN")
  case True
  have "encode_verifier_request a s op profile digest key aux payload =
      bind_r (capability_for_operation op) (\<lambda>_. bind_r (parse_verifier_request (request_layout q)) (\<lambda>_. Inr (request_layout q)))"
    using True by (simp add: encode_verifier_request_def checked_add_def u32_len_def Let_def q request_layout_def request_header_def)
  moreover have "request_sized q" "length (request_layout q) = 96 + length aux + length payload"
    using True assms unat16 by (simp_all add: request_sized_def q request_layout_def request_header_def)
  moreover from this have "parse_verifier_request (request_layout q) =
      (if op \<in> {OP_SPEND, OP_ROTATE, OP_RECOVERY} then Inr q else Inl (Err InvalidOperation))"
    using True by (simp add: parse_verifier_request_of_layout q)
  ultimately show ?thesis
    using True assms unat16 by (auto simp: bind_r_Inr_iff capability_ok_iff request_ok_def q split: if_splits)
next
  case False
  then show ?thesis by (auto simp: encode_verifier_request_def bind_r_Inr_iff request_ok_def q)
qed

text \<open>The host's arguments for an authenticator of the account's state.\<close>

definition host_request :: "authenticator_entry \<Rightarrow> byte \<Rightarrow> bytes \<Rightarrow> bytes \<Rightarrow> bytes rust" where
  "host_request e op digest payload = encode_verifier_request (word_of_nat (ae_algorithm_id e)) (word_of_nat (ae_slot e)) op
     (hd (ae_aux e)) digest (ae_key_id e) (ae_aux e) payload"

lemma host_request_chain:
  assumes "entry_ok e" and "ae_aux e \<noteq> []" and "length (ae_key_id e) = 32" and "length digest = 32"
  shows "host_request e op digest payload = Inr r \<longleftrightarrow> encode_request e op digest payload = Inr r"
proof -
  have e: "ae_algorithm_id e < 2 ^ 16" "ae_slot e < 2 ^ 16" "length (ae_aux e) < 2 ^ 32"
    using assms(1) by (auto simp: entry_ok_def)
  let ?q = "request_of e op digest payload"
  have "unat (word_of_nat (ae_algorithm_id e) :: 16 word) = ae_algorithm_id e" "unat (word_of_nat (ae_slot e) :: 16 word) = ae_slot e"
    using e by (simp_all add: unat_of_nat)
  then have "host_request e op digest payload = Inr r \<longleftrightarrow> request_ok ?q \<and> r = request_layout ?q"
    unfolding host_request_def encode_verifier_request_Inr_iff [OF assms(4,3) refl] by (simp add: request_of_def)
  moreover have "encode_request e op digest payload = Inr r \<longleftrightarrow> request_ok ?q \<and> r = request_layout ?q"
    using encode_request_Inr_iff [OF e(1,2) assms(4) e(3)] assms(2) unfolding parse_verifier_request_Inr_iff by simp
  ultimately show ?thesis by simp
qed

lemma encode_p256_browser: "encode_p256_proof p = Inr d \<longleftrightarrow> encodeP256Proof p = Inr d"
  unfolding encodeP256Proof_Inr_iff
  by (auto simp: encode_p256_proof_def u16_len_def p256_ok_def sec1_tagged_def p256_layout_def bind_r_Inr_iff idx_def)

lemma encode_public_key_chain:
  "encode_public_key_proof k s = Inr d \<longleftrightarrow> parse_public_key_proof d = Inr \<lparr>pp_public_key = k, pp_signature = s\<rparr>"
proof -
  let ?p = "\<lparr>pp_public_key = k, pp_signature = s\<rparr>"
  have "encode_public_key_proof k s = Inr d \<longleftrightarrow> public_key_ok ?p \<and> d = public_key_layout ?p
      \<and> (\<exists>q. parse_public_key_proof (public_key_layout ?p) = Inr q)"
    by (auto simp: encode_public_key_proof_def Let_def bind_r_Inr_iff u16_len_def public_key_ok_def public_key_layout_def)
  moreover have "parse_public_key_proof (public_key_layout ?p) = Inr ?p" if "public_key_ok ?p"
    using that by (simp add: parse_public_key_proof_Inr_iff)
  ultimately show ?thesis unfolding parse_public_key_proof_Inr_iff by auto
qed

text \<open>What \<^verbatim>\<open>ckb_types\<close> documents of \<^verbatim>\<open>WitnessArgs\<close>: it reads the table and writes it with another lock.\<close>

definition relocks :: "(bytes \<Rightarrow> bytes option) \<Rightarrow> bool" where
  "relocks relock \<longleftrightarrow> (\<forall>l i o'. length (mol_witness_args l i o') < 2 ^ 32
     \<and> length (mol_witness_args (Some []) i o') < 2 ^ 32 \<longrightarrow> relock (mol_witness_args l i o') = Some (mol_witness_args (Some []) i o'))"

lemma host_digest_browser:
  assumes "hash_agrees C H" and "length aid = 32" and "length sighash = 32"
  shows "host_authorization_digest H op aid seq state sighash = Inr d \<longleftrightarrow>
    authorizationDigest C \<lparr>operation = uint op, accountId = aid, sequence = int (unat seq), state_data = state,
      group_sighash = sighash\<rparr> = Inr d"
proof -
  have "(\<exists>c. capability_for_operation op = Inr c) \<longleftrightarrow> uint op \<in> {1, 2, 3}"
    unfolding capability_ok_iff by (auto simp: word_uint_eq_iff)
  moreover have "int (unat seq) < int 18446744073709551616" using unat64 [of seq] by (simp only: of_nat_less_iff)
  ultimately show ?thesis
    using assms(2,3) unfolding authorizationDigest_Inr_iff [OF assms(1)]
    by (auto simp: host_authorization_digest_def bind_r_Inr_iff authorization_ok_def digest_preimage_def)
qed

lemma map_update_witness: "\<forall>w \<in> set ws. length w < 2 ^ 64 \<Longrightarrow> map_r update_witness ws = Inr (map hash_witness ws)"
  by (intro map_r_ok) (auto simp: update_witness_def hash_witness_def)

lemma host_sighash_agrees:
  assumes "ccc_molecule C" and "hash_agrees C H" and "relocks relock" and "length txHash = 32"
    and "length (mol_witness_args l i o') \<le> MAX_WITNESS" and "\<forall>w \<in> set (gs @ es). length w \<le> MAX_WITNESS"
    and "int (length (concat (map hash_witness (gs @ es)))) \<le> 2 ^ 52"
  shows "\<exists>h. host_group_sighash H relock txHash (mol_witness_args l i o' # gs) es = Inr h
    \<and> groupSighash C txHash (mol_witness_args l i o' # gs) es = Inr h
    \<and> env_group_sighash H
        \<lparr>env_txHash = txHash, env_groupWitnesses = mol_witness_args l i o' # gs, env_extraWitnesses = es\<rparr> = Inr h"
proof -
  let ?c = "mol_witness_args (Some []) i o'"
  have len: "length (mol_witness_args l i o') < 2 ^ 32" "length ?c < 2 ^ 32"
    using assms(5) by (simp_all add: MAX_WITNESS_def mol_witness_args_def)
  have small: "\<forall>w \<in> set (gs @ es). length w \<le> 2 ^ 32"
    using assms(6) by (fastforce simp: MAX_WITNESS_def)
  have "length w < 2 ^ 64" if "w \<in> set (gs @ es)" for w
    using bspec [OF small that] le_less_trans [of "length w" "2 ^ 32" "2 ^ 64"] by simp
  then have "map_r update_witness gs = Inr (map hash_witness gs)" "map_r update_witness es = Inr (map hash_witness es)"
    by (simp_all add: map_update_witness)
  moreover have "relock (mol_witness_args l i o') = Some ?c" "update_witness ?c = Inr (hash_witness ?c)"
    using assms(3) len by (simp_all add: relocks_def update_witness_def hash_witness_def)
  ultimately have "host_group_sighash H relock txHash (mol_witness_args l i o' # gs) es =
      Inr (H (txHash @ hash_witness ?c @ concat (map hash_witness (gs @ es))))"
    by (simp add: host_group_sighash_def)
  moreover have "groupSighash C txHash (mol_witness_args l i o' # gs) es =
      Inr (H (txHash @ hash_witness ?c @ concat (map hash_witness (gs @ es))))"
    using groupSighash_mol [OF assms(1,4) len small assms(7)] assms(2) by (simp add: hash_agrees_def)
  ultimately show ?thesis
    using env_sighash_agrees [OF assms(1,2,4-7)] by auto
qed

lemma type_id_code_hash_text: "hexFromBytes TYPE_ID_CODE_HASH_BYTES = TYPE_ID_CODE_HASH"
  by code_simp

section \<open>Property\<close>

text \<open>
  C11: the host, the browser and the chain agree. The host's witness and passkey proof encoders
  return the same bytes as the browser's, for the same inputs and for no others; its verifier
  request is the one the account lock writes; its post-quantum proof is the one byte string that
  parses to the given key and signature; the three implementations of the authorization digest and
  of the group sighash return the same hashes; and its lock args and Type ID code hash are the ones
  of the deployment tool, which the lock script reads back as the account.
\<close>

theorem host_encoders_agree:
  assumes "hash_agrees C H" and "ccc_hex C" and "ccc_molecule C" and "relocks relock"
    and "entry_ok e" and "ae_aux e \<noteq> []" and "length (ae_key_id e) = 32" and "length digest = 32"
    and "length aid = 32" and "length sighash = 32" and "length txHash = 32"
    and "length (mol_witness_args l i o') \<le> MAX_WITNESS" and "\<forall>w \<in> set (gs @ es). length w \<le> MAX_WITNESS"
    and "int (length (concat (map hash_witness (gs @ es)))) \<le> 2 ^ 52"
  shows "(encode_witness op seq ps = Inr d) = (encodeAccountWitness (uint op) (int (unat seq)) (map browser_proof ps) = Inr d)
    \<and> (encode_p256_proof p = Inr d) = (encodeP256Proof p = Inr d)
    \<and> (host_request e op digest payload = Inr d) = (encode_request e op digest payload = Inr d)
    \<and> (encode_public_key_proof k s = Inr d) = (parse_public_key_proof d = Inr \<lparr>pp_public_key = k, pp_signature = s\<rparr>)
    \<and> (host_authorization_digest H op aid seq state sighash = Inr d) =
        (authorizationDigest C \<lparr>operation = uint op, accountId = aid, sequence = int (unat seq), state_data = state,
           group_sighash = sighash\<rparr> = Inr d)
    \<and> (host_authorization_digest H op aid seq state sighash = Inr d) =
        (op \<in> {OP_SPEND, OP_ROTATE, OP_RECOVERY} \<and> d = authorization_digest H op aid (unat seq) state sighash)
    \<and> (\<exists>h. host_group_sighash H relock txHash (mol_witness_args l i o' # gs) es = Inr h
        \<and> groupSighash C txHash (mol_witness_args l i o' # gs) es = Inr h
        \<and> env_group_sighash H
            \<lparr>env_txHash = txHash, env_groupWitnesses = mol_witness_args l i o' # gs, env_extraWitnesses = es\<rparr> = Inr h)
    \<and> accountLockArgs C (hexFromBytes aid) = Inr (hexFromBytes (host_account_lock_args aid))
    \<and> parse_lock_args (host_account_lock_args aid) = Inr \<lparr>la_version = 1, la_account_id = aid\<rparr>
    \<and> hexFromBytes TYPE_ID_CODE_HASH_BYTES = TYPE_ID_CODE_HASH"
proof (intro conjI)
  show "(host_authorization_digest H op aid seq state sighash = Inr d) =
      (op \<in> {OP_SPEND, OP_ROTATE, OP_RECOVERY} \<and> d = authorization_digest H op aid (unat seq) state sighash)"
    using capability_ok_iff [of op] by (auto simp: host_authorization_digest_def authorization_digest_def bind_r_Inr_iff)
  show "accountLockArgs C (hexFromBytes aid) = Inr (hexFromBytes (host_account_lock_args aid))"
    using accountLockArgs_hex [OF assms(2,9)] by (simp add: host_account_lock_args_def)
  show "parse_lock_args (host_account_lock_args aid) = Inr \<lparr>la_version = 1, la_account_id = aid\<rparr>"
    using lock_args_on_chain [OF assms(9)] by (simp add: host_account_lock_args_def)
qed (rule encode_witness_browser encode_p256_browser host_request_chain [OF assms(5-8)] encode_public_key_chain
  host_digest_browser [OF assms(1,9,10)] host_sighash_agrees [OF assms(3,1,4,11-14)] type_id_code_hash_text)+

definition ref_relock :: "bytes \<Rightarrow> bytes option" where
  "ref_relock w = (case canonical_witness w of Inr c \<Rightarrow> Some c | Inl _ \<Rightarrow> None)"

lemma ref_relocks: "relocks ref_relock"
  using canonical_witness_mol by (simp add: relocks_def ref_relock_def)

theorem host_encoders_agree_witness:
  "\<exists>d h. encodeAccountWitness 1 7 [\<lparr>slot = JNat 3, proof_bytes = [5]\<rparr>] = Inr d \<and> encode_witness 1 7 [\<lparr>hp_slot = 3, hp_bytes = [5]\<rparr>] = Inr d
     \<and> host_group_sighash (\<lambda>d. le_bytes 32 (of_le d)) ref_relock (replicate 32 1) [mol_witness_args (Some [1]) None None] [[2]] = Inr h
     \<and> groupSighash ref_ccc (replicate 32 1) [mol_witness_args (Some [1]) None None] [[2]] = Inr h"
proof -
  let ?H = "\<lambda>d :: bytes. le_bytes 32 (of_le d)"
  have len: "length (mol_witness_args (Some [1]) None None) \<le> MAX_WITNESS" "\<forall>w \<in> set ([] @ [[2 :: byte]]). length w \<le> MAX_WITNESS"
    "int (length (concat (map hash_witness ([] @ [[2]])))) \<le> 2 ^ 52"
    by (simp_all add: mol_witness_args_def MAX_WITNESS_def hash_witness_def)
  note agree = host_encoders_agree [OF ref_hash_agrees ref_ccc_hex ref_ccc_molecule ref_relocks sample_entry_ok _ _ _ _ _ _ len,
      of "replicate 32 7" "replicate 32 1" "replicate 32 2" "replicate 32 1" 1 7 "[\<lparr>hp_slot = 3, hp_bytes = [5]\<rparr>]"
        "witness_layout 1 7 [(3, [5])]"]
  have "encode_witness 1 7 [\<lparr>hp_slot = 3, hp_bytes = [5]\<rparr>] = Inr (witness_layout 1 7 [(3, [5])])"
    by (simp add: encode_witness_Inr_iff pair_of_def witness_ok_def witness_layout_def proof_ok_def proof_layout_def
        ascending_from_def)
  moreover from this have "encodeAccountWitness 1 7 [\<lparr>slot = JNat 3, proof_bytes = [5]\<rparr>] = Inr (witness_layout 1 7 [(3, [5])])"
    using agree by (simp add: sample_entry_def browser_proof_def)
  moreover have "\<exists>h. host_group_sighash ?H ref_relock (replicate 32 1) [mol_witness_args (Some [1]) None None] [[2]] = Inr h
      \<and> groupSighash ref_ccc (replicate 32 1) [mol_witness_args (Some [1]) None None] [[2]] = Inr h"
    using agree by (simp add: sample_entry_def) blast
  ultimately show ?thesis by blast
qed

end
