(* ===== verification/Artifacts.thy ===== *)
theory Artifacts
  imports Node "HOL-Library.Signed_Division"
begin

text \<open>
  tools/deploy/src/artifacts.ts and plan.ts: cell capacities, the recorded identities of the
  release binaries, and the deployment plan built from hash-verified binaries.

  The files on disk are the argument \<open>disk\<close>, from absolute paths to contents or the error that
  reading gives; \<^verbatim>\<open>readFileSync(path, "utf8")\<close> followed by \<^verbatim>\<open>JSON.parse\<close> is the argument \<open>json\<close> on
  those contents. A field read from JSON under a type cast stays a \<open>js_value\<close>.
\<close>

section \<open>Capacities\<close>

definition SECP256K1_LOCK_ARGS_LENGTH :: nat where
  "SECP256K1_LOCK_ARGS_LENGTH = 20"

definition CAPACITY_FIELD_BYTES :: int where
  "CAPACITY_FIELD_BYTES = 8"

definition SCRIPT_FIXED_BYTES :: int where
  "SCRIPT_FIXED_BYTES = 32 + 1"

definition ckbDataHash :: "ccc \<Rightarrow> bytes \<Rightarrow> string" where
  "ckbDataHash C d = ccc_hashCkb C d"

text \<open>\<^verbatim>\<open>!Number.isInteger(value) || value < 0\<close>\<close>

definition invalid_length :: "js_number \<Rightarrow> bool" where
  "invalid_length x = (case x of JInt i \<Rightarrow> i < 0 | JNonInt \<Rightarrow> True)"

definition int_of_number :: "js_number \<Rightarrow> int" where
  "int_of_number x = (case x of JInt i \<Rightarrow> i | JNonInt \<Rightarrow> 0)"

definition cellCapacityShannons :: "js_number \<Rightarrow> js_number option \<Rightarrow> js_number \<Rightarrow> int js" where
  "cellCapacityShannons lockArgsLength typeArgsLength dataLength =
     (if invalid_length lockArgsLength
      then Inl (PlainError (''invalid lock args length: '' @ number_string lockArgsLength))
      else if invalid_length dataLength
      then Inl (PlainError (''invalid data length: '' @ number_string dataLength))
      else if (case typeArgsLength of None \<Rightarrow> False | Some t \<Rightarrow> invalid_length t)
      then Inl (PlainError (''invalid type args length: '' @ number_string (the typeArgsLength)))
      else
        let typeBytes = (case typeArgsLength of None \<Rightarrow> 0 | Some t \<Rightarrow> SCRIPT_FIXED_BYTES + int_of_number t);
            occupiedBytes = CAPACITY_FIELD_BYTES + SCRIPT_FIXED_BYTES + int_of_number lockArgsLength
              + typeBytes + int_of_number dataLength
        in Inr (occupiedBytes * SHANNONS_PER_CKB))"

definition codeCellCapacityShannons :: "js_number \<Rightarrow> js_number \<Rightarrow> int js" where
  "codeCellCapacityShannons dataLength lockArgsLength = cellCapacityShannons lockArgsLength None dataLength"

section \<open>Identities\<close>

record artifact_identity =
  ai_name :: string
  ai_path :: js_value
  ai_dataHash :: js_value

record verified_artifact = artifact_identity +
  ai_data :: bytes

text \<open>The loop over the entries of \<^verbatim>\<open>local.artifacts\<close>.\<close>

fun collect_identities ::
  "string \<Rightarrow> (string \<times> artifact_identity) list \<Rightarrow> (string \<times> js_value) list \<Rightarrow> (string \<times> artifact_identity) list js"
where
  "collect_identities manifestPath ids [] = Inr ids"
| "collect_identities manifestPath ids ((name, entry) # rest) =
     (if \<not> js_truthy (jget_opt entry ''path'') \<or> \<not> js_truthy (jget_opt entry ''data_hash'')
      then Inl (PlainError (manifestPath @ '': artifact '' @ name @ '' is missing path or data_hash''))
      else collect_identities manifestPath
        (obj_set ids name \<lparr>ai_name = name, ai_path = jget_opt entry ''path'', ai_dataHash = jget_opt entry ''data_hash''\<rparr>)
        rest)"

definition readLocalArtifactIdentities ::
  "(string \<Rightarrow> bytes js) \<Rightarrow> (bytes \<Rightarrow> js_value js) \<Rightarrow> string \<Rightarrow> (string \<times> artifact_identity) list js"
where
  "readLocalArtifactIdentities disk json repoRoot =
     (let manifestPath = resolve repoRoot ''deploy/reference-deployments.json'' in
      bind_r (bind_r (disk manifestPath) json) (\<lambda>manifest.
      if manifest = JNull then Inl (TypeError ''Cannot read properties of null (reading 'local')'')
      else
        let artifacts = jget_opt (jget_opt manifest ''local'') ''artifacts'' in
        if \<not> js_truthy artifacts then Inl (PlainError (manifestPath @ '' has no local.artifacts section''))
        else collect_identities manifestPath [] (js_entries artifacts)))"

definition loadVerifiedArtifact ::
  "ccc \<Rightarrow> (string \<Rightarrow> bytes js) \<Rightarrow> string \<Rightarrow> artifact_identity \<Rightarrow> verified_artifact js"
where
  "loadVerifiedArtifact C disk repoRoot identity = (case ai_path identity of
     JStr path \<Rightarrow>
       let absolute = resolve repoRoot path in
       (case disk absolute of
          Inl e \<Rightarrow> Inl (PlainError (''cannot read artifact '' @ ai_name identity @ '' at '' @ absolute
            @ '': '' @ error_text e))
        | Inr bs \<Rightarrow>
            let actual = ckbDataHash C bs in
            if JStr actual \<noteq> ai_dataHash identity
            then Inl (PlainError (''data hash mismatch for '' @ ai_name identity @ '' at '' @ absolute
              @ '': expected '' @ js_text (ai_dataHash identity) @ '', computed '' @ actual
              @ ''. Rebuild with the pinned toolchain from a clean checkout before deploying.''))
            else Inr (\<lparr>ai_name = ai_name identity, ai_path = ai_path identity,
              ai_dataHash = ai_dataHash identity, ai_data = bs\<rparr>))
   | _ \<Rightarrow> Inl (TypeError ''The path argument must be of type string''))"

section \<open>Plans\<close>

definition PHASED_P256_ARTIFACTS :: "string list" where
  "PHASED_P256_ARTIFACTS = [''account_lock'', ''verifier_p256'']"

definition ALL_ARTIFACTS :: "string list" where
  "ALL_ARTIFACTS = [''account_lock'', ''verifier_p256'', ''verifier_mldsa65'', ''verifier_slhdsa_sha2_128s'']"

record planned_cell = verified_artifact +
  pc_capacityShannons :: int

record deployment_plan =
  dp_cells :: "planned_cell list"
  dp_totalCapacityShannons :: int

text \<open>\<^verbatim>\<open>selection.filter((name, index) => selection.indexOf(name) !== index)\<close>\<close>

fun duplicates_after :: "string list \<Rightarrow> string list \<Rightarrow> string list" where
  "duplicates_after seen [] = []"
| "duplicates_after seen (x # xs) =
     (if x \<in> set seen then x # duplicates_after seen xs else duplicates_after (x # seen) xs)"

definition plan_cell ::
  "ccc \<Rightarrow> (string \<Rightarrow> bytes js) \<Rightarrow> string \<Rightarrow> (string \<times> artifact_identity) list \<Rightarrow> js_number \<Rightarrow> string \<Rightarrow> planned_cell js"
where
  "plan_cell C disk repoRoot identities lockArgsLength name = (case map_of identities name of
     None \<Rightarrow> Inl (PlainError (''unknown artifact '' @ quoted name @ ''; known artifacts: ''
       @ join_with '', '' (map fst identities)))
   | Some identity \<Rightarrow>
       bind_r (loadVerifiedArtifact C disk repoRoot identity) (\<lambda>verified.
       bind_r (codeCellCapacityShannons (JNat (length (ai_data verified))) lockArgsLength) (\<lambda>cap.
       Inr \<lparr>ai_name = ai_name verified, ai_path = ai_path verified, ai_dataHash = ai_dataHash verified,
            ai_data = ai_data verified, pc_capacityShannons = cap\<rparr>)))"

definition buildDeploymentPlan ::
  "ccc \<Rightarrow> (string \<Rightarrow> bytes js) \<Rightarrow> (bytes \<Rightarrow> js_value js) \<Rightarrow> string \<Rightarrow> string list \<Rightarrow> js_number \<Rightarrow> deployment_plan js"
where
  "buildDeploymentPlan C disk json repoRoot selection lockArgsLength =
     (if length selection = 0 then Inl (PlainError ''no artifacts selected for deployment'')
      else if length (duplicates_after [] selection) > 0
      then Inl (PlainError (''duplicate artifact in selection: ''
        @ join_with '', '' (rev (remdups (rev (duplicates_after [] selection))))))
      else
        bind_r (readLocalArtifactIdentities disk json repoRoot) (\<lambda>identities.
        bind_r (map_r (plan_cell C disk repoRoot identities lockArgsLength) selection) (\<lambda>cells.
        Inr \<lparr>dp_cells = cells,
             dp_totalCapacityShannons = foldl (\<lambda>n c. n + pc_capacityShannons c) 0 cells\<rparr>)))"

section \<open>Amounts\<close>

text \<open>\<^verbatim>\<open>toLocaleString("en-US")\<close> of a \<^verbatim>\<open>bigint\<close>: a comma between groups of three digits.\<close>

fun group_rev :: "string \<Rightarrow> string" where
  "group_rev (a # b # c # d # s) = a # b # c # CHR '','' # group_rev (d # s)"
| "group_rev s = s"

definition locale_int :: "int \<Rightarrow> string" where
  "locale_int i = (if i < 0 then ''-'' else []) @ rev (group_rev (rev (dec (nat \<bar>i\<bar>))))"

text \<open>\<^verbatim>\<open>s.replace(/0+$/, "")\<close>\<close>

definition strip_zeros :: "string \<Rightarrow> string" where
  "strip_zeros s = rev (dropWhile (\<lambda>c. c = CHR ''0'') (rev s))"

definition formatCkb :: "int \<Rightarrow> string" where
  "formatCkb shannons =
     (let whole = shannons sdiv 100000000; fraction = shannons smod 100000000 in
      if fraction = 0 then locale_int whole @ '' CKB''
      else locale_int whole @ ''.'' @ strip_zeros (padStart 8 CHR ''0'' (dec_int fraction)) @ '' CKB'')"

section \<open>Lemmas\<close>

lemma invalid_length_iff: "\<not> invalid_length x \<longleftrightarrow> (\<exists>n. x = JNat n)"
  by (cases x) (auto simp: invalid_length_def not_less dest: zero_le_imp_eq_int)

lemma cellCapacity_Inr_iff:
  "cellCapacityShannons l t d = Inr c \<longleftrightarrow>
     (\<exists>ln dn. l = JNat ln \<and> d = JNat dn
        \<and> (case t of None \<Rightarrow> c = int (41 + ln + dn) * SHANNONS_PER_CKB
           | Some x \<Rightarrow> \<exists>tn. x = JNat tn \<and> c = int (74 + ln + tn + dn) * SHANNONS_PER_CKB))"
proof -
  have "cellCapacityShannons l t d = Inr c \<longleftrightarrow>
     \<not> invalid_length l \<and> \<not> invalid_length d \<and> (case t of None \<Rightarrow> True | Some x \<Rightarrow> \<not> invalid_length x)
     \<and> c = (41 + int_of_number l + (case t of None \<Rightarrow> 0 | Some x \<Rightarrow> 33 + int_of_number x) + int_of_number d) * SHANNONS_PER_CKB"
    by (auto simp: cellCapacityShannons_def CAPACITY_FIELD_BYTES_def SCRIPT_FIXED_BYTES_def Let_def
        split: option.splits)
  then show ?thesis
    by (cases t) (auto simp: invalid_length_iff int_of_number_def algebra_simps)
qed

lemma cellCapacity_nat [simp]:
  "cellCapacityShannons (JNat ln) None (JNat dn) = Inr (int (41 + ln + dn) * SHANNONS_PER_CKB)"
  "cellCapacityShannons (JNat ln) (Some (JNat tn)) (JNat dn) = Inr (int (74 + ln + tn + dn) * SHANNONS_PER_CKB)"
  by (simp_all add: cellCapacity_Inr_iff)

lemma loadVerifiedArtifact_Inr_iff [result_simps]:
  "loadVerifiedArtifact C disk root a = Inr v \<longleftrightarrow>
     (\<exists>path bs. ai_path a = JStr path \<and> disk (resolve root path) = Inr bs
        \<and> ai_dataHash a = JStr (ccc_hashCkb C bs) \<and> v = \<lparr>ai_name = ai_name a, ai_path = ai_path a,
            ai_dataHash = ai_dataHash a, ai_data = bs\<rparr>)"
  by (auto simp: loadVerifiedArtifact_def ckbDataHash_def Let_def split: js_value.splits sum.splits if_splits)

lemma duplicates_after_Nil_iff: "duplicates_after seen xs = [] \<longleftrightarrow> distinct xs \<and> set xs \<inter> set seen = {}"
  by (induction seen xs rule: duplicates_after.induct) auto

text \<open>One cell of a plan: the recorded identity, the bytes read and their hash, the exact capacity.\<close>

definition planned_from ::
  "ccc \<Rightarrow> (string \<Rightarrow> bytes js) \<Rightarrow> string \<Rightarrow> (string \<times> artifact_identity) list \<Rightarrow> nat \<Rightarrow> string \<Rightarrow> planned_cell \<Rightarrow> bool"
where
  "planned_from C disk root ids ln name c \<longleftrightarrow>
     map_of ids name = Some \<lparr>ai_name = ai_name c, ai_path = ai_path c, ai_dataHash = ai_dataHash c\<rparr>
     \<and> ai_dataHash c = JStr (ccc_hashCkb C (ai_data c))
     \<and> (\<exists>path. ai_path c = JStr path \<and> disk (resolve root path) = Inr (ai_data c))
     \<and> pc_capacityShannons c = int (41 + ln + length (ai_data c)) * SHANNONS_PER_CKB"

lemma plan_cell_Inr_iff:
  "plan_cell C disk root ids l name = Inr c \<longleftrightarrow> (\<exists>ln. l = JNat ln \<and> planned_from C disk root ids ln name c)"
  unfolding plan_cell_def planned_from_def codeCellCapacityShannons_def
  by (cases "map_of ids name"; cases c) (auto simp: result_simps cellCapacity_Inr_iff)

lemma buildDeploymentPlan_Inr_iff:
  "buildDeploymentPlan C disk json root selection l = Inr p \<longleftrightarrow>
     selection \<noteq> [] \<and> distinct selection
     \<and> (\<exists>ids ln. readLocalArtifactIdentities disk json root = Inr ids \<and> l = JNat ln
          \<and> list_all2 (planned_from C disk root ids ln) selection (dp_cells p))
     \<and> dp_totalCapacityShannons p = sum_list (map pc_capacityShannons (dp_cells p))"
proof -
  have total: "foldl (\<lambda>n c. n + pc_capacityShannons c) n cs = n + sum_list (map pc_capacityShannons cs)"
    for n and cs :: "planned_cell list"
    by (induction cs arbitrary: n) auto
  have one: "list_all2 (\<lambda>x y. \<exists>ln. l = JNat ln \<and> planned_from C disk root ids ln x y) selection cs
    \<longleftrightarrow> (\<exists>ln. l = JNat ln \<and> list_all2 (planned_from C disk root ids ln) selection cs)"
    if "selection \<noteq> []" for ids cs
    using that by (cases "\<exists>ln. l = JNat ln"; cases selection) (auto simp: list_all2_Cons1)
  show ?thesis
    by (cases p) (auto simp: buildDeploymentPlan_def duplicates_after_Nil_iff result_simps plan_cell_Inr_iff one total)
qed

section \<open>Property\<close>

text \<open>
  A deployment plan holds only hash-verified binaries. \<^verbatim>\<open>buildDeploymentPlan\<close> returns a plan
  exactly when the selection is non-empty and free of duplicates and every selected artifact is
  recorded, readable and hashes to its recorded identity; the plan then lists the selection in
  order, each cell with the bytes that were hashed and the capacity \<open>41 + lock args + data\<close>
  bytes need, and its total is the sum.
\<close>

lemma deployment_plan_exact:
  "buildDeploymentPlan C disk json root selection l = Inr p \<longleftrightarrow>
     selection \<noteq> [] \<and> distinct selection
     \<and> (\<exists>ids ln. readLocalArtifactIdentities disk json root = Inr ids \<and> l = JNat ln
          \<and> list_all2 (planned_from C disk root ids ln) selection (dp_cells p))
     \<and> dp_totalCapacityShannons p = sum_list (map pc_capacityShannons (dp_cells p))"
  by (rule buildDeploymentPlan_Inr_iff)

section \<open>Printed amounts\<close>

lemma filter_group_rev: "filter (\<lambda>c. c \<noteq> CHR '','') (group_rev s) = filter (\<lambda>c. c \<noteq> CHR '','') s"
  by (induction s rule: group_rev.induct) auto

lemma digits_no_comma: "list_all is_digit s \<Longrightarrow> filter (\<lambda>c. c \<noteq> CHR '','') s = s"
  by (induction s) (auto simp: is_digit_def)

lemma filter_locale_int: "filter (\<lambda>c. c \<noteq> CHR '','') (locale_int (int n)) = dec n"
  by (simp add: locale_int_def rev_filter [symmetric] filter_group_rev digits_no_comma [OF dec_digits])

lemma strip_zeros_split: "\<exists>k. s = strip_zeros s @ replicate k CHR ''0''"
proof -
  let ?p = "\<lambda>c. c = CHR ''0''"
  have "takeWhile ?p xs = replicate (length (takeWhile ?p xs)) CHR ''0''" for xs
    by (induction xs) auto
  then have "rev s = replicate (length (takeWhile ?p (rev s))) CHR ''0'' @ dropWhile ?p (rev s)"
    by (metis takeWhile_dropWhile_id)
  then have "rev (rev s) = strip_zeros s @ replicate (length (takeWhile ?p (rev s))) CHR ''0''"
    unfolding strip_zeros_def by (metis rev_append rev_replicate)
  then show ?thesis by auto
qed

lemma strip_zeros_inject:
  assumes "strip_zeros s = strip_zeros t" and "length s = length t"
  shows "s = t"
proof -
  obtain j k where "s = strip_zeros s @ replicate j CHR ''0''" "t = strip_zeros t @ replicate k CHR ''0''"
    using strip_zeros_split by blast
  then show ?thesis
    by (metis assms add_left_cancel length_append length_replicate)
qed

lemma of_dec_padded: "of_dec (padStart k CHR ''0'' (dec n)) = n"
proof -
  have "foldl (\<lambda>n c. 10 * n + digit_value c) 0 (replicate j CHR ''0'') = 0" for j
    by (induction j) (simp_all add: digit_value_def)
  then show ?thesis
    using of_dec_dec [of n] by (simp add: padStart_def of_dec_def)
qed

lemma length_dec_bound: "n < 10 ^ k \<Longrightarrow> 0 < k \<Longrightarrow> length (dec n) \<le> k"
proof (induction k arbitrary: n)
  case (Suc k)
  show ?case
  proof (cases "n < 10")
    case False
    then have "0 < k" using Suc.prems by (cases k) auto
    moreover have "n div 10 < 10 ^ k" using Suc.prems by (simp add: less_mult_imp_div_less mult.commute)
    ultimately show ?thesis
      using False Suc.IH [of "n div 10"] by (subst dec.simps) simp
  qed (subst dec.simps, simp)
qed simp

lemma bigint_div_mod:
  "int n sdiv 100000000 = int (n div 100000000)" "int n smod 100000000 = int (n mod 100000000)"
  by (cases "n = 0"; simp add: signed_divide_int_def signed_modulo_int_def zdiv_int zmod_int)+

lemma formatCkb_nat:
  "formatCkb (int n) = locale_int (int (n div 100000000))
     @ (if n mod 100000000 = 0 then [] else ''.'' @ strip_zeros (padStart 8 CHR ''0'' (dec (n mod 100000000)))) @ '' CKB''"
  by (simp add: formatCkb_def Let_def dec_int_def bigint_div_mod)

text \<open>The part after the whole number.\<close>

definition fraction_text :: "nat \<Rightarrow> string" where
  "fraction_text r = (if r = 0 then [] else ''.'' @ strip_zeros (padStart 8 CHR ''0'' (dec r)))"

lemma fraction_text_no_comma: "filter (\<lambda>c. c \<noteq> CHR '','') (fraction_text r) = fraction_text r"
proof -
  have "list_all is_digit (padStart 8 CHR ''0'' (dec r))"
    using dec_digits [of r] by (auto simp: padStart_def list_all_iff is_digit_def)
  then have "list_all is_digit (strip_zeros (padStart 8 CHR ''0'' (dec r)))"
    by (metis strip_zeros_split list_all_append)
  then show ?thesis by (simp add: fraction_text_def digits_no_comma)
qed

lemma takeWhile_digits_fraction: "takeWhile is_digit (dec n @ fraction_text r) = dec n"
  using dec_digits [of n] by (simp add: fraction_text_def takeWhile_append2 list_all_iff is_digit_def)

lemma fraction_text_inject:
  assumes "fraction_text q = fraction_text r" and "q < 100000000" and "r < 100000000"
  shows "q = r"
proof (cases "q = 0 \<or> r = 0")
  case True
  with assms(1) show ?thesis by (auto simp: fraction_text_def split: if_splits)
next
  case False
  have len: "length (padStart 8 CHR ''0'' (dec k)) = 8" if "k < 100000000" for k
    using length_dec_bound [of k 8] that by (simp add: padStart_def)
  have "strip_zeros (padStart 8 CHR ''0'' (dec q)) = strip_zeros (padStart 8 CHR ''0'' (dec r))"
    using False assms(1) by (simp add: fraction_text_def)
  then have "padStart 8 CHR ''0'' (dec q) = padStart 8 CHR ''0'' (dec r)"
    using strip_zeros_inject len assms(2,3) by metis
  then show ?thesis by (metis of_dec_padded)
qed

text \<open>
  The amount printed for the operator determines the amount. \<^verbatim>\<open>formatCkb\<close> gives different
  strings for different non-negative amounts of shannons.
\<close>

lemma formatCkb_faithful: "formatCkb (int m) = formatCkb (int n) \<longleftrightarrow> m = n"
proof
  assume eq: "formatCkb (int m) = formatCkb (int n)"
  have plain: "filter (\<lambda>c. c \<noteq> CHR '','') (formatCkb (int k))
    = (dec (k div 100000000) @ fraction_text (k mod 100000000)) @ '' CKB''" for k
    unfolding formatCkb_nat fraction_text_def [symmetric]
    by (simp add: filter_locale_int fraction_text_no_comma)
  have "dec (m div 100000000) @ fraction_text (m mod 100000000) = dec (n div 100000000) @ fraction_text (n mod 100000000)"
    using plain [of m] plain [of n] eq by simp
  moreover from this have "dec (m div 100000000) = dec (n div 100000000)"
    by (metis takeWhile_digits_fraction)
  ultimately have "fraction_text (m mod 100000000) = fraction_text (n mod 100000000)" "m div 100000000 = n div 100000000"
    by (simp, metis of_dec_dec)
  moreover from this(1) have "m mod 100000000 = n mod 100000000"
    by (rule fraction_text_inject) simp_all
  ultimately show "m = n" by (metis div_mult_mod_eq)
qed simp

end
