(* ===== verification/Deployment.thy ===== *)
theory Deployment
  imports Artifacts
begin

text \<open>
  tools/deploy/src/deployment.ts and deploy.ts: the command line, the deployment manifest and its
  merging, and the publication of code cells.

  A deployed record is cast from JSON, not copied, so the manifest holds the JSON objects
  themselves. The signer and its client are the record \<open>deploy_signer\<close> of operations on an
  arbitrary environment; \<^verbatim>\<open>completeInputsByCapacity\<close> and \<^verbatim>\<open>completeFeeBy\<close> mutate the transaction and so
  return it. Console output is left out.
\<close>

section \<open>Command line\<close>

record deploy_args =
  ar_broadcast :: bool
  ar_selection :: "string list"

text \<open>The loop over \<^verbatim>\<open>argv\<close>: the flags seen so far and the remaining arguments.\<close>

fun scan_args :: "bool \<Rightarrow> bool \<Rightarrow> string option \<Rightarrow> string list \<Rightarrow> (bool \<times> bool \<times> string option) js" where
  "scan_args broadcast all only [] = Inr (broadcast, all, only)"
| "scan_args broadcast all only (argument # rest) =
     (if argument = ''--broadcast'' then scan_args True all only rest
      else if argument = ''--all'' then scan_args broadcast True only rest
      else if argument = ''--only'' then
        (if only \<noteq> None then Inl (PlainError ''--only may be specified once'')
         else case rest of
           [] \<Rightarrow> Inl (PlainError ''--only requires an artifact name'')
         | name # rest' \<Rightarrow>
             if startsWith name ''--'' then Inl (PlainError ''--only requires an artifact name'')
             else scan_args broadcast all (Some name) rest')
      else Inl (PlainError (''unknown argument '' @ quoted argument)))"

definition parseDeploymentArgs :: "string list \<Rightarrow> deploy_args js" where
  "parseDeploymentArgs argv =
     bind_r (scan_args False False None argv) (\<lambda>(broadcast, all, only).
     if all \<and> only \<noteq> None then Inl (PlainError ''cannot combine --all with --only'')
     else case only of
       None \<Rightarrow> Inr \<lparr>ar_broadcast = broadcast, ar_selection = (if all then ALL_ARTIFACTS else PHASED_P256_ARTIFACTS)\<rparr>
     | Some name \<Rightarrow>
         if name \<notin> set ALL_ARTIFACTS then Inl (PlainError (''unknown artifact '' @ quoted name))
         else Inr \<lparr>ar_broadcast = broadcast, ar_selection = [name]\<rparr>)"

section \<open>The deployment manifest\<close>

definition isObject :: "js_value \<Rightarrow> bool" where
  "isObject v = (case v of JObj fs \<Rightarrow> True | _ \<Rightarrow> False)"

text \<open>\<^verbatim>\<open>/^[1-9][0-9]*$/\<close>\<close>

definition positive_re :: "string \<Rightarrow> bool" where
  "positive_re s = (case s of [] \<Rightarrow> False | c # cs \<Rightarrow> is_digit c \<and> c \<noteq> CHR ''0'' \<and> list_all is_digit cs)"

definition is_hash_string :: "js_value \<Rightarrow> bool" where
  "is_hash_string v = (case v of JStr s \<Rightarrow> prefixed_hex ''0x'' 64 s | _ \<Rightarrow> False)"

definition record_ok :: "js_value \<Rightarrow> string \<Rightarrow> bool" where
  "record_ok v name \<longleftrightarrow>
     isObject v \<and> jget_opt v ''name'' = JStr name \<and> is_hash_string (jget_opt v ''dataHash'')
     \<and> jget_opt v ''hashType'' = JStr ''data2'' \<and> is_hash_string (jget_opt v ''txHash'')
     \<and> (case jget_opt v ''index'' of JNum (JInt i) \<Rightarrow> is_safe_integer i \<and> \<not> i < 0 | _ \<Rightarrow> False)
     \<and> (case jget_opt v ''capacityShannons'' of JStr s \<Rightarrow> positive_re s | _ \<Rightarrow> False)"

definition deployedRecord :: "js_value \<Rightarrow> string \<Rightarrow> js_value js" where
  "deployedRecord v name =
     (if \<not> record_ok v name
      then Inl (PlainError (''existing deployment manifest has an invalid '' @ quoted name @ '' record''))
      else Inr v)"

definition manifest_shape :: "js_value \<Rightarrow> bool" where
  "manifest_shape v \<longleftrightarrow>
     isObject v \<and> jget_opt v ''schema_version'' = JNum (JInt 1) \<and> jget_opt v ''network'' = JStr ''testnet''
     \<and> jget_opt v ''published'' = JBool True \<and> jget_opt v ''hash_type'' = JStr ''data2''
     \<and> (case jget_opt v ''note'' of JStr s \<Rightarrow> True | _ \<Rightarrow> False) \<and> isObject (jget_opt v ''artifacts'')"

definition existingArtifacts :: "js_value \<Rightarrow> (string \<times> js_value) list js" where
  "existingArtifacts v =
     (if v = JUndefined then Inr []
      else if \<not> manifest_shape v then Inl (PlainError ''existing deployment manifest is malformed'')
      else
        bind_r (map_r (\<lambda>(name, r). bind_r (deployedRecord r name) (\<lambda>x. Inr (name, x)))
          (js_entries (jget_opt v ''artifacts''))) (\<lambda>es.
        Inr (from_entries es)))"

definition MANIFEST_NOTE :: string where
  "MANIFEST_NOTE = ''Outpoints recorded by tools/deploy. Each cell's on-chain data hash was re-read and verified after commitment.''"

text \<open>The manifest, by its one variable field, and the JSON object it is.\<close>

definition deployment_json :: "(string \<times> js_value) list \<Rightarrow> js_value" where
  "deployment_json artifacts = JObj
     [(''schema_version'', JNum (JInt 1)), (''network'', JStr ''testnet''), (''published'', JBool True),
      (''hash_type'', JStr ''data2''), (''note'', JStr MANIFEST_NOTE), (''artifacts'', JObj artifacts)]"

fun put_records :: "(string \<times> js_value) list \<Rightarrow> deployment_artifact list \<Rightarrow> (string \<times> js_value) list js" where
  "put_records artifacts [] = Inr artifacts"
| "put_records artifacts (r # rs) =
     bind_r (deployedRecord (deployment_artifact_json r) (da_name r)) (\<lambda>v.
     put_records (obj_set artifacts (da_name r) v) rs)"

definition buildDeploymentManifest :: "js_value \<Rightarrow> deployment_artifact list \<Rightarrow> js_value js" where
  "buildDeploymentManifest existing records =
     bind_r (existingArtifacts existing) (\<lambda>artifacts.
     bind_r (put_records artifacts records) (\<lambda>artifacts'.
     Inr (deployment_json artifacts')))"

fun publish_each :: "('c \<Rightarrow> ('w, js_error, 'r) io) \<Rightarrow> 'c list \<Rightarrow> ('w, js_error, 'r list) io" where
  "publish_each publish [] = return_io []"
| "publish_each publish (c # cs) =
     bind_io (publish c) (\<lambda>r. bind_io (publish_each publish cs) (\<lambda>rs. return_io (r # rs)))"

definition publishDeployment ::
  "js_value \<Rightarrow> 'c list \<Rightarrow> ('c \<Rightarrow> ('w, js_error, deployment_artifact) io) \<Rightarrow> ('w, js_error, js_value) io"
where
  "publishDeployment existing cells publish =
     bind_io (lift_io (buildDeploymentManifest existing [])) (\<lambda>validated.
     bind_io (publish_each publish cells) (\<lambda>records.
     lift_io (buildDeploymentManifest validated records)))"

section \<open>Publishing code cells\<close>

definition DEPLOY_FEE_RATE :: int where
  "DEPLOY_FEE_RATE = 1200"

record 'w deploy_signer =
  sg_recommendedScript :: "('w, js_error, script) io"
  sg_recommendedAddress :: "('w, js_error, string) io"
  sg_balance :: "('w, js_error, int) io"
  sg_completeInputs :: "transaction \<Rightarrow> ('w, js_error, transaction) io"
  sg_completeFee :: "transaction \<Rightarrow> int \<Rightarrow> ('w, js_error, transaction) io"
  sg_send :: "transaction \<Rightarrow> ('w, js_error, string) io"
  sg_wait :: "string \<Rightarrow> ('w, js_error, unit) io"
  sg_getCellLive :: "out_point \<Rightarrow> ('w, js_error, cell option) io"

definition published_record :: "planned_cell \<Rightarrow> string \<Rightarrow> deployment_artifact" where
  "published_record cell txHash =
     \<lparr>da_name = ai_name cell, da_dataHash = jstr (ai_dataHash cell), da_hashType = ''data2'', da_txHash = txHash,
      da_index = 0, da_capacityShannons = dec_int (pc_capacityShannons cell)\<rparr>"

text \<open>Reading the published cell back and comparing its data hash.\<close>

definition confirm_published :: "ccc \<Rightarrow> planned_cell \<Rightarrow> string \<Rightarrow> cell option \<Rightarrow> deployment_artifact js" where
  "confirm_published C cell txHash published = (case published of
     None \<Rightarrow> Inl (PlainError (''published cell '' @ txHash @ '':0 not found after commitment''))
   | Some live \<Rightarrow>
       bind_r (ccc_bytesFrom C (outputData live)) (\<lambda>bs.
       if JStr (ccc_hashCkb C bs) \<noteq> ai_dataHash cell
       then Inl (PlainError (''on-chain data hash for '' @ ai_name cell @ '' is '' @ ccc_hashCkb C bs
         @ '', expected '' @ js_text (ai_dataHash cell)))
       else Inr (published_record cell txHash)))"

definition publishCell ::
  "ccc \<Rightarrow> 'w deploy_signer \<Rightarrow> planned_cell \<Rightarrow> ('w, js_error, deployment_artifact) io"
where
  "publishCell C signer cell =
     bind_io (sg_recommendedScript signer) (\<lambda>l.
     bind_io (sg_completeInputs signer
       \<lparr>cellDeps = [], inputs = [],
        outputs = [\<lparr>capacity = pc_capacityShannons cell, lock = l, type_script = None\<rparr>],
        outputsData = [ccc_hexFrom C (ai_data cell)], witnesses = []\<rparr>) (\<lambda>tx.
     bind_io (sg_completeFee signer tx DEPLOY_FEE_RATE) (\<lambda>tx'.
     bind_io (sg_send signer tx') (\<lambda>txHash.
     bind_io (sg_wait signer txHash) (\<lambda>_.
     bind_io (sg_getCellLive signer \<lparr>op_txHash = txHash, op_index = 0\<rparr>) (\<lambda>published.
     lift_io (confirm_published C cell txHash published)))))))"

record 'w deploy_env =
  de_repoRoot :: string
  de_disk :: "string \<Rightarrow> bytes js"
  de_json :: "bytes \<Rightarrow> js_value js"
  de_exists :: "string \<Rightarrow> bool"
  de_CKB_PRIVKEY :: "string option"
  de_signer :: "string \<Rightarrow> 'w deploy_signer js"
  de_write :: "string \<Rightarrow> js_value \<Rightarrow> ('w, js_error, unit) io"

text \<open>The part of \<^verbatim>\<open>main\<close> after the plan and the existing manifest are known to be good.\<close>

definition broadcastPlan ::
  "ccc \<Rightarrow> 'w deploy_env \<Rightarrow> string \<Rightarrow> js_value \<Rightarrow> deployment_plan \<Rightarrow> 'w deploy_signer \<Rightarrow> ('w, js_error, unit) io"
where
  "broadcastPlan C env outputPath validatedExisting plan signer =
     bind_io (sg_recommendedAddress signer) (\<lambda>_.
     bind_io (sg_balance signer) (\<lambda>balance.
     if balance < dp_totalCapacityShannons plan
     then throw_io (PlainError (''insufficient balance: need at least '' @ formatCkb (dp_totalCapacityShannons plan)
       @ '' plus fees, have '' @ formatCkb balance))
     else
       bind_io (publishDeployment validatedExisting (dp_cells plan) (publishCell C signer)) (\<lambda>manifest.
       de_write env outputPath manifest)))"

definition deployMain :: "ccc \<Rightarrow> 'w deploy_env \<Rightarrow> string list \<Rightarrow> ('w, js_error, unit) io" where
  "deployMain C env argv =
     bind_io (lift_io (parseDeploymentArgs argv)) (\<lambda>a.
     bind_io (lift_io (buildDeploymentPlan C (de_disk env) (de_json env) (de_repoRoot env) (ar_selection a)
       (JNat SECP256K1_LOCK_ARGS_LENGTH))) (\<lambda>plan.
     if \<not> ar_broadcast a then return_io ()
     else
       let outputPath = resolve (de_repoRoot env) ''deploy/testnet-deployments.json'' in
       bind_io (lift_io (if de_exists env outputPath
         then bind_r (de_disk env outputPath) (de_json env) else Inr JUndefined)) (\<lambda>existing.
       bind_io (lift_io (buildDeploymentManifest existing [])) (\<lambda>validatedExisting.
       case de_CKB_PRIVKEY env of
         None \<Rightarrow> throw_io (PlainError ''CKB_PRIVKEY is not set; refusing to broadcast'')
       | Some privateKey \<Rightarrow>
           if privateKey = [] then throw_io (PlainError ''CKB_PRIVKEY is not set; refusing to broadcast'')
           else
             bind_io (lift_io (de_signer env privateKey)) (\<lambda>signer.
             broadcastPlan C env outputPath validatedExisting plan signer)))))"

end
