(* ===== verification/DeploymentProps.thy ===== *)
theory DeploymentProps
  imports Deployment
begin

text \<open>
  Properties of the deployment tool: the command line and its dry run, merging of manifests, what
  the demo accepts of the manifests the tool writes, and that only read-back cells are recorded.
\<close>

section \<open>Command line\<close>

lemma scan_args_Inr:
  "scan_args b al only argv = Inr (b', al', only') \<Longrightarrow>
     b' = (b \<or> ''--broadcast'' \<in> set argv)
     \<and> (al' \<longrightarrow> al \<or> ''--all'' \<in> set argv)
     \<and> (\<forall>n. only' = Some n \<longrightarrow> only = Some n \<or> n \<in> set argv)"
  by (induction b al only argv rule: scan_args.induct)
     (auto simp: startsWith_def split: if_splits list.splits)

lemma parseDeploymentArgs_Inr:
  assumes "parseDeploymentArgs argv = Inr a"
  shows "ar_broadcast a = (''--broadcast'' \<in> set argv) \<and> ar_selection a \<noteq> []
    \<and> distinct (ar_selection a) \<and> set (ar_selection a) \<subseteq> set ALL_ARTIFACTS"
  using assms scan_args_Inr [of False False None argv]
  by (auto simp: parseDeploymentArgs_def result_simps ALL_ARTIFACTS_def PHASED_P256_ARTIFACTS_def
      split: if_splits option.splits)

lemma lift_io_world: "snd (bind_io (lift_io r) f w) = (case r of Inl e \<Rightarrow> w | Inr x \<Rightarrow> snd (f x w))"
  by (cases r) simp_all

text \<open>
  Nothing touches the network without \<^verbatim>\<open>--broadcast\<close>. Whatever the arguments, the files and
  the outcome, a run of the deployment tool whose arguments do not contain \<^verbatim>\<open>--broadcast\<close> makes
  no call that changes its environment (no signer call, no file write).
\<close>

lemma dry_run_touches_nothing:
  assumes "''--broadcast'' \<notin> set argv"
  shows "snd (deployMain C env argv w) = w"
  using parseDeploymentArgs_Inr [of argv] assms
  by (auto simp: deployMain_def lift_io_world split: sum.split)

section \<open>Merging manifests\<close>

lemma put_records_Inr_iff [result_simps]:
  "put_records as rs = Inr bs \<longleftrightarrow>
     (\<forall>r \<in> set rs. record_ok (deployment_artifact_json r) (da_name r))
     \<and> bs = foldl (\<lambda>acc (k, v). obj_set acc k v) as (map (\<lambda>r. (da_name r, deployment_artifact_json r)) rs)"
  by (induction as rs rule: put_records.induct) (auto simp: result_simps deployedRecord_def)

lemma map_of_foldl_obj_set: "map_of (foldl (\<lambda>acc (k, v). obj_set acc k v) acc es) = map_of acc ++ map_of (rev es)"
proof (induction es arbitrary: acc)
  case (Cons e es)
  then show ?case by (cases e) (auto simp: map_add_def fun_eq_iff split: option.split)
qed simp

lemma foldl_obj_set_inv:
  assumes "distinct (map fst acc)" and "\<forall>(k, v) \<in> set acc \<union> set es. P v k"
  shows "distinct (map fst (foldl (\<lambda>acc (k, v). obj_set acc k v) acc es))
    \<and> (\<forall>(k, v) \<in> set (foldl (\<lambda>acc (k, v). obj_set acc k v) acc es). P v k)"
  using assms
proof (induction es arbitrary: acc)
  case (Cons e es)
  obtain k v where e: "e = (k, v)" by (cases e)
  have "set (obj_set acc k v) \<subseteq> insert (k, v) (set acc)"
    by (induction acc k v rule: obj_set.induct) auto
  then have "\<forall>(k', v') \<in> set (obj_set acc k v) \<union> set es. P v' k'"
    using Cons.prems(2) unfolding e by fastforce
  with Cons.IH [OF distinct_obj_set [OF Cons.prems(1), of k v]] show ?case
    by (simp add: e)
qed simp

definition old_entries :: "js_value \<Rightarrow> (string \<times> js_value) list" where
  "old_entries v = (if v = JUndefined then [] else js_entries (jget_opt v ''artifacts''))"

lemma map_r_records:
  "map_r (\<lambda>(name, r). bind_r (deployedRecord r name) (\<lambda>x. Inr (name, x))) es = Inr fs \<longleftrightarrow>
     fs = es \<and> (\<forall>(k, v) \<in> set es. record_ok v k)"
  by (induction es arbitrary: fs) (auto simp: result_simps deployedRecord_def)

lemma existingArtifacts_Inr_iff [result_simps]:
  "existingArtifacts v = Inr as \<longleftrightarrow>
     (v = JUndefined \<or> manifest_shape v) \<and> (\<forall>(k, x) \<in> set (old_entries v). record_ok x k)
     \<and> as = from_entries (old_entries v)"
  by (auto simp: existingArtifacts_def old_entries_def bind_r_Inr_iff if_Inl_Inr_iff map_r_records from_entries_def)

lemma buildDeploymentManifest_Inr_iff:
  "buildDeploymentManifest ex rs = Inr m \<longleftrightarrow>
     (ex = JUndefined \<or> manifest_shape ex) \<and> (\<forall>(k, x) \<in> set (old_entries ex). record_ok x k)
     \<and> (\<forall>r \<in> set rs. record_ok (deployment_artifact_json r) (da_name r))
     \<and> m = deployment_json (foldl (\<lambda>acc (k, v). obj_set acc k v) []
         (old_entries ex @ map (\<lambda>r. (da_name r, deployment_artifact_json r)) rs))"
  by (auto simp: buildDeploymentManifest_def result_simps from_entries_def)

lemma deployment_json_rebuild:
  assumes "distinct (map fst as)" and "\<forall>(k, v) \<in> set as. record_ok v k"
  shows "buildDeploymentManifest (deployment_json as) [] = Inr (deployment_json as)"
  using assms foldl_obj_set_distinct [of "[]" as]
  by (simp add: buildDeploymentManifest_Inr_iff manifest_shape_def deployment_json_def isObject_def
      old_entries_def js_entries_def)

lemma built_manifest:
  assumes "buildDeploymentManifest ex rs = Inr m"
  obtains as where "m = deployment_json as" and "distinct (map fst as)" and "\<forall>(k, v) \<in> set as. record_ok v k"
    and "map_of as = map_of (rev (old_entries ex)) ++ map_of (rev (map (\<lambda>r. (da_name r, deployment_artifact_json r)) rs))"
proof -
  let ?es = "old_entries ex @ map (\<lambda>r. (da_name r, deployment_artifact_json r)) rs"
  let ?as = "foldl (\<lambda>acc (k, v). obj_set acc k v) [] ?es"
  from assms have ok: "\<forall>(k, v) \<in> set [] \<union> set ?es. record_ok v k" and m: "m = deployment_json ?as"
    by (auto simp: buildDeploymentManifest_Inr_iff)
  have "map_of ?as = map_of (rev (old_entries ex)) ++ map_of (rev (map (\<lambda>r. (da_name r, deployment_artifact_json r)) rs))"
    by (simp add: map_of_foldl_obj_set del: foldl_append)
  with foldl_obj_set_inv [OF _ ok] m show thesis
    by (intro that [of ?as]) simp_all
qed

text \<open>
  Merging keeps what was deployed and replaces what was redeployed. When
  \<^verbatim>\<open>buildDeploymentManifest\<close> accepts an existing manifest and new records, the result has each
  name once, every entry is a valid record filed under its own name, a name in the new records
  maps to its last record and every other name to what the existing manifest had; and the
  result is itself accepted, unchanged, as an existing manifest.
\<close>

lemma deployment_manifest_merge:
  assumes "buildDeploymentManifest ex rs = Inr m"
  shows "\<exists>as. m = deployment_json as \<and> distinct (map fst as) \<and> (\<forall>(k, v) \<in> set as. record_ok v k)
    \<and> map_of as = map_of (rev (old_entries ex)) ++ map_of (rev (map (\<lambda>r. (da_name r, deployment_artifact_json r)) rs))
    \<and> buildDeploymentManifest m [] = Inr m"
proof -
  obtain as where as: "m = deployment_json as" "distinct (map fst as)" "\<forall>(k, v) \<in> set as. record_ok v k"
    "map_of as = map_of (rev (old_entries ex)) ++ map_of (rev (map (\<lambda>r. (da_name r, deployment_artifact_json r)) rs))"
    using assms by (rule built_manifest)
  have "buildDeploymentManifest m [] = Inr m"
    unfolding as(1) using as(2,3) by (rule deployment_json_rebuild)
  with as show ?thesis by (intro exI [of _ as] conjI)
qed

section \<open>What the demo accepts\<close>

lemma positive_decimal: "positive_re s \<Longrightarrow> decimal_re s"
  by (cases s) (simp_all add: positive_re_def decimal_re_def)

lemma record_artifact_ok: "record_ok (deployment_artifact_json r) n \<Longrightarrow> artifact_ok n r"
  by (auto simp: record_ok_def deployment_artifact_json_def artifact_ok_def is_hash_string_def int_ok_def positive_decimal)

lemma deployment_json_accepted_iff:
  "zaccepts F DeploymentManifestSchema (deployment_json as) \<longleftrightarrow>
     fst ` set as \<subseteq> {''account_lock'', ''verifier_p256''}
     \<and> zaccepts F (DeploymentArtifactSchema (ZLiteral (JStr ''account_lock''))) (jget as ''account_lock'')
     \<and> zaccepts F (DeploymentArtifactSchema (ZLiteral (JStr ''verifier_p256''))) (jget as ''verifier_p256'')"
  by (auto simp: DeploymentManifestSchema_def deployment_json_def shape_simps zfields_opt MANIFEST_NOTE_def
      list_all_iff dest: map_of_None_jget)

lemma pair_set_iff: "S \<subseteq> {a, b} \<and> a \<in> S \<and> b \<in> S \<longleftrightarrow> S = {a, b}"
  by blast

text \<open>
  C39: the demo accepts a freshly written deployment manifest exactly when the phased pair was
  deployed. For records published without an existing manifest, the demo's \<^verbatim>\<open>validateDeployment\<close>
  accepts the manifest if and only if the deployed names are \<^verbatim>\<open>account_lock\<close> and \<^verbatim>\<open>verifier_p256\<close>;
  a manifest that also records a post-quantum verifier (\<^verbatim>\<open>--all\<close>) is refused.
\<close>

theorem demo_accepts_phased_deployment_only:
  assumes "zod_ok Z" and "buildDeploymentManifest JUndefined rs = Inr m"
  shows "(\<exists>d. validateDeployment Z m = Inr d) \<longleftrightarrow> da_name ` set rs = {''account_lock'', ''verifier_p256''}"
proof -
  let ?es = "map (\<lambda>r. (da_name r, deployment_artifact_json r)) rs"
  obtain as where m: "m = deployment_json as" and mp: "map_of as = map_of (rev ?es)"
    using built_manifest [OF assms(2)] by (auto simp: old_entries_def)
  have ok: "\<forall>r \<in> set rs. record_ok (deployment_artifact_json r) (da_name r)"
    using assms(2) by (auto simp: buildDeploymentManifest_Inr_iff)
  have keys: "fst ` set as = da_name ` set rs"
    using dom_map_of_conv_image_fst [of as] dom_map_of_conv_image_fst [of "rev ?es"] mp by (simp add: image_image)
  have entry: "zaccepts F (DeploymentArtifactSchema (ZLiteral (JStr n))) (jget as n) \<longleftrightarrow> n \<in> da_name ` set rs" for F n
  proof (cases "map_of as n")
    case None
    then have "n \<notin> da_name ` set rs"
      using keys by (metis map_of_eq_None_iff)
    with None show ?thesis by (simp add: jget_def)
  next
    case (Some v)
    then obtain r where r: "r \<in> set rs" "da_name r = n" "v = deployment_artifact_json r"
      using mp map_of_SomeD [of "rev ?es" n v] by auto
    then have "artifact_ok n r" using ok record_artifact_ok by blast
    then show ?thesis using r Some artifact.printed by (auto simp: jget_def)
  qed
  have "(\<exists>d. validateDeployment Z m = Inr d) \<longleftrightarrow> parse_as Z DeploymentManifestSchema deployment_manifest_of m \<noteq> None"
    by (cases "parse_as Z DeploymentManifestSchema deployment_manifest_of m") (simp_all add: validateDeployment_def)
  then have "(\<exists>d. validateDeployment Z m = Inr d) \<longleftrightarrow> zaccepts (z_format Z) DeploymentManifestSchema m"
    by (simp add: deployment_manifest.parse_as_None_iff [OF assms(1)])
  then show ?thesis
    unfolding m deployment_json_accepted_iff entry keys by (simp only: pair_set_iff)
qed

section \<open>Recorded cells\<close>

lemma collect_identities_names:
  "collect_identities p ids es = Inr ids' \<Longrightarrow> (\<And>n i. map_of ids n = Some i \<Longrightarrow> ai_name i = n) \<Longrightarrow>
   map_of ids' n = Some i \<Longrightarrow> ai_name i = n"
proof (induction es arbitrary: ids)
  case (Cons e es)
  obtain k v where e: "e = (k, v)" by (cases e)
  let ?i = "\<lparr>ai_name = k, ai_path = jget_opt v ''path'', ai_dataHash = jget_opt v ''data_hash''\<rparr>"
  have c: "collect_identities p (obj_set ids k ?i) es = Inr ids'"
    using Cons.prems(1) unfolding e by (simp split: if_splits)
  have "ai_name j = m" if "map_of (obj_set ids k ?i) m = Some j" for m j
    using that Cons.prems(2) [of m j] by (simp split: if_splits) auto
  from Cons.IH [OF c this Cons.prems(3)] show ?case .
qed simp

lemma identities_named:
  assumes "readLocalArtifactIdentities disk json root = Inr ids" and "map_of ids n = Some i"
  shows "ai_name i = n"
proof -
  obtain p es where "collect_identities p [] es = Inr ids"
    using assms(1) unfolding readLocalArtifactIdentities_def Let_def bind_r_Inr_iff if_Inl_Inr_iff by blast
  from collect_identities_names [OF this _ assms(2)] show ?thesis by simp
qed

lemma publish_each_Inr:
  "publish_each f cs w = (Inr rs, w') \<Longrightarrow> list_all2 (\<lambda>c r. \<exists>u u'. f c u = (Inr r, u')) cs rs"
proof (induction cs arbitrary: w rs)
  case (Cons c cs)
  then show ?case by (fastforce simp: result_simps)
qed simp

text \<open>What a record of the manifest guarantees about its cell.\<close>

definition read_back :: "ccc \<Rightarrow> 'w deploy_signer \<Rightarrow> deployment_artifact \<Rightarrow> bool" where
  "read_back C signer r \<longleftrightarrow> (\<exists>live bs u u'.
     sg_getCellLive signer \<lparr>op_txHash = da_txHash r, op_index = da_index r\<rparr> u = (Inr (Some live), u')
     \<and> ccc_bytesFrom C (outputData live) = Inr bs \<and> da_dataHash r = ccc_hashCkb C bs)"

lemma publishCell_Inr:
  assumes "publishCell C signer c u = (Inr r, u')"
  shows "read_back C signer r \<and> da_name r = ai_name c \<and> ai_dataHash c = JStr (da_dataHash r)"
proof -
  obtain txHash live v v' where g: "sg_getCellLive signer \<lparr>op_txHash = txHash, op_index = 0\<rparr> v = (Inr live, v')"
    and c: "confirm_published C c txHash live = Inr r"
    using assms unfolding publishCell_def bind_io_Inr_iff lift_io_simp prod.inject by blast
  then obtain l bs where "live = Some l" "ccc_bytesFrom C (outputData l) = Inr bs"
    "ai_dataHash c = JStr (ccc_hashCkb C bs)" "r = published_record c txHash"
    by (auto simp: confirm_published_def result_simps split: option.splits)
  with g show ?thesis
    by (auto simp: read_back_def published_record_def)
qed

lemma map_of_rev_distinct: "distinct (map fst es) \<Longrightarrow> (k, v) \<in> set es \<Longrightarrow> map_of (rev es) k = Some v"
  by (simp add: rev_map [symmetric])

lemma publishDeployment_Inr:
  assumes "publishDeployment ex cells (publishCell C signer) w = (Inr m, w')" and "distinct (map ai_name cells)"
  obtains as where "m = deployment_json as" and "\<forall>c \<in> set cells. \<exists>r. map_of as (ai_name c) = Some (deployment_artifact_json r)
    \<and> ai_dataHash c = JStr (da_dataHash r) \<and> read_back C signer r"
proof -
  from assms(1) obtain v rs w1 where rs: "publish_each (publishCell C signer) cells w = (Inr rs, w1)"
    and b: "buildDeploymentManifest v rs = Inr m"
    by (auto simp: publishDeployment_def result_simps)
  let ?es = "map (\<lambda>r. (da_name r, deployment_artifact_json r)) rs"
  obtain as where m: "m = deployment_json as" and as: "map_of as = map_of (rev (old_entries v)) ++ map_of (rev ?es)"
    using b by (rule built_manifest)
  have l2: "list_all2 (\<lambda>c r. \<exists>u u'. publishCell C signer c u = (Inr r, u')) cells rs"
    using rs by (rule publish_each_Inr)
  then have l3: "list_all2 (\<lambda>c r. read_back C signer r \<and> da_name r = ai_name c \<and> ai_dataHash c = JStr (da_dataHash r)) cells rs"
    by (rule list_all2_mono) (auto dest: publishCell_Inr)
  have names: "map da_name rs = map ai_name cells"
    using l3 by (induction rule: list_all2_induct) auto
  have "\<exists>r. map_of as (ai_name c) = Some (deployment_artifact_json r)
    \<and> ai_dataHash c = JStr (da_dataHash r) \<and> read_back C signer r" if c: "c \<in> set cells" for c
  proof -
    obtain r where r: "r \<in> set rs" "read_back C signer r" "da_name r = ai_name c" "ai_dataHash c = JStr (da_dataHash r)"
      using l3 c unfolding list_all2_conv_all_nth in_set_conv_nth by metis
    have "map_of (rev ?es) (ai_name c) = Some (deployment_artifact_json r)"
      using r(1) r(3) [symmetric] names assms(2) by (intro map_of_rev_distinct) (simp_all add: comp_def)
    with r show ?thesis by (auto simp: as)
  qed
  with m show thesis by (intro that) auto
qed

lemma deployMain_broadcast:
  assumes "''--broadcast'' \<in> set argv" and "deployMain C env argv w = (Inr (), w')"
  shows "\<exists>a plan v key signer u. parseDeploymentArgs argv = Inr a
    \<and> de_CKB_PRIVKEY env = Some key \<and> de_signer env key = Inr signer
    \<and> buildDeploymentPlan C (de_disk env) (de_json env) (de_repoRoot env) (ar_selection a) (JNat 20) = Inr plan
    \<and> broadcastPlan C env (resolve (de_repoRoot env) ''deploy/testnet-deployments.json'') v plan signer u = (Inr (), w')"
proof -
  obtain a where a: "parseDeploymentArgs argv = Inr a" and "ar_broadcast a"
    using assms parseDeploymentArgs_Inr [of argv] by (cases "parseDeploymentArgs argv") (auto simp: deployMain_def)
  then show ?thesis
    using assms(2) unfolding deployMain_def SECP256K1_LOCK_ARGS_LENGTH_def
    by (auto simp: result_simps Let_def split: option.splits if_splits)
qed


section \<open>A concrete deployment\<close>

definition example_records :: "deployment_artifact list" where
  "example_records = [example_artifact ''account_lock'' 1, example_artifact ''verifier_p256'' 2]"

lemma example_record_ok: "record_ok (deployment_artifact_json (example_artifact n k)) n"
  using hash32_ref_digest [of k] hash32_ref_digest [of "k + 10"]
  by (simp add: record_ok_def deployment_artifact_json_def example_artifact_def isObject_def is_hash_string_def
      is_safe_integer_def max_safe_integer_def positive_re_def is_digit_def)

lemma example_manifest_built:
  "buildDeploymentManifest JUndefined example_records =
     Inr (deployment_json (map (\<lambda>r. (da_name r, deployment_artifact_json r)) example_records))"
proof -
  have "da_name (example_artifact n k) = n" for n k by (simp add: example_artifact_def)
  then show ?thesis
    using example_record_ok by (simp add: buildDeploymentManifest_Inr_iff example_records_def old_entries_def)
qed

theorem demo_accepts_phased_deployment_only_witness:
  "\<exists>d. validateDeployment ref_zod
     (deployment_json (map (\<lambda>r. (da_name r, deployment_artifact_json r)) example_records)) = Inr d"
  unfolding demo_accepts_phased_deployment_only [OF ref_zod_ok example_manifest_built]
  by (simp add: example_records_def example_artifact_def)

definition example_cell :: planned_cell where
  "example_cell = \<lparr>ai_name = ''verifier_p256'', ai_path = JStr ''p'', ai_dataHash = JStr (ref_digest 7), ai_data = [7],
     pc_capacityShannons = 62 * SHANNONS_PER_CKB\<rparr>"

definition example_signer :: "nat deploy_signer" where
  "example_signer = \<lparr>sg_recommendedScript = return_io \<lparr>codeHash = ref_digest 9, hashType = ''type'', args = ''0x''\<rparr>,
     sg_recommendedAddress = return_io ''ckt'', sg_balance = return_io (100 * SHANNONS_PER_CKB),
     sg_completeInputs = return_io, sg_completeFee = (\<lambda>tx r. return_io tx),
     sg_send = (\<lambda>tx n. (Inr (ref_digest 4), Suc n)), sg_wait = (\<lambda>h. return_io ()),
     sg_getCellLive = (\<lambda>p. return_io (Some \<lparr>outPoint = p,
       cellOutput = \<lparr>capacity = 62 * SHANNONS_PER_CKB, lock = \<lparr>codeHash = ref_digest 9, hashType = ''type'', args = ''0x''\<rparr>,
         type_script = None\<rparr>, outputData = hexFromBytes [7]\<rparr>))\<rparr>"

definition example_env :: "nat deploy_env" where
  "example_env = \<lparr>de_repoRoot = ''/r'',
     de_disk = (\<lambda>p. if p = ''/r/deploy/reference-deployments.json'' then Inr [] else if p = ''/r/p'' then Inr [7]
       else Inl (PlainError p)),
     de_json = (\<lambda>b. Inr (JObj [(''local'', JObj [(''artifacts'', JObj [(''verifier_p256'',
       JObj [(''path'', JStr ''p''), (''data_hash'', JStr (ref_digest 7))])])])])),
     de_exists = (\<lambda>p. False), de_CKB_PRIVKEY = Some ''0x1'', de_signer = (\<lambda>k. Inr example_signer),
     de_write = (\<lambda>p v n. (Inr (), Suc n))\<rparr>"

lemma ref_digest_nonempty: "ref_digest n \<noteq> []"
  using length_ref_digest [of n] by (metis list.size(3) zero_neq_numeral)

lemma example_plan:
  "buildDeploymentPlan ref_ccc (de_disk example_env) (de_json example_env) (de_repoRoot example_env) [''verifier_p256''] (JNat 20)
   = Inr \<lparr>dp_cells = [example_cell], dp_totalCapacityShannons = 62 * SHANNONS_PER_CKB\<rparr>"
proof -
  have ids: "readLocalArtifactIdentities (de_disk example_env) (de_json example_env) (de_repoRoot example_env) =
    Inr [(''verifier_p256'', \<lparr>ai_name = ''verifier_p256'', ai_path = JStr ''p'', ai_dataHash = JStr (ref_digest 7)\<rparr>)]"
    using ref_digest_nonempty [of 7]
    by (auto simp: readLocalArtifactIdentities_def example_env_def resolve_def startsWith_def js_truthy_def
        js_entries_def Let_def)
  have load: "planned_from ref_ccc (de_disk example_env) (de_repoRoot example_env)
    [(''verifier_p256'', \<lparr>ai_name = ''verifier_p256'', ai_path = JStr ''p'', ai_dataHash = JStr (ref_digest 7)\<rparr>)]
    20 ''verifier_p256'' example_cell"
    by (simp add: planned_from_def example_cell_def example_env_def resolve_def startsWith_def ref_ccc_def)
  show ?thesis
    unfolding buildDeploymentPlan_Inr_iff using ids load by (intro conjI) (auto simp: example_cell_def)
qed

lemma positive_dec: "0 < n \<Longrightarrow> positive_re (dec n)"
  using dec_digits [of n] hd_dec [of n] by (cases "dec n") (auto simp: positive_re_def)

lemma example_deploy: "deployMain ref_ccc example_env [''--broadcast'', ''--only'', ''verifier_p256''] 0 = (Inr (), 2)"
proof -
  have a: "parseDeploymentArgs [''--broadcast'', ''--only'', ''verifier_p256''] =
    Inr \<lparr>ar_broadcast = True, ar_selection = [''verifier_p256'']\<rparr>"
    by (simp add: parseDeploymentArgs_def startsWith_def ALL_ARTIFACTS_def)
  have e: "buildDeploymentManifest JUndefined [] = Inr (deployment_json [])"
    "buildDeploymentManifest (deployment_json []) [] = Inr (deployment_json [])"
    by (simp_all add: buildDeploymentManifest_Inr_iff old_entries_def deployment_json_def manifest_shape_def
        isObject_def js_entries_def)
  have c: "publishCell ref_ccc example_signer example_cell 0 = (Inr (published_record example_cell (ref_digest 4)), 1)"
    by (simp add: publishCell_def example_signer_def confirm_published_def example_cell_def bind_io_def ref_ccc_def)
  have ok: "record_ok (deployment_artifact_json (published_record example_cell (ref_digest 4))) ''verifier_p256''"
    using hash32_ref_digest [of 7] hash32_ref_digest [of 4] positive_dec [of 6200000000]
    by (simp add: record_ok_def deployment_artifact_json_def published_record_def example_cell_def isObject_def
        is_hash_string_def is_safe_integer_def max_safe_integer_def dec_int_def SHANNONS_PER_CKB_def)
  have "old_entries (deployment_json []) = []"
    by (simp add: old_entries_def deployment_json_def js_entries_def)
  then have b: "buildDeploymentManifest (deployment_json []) [published_record example_cell (ref_digest 4)] =
    Inr (deployment_json [(''verifier_p256'', deployment_artifact_json (published_record example_cell (ref_digest 4)))])"
    using ok e(2) by (simp add: buildDeploymentManifest_Inr_iff published_record_def example_cell_def)
  have p: "publishDeployment (deployment_json []) [example_cell] (publishCell ref_ccc example_signer) 0 =
    (Inr (deployment_json [(''verifier_p256'', deployment_artifact_json (published_record example_cell (ref_digest 4)))]), 1)"
    by (simp add: publishDeployment_def e c b)
  have "broadcastPlan ref_ccc example_env out (deployment_json [])
    \<lparr>dp_cells = [example_cell], dp_totalCapacityShannons = 62 * SHANNONS_PER_CKB\<rparr> example_signer 0 = (Inr (), 2)" for out
    using p by (simp add: broadcastPlan_def example_env_def bind_io_def SHANNONS_PER_CKB_def)
       (simp add: example_signer_def SHANNONS_PER_CKB_def)
  then show ?thesis
    using example_plan by (simp add: deployMain_def a SECP256K1_LOCK_ARGS_LENGTH_def Let_def e)
      (simp add: example_env_def e)
qed


end
