(* ===== verification/ArtifactManifest.thy ===== *)
theory ArtifactManifest
  imports HostEncoders DeploymentProps
begin

text \<open>
  crates/host/examples/export_artifact_manifest.rs, which records the data hashes of the release
  binaries, and what tools/deploy/src/artifacts.ts makes of them. \<^verbatim>\<open>serde_json\<close>'s printer is the
  parameter \<open>pretty\<close>.
\<close>

section \<open>The program\<close>

record exported_artifact =
  xa_file :: string
  xa_bytes :: nat
  xa_ckb_data_hash :: string

text \<open>\<^verbatim>\<open>Path::file_name\<close>: the last component, if it is a normal one.\<close>

definition rust_file_name :: "string \<Rightarrow> string option" where
  "rust_file_name path =
     (let components = filter (\<lambda>s. s \<noteq> [] \<and> s \<noteq> ''.'') (split_path path) in
      if components = [] \<or> last components = ''..'' then None else Some (last components))"

text \<open>One artifact; \<open>None\<close> is a panic.\<close>

definition export_artifact :: "(bytes \<Rightarrow> bytes) \<Rightarrow> (string \<rightharpoonup> bytes) \<Rightarrow> string \<Rightarrow> exported_artifact option" where
  "export_artifact H files path =
     Option.bind (files path) (\<lambda>data.
     map_option (\<lambda>file. \<lparr>xa_file = file, xa_bytes = length data, xa_ckb_data_hash = hexFromBytes (H data)\<rparr>)
       (rust_file_name path))"

fun export_artifacts :: "(bytes \<Rightarrow> bytes) \<Rightarrow> (string \<rightharpoonup> bytes) \<Rightarrow> string list \<Rightarrow> exported_artifact list option" where
  "export_artifacts H files [] = Some []"
| "export_artifacts H files (path # paths) =
     Option.bind (export_artifact H files path) (\<lambda>a. map_option (\<lambda>as. a # as) (export_artifacts H files paths))"

definition artifacts_json :: "exported_artifact list \<Rightarrow> js_value" where
  "artifacts_json as = JArr (map (\<lambda>a. JObj [(''file'', JStr (xa_file a)), (''bytes'', JNum (JNat (xa_bytes a))),
     (''ckb_data_hash'', JStr (xa_ckb_data_hash a))]) as)"

text \<open>
  \<^verbatim>\<open>main\<close> on the file system \<open>files\<close>: the exit code, the files afterwards and the printed line. \<open>written\<close>
  says whether the write succeeds; a panic exits with 101.
\<close>

definition export_artifact_manifest ::
  "(bytes \<Rightarrow> bytes) \<Rightarrow> (js_value \<Rightarrow> bytes) \<Rightarrow> bool \<Rightarrow> string list \<Rightarrow> (string \<rightharpoonup> bytes) \<Rightarrow> int \<times> (string \<rightharpoonup> bytes) \<times> string list"
where
  "export_artifact_manifest H pretty written arguments files = (case arguments of
     [] \<Rightarrow> (101, files, [])
   | out # paths \<Rightarrow>
       if paths = [] then (101, files, [])
       else (case export_artifacts H files paths of
           None \<Rightarrow> (101, files, [])
         | Some as \<Rightarrow> if written then (0, files(out \<mapsto> pretty (artifacts_json as)), [''wrote '' @ out]) else (101, files, [])))"

section \<open>Against the deployment tool\<close>

lemma export_artifacts_Some:
  "export_artifacts H files paths = Some as \<Longrightarrow> list_all2 (\<lambda>p a. export_artifact H files p = Some a) paths as"
  by (induction paths arbitrary: as) (auto split: Option.bind_splits)

lemma hash_text:
  assumes "ccc_hex C" and "ccc_hashes C" and "hash_agrees C H"
  shows "ccc_hashCkb C d = hexFromBytes (H d)"
proof -
  obtain h where h: "ccc_hashCkb C d = hexFromBytes h" using assms(2) unfolding ccc_hashes_def hash32_def by metis
  then show ?thesis using assms(1,3) unfolding ccc_hex_def hash_agrees_def ckbHash_def by (metis sum.inject(2))
qed

text \<open>
  The exported hashes are the identities the deployment tool checks: an artifact recorded with the
  exported hash and the path it was exported from is loaded by \<^verbatim>\<open>loadVerifiedArtifact\<close> exactly when
  the file at that path hashes as it did when it was exported.
\<close>

lemma exported_hash_verifies:
  assumes "ccc_hex C" and "ccc_hashes C" and "hash_agrees C H" and "export_artifact H files path = Some a"
  shows "\<exists>data. files path = Some data \<and> xa_bytes a = length data
    \<and> (loadVerifiedArtifact C disk root \<lparr>ai_name = n, ai_path = JStr path, ai_dataHash = JStr (xa_ckb_data_hash a)\<rparr> = Inr v \<longleftrightarrow>
        (\<exists>bs. disk (resolve root path) = Inr bs \<and> H bs = H data
          \<and> v = \<lparr>ai_name = n, ai_path = JStr path, ai_dataHash = JStr (xa_ckb_data_hash a), ai_data = bs\<rparr>))"
proof -
  obtain data where data: "files path = Some data" "xa_bytes a = length data" "xa_ckb_data_hash a = hexFromBytes (H data)"
    using assms(4) by (auto simp: export_artifact_def split: Option.bind_splits)
  have "hexFromBytes (H bs) = hexFromBytes (H data) \<longleftrightarrow> H bs = H data" for bs
    using assms(1) unfolding ccc_hex_def by (metis sum.inject(2))
  then show ?thesis
    using data by (auto simp: loadVerifiedArtifact_Inr_iff hash_text [OF assms(1-3)])
qed

text \<open>
  The comments in artifacts.ts say that the hashes are recorded by this program and that
  \<^verbatim>\<open>readLocalArtifactIdentities\<close> reads what it recorded in deploy/reference-deployments.json. The program
  writes an array of files and hashes; that function wants an object with \<^verbatim>\<open>local.artifacts\<close> and refuses
  every output of the program.
\<close>

lemma exported_manifest_not_readable:
  assumes "export_artifact_manifest H pretty written (resolve root ''deploy/reference-deployments.json'' # paths) files = (0, files', out)"
    and "disk (resolve root ''deploy/reference-deployments.json'') = Inr (the (files' (resolve root ''deploy/reference-deployments.json'')))"
    and "\<And>as. json (pretty (artifacts_json as)) = Inr (artifacts_json as)"
  shows "readLocalArtifactIdentities disk json root =
    Inl (PlainError (resolve root ''deploy/reference-deployments.json'' @ '' has no local.artifacts section''))"
proof -
  obtain as where "files' (resolve root ''deploy/reference-deployments.json'') = Some (pretty (artifacts_json as))"
    using assms(1) by (auto simp: export_artifact_manifest_def split: if_splits option.splits)
  then show ?thesis
    using assms(2,3) by (simp add: readLocalArtifactIdentities_def) (simp add: artifacts_json_def jget_opt_def js_truthy_def)
qed

end
