(* ===== verification/Bootstrap.thy ===== *)
theory Bootstrap
  imports Creation Deployment
begin

text \<open>
  tools/deploy/src/bootstrap-lib.ts: creating the account's state and asset cells, and the atomic
  write of the account manifest.

  \<^verbatim>\<open>BootstrapDeps\<close> is the record \<open>bootstrap_deps\<close> of operations on an arbitrary environment. The two
  transaction completions mutate the transaction and so return it.
\<close>

section \<open>Creating the account\<close>

definition BOOTSTRAP_FEE_RATE :: int where
  "BOOTSTRAP_FEE_RATE = 1200"

definition DEFAULT_ASSET_CAPACITY_CKB :: int where
  "DEFAULT_ASSET_CAPACITY_CKB = 200"

definition ACCOUNT_LOCK_ARGS_LENGTH :: nat where
  "ACCOUNT_LOCK_ARGS_LENGTH = 33"

definition TYPE_ID_ARGS_LENGTH :: nat where
  "TYPE_ID_ARGS_LENGTH = 32"

definition PLACEHOLDER_32 :: string where
  "PLACEHOLDER_32 = ''0x'' @ concat (replicate 32 ''00'')"

record bootstrap_options =
  bo_stateData :: bytes
  bo_assetCapacityCkb :: int

record 'w bootstrap_deps =
  bd_repoRoot :: string
  bd_readJson :: "string \<Rightarrow> ('w, js_error, js_value) io"
  bd_writeJsonAtomic :: "string \<Rightarrow> js_value \<Rightarrow> ('w, js_error, unit) io"
  bd_completeInputs :: "transaction \<Rightarrow> ('w, js_error, transaction) io"
  bd_completeFee :: "transaction \<Rightarrow> int \<Rightarrow> ('w, js_error, transaction) io"
  bd_sendTransaction :: "transaction \<Rightarrow> ('w, js_error, string) io"
  bd_waitTransaction :: "string \<Rightarrow> ('w, js_error, unit) io"

definition accountLockCodeHash :: "js_value \<Rightarrow> string js" where
  "accountLockCodeHash manifest =
     (if (case manifest of JObj fs \<Rightarrow> False | JArr xs \<Rightarrow> False | _ \<Rightarrow> True)
      then Inl (PlainError ''testnet deployment manifest is missing'')
      else
        let accountLock = jget_opt (jget_opt manifest ''artifacts'') ''account_lock'';
            dataHash = jget_opt accountLock ''dataHash''
        in
        if jget_opt manifest ''schema_version'' \<noteq> JNum (JInt 1) \<or> jget_opt manifest ''network'' \<noteq> JStr ''testnet''
           \<or> jget_opt manifest ''published'' \<noteq> JBool True \<or> jget_opt manifest ''hash_type'' \<noteq> JStr ''data2''
           \<or> jget_opt accountLock ''hashType'' \<noteq> JStr ''data2'' \<or> \<not> is_hash_string dataHash
        then Inl (PlainError ''testnet deployment manifest has no verified data2 AccountLock'')
        else Inr (jstr dataHash))"

text \<open>The capacities of the state and the asset cell.\<close>

definition validateOptions :: "bootstrap_options \<Rightarrow> (int \<times> int) js" where
  "validateOptions options =
     (if length (bo_stateData options) = 0 then Inl (PlainError ''AccountStateV1 state data is required'')
      else if bo_assetCapacityCkb options \<le> 0
      then Inl (PlainError ''asset capacity must be a positive whole number of CKB'')
      else
        bind_r (cellCapacityShannons (JNat ACCOUNT_LOCK_ARGS_LENGTH) (Some (JNat TYPE_ID_ARGS_LENGTH))
          (JNat (length (bo_stateData options)))) (\<lambda>stateCapacity.
        let assetCapacity = bo_assetCapacityCkb options * SHANNONS_PER_CKB in
        bind_r (cellCapacityShannons (JNat ACCOUNT_LOCK_ARGS_LENGTH) None (JNat 0)) (\<lambda>minimumAsset.
        if assetCapacity < minimumAsset
        then Inl (PlainError (''asset capacity is below the '' @ dec_int minimumAsset
          @ '' shannon AccountLock cell minimum''))
        else Inr (stateCapacity, assetCapacity))))"

definition draft_creation :: "ccc \<Rightarrow> string \<Rightarrow> string \<Rightarrow> int \<Rightarrow> int \<Rightarrow> transaction js" where
  "draft_creation C code stateHex stateCapacity assetCapacity =
     bind_r (accountLockScript C code PLACEHOLDER_32) (\<lambda>l.
     Inr \<lparr>cellDeps = [], inputs = [],
       outputs = [\<lparr>capacity = stateCapacity, lock = l, type_script = Some (typeIdScript PLACEHOLDER_32)\<rparr>,
                  \<lparr>capacity = assetCapacity, lock = l, type_script = None\<rparr>],
       outputsData = [stateHex, ''0x''], witnesses = []\<rparr>)"

text \<open>Filling in the Type ID and the lock args once the first input is known.\<close>

definition bind_identity :: "ccc \<Rightarrow> string \<Rightarrow> transaction \<Rightarrow> (transaction \<times> string \<times> string) js" where
  "bind_identity C code tx = (case inputs tx of
     [] \<Rightarrow> Inl (PlainError ''input collection returned no cells'')
   | first # _ \<Rightarrow>
       let typeIdArgs = ccc_hashTypeId C first 0;
           account = ccc_scriptHash C (typeIdScript typeIdArgs)
       in
       (case outputs tx of
          state # asset # rest \<Rightarrow>
            bind_r (accountLockScript C code account) (\<lambda>l.
            Inr (tx\<lparr>outputs := state\<lparr>type_script := Some (typeIdScript typeIdArgs), lock := l\<rparr>
                     # asset\<lparr>lock := l\<rparr> # rest\<rparr>, typeIdArgs, account))
        | _ \<Rightarrow> Inl (TypeError ''Cannot set properties of undefined'')))"

definition created_manifest :: "string \<Rightarrow> string \<Rightarrow> string \<Rightarrow> string \<Rightarrow> string \<Rightarrow> nat \<Rightarrow> account_manifest" where
  "created_manifest account code lockArgs typeIdArgs txHash n =
     \<lparr>am_account_id = account, am_lock_code_hash = code, am_lock_hash_type = ''data2'', am_lock_args = lockArgs,
      am_type_id_args = typeIdArgs, am_state_out_point = \<lparr>mo_tx_hash = txHash, mo_index = 0\<rparr>,
      am_asset_out_point = \<lparr>mo_tx_hash = txHash, mo_index = 1\<rparr>, am_state_bytes = int n\<rparr>"

text \<open>From the completed inputs to the written manifest.\<close>

definition broadcastCreation ::
  "ccc \<Rightarrow> bootstrap_options \<Rightarrow> 'w bootstrap_deps \<Rightarrow> string \<Rightarrow> string \<Rightarrow> transaction \<Rightarrow> ('w, js_error, account_manifest) io"
where
  "broadcastCreation C options deps accountPath code tx =
     bind_io (lift_io (bind_identity C code tx)) (\<lambda>(bound, typeIdArgs, account).
     bind_io (bd_completeFee deps bound BOOTSTRAP_FEE_RATE) (\<lambda>final.
     bind_io (lift_io (assertCreationConsistency C final code (ccc_hexFrom C (bo_stateData options)))) (\<lambda>_.
     bind_io (bd_sendTransaction deps final) (\<lambda>txHash.
     bind_io (bd_waitTransaction deps txHash) (\<lambda>_.
     let manifest = created_manifest account code (args (lock (outputs final ! 0))) typeIdArgs txHash
           (length (bo_stateData options)) in
     bind_io (bd_writeJsonAtomic deps accountPath (account_manifest_json manifest)) (\<lambda>_.
     return_io manifest))))))"

definition bootstrapAccount ::
  "ccc \<Rightarrow> bootstrap_options \<Rightarrow> 'w bootstrap_deps \<Rightarrow> ('w, js_error, account_manifest) io"
where
  "bootstrapAccount C options deps =
     bind_io (lift_io (validateOptions options)) (\<lambda>(stateCapacity, assetCapacity).
     let accountPath = resolve (bd_repoRoot deps) ''deploy/testnet-account.json'' in
     bind_io (bd_readJson deps accountPath) (\<lambda>existing.
     if existing \<noteq> JNull
     then throw_io (PlainError ''deploy/testnet-account.json already exists; refusing to replace it'')
     else
       bind_io (bd_readJson deps (resolve (bd_repoRoot deps) ''deploy/testnet-deployments.json'')) (\<lambda>deployment.
       bind_io (lift_io (accountLockCodeHash deployment)) (\<lambda>code.
       bind_io (lift_io (draft_creation C code (ccc_hexFrom C (bo_stateData options)) stateCapacity assetCapacity)) (\<lambda>tx.
       bind_io (bd_completeInputs deps tx) (\<lambda>funded.
       broadcastCreation C options deps accountPath code funded))))))"

section \<open>Atomic writes\<close>

text \<open>
  The file system: the files by absolute path, and the faults of the coming system calls. The
  next call fails when the head of \<open>fs_faults\<close> is \<open>Some k\<close> (a failing write leaves the first \<open>k\<close>
  characters behind) and succeeds when it is \<open>None\<close> or the list is used up.
\<close>

record fs_state =
  fs_files :: "string \<rightharpoonup> string"
  fs_faults :: "nat option list"

definition fs_call ::
  "string \<Rightarrow> (nat \<Rightarrow> fs_state \<Rightarrow> fs_state) \<Rightarrow> (fs_state \<Rightarrow> fs_state) \<Rightarrow> (fs_state, js_error, unit) io"
where
  "fs_call name on_fault effect s = (case fs_faults s of
     [] \<Rightarrow> (Inr (), effect s)
   | None # rest \<Rightarrow> (Inr (), effect (s\<lparr>fs_faults := rest\<rparr>))
   | Some k # rest \<Rightarrow> (Inl (NamedError ''Error'' name), on_fault k (s\<lparr>fs_faults := rest\<rparr>)))"

definition put_file :: "string \<Rightarrow> string \<Rightarrow> fs_state \<Rightarrow> fs_state" where
  "put_file p c s = s\<lparr>fs_files := (fs_files s)(p \<mapsto> c)\<rparr>"

text \<open>\<^verbatim>\<open>openSync(p, "wx")\<close> creates the file and refuses an existing one.\<close>

definition openSync :: "string \<Rightarrow> (fs_state, js_error, unit) io" where
  "openSync p = (\<lambda>s. if fs_files s p \<noteq> None then (Inl (NamedError ''Error'' ''EEXIST''), s)
     else fs_call ''open'' (\<lambda>k. id) (put_file p []) s)"

definition writeFileSync :: "string \<Rightarrow> string \<Rightarrow> (fs_state, js_error, unit) io" where
  "writeFileSync p c = fs_call ''write'' (\<lambda>k. put_file p (take k c)) (put_file p c)"

definition fsyncSync :: "(fs_state, js_error, unit) io" where
  "fsyncSync = fs_call ''fsync'' (\<lambda>k. id) id"

definition closeSync :: "(fs_state, js_error, unit) io" where
  "closeSync = fs_call ''close'' (\<lambda>k. id) id"

definition renameSync :: "string \<Rightarrow> string \<Rightarrow> (fs_state, js_error, unit) io" where
  "renameSync p q = fs_call ''rename'' (\<lambda>k. id)
     (\<lambda>s. s\<lparr>fs_files := (fs_files s)(q := fs_files s p, p := None)\<rparr>)"

definition unlinkSync :: "string \<Rightarrow> (fs_state, js_error, unit) io" where
  "unlinkSync p = fs_call ''unlink'' (\<lambda>k. id) (\<lambda>s. s\<lparr>fs_files := (fs_files s)(p := None)\<rparr>)"

text \<open>An exception together with whether \<^verbatim>\<open>descriptor\<close> was set when it was thrown.\<close>

definition with_descriptor :: "bool \<Rightarrow> ('w, js_error, 'a) io \<Rightarrow> ('w, js_error \<times> bool, 'a) io" where
  "with_descriptor b m = (\<lambda>w. case m w of (Inl e, w') \<Rightarrow> (Inl (e, b), w') | (Inr x, w') \<Rightarrow> (Inr x, w'))"

definition temporary_name :: "nat \<Rightarrow> string \<Rightarrow> string \<Rightarrow> string" where
  "temporary_name pid uuid path = ''.'' @ basename path @ ''.'' @ dec pid @ ''.'' @ uuid @ ''.tmp''"

definition writeJsonAtomicFile ::
  "(js_value \<Rightarrow> string) \<Rightarrow> nat \<Rightarrow> string \<Rightarrow> string \<Rightarrow> js_value \<Rightarrow> (fs_state, js_error, unit) io"
where
  "writeJsonAtomicFile stringify pid uuid path value =
     (let temporary = resolve (dirname path) (temporary_name pid uuid path) in
      catch_io
        (bind_io (with_descriptor False (openSync temporary)) (\<lambda>_.
         bind_io (with_descriptor True (writeFileSync temporary (stringify value @ [CHR 0x0A]))) (\<lambda>_.
         bind_io (with_descriptor True fsyncSync) (\<lambda>_.
         bind_io (with_descriptor True closeSync) (\<lambda>_.
         with_descriptor False (renameSync temporary path))))))
        (\<lambda>(e, open).
         bind_io (if open then closeSync else return_io ()) (\<lambda>_.
         bind_io (catch_io (unlinkSync temporary) (\<lambda>_. return_io ())) (\<lambda>_.
         throw_io e))))"

end
