(* ===== verification/AtomicWrite.thy ===== *)
theory AtomicWrite
  imports Bootstrap
begin

text \<open>
  The atomic write of tools/deploy/src/bootstrap-lib.ts: whichever system calls fail, the target
  file holds either its old contents or the complete new ones.
\<close>

section \<open>Paths\<close>

abbreviation slash_free :: "string \<Rightarrow> bool" where
  "slash_free s \<equiv> CHR ''/'' \<notin> set s"

lemma split_path_nonempty [simp]: "split_path s \<noteq> []"
  by (cases s) (auto split: list.split)

lemma split_path_slash_free: "slash_free s \<Longrightarrow> split_path s = [s]"
  by (induction s) auto

lemma split_path_parts: "\<forall>p \<in> set (split_path s). slash_free p"
  by (induction s) (auto split: list.split)

lemma split_path_append: "split_path (a @ CHR ''/'' # b) = split_path a @ split_path b"
  by (induction a) (auto split: list.split)

lemma normal_segments_last:
  "n \<noteq> [] \<Longrightarrow> n \<noteq> ''.'' \<Longrightarrow> n \<noteq> ''..'' \<Longrightarrow> normal_segments acc (xs @ [n]) = normal_segments acc xs @ [n]"
  by (induction acc xs rule: normal_segments.induct) auto

lemma join_snoc: "join_with sep (xs @ [n]) = (if xs = [] then n else join_with sep xs @ sep @ n)"
  by (induction sep xs rule: join_with.induct) auto

lemma basename_resolve:
  assumes "slash_free n" and "n \<noteq> []" and "n \<noteq> ''.''" and "n \<noteq> ''..''"
  shows "basename (resolve d n) = n"
proof -
  have "\<not> startsWith n ''/''"
    using assms(1,2) by (cases n) (auto simp: startsWith_def)
  then have "\<exists>a. resolve d n = a @ CHR ''/'' # n"
    using assms(2-4) by (auto simp: resolve_def split_path_slash_free [OF assms(1)] normal_segments_last join_snoc)
  then show ?thesis
    by (auto simp: basename_def split_path_append split_path_slash_free [OF assms(1)])
qed

lemma slash_free_digits: "list_all is_digit s \<Longrightarrow> slash_free s"
  by (auto simp: list_all_iff is_digit_def)

lemma temporary_differs:
  assumes "slash_free uuid"
  shows "resolve d (temporary_name pid uuid path) \<noteq> path"
proof
  let ?n = "temporary_name pid uuid path"
  assume eq: "resolve d ?n = path"
  have "slash_free (basename path)"
    using split_path_parts [of path] by (simp add: basename_def)
  then have "slash_free ?n"
    using assms slash_free_digits [OF dec_digits, of pid] by (simp add: temporary_name_def)
  then have "basename (resolve d ?n) = ?n"
    by (rule basename_resolve) (simp_all add: temporary_name_def)
  with eq have "length (basename path) = length ?n" by simp
  then show False by (simp add: temporary_name_def)
qed

section \<open>System calls that only touch the temporary file\<close>

definition only_touches :: "string \<Rightarrow> (fs_state, 'e, 'a) io \<Rightarrow> bool" where
  "only_touches t m \<longleftrightarrow> (\<forall>s r s'. m s = (r, s') \<longrightarrow> (\<forall>p. p \<noteq> t \<longrightarrow> fs_files s' p = fs_files s p))"

named_theorems touch_intros \<open>operations that only touch the temporary file\<close>

lemma touch_call:
  assumes "\<And>k s p. p \<noteq> t \<Longrightarrow> fs_files (f k s) p = fs_files s p" and "\<And>s p. p \<noteq> t \<Longrightarrow> fs_files (g s) p = fs_files s p"
  shows "only_touches t (fs_call n f g)"
  using assms by (auto simp: only_touches_def fs_call_def split: list.splits option.splits)

lemma touch_calls [touch_intros]:
  "only_touches t (writeFileSync t c)" "only_touches t fsyncSync" "only_touches t closeSync" "only_touches t (unlinkSync t)"
  unfolding writeFileSync_def fsyncSync_def closeSync_def unlinkSync_def
  by (rule touch_call; simp add: put_file_def)+

lemma touch_open [touch_intros]: "only_touches t (openSync t)"
proof -
  have "only_touches t (fs_call ''open'' (\<lambda>k. id) (put_file t []))"
    by (rule touch_call) (simp_all add: put_file_def)
  then show ?thesis by (auto simp: only_touches_def openSync_def split: if_splits)
qed

lemma touch_lift [touch_intros]: "only_touches t (lift_io r)"
  by (simp add: only_touches_def)

lemma touch_descriptor [touch_intros]: "only_touches t m \<Longrightarrow> only_touches t (with_descriptor b m)"
  by (auto simp: only_touches_def with_descriptor_def split: prod.splits sum.splits)

lemma touch_bind [touch_intros]:
  "only_touches t m \<Longrightarrow> (\<And>x. only_touches t (f x)) \<Longrightarrow> only_touches t (bind_io m f)"
  unfolding only_touches_def bind_io_def
  by (auto split: prod.splits sum.splits)

lemma touch_catch [touch_intros]:
  "only_touches t m \<Longrightarrow> (\<And>e. only_touches t (h e)) \<Longrightarrow> only_touches t (catch_io m h)"
  unfolding only_touches_def catch_io_def
  by (auto split: prod.splits sum.splits)

lemma rename_outcomes:
  "renameSync p q s = (r, s') \<Longrightarrow>
     (if r = Inr () then fs_files s' = (fs_files s)(q := fs_files s p, p := None) else fs_files s' = fs_files s)"
  by (auto simp: renameSync_def fs_call_def split: list.splits option.splits)

definition failure_only_touches :: "string \<Rightarrow> (fs_state, 'e, 'a) io \<Rightarrow> bool" where
  "failure_only_touches t m \<longleftrightarrow> (\<forall>s e s'. m s = (Inl e, s') \<longrightarrow> (\<forall>p. p \<noteq> t \<longrightarrow> fs_files s' p = fs_files s p))"

lemma failure_bind:
  "only_touches t m \<Longrightarrow> (\<And>x. failure_only_touches t (f x)) \<Longrightarrow> failure_only_touches t (bind_io m f)"
  unfolding only_touches_def failure_only_touches_def bind_io_def
  by (auto split: prod.splits sum.splits)

lemma failure_rename: "failure_only_touches t (with_descriptor b (renameSync p q))"
  by (auto simp: failure_only_touches_def with_descriptor_def dest: rename_outcomes split: prod.splits sum.splits)

lemma failure_catch:
  "failure_only_touches t m \<Longrightarrow> (\<And>e. only_touches t (h e)) \<Longrightarrow> failure_only_touches t (catch_io m h)"
  unfolding only_touches_def failure_only_touches_def catch_io_def
  by (auto split: prod.splits sum.splits)

lemma write_failure: "failure_only_touches (resolve (dirname path) (temporary_name pid uuid path))
    (writeJsonAtomicFile stringify pid uuid path v)"
  unfolding writeJsonAtomicFile_def Let_def
  by (intro failure_catch failure_bind failure_rename touch_intros)
     (auto split: prod.split intro!: touch_intros)

lemma with_descriptor_Inr_iff: "with_descriptor b m w = (Inr x, w') \<longleftrightarrow> m w = (Inr x, w')"
  by (auto simp: with_descriptor_def split: prod.splits sum.splits)

lemma fs_call_Inr: "fs_call n f g s = (Inr u, s') \<Longrightarrow> \<exists>r. s' = g (s\<lparr>fs_faults := r\<rparr>)"
  by (cases s) (auto simp: fs_call_def split: list.splits option.splits)

lemma call_files_Inr:
  "openSync t s = (Inr u, s') \<Longrightarrow> fs_files s t = None \<and> fs_files s' = (fs_files s)(t \<mapsto> [])"
  "writeFileSync t c s = (Inr u, s') \<Longrightarrow> fs_files s' = (fs_files s)(t \<mapsto> c)"
  "fsyncSync s = (Inr u, s') \<Longrightarrow> fs_files s' = fs_files s"
  "closeSync s = (Inr u, s') \<Longrightarrow> fs_files s' = fs_files s"
  "renameSync t q s = (Inr u, s') \<Longrightarrow> fs_files s' = (fs_files s)(q := fs_files s t, t := None)"
  by (auto simp: openSync_def writeFileSync_def fsyncSync_def closeSync_def renameSync_def put_file_def
      dest!: fs_call_Inr split: if_splits)

section \<open>Property\<close>

text \<open>
  C34: \<^verbatim>\<open>writeJsonAtomicFile\<close> is atomic under every pattern of failing system calls. If it returns,
  the target holds the complete printed value and no other file has changed (the temporary file
  is gone); if it throws, no file except the temporary one has changed, so the target still
  holds what it held before. The temporary path never is the target itself.
\<close>

theorem atomic_write:
  assumes "slash_free uuid" and "writeJsonAtomicFile stringify pid uuid path v s = (r, s')"
  shows "(case r of
      Inr _ \<Rightarrow> fs_files s' = (fs_files s)(path \<mapsto> stringify v @ [CHR 0x0A])
    | Inl e \<Rightarrow> fs_files s' path = fs_files s path
        \<and> (\<forall>p. p \<noteq> resolve (dirname path) (temporary_name pid uuid path) \<longrightarrow> fs_files s' p = fs_files s p))"
proof (cases r)
  case (Inl e)
  then show ?thesis
    using write_failure [of path pid uuid stringify v] assms(2) temporary_differs [OF assms(1), of "dirname path" pid path]
    by (auto simp: failure_only_touches_def)
next
  case (Inr u)
  let ?t = "resolve (dirname path) (temporary_name pid uuid path)"
  let ?body = "bind_io (with_descriptor False (openSync ?t)) (\<lambda>_.
         bind_io (with_descriptor True (writeFileSync ?t (stringify v @ [CHR 0x0A]))) (\<lambda>_.
         bind_io (with_descriptor True fsyncSync) (\<lambda>_.
         bind_io (with_descriptor True closeSync) (\<lambda>_.
         with_descriptor False (renameSync ?t path)))))"
  have "?body s = (Inr u, s')"
    using assms(2) Inr
    by (auto simp: writeJsonAtomicFile_def Let_def catch_io_def bind_io_Inr_iff split: prod.splits sum.splits)
  then obtain s1 s2 s3 s4 where o: "openSync ?t s = (Inr (), s1)"
    and w: "writeFileSync ?t (stringify v @ [CHR 0x0A]) s1 = (Inr (), s2)"
    and y: "fsyncSync s2 = (Inr (), s3)" and c: "closeSync s3 = (Inr (), s4)" and n: "renameSync ?t path s4 = (Inr u, s')"
    unfolding bind_io_Inr_iff with_descriptor_Inr_iff by auto
  show ?thesis
    using call_files_Inr(1) [OF o] call_files_Inr(2) [OF w] call_files_Inr(3) [OF y] call_files_Inr(4) [OF c]
      call_files_Inr(5) [OF n] Inr temporary_differs [OF assms(1), of "dirname path" pid path]
    by (auto simp: fun_eq_iff)
qed

theorem atomic_write_witness:
  "fs_files (snd (writeJsonAtomicFile (\<lambda>v. ''{}'') 7 ''u'' ''/d/a.json'' JNull
     \<lparr>fs_files = [''/d/a.json'' \<mapsto> ''old''], fs_faults = [None, None, Some 0]\<rparr>)) ''/d/a.json'' = Some ''old''"
proof -
  let ?s = "\<lparr>fs_files = [''/d/a.json'' \<mapsto> ''old''], fs_faults = [None, None, Some 0]\<rparr>"
  let ?w = "writeJsonAtomicFile (\<lambda>v. ''{}'') 7 ''u'' ''/d/a.json'' JNull ?s"
  have "fst ?w = Inl (NamedError ''Error'' ''fsync'')"
    using temporary_differs [of "''u''" "dirname ''/d/a.json''" 7 "''/d/a.json''"]
    by (simp add: writeJsonAtomicFile_def Let_def catch_io_def bind_io_def with_descriptor_def openSync_def
        writeFileSync_def fsyncSync_def closeSync_def unlinkSync_def fs_call_def put_file_def)
  then obtain s' where "?w = (Inl (NamedError ''Error'' ''fsync''), s')"
    by (metis prod.collapse)
  then show ?thesis
    using atomic_write [of "''u''" "\<lambda>v. ''{}''" 7 "''/d/a.json''" JNull ?s] by simp
qed

end
