(* ===== verification/BootstrapProps.thy ===== *)
theory BootstrapProps
  imports Bootstrap
begin

text \<open>
  Properties of the account creation of tools/deploy/src/bootstrap-lib.ts: what has happened by
  the time it returns, and that the browser accepts the manifest it writes.
\<close>

section \<open>Lemmas\<close>

lemma validateOptions_Inr:
  assumes "validateOptions opts = Inr (sc, ac)"
  shows "bo_stateData opts \<noteq> [] \<and> sc = int (139 + length (bo_stateData opts)) * SHANNONS_PER_CKB
    \<and> ac = bo_assetCapacityCkb opts * SHANNONS_PER_CKB \<and> 74 * SHANNONS_PER_CKB \<le> ac"
  using assms by (auto simp: validateOptions_def ACCOUNT_LOCK_ARGS_LENGTH_def TYPE_ID_ARGS_LENGTH_def result_simps Let_def
      cellCapacity_Inr_iff algebra_simps split: if_splits)

lemma accountLockScript_Inr_iff:
  "accountLockScript C h a = Inr l \<longleftrightarrow> (\<exists>x. accountLockArgs C a = Inr x \<and> l = \<lparr>codeHash = h, hashType = ''data2'', args = x\<rparr>)"
  by (auto simp: accountLockScript_def result_simps)

lemma accountLockCodeHash_Inr: "accountLockCodeHash m = Inr h \<Longrightarrow> hash32_hex h"
  by (auto simp: accountLockCodeHash_def is_hash_string_def Let_def split: if_splits js_value.splits)

lemma bind_identity_Inr:
  assumes "bind_identity C code tx = Inr (bound, tid, aid)"
  obtains first l state asset rest where "inputs bound = inputs tx" and "inputs tx = first # tl (inputs tx)"
    and "tid = ccc_hashTypeId C first 0" and "aid = ccc_scriptHash C (typeIdScript tid)"
    and "accountLockScript C code aid = Inr l" and "outputs tx = state # asset # rest"
    and "outputs bound = state\<lparr>type_script := Some (typeIdScript tid), lock := l\<rparr> # asset\<lparr>lock := l\<rparr> # rest"
  using assms by (auto simp: bind_identity_def Let_def result_simps split: list.splits)

text \<open>The effects of a successful run, in order.\<close>

lemma bootstrapAccount_Inr:
  assumes "bootstrapAccount C opts deps w = (Inr m, w')"
  shows "\<exists>w1 w2 w3 w4 w5 w6 sc ac dv code draft funded bound tid aid final txHash.
    validateOptions opts = Inr (sc, ac)
    \<and> bd_readJson deps (resolve (bd_repoRoot deps) ''deploy/testnet-account.json'') w = (Inr JNull, w1)
    \<and> bd_readJson deps (resolve (bd_repoRoot deps) ''deploy/testnet-deployments.json'') w1 = (Inr dv, w2)
    \<and> accountLockCodeHash dv = Inr code
    \<and> draft_creation C code (ccc_hexFrom C (bo_stateData opts)) sc ac = Inr draft
    \<and> bd_completeInputs deps draft w2 = (Inr funded, w3)
    \<and> bind_identity C code funded = Inr (bound, tid, aid)
    \<and> bd_completeFee deps bound BOOTSTRAP_FEE_RATE w3 = (Inr final, w4)
    \<and> assertCreationConsistency C final code (ccc_hexFrom C (bo_stateData opts)) = Inr ()
    \<and> bd_sendTransaction deps final w4 = (Inr txHash, w5)
    \<and> bd_waitTransaction deps txHash w5 = (Inr (), w6)
    \<and> m = created_manifest aid code (args (lock (outputs final ! 0))) tid txHash (length (bo_stateData opts))
    \<and> bd_writeJsonAtomic deps (resolve (bd_repoRoot deps) ''deploy/testnet-account.json'') (account_manifest_json m) w6 = (Inr (), w')"
  using assms
  unfolding bootstrapAccount_def broadcastCreation_def Let_def
  by (fastforce simp: bind_io_Inr_iff split: if_splits)

section \<open>Properties\<close>


text \<open>
  What accepting the recorded account asks of the environment: the client returns 32-byte hashes for sent
  transactions, and completing the fee leaves the first two outputs alone (it appends change).
\<close>

definition honest_client :: "'w bootstrap_deps \<Rightarrow> bool" where
  "honest_client deps \<longleftrightarrow>
     (\<forall>tx w h w'. bd_sendTransaction deps tx w = (Inr h, w') \<longrightarrow> hash32 h)
     \<and> (\<forall>tx r w tx' w'. bd_completeFee deps tx r w = (Inr tx', w') \<longrightarrow> 2 \<le> length (outputs tx)
         \<longrightarrow> take 2 (outputs tx') = take 2 (outputs tx))"

text \<open>The browser accepts every account the tool records.\<close>

lemma bootstrapped_account_ok:
  assumes "ccc_hex C" and "ccc_hashes C" and "zod_ok Z" and "honest_client deps"
    and "int (length (bo_stateData opts)) \<le> max_safe_integer"
    and "bootstrapAccount C opts deps w = (Inr m, w')" and "codeHash (accountLockCode d) = am_lock_code_hash m"
  shows "\<exists>a. validateAccount C Z (account_manifest_json m) d = Inr a \<and> va_manifest a = m"
proof -
  obtain caps code funded bound tid aid final txHash dv w3 w4 w5 where opts: "validateOptions opts = Inr caps"
    and code: "accountLockCodeHash dv = Inr code"
    and bi: "bind_identity C code funded = Inr (bound, tid, aid)"
    and fee: "bd_completeFee deps bound BOOTSTRAP_FEE_RATE w3 = (Inr final, w4)"
    and send: "bd_sendTransaction deps final w4 = (Inr txHash, w5)"
    and m: "m = created_manifest aid code (args (lock (outputs final ! 0))) tid txHash (length (bo_stateData opts))"
    using bootstrapAccount_Inr [OF assms(6)] by blast
  obtain first l state asset rest where tid: "tid = ccc_hashTypeId C first 0"
    and aid: "aid = ccc_scriptHash C (typeIdScript tid)" and l: "accountLockScript C code aid = Inr l"
    and out: "outputs bound = state\<lparr>type_script := Some (typeIdScript tid), lock := l\<rparr> # asset\<lparr>lock := l\<rparr> # rest"
    using bi by (rule bind_identity_Inr)
  have hashes: "hash32_hex aid" "hash32_hex tid" "hash32_hex txHash"
    using assms(2,4) send unfolding hash32_hex_iff ccc_hashes_def honest_client_def aid tid by blast+
  have "args l = ''0x01'' @ drop 2 aid"
    using l accountLockArgs_manifest [OF assms(1)] hashes(1) unfolding accountLockScript_Inr_iff hash32_hex_iff by auto
  moreover have "2 \<le> length (outputs bound)" by (simp add: out)
  then have "take 2 (outputs final) = take 2 (outputs bound)"
    using assms(4) fee unfolding honest_client_def by blast
  then have "lock (outputs final ! 0) = l"
    unfolding out by (cases "outputs final") (auto simp: numeral_2_eq_2)
  ultimately have args: "am_lock_args m = ''0x01'' @ drop 2 aid"
    by (simp add: m created_manifest_def)
  have "bo_stateData opts \<noteq> []" using validateOptions_Inr opts by (cases caps) auto
  then have ok: "account_manifest_ok m"
    using args hashes hash32_01 [OF hashes(1)] accountLockCodeHash_Inr [OF code] assms(5)
    by (simp add: account_manifest_ok_def m created_manifest_def out_point_ok_def int_ok_def is_safe_integer_def
        max_safe_integer_def)
  have "parse_as Z AccountManifestSchema account_manifest_of (account_manifest_json m) = Some m"
    using account_manifest.parse_printed [OF assms(3)] ok by simp
  then show ?thesis
    using args assms(7) by (simp add: validateAccount_def Let_def m created_manifest_def aid typeIdScript_def)
qed

section \<open>A concrete creation\<close>

definition example_deps :: "nat bootstrap_deps" where
  "example_deps = \<lparr>bd_repoRoot = ''/r'',
     bd_readJson = (\<lambda>p. return_io (if p = ''/r/deploy/testnet-deployments.json''
       then deployment_manifest_json example_deployment else JNull)),
     bd_writeJsonAtomic = (\<lambda>p v n. (Inr (), Suc n)),
     bd_completeInputs = (\<lambda>tx. return_io (tx\<lparr>inputs := inputs example_creation\<rparr>)),
     bd_completeFee = (\<lambda>tx r. return_io (tx\<lparr>outputs := outputs tx @ [outputs example_creation ! 2]\<rparr>)),
     bd_sendTransaction = (\<lambda>tx n. (Inr (ref_digest 4), Suc n)), bd_waitTransaction = (\<lambda>h. return_io ())\<rparr>"

definition example_options :: bootstrap_options where
  "example_options = \<lparr>bo_stateData = [7], bo_assetCapacityCkb = 200\<rparr>"

definition example_created :: account_manifest where
  "example_created = created_manifest (ref_digest 66) (ref_digest 1) (''0x01'' @ drop 2 (ref_digest 66)) (ref_digest 5) (ref_digest 4) 1"

lemma example_options_ok: "validateOptions example_options = Inr (140 * SHANNONS_PER_CKB, 200 * SHANNONS_PER_CKB)"
  unfolding validateOptions_def ACCOUNT_LOCK_ARGS_LENGTH_def TYPE_ID_ARGS_LENGTH_def cellCapacity_nat
  by (simp add: example_options_def SHANNONS_PER_CKB_def)

lemma example_code: "accountLockCodeHash (deployment_manifest_json example_deployment) = Inr (ref_digest 1)"
  using hash32_ref_digest [of 1]
  by (simp add: accountLockCodeHash_def deployment_manifest_json_def example_deployment_def example_artifact_def
      deployment_artifact_json_def is_hash_string_def)

lemma PLACEHOLDER_32_hex: "PLACEHOLDER_32 = ref_digest 0"
proof -
  have "le_bytes n 0 = replicate n 0" for n by (induction n) simp_all
  moreover have "hex_of_byte 0 = ''00''" by (simp add: hex_of_byte_digits hex_digit_0)
  ultimately show ?thesis by (simp add: PLACEHOLDER_32_def ref_digest_def hexFromBytes_def)
qed

lemma example_lock_script:
  "accountLockScript ref_ccc h (ref_digest n) = Inr \<lparr>codeHash = h, hashType = ''data2'', args = ''0x01'' @ drop 2 (ref_digest n)\<rparr>"
  using accountLockArgs_manifest [OF ref_ccc_hex] hash32_ref_digest [of n] hash32_hex_iff
  by (simp add: accountLockScript_def)

lemma sameHex_refl: "sameHex s s"
  by (simp add: sameHex_def)

lemma sameHex_distinct: "\<not> sameHex (ref_digest 2) (ref_digest 1)"
  by (simp add: sameHex_def ref_digest_def le_bytes_numeral)

lemmas example_run = example_deps_def example_options_def example_creation_def draft_creation_def bind_identity_def
  broadcastCreation_def typeIdScript_def assertCreationConsistency_def refuse_foreign_def require_account_lock_def
  sameHex_refl sameHex_distinct sameHex_distinct [unfolded One_nat_def] example_code example_lock_script PLACEHOLDER_32_hex ref_ccc_script ref_ccc_typeId idx_def
  example_created_def created_manifest_def

lemma example_lock_args: "accountLockArgs ref_ccc (ref_digest n) = Inr (''0x01'' @ drop 2 (ref_digest n))"
  using accountLockArgs_manifest [OF ref_ccc_hex] hash32_ref_digest [of n] hash32_hex_iff by blast

lemma example_bootstrap: "bootstrapAccount ref_ccc example_options example_deps n = (Inr example_created, n + 2)"
proof -
  have path: "resolve (bd_repoRoot example_deps) ''deploy/testnet-deployments.json'' = ''/r/deploy/testnet-deployments.json''"
    "resolve (bd_repoRoot example_deps) ''deploy/testnet-account.json'' = ''/r/deploy/testnet-account.json''"
    by (simp_all add: resolve_def startsWith_def example_deps_def)
  show ?thesis
    unfolding bootstrapAccount_def Let_def path example_options_ok
    using example_lock_args [of 66]
    by (simp add: example_run Let_def bind_io_def)
qed

lemma example_honest: "honest_client example_deps"
  using hash32_ref_digest [of 4] hash32_hex_iff by (auto simp: honest_client_def example_deps_def)


end
