(* ===== verification/Machine.thy ===== *)
theory Machine
  imports Main
begin

text \<open>
  State machines: the states reachable from a start state, and the interface of a machine with
  an inductive invariant. The server's single-flight guard and the browser's step components are
  instances.
\<close>

inductive reachable :: "'s \<Rightarrow> ('s \<Rightarrow> 's \<Rightarrow> bool) \<Rightarrow> 's \<Rightarrow> bool" for start step where
  start: "reachable start step start"
| step: "reachable start step s \<Longrightarrow> step s t \<Longrightarrow> reachable start step t"

locale machine =
  fixes start :: 's and step :: "'s \<Rightarrow> 's \<Rightarrow> bool" and inv :: "'s \<Rightarrow> bool"
  assumes inv_start: "inv start"
    and inv_step: "step s t \<Longrightarrow> inv s \<Longrightarrow> inv t"
begin

lemma reachable_inv: "reachable start step s \<Longrightarrow> inv s"
  by (induction rule: reachable.induct) (auto intro: inv_start inv_step)

lemma reachable_implies: "reachable start step s \<Longrightarrow> (\<And>s. inv s \<Longrightarrow> P s) \<Longrightarrow> P s"
  using reachable_inv by blast

end

end
