(* ===== verification/Service.thy ===== *)
theory Service
  imports BootstrapProps Machine
begin

text \<open>
  demo/src/server/errors.ts, config.ts and service.ts: safe error bodies, the server's
  configuration, and the demo service.

  \<^verbatim>\<open>DemoServiceDeps\<close> is the record \<open>service_deps\<close> of operations on an arbitrary environment. The
  service's closure keeps two variables. \<^verbatim>\<open>deploymentVerification\<close> is the flag \<open>sv_verified\<close>: a
  rejected verification clears it, so between calls it holds a resolved promise or nothing.
  \<^verbatim>\<open>active\<close> matters only while calls overlap; it is the state of the machine \<open>flight\<close> at the end, in
  which a call either starts \<^verbatim>\<open>bootstrapOnce\<close>, shares the running promise or is rejected.
\<close>

section \<open>Errors and configuration\<close>

definition toSafeErrorBody :: "js_error \<Rightarrow> api_error_body" where
  "toSafeErrorBody e = (case e of
     ApiError code status msg \<Rightarrow> \<lparr>eb_code = code, eb_message = msg\<rparr>
   | _ \<Rightarrow> \<lparr>eb_code = INTERNAL_ERROR, eb_message = ''Unexpected local server error''\<rparr>)"

record server_config =
  sc_host :: string
  sc_port :: nat
  sc_clientOrigin :: string
  sc_rpId :: string
  sc_network :: string
  sc_privateKey :: string

text \<open>\<^verbatim>\<open>/^0x[0-9a-fA-F]{64}$/\<close>\<close>

definition private_key_re :: "string \<Rightarrow> bool" where
  "private_key_re s \<longleftrightarrow> take 2 s = ''0x'' \<and> length s = 66 \<and> list_all is_hex_any (drop 2 s)"

definition loadServerConfig :: "string option \<Rightarrow> server_config js" where
  "loadServerConfig CKB_PRIVKEY =
     (let privateKey = (case CKB_PRIVKEY of None \<Rightarrow> [] | Some k \<Rightarrow> k) in
      if \<not> private_key_re privateKey
      then Inl (ApiError KEY_UNAVAILABLE 500 ''CKB_PRIVKEY is missing or invalid'')
      else Inr \<lparr>sc_host = ''127.0.0.1'', sc_port = API_PORT, sc_clientOrigin = CLIENT_ORIGIN, sc_rpId = RP_ID,
                sc_network = ''testnet'', sc_privateKey = privateKey\<rparr>)"

section \<open>Data\<close>

record 'w service_deps =
  sd_funderAddress :: "('w, js_error, string) io"
  sd_funderBalanceShannons :: "('w, js_error, int) io"
  sd_readAccountManifest :: "('w, js_error, js_value) io"
  sd_getDeploymentCell :: "out_point \<Rightarrow> ('w, js_error, string option) io"
  sd_getStateCell :: "manifest_out_point \<Rightarrow> ('w, js_error, string option) io"
  sd_exportState :: "bootstrap_request \<Rightarrow> ('w, js_error, bytes) io"
  sd_bootstrap :: "bytes \<Rightarrow> ('w, js_error, js_value) io"

record 'w service_state =
  sv_verified :: bool
  sv_world :: 'w

text \<open>A dependency's operation, run inside the service.\<close>

definition dep_io :: "('w, 'e, 'a) io \<Rightarrow> ('w service_state, 'e, 'a) io" where
  "dep_io m = (\<lambda>s. case m (sv_world s) of (r, w') \<Rightarrow> (r, s\<lparr>sv_world := w'\<rparr>))"

definition BOOTSTRAP_FEE_RESERVE :: int where
  "BOOTSTRAP_FEE_RESERVE = SHANNONS_PER_CKB"

definition accountStateCapacity :: "nat \<Rightarrow> int" where
  "accountStateCapacity stateLength =
     int (8 + (32 + 1 + ACCOUNT_LOCK_ARGS_LENGTH) + (32 + 1 + TYPE_ID_ARGS_LENGTH) + stateLength) * SHANNONS_PER_CKB"

definition parseAccount :: "zod \<Rightarrow> js_value \<Rightarrow> deployment_manifest \<Rightarrow> account_manifest option js" where
  "parseAccount Z v deployment =
     (if v = JNull then Inr None
      else
        let mismatch = Inl (ApiError ACCOUNT_MISMATCH 409 ''Recorded account does not match this testnet deployment'') in
        case parse_as Z AccountManifestSchema account_manifest_of v of
          None \<Rightarrow> mismatch
        | Some m \<Rightarrow>
            if am_lock_code_hash m \<noteq> da_dataHash (dm_account_lock deployment) then mismatch else Inr (Some m))"

definition recordedAccount ::
  "zod \<Rightarrow> 'w service_deps \<Rightarrow> deployment_manifest \<Rightarrow> ('w service_state, js_error, account_manifest option) io"
where
  "recordedAccount Z deps deployment =
     bind_io (dep_io (sd_readAccountManifest deps)) (\<lambda>v. lift_io (parseAccount Z v deployment))"

section \<open>Verifying the deployment\<close>

definition unverified :: js_error where
  "unverified = ApiError DEPLOYMENT_INVALID 500 ''Published testnet code cells could not be verified''"

text \<open>\<^verbatim>\<open>hashCkb(cell.outputData)\<close> decodes the hex data first.\<close>

definition verify_artifact :: "ccc \<Rightarrow> 'w service_deps \<Rightarrow> deployment_artifact \<Rightarrow> ('w service_state, js_error, unit) io" where
  "verify_artifact C deps artifact =
     bind_io (dep_io (sd_getDeploymentCell deps \<lparr>op_txHash = da_txHash artifact, op_index = da_index artifact\<rparr>)) (\<lambda>found.
     case found of
       None \<Rightarrow> throw_io unverified
     | Some d \<Rightarrow>
         bind_io (lift_io (ccc_bytesFrom C d)) (\<lambda>bs.
         if ccc_hashCkb C bs \<noteq> da_dataHash artifact then throw_io unverified else return_io ()))"

definition set_verified :: "bool \<Rightarrow> ('w service_state, 'e, unit) io" where
  "set_verified b = (\<lambda>s. (Inr (), s\<lparr>sv_verified := b\<rparr>))"

definition is_api_error :: "js_error \<Rightarrow> bool" where
  "is_api_error e = (case e of ApiError c n m \<Rightarrow> True | _ \<Rightarrow> False)"

definition verifyDeployment ::
  "ccc \<Rightarrow> 'w service_deps \<Rightarrow> deployment_manifest \<Rightarrow> ('w service_state, js_error, unit) io"
where
  "verifyDeployment C deps deployment =
     (\<lambda>s. if sv_verified s then (Inr (), s)
       else
         catch_io
           (bind_io (verify_artifact C deps (dm_account_lock deployment)) (\<lambda>_.
            bind_io (verify_artifact C deps (dm_verifier_p256 deployment)) (\<lambda>_.
            set_verified True)))
           (\<lambda>e. bind_io (set_verified False) (\<lambda>_. throw_io (if is_api_error e then e else unverified))) s)"

section \<open>Creating the account\<close>

definition service_timeout :: "js_error \<Rightarrow> bool" where
  "service_timeout e = (case e of NamedError name msg \<Rightarrow> name = ''ErrorClientWaitTransactionTimeout'' | _ \<Rightarrow> False)"

definition matches_live :: "account_manifest \<Rightarrow> bytes \<Rightarrow> string option \<Rightarrow> bool" where
  "matches_live existing stateData live = (case live of
     None \<Rightarrow> False
   | Some d \<Rightarrow> am_state_bytes existing = int (length stateData) \<and> toLowerCase d = hexFromBytes stateData)"

text \<open>The last step of \<^verbatim>\<open>bootstrapOnce\<close>: the \<^verbatim>\<open>try\<close> around the creation.\<close>

definition createAccount ::
  "zod \<Rightarrow> 'w service_deps \<Rightarrow> deployment_manifest \<Rightarrow> bytes \<Rightarrow> ('w service_state, js_error, account_manifest) io"
where
  "createAccount Z deps deployment stateData =
     catch_io
       (bind_io (dep_io (sd_bootstrap deps stateData)) (\<lambda>created.
        bind_io (lift_io (parseAccount Z created deployment)) (\<lambda>parsed.
        case parsed of
          None \<Rightarrow> throw_io (ApiError BOOTSTRAP_FAILED 500 ''Account creation returned no manifest'')
        | Some m \<Rightarrow> return_io m)))
       (\<lambda>e. if service_timeout e
         then throw_io (ApiError CONFIRMATION_TIMEOUT 504 ''Account transaction was submitted but confirmation timed out'')
         else if is_api_error e then throw_io e
         else throw_io (ApiError BOOTSTRAP_FAILED 500 ''Account creation failed''))"

definition requiredBalance :: "nat \<Rightarrow> int" where
  "requiredBalance n = accountStateCapacity n + INITIAL_ASSET + BOOTSTRAP_FEE_RESERVE"

text \<open>From the recorded account on.\<close>

definition resumeOrCreate ::
  "zod \<Rightarrow> 'w service_deps \<Rightarrow> deployment_manifest \<Rightarrow> bytes \<Rightarrow> account_manifest option \<Rightarrow> ('w service_state, js_error, account_manifest) io"
where
  "resumeOrCreate Z deps deployment stateData existing = (case existing of
     Some m \<Rightarrow>
       bind_io (dep_io (sd_getStateCell deps (am_state_out_point m))) (\<lambda>live.
       if \<not> matches_live m stateData live
       then throw_io (ApiError ACCOUNT_MISMATCH 409 ''Existing account does not match this passkey'')
       else return_io m)
   | None \<Rightarrow>
       bind_io (dep_io (sd_funderBalanceShannons deps)) (\<lambda>balance.
       if balance < requiredBalance (length stateData)
       then throw_io (ApiError INSUFFICIENT_BALANCE 409 ''Backend funder balance is insufficient for account creation'')
       else createAccount Z deps deployment stateData))"

definition bootstrapOnce ::
  "ccc \<Rightarrow> zod \<Rightarrow> 'w service_deps \<Rightarrow> deployment_manifest \<Rightarrow> bootstrap_request \<Rightarrow> ('w service_state, js_error, account_manifest) io"
where
  "bootstrapOnce C Z deps deployment request =
     bind_io (verifyDeployment C deps deployment) (\<lambda>_.
     bind_io (catch_io (dep_io (sd_exportState deps request))
       (\<lambda>e. throw_io (if is_api_error e then e else ApiError BOOTSTRAP_FAILED 500 ''Account state export failed''))) (\<lambda>stateData.
     bind_io (recordedAccount Z deps deployment) (\<lambda>existing.
     resumeOrCreate Z deps deployment stateData existing)))"

section \<open>The service's operations\<close>

definition createDemoService :: "zod \<Rightarrow> js_value \<Rightarrow> deployment_manifest js" where
  "createDemoService Z v = (case parse_as Z DeploymentManifestSchema deployment_manifest_of v of
     None \<Rightarrow> Inl (ApiError DEPLOYMENT_INVALID 500 ''Testnet deployment is invalid'')
   | Some deployment \<Rightarrow> Inr deployment)"

text \<open>\<^verbatim>\<open>Promise.all\<close> starts the three reads in order and rejects with the first failure.\<close>

definition serviceStatus ::
  "ccc \<Rightarrow> zod \<Rightarrow> 'w service_deps \<Rightarrow> deployment_manifest \<Rightarrow> ('w service_state, js_error, demo_status) io"
where
  "serviceStatus C Z deps deployment =
     bind_io (verifyDeployment C deps deployment) (\<lambda>_ s0.
       case dep_io (sd_funderAddress deps) s0 of (ra, s1) \<Rightarrow>
       case dep_io (sd_funderBalanceShannons deps) s1 of (rb, s2) \<Rightarrow>
       case recordedAccount Z deps deployment s2 of (rc, s3) \<Rightarrow>
         (bind_r ra (\<lambda>funderAddress. bind_r rb (\<lambda>funderBalance. bind_r rc (\<lambda>currentAccount.
            Inr \<lparr>ds_deploymentVerified = True, ds_deployment = deployment, ds_funderAddress = funderAddress,
                 ds_funderBalanceShannons = dec_int funderBalance, ds_account = currentAccount\<rparr>))), s3))"

text \<open>
  Overlapping calls of \<^verbatim>\<open>bootstrap\<close>. A promise is a number; \<open>fl_running\<close> holds the promises whose
  \<^verbatim>\<open>bootstrapOnce\<close> has not finished, \<open>fl_settled\<close> the outcomes of the others.
\<close>

record flight =
  fl_next :: nat
  fl_active :: "(string \<times> nat) option"
  fl_running :: "nat \<rightharpoonup> bootstrap_request"
  fl_settled :: "nat \<rightharpoonup> js_error + account_manifest"

datatype reply = Rejected js_error | Promise nat

definition idle_flight :: flight where
  "idle_flight = \<lparr>fl_next = 0, fl_active = None, fl_running = Map.empty, fl_settled = Map.empty\<rparr>"

definition serviceBootstrap :: "zod \<Rightarrow> js_value \<Rightarrow> flight \<Rightarrow> reply \<times> flight" where
  "serviceBootstrap Z requestValue s = (case parse_as Z BootstrapRequestSchema bootstrap_request_of requestValue of
     None \<Rightarrow> (Rejected (ApiError INVALID_REQUEST 400 ''Invalid account bootstrap request''), s)
   | Some request \<Rightarrow>
       (case fl_active s of
          Some (activeKey, promise) \<Rightarrow>
            if activeKey \<noteq> br_publicKey request
            then (Rejected (ApiError ACCOUNT_MISMATCH 409 ''A different account creation is already in progress''), s)
            else (Promise promise, s)
        | None \<Rightarrow>
            (Promise (fl_next s),
             s\<lparr>fl_next := Suc (fl_next s), fl_active := Some (br_publicKey request, fl_next s),
               fl_running := (fl_running s)(fl_next s \<mapsto> request)\<rparr>)))"

text \<open>The \<^verbatim>\<open>finally\<close> handler, when the promise's \<^verbatim>\<open>bootstrapOnce\<close> finishes.\<close>

definition settleFlight :: "nat \<Rightarrow> js_error + account_manifest \<Rightarrow> flight \<Rightarrow> flight" where
  "settleFlight promise outcome s = s\<lparr>
     fl_active := (case fl_active s of Some (k, p) \<Rightarrow> if p = promise then None else fl_active s | None \<Rightarrow> None),
     fl_running := (fl_running s)(promise := None), fl_settled := (fl_settled s)(promise \<mapsto> outcome)\<rparr>"

inductive flight_step :: "zod \<Rightarrow> flight \<Rightarrow> flight \<Rightarrow> bool" for Z where
  call: "flight_step Z s (snd (serviceBootstrap Z v s))"
| settle: "fl_running s p = Some r \<Longrightarrow> flight_step Z s (settleFlight p outcome s)"

section \<open>The server's wiring\<close>

text \<open>The dependencies demo/src/server/index.ts builds from the signer, the client and the files.\<close>

definition map_io :: "('a \<Rightarrow> 'b) \<Rightarrow> ('w, 'e, 'a) io \<Rightarrow> ('w, 'e, 'b) io" where
  "map_io f m = bind_io m (\<lambda>x. return_io (f x))"

definition demoServiceDeps ::
  "ccc \<Rightarrow> 'w deploy_signer \<Rightarrow> 'w bootstrap_deps \<Rightarrow> (bootstrap_request \<Rightarrow> ('w, js_error, bytes) io) \<Rightarrow> 'w service_deps"
where
  "demoServiceDeps C signer bdeps exporter =
     \<lparr>sd_funderAddress = sg_recommendedAddress signer,
      sd_funderBalanceShannons = sg_balance signer,
      sd_readAccountManifest = bd_readJson bdeps (resolve (bd_repoRoot bdeps) ''deploy/testnet-account.json''),
      sd_getDeploymentCell = (\<lambda>p. map_io (map_option outputData) (sg_getCellLive signer p)),
      sd_getStateCell = (\<lambda>p. map_io (map_option outputData)
        (sg_getCellLive signer \<lparr>op_txHash = mo_tx_hash p, op_index = mo_index p\<rparr>)),
      sd_exportState = exporter,
      sd_bootstrap = (\<lambda>stateData. map_io account_manifest_json (bootstrapAccount C
        \<lparr>bo_stateData = stateData, bo_assetCapacityCkb = INITIAL_ASSET div SHANNONS_PER_CKB\<rparr> bdeps))\<rparr>"

end
