(* ===== verification/ServiceProps.thy ===== *)
theory ServiceProps
  imports Service DeploymentProps
begin

text \<open>
  Properties of the demo service: overlapping creations share one run, a run always ends with
  the guard released, what a successful run has checked, and that the account it creates through
  the deployment tool is one the browser accepts.
\<close>

section \<open>Single flight\<close>

definition flight_inv :: "flight \<Rightarrow> bool" where
  "flight_inv s \<longleftrightarrow>
     (\<forall>p r. fl_running s p = Some r \<longrightarrow> fl_active s = Some (br_publicKey r, p))
     \<and> (\<forall>k p. fl_active s = Some (k, p) \<longrightarrow> (\<exists>r. fl_running s p = Some r))
     \<and> (\<forall>p. fl_next s \<le> p \<longrightarrow> fl_running s p = None \<and> fl_settled s p = None)
     \<and> (\<forall>p. fl_running s p = None \<or> fl_settled s p = None)"

inductive_cases flight_stepE: "flight_step Z s t"

lemma flight_inv_start: "flight_inv idle_flight"
  by (simp add: flight_inv_def idle_flight_def)

lemma flight_inv_call: "flight_inv s \<Longrightarrow> flight_inv (snd (serviceBootstrap Z v s))"
  by (auto simp: serviceBootstrap_def flight_inv_def split: option.splits if_splits)

lemma flight_inv_active: "flight_inv s \<Longrightarrow> fl_running s p = Some r \<Longrightarrow> fl_active s = Some (br_publicKey r, p)"
  unfolding flight_inv_def by blast

lemma flight_inv_unique: "flight_inv s \<Longrightarrow> fl_running s p = Some r \<Longrightarrow> q \<noteq> p \<Longrightarrow> fl_running s q = None"
  using flight_inv_active by (metis option.exhaust option.inject prod.inject)

lemma settle_fields:
  assumes "flight_inv s" and "fl_running s p = Some r"
  shows "fl_running (settleFlight p out s) = Map.empty" and "fl_active (settleFlight p out s) = None"
    and "fl_settled (settleFlight p out s) = (fl_settled s)(p \<mapsto> out)" and "fl_next (settleFlight p out s) = fl_next s"
  using flight_inv_active [OF assms] flight_inv_unique [OF assms] by (auto simp: settleFlight_def)

lemma flight_inv_settle:
  assumes "flight_inv s" and "fl_running s p = Some r"
  shows "flight_inv (settleFlight p out s)"
proof -
  have "p < fl_next s" using assms unfolding flight_inv_def by (metis not_le option.distinct(1))
  then show ?thesis
    using assms(1) unfolding flight_inv_def settle_fields [OF assms] by auto
qed

interpretation flight: machine idle_flight "flight_step Z" flight_inv for Z
  by unfold_locales (auto elim!: flight_stepE intro: flight_inv_start flight_inv_call flight_inv_settle)

text \<open>
  C22: at most one account creation runs at a time. In every reachable state of the service all
  running promises are the same one, it is the one \<^verbatim>\<open>active\<close> names, and it was started for the key
  \<^verbatim>\<open>active\<close> records; a further call with that key returns the same promise and starts nothing, a
  call with another key is rejected with \<^verbatim>\<open>ACCOUNT_MISMATCH\<close> and starts nothing.
\<close>

theorem single_flight:
  assumes "reachable idle_flight (flight_step Z) s" and "fl_running s p = Some r"
    and "parse_as Z BootstrapRequestSchema bootstrap_request_of v = Some request"
  shows "(\<forall>q. fl_running s q \<noteq> None \<longrightarrow> q = p) \<and> fl_settled s p = None
    \<and> serviceBootstrap Z v s =
        ((if br_publicKey request = br_publicKey r then Promise p
          else Rejected (ApiError ACCOUNT_MISMATCH 409 ''A different account creation is already in progress'')), s)"
proof -
  have inv: "flight_inv s" using assms(1) by (rule flight.reachable_inv)
  then have "fl_settled s p = None"
    using assms(2) unfolding flight_inv_def by (metis option.distinct(1))
  moreover have "\<forall>q. fl_running s q \<noteq> None \<longrightarrow> q = p"
    by (intro allI impI) (rule ccontr, simp add: flight_inv_unique [OF inv assms(2)])
  moreover have "serviceBootstrap Z v s =
      ((if br_publicKey request = br_publicKey r then Promise p
        else Rejected (ApiError ACCOUNT_MISMATCH 409 ''A different account creation is already in progress'')), s)"
    by (simp add: serviceBootstrap_def assms(3) flight_inv_active [OF inv assms(2)])
  ultimately show ?thesis by (intro conjI)
qed

text \<open>
  C24: the guard is always released. In every reachable state a running creation can settle with
  whatever outcome it has, a success or a failure; afterwards its promise holds that outcome for
  good, nothing is running, and the next well-formed request starts a new creation. A state with
  nothing running is ready for a request at once.
\<close>

theorem flight_always_released:
  assumes "reachable idle_flight (flight_step Z) s"
    and "parse_as Z BootstrapRequestSchema bootstrap_request_of v = Some request"
  shows "(\<forall>p r outcome. fl_running s p = Some r \<longrightarrow>
       flight_step Z s (settleFlight p outcome s) \<and> fl_settled (settleFlight p outcome s) p = Some outcome
       \<and> fl_running (settleFlight p outcome s) = Map.empty \<and> fl_active (settleFlight p outcome s) = None)
    \<and> (fl_running s = Map.empty \<longrightarrow> (\<exists>t. serviceBootstrap Z v s = (Promise (fl_next s), t)
         \<and> fl_running t = [fl_next s \<mapsto> request] \<and> fl_settled s (fl_next s) = None))"
proof -
  have inv: "flight_inv s" using assms(1) by (rule flight.reachable_inv)
  have idle: "fl_active s = None" if "fl_running s = Map.empty"
    using inv that unfolding flight_inv_def by (cases "fl_active s") auto
  have fresh: "fl_settled s (fl_next s) = None"
    using inv unfolding flight_inv_def by blast
  have "\<exists>t. serviceBootstrap Z v s = (Promise (fl_next s), t) \<and> fl_running t = [fl_next s \<mapsto> request]"
    if "fl_running s = Map.empty"
    using idle [OF that] that assms(2) by (simp add: serviceBootstrap_def)
  then show ?thesis
    using fresh settle_fields [OF inv] flight_step.settle by fastforce
qed

section \<open>One creation\<close>

lemma dep_io_Inr_iff [result_simps]:
  "dep_io m s = (r, s') \<longleftrightarrow> (\<exists>w'. m (sv_world s) = (r, w') \<and> s' = s\<lparr>sv_world := w'\<rparr>)"
  by (auto simp: dep_io_def split: prod.splits)

lemma parseAccount_Some_iff:
  assumes "zod_ok Z"
  shows "parseAccount Z v dep = Inr (Some m) \<longleftrightarrow>
    v \<noteq> JNull \<and> zaccepts (z_format Z) AccountManifestSchema v \<and> m = account_manifest_of v
    \<and> am_lock_code_hash m = da_dataHash (dm_account_lock dep)"
proof (cases "parse_as Z AccountManifestSchema account_manifest_of v")
  case None
  then show ?thesis
    using account_manifest.parse_as_None_iff [OF assms, of v] by (auto simp: parseAccount_def Let_def)
next
  case (Some x)
  then have "zaccepts (z_format Z) AccountManifestSchema v" and "x = account_manifest_of v"
    using account_manifest.parse_as_Some_iff [OF assms] by blast+
  with Some show ?thesis by (auto simp: parseAccount_def Let_def)
qed

lemma parseAccount_None_iff: "parseAccount Z v dep = Inr None \<longleftrightarrow> v = JNull"
  by (auto simp: parseAccount_def Let_def split: option.splits)

text \<open>A code cell the client returned with the data the manifest promises.\<close>

definition cell_checked :: "ccc \<Rightarrow> 'w service_deps \<Rightarrow> deployment_artifact \<Rightarrow> bool" where
  "cell_checked C deps a \<longleftrightarrow> (\<exists>u u' d bs.
     sd_getDeploymentCell deps \<lparr>op_txHash = da_txHash a, op_index = da_index a\<rparr> u = (Inr (Some d), u')
     \<and> ccc_bytesFrom C d = Inr bs \<and> ccc_hashCkb C bs = da_dataHash a)"

lemma verify_artifact_Inr:
  assumes "verify_artifact C deps a s = (Inr x, s')"
  shows "cell_checked C deps a \<and> sv_verified s' = sv_verified s"
proof -
  obtain d bs where "sd_getDeploymentCell deps \<lparr>op_txHash = da_txHash a, op_index = da_index a\<rparr> (sv_world s) = (Inr (Some d), sv_world s')"
    "ccc_bytesFrom C d = Inr bs" "ccc_hashCkb C bs = da_dataHash a" "sv_verified s' = sv_verified s"
    using assms by (auto simp: verify_artifact_def result_simps split: option.splits if_splits)
  then show ?thesis unfolding cell_checked_def by blast
qed

lemma verifyDeployment_outcomes:
  assumes "verifyDeployment C deps dep s = (r, s')"
  shows "case r of
      Inr _ \<Rightarrow> sv_verified s' \<and> (sv_verified s \<and> s' = s
        \<or> cell_checked C deps (dm_account_lock dep) \<and> cell_checked C deps (dm_verifier_p256 dep))
    | Inl e \<Rightarrow> \<not> sv_verified s' \<and> is_api_error e"
proof (cases "sv_verified s")
  case True
  then show ?thesis using assms by (auto simp: verifyDeployment_def)
next
  case False
  let ?body = "bind_io (verify_artifact C deps (dm_account_lock dep)) (\<lambda>_.
            bind_io (verify_artifact C deps (dm_verifier_p256 dep)) (\<lambda>_. set_verified True))"
  obtain b s1 where b: "?body s = (b, s1)" by (cases "?body s")
  have u: "is_api_error unverified" by (simp add: unverified_def is_api_error_def)
  show ?thesis
  proof (cases b)
    case (Inl e)
    then show ?thesis
      using assms False b u by (auto simp: verifyDeployment_def catch_io_def set_verified_def bind_io_def)
  next
    case (Inr x)
    then have "cell_checked C deps (dm_account_lock dep) \<and> cell_checked C deps (dm_verifier_p256 dep)" "sv_verified s1"
      using b verify_artifact_Inr by (auto simp: bind_io_Inr_iff set_verified_def) blast+
    then show ?thesis
      using assms False b Inr by (auto simp: verifyDeployment_def catch_io_def)
  qed
qed

lemma catch_rethrow_Inr: "catch_io m (\<lambda>e. throw_io (f e)) s = (Inr x, s') \<longleftrightarrow> m s = (Inr x, s')"
  by (auto simp: catch_io_def split: prod.splits sum.splits)

lemma createAccount_Inr_iff:
  assumes "zod_ok Z"
  shows "createAccount Z deps dep bs s = (Inr m, s') \<longleftrightarrow> (\<exists>v w'. sd_bootstrap deps bs (sv_world s) = (Inr v, w')
    \<and> s' = s\<lparr>sv_world := w'\<rparr> \<and> parseAccount Z v dep = Inr (Some m))"
proof -
  have "createAccount Z deps dep bs s = (Inr m, s') \<longleftrightarrow>
    bind_io (dep_io (sd_bootstrap deps bs)) (\<lambda>created.
        bind_io (lift_io (parseAccount Z created dep)) (\<lambda>parsed.
        case parsed of
          None \<Rightarrow> throw_io (ApiError BOOTSTRAP_FAILED 500 ''Account creation returned no manifest'')
        | Some m \<Rightarrow> return_io m)) s = (Inr m, s')"
    unfolding createAccount_def catch_io_def
    by (auto split: prod.splits sum.splits if_splits)
  then show ?thesis
    by (auto simp: result_simps split: option.splits)
qed

text \<open>The two ways \<^verbatim>\<open>bootstrapOnce\<close> returns an account for the exported state \<open>bs\<close>.\<close>

definition resumed_account :: "'w service_deps \<Rightarrow> bytes \<Rightarrow> account_manifest \<Rightarrow> bool" where
  "resumed_account deps bs m \<longleftrightarrow> (\<exists>v u u' d x x'. sd_readAccountManifest deps u = (Inr v, u') \<and> v \<noteq> JNull
     \<and> m = account_manifest_of v \<and> sd_getStateCell deps (am_state_out_point m) x = (Inr (Some d), x')
     \<and> am_state_bytes m = int (length bs) \<and> toLowerCase d = hexFromBytes bs)"

definition created_account :: "'w service_deps \<Rightarrow> bytes \<Rightarrow> account_manifest \<Rightarrow> bool" where
  "created_account deps bs m \<longleftrightarrow> (\<exists>u u1 u2 u3 balance v. sd_readAccountManifest deps u = (Inr JNull, u1)
     \<and> sd_funderBalanceShannons deps u1 = (Inr balance, u2) \<and> requiredBalance (length bs) \<le> balance
     \<and> sd_bootstrap deps bs u2 = (Inr v, u3) \<and> m = account_manifest_of v)"

lemma recordedAccount_run:
  "recordedAccount Z deps dep s = (Inr x, s') \<longleftrightarrow> (\<exists>v w'. sd_readAccountManifest deps (sv_world s) = (Inr v, w')
    \<and> s' = s\<lparr>sv_world := w'\<rparr> \<and> parseAccount Z v dep = Inr x)"
  by (auto simp: recordedAccount_def result_simps)

lemma after_export:
  assumes "zod_ok Z" and "recordedAccount Z deps dep s = (Inr existing, s1)"
    and "resumeOrCreate Z deps dep bs existing s1 = (Inr m, s')"
  shows "(resumed_account deps bs m \<or> created_account deps bs m) \<and> account_manifest_ok m
    \<and> am_lock_code_hash m = da_dataHash (dm_account_lock dep) \<and> sv_verified s' = sv_verified s"
proof -
  obtain v w1 where v: "sd_readAccountManifest deps (sv_world s) = (Inr v, w1)" "s1 = s\<lparr>sv_world := w1\<rparr>"
    "parseAccount Z v dep = Inr existing"
    using assms(2) unfolding recordedAccount_run by blast
  have parsed: "account_manifest_ok x \<and> am_lock_code_hash x = da_dataHash (dm_account_lock dep) \<and> y \<noteq> JNull
      \<and> x = account_manifest_of y" if "parseAccount Z y dep = Inr (Some x)" for x y
    using that account_manifest.accepted parseAccount_Some_iff [OF assms(1)] by auto
  show ?thesis
  proof (cases existing)
    case (Some x)
    obtain d w2 where live: "sd_getStateCell deps (am_state_out_point x) w1 = (Inr (Some d), w2)"
      and m: "m = x" "s' = s1\<lparr>sv_world := w2\<rparr>" "am_state_bytes x = int (length bs)" "toLowerCase d = hexFromBytes bs"
      using assms(3) Some v(2) by (auto simp: resumeOrCreate_def result_simps matches_live_def split: option.splits if_splits)
    have "resumed_account deps bs m"
      unfolding resumed_account_def using v live m parsed Some by blast
    moreover have "parseAccount Z v dep = Inr (Some m)" using v(3) Some m(1) by simp
    moreover have "sv_verified s' = sv_verified s" using v(2) m(2) by simp
    ultimately show ?thesis using parsed [of v m] by blast
  next
    case None
    then have JN: "v = JNull" using v(3) parseAccount_None_iff by blast
    obtain balance w2 v2 w3 where b: "sd_funderBalanceShannons deps w1 = (Inr balance, w2)"
      "requiredBalance (length bs) \<le> balance" "sd_bootstrap deps bs w2 = (Inr v2, w3)"
      "s' = s1\<lparr>sv_world := w3\<rparr>" "parseAccount Z v2 dep = Inr (Some m)"
      using assms(3) None v(2) by (auto simp: resumeOrCreate_def result_simps createAccount_Inr_iff [OF assms(1)] split: if_splits)
    have "created_account deps bs m"
      unfolding created_account_def using v(1) JN b parsed by blast
    moreover have "sv_verified s' = sv_verified s" using v(2) b(4) by simp
    ultimately show ?thesis using parsed [OF b(5)] by blast
  qed
qed

text \<open>
  What a successful \<^verbatim>\<open>bootstrapOnce\<close> has established. The two code cells of the deployment have
  been read and hash to the manifest's data hashes (in this run, or in the earlier run that set
  the memo), the state bytes were exported for this request, and the returned account is a
  well-formed manifest of this deployment's AccountLock: either the one already recorded, whose
  live state cell holds exactly the exported bytes, or, when none was recorded and the funder
  can pay for both cells and the reserve, the one the creation returned.
\<close>

lemma bootstrap_once_outcome:
  assumes "zod_ok Z" and "bootstrapOnce C Z deps dep request s = (Inr m, s')"
  shows "sv_verified s'
    \<and> (sv_verified s \<or> cell_checked C deps (dm_account_lock dep) \<and> cell_checked C deps (dm_verifier_p256 dep))
    \<and> account_manifest_ok m \<and> am_lock_code_hash m = da_dataHash (dm_account_lock dep)
    \<and> (\<exists>bs u u'. sd_exportState deps request u = (Inr bs, u')
         \<and> (resumed_account deps bs m \<or> created_account deps bs m))"
proof -
  obtain x s1 bs s2 existing s3 where ver: "verifyDeployment C deps dep s = (Inr x, s1)"
    and ex: "dep_io (sd_exportState deps request) s1 = (Inr bs, s2)"
    and rec: "recordedAccount Z deps dep s2 = (Inr existing, s3)"
    and rest: "resumeOrCreate Z deps dep bs existing s3 = (Inr m, s')"
    using assms(2) unfolding bootstrapOnce_def bind_io_Inr_iff catch_rethrow_Inr by blast
  have "sv_verified s1 \<and> (sv_verified s \<or> cell_checked C deps (dm_account_lock dep) \<and> cell_checked C deps (dm_verifier_p256 dep))"
    using verifyDeployment_outcomes [OF ver] by auto
  moreover have "sv_verified s2 = sv_verified s1" and "\<exists>u u'. sd_exportState deps request u = (Inr bs, u')"
    using ex by (auto simp: dep_io_Inr_iff)
  ultimately show ?thesis
    using after_export [OF assms(1) rec rest] by blast
qed

section \<open>The server, the deployment tool and the browser\<close>

lemma map_io_Inr_iff [result_simps]: "map_io f m w = (Inr y, w') \<longleftrightarrow> (\<exists>x. m w = (Inr x, w') \<and> y = f x)"
  by (auto simp: map_io_def result_simps)

lemma validateDeployment_code:
  assumes "zod_ok Z" and "createDemoService Z dv = Inr dep" and "validateDeployment Z dv = Inr d"
  shows "codeHash (accountLockCode d) = da_dataHash (dm_account_lock dep)"
  using assms(2,3) by (auto simp: createDemoService_def validateDeployment_def split: option.splits)

text \<open>
  C23: an account created through the server is one the browser accepts. With the dependencies
  demo/src/server/index.ts wires up, when the service creates an account from exported state
  bytes, the manifest it returns passes the browser's \<^verbatim>\<open>validateAccount\<close> against the same deployment
  manifest; and the balance the service asked for is the capacity the deployment tool puts into
  the state and the asset cell plus the fee reserve.
\<close>

theorem served_account_validates:
  assumes "ccc_hex C" and "ccc_hashes C" and "zod_ok Z" and "honest_client bdeps"
    and "int (length bs) \<le> max_safe_integer"
    and "createDemoService Z dv = Inr dep" and "validateDeployment Z dv = Inr d"
    and "createAccount Z (demoServiceDeps C signer bdeps exporter) dep bs s = (Inr m, s')"
  shows "(\<exists>a. validateAccount C Z (account_manifest_json m) d = Inr a \<and> va_manifest a = m)
    \<and> (\<exists>stateCapacity assetCapacity. validateOptions \<lparr>bo_stateData = bs, bo_assetCapacityCkb = 200\<rparr>
          = Inr (stateCapacity, assetCapacity)
        \<and> requiredBalance (length bs) = stateCapacity + assetCapacity + BOOTSTRAP_FEE_RESERVE)"
proof -
  let ?opts = "\<lparr>bo_stateData = bs, bo_assetCapacityCkb = INITIAL_ASSET div SHANNONS_PER_CKB\<rparr>"
  have asset: "INITIAL_ASSET div SHANNONS_PER_CKB = 200"
    by (simp add: INITIAL_ASSET_def SHANNONS_PER_CKB_def)
  obtain m' w' where run: "bootstrapAccount C ?opts bdeps (sv_world s) = (Inr m', w')"
    and p: "parseAccount Z (account_manifest_json m') dep = Inr (Some m)"
    using assms(8) unfolding createAccount_Inr_iff [OF assms(3)] by (auto simp: demoServiceDeps_def map_io_Inr_iff)
  have "m = m'" and code: "am_lock_code_hash m = da_dataHash (dm_account_lock dep)"
    using p account_manifest.of_to unfolding parseAccount_Some_iff [OF assms(3)] by auto
  then have "\<exists>a. validateAccount C Z (account_manifest_json m) d = Inr a \<and> va_manifest a = m"
    using bootstrapped_account_ok [OF assms(1-4) _ run, of d] validateDeployment_code [OF assms(3,6,7)] assms(5)
    by simp
  moreover obtain sc ac where o: "validateOptions ?opts = Inr (sc, ac)"
    using bootstrapAccount_Inr [OF run] by blast
  moreover from validateOptions_Inr [OF o] have "requiredBalance (length bs) = sc + ac + BOOTSTRAP_FEE_RESERVE"
    by (simp add: requiredBalance_def accountStateCapacity_def ACCOUNT_LOCK_ARGS_LENGTH_def TYPE_ID_ARGS_LENGTH_def
        asset INITIAL_ASSET_def)
  ultimately show ?thesis unfolding asset by blast
qed

section \<open>Concrete runs\<close>

definition example_request :: bootstrap_request where
  "example_request = \<lparr>br_publicKey = pk_publicKey example_passkey, br_credentialId = pk_credentialId example_passkey\<rparr>"

lemma example_request_parses:
  "parse_as ref_zod BootstrapRequestSchema bootstrap_request_of (bootstrap_request_json example_request) = Some example_request"
  using bootstrap_request.parse_printed [OF ref_zod_ok, of example_request] example_passkey_ok
  by (simp add: example_request_def bootstrap_request_ok_def passkey_record_ok_def)

definition example_flight :: flight where
  "example_flight = snd (serviceBootstrap ref_zod (bootstrap_request_json example_request) idle_flight)"

lemma example_flight_running: "fl_running example_flight 0 = Some example_request"
  by (simp add: example_flight_def serviceBootstrap_def example_request_parses idle_flight_def)

lemma example_flight_reachable: "reachable idle_flight (flight_step ref_zod) example_flight"
  unfolding example_flight_def by (rule reachable.step, rule reachable.start, rule flight_step.call)

theorem single_flight_witness:
  "dom (fl_running example_flight) \<subseteq> {0} \<and> fl_settled example_flight 0 = None
   \<and> serviceBootstrap ref_zod (bootstrap_request_json example_request) example_flight = (Promise 0, example_flight)"
  using single_flight [OF example_flight_reachable example_flight_running example_request_parses]
  by (simp add: dom_def subset_eq)

theorem flight_always_released_witness:
  "fl_settled (settleFlight 0 (Inl ZodError) example_flight) 0 = Some (Inl ZodError)
   \<and> fl_active (settleFlight 0 (Inl ZodError) example_flight) = None
   \<and> flight_step ref_zod example_flight (settleFlight 0 (Inl ZodError) example_flight)"
  using flight_always_released [OF example_flight_reachable example_request_parses] example_flight_running by simp

definition example_service :: "nat service_deps" where
  "example_service = (demoServiceDeps ref_ccc example_signer example_deps (\<lambda>r. return_io [7]))
     \<lparr>sd_getDeploymentCell := (\<lambda>p n. (Inr (Some (hexFromBytes [word_of_nat (n + 1)])), Suc n)),
      sd_funderBalanceShannons := return_io (1000 * SHANNONS_PER_CKB)\<rparr>"

lemma example_created_parses:
  "parseAccount ref_zod (account_manifest_json example_created) example_deployment = Inr (Some example_created)"
proof -
  have "account_manifest_ok example_created"
    using hash32_01 [OF hash32_ref_digest, of 66]
    by (simp add: account_manifest_ok_def example_created_def created_manifest_def out_point_ok_def
        int_ok_def is_safe_integer_def max_safe_integer_def)
  then have "zaccepts (z_format ref_zod) AccountManifestSchema (account_manifest_json example_created)"
    by (rule account_manifest.printed)
  then show ?thesis
    using account_manifest.of_to [of example_created]
    by (simp add: parseAccount_Some_iff [OF ref_zod_ok] account_manifest_json_def example_created_def created_manifest_def
        example_deployment_def example_artifact_def)
qed

lemma example_once:
  "bootstrapOnce ref_ccc ref_zod example_service example_deployment example_request \<lparr>sv_verified = False, sv_world = 0\<rparr>
   = (Inr example_created, \<lparr>sv_verified = True, sv_world = 4\<rparr>)"
proof -
  have verify: "verifyDeployment ref_ccc example_service example_deployment \<lparr>sv_verified = False, sv_world = 0\<rparr>
    = (Inr (), \<lparr>sv_verified = True, sv_world = 2\<rparr>)"
    by (simp add: verifyDeployment_def verify_artifact_def dep_io_def catch_io_def bind_io_def set_verified_def
        example_service_def example_deployment_def example_artifact_def ref_ccc_def)
  have boot: "sd_bootstrap example_service [7] 2 = (Inr (account_manifest_json example_created), 4)"
    using example_bootstrap [of 2]
    by (simp add: example_service_def demoServiceDeps_def map_io_def bind_io_def INITIAL_ASSET_def SHANNONS_PER_CKB_def
        example_options_def)
  have create: "createAccount ref_zod example_service example_deployment [7] \<lparr>sv_verified = True, sv_world = 2\<rparr>
    = (Inr example_created, \<lparr>sv_verified = True, sv_world = 4\<rparr>)"
    unfolding createAccount_Inr_iff [OF ref_zod_ok] using boot example_created_parses by simp
  have recorded: "recordedAccount ref_zod example_service example_deployment \<lparr>sv_verified = True, sv_world = 2\<rparr>
    = (Inr None, \<lparr>sv_verified = True, sv_world = 2\<rparr>)"
    unfolding recordedAccount_run
    by (simp add: example_service_def demoServiceDeps_def example_deps_def resolve_def startsWith_def parseAccount_def)
  have export: "dep_io (sd_exportState example_service r) s = (Inr [7], s)" for r s
    by (simp add: dep_io_def example_service_def demoServiceDeps_def)
  have balance: "dep_io (sd_funderBalanceShannons example_service) s = (Inr (1000 * SHANNONS_PER_CKB), s)" for s
    by (simp add: dep_io_def example_service_def)
  have required: "requiredBalance 1 = 341 * SHANNONS_PER_CKB"
    by (simp add: requiredBalance_def accountStateCapacity_def ACCOUNT_LOCK_ARGS_LENGTH_def TYPE_ID_ARGS_LENGTH_def
        INITIAL_ASSET_def BOOTSTRAP_FEE_RESERVE_def)
  show ?thesis
    unfolding bootstrapOnce_def
    by (simp add: verify catch_io_def export recorded resumeOrCreate_def balance required [simplified] SHANNONS_PER_CKB_def create)
qed

lemma example_create:
  "createAccount ref_zod (demoServiceDeps ref_ccc example_signer example_deps (\<lambda>r. return_io [7])) example_deployment [7]
     \<lparr>sv_verified = True, sv_world = 0\<rparr> = (Inr example_created, \<lparr>sv_verified = True, sv_world = 2\<rparr>)"
  unfolding createAccount_Inr_iff [OF ref_zod_ok]
  using example_bootstrap [of 0] example_created_parses
  by (simp add: demoServiceDeps_def map_io_def bind_io_def INITIAL_ASSET_def SHANNONS_PER_CKB_def example_options_def)

lemma example_demo_service: "createDemoService ref_zod (deployment_manifest_json example_deployment) = Inr example_deployment"
  using deployment_manifest.parse_printed [OF ref_zod_ok, of example_deployment] example_deployment_ok
  by (simp add: createDemoService_def)

theorem served_account_validates_witness:
  "\<exists>a. validateAccount ref_ccc ref_zod (account_manifest_json example_created) example_verified_deployment = Inr a
    \<and> va_manifest a = example_created"
  using served_account_validates [OF ref_ccc_hex ref_ccc_hashes ref_zod_ok example_honest _ example_demo_service
      example_deployment_validates example_create]
  by (simp add: max_safe_integer_def)

end
