(* ===== verification/Http.thy ===== *)
theory Http
  imports ServiceProps
begin

text \<open>
  demo/src/server/http.ts: the JSON API of the demo server.

  A request is the record of what the handler reads of it; its body is the list of the stream's
  \<^verbatim>\<open>data\<close> events, an \<open>Inl\<close> being an \<^verbatim>\<open>error\<close> event. The response is the one the handler ends. Node's
  URL parser, UTF-8 decoding and \<^verbatim>\<open>JSON\<close> are the fields of \<open>http_runtime\<close>. The service is the record
  \<open>demo_service\<close> of the three operations of the interface \<^verbatim>\<open>DemoService\<close>, each giving the JSON value
  it resolves to.
\<close>

section \<open>Data\<close>

record http_runtime =
  ht_pathname :: "string \<Rightarrow> string js"
  ht_toString :: "bytes \<Rightarrow> string"
  ht_jsonParse :: "string \<Rightarrow> js_value option"
  ht_stringify :: "js_value \<Rightarrow> string"

record http_request =
  hq_host :: "string option"
  hq_origin :: "string option"
  hq_url :: "string option"
  hq_method :: string
  hq_contentType :: "string option"
  hq_contentLength :: "string option"
  hq_body :: "(js_error + bytes) list"

record http_response =
  hs_status :: nat
  hs_headers :: "(string \<times> string) list"
  hs_body :: string

record 'w demo_service =
  ds_status :: "('w, js_error, js_value) io"
  ds_readAccount :: "('w, js_error, js_value) io"
  ds_bootstrap :: "bootstrap_request \<Rightarrow> ('w, js_error, js_value) io"

definition REQUIRED_HOST :: string where
  "REQUIRED_HOST = ''127.0.0.1:'' @ dec API_PORT"

definition BODY_LIMIT :: nat where
  "BODY_LIMIT = 16 * 1024"

section \<open>Responses\<close>

definition jsonHeaders :: "bool \<Rightarrow> (string \<times> string) list" where
  "jsonHeaders allowOrigin =
     [(''Content-Type'', ''application/json; charset=utf-8''), (''Vary'', ''Origin''), (''Cache-Control'', ''no-store''),
      (''X-Content-Type-Options'', ''nosniff''),
      (''Content-Security-Policy'', ''default-src '' @ quoted ''none'' @ ''; frame-ancestors '' @ quoted ''none'')]
     @ (if allowOrigin then [(''Access-Control-Allow-Origin'', CLIENT_ORIGIN)] else [])"

definition sendJson :: "http_runtime \<Rightarrow> nat \<Rightarrow> js_value \<Rightarrow> bool \<Rightarrow> http_response" where
  "sendJson R status v allowOrigin =
     \<lparr>hs_status = status, hs_headers = jsonHeaders allowOrigin, hs_body = ht_stringify R v @ [CHR 0x0A]\<rparr>"

definition error_value :: "api_error_code \<Rightarrow> string \<Rightarrow> js_value" where
  "error_value c m = api_error_body_json \<lparr>eb_code = c, eb_message = m\<rparr>"

definition methodNotAllowed :: "http_runtime \<Rightarrow> string \<Rightarrow> http_response" where
  "methodNotAllowed R allowed =
     (let r = sendJson R 405 (error_value INVALID_REQUEST ''Method not allowed'') True in
      r\<lparr>hs_headers := (''Allow'', allowed) # hs_headers r\<rparr>)"

section \<open>Requests\<close>

text \<open>The accumulated body and the remaining events; the limit applies to the sum of the chunks.\<close>

fun readBody :: "bytes \<Rightarrow> (js_error + bytes) list \<Rightarrow> bytes js" where
  "readBody acc [] = Inr acc"
| "readBody acc (Inl e # events) = Inl e"
| "readBody acc (Inr chunk # events) =
     (if length acc + length chunk > BODY_LIMIT
      then Inl (ApiError INVALID_REQUEST 413 ''Request body is too large'')
      else readBody (acc @ chunk) events)"

definition is_space :: "char \<Rightarrow> bool" where
  "is_space c = (let n = of_char c :: nat in 9 \<le> n \<and> n \<le> 13 \<or> n = 32 \<or> n = 160)"

definition trim :: "string \<Rightarrow> string" where
  "trim s = rev (dropWhile is_space (rev (dropWhile is_space s)))"

text \<open>\<^verbatim>\<open>(type ?? "").split(";", 1)[0].trim()\<close>\<close>

definition media_type :: "string option \<Rightarrow> string" where
  "media_type t = trim (takeWhile (\<lambda>c. c \<noteq> CHR '';'') (case t of None \<Rightarrow> [] | Some s \<Rightarrow> s))"

text \<open>
  \<^verbatim>\<open>Number(h ?? 0)\<close> of a \<^verbatim>\<open>Content-Length\<close> header: Node refuses a request whose header is not a string
  of digits, any other string is taken as not a number.
\<close>

definition header_number :: "string option \<Rightarrow> js_number" where
  "header_number h = (case h of
     None \<Rightarrow> JInt 0
   | Some s \<Rightarrow> if list_all is_digit s then JInt (int (of_dec s)) else JNonInt)"

definition too_long :: "string option \<Rightarrow> bool" where
  "too_long h = (case header_number h of JInt i \<Rightarrow> i > int BODY_LIMIT | JNonInt \<Rightarrow> False)"

text \<open>The request body as JSON; the stream's own \<^verbatim>\<open>ApiError\<close> passes through.\<close>

definition readJson :: "http_runtime \<Rightarrow> (js_error + bytes) list \<Rightarrow> js_value js" where
  "readJson R events = (case readBody [] events of
     Inl e \<Rightarrow> Inl (if is_api_error e then e else ApiError INVALID_REQUEST 400 ''Request body must be valid JSON'')
   | Inr bs \<Rightarrow> (case ht_jsonParse R (ht_toString R bs) of
       None \<Rightarrow> Inl (ApiError INVALID_REQUEST 400 ''Request body must be valid JSON'')
     | Some v \<Rightarrow> Inr v))"

definition parse_request :: "zod \<Rightarrow> http_runtime \<Rightarrow> http_request \<Rightarrow> bootstrap_request js" where
  "parse_request Z R request =
     (if media_type (hq_contentType request) \<noteq> ''application/json''
      then Inl (ApiError INVALID_REQUEST 415 ''Content-Type must be application/json'')
      else if too_long (hq_contentLength request)
      then Inl (ApiError INVALID_REQUEST 413 ''Request body is too large'')
      else
        bind_r (readJson R (hq_body request)) (\<lambda>v.
        case parse_as Z BootstrapRequestSchema bootstrap_request_of v of
          None \<Rightarrow> Inl (ApiError INVALID_REQUEST 400 ''Invalid account bootstrap request'')
        | Some r \<Rightarrow> Inr r))"

definition from_demo :: "http_request \<Rightarrow> bool" where
  "from_demo request \<longleftrightarrow> hq_host request = Some REQUIRED_HOST \<and> hq_origin request = Some CLIENT_ORIGIN"

definition handleRequest ::
  "zod \<Rightarrow> http_runtime \<Rightarrow> 'w demo_service \<Rightarrow> http_request \<Rightarrow> ('w, js_error, http_response) io"
where
  "handleRequest Z R service request =
     (if \<not> from_demo request
      then return_io (sendJson R 403 (error_value BAD_ORIGIN ''Request must come from the local demo'') False)
      else
        bind_io (lift_io (ht_pathname R (case hq_url request of None \<Rightarrow> ''/'' | Some u \<Rightarrow> u))) (\<lambda>path.
        if path = ''/api/status'' then
          if hq_method request \<noteq> ''GET'' then return_io (methodNotAllowed R ''GET'')
          else bind_io (ds_status service) (\<lambda>v. return_io (sendJson R 200 v True))
        else if path = ''/api/account'' then
          if hq_method request \<noteq> ''GET'' then return_io (methodNotAllowed R ''GET'')
          else bind_io (ds_readAccount service) (\<lambda>v. return_io (sendJson R 200 v True))
        else if path = ''/api/account/bootstrap'' then
          if hq_method request \<noteq> ''POST'' then return_io (methodNotAllowed R ''POST'')
          else
            bind_io (lift_io (parse_request Z R request)) (\<lambda>r.
            bind_io (ds_bootstrap service r) (\<lambda>v. return_io (sendJson R 200 v True)))
        else return_io (sendJson R 404 (error_value INVALID_REQUEST ''Route not found'') True)))"

text \<open>The listener of \<^verbatim>\<open>createHttpServer\<close>: whatever the handler throws becomes a safe error response.\<close>

definition error_status :: "js_error \<Rightarrow> nat" where
  "error_status e = (case e of ApiError c n m \<Rightarrow> n | _ \<Rightarrow> 500)"

definition serveRequest :: "zod \<Rightarrow> http_runtime \<Rightarrow> 'w demo_service \<Rightarrow> http_request \<Rightarrow> 'w \<Rightarrow> http_response \<times> 'w" where
  "serveRequest Z R service request w = (case handleRequest Z R service request w of
     (Inr response, w') \<Rightarrow> (response, w')
   | (Inl e, w') \<Rightarrow> (sendJson R (error_status e) (api_error_body_json (toSafeErrorBody e)) True, w'))"

text \<open>The service of \<^verbatim>\<open>createDemoService\<close> behind the interface, one call of \<^verbatim>\<open>bootstrap\<close> at a time.\<close>

definition account_value :: "account_manifest option \<Rightarrow> js_value" where
  "account_value a = (case a of None \<Rightarrow> JNull | Some m \<Rightarrow> account_manifest_json m)"

definition demoService :: "ccc \<Rightarrow> zod \<Rightarrow> 'w service_deps \<Rightarrow> deployment_manifest \<Rightarrow> 'w service_state demo_service" where
  "demoService C Z deps deployment =
     \<lparr>ds_status = map_io demo_status_json (serviceStatus C Z deps deployment),
      ds_readAccount = map_io account_value (recordedAccount Z deps deployment),
      ds_bootstrap = (\<lambda>r. map_io account_manifest_json (bootstrapOnce C Z deps deployment r))\<rparr>"

section \<open>Lemmas\<close>

lemma readBody_bound: "readBody acc events = Inr bs \<Longrightarrow> length acc \<le> BODY_LIMIT \<Longrightarrow> length bs \<le> BODY_LIMIT"
  by (induction acc events rule: readBody.induct) (auto split: if_splits)

lemma jsonHeaders_cors: "''Access-Control-Allow-Origin'' \<in> fst ` set (jsonHeaders b) \<longleftrightarrow> b"
  by (cases b) (auto simp: jsonHeaders_def)

lemma sendJson_cors: "''Access-Control-Allow-Origin'' \<in> fst ` set (hs_headers (sendJson R n v b)) \<longleftrightarrow> b"
  by (simp add: sendJson_def jsonHeaders_cors)

lemma serve_foreign:
  "\<not> from_demo rq \<Longrightarrow> serveRequest Z R service rq w =
     (sendJson R 403 (error_value BAD_ORIGIN ''Request must come from the local demo'') False, w)"
  by (simp add: serveRequest_def handleRequest_def)

lemma lift_bind_world: "bind_io (lift_io r) f w = (case r of Inl e \<Rightarrow> (Inl e, w) | Inr x \<Rightarrow> f x w)"
  by (cases r) simp_all

definition route :: "http_runtime \<Rightarrow> http_request \<Rightarrow> string js" where
  "route R rq = ht_pathname R (case hq_url rq of None \<Rightarrow> ''/'' | Some u \<Rightarrow> u)"

text \<open>Which requests reach the service, and with what.\<close>

definition reaches :: "zod \<Rightarrow> http_runtime \<Rightarrow> 'w demo_service \<Rightarrow> http_request \<Rightarrow> ('w, js_error, js_value) io option" where
  "reaches Z R service rq =
     (if \<not> from_demo rq then None
      else if route R rq = Inr ''/api/status'' \<and> hq_method rq = ''GET'' then Some (ds_status service)
      else if route R rq = Inr ''/api/account'' \<and> hq_method rq = ''GET'' then Some (ds_readAccount service)
      else if route R rq = Inr ''/api/account/bootstrap'' \<and> hq_method rq = ''POST''
      then (case parse_request Z R rq of Inl e \<Rightarrow> None | Inr r \<Rightarrow> Some (ds_bootstrap service r))
      else None)"

text \<open>A handled request either never reaches the service, or its response is the service's outcome.\<close>

lemma serve_reached:
  assumes "reaches Z R service rq = Some op"
  shows "serveRequest Z R service rq w = (case op w of
      (Inr v, w') \<Rightarrow> (sendJson R 200 v True, w')
    | (Inl e, w') \<Rightarrow> (sendJson R (error_status e) (api_error_body_json (toSafeErrorBody e)) True, w'))"
proof -
  have "handleRequest Z R service rq = bind_io op (\<lambda>v. return_io (sendJson R 200 v True))"
    using assms
    by (auto simp: reaches_def handleRequest_def route_def lift_io_def split: if_splits sum.splits)
  then show ?thesis
    by (simp add: serveRequest_def bind_io_def split: prod.split sum.split)
qed

definition refusal :: "http_runtime \<Rightarrow> http_request \<Rightarrow> http_response \<Rightarrow> bool" where
  "refusal R rq resp \<longleftrightarrow> 400 \<le> hs_status resp
     \<and> (\<exists>b. hs_body resp = ht_stringify R (api_error_body_json b) @ [CHR 0x0A] \<and> length (eb_message b) \<le> 240)
     \<and> (''Access-Control-Allow-Origin'' \<in> fst ` set (hs_headers resp) \<longrightarrow> from_demo rq)"

lemma refusal_sendJson:
  "400 \<le> n \<Longrightarrow> length (eb_message b) \<le> 240 \<Longrightarrow> (c \<Longrightarrow> from_demo rq) \<Longrightarrow>
   refusal R rq (sendJson R n (api_error_body_json b) c)"
  using sendJson_cors [of R n "api_error_body_json b" c] by (auto simp: refusal_def) (auto simp: sendJson_def)

text \<open>An error the handler itself throws: short and with a client error status.\<close>

definition handler_error :: "js_error \<Rightarrow> bool" where
  "handler_error e \<longleftrightarrow> 400 \<le> error_status e \<and> length (eb_message (toSafeErrorBody e)) \<le> 240"

lemma handler_error_other: "\<not> is_api_error e \<Longrightarrow> handler_error e"
  by (cases e) (simp_all add: handler_error_def error_status_def toSafeErrorBody_def is_api_error_def)

lemma handler_error_api: "400 \<le> n \<Longrightarrow> length m \<le> 240 \<Longrightarrow> handler_error (ApiError c n m)"
  by (simp add: handler_error_def error_status_def toSafeErrorBody_def)

text \<open>Errors of the platform are not instances of the server's own error class.\<close>

definition platform_errors :: "http_runtime \<Rightarrow> http_request \<Rightarrow> bool" where
  "platform_errors R rq \<longleftrightarrow> (\<forall>u e. ht_pathname R u = Inl e \<longrightarrow> \<not> is_api_error e)
     \<and> (\<forall>e. Inl e \<in> set (hq_body rq) \<longrightarrow> \<not> is_api_error e)"

lemma readBody_error:
  "readBody acc events = Inl e \<Longrightarrow> Inl e \<in> set events \<or> e = ApiError INVALID_REQUEST 413 ''Request body is too large''"
  by (induction acc events rule: readBody.induct) (auto split: if_splits)

lemma parse_request_error:
  assumes "platform_errors R rq" and "parse_request Z R rq = Inl e"
  shows "handler_error e"
proof -
  have "handler_error e'" if "readJson R (hq_body rq) = Inl e'" for e'
    using that readBody_error assms(1)
    by (fastforce simp: readJson_def platform_errors_def intro: handler_error_api split: sum.splits option.splits)
  then show ?thesis
    using assms(2)
    by (auto simp: parse_request_def result_simps intro: handler_error_api split: if_splits option.splits)
qed

lemma refusal_error: "handler_error e \<Longrightarrow> from_demo rq \<Longrightarrow>
  refusal R rq (sendJson R (error_status e) (api_error_body_json (toSafeErrorBody e)) True)"
  by (rule refusal_sendJson) (simp_all add: handler_error_def)

lemma refusal_not_allowed: "from_demo rq \<Longrightarrow> refusal R rq (methodNotAllowed R m)"
  by (simp add: refusal_def methodNotAllowed_def sendJson_def error_value_def)
     (rule exI [of _ "\<lparr>eb_code = INVALID_REQUEST, eb_message = ''Method not allowed''\<rparr>"], simp)

lemma serve_unreached:
  assumes "platform_errors R rq" and "reaches Z R service rq = None"
  shows "\<exists>resp. serveRequest Z R service rq w = (resp, w) \<and> refusal R rq resp"
proof (cases "from_demo rq")
  case False
  then show ?thesis
    using refusal_sendJson [of 403 "\<lparr>eb_code = BAD_ORIGIN, eb_message = ''Request must come from the local demo''\<rparr>" False rq R]
    by (simp add: serve_foreign error_value_def)
next
  case True
  have bad: ?thesis if "handleRequest Z R service rq w = (Inl e, w)" and "handler_error e" for e
    using that refusal_error [OF that(2) True] by (simp add: serveRequest_def)
  have sent: ?thesis if "handleRequest Z R service rq w = (Inr resp, w)" and "refusal R rq resp" for resp
    using that by (simp add: serveRequest_def)
  have nf: "refusal R rq (sendJson R 404 (error_value INVALID_REQUEST ''Route not found'') True)"
    unfolding error_value_def by (rule refusal_sendJson) (simp_all add: True)
  show ?thesis
  proof (cases "route R rq")
    case (Inl e)
    with True assms(1) show ?thesis
      by (intro bad [of e]) (auto simp: handleRequest_def route_def platform_errors_def intro: handler_error_other)
  next
    case (Inr path)
    consider "path = ''/api/status''" | "path = ''/api/account''" | "path = ''/api/account/bootstrap''"
      | "path \<notin> {''/api/status'', ''/api/account'', ''/api/account/bootstrap''}" by blast
    then show ?thesis
    proof cases
      case 3
      show ?thesis
      proof (cases "hq_method rq = ''POST''")
        case True
        then obtain e where "parse_request Z R rq = Inl e"
          using assms(2) \<open>from_demo rq\<close> Inr 3 by (auto simp: reaches_def split: sum.splits)
        then show ?thesis
          using True \<open>from_demo rq\<close> Inr 3 parse_request_error [OF assms(1)]
          by (intro bad [of e]) (auto simp: handleRequest_def route_def)
      qed (use \<open>from_demo rq\<close> Inr 3 refusal_not_allowed in \<open>auto simp: handleRequest_def route_def intro!: sent\<close>)
    qed (use \<open>from_demo rq\<close> Inr refusal_not_allowed assms(2) nf in
        \<open>auto simp: handleRequest_def route_def reaches_def intro!: sent split: if_splits\<close>)
  qed
qed

section \<open>Property\<close>

text \<open>
  C25: the HTTP layer shields the service. Every request gets a response. A request reaches the
  service only with the demo's \<^verbatim>\<open>Host\<close> and \<^verbatim>\<open>Origin\<close>, on one of the three routes with its method, and
  for a creation only with a JSON body of at most 16 KiB that parses to a well-formed request;
  then the response is exactly the service's value, or its failure as a safe error body. Every
  other request leaves the service untouched and is answered with an error status and a body of
  the error schema, which names the allowed origin only to the demo itself.
\<close>

theorem http_shields_service:
  assumes "zod_ok Z" and "platform_errors R rq"
  shows "(case reaches Z R service rq of
      None \<Rightarrow> (\<exists>resp. serveRequest Z R service rq w = (resp, w) \<and> refusal R rq resp)
    | Some op \<Rightarrow> from_demo rq
        \<and> serveRequest Z R service rq w = (case op w of
            (Inr v, w') \<Rightarrow> (sendJson R 200 v True, w')
          | (Inl e, w') \<Rightarrow> (sendJson R (error_status e) (api_error_body_json (toSafeErrorBody e)) True, w'))
        \<and> (op = ds_status service \<or> op = ds_readAccount service
           \<or> (\<exists>r bs v. op = ds_bootstrap service r \<and> bootstrap_request_ok r \<and> readBody [] (hq_body rq) = Inr bs
                \<and> length bs \<le> BODY_LIMIT \<and> ht_jsonParse R (ht_toString R bs) = Some v \<and> r = bootstrap_request_of v)))"
proof (cases "reaches Z R service rq")
  case None
  then show ?thesis using serve_unreached [OF assms(2) None] by simp
next
  case (Some op)
  have posted: "\<exists>bs v. bootstrap_request_ok r \<and> readBody [] (hq_body rq) = Inr bs \<and> length bs \<le> BODY_LIMIT
      \<and> ht_jsonParse R (ht_toString R bs) = Some v \<and> r = bootstrap_request_of v"
    if p: "parse_request Z R rq = Inr r" for r
  proof -
    obtain bs v where b: "readBody [] (hq_body rq) = Inr bs" "ht_jsonParse R (ht_toString R bs) = Some v"
      and v: "parse_as Z BootstrapRequestSchema bootstrap_request_of v = Some r"
      using p by (auto simp: parse_request_def readJson_def result_simps split: sum.splits option.splits if_splits)
    with readBody_bound [OF b(1)] bootstrap_request.parse_as_ok [OF assms(1) v] show ?thesis
      using bootstrap_request.parse_as_Some_iff [OF assms(1)] by auto
  qed
  have "from_demo rq" and "op = ds_status service \<or> op = ds_readAccount service
      \<or> (\<exists>r. op = ds_bootstrap service r \<and> parse_request Z R rq = Inr r)"
    using Some by (auto simp: reaches_def split: if_splits sum.splits)
  then show ?thesis
    unfolding Some using serve_reached [OF Some, of w] posted by (simp del: split_paired_Ex) blast
qed

definition example_runtime_http :: http_runtime where
  "example_runtime_http = \<lparr>ht_pathname = Inr, ht_toString = (\<lambda>b. []),
     ht_jsonParse = (\<lambda>s. Some (bootstrap_request_json example_request)), ht_stringify = js_text\<rparr>"

definition example_post :: http_request where
  "example_post = \<lparr>hq_host = Some REQUIRED_HOST, hq_origin = Some CLIENT_ORIGIN, hq_url = Some ''/api/account/bootstrap'',
     hq_method = ''POST'', hq_contentType = Some ''application/json; charset=utf-8'', hq_contentLength = Some ''2'',
     hq_body = [Inr [0x7b, 0x7d]]\<rparr>"

definition example_api :: "nat demo_service" where
  "example_api = \<lparr>ds_status = return_io JNull, ds_readAccount = return_io JNull,
     ds_bootstrap = (\<lambda>r n. (Inr JNull, Suc n))\<rparr>"

lemma example_parse_request: "parse_request ref_zod example_runtime_http example_post = Inr example_request"
  using example_request_parses
  by (simp add: parse_request_def example_post_def media_type_def trim_def is_space_def too_long_def header_number_def
      is_digit_def of_dec_def digit_value_def BODY_LIMIT_def readJson_def example_runtime_http_def)

theorem http_shields_service_witness:
  "serveRequest ref_zod example_runtime_http example_api example_post 0 = (sendJson example_runtime_http 200 JNull True, 1)
   \<and> (\<exists>resp. serveRequest ref_zod example_runtime_http example_api (example_post\<lparr>hq_origin := Some ''http://evil''\<rparr>) 0 = (resp, 0)
        \<and> refusal example_runtime_http (example_post\<lparr>hq_origin := Some ''http://evil''\<rparr>) resp)"
proof
  have "platform_errors example_runtime_http example_post"
    and foreign: "platform_errors example_runtime_http (example_post\<lparr>hq_origin := Some ''http://evil''\<rparr>)"
    by (simp_all add: platform_errors_def example_runtime_http_def example_post_def)
  moreover have "reaches ref_zod example_runtime_http example_api example_post = Some (ds_bootstrap example_api example_request)"
    using example_parse_request
    by (simp add: reaches_def from_demo_def route_def) (simp add: example_post_def example_runtime_http_def)
  ultimately show "serveRequest ref_zod example_runtime_http example_api example_post 0 = (sendJson example_runtime_http 200 JNull True, 1)"
    using http_shields_service [OF ref_zod_ok, of example_runtime_http example_post example_api 0]
    by (simp add: example_api_def)
  have "reaches ref_zod example_runtime_http example_api (example_post\<lparr>hq_origin := Some ''http://evil''\<rparr>) = None"
    by (simp add: reaches_def from_demo_def CLIENT_ORIGIN_def)
  then show "\<exists>resp. serveRequest ref_zod example_runtime_http example_api (example_post\<lparr>hq_origin := Some ''http://evil''\<rparr>) 0 = (resp, 0)
        \<and> refusal example_runtime_http (example_post\<lparr>hq_origin := Some ''http://evil''\<rparr>) resp"
    using http_shields_service [OF ref_zod_ok foreign, of example_api 0] by simp
qed

end
