(* ===== verification/Api.thy ===== *)
theory Api
  imports Http
begin

text \<open>
  demo/src/client/api.ts and storage.ts: the browser's side of the JSON API, and the passkey record
  in the browser's storage.

  \<^verbatim>\<open>fetch\<close> is a function on an arbitrary environment; \<open>local_fetch\<close> is the one the demo runs with: the
  development server of demo/vite.config.ts forwards \<^verbatim>\<open>/api\<close> to the API server with that server's
  \<^verbatim>\<open>Host\<close> and the demo's \<^verbatim>\<open>Origin\<close>. What the response's \<^verbatim>\<open>json()\<close> gives is part of the response, \<open>None\<close>
  when it rejects.
\<close>

section \<open>Requests\<close>

definition JSON_CONTENT_TYPE :: string where
  "JSON_CONTENT_TYPE = ''application/json; charset=utf-8''"

record fetch_request =
  fq_path :: string
  fq_method :: string
  fq_headers :: "(string \<times> string) list"
  fq_body :: "string option"

record fetch_response =
  fr_status :: nat
  fr_contentType :: "string option"
  fr_json :: "js_value option"

definition invalidResponse :: js_error where
  "invalidResponse = DemoApiError INVALID_RESPONSE ''Local API returned an invalid response'' None"

definition fetch_options :: "string \<Rightarrow> string \<Rightarrow> string option \<Rightarrow> fetch_request" where
  "fetch_options path method body =
     \<lparr>fq_path = path, fq_method = method,
      fq_headers = (case body of
        None \<Rightarrow> [(''Accept'', ''application/json'')]
      | Some _ \<Rightarrow> [(''Accept'', ''application/json''), (''Content-Type'', ''application/json'')]),
      fq_body = body\<rparr>"

definition response_ok :: "fetch_response \<Rightarrow> bool" where
  "response_ok r \<longleftrightarrow> 200 \<le> fr_status r \<and> fr_status r \<le> 299"

definition read_response :: "zod \<Rightarrow> schema \<Rightarrow> (js_value \<Rightarrow> 'a) \<Rightarrow> fetch_response \<Rightarrow> 'a js" where
  "read_response Z sch f response =
     (if fr_contentType response \<noteq> Some JSON_CONTENT_TYPE then Inl invalidResponse
      else case fr_json response of
        None \<Rightarrow> Inl invalidResponse
      | Some v \<Rightarrow>
          if \<not> response_ok response then
            (case parse_as Z ApiErrorBodySchema api_error_body_of v of
               None \<Rightarrow> Inl invalidResponse
             | Some b \<Rightarrow> Inl (DemoApiError (Server (eb_code b)) (eb_message b) (Some (fr_status response))))
          else
            (case parse_as Z sch f v of None \<Rightarrow> Inl invalidResponse | Some x \<Rightarrow> Inr x))"

definition requestJson ::
  "zod \<Rightarrow> (fetch_request \<Rightarrow> ('w, js_error, fetch_response) io) \<Rightarrow> string \<Rightarrow> string \<Rightarrow> string option \<Rightarrow>
   schema \<Rightarrow> (js_value \<Rightarrow> 'a) \<Rightarrow> ('w, js_error, 'a) io"
where
  "requestJson Z fetcher path method body sch f =
     bind_io (catch_io (fetcher (fetch_options path method body))
       (\<lambda>_. throw_io (DemoApiError API_UNAVAILABLE ''Local API is unavailable'' None))) (\<lambda>response.
     lift_io (read_response Z sch f response))"

definition nullable_account :: "js_value \<Rightarrow> account_manifest option" where
  "nullable_account v = (if v = JNull then None else Some (account_manifest_of v))"

definition apiStatus :: "zod \<Rightarrow> (fetch_request \<Rightarrow> ('w, js_error, fetch_response) io) \<Rightarrow> ('w, js_error, demo_status) io" where
  "apiStatus Z fetcher = requestJson Z fetcher ''/api/status'' ''GET'' None DemoStatusSchema demo_status_of"

definition apiAccount ::
  "zod \<Rightarrow> (fetch_request \<Rightarrow> ('w, js_error, fetch_response) io) \<Rightarrow> ('w, js_error, account_manifest option) io"
where
  "apiAccount Z fetcher =
     requestJson Z fetcher ''/api/account'' ''GET'' None (ZNullable AccountManifestSchema) nullable_account"

definition apiBootstrap ::
  "zod \<Rightarrow> (js_value \<Rightarrow> string) \<Rightarrow> (fetch_request \<Rightarrow> ('w, js_error, fetch_response) io) \<Rightarrow> js_value \<Rightarrow>
   ('w, js_error, account_manifest) io"
where
  "apiBootstrap Z stringify fetcher requestValue =
     (case parse_as Z BootstrapRequestSchema bootstrap_request_of requestValue of
        None \<Rightarrow> throw_io (DemoApiError (Server INVALID_REQUEST) ''Invalid account bootstrap request'' None)
      | Some r \<Rightarrow>
          requestJson Z fetcher ''/api/account/bootstrap'' ''POST'' (Some (stringify (bootstrap_request_json r)))
            AccountManifestSchema account_manifest_of)"

section \<open>The development server's proxy\<close>

definition proxied :: "fetch_request \<Rightarrow> http_request" where
  "proxied q = \<lparr>hq_host = Some REQUIRED_HOST, hq_origin = Some CLIENT_ORIGIN, hq_url = Some (fq_path q),
     hq_method = fq_method q, hq_contentType = map_of (fq_headers q) ''Content-Type'',
     hq_contentLength = map_option (\<lambda>s. dec (length s)) (fq_body q),
     hq_body = (case fq_body q of None \<Rightarrow> [] | Some s \<Rightarrow> [Inr (ascii s)])\<rparr>"

definition local_fetch ::
  "zod \<Rightarrow> http_runtime \<Rightarrow> 'w demo_service \<Rightarrow> fetch_request \<Rightarrow> ('w, js_error, fetch_response) io"
where
  "local_fetch Z R service q w = (case serveRequest Z R service (proxied q) w of
     (resp, w') \<Rightarrow> (Inr \<lparr>fr_status = hs_status resp, fr_contentType = map_of (hs_headers resp) ''Content-Type'',
        fr_json = ht_jsonParse R (hs_body resp)\<rparr>, w'))"

section \<open>Storage\<close>

text \<open>The browser's \<^verbatim>\<open>Storage\<close> is a map from keys to strings.\<close>

definition PASSKEY_STORAGE_KEY :: string where
  "PASSKEY_STORAGE_KEY = ''ckb-passkey-demo.passkey.v1''"

definition loadPasskeyRecord ::
  "zod \<Rightarrow> (string \<Rightarrow> js_value option) \<Rightarrow> (string \<rightharpoonup> string) \<Rightarrow> passkey_record option \<times> (string \<rightharpoonup> string)"
where
  "loadPasskeyRecord Z jsonParse storage = (case storage PASSKEY_STORAGE_KEY of
     None \<Rightarrow> (None, storage)
   | Some serialized \<Rightarrow>
       (case Option.bind (jsonParse serialized) (parse_as Z PasskeyRecordSchema passkey_record_of) of
          None \<Rightarrow> (None, storage(PASSKEY_STORAGE_KEY := None))
        | Some p \<Rightarrow> (Some p, storage)))"

definition savePasskeyRecord ::
  "zod \<Rightarrow> (js_value \<Rightarrow> string) \<Rightarrow> js_value \<Rightarrow> (string \<rightharpoonup> string) \<Rightarrow> (string \<rightharpoonup> string) js"
where
  "savePasskeyRecord Z stringify recordValue storage =
     bind_r (parse_or_throw Z PasskeyRecordSchema passkey_record_of recordValue) (\<lambda>p.
     Inr (storage(PASSKEY_STORAGE_KEY \<mapsto> stringify (passkey_record_json p))))"

section \<open>Lemmas\<close>

definition json_ok :: "http_runtime \<Rightarrow> js_value \<Rightarrow> bool" where
  "json_ok R v \<longleftrightarrow> ht_jsonParse R (ht_stringify R v @ [CHR 0x0A]) = Some v"

lemma content_type_sent: "map_of (hs_headers (sendJson R n v b)) ''Content-Type'' = Some JSON_CONTENT_TYPE"
  by (simp add: sendJson_def jsonHeaders_def JSON_CONTENT_TYPE_def)

text \<open>What the client makes of a request that reaches the service.\<close>

lemma requestJson_reached:
  assumes "reaches Z R service (proxied (fetch_options path method body)) = Some op" and "op w = (r, w')"
    and "json_ok R (case r of Inr v \<Rightarrow> v | Inl e \<Rightarrow> api_error_body_json (toSafeErrorBody e))"
  shows "requestJson Z (local_fetch Z R service) path method body sch f w = (case r of
      Inr v \<Rightarrow> ((case parse_as Z sch f v of None \<Rightarrow> Inl invalidResponse | Some x \<Rightarrow> Inr x), w')
    | Inl e \<Rightarrow> (read_response Z sch f \<lparr>fr_status = error_status e, fr_contentType = Some JSON_CONTENT_TYPE,
        fr_json = Some (api_error_body_json (toSafeErrorBody e))\<rparr>, w'))"
proof (cases r)
  case (Inl e)
  then have "serveRequest Z R service (proxied (fetch_options path method body)) w =
      (sendJson R (error_status e) (api_error_body_json (toSafeErrorBody e)) True, w')"
    using serve_reached [OF assms(1), of w] assms(2) by simp
  then show ?thesis
    using Inl assms(3) content_type_sent
    by (simp add: requestJson_def local_fetch_def catch_io_def bind_io_def json_ok_def sendJson_def)
next
  case (Inr v)
  then have "serveRequest Z R service (proxied (fetch_options path method body)) w = (sendJson R 200 v True, w')"
    using serve_reached [OF assms(1), of w] assms(2) by simp
  then show ?thesis
    using Inr assms(3) content_type_sent [of R 200 v True]
    by (simp add: requestJson_def local_fetch_def catch_io_def bind_io_def json_ok_def sendJson_def read_response_def
        response_ok_def)
qed

lemma read_error:
  assumes "zod_ok Z" and "handler_error e"
  shows "read_response Z sch f \<lparr>fr_status = error_status e, fr_contentType = Some JSON_CONTENT_TYPE,
      fr_json = Some (api_error_body_json (toSafeErrorBody e))\<rparr> =
    Inl (DemoApiError (Server (eb_code (toSafeErrorBody e))) (eb_message (toSafeErrorBody e)) (Some (error_status e)))"
  using api_error_body.parse_printed [OF assms(1), of "toSafeErrorBody e"] assms(2)
  by (simp add: read_response_def response_ok_def handler_error_def)

lemma reaches_get:
  assumes "ht_pathname R p = Inr p"
  shows "p = ''/api/status'' \<Longrightarrow> reaches Z R service (proxied (fetch_options p ''GET'' None)) = Some (ds_status service)"
    and "p = ''/api/account'' \<Longrightarrow> reaches Z R service (proxied (fetch_options p ''GET'' None)) = Some (ds_readAccount service)"
  using assms by (simp_all add: reaches_def from_demo_def proxied_def fetch_options_def route_def)

lemma reaches_post:
  assumes "zod_ok Z" and "ht_pathname R ''/api/account/bootstrap'' = Inr ''/api/account/bootstrap''" and "bootstrap_request_ok r"
    and "ht_jsonParse R (ht_toString R (ascii text)) = Some (bootstrap_request_json r)" and "length text \<le> BODY_LIMIT"
  shows "reaches Z R service (proxied (fetch_options ''/api/account/bootstrap'' ''POST'' (Some text))) = Some (ds_bootstrap service r)"
proof -
  have "parse_request Z R (proxied (fetch_options ''/api/account/bootstrap'' ''POST'' (Some text))) = Inr r"
    using assms(3-5) bootstrap_request.parse_printed [OF assms(1), of r]
    by (simp add: parse_request_def proxied_def fetch_options_def media_type_def trim_def is_space_def too_long_def
        header_number_def dec_digits readJson_def ascii_def)
  then show ?thesis
    using assms(2) by (simp add: reaches_def from_demo_def route_def) (simp add: proxied_def fetch_options_def)
qed

lemma nullable_parse:
  assumes "zod_ok Z" and "\<And>m. a = Some m \<Longrightarrow> account_manifest_ok m"
  shows "parse_as Z (ZNullable AccountManifestSchema) nullable_account (account_value a) = Some a"
proof (cases a)
  case None
  have "z_safeParse Z (ZNullable AccountManifestSchema) JNull = Some JNull"
    by (simp add: z_safeParse_Some_iff [OF assms(1)])
  with None show ?thesis by (simp add: parse_as_def account_value_def nullable_account_def)
next
  case (Some m)
  let ?v = "account_manifest_json m"
  have acc: "zaccepts (z_format Z) AccountManifestSchema ?v"
    using assms(2) [OF Some] by (rule account_manifest.printed)
  have "?v \<noteq> JNull" by (simp add: account_manifest_json_def)
  with acc have "z_safeParse Z (ZNullable AccountManifestSchema) ?v = Some (zdata (z_format Z) AccountManifestSchema ?v)"
    by (simp add: z_safeParse_Some_iff [OF assms(1)])
  moreover have "zdata (z_format Z) AccountManifestSchema ?v = ?v"
    using account_manifest.canonical [OF acc] account_manifest.of_to [of m] by simp
  ultimately show ?thesis
    using Some \<open>?v \<noteq> JNull\<close> account_manifest.of_to [of m]
    by (simp add: parse_as_def account_value_def nullable_account_def)
qed

section \<open>Property\<close>


definition example_json :: http_runtime where
  "example_json = \<lparr>ht_pathname = Inr, ht_toString = (\<lambda>b. ''q''),
     ht_jsonParse = (\<lambda>s. Some (if s = ''q'' then bootstrap_request_json example_request else account_manifest_json example_created)),
     ht_stringify = (\<lambda>v. if v = bootstrap_request_json example_request then ''q'' else ''m'')\<rparr>"


end
