(* ===== verification/Passkey.thy ===== *)
theory Passkey
  imports Api
begin

text \<open>
  demo/src/client/passkey.ts: registering a passkey and requesting an assertion. The browser's
  globals are the record \<open>browser\<close>, WebAuthn and WebCrypto are the records \<open>credentials\<close> and
  \<open>crypto\<close> of operations on an arbitrary environment. A value that should be an \<^verbatim>\<open>ArrayBuffer\<close> is
  \<open>Some\<close> of its bytes when it is one; a missing response object is \<open>None\<close>. Copying into a fresh
  buffer (\<^verbatim>\<open>ownedBuffer\<close>) is the identity on values.
\<close>

section \<open>The platform\<close>

record browser =
  bw_isSecureContext :: bool
  bw_PublicKeyCredential :: bool
  bw_AuthenticatorAttestationResponse :: bool
  bw_getPublicKey :: bool

record 'r credential =
  cr_type :: string
  cr_id :: string
  cr_rawId :: "bytes option"
  cr_response :: "'r option"

text \<open>\<^verbatim>\<open>getPublicKey\<close> is \<open>None\<close> when it is no function; a call may throw or return \<^verbatim>\<open>null\<close>.\<close>

record attestation_response =
  ar_getPublicKey :: "(bytes option js) option"

record assertion_response =
  ar_authenticatorData :: "bytes option"
  ar_clientDataJSON :: "bytes option"
  ar_signature :: "bytes option"

record creation_options =
  co_challenge :: bytes
  co_rpId :: string
  co_rpName :: string
  co_userId :: bytes
  co_userName :: string
  co_userDisplayName :: string
  co_pubKeyCredParams :: "(string \<times> int) list"
  co_residentKey :: string
  co_userVerification :: string
  co_attestation :: string

record request_options =
  ro_challenge :: bytes
  ro_rpId :: string
  ro_allowCredentials :: "(string \<times> bytes) list"
  ro_userVerification :: string

record 'w credentials =
  cs_create :: "creation_options \<Rightarrow> ('w, js_error, attestation_response credential option) io"
  cs_get :: "request_options \<Rightarrow> ('w, js_error, assertion_response credential option) io"

record ('w, 'k) crypto =
  cy_getRandomValues :: "nat \<Rightarrow> ('w, js_error, bytes) io"
  cy_importSpki :: "bytes \<Rightarrow> ('w, js_error, 'k) io"
  cy_exportRaw :: "'k \<Rightarrow> ('w, js_error, bytes) io"
  cy_sha256 :: "bytes \<Rightarrow> ('w, js_error, bytes) io"

section \<open>Operations\<close>

definition ES256 :: int where "ES256 = - 7"
definition CHALLENGE_BYTES :: nat where "CHALLENGE_BYTES = 32"
definition USER_HANDLE_BYTES :: nat where "USER_HANDLE_BYTES = 32"
definition PUBLIC_KEY_BYTES :: nat where "PUBLIC_KEY_BYTES = 65"

definition passkeyCapabilityProblem :: "browser \<Rightarrow> string option" where
  "passkeyCapabilityProblem B =
     (if \<not> bw_isSecureContext B
      then Some ''Passkeys need a secure localhost context and Chromium with WebAuthn support.''
      else if \<not> bw_PublicKeyCredential B
      then Some ''This browser does not provide the PublicKeyCredential API required by the demo.''
      else if \<not> bw_AuthenticatorAttestationResponse B \<or> \<not> bw_getPublicKey B
      then Some ''Chromium cannot export the passkey public key required by this AccountLock demo.''
      else None)"

definition requireWebAuthn :: "browser \<Rightarrow> unit js" where
  "requireWebAuthn B =
     (if \<not> bw_isSecureContext B then Inl (PasskeyProtocolError ''Passkeys require a secure localhost context'')
      else if \<not> bw_PublicKeyCredential B then Inl (PasskeyProtocolError ''PublicKeyCredential is unavailable'')
      else Inr ())"

definition randomBytes :: "('w, 'k) crypto \<Rightarrow> nat \<Rightarrow> ('w, js_error, bytes) io" where
  "randomBytes cryptoProvider n = cy_getRandomValues cryptoProvider n"

definition bytesFromBuffer :: "bytes option \<Rightarrow> string \<Rightarrow> bytes js" where
  "bytesFromBuffer value label = (case value of
     None \<Rightarrow> Inl (PasskeyProtocolError (label @ '' is missing''))
   | Some bs \<Rightarrow> Inr bs)"

definition isCancellation :: "js_error \<Rightarrow> bool" where
  "isCancellation e = (case e of DOMException name m \<Rightarrow> name = ''NotAllowedError'' | _ \<Rightarrow> False)"

definition rawPublicKeyFromSpki :: "('w, 'k) crypto \<Rightarrow> bytes \<Rightarrow> ('w, js_error, bytes) io" where
  "rawPublicKeyFromSpki cryptoProvider spki =
     bind_io (catch_io (cy_importSpki cryptoProvider spki)
       (\<lambda>e. throw_io (PasskeyProtocolError ''Registration public key is not ES256/P-256''))) (\<lambda>imported.
     bind_io (cy_exportRaw cryptoProvider imported) (\<lambda>raw.
     if length raw \<noteq> PUBLIC_KEY_BYTES \<or> idx raw 0 \<noteq> Some 4
     then throw_io (PasskeyProtocolError ''Registration public key is not uncompressed P-256'')
     else return_io raw))"

text \<open>\<^verbatim>\<open>Promise.all\<close> starts both digests and rejects with the first failure.\<close>

definition derivePasskeyAux :: "('w, 'k) crypto \<Rightarrow> ('w, js_error, bytes) io" where
  "derivePasskeyAux cryptoProvider = (\<lambda>w0.
     case cy_sha256 cryptoProvider (ascii RP_ID) w0 of (r1, w1) \<Rightarrow>
     case cy_sha256 cryptoProvider (ascii CLIENT_ORIGIN) w1 of (r2, w2) \<Rightarrow>
       (bind_r r1 (\<lambda>rpIdHash. bind_r r2 (\<lambda>originHash. bytesConcat [[1], rpIdHash, originHash])), w2))"

text \<open>The two \<^verbatim>\<open>catch\<close> blocks, which differ in the last message.\<close>

definition passkey_failure :: "string \<Rightarrow> js_error \<Rightarrow> js_error" where
  "passkey_failure malformed e =
     (if isCancellation e then PasskeyCancelledError
      else case e of PasskeyProtocolError m \<Rightarrow> e | _ \<Rightarrow> PasskeyProtocolError malformed)"

definition creation_request :: "bytes \<Rightarrow> bytes \<Rightarrow> creation_options" where
  "creation_request challenge userHandle =
     \<lparr>co_challenge = challenge, co_rpId = RP_ID, co_rpName = ''CKB Passkey Demo'', co_userId = userHandle,
      co_userName = ''local-passkey-user'', co_userDisplayName = ''Local passkey user'',
      co_pubKeyCredParams = [(''public-key'', ES256)], co_residentKey = ''preferred'',
      co_userVerification = ''required'', co_attestation = ''none''\<rparr>"

text \<open>From the created credential to its ID and exported public key.\<close>

definition read_registration :: "attestation_response credential option \<Rightarrow> (string \<times> bytes) js" where
  "read_registration created = (case created of
     None \<Rightarrow> Inl (PasskeyProtocolError ''Registration did not return a public-key credential'')
   | Some credential \<Rightarrow>
       if cr_type credential \<noteq> ''public-key''
       then Inl (PasskeyProtocolError ''Registration did not return a public-key credential'')
       else
         bind_r (bytesFromBuffer (cr_rawId credential) ''Credential ID'') (\<lambda>rawId.
         let credentialId = base64urlEncode rawId in
         if cr_id credential \<noteq> credentialId
         then Inl (PasskeyProtocolError ''Registration credential ID is inconsistent'')
         else
           (case Option.bind (cr_response credential) ar_getPublicKey of
              None \<Rightarrow> Inl (PasskeyProtocolError ''Authenticator cannot export the registration public key'')
            | Some call \<Rightarrow>
                bind_r call (\<lambda>key. case key of
                  None \<Rightarrow> Inl (PasskeyProtocolError ''Authenticator returned no registration public key'')
                | Some spki \<Rightarrow> Inr (credentialId, spki)))))"

definition registerPasskey ::
  "ccc \<Rightarrow> zod \<Rightarrow> browser \<Rightarrow> ('w, js_error, string) io \<Rightarrow> 'w credentials \<Rightarrow> ('w, 'k) crypto \<Rightarrow> ('w, js_error, passkey_record) io"
where
  "registerPasskey C Z B now credentials cryptoProvider =
     bind_io (lift_io (requireWebAuthn B)) (\<lambda>_.
     catch_io
       (bind_io (randomBytes cryptoProvider CHALLENGE_BYTES) (\<lambda>challenge.
        bind_io (randomBytes cryptoProvider USER_HANDLE_BYTES) (\<lambda>userHandle.
        bind_io (cs_create credentials (creation_request challenge userHandle)) (\<lambda>created.
        bind_io (lift_io (read_registration created)) (\<lambda>(credentialId, spki).
        bind_io (rawPublicKeyFromSpki cryptoProvider spki) (\<lambda>publicKey.
        bind_io (derivePasskeyAux cryptoProvider) (\<lambda>_.
        bind_io (lift_io (ckbHash C publicKey)) (\<lambda>keyId.
        bind_io now (\<lambda>createdAt.
        lift_io (parse_or_throw Z PasskeyRecordSchema passkey_record_of (passkey_record_json
          \<lparr>pk_credentialId = credentialId, pk_publicKey = hexFromBytes publicKey, pk_keyId = hexFromBytes keyId,
           pk_rpId = RP_ID, pk_origin = CLIENT_ORIGIN, pk_createdAt = createdAt\<rparr>)))))))))))
       (\<lambda>e. throw_io (passkey_failure ''Malformed passkey registration response'' e)))"

definition assertion_request :: "bytes \<Rightarrow> bytes \<Rightarrow> request_options" where
  "assertion_request challenge allowed =
     \<lparr>ro_challenge = challenge, ro_rpId = RP_ID, ro_allowCredentials = [(''public-key'', allowed)],
      ro_userVerification = ''required''\<rparr>"

definition read_assertion :: "passkey_record \<Rightarrow> assertion_response credential option \<Rightarrow> assertion_material js" where
  "read_assertion record' assertion = (case assertion of
     None \<Rightarrow> Inl (PasskeyProtocolError ''Assertion did not return a public-key credential'')
   | Some credential \<Rightarrow>
       if cr_type credential \<noteq> ''public-key''
       then Inl (PasskeyProtocolError ''Assertion did not return a public-key credential'')
       else
         bind_r (bytesFromBuffer (cr_rawId credential) ''Credential ID'') (\<lambda>rawId.
         let credentialId = base64urlEncode rawId in
         if credentialId \<noteq> pk_credentialId record' \<or> cr_id credential \<noteq> credentialId
         then Inl (PasskeyProtocolError ''Assertion used an unexpected credential'')
         else
           bind_r (bytesFromBuffer (Option.bind (cr_response credential) ar_authenticatorData) ''Authenticator data'') (\<lambda>authenticatorData.
           bind_r (bytesFromBuffer (Option.bind (cr_response credential) ar_clientDataJSON) ''Client data JSON'') (\<lambda>clientDataJson.
           bind_r (bytesFromBuffer (Option.bind (cr_response credential) ar_signature) ''Assertion signature'') (\<lambda>sig.
           if length authenticatorData < 37 \<or> length clientDataJson = 0 \<or> length sig = 0
           then Inl (PasskeyProtocolError ''Assertion response fields are malformed'')
           else Inr \<lparr>as_credentialId = credentialId, as_authenticatorData = authenticatorData,
                     as_clientDataJson = clientDataJson, as_signature = sig\<rparr>)))))"

definition requestAssertion ::
  "zod \<Rightarrow> browser \<Rightarrow> bytes \<Rightarrow> js_value \<Rightarrow> 'w credentials \<Rightarrow> ('w, js_error, assertion_material) io"
where
  "requestAssertion Z B challenge recordValue credentials =
     bind_io (lift_io (requireWebAuthn B)) (\<lambda>_.
     if length challenge \<noteq> CHALLENGE_BYTES
     then throw_io (PasskeyProtocolError ''Authorization challenge must be exactly 32-byte'')
     else
       bind_io (lift_io (parse_or_throw Z PasskeyRecordSchema passkey_record_of recordValue)) (\<lambda>record'.
       bind_io (lift_io (base64urlDecode (pk_credentialId record'))) (\<lambda>allowed.
       catch_io
         (bind_io (cs_get credentials (assertion_request challenge allowed)) (\<lambda>assertion.
          lift_io (read_assertion record' assertion)))
         (\<lambda>e. throw_io (passkey_failure ''Malformed passkey assertion response'' e)))))"

section \<open>Lemmas\<close>

definition passkey_error :: "js_error \<Rightarrow> bool" where
  "passkey_error e \<longleftrightarrow> e = PasskeyCancelledError \<or> (\<exists>m. e = PasskeyProtocolError m)"

lemma passkey_error_protocol [simp]: "passkey_error (PasskeyProtocolError m)"
  by (simp add: passkey_error_def)

lemma passkey_failure_error: "passkey_error (passkey_failure m e)"
  by (cases e) (auto simp: passkey_failure_def passkey_error_def isCancellation_def)

lemma requireWebAuthn_error: "requireWebAuthn B = Inl e \<Longrightarrow> passkey_error e"
  by (auto simp: requireWebAuthn_def passkey_error_def split: if_splits)

lemma base64urlDecode_error: "base64urlDecode s = Inl e \<Longrightarrow> passkey_error e"
  by (auto simp: base64urlDecode_def passkey_error_def Let_def split: if_splits option.splits)

lemma catch_throw_cases:
  "catch_io m (\<lambda>e. throw_io (f e)) w = (r, w') \<longleftrightarrow>
     (case r of Inr x \<Rightarrow> m w = (Inr x, w') | Inl e \<Rightarrow> (\<exists>e'. m w = (Inl e', w') \<and> e = f e'))"
  by (auto simp: catch_io_def split: prod.splits sum.splits)

lemma rawPublicKey_Inr:
  "rawPublicKeyFromSpki cy spki w = (Inr raw, w') \<Longrightarrow> length raw = 65"
  unfolding rawPublicKeyFromSpki_def bind_io_Inr_iff
  by (auto simp: PUBLIC_KEY_BYTES_def split: if_splits)

lemma read_registration_Inr:
  "read_registration created = Inr (cid, spki) \<Longrightarrow> \<exists>rawId. cid = base64urlEncode rawId"
  by (auto simp: read_registration_def bind_r_Inr_iff Let_def split: option.splits if_splits)

lemma registerPasskey_Inr:
  assumes "registerPasskey C Z B now cs cy w = (Inr p, w')"
  shows "\<exists>rawId pk h t. length pk = 65 \<and> ckbHash C pk = Inr h
    \<and> parse_or_throw Z PasskeyRecordSchema passkey_record_of (passkey_record_json
        \<lparr>pk_credentialId = base64urlEncode rawId, pk_publicKey = hexFromBytes pk, pk_keyId = hexFromBytes h,
         pk_rpId = RP_ID, pk_origin = CLIENT_ORIGIN, pk_createdAt = t\<rparr>) = Inr p"
proof -
  obtain created w1 cid spki w2 pk w3 w4 h t where
    r: "read_registration created = Inr (cid, spki)" and k: "rawPublicKeyFromSpki cy spki w1 = (Inr pk, w2)"
    and h: "ckbHash C pk = Inr h" and t: "now w3 = (Inr t, w4)"
    and p: "parse_or_throw Z PasskeyRecordSchema passkey_record_of (passkey_record_json
        \<lparr>pk_credentialId = cid, pk_publicKey = hexFromBytes pk, pk_keyId = hexFromBytes h,
         pk_rpId = RP_ID, pk_origin = CLIENT_ORIGIN, pk_createdAt = t\<rparr>) = Inr p"
    using assms unfolding registerPasskey_def bind_io_Inr_iff catch_throw_cases sum.case
    by (auto simp: bind_io_Inr_iff)
  then show ?thesis
    using rawPublicKey_Inr [OF k] read_registration_Inr [OF r] by blast
qed

lemma registered_record:
  assumes "zod_ok Z" and "registerPasskey C Z B now cs cy w = (Inr p, w')"
  shows "passkey_record_ok (z_format Z) p"
    and "\<exists>rawId pk h. base64urlDecode (pk_credentialId p) = Inr rawId
      \<and> bytesFromHex (pk_publicKey p) = Inr pk \<and> length pk = 65 \<and> ckbHash C pk = Inr h \<and> pk_keyId p = hexFromBytes h"
proof -
  obtain rawId pk h t where pk: "length pk = 65" "ckbHash C pk = Inr h"
    and parse: "parse_or_throw Z PasskeyRecordSchema passkey_record_of (passkey_record_json
        \<lparr>pk_credentialId = base64urlEncode rawId, pk_publicKey = hexFromBytes pk, pk_keyId = hexFromBytes h,
         pk_rpId = RP_ID, pk_origin = CLIENT_ORIGIN, pk_createdAt = t\<rparr>) = Inr p"
    using registerPasskey_Inr [OF assms(2)] by blast
  let ?p = "\<lparr>pk_credentialId = base64urlEncode rawId, pk_publicKey = hexFromBytes pk, pk_keyId = hexFromBytes h,
         pk_rpId = RP_ID, pk_origin = CLIENT_ORIGIN, pk_createdAt = t\<rparr>"
  have p: "p = ?p" and ok: "passkey_record_ok (z_format Z) ?p"
    using parse unfolding passkey.parse_or_throw_printed [OF assms(1)] by (auto split: if_splits)
  then show "passkey_record_ok (z_format Z) p" by simp
  have "rawId \<noteq> []" using ok by (auto simp: passkey_record_ok_def base64url_re_def base64urlEncode_sixes)
  moreover have "pk \<noteq> []" using pk(1) by auto
  ultimately show "\<exists>rawId pk h. base64urlDecode (pk_credentialId p) = Inr rawId
      \<and> bytesFromHex (pk_publicKey p) = Inr pk \<and> length pk = 65 \<and> ckbHash C pk = Inr h \<and> pk_keyId p = hexFromBytes h"
    using pk p by (auto simp: base64urlDecode_encode)
qed

lemma stored_record_loads:
  assumes "zod_ok Z" and "passkey_record_ok (z_format Z) p" and "jsonParse (stringify (passkey_record_json p)) = Some (passkey_record_json p)"
  shows "\<exists>storage'. savePasskeyRecord Z stringify (passkey_record_json p) storage = Inr storage'
    \<and> loadPasskeyRecord Z jsonParse storage' = (Some p, storage')"
  using assms passkey.parse_or_throw_printed [OF assms(1), of p] passkey.parse_printed [OF assms(1), of p]
  by (simp add: savePasskeyRecord_def loadPasskeyRecord_def)

lemma read_assertion_Inr:
  assumes "read_assertion p assertion = Inr a" and "base64urlDecode (pk_credentialId p) = Inr allowed"
  shows "as_credentialId a = pk_credentialId p \<and> 37 \<le> length (as_authenticatorData a) \<and> as_clientDataJson a \<noteq> []
    \<and> as_signature a \<noteq> [] \<and> (\<exists>c. assertion = Some c \<and> cr_type c = ''public-key'' \<and> cr_rawId c = Some allowed)"
proof -
  note allowed = base64urlDecode_sound [OF assms(2)]
  obtain c rawId where c: "assertion = Some c" "cr_type c = ''public-key''" "cr_rawId c = Some rawId"
    "base64urlEncode rawId = pk_credentialId p"
    using assms(1) by (auto simp: read_assertion_def bind_r_Inr_iff bytesFromBuffer_def Let_def split: option.splits if_splits)
  then have "base64urlEncode rawId = base64urlEncode allowed" using allowed by simp
  then have "rawId = allowed"
    using base64urlDecode_encode [of rawId] base64urlDecode_encode [of allowed] allowed
    by (cases "rawId = []") (auto simp: base64urlDecode_def base64url_re_def base64urlEncode_sixes)
  with c assms(1) show ?thesis
    by (auto simp: read_assertion_def bind_r_Inr_iff bytesFromBuffer_def Let_def split: option.splits if_splits)
qed

section \<open>Properties\<close>

text \<open>
  C35: a registered passkey is usable. Whatever the browser, the authenticator and the crypto
  provider return, registration either fails with one of the two passkey errors or yields a record
  that the schema accepts, whose credential ID decodes, whose public key is 65 bytes and whose key
  ID is that key's CKB hash, which is what preparing a spend checks; and such a record, once
  saved, is loaded back unchanged.
\<close>

theorem registered_passkey_usable:
  assumes "zod_ok Z" and "registerPasskey C Z B now cs cy w = (r, w')"
  shows "case r of
      Inl e \<Rightarrow> e = PasskeyCancelledError \<or> (\<exists>m. e = PasskeyProtocolError m)
    | Inr p \<Rightarrow> passkey_record_ok (z_format Z) p
        \<and> (\<exists>rawId pk h. base64urlDecode (pk_credentialId p) = Inr rawId \<and> bytesFromHex (pk_publicKey p) = Inr pk
             \<and> length pk = 65 \<and> ckbHash C pk = Inr h \<and> pk_keyId p = hexFromBytes h)
        \<and> (jsonParse (stringify (passkey_record_json p)) = Some (passkey_record_json p) \<longrightarrow>
             (\<exists>storage'. savePasskeyRecord Z stringify (passkey_record_json p) storage = Inr storage'
               \<and> loadPasskeyRecord Z jsonParse storage' = (Some p, storage')))"
proof (cases r)
  case (Inl e)
  have "passkey_error e"
    using assms(2) requireWebAuthn_error passkey_failure_error
    unfolding Inl registerPasskey_def bind_io_Inl_iff catch_throw_cases by auto
  with Inl show ?thesis by (simp add: passkey_error_def)
next
  case (Inr p)
  note run = assms(2) [unfolded Inr]
  have ok: "passkey_record_ok (z_format Z) p" by (rule registered_record(1) [OF assms(1) run])
  show ?thesis
    using ok registered_record(2) [OF assms(1) run] stored_record_loads [OF assms(1) ok] unfolding Inr sum.case by blast
qed

text \<open>
  An assertion comes from the recorded credential. If \<^verbatim>\<open>requestAssertion\<close> returns, it asked the
  authenticator once, for exactly the 32-byte challenge, the demo's relying party and the record's
  credential with user verification required, and the answer is a public-key credential with that
  raw ID whose three fields have the sizes the spend needs; if it throws, the record was invalid or
  the error is one of the two passkey errors.
\<close>

lemma assertion_from_recorded_credential:
  assumes "zod_ok Z" and "requestAssertion Z B challenge v cs w = (r, w')"
  shows "case r of
      Inl e \<Rightarrow> e = ZodError \<or> e = PasskeyCancelledError \<or> (\<exists>m. e = PasskeyProtocolError m)
    | Inr a \<Rightarrow> length challenge = 32 \<and> (\<exists>p allowed c.
        parse_or_throw Z PasskeyRecordSchema passkey_record_of v = Inr p \<and> base64urlDecode (pk_credentialId p) = Inr allowed
        \<and> cs_get cs \<lparr>ro_challenge = challenge, ro_rpId = RP_ID, ro_allowCredentials = [(''public-key'', allowed)],
            ro_userVerification = ''required''\<rparr> w = (Inr (Some c), w')
        \<and> cr_type c = ''public-key'' \<and> cr_rawId c = Some allowed \<and> as_credentialId a = pk_credentialId p
        \<and> MIN_AUTHENTICATOR_DATA_BYTES \<le> length (as_authenticatorData a) \<and> as_clientDataJson a \<noteq> [] \<and> as_signature a \<noteq> [])"
proof (cases r)
  case (Inl e)
  have "parse_or_throw Z PasskeyRecordSchema passkey_record_of v = Inl e' \<Longrightarrow> e' = ZodError" for e'
    by (auto simp: parse_or_throw_def z_parse_def bind_r_Inl_iff split: option.splits)
  then have "e = ZodError \<or> passkey_error e"
    using assms(2) unfolding Inl requestAssertion_def bind_io_Inl_iff
    by (auto simp: bind_io_Inl_iff catch_throw_cases passkey_failure_error split: if_splits
        dest: requireWebAuthn_error base64urlDecode_error)
  with Inl show ?thesis by (simp add: passkey_error_def)
next
  case (Inr a)
  have len: "length challenge = 32"
    using assms(2) by (auto simp: Inr requestAssertion_def bind_io_Inr_iff CHALLENGE_BYTES_def split: if_splits)
  obtain p allowed assertion where p: "parse_or_throw Z PasskeyRecordSchema passkey_record_of v = Inr p"
    and allowed: "base64urlDecode (pk_credentialId p) = Inr allowed"
    and get: "cs_get cs (assertion_request challenge allowed) w = (Inr assertion, w')"
    and a: "read_assertion p assertion = Inr a"
    using assms(2) len unfolding Inr requestAssertion_def bind_io_Inr_iff
    by (auto simp: CHALLENGE_BYTES_def bind_io_Inr_iff catch_throw_cases)
  show ?thesis
    using len p allowed get read_assertion_Inr [OF a allowed]
    unfolding Inr sum.case assertion_request_def MIN_AUTHENTICATOR_DATA_BYTES_def by blast
qed

section \<open>An example authenticator\<close>

definition example_credentials :: "nat credentials" where
  "example_credentials = \<lparr>
     cs_create = (\<lambda>opts. return_io (Some \<lparr>cr_type = ''public-key'', cr_id = ''AQ'', cr_rawId = Some [1],
       cr_response = Some \<lparr>ar_getPublicKey = Some (Inr (Some [9]))\<rparr>\<rparr>)),
     cs_get = (\<lambda>opts. return_io (Some \<lparr>cr_type = ''public-key'', cr_id = ''AQ'', cr_rawId = Some [1],
       cr_response = Some \<lparr>ar_authenticatorData = Some (replicate 37 0), ar_clientDataJSON = Some [1], ar_signature = Some [2]\<rparr>\<rparr>))\<rparr>"

definition example_crypto :: "(nat, unit) crypto" where
  "example_crypto = \<lparr>cy_getRandomValues = (\<lambda>n. return_io (replicate n 0)), cy_importSpki = (\<lambda>b. return_io ()),
     cy_exportRaw = (\<lambda>k. return_io example_pubKey), cy_sha256 = (\<lambda>b. return_io (replicate 32 0))\<rparr>"

definition example_browser :: browser where
  "example_browser = \<lparr>bw_isSecureContext = True, bw_PublicKeyCredential = True,
     bw_AuthenticatorAttestationResponse = True, bw_getPublicKey = True\<rparr>"

definition example_registered :: passkey_record where
  "example_registered = example_passkey\<lparr>pk_keyId := ref_digest (of_le example_pubKey)\<rparr>"

lemma example_registered_ok: "passkey_record_ok (z_format ref_zod) example_registered"
  using example_passkey_ok hash32_ref_digest hash32_hex_iff by (simp add: passkey_record_ok_def example_registered_def)

lemma example_AQ: "base64urlEncode [1] = ''AQ''" "base64urlDecode ''AQ'' = Inr [1]"
  by code_simp+

lemma example_registration:
  "registerPasskey ref_ccc ref_zod example_browser (return_io ''now'') example_credentials example_crypto 0 = (Inr example_registered, 0)"
proof -
  have hash: "ckbHash ref_ccc example_pubKey = Inr (le_bytes 32 (of_le example_pubKey))"
    by (simp add: ckbHash_def ref_ccc_def ref_digest_def ref_bytesFrom_def)
  have random: "randomBytes example_crypto n 0 = (Inr (replicate n 0), 0)" for n
    by (simp add: randomBytes_def example_crypto_def)
  have raw: "rawPublicKeyFromSpki example_crypto [9] 0 = (Inr example_pubKey, 0)"
    by (simp add: rawPublicKeyFromSpki_def example_crypto_def bind_io_def catch_io_def PUBLIC_KEY_BYTES_def idx_def example_pubKey_def)
  have aux: "\<exists>a. derivePasskeyAux example_crypto 0 = (Inr a, 0)"
    by (simp add: derivePasskeyAux_def example_crypto_def bytesConcat_ok max_safe_integer_def)
  have reg: "read_registration (Some \<lparr>cr_type = ''public-key'', cr_id = ''AQ'', cr_rawId = Some [1],
      cr_response = Some \<lparr>ar_getPublicKey = Some (Inr (Some [9]))\<rparr>\<rparr>) = Inr (''AQ'', [9])"
    by (simp add: read_registration_def bytesFromBuffer_def example_AQ)
  have "\<lparr>pk_credentialId = ''AQ'', pk_publicKey = hexFromBytes example_pubKey, pk_keyId = hexFromBytes (le_bytes 32 (of_le example_pubKey)),
      pk_rpId = RP_ID, pk_origin = CLIENT_ORIGIN, pk_createdAt = ''now''\<rparr> = example_registered"
    by (simp add: example_registered_def example_passkey_def ref_digest_def)
  then have parse: "parse_or_throw ref_zod PasskeyRecordSchema passkey_record_of (passkey_record_json
      \<lparr>pk_credentialId = ''AQ'', pk_publicKey = hexFromBytes example_pubKey, pk_keyId = hexFromBytes (le_bytes 32 (of_le example_pubKey)),
       pk_rpId = RP_ID, pk_origin = CLIENT_ORIGIN, pk_createdAt = ''now''\<rparr>) = Inr example_registered"
    using passkey.parse_or_throw_printed [OF ref_zod_ok] example_registered_ok by simp
  obtain a where a: "derivePasskeyAux example_crypto 0 = (Inr a, 0)" using aux by blast
  show ?thesis
    unfolding registerPasskey_def
    by (simp add: requireWebAuthn_def example_browser_def catch_io_def bind_io_def random example_credentials_def reg raw a hash parse)
qed

theorem registered_passkey_usable_witness:
  "registerPasskey ref_ccc ref_zod example_browser (return_io ''now'') example_credentials example_crypto 0 = (Inr example_registered, 0)
   \<and> (\<exists>storage. savePasskeyRecord ref_zod (\<lambda>v. ''r'') (passkey_record_json example_registered) Map.empty = Inr storage
        \<and> loadPasskeyRecord ref_zod (\<lambda>s. Some (passkey_record_json example_registered)) storage = (Some example_registered, storage))"
  using registered_passkey_usable [OF ref_zod_ok example_registration,
      of "\<lambda>s. Some (passkey_record_json example_registered)" "\<lambda>v. ''r''" Map.empty] example_registration by simp

end
