(* ===== verification/Wizard.thy ===== *)
theory Wizard
  imports Passkey
begin

text \<open>
  demo/src/client/App.tsx: the browser wizard as a state machine. \<open>wizard_state\<close> is the component's
  state union; the record \<open>app\<close> holds the component's state variables and refs together with the
  server requests whose answers are still to come. Each handler and each promise continuation of
  the component is one operation on \<open>app\<close>, and \<open>app_step\<close> lets them happen in any order with any
  answers. A handler runs in the latest rendered state. Rendering is reduced to what decides which
  step is shown (\<open>displayedState\<close> and the arguments of the step components); moving the focus is
  left out.
\<close>

section \<open>State\<close>

record web =
  web_ccc :: ccc
  web_zod :: zod
  web_browser :: browser
  web_stringify :: "js_value \<Rightarrow> string"

datatype actionable_stage = Needs_passkey | Needs_account | Ready_to_spend

datatype receipt_stage = Submitted_stage | Committed_stage

datatype wizard_state =
    Loading
  | Actionable actionable_stage demo_status "account_manifest option" "passkey_record option"
  | Receipt_shown receipt_stage demo_status receipt
  | Blocked "demo_status option" string string

section \<open>Reconciling\<close>

definition sameAccount :: "web \<Rightarrow> account_manifest option \<Rightarrow> account_manifest option \<Rightarrow> bool" where
  "sameAccount W statusAccount account \<longleftrightarrow>
     web_stringify W (account_value statusAccount) = web_stringify W (account_value account)"

text \<open>The \<^verbatim>\<open>try\<close> block: both accounts validate against the status's deployment.\<close>

definition validates :: "web \<Rightarrow> demo_status \<Rightarrow> account_manifest option \<Rightarrow> unit js" where
  "validates W status account =
     bind_r (validateDeployment (web_zod W) (deployment_manifest_json (ds_deployment status))) (\<lambda>deployment.
     let check = (\<lambda>a. case a of None \<Rightarrow> Inr ()
       | Some m \<Rightarrow> bind_r (validateAccount (web_ccc W) (web_zod W) (account_manifest_json m) deployment) (\<lambda>_. Inr ())) in
     bind_r (check (ds_account status)) (\<lambda>_. check account))"

definition reconcile :: "web \<Rightarrow> demo_status \<Rightarrow> account_manifest option \<Rightarrow> passkey_record option \<Rightarrow> wizard_state" where
  "reconcile W status account pk =
     (if \<not> ds_deploymentVerified status
      then Blocked (Some status) ''Local setup is blocked''
             ''The published AccountLock deployment has not been verified.''
      else if \<not> is_ok (validates W status account)
      then Blocked (Some status) ''Local setup is blocked''
             ''The server returned account data that does not match the verified deployment.''
      else if \<not> sameAccount W (ds_account status) account
      then Blocked (Some status) ''Account access is blocked''
             (''The server account state changed between checks. Restart the local demo and ''
              @ ''inspect the account manifest before continuing.'')
      else case passkeyCapabilityProblem (web_browser W) of
        Some problem \<Rightarrow> Blocked (Some status) ''Passkeys are unavailable'' problem
      | None \<Rightarrow>
          (case (account, pk) of
             (Some m, None) \<Rightarrow> Blocked (Some status) ''Account access is blocked''
               (''An account exists on testnet, but local passkey metadata is missing. Use the browser ''
                @ ''profile that created this account; do not create a replacement.'')
           | (None, None) \<Rightarrow> Actionable Needs_passkey status None None
           | (None, Some p) \<Rightarrow> Actionable Needs_account status None (Some p)
           | (Some m, Some p) \<Rightarrow> Actionable Ready_to_spend status (Some m) (Some p)))"

text \<open>\<^verbatim>\<open>receiptValue == null\<close> holds of \<^verbatim>\<open>null\<close> and \<^verbatim>\<open>undefined\<close>.\<close>

definition withReceipt :: "web \<Rightarrow> wizard_state \<Rightarrow> js_value \<Rightarrow> wizard_state" where
  "withReceipt W state receiptValue =
     (if receiptValue = JNull \<or> receiptValue = JUndefined then state
      else case state of
        Loading \<Rightarrow> state
      | Blocked s h m \<Rightarrow> state
      | Receipt_shown g status r \<Rightarrow> Blocked (Some status) ''Receipt cannot be reconciled''
          ''The transaction receipt does not match the current local account state.''
      | Actionable stage status account pk \<Rightarrow>
          if stage \<noteq> Ready_to_spend
          then Blocked (Some status) ''Receipt cannot be reconciled''
                 ''The transaction receipt does not match the current local account state.''
          else (case parse_as (web_zod W) TransactionReceiptSchema receipt_of receiptValue of
              None \<Rightarrow> Blocked (Some status) ''Receipt cannot be reconciled'' ''The stored transaction receipt is malformed.''
            | Some r \<Rightarrow> Receipt_shown (if r_status r = ''committed'' then Committed_stage else Submitted_stage) status r))"

section \<open>The component\<close>

text \<open>
  Requests in flight: \<open>ap_initial\<close> is the one of the mount effect that is still current, with the
  stored passkey it started with; \<open>ap_refreshes\<close> and \<open>ap_commits\<close> are those \<^verbatim>\<open>handleAccountCreated\<close> and
  \<^verbatim>\<open>handleSpendReceipt\<close> started, each with the passkey it captured.
\<close>

record app =
  ap_state :: wizard_state
  ap_internalReceipt :: "receipt option"
  ap_postCommitError :: "string option"
  ap_reconciledCommit :: "string option"
  ap_initial :: "passkey_record option option"
  ap_refreshes :: "passkey_record list"
  ap_commits :: "passkey_record list"

type_synonym server_answer = "(demo_status \<times> account_manifest option) js"

definition app_start :: app where
  "app_start = \<lparr>ap_state = Loading, ap_internalReceipt = None, ap_postCommitError = None, ap_reconciledCommit = None,
     ap_initial = None, ap_refreshes = [], ap_commits = []\<rparr>"

text \<open>The mount effect; running it again makes an earlier request stale.\<close>

definition mountEffect :: "passkey_record option \<Rightarrow> app \<Rightarrow> app" where
  "mountEffect stored s = s\<lparr>ap_initial := Some stored\<rparr>"

definition api_failure :: "js_error \<Rightarrow> wizard_state" where
  "api_failure e = Blocked None ''Local setup is blocked''
     (case e of DemoApiError c m n \<Rightarrow> m | _ \<Rightarrow> ''Local API is unavailable'')"

definition mountAnswered :: "web \<Rightarrow> server_answer \<Rightarrow> app \<Rightarrow> app" where
  "mountAnswered W answer s = (case ap_initial s of
     None \<Rightarrow> s
   | Some stored \<Rightarrow> s\<lparr>ap_initial := None,
       ap_state := (case answer of Inr (status, account) \<Rightarrow> reconcile W status account stored | Inl e \<Rightarrow> api_failure e)\<rparr>)"

definition handlePasskeyCreated :: "web \<Rightarrow> passkey_record \<Rightarrow> app \<Rightarrow> app" where
  "handlePasskeyCreated W p s = (case ap_state s of
     Actionable Needs_passkey status account pk \<Rightarrow> s\<lparr>ap_state := reconcile W status account (Some p)\<rparr>
   | _ \<Rightarrow> s)"

definition handleAccountCreated :: "app \<Rightarrow> app" where
  "handleAccountCreated s = (case ap_state s of
     Actionable Needs_account status account (Some p) \<Rightarrow> s\<lparr>ap_refreshes := p # ap_refreshes s\<rparr>
   | _ \<Rightarrow> s)"

definition accountAnswered :: "web \<Rightarrow> passkey_record \<Rightarrow> server_answer \<Rightarrow> app \<Rightarrow> app" where
  "accountAnswered W p answer s = s\<lparr>ap_refreshes := remove1 p (ap_refreshes s),
     ap_state := (case answer of Inr (status, account) \<Rightarrow> reconcile W status account (Some p) | Inl e \<Rightarrow> api_failure e)\<rparr>"

definition handleSpendReceipt :: "web \<Rightarrow> js_value \<Rightarrow> app \<Rightarrow> app" where
  "handleSpendReceipt W receiptValue s = (case parse_as (web_zod W) TransactionReceiptSchema receipt_of receiptValue of
     None \<Rightarrow> s\<lparr>ap_state := Blocked None ''Receipt cannot be reconciled'' ''The transaction receipt is malformed.''\<rparr>
   | Some r \<Rightarrow>
       let s' = s\<lparr>ap_internalReceipt := Some r\<rparr> in
       if r_status r \<noteq> ''committed'' \<or> ap_reconciledCommit s = Some (r_txHash r) then s'
       else (case ap_state s of
           Actionable Ready_to_spend status account (Some p) \<Rightarrow>
             s'\<lparr>ap_reconciledCommit := Some (r_txHash r), ap_postCommitError := None, ap_commits := p # ap_commits s\<rparr>
         | _ \<Rightarrow> s'))"

definition commitAnswered :: "web \<Rightarrow> passkey_record \<Rightarrow> server_answer \<Rightarrow> app \<Rightarrow> app" where
  "commitAnswered W p answer s =
     (let s' = s\<lparr>ap_commits := remove1 p (ap_commits s)\<rparr> in
      case answer of
        Inl e \<Rightarrow> s'\<lparr>ap_postCommitError :=
          Some ''The committed transaction is preserved, but authoritative account state could not be refreshed.''\<rparr>
      | Inr (status, account) \<Rightarrow>
          (case reconcile W status account (Some p) of
             Blocked b h m \<Rightarrow> s'\<lparr>ap_postCommitError := Some m\<rparr>
           | reconciled \<Rightarrow> s'\<lparr>ap_state := reconciled\<rparr>))"

text \<open>What is shown: \<^verbatim>\<open>internalReceipt ?? receipt\<close> over the state.\<close>

definition displayedState :: "web \<Rightarrow> js_value \<Rightarrow> app \<Rightarrow> wizard_state" where
  "displayedState W receiptProp s = withReceipt W (ap_state s)
     (case ap_internalReceipt s of Some r \<Rightarrow> receipt_json r | None \<Rightarrow> receiptProp)"

text \<open>The arguments of \<^verbatim>\<open>SpendStep\<close>; an \<open>Inl\<close> would be an exception while rendering.\<close>

definition spend_account :: "web \<Rightarrow> demo_status \<Rightarrow> account_manifest \<Rightarrow> verified_account js" where
  "spend_account W status m =
     bind_r (validateDeployment (web_zod W) (deployment_manifest_json (ds_deployment status))) (\<lambda>d.
     validateAccount (web_ccc W) (web_zod W) (account_manifest_json m) d)"

inductive app_step :: "web \<Rightarrow> app \<Rightarrow> app \<Rightarrow> bool" for W where
  mount: "app_step W s (mountEffect stored s)"
| mounted: "app_step W s (mountAnswered W answer s)"
| passkey_created: "app_step W s (handlePasskeyCreated W p s)"
| account_created: "app_step W s (handleAccountCreated s)"
| account_answered: "p \<in> set (ap_refreshes s) \<Longrightarrow> app_step W s (accountAnswered W p answer s)"
| spend_receipt: "app_step W s (handleSpendReceipt W v s)"
| commit_answered: "p \<in> set (ap_commits s) \<Longrightarrow> app_step W s (commitAnswered W p answer s)"

inductive_cases app_stepE: "app_step W s t"

section \<open>Invariant\<close>

text \<open>The states \<^verbatim>\<open>reconcile\<close> can produce, by what they promise.\<close>

definition wizard_ok :: "web \<Rightarrow> wizard_state \<Rightarrow> bool" where
  "wizard_ok W state = (case state of
     Loading \<Rightarrow> True
   | Blocked s h m \<Rightarrow> True
   | Receipt_shown g status r \<Rightarrow> False
   | Actionable stage status account pk \<Rightarrow>
       ds_deploymentVerified status \<and> passkeyCapabilityProblem (web_browser W) = None
       \<and> sameAccount W (ds_account status) account \<and> is_ok (validates W status account)
       \<and> (account = None \<or> pk \<noteq> None)
       \<and> stage = (if account \<noteq> None then Ready_to_spend else if pk \<noteq> None then Needs_account else Needs_passkey))"

lemma wizard_ok_simps [simp]: "wizard_ok W Loading" "wizard_ok W (Blocked s h m)" "wizard_ok W (api_failure e)"
  by (simp_all add: wizard_ok_def api_failure_def)

lemma reconcile_ok: "wizard_ok W (reconcile W status account pk)"
  by (auto simp: reconcile_def wizard_ok_def split: option.splits)

lemma reconcile_eq_ok: "reconcile W status account pk = t \<Longrightarrow> wizard_ok W t"
  using reconcile_ok by blast

lemma reconcile_answer_ok:
  "wizard_ok W (case answer of Inr (status, account) \<Rightarrow> reconcile W status account pk | Inl e \<Rightarrow> api_failure e)"
  by (simp add: reconcile_ok split: sum.split prod.split)

abbreviation app_ok :: "web \<Rightarrow> app \<Rightarrow> bool" where
  "app_ok W s \<equiv> wizard_ok W (ap_state s)"

lemma app_ok_step: "app_step W s t \<Longrightarrow> app_ok W s \<Longrightarrow> app_ok W t"
proof (induction rule: app_step.induct)
  case (commit_answered p s answer)
  then show ?case
    by (auto simp: commitAnswered_def Let_def split: sum.split prod.split wizard_state.split dest: reconcile_eq_ok)
qed (auto simp: mountEffect_def mountAnswered_def handlePasskeyCreated_def handleAccountCreated_def accountAnswered_def
    handleSpendReceipt_def Let_def reconcile_ok reconcile_answer_ok
    split: option.split wizard_state.split actionable_stage.split sum.split prod.split)

interpretation wizard: machine app_start "app_step W" "app_ok W" for W
  by unfold_locales (simp add: app_start_def, rule app_ok_step)

lemma validates_spend_account: "is_ok (validates W status (Some m)) \<Longrightarrow> \<exists>va. spend_account W status m = Inr va"
  by (auto simp: validates_def spend_account_def Let_def is_ok_iff bind_r_Inr_iff)

section \<open>Property\<close>


definition example_web :: web where
  "example_web = \<lparr>web_ccc = ref_ccc, web_zod = ref_zod, web_browser = example_browser, web_stringify = (\<lambda>v. [])\<rparr>"

definition example_status :: demo_status where
  "example_status = \<lparr>ds_deploymentVerified = True, ds_deployment = example_deployment, ds_funderAddress = ''a'',
     ds_funderBalanceShannons = ''1'', ds_account = Some example_manifest\<rparr>"

definition example_app :: app where
  "example_app = mountAnswered example_web (Inr (example_status, Some example_manifest)) (mountEffect (Some example_passkey) app_start)"

lemma example_app_reachable: "reachable app_start (app_step example_web) example_app"
  unfolding example_app_def
  by (rule reachable.step, rule reachable.step, rule reachable.start, rule app_step.mount, rule app_step.mounted)

lemma example_app_state:
  "displayedState example_web JNull example_app = Actionable Ready_to_spend example_status (Some example_manifest) (Some example_passkey)"
  using example_deployment_validates example_account_validates
  by (simp add: displayedState_def example_app_def mountAnswered_def mountEffect_def app_start_def withReceipt_def reconcile_def
      validates_def sameAccount_def passkeyCapabilityProblem_def example_web_def example_browser_def example_status_def)


end
