(* ===== verification/SpendStep.thy ===== *)
theory SpendStep
  imports Wizard
begin

text \<open>
  demo/src/client/components/SpendStep.tsx: the component that prepares, authorizes, submits and
  confirms the transfer, as a state machine. Its state union is \<open>spend_view\<close>; the \<^verbatim>\<open>actionLock\<close> ref is
  a flag; \<open>ss_task\<close> is where a running \<^verbatim>\<open>authorize\<close> is suspended at an \<^verbatim>\<open>await\<close>, with what it captured.
  The operations are the pieces of the component between two suspensions; \<open>spend_step\<close> lets the
  effect be run again, the preparation, the authenticator and the node answer anything, and the
  button be pressed, in any order. The prepared object is shared with its owner, so when the
  authenticator answers, its contents may have changed: the operation gets them as an argument.

  Two logs record what left the component: \<open>ss_submits\<close> the calls of \<^verbatim>\<open>submit\<close>, each with the hash and
  digest shown when the button was pressed, and \<open>ss_receipts\<close> the calls of \<^verbatim>\<open>onReceipt\<close>.
\<close>

section \<open>State\<close>

datatype spend_phase = Authorizing_phase | Submitting_phase

datatype spend_view =
    Preparing
  | Spend_ready prepared_spend "string option"
  | Spend_working prepared_spend spend_phase
  | Spend_submitted prepared_spend
  | Spend_blocked string "prepared_spend option"

datatype spend_task =
    No_task
  | Asserting string string
  | Submitting prepared_spend
  | Confirming prepared_spend receipt

record spend_component =
  ss_state :: spend_view
  ss_actionLock :: bool
  ss_effects :: nat
  ss_current :: bool
  ss_task :: spend_task
  ss_submits :: "(string \<times> string \<times> transaction) list"
  ss_receipts :: "receipt list"

text \<open>The component's props and platform.\<close>

record spend_props =
  sp_ccc :: ccc
  sp_zod :: zod
  sp_runtime :: js_runtime
  sp_passkey :: js_value

definition spend_start :: spend_component where
  "spend_start = \<lparr>ss_state = Preparing, ss_actionLock = False, ss_effects = 0, ss_current = False,
     ss_task = No_task, ss_submits = [], ss_receipts = []\<rparr>"

section \<open>Operations\<close>

definition prepareEffect :: "spend_component \<Rightarrow> spend_component" where
  "prepareEffect s = s\<lparr>ss_state := Preparing, ss_effects := Suc (ss_effects s), ss_current := True\<rparr>"

text \<open>An answer for an effect that has been cleaned up is dropped.\<close>

definition preparedAnswer :: "prepared_spend js \<Rightarrow> spend_component \<Rightarrow> spend_component" where
  "preparedAnswer answer s =
     (if \<not> ss_current s then s
      else s\<lparr>ss_current := False, ss_state := (case answer of
          Inr prepared \<Rightarrow> Spend_ready prepared None
        | Inl e \<Rightarrow> Spend_blocked
            ''The live AccountState and AccountLock asset cells could not be verified for this spend.'' None)\<rparr>)"

definition authorize :: "spend_props \<Rightarrow> prepared_spend \<Rightarrow> spend_component \<Rightarrow> spend_component" where
  "authorize P prepared s =
     (if ss_actionLock s \<or> \<not> (case ss_state s of Spend_ready p n \<Rightarrow> True | _ \<Rightarrow> False) then s
      else s\<lparr>ss_actionLock := True, ss_state := Spend_working prepared Authorizing_phase,
             ss_task := Asserting (ccc_txHash (sp_ccc P) (pr_transaction prepared))
               (hexFromBytes (pr_authorizationDigest prepared))\<rparr>)"

text \<open>\<^verbatim>\<open>/credential/i.test(s)\<close>\<close>

definition mentions_credential :: "js_error \<Rightarrow> bool" where
  "mentions_credential e = (case e of TypeError m \<Rightarrow> contains ''credential'' (toLowerCase m) | _ \<Rightarrow> False)"

definition spend_failure :: "js_error \<Rightarrow> prepared_spend \<Rightarrow> spend_view" where
  "spend_failure e prepared =
     (if e = PasskeyCancelledError
      then Spend_ready prepared
             (Some ''Passkey authorization was cancelled. The reviewed transaction is unchanged.'')
      else if mentions_credential e
      then Spend_blocked ''The returned credential did not match the reviewed spend. Nothing was submitted.'' (Some prepared)
      else Spend_blocked (''The spend outcome could not be completed safely. Reconcile the transaction and live ''
             @ ''cells before trying again.'') (Some prepared))"

text \<open>The \<^verbatim>\<open>catch\<close> and the \<^verbatim>\<open>finally\<close> of \<^verbatim>\<open>authorize\<close>.\<close>

definition finish :: "spend_view \<Rightarrow> spend_component \<Rightarrow> spend_component" where
  "finish view s = s\<lparr>ss_state := view, ss_actionLock := False, ss_task := No_task\<rparr>"

definition assertionAnswer ::
  "spend_props \<Rightarrow> prepared_spend \<Rightarrow> assertion_material js \<Rightarrow> spend_component \<Rightarrow> spend_component"
where
  "assertionAnswer P prepared answer s = (case ss_task s of
     Asserting reviewedRawHash reviewedDigest \<Rightarrow>
       (case answer of
          Inl e \<Rightarrow> finish (spend_failure e prepared) s
        | Inr assertion \<Rightarrow>
            if ccc_txHash (sp_ccc P) (pr_transaction prepared) \<noteq> reviewedRawHash
               \<or> hexFromBytes (pr_authorizationDigest prepared) \<noteq> reviewedDigest
            then finish (Spend_blocked
                   ''The transaction changed while passkey authorization was open. Nothing was submitted.'' (Some prepared)) s
            else (case finalizeSpend (sp_ccc P) (sp_zod P) (sp_runtime P) prepared (sp_passkey P) assertion of
                Inl e \<Rightarrow> finish (spend_failure e prepared) s
              | Inr finalized \<Rightarrow> s\<lparr>ss_state := Spend_working prepared Submitting_phase, ss_task := Submitting prepared,
                  ss_submits := (reviewedRawHash, reviewedDigest, finalized) # ss_submits s\<rparr>))
   | _ \<Rightarrow> s)"

definition submitAnswer :: "receipt js \<Rightarrow> spend_component \<Rightarrow> spend_component" where
  "submitAnswer answer s = (case ss_task s of
     Submitting prepared \<Rightarrow>
       (case answer of
          Inl e \<Rightarrow> finish (spend_failure e prepared) s
        | Inr submitted \<Rightarrow> s\<lparr>ss_state := Spend_submitted prepared, ss_task := Confirming prepared submitted,
            ss_receipts := ss_receipts s @ [submitted]\<rparr>)
   | _ \<Rightarrow> s)"

definition confirmAnswer :: "receipt js \<Rightarrow> spend_component \<Rightarrow> spend_component" where
  "confirmAnswer answer s = (case ss_task s of
     Confirming prepared submitted \<Rightarrow>
       (case answer of
          Inl e \<Rightarrow> finish (spend_failure e prepared) s
        | Inr confirmed \<Rightarrow> s\<lparr>ss_actionLock := False, ss_task := No_task, ss_receipts := ss_receipts s @ [confirmed]\<rparr>)
   | _ \<Rightarrow> s)"

text \<open>
  The button hands \<^verbatim>\<open>authorize\<close> the prepared spend it shows; the node never answers a submission or
  a confirmation with the passkey module's cancellation.
\<close>

inductive spend_step :: "spend_props \<Rightarrow> spend_component \<Rightarrow> spend_component \<Rightarrow> bool" for P where
  effect: "spend_step P s (prepareEffect s)"
| prepared: "spend_step P s (preparedAnswer answer s)"
| press: "ss_state s = Spend_ready p n \<Longrightarrow> spend_step P s (authorize P p s)"
| asserted: "spend_step P s (assertionAnswer P p answer s)"
| submitted: "answer \<noteq> Inl PasskeyCancelledError \<Longrightarrow> spend_step P s (submitAnswer answer s)"
| confirmed: "answer \<noteq> Inl PasskeyCancelledError \<Longrightarrow> spend_step P s (confirmAnswer answer s)"

section \<open>Invariant\<close>

text \<open>Each run of the effect is a permission to submit once; this counts those still unused.\<close>

definition permits :: "spend_component \<Rightarrow> nat" where
  "permits s = (if ss_current s then 1 else 0)
     + (case ss_state s of Spend_ready p n \<Rightarrow> 1 | _ \<Rightarrow> 0) + (case ss_task s of Asserting h d \<Rightarrow> 1 | _ \<Rightarrow> 0)"

definition submit_ok :: "spend_props \<Rightarrow> string \<times> string \<times> transaction \<Rightarrow> bool" where
  "submit_ok P x = (case x of (h, d, tx) \<Rightarrow> ccc_txHash (sp_ccc P) tx = h
     \<and> (\<exists>p a. hexFromBytes (pr_authorizationDigest p) = d
         \<and> finalizeSpend (sp_ccc P) (sp_zod P) (sp_runtime P) p (sp_passkey P) a = Inr tx))"

definition spend_inv :: "spend_props \<Rightarrow> spend_component \<Rightarrow> bool" where
  "spend_inv P s \<longleftrightarrow>
     length (ss_submits s) + permits s \<le> ss_effects s \<and> (ss_actionLock s \<longleftrightarrow> ss_task s \<noteq> No_task)
     \<and> list_all (submit_ok P) (ss_submits s)"

lemmas spend_ops = prepareEffect_def preparedAnswer_def authorize_def assertionAnswer_def submitAnswer_def confirmAnswer_def
  finish_def spend_failure_def

lemma finalized_hash:
  "finalizeSpend C Z R p pv a = Inr tx \<Longrightarrow> ccc_txHash C tx = ccc_txHash C (pr_transaction p)"
  by (auto simp: finalizeSpend_def result_simps Let_def split: if_splits)

lemma inv_effect: "spend_inv P s \<Longrightarrow> spend_inv P (prepareEffect s)"
  by (auto simp: spend_inv_def permits_def prepareEffect_def split: spend_view.splits spend_task.splits)

lemma inv_prepared: "spend_inv P s \<Longrightarrow> spend_inv P (preparedAnswer answer s)"
  by (auto simp: spend_inv_def permits_def preparedAnswer_def split: spend_view.splits spend_task.splits sum.splits)

lemma inv_press: "spend_inv P s \<Longrightarrow> spend_inv P (authorize P p s)"
  by (auto simp: spend_inv_def permits_def authorize_def split: spend_view.splits spend_task.splits)

lemma inv_finish:
  assumes "spend_inv P s" and "ss_task s \<noteq> No_task" and "\<And>p n. view = Spend_ready p n \<Longrightarrow> \<exists>h d. ss_task s = Asserting h d"
  shows "spend_inv P (finish view s)"
  using assms by (auto simp: spend_inv_def permits_def finish_def split: spend_view.splits spend_task.splits if_splits)

lemma spend_failure_ready: "spend_failure e p = Spend_ready q n \<Longrightarrow> e = PasskeyCancelledError"
  by (auto simp: spend_failure_def split: if_splits)

lemma inv_asserted: assumes "spend_inv P s" shows "spend_inv P (assertionAnswer P p answer s)"
proof (cases "ss_task s")
  case (Asserting h d)
  have fin: "spend_inv P (finish view s)" for view
    using assms by (rule inv_finish) (simp_all add: Asserting)
  show ?thesis
  proof (cases "\<exists>a tx. answer = Inr a \<and> ccc_txHash (sp_ccc P) (pr_transaction p) = h \<and> hexFromBytes (pr_authorizationDigest p) = d
      \<and> finalizeSpend (sp_ccc P) (sp_zod P) (sp_runtime P) p (sp_passkey P) a = Inr tx")
    case True
    then obtain a tx where a: "answer = Inr a" "ccc_txHash (sp_ccc P) (pr_transaction p) = h"
      "hexFromBytes (pr_authorizationDigest p) = d"
      "finalizeSpend (sp_ccc P) (sp_zod P) (sp_runtime P) p (sp_passkey P) a = Inr tx" by blast
    then have "submit_ok P (h, d, tx)"
      using finalized_hash [OF a(4)] by (auto simp: submit_ok_def)
    with assms show ?thesis
      by (auto simp: assertionAnswer_def Asserting a spend_inv_def permits_def split: spend_view.splits if_splits)
  next
    case False
    then have "\<exists>view. assertionAnswer P p answer s = finish view s"
      by (auto simp: assertionAnswer_def Asserting split: sum.splits)
    then show ?thesis using fin by auto
  qed
qed (use assms in \<open>simp_all add: assertionAnswer_def\<close>)

lemma inv_submitted:
  assumes "spend_inv P s" and "answer \<noteq> Inl PasskeyCancelledError"
  shows "spend_inv P (submitAnswer answer s)"
proof (cases "ss_task s")
  case (Submitting p)
  have "spend_inv P (finish (spend_failure e p) s)" if "e \<noteq> PasskeyCancelledError" for e
    using assms(1) by (rule inv_finish) (use that in \<open>auto simp: Submitting dest: spend_failure_ready\<close>)
  then show ?thesis
    using assms
    by (cases answer) (simp_all add: submitAnswer_def Submitting, simp add: spend_inv_def permits_def Submitting split: spend_view.splits)
qed (use assms in \<open>simp_all add: submitAnswer_def\<close>)

lemma inv_confirmed:
  assumes "spend_inv P s" and "answer \<noteq> Inl PasskeyCancelledError"
  shows "spend_inv P (confirmAnswer answer s)"
proof (cases "ss_task s")
  case (Confirming p r)
  have "spend_inv P (finish (spend_failure e p) s)" if "e \<noteq> PasskeyCancelledError" for e
    using assms(1) by (rule inv_finish) (use that in \<open>auto simp: Confirming dest: spend_failure_ready\<close>)
  then show ?thesis
    using assms
    by (cases answer) (simp_all add: confirmAnswer_def Confirming, simp add: spend_inv_def permits_def Confirming split: spend_view.splits)
qed (use assms in \<open>simp_all add: confirmAnswer_def\<close>)

interpretation spend: machine spend_start "spend_step P" "spend_inv P" for P
proof
  show "spend_inv P spend_start" by (simp add: spend_inv_def permits_def spend_start_def)
  show "spend_step P s t \<Longrightarrow> spend_inv P s \<Longrightarrow> spend_inv P t" for s t
    by (induction rule: spend_step.induct)
       (auto intro: inv_effect inv_prepared inv_press inv_asserted inv_submitted inv_confirmed)
qed

section \<open>Property\<close>

text \<open>
  C17: what is submitted is what was reviewed, and once. In every reachable state of the spend
  component: the number of submissions is at most the number of times the preparation effect ran,
  so a component whose inputs do not change submits at most once, however often the button is
  pressed and whatever fails; every submitted transaction has the hash that was shown when the
  button was pressed and was finalized from an assertion for the digest shown then; and while an
  authorization is in progress the button does nothing.
\<close>

theorem spend_submitted_as_reviewed:
  assumes "reachable spend_start (spend_step P) s"
  shows "length (ss_submits s) \<le> ss_effects s
    \<and> (ss_task s \<noteq> No_task \<longrightarrow> authorize P p s = s)
    \<and> ((h, d, tx) \<in> set (ss_submits s) \<longrightarrow> ccc_txHash (sp_ccc P) tx = h
        \<and> (\<exists>q a. hexFromBytes (pr_authorizationDigest q) = d
            \<and> finalizeSpend (sp_ccc P) (sp_zod P) (sp_runtime P) q (sp_passkey P) a = Inr tx))"
proof -
  have inv: "spend_inv P s" by (rule spend.reachable_inv [OF assms])
  moreover have "submit_ok P (h, d, tx)" if "(h, d, tx) \<in> set (ss_submits s)"
    using inv that by (auto simp: spend_inv_def list_all_iff)
  ultimately show ?thesis
    by (auto simp: spend_inv_def authorize_def submit_ok_def)
qed

lemma example_spend:
  "\<exists>P s h d tx. reachable spend_start (spend_step P) s \<and> ss_submits s = [(h, d, tx)] \<and> ss_effects s = 1"
proof -
  obtain p tx where fin: "finalizeSpend ref_ccc ref_zod (example_runtime p) p (passkey_record_json example_passkey) example_assertion = Inr tx"
    using example_finalized by blast
  let ?P = "\<lparr>sp_ccc = ref_ccc, sp_zod = ref_zod, sp_runtime = example_runtime p, sp_passkey = passkey_record_json example_passkey\<rparr>"
  let ?s1 = "preparedAnswer (Inr p) (prepareEffect spend_start)"
  let ?s2 = "authorize ?P p ?s1"
  let ?s3 = "assertionAnswer ?P p (Inr example_assertion) ?s2"
  have ready: "ss_state ?s1 = Spend_ready p None"
    by (simp add: preparedAnswer_def prepareEffect_def)
  have "reachable spend_start (spend_step ?P) ?s1"
    by (rule reachable.step, rule reachable.step, rule reachable.start, rule spend_step.effect, rule spend_step.prepared)
  then have "reachable spend_start (spend_step ?P) ?s3"
    using spend_step.press [OF ready] spend_step.asserted reachable.step by metis
  moreover have "ss_submits ?s3 = [(ccc_txHash ref_ccc (pr_transaction p), hexFromBytes (pr_authorizationDigest p), tx)]" "ss_effects ?s3 = 1"
    by (simp_all add: fin assertionAnswer_def authorize_def preparedAnswer_def prepareEffect_def spend_start_def)
  ultimately show ?thesis by blast
qed

theorem spend_submitted_as_reviewed_witness:
  "\<exists>P s h d tx. reachable spend_start (spend_step P) s \<and> ss_submits s = [(h, d, tx)] \<and> ccc_txHash (sp_ccc P) tx = h"
proof -
  obtain P s h d tx where s: "reachable spend_start (spend_step P) s" "ss_submits s = [(h, d, tx)]"
    using example_spend by blast
  have "ccc_txHash (sp_ccc P) tx = h"
    using spend_submitted_as_reviewed [OF s(1), of _ h d tx] s(2) by simp
  with s show ?thesis by blast
qed

end
