(* ===== verification/Steps.thy ===== *)
theory Steps
  imports SpendStep
begin

text \<open>
  The other steps of the wizard, demo/src/client/components/PasskeyStep.tsx, BootstrapStep.tsx,
  Receipt.tsx and StatusHeader.tsx: each keeps a state union and an action lock, starts one
  asynchronous call from a button and continues when it answers. The operations are the part of
  the handler before its \<^verbatim>\<open>await\<close> and the part after it; a button press is possible when the
  component renders its button enabled.
\<close>

section \<open>PasskeyStep\<close>

datatype passkey_view =
    Passkey_ready
  | Passkey_pending
  | Passkey_cancelled
  | Passkey_success passkey_record
  | Passkey_blocked string

record passkey_component =
  pc_state :: passkey_view
  pc_actionLock :: bool
  pc_storage :: "string \<rightharpoonup> string"
  pc_registrations :: nat
  pc_created :: "passkey_record list"

definition passkey_button :: "browser \<Rightarrow> passkey_component \<Rightarrow> bool" where
  "passkey_button B s \<longleftrightarrow> passkeyCapabilityProblem B = None \<and> (case pc_state s of
     Passkey_success r \<Rightarrow> False | Passkey_pending \<Rightarrow> False | Passkey_blocked m \<Rightarrow> False | _ \<Rightarrow> True)"

definition createPasskey :: "browser \<Rightarrow> passkey_component \<Rightarrow> passkey_component" where
  "createPasskey B s =
     (if pc_actionLock s \<or> passkeyCapabilityProblem B \<noteq> None \<or> (case pc_state s of Passkey_blocked m \<Rightarrow> True | _ \<Rightarrow> False) then s
      else s\<lparr>pc_actionLock := True, pc_state := Passkey_pending, pc_registrations := Suc (pc_registrations s)\<rparr>)"

definition passkey_view_of_error :: "js_error \<Rightarrow> passkey_view" where
  "passkey_view_of_error e = (case e of
     PasskeyCancelledError \<Rightarrow> Passkey_cancelled
   | PasskeyProtocolError m \<Rightarrow> Passkey_blocked
       ''The browser returned an incompatible passkey response. Use current Chromium on secure localhost.''
   | _ \<Rightarrow> Passkey_blocked ''The passkey public metadata could not be validated or saved.'')"

definition registrationAnswer ::
  "zod \<Rightarrow> (js_value \<Rightarrow> string) \<Rightarrow> js_value js \<Rightarrow> passkey_component \<Rightarrow> passkey_component"
where
  "registrationAnswer Z stringify answer s =
     (let s' = s\<lparr>pc_actionLock := False\<rparr> in
      case answer of
        Inl e \<Rightarrow> s'\<lparr>pc_state := passkey_view_of_error e\<rparr>
      | Inr candidate \<Rightarrow>
          (case parse_as Z PasskeyRecordSchema passkey_record_of candidate of
             None \<Rightarrow> s'\<lparr>pc_state := Passkey_blocked ''The browser did not return valid public metadata for this passkey.''\<rparr>
           | Some record' \<Rightarrow>
               (case savePasskeyRecord Z stringify (passkey_record_json record') (pc_storage s) of
                  Inl e \<Rightarrow> s'\<lparr>pc_state := passkey_view_of_error e\<rparr>
                | Inr storage \<Rightarrow> s'\<lparr>pc_state := Passkey_success record', pc_storage := storage,
                    pc_created := record' # pc_created s\<rparr>)))"

inductive passkey_step :: "browser \<Rightarrow> zod \<Rightarrow> (js_value \<Rightarrow> string) \<Rightarrow> passkey_component \<Rightarrow> passkey_component \<Rightarrow> bool"
  for B Z stringify where
  press: "passkey_button B s \<Longrightarrow> passkey_step B Z stringify s (createPasskey B s)"
| answered: "pc_actionLock s \<Longrightarrow> passkey_step B Z stringify s (registrationAnswer Z stringify answer s)"

section \<open>BootstrapStep\<close>

datatype bootstrap_view =
    Bootstrap_ready
  | Bootstrap_pending
  | Bootstrap_success account_manifest
  | Bootstrap_error string bool

definition safeBootstrapError :: "js_error \<Rightarrow> string \<times> bool" where
  "safeBootstrapError e = (case e of
     DemoApiError code m status \<Rightarrow>
       (case code of
          Server INSUFFICIENT_BALANCE \<Rightarrow>
            (''The local funder does not have enough CKB for the account cells and transaction fee. Fund it, then try again.'', False)
        | Server BOOTSTRAP_FAILED \<Rightarrow>
            (''Account creation may have failed before or after submission. Restart the local demo and inspect account state before taking another action.'', True)
        | Server ACCOUNT_MISMATCH \<Rightarrow>
            (''The existing account does not match this passkey. Use the browser profile that created it and inspect the account manifest.'', True)
        | Server CONFIRMATION_TIMEOUT \<Rightarrow>
            (''Account creation may have been submitted, but commitment was not confirmed. Restart the local demo to reconcile the account before taking another action.'', True)
        | Server DEPLOYMENT_INVALID \<Rightarrow>
            (''The local account setup is incompatible or incomplete. Inspect the deployment and localhost service before continuing.'', True)
        | Server KEY_UNAVAILABLE \<Rightarrow>
            (''The local account setup is incompatible or incomplete. Inspect the deployment and localhost service before continuing.'', True)
        | INVALID_RESPONSE \<Rightarrow>
            (''The local account setup is incompatible or incomplete. Inspect the deployment and localhost service before continuing.'', True)
        | API_UNAVAILABLE \<Rightarrow>
            (''The account request outcome is unknown. Restart the local demo to reconcile account state before taking another action.'', True)
        | _ \<Rightarrow>
            (''The account request outcome could not be verified. Restart the local demo and inspect account state before continuing.'', True))
   | _ \<Rightarrow>
       (''The account request outcome is unknown. Restart the local demo to reconcile account state before taking another action.'', True))"

record bootstrap_component =
  bc_state :: bootstrap_view
  bc_actionLock :: bool
  bc_requests :: nat
  bc_answers :: "account_manifest js list"
  bc_created :: "account_manifest list"

definition bootstrap_button :: "bootstrap_component \<Rightarrow> bool" where
  "bootstrap_button s = (case bc_state s of
     Bootstrap_success a \<Rightarrow> False | Bootstrap_pending \<Rightarrow> False | Bootstrap_error m blocking \<Rightarrow> \<not> blocking | Bootstrap_ready \<Rightarrow> True)"

definition createAccountPressed :: "bootstrap_component \<Rightarrow> bootstrap_component" where
  "createAccountPressed s =
     (if bc_actionLock s \<or> (case bc_state s of Bootstrap_error m blocking \<Rightarrow> blocking | _ \<Rightarrow> False) then s
      else s\<lparr>bc_actionLock := True, bc_state := Bootstrap_pending, bc_requests := Suc (bc_requests s)\<rparr>)"

definition bootstrapAnswer ::
  "web \<Rightarrow> demo_status \<Rightarrow> account_manifest js \<Rightarrow> bootstrap_component \<Rightarrow> bootstrap_component"
where
  "bootstrapAnswer W status answer s =
     (let s' = s\<lparr>bc_actionLock := False, bc_answers := answer # bc_answers s\<rparr> in
      case bind_r answer (\<lambda>candidate. bind_r (spend_account W status candidate) (\<lambda>va. Inr (va_manifest va))) of
        Inr account \<Rightarrow> s'\<lparr>bc_state := Bootstrap_success account, bc_created := account # bc_created s\<rparr>
      | Inl e \<Rightarrow> (case safeBootstrapError e of (m, blocking) \<Rightarrow> s'\<lparr>bc_state := Bootstrap_error m blocking\<rparr>))"

inductive bootstrap_step :: "web \<Rightarrow> demo_status \<Rightarrow> bootstrap_component \<Rightarrow> bootstrap_component \<Rightarrow> bool" for W status where
  press: "bootstrap_button s \<Longrightarrow> bootstrap_step W status s (createAccountPressed s)"
| answered: "bc_actionLock s \<Longrightarrow> bootstrap_step W status s (bootstrapAnswer W status answer s)"

section \<open>Receipt\<close>

record receipt_component =
  rc_checking :: bool
  rc_notice :: "string option"
  rc_error :: "string option"
  rc_checkLock :: bool
  rc_shown :: "receipt list"

text \<open>What the component renders from its receipt.\<close>

datatype receipt_view = Malformed_receipt | Foreign_explorer_link | Receipt_card receipt

definition receipt_card :: "zod \<Rightarrow> js_value \<Rightarrow> receipt_view" where
  "receipt_card Z receiptValue = (case parse_as Z TransactionReceiptSchema receipt_of receiptValue of
     None \<Rightarrow> Malformed_receipt
   | Some r \<Rightarrow> if r_explorerUrl r \<noteq> EXPLORER_URL @ r_txHash r then Foreign_explorer_link else Receipt_card r)"

definition copyHash :: "bool \<Rightarrow> unit js \<Rightarrow> receipt_component \<Rightarrow> receipt_component" where
  "copyHash clipboard answer s =
     (let s' = s\<lparr>rc_error := None\<rparr> in
      if \<not> clipboard
      then s'\<lparr>rc_error := Some ''Clipboard access is unavailable. Select the full transaction hash instead.''\<rparr>
      else case answer of
        Inr _ \<Rightarrow> s'\<lparr>rc_notice := Some ''Transaction hash copied.''\<rparr>
      | Inl e \<Rightarrow> s'\<lparr>rc_error := Some ''The transaction hash could not be copied. Select the full value instead.''\<rparr>)"

text \<open>The receipt handed to \<^verbatim>\<open>confirm\<close>, when a check starts.\<close>

definition checkAgain :: "receipt \<Rightarrow> receipt_component \<Rightarrow> receipt option \<times> receipt_component" where
  "checkAgain r s =
     (if rc_checkLock s \<or> r_status r = ''committed'' then (None, s)
      else (Some (r\<lparr>r_status := ''submitted''\<rparr>), s\<lparr>rc_checkLock := True, rc_checking := True, rc_error := None\<rparr>))"

definition checkAnswer :: "receipt js \<Rightarrow> receipt_component \<Rightarrow> receipt_component" where
  "checkAnswer answer s =
     (let s' = s\<lparr>rc_checkLock := False, rc_checking := False\<rparr> in
      case answer of
        Inr confirmed \<Rightarrow> s'\<lparr>rc_shown := confirmed # rc_shown s\<rparr>
      | Inl e \<Rightarrow> s'\<lparr>rc_error := Some ''The existing transaction could not be checked. No new transaction was sent.''\<rparr>)"

section \<open>Amounts\<close>

text \<open>\<^verbatim>\<open>BigInt(s)\<close> of a decimal string, and \<^verbatim>\<open>formatCkb\<close> of SpendStep.tsx and Receipt.tsx; \<^verbatim>\<open>/\<close> and \<^verbatim>\<open>%\<close> on
  \<^verbatim>\<open>bigint\<close> round towards zero.\<close>

definition BigInt :: "string \<Rightarrow> int" where
  "BigInt s = (case s of [] \<Rightarrow> 0 | c # r \<Rightarrow> if c = CHR ''-'' then - int (of_dec r) else int (of_dec s))"

definition formatCkbText :: "string \<Rightarrow> string" where
  "formatCkbText shannons =
     (let value = BigInt shannons; whole = value sdiv 100000000;
          fraction = strip_zeros (padStart 8 CHR ''0'' (dec_int (value smod 100000000))) in
      if length fraction = 0 then dec_int whole @ '' CKB'' else dec_int whole @ ''.'' @ fraction @ '' CKB'')"

text \<open>A comma before every group of three digits that ends the string, except at its start.\<close>

fun group_digits :: "string \<Rightarrow> string" where
  "group_digits [] = []"
| "group_digits (c # cs) = c # (if cs \<noteq> [] \<and> length cs mod 3 = 0 then CHR '','' # group_digits cs else group_digits cs)"

definition groupedDecimal :: "nat \<Rightarrow> string" where
  "groupedDecimal value = group_digits (dec value)"

definition formatCkbBalance :: "string \<Rightarrow> string" where
  "formatCkbBalance shannons =
     (let value = of_dec shannons; whole = value div 100000000;
          fraction = strip_zeros (padStart 8 CHR ''0'' (dec (value mod 100000000))) in
      groupedDecimal whole @ (if fraction = [] then [] else ''.'' @ fraction) @ '' CKB'')"

lemma BigInt_dec: "BigInt (dec n) = int n"
proof -
  obtain c r where d: "dec n = c # r" by (cases "dec n") simp_all
  then have "BigInt (dec n) = int (of_dec (dec n))"
    using dec_digits [of n] by (auto simp: BigInt_def is_digit_def)
  then show ?thesis by simp
qed

lemma dec_zero: "dec 0 = ''0''"
  by code_simp

lemma strip_zero_fraction: "strip_zeros (padStart 8 CHR ''0'' (dec r)) = [] \<longleftrightarrow> r = 0" if "r < 100000000"
proof
  assume z: "strip_zeros (padStart 8 CHR ''0'' (dec r)) = []"
  show "r = 0"
  proof (rule ccontr)
    assume "r \<noteq> 0"
    then have "hd (dec r) \<noteq> CHR ''0''" using hd_dec by simp
    moreover have "hd (dec r) \<in> set (dec r)" by simp
    ultimately show False
      using z by (auto simp: strip_zeros_def padStart_def dropWhile_eq_Nil_conv)
  qed
qed (simp add: dec_zero strip_zeros_def padStart_def)

lemma fraction_text_eq:
  assumes "r < 100000000"
  shows "(if strip_zeros (padStart 8 CHR ''0'' (dec r)) = [] then [] else ''.'' @ strip_zeros (padStart 8 CHR ''0'' (dec r))) = fraction_text r"
  using strip_zero_fraction [OF assms] by (simp add: fraction_text_def)

lemma filter_group_digits: "list_all is_digit s \<Longrightarrow> filter (\<lambda>c. c \<noteq> CHR '','') (group_digits s) = s"
  by (induction s) (auto simp: is_digit_def)

text \<open>The displayed amounts determine the amount: without their commas all formats agree.\<close>

lemma displayed_amounts:
  "formatCkbText (dec n) = filter (\<lambda>c. c \<noteq> CHR '','') (formatCkb (int n))"
  "filter (\<lambda>c. c \<noteq> CHR '','') (formatCkbBalance (dec n)) = filter (\<lambda>c. c \<noteq> CHR '','') (formatCkb (int n))"
proof -
  let ?r = "n mod 100000000"
  have plain: "filter (\<lambda>c. c \<noteq> CHR '','') (formatCkb (int n)) = dec (n div 100000000) @ fraction_text ?r @ '' CKB''"
    unfolding formatCkb_nat fraction_text_def [symmetric] by (simp add: filter_locale_int fraction_text_no_comma)
  have "formatCkbText (dec n) = dec (n div 100000000) @ fraction_text ?r @ '' CKB''"
    using fraction_text_eq [of ?r] by (auto simp: formatCkbText_def Let_def BigInt_dec bigint_div_mod dec_int_def split: if_splits)
  then show "formatCkbText (dec n) = filter (\<lambda>c. c \<noteq> CHR '','') (formatCkb (int n))" using plain by simp
  have "formatCkbBalance (dec n) = groupedDecimal (n div 100000000) @ fraction_text ?r @ '' CKB''"
    using fraction_text_eq [of ?r] by (auto simp: formatCkbBalance_def Let_def split: if_splits)
  then show "filter (\<lambda>c. c \<noteq> CHR '','') (formatCkbBalance (dec n)) = filter (\<lambda>c. c \<noteq> CHR '','') (formatCkb (int n))"
    using plain by (simp add: groupedDecimal_def filter_group_digits dec_digits fraction_text_no_comma)
qed

section \<open>Invariants\<close>

definition passkey_start :: "(string \<rightharpoonup> string) \<Rightarrow> passkey_component" where
  "passkey_start storage = \<lparr>pc_state = Passkey_ready, pc_actionLock = False, pc_storage = storage, pc_registrations = 0, pc_created = []\<rparr>"

text \<open>A success is stored, and only one registration runs at a time.\<close>

definition passkey_inv :: "zod \<Rightarrow> (js_value \<Rightarrow> string) \<Rightarrow> passkey_component \<Rightarrow> bool" where
  "passkey_inv Z stringify s \<longleftrightarrow> (pc_actionLock s \<longleftrightarrow> pc_state s = Passkey_pending)
     \<and> (\<forall>r. pc_state s = Passkey_success r \<longrightarrow> passkey_record_ok (z_format Z) r
          \<and> pc_storage s PASSKEY_STORAGE_KEY = Some (stringify (passkey_record_json r)))"

lemma passkey_view_of_error_cases: "passkey_view_of_error e \<noteq> Passkey_pending" "passkey_view_of_error e \<noteq> Passkey_success r"
  by (auto simp: passkey_view_of_error_def split: js_error.split)

lemma savePasskeyRecord_ok:
  "zod_ok Z \<Longrightarrow> passkey_record_ok (z_format Z) r \<Longrightarrow>
   savePasskeyRecord Z stringify (passkey_record_json r) storage = Inr (storage(PASSKEY_STORAGE_KEY \<mapsto> stringify (passkey_record_json r)))"
  by (simp add: savePasskeyRecord_def passkey.parse_or_throw_printed)

lemma passkey_inv_step:
  assumes "zod_ok Z" and "passkey_step B Z stringify s t" and "passkey_inv Z stringify s"
  shows "passkey_inv Z stringify t"
  using assms(2,3)
proof (induction rule: passkey_step.induct)
  case (press s)
  then show ?case by (auto simp: passkey_inv_def createPasskey_def)
next
  case (answered s answer)
  show ?case
  proof (cases "\<exists>v r. answer = Inr v \<and> parse_as Z PasskeyRecordSchema passkey_record_of v = Some r")
    case True
    then obtain v r where v: "answer = Inr v" "parse_as Z PasskeyRecordSchema passkey_record_of v = Some r" by blast
    have "passkey_record_ok (z_format Z) r" by (rule passkey.parse_as_ok [OF assms(1) v(2)])
    then show ?thesis
      using savePasskeyRecord_ok [OF assms(1)] by (simp add: registrationAnswer_def v passkey_inv_def)
  next
    case False
    then show ?thesis
      by (auto simp: registrationAnswer_def passkey_inv_def passkey_view_of_error_cases Let_def split: sum.split option.split)
  qed
qed

lemma passkey_reachable:
  assumes "zod_ok Z" and "reachable (passkey_start storage) (passkey_step B Z stringify) s"
  shows "passkey_inv Z stringify s"
proof -
  have "machine (passkey_start storage) (passkey_step B Z stringify) (passkey_inv Z stringify)"
    by unfold_locales (simp add: passkey_inv_def passkey_start_def, rule passkey_inv_step [OF assms(1)])
  then show ?thesis using assms(2) by (rule machine.reachable_inv)
qed

definition bootstrap_start :: bootstrap_component where
  "bootstrap_start = \<lparr>bc_state = Bootstrap_ready, bc_actionLock = False, bc_requests = 0, bc_answers = [], bc_created = []\<rparr>"

text \<open>The one answer after which the component offers the button again.\<close>

definition balance_answer :: "account_manifest js \<Rightarrow> bool" where
  "balance_answer answer = (case answer of
     Inl (DemoApiError code m status) \<Rightarrow> code = Server INSUFFICIENT_BALANCE | _ \<Rightarrow> False)"

lemma nonblocking_error: "safeBootstrapError e = (m, False) \<Longrightarrow> \<exists>msg st. e = DemoApiError (Server INSUFFICIENT_BALANCE) msg st"
  by (auto simp: safeBootstrapError_def split: js_error.splits demo_api_error_code.splits api_error_code.splits)

definition bootstrap_inv :: "web \<Rightarrow> demo_status \<Rightarrow> bootstrap_component \<Rightarrow> bool" where
  "bootstrap_inv W status s \<longleftrightarrow>
     bc_requests s = length (bc_answers s) + (if bc_actionLock s then 1 else 0)
     \<and> (bc_actionLock s \<longleftrightarrow> bc_state s = Bootstrap_pending)
     \<and> (if bc_actionLock s \<or> bootstrap_button s then list_all balance_answer (bc_answers s) else list_all balance_answer (tl (bc_answers s)))
     \<and> list_all (\<lambda>a. \<exists>m va. spend_account W status m = Inr va \<and> a = va_manifest va) (bc_created s)"

text \<open>Validating a manifest throws a \<^verbatim>\<open>TypeError\<close> at most, which the component treats as blocking.\<close>

lemma spend_account_error: "spend_account W status m = Inl e \<Longrightarrow> \<not> (\<exists>c msg st. e = DemoApiError c msg st)"
  by (auto simp: spend_account_def validateDeployment_def validateAccount_def invalidManifest_def Let_def bind_r_Inl_iff
      split: option.splits if_splits)

lemma bootstrap_answer_cases:
  obtains (created) m va where "answer = Inr m" "spend_account W status m = Inr va"
      "bootstrapAnswer W status answer s = s\<lparr>bc_actionLock := False, bc_answers := answer # bc_answers s,
         bc_state := Bootstrap_success (va_manifest va), bc_created := va_manifest va # bc_created s\<rparr>"
  | (failed) m blocking where "\<not> blocking \<longrightarrow> balance_answer answer"
      "bootstrapAnswer W status answer s = s\<lparr>bc_actionLock := False, bc_answers := answer # bc_answers s,
         bc_state := Bootstrap_error m blocking\<rparr>"
proof (cases "bind_r answer (\<lambda>candidate. bind_r (spend_account W status candidate) (\<lambda>va. Inr (va_manifest va)))")
  case (Inr a)
  then show ?thesis by (auto simp: bind_r_Inr_iff bootstrapAnswer_def Let_def intro: created)
next
  case (Inl e)
  obtain m blocking where b: "safeBootstrapError e = (m, blocking)" by fastforce
  have "balance_answer answer" if nonblocking: "\<not> blocking"
  proof -
    obtain msg st where e: "e = DemoApiError (Server INSUFFICIENT_BALANCE) msg st"
      using nonblocking_error [of e m] b nonblocking by auto
    then have "answer = Inl e"
      using Inl spend_account_error [of W status _ e] by (auto simp: bind_r_Inl_iff)
    with e show ?thesis by (simp add: balance_answer_def)
  qed
  then show ?thesis using Inl b by (intro failed) (auto simp: bootstrapAnswer_def Let_def)
qed

lemma bootstrap_inv_step:
  assumes "bootstrap_step W status s t" and "bootstrap_inv W status s"
  shows "bootstrap_inv W status t"
  using assms
proof (induction rule: bootstrap_step.induct)
  case (press s)
  then show ?case
    by (auto simp: bootstrap_inv_def createAccountPressed_def bootstrap_button_def split: bootstrap_view.splits if_splits)
next
  case (answered s answer)
  then have balance: "list_all balance_answer (bc_answers s)" by (simp add: bootstrap_inv_def)
  show ?case
  proof (cases rule: bootstrap_answer_cases [of answer W status s])
    case (created m va)
    then show ?thesis using answered balance by (auto simp: bootstrap_inv_def bootstrap_button_def)
  next
    case (failed m blocking)
    then show ?thesis using answered balance by (auto simp: bootstrap_inv_def bootstrap_button_def)
  qed
qed

interpretation bootstrap_ui: machine bootstrap_start "bootstrap_step W status" "bootstrap_inv W status" for W status
  by unfold_locales (simp add: bootstrap_inv_def bootstrap_start_def, rule bootstrap_inv_step)

section \<open>Property\<close>

text \<open>
  C31: account creation is retried only when it is safe. In every reachable state of the account
  step, at most one creation request is unanswered, and the button can send another one only if
  every earlier request was answered with \<^verbatim>\<open>INSUFFICIENT_BALANCE\<close>, which the server reports before it
  creates anything: after a success, an unknown outcome or any other error no further request can
  be sent. An account is reported to the wizard only if it validates against the status's
  deployment.
\<close>

theorem account_creation_retried_only_when_safe:
  assumes "reachable bootstrap_start (bootstrap_step W status) s"
  shows "bc_requests s \<le> Suc (length (bc_answers s))
    \<and> (bc_requests (createAccountPressed s) \<noteq> bc_requests s \<and> bootstrap_button s \<longrightarrow>
         (\<forall>answer \<in> set (bc_answers s). \<exists>m st. answer = Inl (DemoApiError (Server INSUFFICIENT_BALANCE) m st)))
    \<and> (a \<in> set (bc_created s) \<longrightarrow> (\<exists>m va. spend_account W status m = Inr va \<and> a = va_manifest va))"
proof -
  have inv: "bootstrap_inv W status s" by (rule bootstrap_ui.reachable_inv [OF assms])
  have "\<exists>m st. answer = Inl (DemoApiError (Server INSUFFICIENT_BALANCE) m st)" if "balance_answer answer" for answer
    using that by (auto simp: balance_answer_def split: sum.splits js_error.splits)
  then show ?thesis
    using inv by (auto simp: bootstrap_inv_def list_all_iff)
qed

definition example_retry :: bootstrap_component where
  "example_retry = bootstrapAnswer example_web example_status
     (Inl (DemoApiError (Server INSUFFICIENT_BALANCE) ''low'' (Some 409))) (createAccountPressed bootstrap_start)"

lemma example_retry_reachable: "reachable bootstrap_start (bootstrap_step example_web example_status) example_retry"
  unfolding example_retry_def
  by (rule reachable.step, rule reachable.step, rule reachable.start, rule bootstrap_step.press)
     (simp add: bootstrap_button_def bootstrap_start_def, rule bootstrap_step.answered,
      simp add: createAccountPressed_def bootstrap_start_def)

theorem account_creation_retried_only_when_safe_witness:
  "bc_requests (createAccountPressed example_retry) = 2
   \<and> (\<exists>m st. hd (bc_answers example_retry) = Inl (DemoApiError (Server INSUFFICIENT_BALANCE) m st))"
  using account_creation_retried_only_when_safe [OF example_retry_reachable]
  by (simp add: example_retry_def createAccountPressed_def bootstrap_start_def bootstrapAnswer_def safeBootstrapError_def
      bootstrap_button_def)

end
