(* ===== verification/Render.thy ===== *)
theory Render
  imports Steps
begin

text \<open>
  The markup the browser components return: the JSX of demo/src/client/App.tsx, StatusHeader.tsx,
  PasskeyStep.tsx, BootstrapStep.tsx, SpendStep.tsx and Receipt.tsx as functions from the components'
  states to a tree. A fragment or a conditional child is a list that is spliced into its parent, a
  boolean attribute is present exactly when it is true, and an \<^verbatim>\<open>onClick\<close> handler is the name of the
  handler it calls with its argument. The React-only attributes \<^verbatim>\<open>key\<close> and \<^verbatim>\<open>ref\<close>, which are not
  rendered, are left out, adjacent pieces of text are joined, and the two characters outside ASCII are
  written as their UTF-8 bytes.
\<close>

section \<open>Markup\<close>

datatype ui_action =
    Click_createPasskey
  | Click_createAccount
  | Click_authorize prepared_spend
  | Click_copyHash
  | Click_checkAgain

datatype markup =
    Text string
  | Element string "(string \<times> string) list" "ui_action option" "markup list"

abbreviation el :: "string \<Rightarrow> (string \<times> string) list \<Rightarrow> markup list \<Rightarrow> markup" where
  "el tag attributes children \<equiv> Element tag attributes None children"

definition flag :: "string \<Rightarrow> bool \<Rightarrow> (string \<times> string) list" where
  "flag name b = (if b then [(name, [])] else [])"

definition bool_text :: "bool \<Rightarrow> string" where
  "bool_text b = (if b then ''true'' else ''false'')"

definition only_if :: "bool \<Rightarrow> 'a list \<Rightarrow> 'a list" where
  "only_if b xs = (if b then xs else [])"

definition ellipsis :: string where
  "ellipsis = [CHR 0xE2, CHR 0x80, CHR 0xA6]"

definition middle_dot :: string where
  "middle_dot = [CHR 0xC2, CHR 0xB7]"

text \<open>A button reacts to a click unless it is disabled; \<open>offered\<close> lists what a page's user can do.\<close>

fun offered :: "markup \<Rightarrow> ui_action list" where
  "offered (Text s) = []"
| "offered (Element tag as handler children) =
     (case handler of Some a \<Rightarrow> if ''disabled'' \<in> fst ` set as then [] else [a] | None \<Rightarrow> [])
     @ concat (map offered children)"

fun text_content :: "markup \<Rightarrow> string" where
  "text_content (Text s) = s"
| "text_content (Element tag as handler children) = concat (map text_content children)"

text \<open>The text of every element with a given tag, in document order.\<close>

fun texts :: "string \<Rightarrow> markup \<Rightarrow> string list" where
  "texts t (Text s) = []"
| "texts t (Element tag as handler children) =
     (if tag = t then [concat (map text_content children)] else concat (map (texts t) children))"

section \<open>Elements that recur\<close>

definition spinner :: markup where
  "spinner = el ''span'' [(''className'', ''spinner''), (''aria-hidden'', ''true'')] []"

definition status_line :: "markup list \<Rightarrow> markup" where
  "status_line children =
     el ''p'' [(''role'', ''status''), (''aria-live'', ''polite''), (''className'', ''inline-status'')] children"

definition alert_line :: "string \<Rightarrow> string \<Rightarrow> markup" where
  "alert_line live message =
     el ''p'' [(''role'', ''alert''), (''aria-live'', live), (''className'', ''inline-error'')] [Text message]"

definition plain_alert :: "string \<Rightarrow> markup" where
  "plain_alert message = el ''p'' [(''role'', ''alert''), (''className'', ''inline-error'')] [Text message]"

definition paragraph_of :: "string \<Rightarrow> string \<Rightarrow> markup" where
  "paragraph_of class message = el ''p'' [(''className'', class)] [Text message]"

definition row :: "string \<Rightarrow> string \<Rightarrow> markup" where
  "row name content = el ''div'' [] [el ''dt'' [] [Text name], el ''dd'' [] [Text content]]"

definition action_button :: "string \<Rightarrow> bool \<Rightarrow> bool \<Rightarrow> ui_action \<Rightarrow> string \<Rightarrow> markup" where
  "action_button class disabled busy action label =
     Element ''button'' ([(''type'', ''button''), (''className'', class)] @ flag ''disabled'' disabled
       @ [(''aria-busy'', bool_text busy)]) (Some action) [Text label]"

definition explorer_link :: "string \<Rightarrow> string \<Rightarrow> markup" where
  "explorer_link href label =
     el ''a'' [(''className'', ''secondary-action''), (''href'', href), (''target'', ''_blank''), (''rel'', ''noreferrer'')]
       [Text label]"

lemmas markup_simps = spinner_def status_line_def alert_line_def plain_alert_def paragraph_of_def row_def
  action_button_def explorer_link_def only_if_def flag_def

section \<open>SpendStep\<close>

definition dependencyName :: "string \<Rightarrow> string" where
  "dependencyName name =
     (if name = ''account_lock'' then ''AccountLock code''
      else if name = ''verifier_p256'' then ''P-256 verifier code''
      else if name = ''account_state'' then ''AccountState cell'' else [])"

text \<open>\<^verbatim>\<open>"prepared" in state ? state.prepared : undefined\<close>\<close>

definition prepared_of :: "spend_view \<Rightarrow> prepared_spend option" where
  "prepared_of state = (case state of
     Preparing \<Rightarrow> None
   | Spend_ready p n \<Rightarrow> Some p
   | Spend_working p ph \<Rightarrow> Some p
   | Spend_submitted p \<Rightarrow> Some p
   | Spend_blocked m q \<Rightarrow> q)"

definition out_point_row :: "string \<times> int \<Rightarrow> string" where
  "out_point_row o' = (case o' of (h, i) \<Rightarrow> h @ '':'' @ dec_int i)"

definition spend_summary :: "prepared_spend \<Rightarrow> markup list" where
  "spend_summary prepared =
     [el ''dl'' [(''className'', ''review-summary'')]
        [row ''Input capacity'' (formatCkbText (inputCapacityShannons (pr_review prepared))),
         row ''Transfer to local funder'' (formatCkbText (transferCapacityShannons (pr_review prepared))),
         row ''AccountLock change'' (formatCkbText (changeCapacityShannons (pr_review prepared))),
         row ''Transaction fee'' (formatCkbText (feeShannons (pr_review prepared))),
         row ''Live asset input'' (out_point_row (inputOutPoint (pr_review prepared))),
         row ''Authorization digest'' (hexFromBytes (pr_authorizationDigest prepared))],
      el ''div'' [(''className'', ''dependency-summary'')]
        [el ''h3'' [] [Text ''Verified dependencies''],
         el ''ol'' [(''className'', ''dependency-list'')]
           (map (\<lambda>(name, dep). el ''li'' []
              [el ''span'' [] [Text (dependencyName name)], el ''code'' [] [Text (out_point_row dep)]])
            (dependencies (pr_review prepared)))]]"

definition renderSpendStep :: "spend_view \<Rightarrow> markup" where
  "renderSpendStep state =
     (let pending = (case state of Spend_working p ph \<Rightarrow> True | _ \<Rightarrow> False);
          blocked = (case state of Spend_blocked m q \<Rightarrow> True | _ \<Rightarrow> False);
          submitted = (case state of Spend_submitted p \<Rightarrow> True | _ \<Rightarrow> False)
      in el ''section'' [(''className'', ''step-card''), (''aria-labelledby'', ''spend-step-heading'')]
        ([paragraph_of ''step-number'' ''STEP 03 / 03'',
          el ''h2'' [(''id'', ''spend-step-heading'')] [Text ''Authorize your first spend''],
          paragraph_of ''step-copy''
            (''Review the exact fixed transfer, fee, change, live input, and code dependencies before your ''
             @ ''passkey authorizes this transaction.'')]
         @ (case state of Preparing \<Rightarrow>
              [status_line [spinner, Text (''Discovering live account cells and preparing the transaction'' @ ellipsis)]]
            | _ \<Rightarrow> [])
         @ (case prepared_of state of Some prepared \<Rightarrow> spend_summary prepared | None \<Rightarrow> [])
         @ (case state of Spend_ready p (Some notice) \<Rightarrow> [status_line [Text notice]] | _ \<Rightarrow> [])
         @ (case state of Spend_working p phase \<Rightarrow>
              [status_line [spinner, Text (if phase = Authorizing_phase then ''Waiting for passkey authorization'' @ ellipsis
                 else ''Submitting the authorized transaction exactly once'' @ ellipsis)]]
            | _ \<Rightarrow> [])
         @ (case state of Spend_blocked message q \<Rightarrow> [alert_line ''assertive'' message] | _ \<Rightarrow> [])
         @ (case prepared_of state of Some prepared \<Rightarrow>
              only_if (\<not> submitted)
                [action_button ''primary-action'' (pending \<or> blocked) pending (Click_authorize prepared)
                   (case state of Spend_working p phase \<Rightarrow>
                      if phase = Authorizing_phase then ''Waiting for passkey'' else ''Submitting transaction''
                    | _ \<Rightarrow> ''Authorize 100 CKB spend'')]
            | None \<Rightarrow> [])
         @ [paragraph_of ''action-note''
              ''The passkey challenge commits to the reviewed transaction. No browser-held CKB private key.'']))"

section \<open>Receipt\<close>

definition renderReceipt :: "zod \<Rightarrow> js_value \<Rightarrow> string option \<Rightarrow> receipt_component \<Rightarrow> markup" where
  "renderReceipt Z receiptValue reconciliationError s = (case receipt_card Z receiptValue of
     Malformed_receipt \<Rightarrow> plain_alert ''The transaction receipt is malformed.''
   | Foreign_explorer_link \<Rightarrow>
       plain_alert ''The receipt explorer link does not match the CKB testnet transaction.''
   | Receipt_card receipt \<Rightarrow>
       let committed = (r_status receipt = ''committed'');
           timedOut = (r_status receipt = ''confirmation_timeout'');
           statusMessage =
             (if committed then ''The spend is committed with a verified live AccountLock change.''
              else if timedOut
              then ''Confirmation is taking longer than expected. The submitted transaction hash is preserved.''
              else ''The transaction was submitted once and is waiting for testnet commitment.'')
       in el ''section'' [(''className'', ''step-card receipt-card'' @ (if committed then '' committed-card'' else [])),
              (''aria-labelledby'', ''receipt-heading'')]
         ([paragraph_of ''step-number'' (if committed then ''COMMITTED'' else ''SUBMITTED''),
           el ''h2'' [(''id'', ''receipt-heading'')] [Text (if committed then ''Spend committed'' else ''Transaction submitted'')],
           el ''output'' [(''role'', ''status''), (''aria-live'', ''polite''), (''className'', ''inline-status'')]
             [Text (statusMessage @ (case rc_notice s of None \<Rightarrow> [] | Some notice \<Rightarrow> '' '' @ notice))],
           el ''div'' [(''className'', ''hash-panel'')]
             [el ''p'' [] [Text ''Transaction hash''],
              el ''code'' [(''aria-label'', ''Transaction hash '' @ r_txHash receipt)] [Text (r_txHash receipt)],
              Element ''button'' [(''type'', ''button''), (''className'', ''tertiary-action'')] (Some Click_copyHash)
                [Text ''Copy transaction hash'']]]
          @ only_if committed
              [el ''dl'' [(''className'', ''review-summary'')]
                 [row ''Verified AccountLock change'' (formatCkbText (r_remainingCapacityShannons receipt))]]
          @ (case rc_error s of None \<Rightarrow> [] | Some error \<Rightarrow> [plain_alert error])
          @ (case reconciliationError of None \<Rightarrow> [] | Some error \<Rightarrow> [alert_line ''assertive'' error])
          @ [el ''div'' [(''className'', ''receipt-actions'')]
               ([explorer_link (r_explorerUrl receipt) ''View transaction in explorer'']
                @ only_if (\<not> committed)
                    [action_button ''tertiary-action'' (rc_checking s) (rc_checking s) Click_checkAgain
                       (if rc_checking s then ''Checking transaction'' else ''Check again'')])]))"

section \<open>PasskeyStep\<close>

definition renderPasskeyStep :: "browser \<Rightarrow> passkey_view \<Rightarrow> markup" where
  "renderPasskeyStep B state =
     (let capabilityProblem = passkeyCapabilityProblem B;
          pending = (state = Passkey_pending);
          blocked = (case state of Passkey_blocked m \<Rightarrow> True | _ \<Rightarrow> False);
          success = (case state of Passkey_success r \<Rightarrow> True | _ \<Rightarrow> False)
      in el ''section'' [(''className'', ''step-card''), (''aria-labelledby'', ''passkey-step-heading'')]
        ([paragraph_of ''step-number'' ''STEP 01 / 03'',
          el ''h2'' [(''id'', ''passkey-step-heading'')] [Text ''Create your passkey''],
          paragraph_of ''step-copy''
            (''Create a device-bound P-256 credential. Only its public key and credential ID stay in this browser. ''
             @ ''The browser does not expose the passkey private key.'')]
         @ (case capabilityProblem of None \<Rightarrow> [] | Some problem \<Rightarrow> [alert_line ''assertive'' problem])
         @ only_if (state = Passkey_cancelled)
             [status_line [Text ''Passkey creation was cancelled. You can try again when ready.'']]
         @ only_if pending [status_line [spinner, Text (''Waiting for your browser to create the passkey'' @ ellipsis)]]
         @ (case state of Passkey_blocked message \<Rightarrow> [alert_line ''assertive'' message] | _ \<Rightarrow> [])
         @ (case state of Passkey_success record' \<Rightarrow>
              [status_line [Text ''Passkey public metadata is saved in this browser.''],
               el ''dl'' [(''className'', ''key-summary'')]
                 [row ''Passkey public key'' (pk_publicKey record'), row ''Passkey key ID'' (pk_keyId record')]]
            | _ \<Rightarrow> [])
         @ only_if (capabilityProblem = None \<and> \<not> success)
             [action_button ''primary-action'' (pending \<or> blocked) pending Click_createPasskey
                (if pending then ''Creating passkey'' else ''Create passkey'')]
         @ [paragraph_of ''action-note'' ''No mainnet funds. No browser-held CKB private key.'']))"

section \<open>BootstrapStep\<close>

definition renderBootstrapStep :: "demo_status \<Rightarrow> passkey_record \<Rightarrow> bootstrap_view \<Rightarrow> markup" where
  "renderBootstrapStep status passkey state =
     (let pending = (state = Bootstrap_pending);
          blocking = (case state of Bootstrap_error m b \<Rightarrow> b | _ \<Rightarrow> False);
          success = (case state of Bootstrap_success a \<Rightarrow> True | _ \<Rightarrow> False)
      in el ''section'' [(''className'', ''step-card''), (''aria-labelledby'', ''bootstrap-step-heading'')]
        ([paragraph_of ''step-number'' ''STEP 02 / 03'',
          el ''h2'' [(''id'', ''bootstrap-step-heading'')] [Text ''Create your testnet account''],
          paragraph_of ''step-copy''
            (''The localhost funder will publish one AccountState cell and one 200 CKB AccountLock asset for this ''
             @ ''passkey.''),
          el ''dl'' [(''className'', ''review-summary'')]
            [row ''Passkey public key'' (pk_publicKey passkey),
             row ''Passkey key ID'' (pk_keyId passkey),
             row ''Account asset'' ''200 CKB'',
             row ''Local funder'' (ds_funderAddress status),
             row ''AccountLock data hash'' (da_dataHash (dm_account_lock (ds_deployment status))),
             row ''P-256 verifier data hash'' (da_dataHash (dm_verifier_p256 (ds_deployment status)))]]
         @ only_if pending
             [status_line [spinner, Text (''Submitting account creation and waiting for testnet commitment'' @ ellipsis)]]
         @ (case state of Bootstrap_error message b \<Rightarrow> [alert_line (if b then ''assertive'' else ''polite'') message] | _ \<Rightarrow> [])
         @ (case state of Bootstrap_success account \<Rightarrow>
              [status_line [Text (''Account creation is committed. Rechecking authoritative account state'' @ ellipsis)],
               explorer_link (EXPLORER_URL @ mo_tx_hash (am_state_out_point account)) ''View account creation in explorer'']
            | _ \<Rightarrow> [])
         @ only_if (\<not> success)
             [action_button ''primary-action'' (pending \<or> blocking) pending Click_createAccount
                (if pending then ''Creating testnet account'' else ''Create testnet account'')]
         @ [paragraph_of ''action-note'' ''The browser sends only the credential ID and public key to localhost.'']))"

section \<open>StatusHeader\<close>

definition summary_item :: "string \<Rightarrow> string \<Rightarrow> string \<Rightarrow> markup" where
  "summary_item class name content =
     el ''div'' [(''className'', class)] [el ''dt'' [] [Text name], el ''dd'' [] [Text content]]"

definition renderStatusHeader :: "demo_status option \<Rightarrow> markup" where
  "renderStatusHeader status =
     el ''header'' [(''className'', ''status-header'')]
       [el ''div'' [(''className'', ''brand-row'')]
          [el ''div'' [] [paragraph_of ''brand-kicker'' ''CKB / PASSKEY'', el ''h1'' [] [Text ''Crypto-agile account'']],
           el ''span'' [(''className'', ''network-indicator''), (''aria-label'', ''CKB testnet connection'')]
             [el ''span'' [(''className'', ''network-dot''), (''aria-hidden'', ''true'')] [], Text ''Testnet'']],
        el ''ul'' [(''className'', ''safety-labels''), (''aria-label'', ''Demo safety labels'')]
          [el ''li'' [] [Text ''CKB testnet''], el ''li'' [] [Text ''localhost''], el ''li'' [] [Text ''Unaudited reference'']],
        el ''section'' [(''className'', ''service-summary''), (''aria-label'', ''Local service status'')]
          [case status of
             None \<Rightarrow> paragraph_of ''service-pending'' ''Waiting for the local API and deployment status.''
           | Some st \<Rightarrow> el ''dl'' []
               [summary_item ''summary-item summary-address'' ''Backend funder'' (ds_funderAddress st),
                summary_item ''summary-item'' ''Public balance'' (formatCkbBalance (ds_funderBalanceShannons st)),
                summary_item ''summary-item'' ''Deployment''
                  (if ds_deploymentVerified st then ''Code cells verified'' else ''Verification required'')]]]"

section \<open>App\<close>

text \<open>
  The states of the step components below the wizard, and whether a chain client was passed. An
  exception of \<^verbatim>\<open>validateAccount\<close> in the JSX is an exception of the rendering.
\<close>

record page =
  pg_passkey :: passkey_component
  pg_bootstrap :: bootstrap_component
  pg_spend :: spend_component
  pg_receipt :: receipt_component
  pg_chainClient :: bool

definition visibleStatus :: "wizard_state \<Rightarrow> demo_status option" where
  "visibleStatus state = (case state of
     Loading \<Rightarrow> None
   | Actionable g status a p \<Rightarrow> Some status
   | Receipt_shown g status r \<Rightarrow> Some status
   | Blocked status h m \<Rightarrow> status)"

definition renderLoading :: markup where
  "renderLoading =
     el ''section'' [(''className'', ''step-card''), (''aria-labelledby'', ''loading-heading'')]
       [paragraph_of ''step-number'' ''LOCAL CHECK'',
        el ''h2'' [(''id'', ''loading-heading'')] [Text ''Preparing your account''],
        paragraph_of ''step-copy'' ''Validating the local API, deployment, browser storage, and account manifest.'',
        el ''p'' [(''className'', ''inline-status''), (''role'', ''status''), (''aria-live'', ''polite'')]
          [spinner, Text (''Checking local services'' @ ellipsis)]]"

definition renderNoChainClient :: markup where
  "renderNoChainClient =
     el ''section'' [(''className'', ''step-card blocked-card''), (''aria-labelledby'', ''chain-client-heading'')]
       [paragraph_of ''step-number'' ''ACTION REQUIRED'',
        el ''h2'' [(''id'', ''chain-client-heading'')] [Text ''Public testnet access is unavailable''],
        plain_alert ''The browser chain client is not configured.'']"

definition renderBlocked :: "string \<Rightarrow> string \<Rightarrow> markup" where
  "renderBlocked heading message =
     el ''section'' [(''className'', ''step-card blocked-card''), (''aria-labelledby'', ''blocked-heading'')]
       [paragraph_of ''step-number'' ''ACTION REQUIRED'',
        el ''h2'' [(''id'', ''blocked-heading'')] [Text heading],
        alert_line ''assertive'' message,
        paragraph_of ''step-copy''
          ''This demo fails closed so it cannot strand capacity or authorize with the wrong credential.'']"

definition renderStep :: "web \<Rightarrow> page \<Rightarrow> string option \<Rightarrow> wizard_state \<Rightarrow> markup list js" where
  "renderStep W pg postCommitError displayed = (case displayed of
     Loading \<Rightarrow> Inr [renderLoading]
   | Actionable Needs_passkey status account pk \<Rightarrow> Inr [renderPasskeyStep (web_browser W) (pc_state (pg_passkey pg))]
   | Actionable Needs_account status account pk \<Rightarrow>
       (case pk of Some p \<Rightarrow> Inr [renderBootstrapStep status p (bc_state (pg_bootstrap pg))] | None \<Rightarrow> Inr [])
   | Actionable Ready_to_spend status account pk \<Rightarrow>
       if \<not> pg_chainClient pg then Inr [renderNoChainClient]
       else (case (account, pk) of
           (Some m, Some p) \<Rightarrow> bind_r (spend_account W status m) (\<lambda>va. Inr [renderSpendStep (ss_state (pg_spend pg))])
         | _ \<Rightarrow> Inr [])
   | Blocked status heading message \<Rightarrow> Inr [renderBlocked heading message]
   | Receipt_shown stage status r \<Rightarrow>
       Inr (only_if (pg_chainClient pg) [renderReceipt (web_zod W) (receipt_json r) postCommitError (pg_receipt pg)]))"

definition renderApp :: "web \<Rightarrow> js_value \<Rightarrow> page \<Rightarrow> app \<Rightarrow> markup js" where
  "renderApp W receiptProp pg s =
     (let displayed = displayedState W receiptProp s in
      bind_r (renderStep W pg (ap_postCommitError s) displayed) (\<lambda>step.
      Inr (el ''div'' [(''className'', ''app-shell'')]
        [renderStatusHeader (visibleStatus displayed),
         el ''main'' [(''className'', ''wizard''), (''aria-label'', ''Passkey account setup'')] step,
         el ''footer'' []
           [el ''p'' [] [Text (''Reference implementation '' @ middle_dot @ '' Local browser ceremony '' @ middle_dot
              @ '' CKB testnet only'')]]])))"

section \<open>What the markup offers\<close>

lemma offered_lines [simp]:
  "offered spinner = []" "offered (alert_line l m) = []" "offered (plain_alert m) = []"
  "offered (paragraph_of c m) = []" "offered (row n c) = []" "offered (explorer_link h t) = []"
  "offered (summary_item c n t) = []" "offered (status_line cs) = concat (map offered cs)"
  by (simp_all add: markup_simps summary_item_def)

lemma offered_action_button [simp]: "offered (action_button c d b a t) = (if d then [] else [a])"
  by (simp add: action_button_def flag_def)

lemma only_if_simps [simp]:
  "only_if True xs = xs" "only_if False xs = []" "only_if b [] = []"
  "concat (map offered (only_if b ms)) = only_if b (concat (map offered ms))"
  by (simp_all add: only_if_def)

lemma offered_spend_summary [simp]: "concat (map offered (spend_summary p)) = []"
  by (auto simp: spend_summary_def)

lemma offered_spend:
  "offered (renderSpendStep state) = (case state of Spend_ready p n \<Rightarrow> [Click_authorize p] | _ \<Rightarrow> [])"
proof (cases state)
  case (Spend_ready p n)
  then show ?thesis by (cases n) (simp_all add: renderSpendStep_def prepared_of_def)
next
  case (Spend_blocked m q)
  then show ?thesis by (cases q) (simp_all add: renderSpendStep_def prepared_of_def del: concat_eq_Nil_conv)
qed (simp_all add: renderSpendStep_def prepared_of_def del: concat_eq_Nil_conv)

lemma offered_passkey:
  "offered (renderPasskeyStep B (pc_state s)) = (if passkey_button B s then [Click_createPasskey] else [])"
  by (cases "pc_state s"; cases "passkeyCapabilityProblem B") (simp_all add: renderPasskeyStep_def passkey_button_def)

lemma offered_bootstrap:
  "offered (renderBootstrapStep status p (bc_state s)) = (if bootstrap_button s then [Click_createAccount] else [])"
  by (cases "bc_state s") (simp_all add: renderBootstrapStep_def bootstrap_button_def)

lemma offered_receipt:
  "offered (renderReceipt Z v e s) = (case receipt_card Z v of
     Receipt_card r \<Rightarrow> Click_copyHash # only_if (r_status r \<noteq> ''committed'' \<and> \<not> rc_checking s) [Click_checkAgain]
   | _ \<Rightarrow> [])"
proof (cases "receipt_card Z v")
  case (Receipt_card r)
  then show ?thesis
    by (cases "rc_error s"; cases e; cases "rc_checking s")
       (simp_all add: renderReceipt_def Let_def del: concat_eq_Nil_conv)
qed (simp_all add: renderReceipt_def)

lemma offered_header [simp]: "offered (renderStatusHeader st) = []"
  by (simp add: renderStatusHeader_def split: option.split)

lemma offered_static [simp]: "offered renderLoading = []" "offered renderNoChainClient = []" "offered (renderBlocked h m) = []"
  by (simp_all add: renderLoading_def renderNoChainClient_def renderBlocked_def)

end
