(* ===== verification/RenderProps.thy ===== *)
theory RenderProps
  imports Render
begin

text \<open>
  What the rendered page promises its user: the clicks it offers are the ones the state machines of
  the steps take, and the amounts, outpoints and digest it shows determine the transaction that the
  passkey will sign.
\<close>

section \<open>The page\<close>

lemma offered_page:
  assumes "renderApp W rp pg s = Inr page"
  shows "\<exists>step. renderStep W pg (ap_postCommitError s) (displayedState W rp s) = Inr step
    \<and> offered page = concat (map offered step)"
  using assms by (auto simp: renderApp_def Let_def bind_r_Inr_iff)

lemma displayed_actionable: "displayedState W rp s = Actionable g st a pk \<Longrightarrow> ap_state s = Actionable g st a pk"
  by (auto simp: displayedState_def withReceipt_def split: if_splits wizard_state.splits option.splits)

text \<open>Rendering throws only if the account shown fails to validate, which no reachable state does.\<close>

lemma renderApp_total:
  assumes "reachable app_start (app_step W) s"
  shows "\<exists>page. renderApp W rp pg s = Inr page"
proof -
  have ok: "app_ok W s" by (rule wizard.reachable_inv [OF assms])
  have "\<exists>step. renderStep W pg e (displayedState W rp s) = Inr step" for e
  proof (cases "displayedState W rp s")
    case (Actionable g status account pk)
    then have "ap_state s = Actionable g status account pk" by (rule displayed_actionable)
    then show ?thesis
      using ok validates_spend_account [of W status]
      by (cases g; cases account; cases pk) (auto simp: renderStep_def Actionable wizard_ok_def bind_r_Inr_iff)
  qed (simp_all add: renderStep_def)
  then show ?thesis by (auto simp: renderApp_def Let_def bind_r_Inr_iff)
qed

section \<open>Texts\<close>

lemma texts_lines [simp]:
  "t \<noteq> ''span'' \<Longrightarrow> texts t spinner = []" "t \<noteq> ''p'' \<Longrightarrow> texts t (alert_line l m) = []"
  "t \<noteq> ''p'' \<Longrightarrow> texts t (paragraph_of c m) = []" "texts ''dd'' (row n c) = [c]" "texts ''code'' (row n c) = []"
  "t \<noteq> ''p'' \<Longrightarrow> texts t (status_line cs) = concat (map (texts t) cs)"
  "t \<noteq> ''button'' \<Longrightarrow> texts t (action_button cl d b a l) = []"
  "texts ''dd'' (summary_item cl n c) = [c]" "texts ''code'' (summary_item cl n c) = []"
  by (simp_all add: markup_simps summary_item_def)

lemma texts_dependencies:
  "concat (map (texts ''dd'') (map (\<lambda>(name, dep). el ''li'' [] [el ''span'' [] [Text (f name)], el ''code'' [] [Text (g dep)]]) ds)) = []"
  "concat (map (texts ''code'') (map (\<lambda>(name, dep). el ''li'' [] [el ''span'' [] [Text (f name)], el ''code'' [] [Text (g dep)]]) ds))
    = map (\<lambda>(name, dep). g dep) ds"
  by (induction ds) (auto split: prod.split)

definition shown_amounts :: "prepared_spend \<Rightarrow> string list" where
  "shown_amounts p = map (\<lambda>f. formatCkbText (f (pr_review p)))
     [inputCapacityShannons, transferCapacityShannons, changeCapacityShannons, feeShannons]"

lemma texts_summary:
  "concat (map (texts ''dd'') (spend_summary p)) =
     shown_amounts p @ [out_point_row (inputOutPoint (pr_review p)), hexFromBytes (pr_authorizationDigest p)]"
  "concat (map (texts ''code'') (spend_summary p)) = map (\<lambda>(name, dep). out_point_row dep) (dependencies (pr_review p))"
  unfolding spend_summary_def shown_amounts_def by (simp_all only: list.map concat.simps texts.simps texts_dependencies texts_lines) simp_all

lemma texts_spend:
  "texts ''dd'' (renderSpendStep (Spend_ready p n)) =
     shown_amounts p @ [out_point_row (inputOutPoint (pr_review p)), hexFromBytes (pr_authorizationDigest p)]"
  "texts ''code'' (renderSpendStep (Spend_ready p n)) = map (\<lambda>(name, dep). out_point_row dep) (dependencies (pr_review p))"
  by (cases n; simp add: renderSpendStep_def prepared_of_def texts_summary)+

section \<open>What is shown determines what is signed\<close>

lemma formatCkbText_inject:
  assumes "formatCkbText (dec_int i) = formatCkbText (dec_int j)" and "0 \<le> i" and "0 \<le> j"
  shows "i = j"
proof -
  obtain m n where mn: "i = int m" "j = int n" using assms(2,3) by (metis nonneg_int_cases)
  have printed: "formatCkbText (dec k) = (dec (k div 100000000) @ fraction_text (k mod 100000000)) @ '' CKB''" for k
    using fraction_text_eq [of "k mod 100000000"]
    by (auto simp: formatCkbText_def Let_def BigInt_dec bigint_div_mod dec_int_def split: if_splits)
  have eq: "dec (m div 100000000) @ fraction_text (m mod 100000000) = dec (n div 100000000) @ fraction_text (n mod 100000000)"
    using assms(1) printed [of m] printed [of n] by (simp add: mn dec_int_def)
  then have whole: "m div 100000000 = n div 100000000"
    using takeWhile_digits_fraction [of "m div 100000000"] takeWhile_digits_fraction [of "n div 100000000"] by (metis dec_inject)
  with eq have "m mod 100000000 = n mod 100000000" by (intro fraction_text_inject) simp_all
  with whole have "m = n" using div_mult_mod_eq by metis
  then show ?thesis by (simp add: mn)
qed

text \<open>The index has no colon, so the last colon separates it from the hash.\<close>

lemma out_point_row_inject: "out_point_row p = out_point_row q \<longleftrightarrow> p = q"
proof -
  have index: "CHR '':'' \<notin> set (dec_int i)" for i
    using dec_digits [of "nat i"] dec_digits [of "nat (- i)"] by (auto simp: dec_int_def list_all_iff is_digit_def)
  have "h = h' \<and> i = i'" if "h @ CHR '':'' # dec_int i = h' @ CHR '':'' # dec_int i'" for h h' i i'
  proof -
    have rv: "rev (dec_int i) @ CHR '':'' # rev h = rev (dec_int i') @ CHR '':'' # rev h'"
      using arg_cong [OF that, of rev] by simp
    have "takeWhile (\<lambda>c. c \<noteq> CHR '':'') (rev (dec_int k) @ CHR '':'' # g) = rev (dec_int k)" for k g
      using index [of k] by (subst takeWhile_append2) auto
    from this [of i "rev h"] this [of i' "rev h'"] have "rev (dec_int i) = rev (dec_int i')" unfolding rv by simp
    with rv show ?thesis by (simp add: dec_int_inject)
  qed
  from this [of "fst p" "snd p" "fst q" "snd q"] show ?thesis
    by (cases p, cases q) (auto simp: out_point_row_def)
qed

lemma buildSpend_review:
  assumes "buildSpend C a fa pk pubKey state asset = Inr p"
  shows "inputOutPoint (pr_review p) = (op_txHash (outPoint asset), op_index (outPoint asset))
    \<and> map snd (dependencies (pr_review p)) = map (\<lambda>d. (op_txHash (dep_outPoint d), op_index (dep_outPoint d))) (cellDeps (pr_transaction p))"
  using assms unfolding buildSpend_def Let_def bind_r_Inr_iff if_Inl_Inr_iff sum.inject
  by (elim exE conjE, hypsubst) (simp add: spend_transaction_def dep_review_def)

lemma out_points_determined:
  assumes "map (\<lambda>d. (op_txHash (dep_outPoint d), op_index (dep_outPoint d))) ds
    = map (\<lambda>d. (op_txHash (dep_outPoint d), op_index (dep_outPoint d))) es"
  shows "map dep_outPoint ds = map dep_outPoint es"
proof -
  let ?f = "\<lambda>o'. (op_txHash o', op_index o')"
  have "inj (?f :: out_point \<Rightarrow> string \<times> int)" by (auto intro!: injI out_point.equality)
  moreover have "map ?f (map dep_outPoint ds) = map ?f (map dep_outPoint es)" using assms by (simp add: comp_def)
  ultimately show ?thesis using map_injective by blast
qed

text \<open>A prepared spend and its review, without the cells it came from.\<close>

lemma prepared_review:
  assumes "zod_ok Z" and "prepareSpend C Z client a fa pv w = (Inr p, w')"
  obtains i fl change where
    "inputs (pr_transaction p) = [\<lparr>previousOutput = i, since = 0\<rparr>]"
    "inputOutPoint (pr_review p) = (op_txHash i, op_index i)"
    "ccc_addressScript C fa = Inr fl"
    "outputs (pr_transaction p) = [\<lparr>capacity = TRANSFER_CAPACITY, lock = fl, type_script = None\<rparr>,
       \<lparr>capacity = change, lock = accountLock a, type_script = None\<rparr>]"
    "0 < change" "changeCapacityShannons (pr_review p) = dec_int change"
    "map snd (dependencies (pr_review p)) = map (\<lambda>d. (op_txHash (dep_outPoint d), op_index (dep_outPoint d))) (cellDeps (pr_transaction p))"
proof -
  obtain pk pubKey state asset where b: "buildSpend C a fa pk pubKey state asset = Inr p"
    using prepareSpend_Inr [OF assms] by metis
  note review = buildSpend_review [OF b]
  from b show thesis
    by (rule buildSpend_Inr) (rule that [of "outPoint asset"], use review in \<open>simp_all add: spend_transaction_def\<close>)
qed

text \<open>
  A page that reviews a prepared spend: it is rendered in the ready-to-spend stage with a chain
  client, and its spend step holds the prepared spend.
\<close>

definition review_page ::
  "web \<Rightarrow> js_value \<Rightarrow> page \<Rightarrow> app \<Rightarrow> markup \<Rightarrow> demo_status \<Rightarrow> account_manifest \<Rightarrow> passkey_record \<Rightarrow> prepared_spend \<Rightarrow> bool"
where
  "review_page W rp pg s page status m pk p \<longleftrightarrow> renderApp W rp pg s = Inr page
     \<and> displayedState W rp s = Actionable Ready_to_spend status (Some m) (Some pk)
     \<and> pg_chainClient pg \<and> (\<exists>n. ss_state (pg_spend pg) = Spend_ready p n)"

lemma texts_header:
  "texts ''dd'' (renderStatusHeader (Some st)) = [ds_funderAddress st, formatCkbBalance (ds_funderBalanceShannons st),
     if ds_deploymentVerified st then ''Code cells verified'' else ''Verification required'']"
  "texts ''code'' (renderStatusHeader (Some st)) = []"
  by (simp_all add: renderStatusHeader_def)

lemma texts_review_page:
  assumes "review_page W rp pg s page status m pk p"
  shows "texts ''dd'' page = [ds_funderAddress status, formatCkbBalance (ds_funderBalanceShannons status),
       if ds_deploymentVerified status then ''Code cells verified'' else ''Verification required'']
       @ shown_amounts p @ [out_point_row (inputOutPoint (pr_review p)), hexFromBytes (pr_authorizationDigest p)]"
    and "texts ''code'' page = map out_point_row (map snd (dependencies (pr_review p)))"
  using assms
  by (auto simp: review_page_def renderApp_def renderStep_def Let_def bind_r_Inr_iff visibleStatus_def texts_header texts_spend
      split_def)

section \<open>Properties\<close>

text \<open>
  C10: what the user sees is what the passkey signs. Take two pages that each show a prepared spend,
  prepared with the funder address and the passkey the page passes to the spend step. If both
  pages show the same values, then the spends have the same authorization digest, spend the same
  outpoint, depend on the same cells, create the same transfer output (amount and lock) and the
  same change amount; and on each page the only thing the user can do is to authorize the spend
  shown.
\<close>

theorem review_shows_what_is_signed:
  assumes "zod_ok (web_zod W)" and "review_page W rp pg s page status m pk p" and "review_page W rp' pg' s' page' status' m' pk' q"
    and "prepareSpend (web_ccc W) (web_zod W) client a (ds_funderAddress status) (passkey_record_json pk) w = (Inr p, w1)"
    and "prepareSpend (web_ccc W) (web_zod W) client' a' (ds_funderAddress status') (passkey_record_json pk') w' = (Inr q, w1')"
    and "texts ''dd'' page = texts ''dd'' page'" and "texts ''code'' page = texts ''code'' page'"
  shows "pr_authorizationDigest p = pr_authorizationDigest q
    \<and> inputs (pr_transaction p) = inputs (pr_transaction q)
    \<and> map dep_outPoint (cellDeps (pr_transaction p)) = map dep_outPoint (cellDeps (pr_transaction q))
    \<and> hd (outputs (pr_transaction p)) = hd (outputs (pr_transaction q))
    \<and> map capacity (outputs (pr_transaction p)) = map capacity (outputs (pr_transaction q))
    \<and> offered page = [Click_authorize p] \<and> offered page' = [Click_authorize q]"
proof -
  obtain i fl change where p: "inputs (pr_transaction p) = [\<lparr>previousOutput = i, since = 0\<rparr>]"
    "inputOutPoint (pr_review p) = (op_txHash i, op_index i)" "ccc_addressScript (web_ccc W) (ds_funderAddress status) = Inr fl"
    "outputs (pr_transaction p) = [\<lparr>capacity = TRANSFER_CAPACITY, lock = fl, type_script = None\<rparr>,
       \<lparr>capacity = change, lock = accountLock a, type_script = None\<rparr>]"
    "0 < change" "changeCapacityShannons (pr_review p) = dec_int change"
    "map snd (dependencies (pr_review p)) = map (\<lambda>d. (op_txHash (dep_outPoint d), op_index (dep_outPoint d))) (cellDeps (pr_transaction p))"
    by (rule prepared_review [OF assms(1,4)])
  obtain i' fl' change' where q: "inputs (pr_transaction q) = [\<lparr>previousOutput = i', since = 0\<rparr>]"
    "inputOutPoint (pr_review q) = (op_txHash i', op_index i')" "ccc_addressScript (web_ccc W) (ds_funderAddress status') = Inr fl'"
    "outputs (pr_transaction q) = [\<lparr>capacity = TRANSFER_CAPACITY, lock = fl', type_script = None\<rparr>,
       \<lparr>capacity = change', lock = accountLock a', type_script = None\<rparr>]"
    "0 < change'" "changeCapacityShannons (pr_review q) = dec_int change'"
    "map snd (dependencies (pr_review q)) = map (\<lambda>d. (op_txHash (dep_outPoint d), op_index (dep_outPoint d))) (cellDeps (pr_transaction q))"
    by (rule prepared_review [OF assms(1,5)])
  note shown = assms(6) [unfolded texts_review_page(1) [OF assms(2)] texts_review_page(1) [OF assms(3)] shown_amounts_def]
  have "formatCkbText (dec_int change) = formatCkbText (dec_int change')" "ds_funderAddress status = ds_funderAddress status'"
    "out_point_row (inputOutPoint (pr_review p)) = out_point_row (inputOutPoint (pr_review q))"
    "hexFromBytes (pr_authorizationDigest p) = hexFromBytes (pr_authorizationDigest q)"
    using shown p(6) q(6) by simp_all
  then have eqs: "change = change'" "fl = fl'" "i = i'" "pr_authorizationDigest p = pr_authorizationDigest q"
    using formatCkbText_inject [of change change'] p q by (simp_all add: out_point_row_inject out_point.equality)
  have "map snd (dependencies (pr_review p)) = map snd (dependencies (pr_review q))"
    using assms(7) [unfolded texts_review_page(2) [OF assms(2)] texts_review_page(2) [OF assms(3)]]
    by (rule map_injective) (simp add: inj_def out_point_row_inject)
  then have deps: "map dep_outPoint (cellDeps (pr_transaction p)) = map dep_outPoint (cellDeps (pr_transaction q))"
    unfolding p(7) q(7) by (rule out_points_determined)
  have click: "offered page' = [Click_authorize x]" if "review_page V rp pg s page' status m pk x" for V rp pg s page' status m pk x
    using that by (auto simp: review_page_def renderApp_def renderStep_def Let_def bind_r_Inr_iff offered_spend)
  show ?thesis using p q eqs deps click [OF assms(2)] click [OF assms(3)] by simp
qed


definition example_page :: "prepared_spend \<Rightarrow> page" where
  "example_page p = \<lparr>pg_passkey = passkey_start (\<lambda>k. None), pg_bootstrap = bootstrap_start,
     pg_spend = preparedAnswer (Inr p) (prepareEffect spend_start),
     pg_receipt = \<lparr>rc_checking = False, rc_notice = None, rc_error = None, rc_checkLock = False, rc_shown = []\<rparr>,
     pg_chainClient = True\<rparr>"

lemma example_review:
  "\<exists>page. review_page example_web JNull (example_page p) example_app page example_status example_manifest example_passkey p"
proof -
  obtain page where "renderApp example_web JNull (example_page p) example_app = Inr page"
    using renderApp_total [OF example_app_reachable] by blast
  then show ?thesis
    by (auto simp: review_page_def example_app_state example_page_def preparedAnswer_def prepareEffect_def)
qed

theorem review_shows_what_is_signed_witness:
  "\<exists>p page. prepareSpend ref_ccc ref_zod example_client example_account ''a'' (passkey_record_json example_passkey) () = (Inr p, ())
     \<and> review_page example_web JNull (example_page p) example_app page example_status example_manifest example_passkey p
     \<and> offered page = [Click_authorize p]"
proof -
  obtain p where p: "prepareSpend ref_ccc ref_zod example_client example_account ''a'' (passkey_record_json example_passkey) ()
      = (Inr p, ())" using example_prepared by blast
  obtain page where page: "review_page example_web JNull (example_page p) example_app page example_status example_manifest example_passkey p"
    using example_review by blast
  have "zod_ok (web_zod example_web)" "prepareSpend (web_ccc example_web) (web_zod example_web) example_client example_account
      (ds_funderAddress example_status) (passkey_record_json example_passkey) () = (Inr p, ())"
    using p by (simp_all add: example_web_def example_status_def ref_zod_ok)
  from review_shows_what_is_signed [OF this(1) page page this(2) this(2) refl refl] p page show ?thesis by blast
qed


end
