(* ===== verification/Mount.thy ===== *)
theory Mount
  imports RenderProps
begin

text \<open>
  demo/src/client/main.tsx, which mounts the wizard, the object \<^verbatim>\<open>createDemoApi\<close> gives it, and the effect
  of App.tsx that moves the focus to the heading of a new step. \<^verbatim>\<open>StrictMode\<close> runs the mount effect twice
  during development, which \<open>app_step\<close> allows. Fetch, storage and the client library's
  constructor are parameters.
\<close>

section \<open>Mounting\<close>

record 'w demo_api =
  da_status :: "('w, js_error, demo_status) io"
  da_account :: "('w, js_error, account_manifest option) io"
  da_bootstrap :: "js_value \<Rightarrow> ('w, js_error, account_manifest) io"

definition createDemoApi ::
  "zod \<Rightarrow> (js_value \<Rightarrow> string) \<Rightarrow> (fetch_request \<Rightarrow> ('w, js_error, fetch_response) io) \<Rightarrow> 'w demo_api"
where
  "createDemoApi Z stringify fetcher =
     \<lparr>da_status = apiStatus Z fetcher, da_account = apiAccount Z fetcher, da_bootstrap = apiBootstrap Z stringify fetcher\<rparr>"

text \<open>The constructor argument of \<^verbatim>\<open>ccc.ClientPublicTestnet\<close>.\<close>

record client_options =
  co_url :: string
  co_fallbacks :: "string list"

record ('w, 'c) app_props =
  ap_api :: "'w demo_api"
  ap_storage :: "string \<rightharpoonup> string"
  ap_receipt :: js_value
  ap_chainClient :: "'c option"

definition mountApp ::
  "zod \<Rightarrow> (js_value \<Rightarrow> string) \<Rightarrow> (fetch_request \<Rightarrow> ('w, js_error, fetch_response) io) \<Rightarrow> (client_options option \<Rightarrow> 'c)
   \<Rightarrow> (string \<rightharpoonup> string) \<Rightarrow> string option \<Rightarrow> bool \<Rightarrow> ('w, 'c) app_props js"
where
  "mountApp Z stringify fetch newClient localStorage fixtureRpcUrl rootFound =
     (if \<not> rootFound then Inl (PlainError ''Application root is missing'')
      else
        let chainClient = newClient (case fixtureRpcUrl of None \<Rightarrow> None
              | Some url \<Rightarrow> Some \<lparr>co_url = url, co_fallbacks = []\<rparr>) in
        Inr \<lparr>ap_api = createDemoApi Z stringify fetch, ap_storage = localStorage, ap_receipt = JUndefined,
             ap_chainClient = Some chainClient\<rparr>)"

section \<open>Focus\<close>

text \<open>\<^verbatim>\<open>querySelector(tag)\<close>: the first descendant with the tag, in document order.\<close>

fun first_in :: "string \<Rightarrow> markup list \<Rightarrow> markup option" where
  "first_in t [] = None"
| "first_in t (Text s # ms) = first_in t ms"
| "first_in t (Element tag as h children # ms) =
     (if tag = t then Some (Element tag as h children)
      else case first_in t children of Some m \<Rightarrow> Some m | None \<Rightarrow> first_in t ms)"

definition querySelector :: "markup \<Rightarrow> string \<Rightarrow> markup option" where
  "querySelector m t = (case m of Text s \<Rightarrow> None | Element tag as h children \<Rightarrow> first_in t children)"

definition stage_name :: "wizard_state \<Rightarrow> string" where
  "stage_name state = (case state of
     Loading \<Rightarrow> ''loading''
   | Actionable Needs_passkey status a p \<Rightarrow> ''needs-passkey''
   | Actionable Needs_account status a p \<Rightarrow> ''needs-account''
   | Actionable Ready_to_spend status a p \<Rightarrow> ''ready-to-spend''
   | Receipt_shown Submitted_stage status r \<Rightarrow> ''submitted''
   | Receipt_shown Committed_stage status r \<Rightarrow> ''committed''
   | Blocked status h m \<Rightarrow> ''blocked'')"

text \<open>
  The effect, with the stage it last ran for; \<open>wizard\<close> is the element behind \<^verbatim>\<open>wizardRef\<close>. The result is the
  heading that gets the focus, with the tab index it is given.
\<close>

definition focusEffect :: "string option \<Rightarrow> wizard_state \<Rightarrow> markup option \<Rightarrow> markup option" where
  "focusEffect seen displayed wizard =
     (if seen = Some (stage_name displayed) then None
      else case Option.bind wizard (\<lambda>m. querySelector m ''h2'') of
        None \<Rightarrow> None
      | Some (Text s) \<Rightarrow> None
      | Some (Element tag as h children) \<Rightarrow> Some (Element tag (as @ [(''tabIndex'', ''-1'')]) h children))"

text \<open>The heading of what is shown, and the element of the page it is in.\<close>

definition step_heading :: "zod \<Rightarrow> bool \<Rightarrow> wizard_state \<Rightarrow> (string \<times> string) option" where
  "step_heading Z client displayed = (case displayed of
     Loading \<Rightarrow> Some (''loading-heading'', ''Preparing your account'')
   | Actionable Needs_passkey status a p \<Rightarrow> Some (''passkey-step-heading'', ''Create your passkey'')
   | Actionable Needs_account status a p \<Rightarrow> Some (''bootstrap-step-heading'', ''Create your testnet account'')
   | Actionable Ready_to_spend status a p \<Rightarrow>
       if client then Some (''spend-step-heading'', ''Authorize your first spend'')
       else Some (''chain-client-heading'', ''Public testnet access is unavailable'')
   | Blocked status heading m \<Rightarrow> Some (''blocked-heading'', heading)
   | Receipt_shown g status r \<Rightarrow>
       if \<not> client then None
       else (case receipt_card Z (receipt_json r) of
           Receipt_card r' \<Rightarrow> Some (''receipt-heading'',
             if r_status r' = ''committed'' then ''Spend committed'' else ''Transaction submitted'')
         | _ \<Rightarrow> None))"

lemma first_in_lines [simp]:
  "t \<noteq> ''p'' \<Longrightarrow> first_in t (paragraph_of c m # ms) = first_in t ms"
  "t \<noteq> ''p'' \<Longrightarrow> first_in t (plain_alert m # ms) = first_in t ms"
  by (simp_all add: markup_simps)

lemma first_heading:
  "first_in ''h2'' [renderLoading] = Some (el ''h2'' [(''id'', ''loading-heading'')] [Text ''Preparing your account''])"
  "first_in ''h2'' [renderNoChainClient] = Some (el ''h2'' [(''id'', ''chain-client-heading'')] [Text ''Public testnet access is unavailable''])"
  "first_in ''h2'' [renderBlocked h m] = Some (el ''h2'' [(''id'', ''blocked-heading'')] [Text h])"
  "first_in ''h2'' [renderPasskeyStep B ps] = Some (el ''h2'' [(''id'', ''passkey-step-heading'')] [Text ''Create your passkey''])"
  "first_in ''h2'' [renderBootstrapStep st p bs] = Some (el ''h2'' [(''id'', ''bootstrap-step-heading'')] [Text ''Create your testnet account''])"
  "first_in ''h2'' [renderSpendStep ss] = Some (el ''h2'' [(''id'', ''spend-step-heading'')] [Text ''Authorize your first spend''])"
  by (simp_all add: renderLoading_def renderNoChainClient_def renderBlocked_def renderPasskeyStep_def renderBootstrapStep_def
      renderSpendStep_def Let_def)

lemma first_receipt_heading:
  "first_in ''h2'' [renderReceipt Z v e s] = (case receipt_card Z v of
     Receipt_card r \<Rightarrow> Some (el ''h2'' [(''id'', ''receipt-heading'')]
       [Text (if r_status r = ''committed'' then ''Spend committed'' else ''Transaction submitted'')])
   | _ \<Rightarrow> None)"
  by (simp add: renderReceipt_def Let_def split: receipt_view.split)

lemma first_in_header: "first_in ''main'' (renderStatusHeader st # ms) = first_in ''main'' ms"
  by (simp add: renderStatusHeader_def paragraph_of_def summary_item_def split: option.split)

text \<open>
  Whenever the stage changes, the focus moves to the heading that names the step shown, and the
  section of the step is labelled by that heading; only below a receipt that cannot be read, or with
  no chain client, is there no heading to move to.
\<close>

lemma focus_follows_stage:
  assumes "reachable app_start (app_step W) s" and "seen \<noteq> Some (stage_name (displayedState W rp s))"
  shows "\<exists>page wizard. renderApp W rp pg s = Inr page \<and> querySelector page ''main'' = Some wizard
    \<and> focusEffect seen (displayedState W rp s) (Some wizard) =
        map_option (\<lambda>(i, heading). el ''h2'' [(''id'', i), (''tabIndex'', ''-1'')] [Text heading])
          (step_heading (web_zod W) (pg_chainClient pg) (displayedState W rp s))"
proof -
  have ok: "app_ok W s" by (rule wizard.reachable_inv [OF assms(1)])
  obtain page where page: "renderApp W rp pg s = Inr page" using renderApp_total [OF assms(1)] by blast
  then obtain step where st: "renderStep W pg (ap_postCommitError s) (displayedState W rp s) = Inr step"
    and wiz: "querySelector page ''main'' = Some (el ''main'' [(''className'', ''wizard''), (''aria-label'', ''Passkey account setup'')] step)"
    by (auto simp: renderApp_def Let_def bind_r_Inr_iff querySelector_def first_in_header)
  have "first_in ''h2'' step = map_option (\<lambda>(i, heading). el ''h2'' [(''id'', i)] [Text heading])
      (step_heading (web_zod W) (pg_chainClient pg) (displayedState W rp s))"
  proof (cases "displayedState W rp s")
    case (Actionable g status account pk)
    then have "ap_state s = Actionable g status account pk" by (rule displayed_actionable)
    then have "g = Ready_to_spend \<longrightarrow> account \<noteq> None \<and> pk \<noteq> None" "g = Needs_account \<longrightarrow> pk \<noteq> None"
      using ok by (auto simp: wizard_ok_def split: if_splits)
    then show ?thesis
      using st by (cases g) (auto simp: renderStep_def Actionable bind_r_Inr_iff first_heading step_heading_def split: if_splits)
  qed (use st in \<open>auto simp: renderStep_def first_heading first_receipt_heading step_heading_def only_if_def split: receipt_view.split\<close>)
  then show ?thesis
    using page wiz assms(2)
    by (auto simp: focusEffect_def querySelector_def split: option.split)
qed

text \<open>
  A mounted page has a chain client and no receipt of its own, so the only thing it can show without a
  heading is a receipt that does not pass its checks.
\<close>

lemma mounted_page_has_heading:
  assumes "mountApp Z stringify fetch newClient localStorage url rootFound = Inr props"
    and "pg_chainClient pg \<longleftrightarrow> ap_chainClient props \<noteq> None"
  shows "rootFound \<and> ap_receipt props = JUndefined
    \<and> (step_heading (web_zod W) (pg_chainClient pg) (displayedState W (ap_receipt props) s) = None \<longleftrightarrow>
        (\<exists>g status r. displayedState W (ap_receipt props) s = Receipt_shown g status r
           \<and> receipt_card (web_zod W) (receipt_json r) \<in> {Malformed_receipt, Foreign_explorer_link}))"
proof -
  have p: "rootFound" "ap_receipt props = JUndefined" "pg_chainClient pg"
    using assms by (auto simp: mountApp_def Let_def split: if_splits)
  then show ?thesis
    by (auto simp: step_heading_def split: wizard_state.splits actionable_stage.splits receipt_view.splits)
qed

end
