(* ===== verification/Console.thy ===== *)
theory Console
  imports Node
begin

text \<open>
  Command line programs. A program that prints runs on the environment together with the messages
  it has printed so far, one per call of \<^verbatim>\<open>console.log\<close>; an operation that prints nothing is
  lifted by \<open>silently\<close>. The relation \<open>erases\<close> says that a printing program is, without its messages, a
  given silent one; the interface \<open>printing_program\<close> carries what is known of the silent program over to
  the process, whose entry point \<^verbatim>\<open>main().catch(...)\<close> prints the failure and sets the exit code.
\<close>

section \<open>Printing\<close>

type_synonym 'w tty = "'w \<times> string list"

definition console_log :: "string \<Rightarrow> ('w tty, 'e, unit) io" where
  "console_log message = (\<lambda>(w, out). (Inr (), (w, out @ [message])))"

fun print_all :: "string list \<Rightarrow> ('w tty, 'e, unit) io" where
  "print_all [] = return_io ()"
| "print_all (s # ss) = bind_io (console_log s) (\<lambda>_. print_all ss)"

definition silently :: "('w, 'e, 'a) io \<Rightarrow> ('w tty, 'e, 'a) io" where
  "silently m = (\<lambda>(w, out). case m w of (r, w') \<Rightarrow> (r, (w', out)))"

definition erases :: "('w tty, 'e, 'a) io \<Rightarrow> ('w, 'e, 'a) io \<Rightarrow> bool" where
  "erases p m \<longleftrightarrow> (\<exists>f. \<forall>w out. p (w, out) = (fst (m w), (snd (m w), out @ f w)))"

lemma console_log_run [simp]: "console_log s (w, out) = (Inr (), (w, out @ [s]))"
  by (simp add: console_log_def)

lemma silently_run [simp]: "silently m (w, out) = (fst (m w), (snd (m w), out))"
  by (simp add: silently_def split: prod.split)

lemma print_all_run [simp]: "print_all ss (w, out) = (Inr (), (w, out @ ss))"
  by (induction ss arbitrary: out) (simp_all add: bind_io_def)

lemma erases_silently [simp]: "erases (silently m) m"
  unfolding erases_def by (rule exI [of _ "\<lambda>w. []"]) simp

lemma erases_lift [simp]: "erases (lift_io r) (lift_io r)"
  unfolding erases_def by (rule exI [of _ "\<lambda>w. []"]) simp

lemma erases_bind:
  assumes "erases p m" and "\<And>x. erases (q x) (n x)"
  shows "erases (bind_io p q) (bind_io m n)"
proof -
  obtain f where f: "\<And>w out. p (w, out) = (fst (m w), (snd (m w), out @ f w))"
    using assms(1) by (auto simp: erases_def)
  obtain g where g: "\<And>x w out. q x (w, out) = (fst (n x w), (snd (n x w), out @ g x w))"
    using assms(2) unfolding erases_def by metis
  show ?thesis
    unfolding erases_def
    by (rule exI [of _ "\<lambda>w. f w @ (case fst (m w) of Inl e \<Rightarrow> [] | Inr x \<Rightarrow> g x (snd (m w)))"])
       (simp add: bind_io_def f g split: prod.split sum.split)
qed

text \<open>Printing before or after an operation is erased.\<close>

lemma erases_prefix:
  assumes "erases p m" and "\<And>w out. q (w, out) = p (w, out @ ss)"
  shows "erases q m"
proof -
  obtain f where "\<And>w out. p (w, out) = (fst (m w), (snd (m w), out @ f w))" using assms(1) by (auto simp: erases_def)
  with assms(2) show ?thesis unfolding erases_def by (intro exI [of _ "\<lambda>w. ss @ f w"]) simp
qed

lemma erases_print_all: "erases p m \<Longrightarrow> erases (bind_io (print_all ss) (\<lambda>_. p)) m"
  by (rule erases_prefix [of p m _ ss]) simp_all

lemma erases_print: "erases p m \<Longrightarrow> erases (bind_io (console_log s) (\<lambda>_. p)) m"
  by (rule erases_prefix [of p m _ "[s]"]) simp_all

lemma erases_print_result: "erases (bind_io (lift_io r) (\<lambda>x. bind_io (console_log (s x)) (\<lambda>_. return_io x))) (lift_io r)"
  unfolding erases_def
  by (rule exI [of _ "\<lambda>w. case r of Inl e \<Rightarrow> [] | Inr x \<Rightarrow> [s x]"]) (simp add: bind_io_def split: sum.split)

lemma erases_print_only: "erases (console_log s) (return_io ())"
  unfolding erases_def by (rule exI [of _ "\<lambda>w. [s]"]) simp

lemma erases_print_last:
  assumes "erases p m"
  shows "erases (bind_io p (\<lambda>_. console_log s)) (m :: ('w, 'e, unit) io)"
proof -
  have "bind_io m (\<lambda>_. return_io ()) = m" by (simp add: bind_io_def fun_eq_iff split: prod.split sum.split)
  then show ?thesis using erases_bind [OF assms erases_print_only [of s]] by simp
qed

lemma erases_if: "(c \<Longrightarrow> erases p m) \<Longrightarrow> (\<not> c \<Longrightarrow> erases q n) \<Longrightarrow> erases (if c then p else q) (if c then m else n)"
  by simp

lemmas erases_intros = erases_bind erases_print erases_print_all erases_print_result erases_print_only erases_print_last erases_if erases_silently erases_lift

section \<open>Processes\<close>

record 'w process_end =
  pe_exitCode :: nat
  pe_stdout :: "string list"
  pe_stderr :: "string list"
  pe_world :: 'w

text \<open>
  \<^verbatim>\<open>error instanceof Error ? error.message : String(error)\<close>; \<open>thrown\<close> is what \<^verbatim>\<open>String\<close> gives for a thrown
  value that is no \<^verbatim>\<open>Error\<close>.
\<close>

definition failure_text :: "string \<Rightarrow> js_error \<Rightarrow> string" where
  "failure_text thrown e = (if e = ThrownValue then thrown else error_message e)"

definition run_main :: "string \<Rightarrow> string \<Rightarrow> ('w tty, js_error, 'a) io \<Rightarrow> 'w \<Rightarrow> 'w process_end" where
  "run_main thrown label program w = (case program (w, []) of
     (Inr x, (w', out)) \<Rightarrow> \<lparr>pe_exitCode = 0, pe_stdout = out, pe_stderr = [], pe_world = w'\<rparr>
   | (Inl e, (w', out)) \<Rightarrow> \<lparr>pe_exitCode = 1, pe_stdout = out,
       pe_stderr = [CHR 0x0A # label @ failure_text thrown e], pe_world = w'\<rparr>)"

lemma run_main_world: "pe_world (run_main thrown label program w) = fst (snd (program (w, [])))"
  by (simp add: run_main_def split_def split: sum.split)

lemma run_main_stdout: "pe_stdout (run_main thrown label program w) = snd (snd (program (w, [])))"
  by (simp add: run_main_def split_def split: sum.split)

locale printing_program =
  fixes program :: "('w tty, js_error, 'a) io" and quiet :: "('w, js_error, 'a) io"
  assumes program_erases: "erases program quiet"
begin

lemma world_same: "pe_world (run_main thrown label program w) = snd (quiet w)"
  using program_erases by (auto simp: erases_def run_main_def split: sum.split)

lemma exit_code: "pe_exitCode (run_main thrown label program w) = (case fst (quiet w) of Inl e \<Rightarrow> 1 | Inr x \<Rightarrow> 0)"
  using program_erases by (auto simp: erases_def run_main_def split: sum.split)

lemma failure_line:
  "pe_stderr (run_main thrown label program w) =
     (case fst (quiet w) of Inl e \<Rightarrow> [CHR 0x0A # label @ failure_text thrown e] | Inr x \<Rightarrow> [])"
  using program_erases by (auto simp: erases_def run_main_def split: sum.split)

end

end
