(* ===== verification/DeployConsole.thy ===== *)
theory DeployConsole
  imports Console DeploymentProps
begin

text \<open>
  tools/deploy/src/deploy.ts as a command line program: \<open>Deployment\<close>'s operations with every
  message \<^verbatim>\<open>printPlan\<close>, \<^verbatim>\<open>publishCell\<close> and \<^verbatim>\<open>main\<close> print, and the entry point that reports a failure.
  Without its messages the program is \<open>deployMain\<close>. The header of deploy.ts promises that the
  signing key is never logged and that a partial failure leaves unambiguous outpoints for what did
  land; both are about the console, since a failing run writes no manifest.
\<close>

section \<open>The program\<close>

definition plan_cell_lines :: "planned_cell \<Rightarrow> string list" where
  "plan_cell_lines cell =
     [''  '' @ ai_name cell,
      ''    path      '' @ js_text (ai_path cell),
      ''    bytes     '' @ locale_int (int (length (ai_data cell))),
      ''    data hash '' @ js_text (ai_dataHash cell),
      ''    capacity  '' @ formatCkb (pc_capacityShannons cell)]"

definition plan_lines :: "planned_cell list \<Rightarrow> int \<Rightarrow> string list" where
  "plan_lines cells totalCapacity =
     [''Deployment plan (immutable code cells, hash_type data2)'' @ [CHR 0x0A]]
     @ concat (map plan_cell_lines cells)
     @ [CHR 0x0A # ''  TOTAL capacity '' @ formatCkb totalCapacity @ '' across '' @ dec (length cells) @ '' cells'',
        ''  (plus transaction fees, one transaction per cell)'' @ [CHR 0x0A]]"

definition printPlan :: "planned_cell list \<Rightarrow> int \<Rightarrow> ('w tty, js_error, unit) io" where
  "printPlan cells totalCapacity = print_all (plan_lines cells totalCapacity)"

definition submitted_line :: "string \<Rightarrow> string" where
  "submitted_line txHash = ''    submitted '' @ txHash"

definition publishCell_logged ::
  "ccc \<Rightarrow> 'w deploy_signer \<Rightarrow> planned_cell \<Rightarrow> ('w tty, js_error, deployment_artifact) io"
where
  "publishCell_logged C signer cell =
     bind_io (silently (sg_recommendedScript signer)) (\<lambda>l.
     bind_io (silently (sg_completeInputs signer
       \<lparr>cellDeps = [], inputs = [],
        outputs = [\<lparr>capacity = pc_capacityShannons cell, lock = l, type_script = None\<rparr>],
        outputsData = [ccc_hexFrom C (ai_data cell)], witnesses = []\<rparr>)) (\<lambda>tx.
     bind_io (silently (sg_completeFee signer tx DEPLOY_FEE_RATE)) (\<lambda>tx'.
     bind_io (silently (sg_send signer tx')) (\<lambda>txHash.
     bind_io (console_log (submitted_line txHash)) (\<lambda>_.
     bind_io (silently (sg_wait signer txHash)) (\<lambda>_.
     bind_io (silently (sg_getCellLive signer \<lparr>op_txHash = txHash, op_index = 0\<rparr>)) (\<lambda>published.
     bind_io (lift_io (confirm_published C cell txHash published)) (\<lambda>r.
     bind_io (console_log (''    verified  on-chain data hash matches '' @ js_text (ai_dataHash cell))) (\<lambda>_.
     return_io r)))))))))"

definition publishing_line :: "planned_cell \<Rightarrow> string" where
  "publishing_line cell = ''  publishing '' @ ai_name cell @ '' ('' @ formatCkb (pc_capacityShannons cell) @ '')''"

definition broadcastPlan_logged ::
  "ccc \<Rightarrow> 'w deploy_env \<Rightarrow> string \<Rightarrow> js_value \<Rightarrow> deployment_plan \<Rightarrow> 'w deploy_signer \<Rightarrow> ('w tty, js_error, unit) io"
where
  "broadcastPlan_logged C env outputPath validatedExisting plan signer =
     bind_io (silently (sg_recommendedAddress signer)) (\<lambda>address.
     bind_io (silently (sg_balance signer)) (\<lambda>balance.
     bind_io (console_log (''Deploying from '' @ address)) (\<lambda>_.
     bind_io (console_log (''Balance '' @ formatCkb balance @ [CHR 0x0A])) (\<lambda>_.
     if balance < dp_totalCapacityShannons plan
     then throw_io (PlainError (''insufficient balance: need at least '' @ formatCkb (dp_totalCapacityShannons plan)
       @ '' plus fees, have '' @ formatCkb balance))
     else
       bind_io (publishDeployment validatedExisting (dp_cells plan) (\<lambda>cell.
         bind_io (console_log (publishing_line cell)) (\<lambda>_. publishCell_logged C signer cell))) (\<lambda>manifest.
       bind_io (silently (de_write env outputPath manifest)) (\<lambda>_.
       console_log (CHR 0x0A # ''Wrote '' @ outputPath)))))))"

definition deployMain_logged :: "ccc \<Rightarrow> 'w deploy_env \<Rightarrow> string list \<Rightarrow> ('w tty, js_error, unit) io" where
  "deployMain_logged C env argv =
     bind_io (lift_io (parseDeploymentArgs argv)) (\<lambda>a.
     bind_io (lift_io (buildDeploymentPlan C (de_disk env) (de_json env) (de_repoRoot env) (ar_selection a)
       (JNat SECP256K1_LOCK_ARGS_LENGTH))) (\<lambda>plan.
     bind_io (printPlan (dp_cells plan) (dp_totalCapacityShannons plan)) (\<lambda>_.
     if \<not> ar_broadcast a
     then console_log ''Dry run. Re-run with --broadcast and CKB_PRIVKEY set to publish.''
     else
       let outputPath = resolve (de_repoRoot env) ''deploy/testnet-deployments.json'' in
       bind_io (lift_io (if de_exists env outputPath
         then bind_r (de_disk env outputPath) (de_json env) else Inr JUndefined)) (\<lambda>existing.
       bind_io (lift_io (buildDeploymentManifest existing [])) (\<lambda>validatedExisting.
       case de_CKB_PRIVKEY env of
         None \<Rightarrow> throw_io (PlainError ''CKB_PRIVKEY is not set; refusing to broadcast'')
       | Some privateKey \<Rightarrow>
           if privateKey = [] then throw_io (PlainError ''CKB_PRIVKEY is not set; refusing to broadcast'')
           else
             bind_io (lift_io (de_signer env privateKey)) (\<lambda>signer.
             broadcastPlan_logged C env outputPath validatedExisting plan signer))))))"

text \<open>The entry point; \<open>thrown\<close> is the text of a thrown value that is no \<^verbatim>\<open>Error\<close>.\<close>

definition runDeploy :: "string \<Rightarrow> ccc \<Rightarrow> 'w deploy_env \<Rightarrow> string list \<Rightarrow> 'w \<Rightarrow> 'w process_end" where
  "runDeploy thrown C env argv w = run_main thrown ''Deployment failed: '' (deployMain_logged C env argv) w"

section \<open>Without its messages\<close>

lemma publishCell_erases: "erases (publishCell_logged C signer cell) (publishCell C signer cell)"
  unfolding publishCell_logged_def publishCell_def by (intro erases_intros)

lemma publish_each_erases:
  "(\<And>c. erases (p c) (m c)) \<Longrightarrow> erases (publish_each p cs) (publish_each m cs)"
  by (induction cs) (auto intro!: erases_bind)

lemma publishDeployment_erases:
  "(\<And>c. erases (p c) (m c)) \<Longrightarrow> erases (publishDeployment ex cs p) (publishDeployment ex cs m)"
  unfolding publishDeployment_def by (intro erases_bind publish_each_erases erases_lift)

lemma broadcastPlan_erases: "erases (broadcastPlan_logged C env path ex plan signer) (broadcastPlan C env path ex plan signer)"
  unfolding broadcastPlan_logged_def broadcastPlan_def
  by (intro erases_bind erases_print erases_if erases_lift erases_silently publishDeployment_erases publishCell_erases
      erases_print_last)

lemma deployMain_erases: "erases (deployMain_logged C env argv) (deployMain C env argv)"
  unfolding deployMain_logged_def deployMain_def Let_def printPlan_def
  by (intro erases_bind erases_print_all erases_if erases_lift erases_print_only)
     (auto split: option.split intro!: erases_bind broadcastPlan_erases)

interpretation deploy: printing_program "deployMain_logged C env argv" "deployMain C env argv" for C env argv
  by unfold_locales (rule deployMain_erases)

section \<open>What the console says was sent\<close>

text \<open>The transaction hashes among the printed messages, in order.\<close>

definition reported :: "string list \<Rightarrow> string list" where
  "reported out = map (drop 14) (filter (\<lambda>l. startsWith l (submitted_line [])) out)"

text \<open>
  \<open>sent\<close> reads from the environment the hashes the signer has returned for transactions it sent: only
  \<^verbatim>\<open>sendTransaction\<close> adds one, when it succeeds.
\<close>

definition keeps :: "('w \<Rightarrow> 'o) \<Rightarrow> ('w, 'e, 'a) io \<Rightarrow> bool" where
  "keeps obs m \<longleftrightarrow> (\<forall>w. obs (snd (m w)) = obs w)"

definition records_sends :: "('w \<Rightarrow> string list) \<Rightarrow> 'w deploy_signer \<Rightarrow> bool" where
  "records_sends sent signer \<longleftrightarrow>
     keeps sent (sg_recommendedScript signer) \<and> keeps sent (sg_recommendedAddress signer) \<and> keeps sent (sg_balance signer)
     \<and> (\<forall>tx. keeps sent (sg_completeInputs signer tx)) \<and> (\<forall>tx r. keeps sent (sg_completeFee signer tx r))
     \<and> (\<forall>h. keeps sent (sg_wait signer h)) \<and> (\<forall>p. keeps sent (sg_getCellLive signer p))
     \<and> (\<forall>tx w. sent (snd (sg_send signer tx w)) = sent w @ (case fst (sg_send signer tx w) of Inl e \<Rightarrow> [] | Inr h \<Rightarrow> [h]))"

text \<open>A program that reports what it sends, at most \<open>n\<close> transactions.\<close>

definition reports :: "('w \<Rightarrow> string list) \<Rightarrow> nat \<Rightarrow> ('w tty, 'e, 'a) io \<Rightarrow> bool" where
  "reports sent n p \<longleftrightarrow> (\<forall>w out. \<exists>ls. snd (snd (p (w, out))) = out @ ls
     \<and> sent (fst (snd (p (w, out)))) = sent w @ reported ls \<and> length (reported ls) \<le> n)"

lemma reported_simps [simp]:
  "reported [] = []" "reported (ks @ ls) = reported ks @ reported ls"
  "reported (submitted_line h # ls) = h # reported ls"
  by (simp_all add: reported_def submitted_line_def startsWith_def)

lemma reports_lift [simp]: "reports sent n (lift_io r)"
  by (simp add: reports_def)

lemma reports_silently: "keeps sent m \<Longrightarrow> reports sent n (silently m)"
  by (simp add: reports_def keeps_def)

lemma reports_bind:
  assumes "reports sent a p" and "\<And>x. reports sent b (q x)"
  shows "reports sent (a + b) (bind_io p q)"
  unfolding reports_def
proof (intro allI)
  fix w out
  obtain ks where ks: "snd (snd (p (w, out))) = out @ ks" "sent (fst (snd (p (w, out)))) = sent w @ reported ks"
    "length (reported ks) \<le> a" using assms(1) unfolding reports_def by blast
  show "\<exists>ls. snd (snd (bind_io p q (w, out))) = out @ ls \<and> sent (fst (snd (bind_io p q (w, out)))) = sent w @ reported ls
      \<and> length (reported ls) \<le> a + b"
  proof (cases "fst (p (w, out))")
    case (Inl e)
    with ks show ?thesis by (auto simp: bind_io_def split_def)
  next
    case (Inr x)
    obtain v o' where vo: "snd (p (w, out)) = (v, o')" by (cases "snd (p (w, out))")
    obtain ls where "snd (snd (q x (v, o'))) = o' @ ls" "sent (fst (snd (q x (v, o')))) = sent v @ reported ls"
      "length (reported ls) \<le> b" using assms(2) [of x] unfolding reports_def by blast
    with ks Inr vo show ?thesis by (auto simp: bind_io_def split_def intro!: exI [of _ "ks @ ls"])
  qed
qed

lemma reports_bind0: "reports sent 0 p \<Longrightarrow> (\<And>x. reports sent n (q x)) \<Longrightarrow> reports sent n (bind_io p q)"
  using reports_bind [of sent 0 p n q] by simp

lemma reports_log: "\<not> startsWith s (submitted_line []) \<Longrightarrow> reports sent n (console_log s)"
  by (simp add: reports_def reported_def)

lemma reports_print_all: "reported ss = [] \<Longrightarrow> reports sent n (print_all ss)"
  by (simp add: reports_def)

lemma reports_send:
  assumes "records_sends sent signer" and "\<And>h. reports sent n (q h)"
  shows "reports sent (Suc n) (bind_io (silently (sg_send signer tx)) (\<lambda>h. bind_io (console_log (submitted_line h)) (\<lambda>_. q h)))"
  unfolding reports_def
proof (intro allI)
  fix w out
  let ?p = "bind_io (silently (sg_send signer tx)) (\<lambda>h. bind_io (console_log (submitted_line h)) (\<lambda>_. q h))"
  have s: "sent (snd (sg_send signer tx w)) = sent w @ (case fst (sg_send signer tx w) of Inl e \<Rightarrow> [] | Inr h \<Rightarrow> [h])"
    using assms(1) by (simp add: records_sends_def)
  show "\<exists>ls. snd (snd (?p (w, out))) = out @ ls \<and> sent (fst (snd (?p (w, out)))) = sent w @ reported ls \<and> length (reported ls) \<le> Suc n"
  proof (cases "fst (sg_send signer tx w)")
    case (Inl e)
    with s show ?thesis by (auto simp: bind_io_def)
  next
    case (Inr h)
    let ?o = "out @ [submitted_line h]" and ?v = "snd (sg_send signer tx w)"
    obtain ls where "snd (snd (q h (?v, ?o))) = ?o @ ls" "sent (fst (snd (q h (?v, ?o)))) = sent ?v @ reported ls"
      "length (reported ls) \<le> n" using assms(2) [of h] unfolding reports_def by blast
    with s Inr show ?thesis by (auto simp: bind_io_def intro!: exI [of _ "submitted_line h # ls"])
  qed
qed

lemma publishCell_reports: "records_sends sent signer \<Longrightarrow> reports sent (Suc 0) (publishCell_logged C signer cell)"
  unfolding publishCell_logged_def
  by (intro reports_bind0 reports_send reports_silently reports_lift reports_log)
     (simp_all add: records_sends_def startsWith_def submitted_line_def)

lemma publish_each_reports: "(\<And>c. reports sent (Suc 0) (p c)) \<Longrightarrow> reports sent (length cs) (publish_each p cs)"
proof (induction cs)
  case (Cons c cs)
  have "reports sent (Suc 0 + length cs) (publish_each p (c # cs))"
    unfolding publish_each.simps
    by (rule reports_bind [OF Cons.prems]) (use reports_bind [OF Cons.IH [OF Cons.prems] reports_lift, of 0] in simp)
  then show ?case by simp
qed simp

lemma reports_then0: "reports sent n p \<Longrightarrow> (\<And>x. reports sent 0 (q x)) \<Longrightarrow> reports sent n (bind_io p q)"
  using reports_bind [of sent n p 0 q] by simp

lemma publishDeployment_reports:
  "(\<And>c. reports sent (Suc 0) (p c)) \<Longrightarrow> reports sent (length cs) (publishDeployment ex cs p)"
  unfolding publishDeployment_def
  by (rule reports_bind0 [OF reports_lift], rule reports_then0, erule publish_each_reports, rule reports_lift)

lemma broadcastPlan_reports:
  assumes "records_sends sent signer" and "\<And>p v. keeps sent (de_write env p v)"
  shows "reports sent (length (dp_cells plan)) (broadcastPlan_logged C env path ex plan signer)"
proof -
  have "reports sent (Suc 0) (bind_io (console_log (publishing_line c)) (\<lambda>_. publishCell_logged C signer c))" for c
    by (intro reports_bind0 reports_log publishCell_reports assms(1)) (simp add: publishing_line_def startsWith_def submitted_line_def)
  note each = publishDeployment_reports [OF this]
  have "reports sent 0 (bind_io (silently (de_write env path v)) (\<lambda>_. console_log (CHR 0x0A # ''Wrote '' @ path)))" for v
    by (intro reports_bind0 reports_silently reports_log assms(2)) (simp add: startsWith_def submitted_line_def)
  note rest = reports_then0 [OF each this]
  show ?thesis
    unfolding broadcastPlan_logged_def using assms(1) rest
    by (intro reports_bind0 reports_silently reports_log) (auto simp: records_sends_def startsWith_def submitted_line_def)
qed

text \<open>The names in a plan are the selected ones, so none of its lines looks like a report.\<close>

lemma plan_names:
  assumes "buildDeploymentPlan C disk json root sel l = Inr plan"
  shows "map ai_name (dp_cells plan) = sel"
proof -
  obtain ids where ids: "readLocalArtifactIdentities disk json root = Inr ids"
    and cells: "list_all2 (\<lambda>x y. plan_cell C disk root ids l x = Inr y) sel (dp_cells plan)"
    using assms by (auto simp: buildDeploymentPlan_def result_simps)
  have "ai_name c = n" if "plan_cell C disk root ids l n = Inr c" for n c
    using that identities_named [OF ids, of n] by (auto simp: plan_cell_Inr_iff planned_from_def)
  with cells show ?thesis
    by (induction rule: list_all2_induct) auto
qed

lemma plan_lines_report_nothing:
  assumes "set (map ai_name cells) \<subseteq> set ALL_ARTIFACTS"
  shows "reported (plan_lines cells n) = []"
proof -
  have cell: "reported (plan_cell_lines c) = []" if "ai_name c \<in> set ALL_ARTIFACTS" for c
    using that by (auto simp: plan_cell_lines_def reported_def submitted_line_def startsWith_def ALL_ARTIFACTS_def)
  have "reported (concat (map plan_cell_lines cells)) = []"
    using assms by (induction cells) (simp_all add: cell)
  then show ?thesis
    by (simp add: plan_lines_def) (simp add: reported_def submitted_line_def startsWith_def)
qed

lemma deployMain_reports:
  assumes "\<And>k signer. de_signer env k = Inr signer \<Longrightarrow> records_sends sent signer" and "\<And>p v. keeps sent (de_write env p v)"
  shows "reports sent (case parseDeploymentArgs argv of Inl e \<Rightarrow> 0 | Inr a \<Rightarrow> if ar_broadcast a then length (ar_selection a) else 0)
    (deployMain_logged C env argv)"
proof (cases "parseDeploymentArgs argv")
  case (Inr a)
  note args = parseDeploymentArgs_Inr [OF Inr]
  let ?n = "if ar_broadcast a then length (ar_selection a) else 0"
  let ?plan = "buildDeploymentPlan C (de_disk env) (de_json env) (de_repoRoot env) (ar_selection a) (JNat SECP256K1_LOCK_ARGS_LENGTH)"
  show ?thesis
  proof (cases ?plan)
    case plan: (Inr plan)
    note names = plan_names [OF plan]
    have lines: "reports sent 0 (printPlan (dp_cells plan) n)" for n
      unfolding printPlan_def by (intro reports_print_all plan_lines_report_nothing) (use names args in simp)
    have "length (dp_cells plan) = length (ar_selection a)" using arg_cong [OF names, of length] by simp
    then have "reports sent (length (ar_selection a)) (broadcastPlan_logged C env path ex plan signer)"
      if "de_signer env k = Inr signer" for path ex signer k
      using broadcastPlan_reports [OF assms(1) [OF that] assms(2), of plan] by simp
    then have key: "reports sent (length (ar_selection a)) (bind_io (lift_io (de_signer env k)) (\<lambda>signer.
        broadcastPlan_logged C env path ex plan signer))" for k path ex
      by (cases "de_signer env k") simp_all
    show ?thesis
      unfolding deployMain_logged_def Inr bind_io_lift plan Let_def
      by (auto intro!: reports_bind0 [OF lines] reports_bind0 [OF reports_lift] reports_log key split: option.split
          simp: startsWith_def submitted_line_def)
  qed (simp add: deployMain_logged_def Inr reports_def)
qed (simp add: deployMain_logged_def)

section \<open>The signing key\<close>

text \<open>
  The key reaches the console and the environment only through the signer made from it: two runs
  whose keys give the same signer are equal, and so are any two dry runs, whatever the keys and the
  signers.
\<close>

lemma broadcast_without_key: "broadcastPlan_logged C (env\<lparr>de_CKB_PRIVKEY := k\<rparr>) = broadcastPlan_logged C env"
  by (simp add: fun_eq_iff broadcastPlan_logged_def cong: if_cong)

lemma deploy_key_confined:
  assumes "k \<noteq> []" and "k' \<noteq> []" and "de_signer env k = de_signer env k'"
  shows "runDeploy thrown C (env\<lparr>de_CKB_PRIVKEY := Some k\<rparr>) argv w = runDeploy thrown C (env\<lparr>de_CKB_PRIVKEY := Some k'\<rparr>) argv w"
  using assms by (simp add: runDeploy_def deployMain_logged_def broadcast_without_key cong: if_cong)

lemma deploy_dry_run_ignores_key:
  assumes "''--broadcast'' \<notin> set argv"
  shows "runDeploy thrown C (env\<lparr>de_CKB_PRIVKEY := k, de_signer := s\<rparr>) argv w = runDeploy thrown C env argv w"
proof (cases "parseDeploymentArgs argv")
  case (Inr a)
  then have "\<not> ar_broadcast a" using parseDeploymentArgs_Inr [OF Inr] assms by simp
  then show ?thesis by (simp add: runDeploy_def deployMain_logged_def Inr)
qed (simp add: runDeploy_def deployMain_logged_def)

section \<open>Property\<close>

text \<open>
  C21: the console accounts for every transaction the deployment tool sends. However the run ends
  (a failing node, a timeout, a hash mismatch after the third cell, a file that cannot be written),
  the transaction hashes in the printed \<^verbatim>\<open>submitted\<close> lines are, in order, exactly the hashes the
  signer returned for the transactions it sent; there is at most one per selected artifact, and
  none without \<^verbatim>\<open>--broadcast\<close>. The exit code is 0 exactly when \<^verbatim>\<open>main\<close> returned, and otherwise
  one line on the error stream carries the message of what it threw.
\<close>

theorem deploy_reports_every_send:
  assumes "\<And>k signer. de_signer env k = Inr signer \<Longrightarrow> records_sends sent signer" and "\<And>p v. keeps sent (de_write env p v)"
  shows "sent (pe_world (runDeploy thrown C env argv w)) = sent w @ reported (pe_stdout (runDeploy thrown C env argv w))
    \<and> length (reported (pe_stdout (runDeploy thrown C env argv w))) \<le> (case parseDeploymentArgs argv of
         Inl e \<Rightarrow> 0 | Inr a \<Rightarrow> if ''--broadcast'' \<in> set argv then length (ar_selection a) else 0)
    \<and> pe_world (runDeploy thrown C env argv w) = snd (deployMain C env argv w)
    \<and> (case fst (deployMain C env argv w) of
         Inr u \<Rightarrow> pe_exitCode (runDeploy thrown C env argv w) = 0 \<and> pe_stderr (runDeploy thrown C env argv w) = []
       | Inl e \<Rightarrow> pe_exitCode (runDeploy thrown C env argv w) = 1
           \<and> pe_stderr (runDeploy thrown C env argv w) = [CHR 0x0A # ''Deployment failed: '' @ failure_text thrown e])"
proof -
  let ?n = "case parseDeploymentArgs argv of Inl e \<Rightarrow> 0 | Inr a \<Rightarrow> if ''--broadcast'' \<in> set argv then length (ar_selection a) else 0"
  have "reports sent ?n (deployMain_logged C env argv)"
    using deployMain_reports [OF assms, where argv = argv and C = C] parseDeploymentArgs_Inr [of argv] by (cases "parseDeploymentArgs argv") auto
  then obtain ls where "snd (snd (deployMain_logged C env argv (w, []))) = [] @ ls"
    "sent (fst (snd (deployMain_logged C env argv (w, [])))) = sent w @ reported ls" "length (reported ls) \<le> ?n"
    unfolding reports_def by blast
  then have "sent (pe_world (runDeploy thrown C env argv w)) = sent w @ reported (pe_stdout (runDeploy thrown C env argv w))"
    and "length (reported (pe_stdout (runDeploy thrown C env argv w))) \<le> ?n"
    by (simp_all add: runDeploy_def run_main_world run_main_stdout)
  then show ?thesis
    using deploy.world_same [of thrown "''Deployment failed: ''" C env argv w]
      deploy.exit_code [of thrown "''Deployment failed: ''" C env argv w]
      deploy.failure_line [of thrown "''Deployment failed: ''" C env argv w]
    unfolding runDeploy_def [symmetric] by (simp split: sum.split)
qed

text \<open>A signer that remembers what it sent, and a node that has lost the published cell.\<close>

definition forgetful_signer :: "string list deploy_signer" where
  "forgetful_signer = \<lparr>sg_recommendedScript = return_io \<lparr>codeHash = ref_digest 9, hashType = ''type'', args = ''0x''\<rparr>,
     sg_recommendedAddress = return_io ''ckt'', sg_balance = return_io (100 * SHANNONS_PER_CKB),
     sg_completeInputs = return_io, sg_completeFee = (\<lambda>tx r. return_io tx),
     sg_send = (\<lambda>tx hs. (Inr (ref_digest 4), hs @ [ref_digest 4])), sg_wait = (\<lambda>h. return_io ()),
     sg_getCellLive = (\<lambda>p. return_io None)\<rparr>"

definition forgetful_env :: "string list deploy_env" where
  "forgetful_env = \<lparr>de_repoRoot = de_repoRoot example_env, de_disk = de_disk example_env, de_json = de_json example_env,
     de_exists = de_exists example_env, de_CKB_PRIVKEY = Some ''0x1'', de_signer = (\<lambda>k. Inr forgetful_signer),
     de_write = (\<lambda>p v. return_io ())\<rparr>"

lemma forgetful_deploy:
  "snd (deployMain ref_ccc forgetful_env [''--broadcast'', ''--only'', ''verifier_p256''] []) = [ref_digest 4]
   \<and> is_ok (fst (deployMain ref_ccc forgetful_env [''--broadcast'', ''--only'', ''verifier_p256''] [])) = False"
proof -
  have a: "parseDeploymentArgs [''--broadcast'', ''--only'', ''verifier_p256''] =
    Inr \<lparr>ar_broadcast = True, ar_selection = [''verifier_p256'']\<rparr>"
    by (simp add: parseDeploymentArgs_def startsWith_def ALL_ARTIFACTS_def)
  have e: "buildDeploymentManifest JUndefined [] = Inr (deployment_json [])"
    "buildDeploymentManifest (deployment_json []) [] = Inr (deployment_json [])"
    by (simp_all add: buildDeploymentManifest_Inr_iff old_entries_def deployment_json_def manifest_shape_def
        isObject_def js_entries_def)
  have "\<exists>x. publishCell ref_ccc forgetful_signer example_cell [] = (Inl x, [ref_digest 4])"
    by (simp add: publishCell_def forgetful_signer_def confirm_published_def bind_io_def)
  then obtain x where c: "publishCell ref_ccc forgetful_signer example_cell [] = (Inl x, [ref_digest 4])" by blast
  have p: "publishDeployment (deployment_json []) [example_cell] (publishCell ref_ccc forgetful_signer) [] = (Inl x, [ref_digest 4])"
    by (simp add: publishDeployment_def e c)
  have "broadcastPlan ref_ccc forgetful_env out (deployment_json [])
    \<lparr>dp_cells = [example_cell], dp_totalCapacityShannons = 62 * SHANNONS_PER_CKB\<rparr> forgetful_signer [] = (Inl x, [ref_digest 4])" for out
    using p by (simp add: broadcastPlan_def bind_io_def SHANNONS_PER_CKB_def)
      (simp add: forgetful_signer_def SHANNONS_PER_CKB_def)
  then show ?thesis
    using example_plan by (simp add: deployMain_def a SECP256K1_LOCK_ARGS_LENGTH_def Let_def e forgetful_env_def)
      (simp add: example_env_def e)
qed

theorem deploy_reports_every_send_witness:
  "reported (pe_stdout (runDeploy [] ref_ccc forgetful_env [''--broadcast'', ''--only'', ''verifier_p256''] [])) = [ref_digest 4]
   \<and> pe_exitCode (runDeploy [] ref_ccc forgetful_env [''--broadcast'', ''--only'', ''verifier_p256''] []) = 1"
proof -
  have "records_sends (\<lambda>hs. hs) signer" if "de_signer forgetful_env k = Inr signer" for k signer
    using that by (auto simp: forgetful_env_def forgetful_signer_def records_sends_def keeps_def)
  moreover have "keeps (\<lambda>hs. hs) (de_write forgetful_env p v)" for p v
    by (simp add: forgetful_env_def keeps_def)
  ultimately show ?thesis
    using deploy_reports_every_send [of forgetful_env "\<lambda>hs. hs" "[]" ref_ccc "[''--broadcast'', ''--only'', ''verifier_p256'']" "[]"]
      forgetful_deploy by (auto split: sum.splits)
qed

end
