(* ===== verification/BootstrapCli.thy ===== *)
theory BootstrapCli
  imports BootstrapProps DeploymentProps
begin

text \<open>
  tools/deploy/src/bootstrap.ts, the command line around \<^verbatim>\<open>bootstrapAccount\<close>: its arguments, the
  resolution of the AccountLock code hash that it prints, and \<^verbatim>\<open>main\<close>. Console output is left out
  except for what it says about the deployment, the flag \<open>cp_deployed\<close> of the printed plan. The
  environment is that of the deployment tool with the working directory added.
\<close>

section \<open>Definitions\<close>

record cli_options =
  cl_statePath :: string
  cl_assetCapacityCkb :: int
  cl_broadcast :: bool

text \<open>\<^verbatim>\<open>argv[argv.indexOf(flag) + 1]\<close>, when the flag is there.\<close>

fun flag_value :: "string list \<Rightarrow> string \<Rightarrow> string option" where
  "flag_value [] flag = None"
| "flag_value (x # xs) flag = (if x = flag then (case xs of [] \<Rightarrow> None | v # r \<Rightarrow> Some v) else flag_value xs flag)"

definition parseArgs :: "string list \<Rightarrow> cli_options js" where
  "parseArgs argv = (case flag_value argv ''--state'' of
     None \<Rightarrow> Inl (PlainError ''--state <path> is required; produce it with the export_account_state example'')
   | Some statePath \<Rightarrow>
       if statePath = []
       then Inl (PlainError ''--state <path> is required; produce it with the export_account_state example'')
       else
         let assetRaw = (case flag_value argv ''--asset-capacity'' of None \<Rightarrow> ''200'' | Some v \<Rightarrow> v) in
         if assetRaw = [] \<or> \<not> list_all is_digit assetRaw
         then Inl (PlainError (''--asset-capacity must be a whole number of CKB, got '' @ assetRaw))
         else Inr \<lparr>cl_statePath = statePath, cl_assetCapacityCkb = int (of_dec assetRaw),
                   cl_broadcast = (''--broadcast'' \<in> set argv)\<rparr>)"

definition readJsonOrNull :: "'w deploy_env \<Rightarrow> string \<Rightarrow> js_value js" where
  "readJsonOrNull env path =
     (if \<not> de_exists env path then Inr JNull else bind_r (de_disk env path) (de_json env))"

text \<open>The code hash and whether it comes from the published deployment.\<close>

definition resolveAccountLockCodeHash :: "'w deploy_env \<Rightarrow> (js_value \<times> bool) js" where
  "resolveAccountLockCodeHash env =
     (let testnetPath = resolve (de_repoRoot env) ''deploy/testnet-deployments.json'';
          fallback = bind_r (readLocalArtifactIdentities (de_disk env) (de_json env) (de_repoRoot env)) (\<lambda>ids.
            case map_of ids ''account_lock'' of
              None \<Rightarrow> Inl (PlainError ''no account_lock identity in deploy/reference-deployments.json'')
            | Some identity \<Rightarrow> Inr (ai_dataHash identity, False))
      in
      if de_exists env testnetPath
      then bind_r (bind_r (de_disk env testnetPath) (de_json env)) (\<lambda>manifest.
        if manifest = JNull then Inl (TypeError ''Cannot read properties of null (reading 'artifacts')'')
        else
          let dataHash = jget_opt (jget_opt (jget_opt manifest ''artifacts'') ''account_lock'') ''dataHash'' in
          if js_truthy dataHash then Inr (dataHash, True) else fallback)
      else fallback)"

record creation_plan =
  cp_codeHash :: js_value
  cp_deployed :: bool
  cp_stateCapacity :: int
  cp_assetCapacity :: int

text \<open>\<^verbatim>\<open>main\<close> up to the printed plan.\<close>

definition planCreation :: "'w deploy_env \<Rightarrow> string \<Rightarrow> cli_options \<Rightarrow> (bytes \<times> creation_plan) js" where
  "planCreation env cwd options =
     bind_r (de_disk env (resolve cwd (cl_statePath options))) (\<lambda>stateData.
     if length stateData = 0 then Inl (PlainError (cl_statePath options @ '' is empty''))
     else
       bind_r (resolveAccountLockCodeHash env) (\<lambda>(code, deployed).
       bind_r (cellCapacityShannons (JNat ACCOUNT_LOCK_ARGS_LENGTH) (Some (JNat TYPE_ID_ARGS_LENGTH))
         (JNat (length stateData))) (\<lambda>stateCapacity.
       let assetCapacity = cl_assetCapacityCkb options * SHANNONS_PER_CKB in
       bind_r (cellCapacityShannons (JNat ACCOUNT_LOCK_ARGS_LENGTH) None (JNat 0)) (\<lambda>minimumAsset.
       if assetCapacity < minimumAsset
       then Inl (PlainError (''--asset-capacity '' @ formatCkb assetCapacity @ '' is below the '' @ formatCkb minimumAsset
              @ '' minimum for an AccountLock-locked cell''))
       else Inr (stateData, \<lparr>cp_codeHash = code, cp_deployed = deployed, cp_stateCapacity = stateCapacity,
              cp_assetCapacity = assetCapacity\<rparr>)))))"

definition cli_deps :: "'w deploy_env \<Rightarrow> 'w deploy_signer \<Rightarrow> 'w bootstrap_deps" where
  "cli_deps env signer =
     \<lparr>bd_repoRoot = de_repoRoot env, bd_readJson = (\<lambda>p. lift_io (readJsonOrNull env p)),
      bd_writeJsonAtomic = de_write env, bd_completeInputs = sg_completeInputs signer,
      bd_completeFee = sg_completeFee signer, bd_sendTransaction = sg_send signer, bd_waitTransaction = sg_wait signer\<rparr>"

text \<open>
  The part of \<^verbatim>\<open>main\<close> after the plan is printed. The result is the manifest of the created account,
  or \<open>None\<close> after a dry run.
\<close>

definition createFromPlan ::
  "ccc \<Rightarrow> 'w deploy_env \<Rightarrow> cli_options \<Rightarrow> bytes \<Rightarrow> ('w, js_error, account_manifest option) io"
where
  "createFromPlan C env options stateData =
     (if \<not> cl_broadcast options then return_io None
      else case de_CKB_PRIVKEY env of
         None \<Rightarrow> throw_io (PlainError ''CKB_PRIVKEY is not set; refusing to broadcast'')
       | Some privateKey \<Rightarrow>
           if privateKey = [] then throw_io (PlainError ''CKB_PRIVKEY is not set; refusing to broadcast'')
           else
             bind_io (lift_io (de_signer env privateKey)) (\<lambda>signer.
             bind_io (sg_recommendedAddress signer) (\<lambda>_.
             bind_io (bootstrapAccount C \<lparr>bo_stateData = stateData, bo_assetCapacityCkb = cl_assetCapacityCkb options\<rparr>
               (cli_deps env signer)) (\<lambda>manifest.
             return_io (Some manifest)))))"

definition bootstrapMain ::
  "ccc \<Rightarrow> 'w deploy_env \<Rightarrow> string \<Rightarrow> string list \<Rightarrow> ('w, js_error, account_manifest option) io"
where
  "bootstrapMain C env cwd argv =
     bind_io (lift_io (parseArgs argv)) (\<lambda>options.
     bind_io (lift_io (planCreation env cwd options)) (\<lambda>(stateData, plan).
     createFromPlan C env options stateData))"

section \<open>Lemmas\<close>

lemma dry_run_bootstrap: "''--broadcast'' \<notin> set argv \<Longrightarrow> snd (bootstrapMain C env cwd argv w) = w"
  by (auto simp: bootstrapMain_def createFromPlan_def parseArgs_def Let_def bind_io_def lift_io_def
      split: option.splits sum.splits prod.splits if_splits)

lemma bootstrapAccount_needs_manifest:
  assumes "bd_readJson deps = (\<lambda>p. lift_io (f p))"
    and "f (resolve (bd_repoRoot deps) ''deploy/testnet-deployments.json'') = Inr JNull"
  shows "\<exists>e. bootstrapAccount C opts deps w = (Inl e, w)"
proof (cases "validateOptions opts")
  case (Inr p)
  have "accountLockCodeHash JNull = Inl (PlainError ''testnet deployment manifest is missing'')"
    by (simp add: accountLockCodeHash_def)
  with Inr assms show ?thesis
    by (cases p; cases "f (resolve (bd_repoRoot deps) ''deploy/testnet-account.json'')")
       (auto simp: bootstrapAccount_def Let_def bind_io_def)
qed (simp add: bootstrapAccount_def)

lemma bootstrapMain_effects:
  assumes "\<And>opts signer u. \<exists>e. bootstrapAccount C opts (cli_deps env signer) u = (Inl e, u)"
    and "parseArgs argv = Inr options" and "cl_broadcast options"
  shows "\<exists>e. fst (bootstrapMain C env cwd argv w) = Inl e"
    and "snd (bootstrapMain C env cwd argv w) = w
      \<or> (\<exists>k signer. de_signer env k = Inr signer \<and> snd (bootstrapMain C env cwd argv w) = snd (sg_recommendedAddress signer w))"
proof -
  have tail: "\<exists>e. bind_io (bootstrapAccount C opts (cli_deps env signer)) (\<lambda>m. return_io (Some m)) u = (Inl e, u)" for opts signer u
    using assms(1) [of opts signer u] by auto
  then have "\<exists>e. bind_io (sg_recommendedAddress signer) (\<lambda>_. bind_io (bootstrapAccount C opts (cli_deps env signer))
      (\<lambda>m. return_io (Some m))) w = (Inl e, snd (sg_recommendedAddress signer w))" for opts signer
    by (cases "sg_recommendedAddress signer w"; cases "fst (sg_recommendedAddress signer w)") (auto simp: bind_io_def [of "sg_recommendedAddress signer"])
  then have "(\<exists>e. bootstrapMain C env cwd argv w = (Inl e, w))
      \<or> (\<exists>e k signer. de_signer env k = Inr signer \<and> bootstrapMain C env cwd argv w = (Inl e, snd (sg_recommendedAddress signer w)))"
    using assms(2,3)
    by (cases "planCreation env cwd options"; cases "de_CKB_PRIVKEY env"; cases "de_signer env (the (de_CKB_PRIVKEY env))")
       (auto simp: bootstrapMain_def createFromPlan_def, blast)
  then show "\<exists>e. fst (bootstrapMain C env cwd argv w) = Inl e"
    and "snd (bootstrapMain C env cwd argv w) = w
      \<or> (\<exists>k signer. de_signer env k = Inr signer \<and> snd (bootstrapMain C env cwd argv w) = snd (sg_recommendedAddress signer w))"
    by (metis fst_conv, metis snd_conv)
qed

section \<open>Unpublished deployments\<close>

text \<open>
  No account is created before the deployment is recorded. The comment on
  \<^verbatim>\<open>resolveAccountLockCodeHash\<close> and the warning \<^verbatim>\<open>main\<close> prints say that an account can be created
  while deploy/testnet-deployments.json does not exist; what the code does is to print the plan
  with the locally built code hash, marked as not published, and then to fail: with \<^verbatim>\<open>--broadcast\<close> the
  run ends in an error for every signer and node, and all it has done outside is to ask the signer
  for its address.
\<close>

lemma unpublished_account_never_created:
  assumes "\<not> de_exists env (resolve (de_repoRoot env) ''deploy/testnet-deployments.json'')"
    and "parseArgs argv = Inr options" and "cl_broadcast options"
  shows "(\<exists>e. fst (bootstrapMain C env cwd argv w) = Inl e)
    \<and> (snd (bootstrapMain C env cwd argv w) = w
       \<or> (\<exists>k signer. de_signer env k = Inr signer \<and> snd (bootstrapMain C env cwd argv w) = snd (sg_recommendedAddress signer w)))
    \<and> (planCreation env cwd options = Inr (stateData, plan) \<longrightarrow> \<not> cp_deployed plan)"
proof -
  have "readJsonOrNull env (resolve (de_repoRoot env) ''deploy/testnet-deployments.json'') = Inr JNull"
    using assms(1) by (simp add: readJsonOrNull_def)
  then have refused: "\<exists>e. bootstrapAccount C opts (cli_deps env signer) u = (Inl e, u)" for opts signer u
    using bootstrapAccount_needs_manifest [of "cli_deps env signer" "readJsonOrNull env"] by (simp add: cli_deps_def)
  have "planCreation env cwd options = Inr (stateData, plan) \<longrightarrow> \<not> cp_deployed plan"
    using assms(1)
    by (auto simp: planCreation_def resolveAccountLockCodeHash_def Let_def bind_r_Inr_iff split: option.splits if_splits)
  then show ?thesis
    using bootstrapMain_effects [OF refused assms(2,3)] by blast
qed

definition example_unpublished :: "nat deploy_env" where
  "example_unpublished = \<lparr>de_repoRoot = ''/r'', de_disk = (\<lambda>p. Inr [7]),
     de_json = (\<lambda>b. Inr (JObj [(''local'', JObj [(''artifacts'', JObj [(''account_lock'',
       JObj [(''path'', JStr ''p''), (''data_hash'', JStr ''h'')])])])])),
     de_exists = (\<lambda>p. False), de_CKB_PRIVKEY = Some ''k'', de_signer = (\<lambda>k. Inr example_signer), de_write = (\<lambda>p v. return_io ())\<rparr>"

lemma example_unpublished_plan:
  "\<exists>bs plan. planCreation example_unpublished ''/'' \<lparr>cl_statePath = ''s'', cl_assetCapacityCkb = 200, cl_broadcast = True\<rparr> = Inr (bs, plan)"
  by (simp add: planCreation_def example_unpublished_def resolveAccountLockCodeHash_def readLocalArtifactIdentities_def
      js_truthy_def js_entries_def cellCapacityShannons_def invalid_length_def int_of_number_def SHANNONS_PER_CKB_def
      CAPACITY_FIELD_BYTES_def SCRIPT_FIXED_BYTES_def ACCOUNT_LOCK_ARGS_LENGTH_def TYPE_ID_ARGS_LENGTH_def)

end
