(* ===== verification/BootstrapConsole.thy ===== *)
theory BootstrapConsole
  imports DeployConsole BootstrapCli
begin

text \<open>
  tools/deploy/src/bootstrap.ts as a command line program: the messages of \<^verbatim>\<open>main\<close> around
  \<open>bootstrapAccount\<close>, and the entry point. Without its messages the program is \<open>bootstrapMain\<close>.
\<close>

section \<open>The program\<close>

definition creation_lines :: "bytes \<Rightarrow> creation_plan \<Rightarrow> string list" where
  "creation_lines stateData plan =
     [''Account creation plan'' @ [CHR 0x0A],
      ''  AccountLock code hash '' @ js_text (cp_codeHash plan),
      ''  AccountLock published  '' @ (if cp_deployed plan then ''yes'' else ''NOT YET''),
      ''  state bytes            '' @ dec (length stateData),
      ''  state cell capacity    '' @ formatCkb (cp_stateCapacity plan),
      ''  asset cell capacity    '' @ formatCkb (cp_assetCapacity plan),
      ''  total                  '' @ formatCkb (cp_stateCapacity plan + cp_assetCapacity plan) @ [CHR 0x0A]]"

definition UNPUBLISHED_WARNING :: string where
  "UNPUBLISHED_WARNING =
     ''  WARNING: no deploy/testnet-deployments.json. Creation does not execute'' @ [CHR 0x0A]
     @ ''  AccountLock, so this transaction would succeed, but the account cannot'' @ [CHR 0x0A]
     @ ''  be spent until that code cell is published.'' @ [CHR 0x0A]"

definition created_lines :: "string \<Rightarrow> account_manifest \<Rightarrow> string list" where
  "created_lines repoRoot manifest =
     [''  account id '' @ am_account_id manifest,
      ''  lock args  '' @ am_lock_args manifest,
      ''  committed  '' @ mo_tx_hash (am_state_out_point manifest),
      CHR 0x0A # ''Wrote '' @ resolve repoRoot ''deploy/testnet-account.json'']"

definition createFromPlan_logged ::
  "ccc \<Rightarrow> 'w deploy_env \<Rightarrow> cli_options \<Rightarrow> bytes \<Rightarrow> ('w tty, js_error, account_manifest option) io"
where
  "createFromPlan_logged C env options stateData =
     (if \<not> cl_broadcast options
      then bind_io (console_log ''Dry run. Re-run with --broadcast and CKB_PRIVKEY set to create.'') (\<lambda>_. return_io None)
      else case de_CKB_PRIVKEY env of
         None \<Rightarrow> throw_io (PlainError ''CKB_PRIVKEY is not set; refusing to broadcast'')
       | Some privateKey \<Rightarrow>
           if privateKey = [] then throw_io (PlainError ''CKB_PRIVKEY is not set; refusing to broadcast'')
           else
             bind_io (lift_io (de_signer env privateKey)) (\<lambda>signer.
             bind_io (silently (sg_recommendedAddress signer)) (\<lambda>address.
             bind_io (console_log (''Creating from '' @ address @ [CHR 0x0A])) (\<lambda>_.
             bind_io (silently (bootstrapAccount C
               \<lparr>bo_stateData = stateData, bo_assetCapacityCkb = cl_assetCapacityCkb options\<rparr> (cli_deps env signer))) (\<lambda>manifest.
             bind_io (print_all (created_lines (de_repoRoot env) manifest)) (\<lambda>_.
             return_io (Some manifest)))))))"

definition bootstrapMain_logged ::
  "ccc \<Rightarrow> 'w deploy_env \<Rightarrow> string \<Rightarrow> string list \<Rightarrow> ('w tty, js_error, account_manifest option) io"
where
  "bootstrapMain_logged C env cwd argv =
     bind_io (lift_io (parseArgs argv)) (\<lambda>options.
     bind_io (lift_io (planCreation env cwd options)) (\<lambda>(stateData, plan).
     bind_io (print_all (creation_lines stateData plan)) (\<lambda>_.
     bind_io (print_all (if \<not> cp_deployed plan then [UNPUBLISHED_WARNING] else [])) (\<lambda>_.
     createFromPlan_logged C env options stateData))))"

definition runBootstrap :: "string \<Rightarrow> ccc \<Rightarrow> 'w deploy_env \<Rightarrow> string \<Rightarrow> string list \<Rightarrow> 'w \<Rightarrow> 'w process_end" where
  "runBootstrap thrown C env cwd argv w = run_main thrown ''Account creation failed: '' (bootstrapMain_logged C env cwd argv) w"

section \<open>Without its messages\<close>

lemma createFromPlan_erases: "erases (createFromPlan_logged C env options d) (createFromPlan C env options d)"
  unfolding createFromPlan_logged_def createFromPlan_def
  by (auto split: option.split intro!: erases_bind erases_print_all erases_print erases_lift erases_silently)

lemma bootstrapMain_erases: "erases (bootstrapMain_logged C env cwd argv) (bootstrapMain C env cwd argv)"
  unfolding bootstrapMain_logged_def bootstrapMain_def
  by (intro erases_bind erases_lift) (auto intro!: erases_print_all createFromPlan_erases)

interpretation bootstrap: printing_program "bootstrapMain_logged C env cwd argv" "bootstrapMain C env cwd argv"
  for C env cwd argv
  by unfold_locales (rule bootstrapMain_erases)

lemma bootstrap_stdout:
  assumes "parseArgs argv = Inr options" and "planCreation env cwd options = Inr (stateData, plan)"
  shows "\<exists>ls. pe_stdout (runBootstrap thrown C env cwd argv w) =
    creation_lines stateData plan @ (if \<not> cp_deployed plan then [UNPUBLISHED_WARNING] else []) @ ls"
proof -
  let ?ls = "creation_lines stateData plan @ (if \<not> cp_deployed plan then [UNPUBLISHED_WARNING] else [])"
  have "bootstrapMain_logged C env cwd argv (w, []) = createFromPlan_logged C env options stateData (w, ?ls)"
    by (simp add: bootstrapMain_logged_def assms del: print_all.simps)
  moreover obtain ls where "snd (snd (createFromPlan_logged C env options stateData (w, ?ls))) = ?ls @ ls"
    using createFromPlan_erases [of C env options stateData] by (auto simp: erases_def)
  ultimately show ?thesis by (simp add: runBootstrap_def run_main_stdout)
qed

text \<open>The signing key reaches the console and the environment only through the signer made from it.\<close>

lemma bootstrap_key_confined:
  assumes "k \<noteq> []" and "k' \<noteq> []" and "de_signer env k = de_signer env k'"
  shows "runBootstrap thrown C (env\<lparr>de_CKB_PRIVKEY := Some k\<rparr>) cwd argv w = runBootstrap thrown C (env\<lparr>de_CKB_PRIVKEY := Some k'\<rparr>) cwd argv w"
proof -
  have "createFromPlan_logged C (env\<lparr>de_CKB_PRIVKEY := Some k\<rparr>) = createFromPlan_logged C (env\<lparr>de_CKB_PRIVKEY := Some k'\<rparr>)"
    using assms by (simp add: fun_eq_iff createFromPlan_logged_def cli_deps_def readJsonOrNull_def cong: if_cong)
  moreover have "planCreation (env\<lparr>de_CKB_PRIVKEY := Some k\<rparr>) = planCreation (env\<lparr>de_CKB_PRIVKEY := Some k'\<rparr>)"
    by (simp add: fun_eq_iff planCreation_def resolveAccountLockCodeHash_def cong: if_cong)
  ultimately show ?thesis by (simp add: runBootstrap_def bootstrapMain_logged_def)
qed

section \<open>Property\<close>



end
