(* ===== verification/Exporter.thy ===== *)
theory Exporter
  imports Service Host
begin

text \<open>
  demo/src/server/state-exporter.ts: the server writes a configuration for the request into a
  fresh private directory, runs the Rust exporter on it in a child process and reads the state
  bytes back.

  \<^verbatim>\<open>ExporterDeps\<close> is the record \<open>exporter_deps\<close> of operations on an arbitrary environment; the values
  of \<^verbatim>\<open>tmpdir()\<close> and of the working directory, Node's SHA-256 and \<^verbatim>\<open>JSON.stringify\<close> are the record
  \<open>node_runtime\<close>. A process environment is an association list. \<^verbatim>\<open>join(d, name)\<close> is only used on an
  absolute directory and a plain file name, where it is \<^verbatim>\<open>resolve(d, name)\<close>.
\<close>

section \<open>Definitions\<close>

definition TEMP_DIRECTORY_PREFIX :: string where
  "TEMP_DIRECTORY_PREFIX = ''ckb-passkey-state-''"

type_synonym process_env = "(string \<times> string) list"

record spawn_options =
  so_cwd :: string
  so_shell :: bool
  so_env :: process_env

record spawn_result =
  sr_exitCode :: int
  sr_stderr :: string

record write_options =
  wo_mode :: nat
  wo_flag :: string

record 'w exporter_deps =
  xd_repoRoot :: string
  xd_deployment :: js_value
  xd_processEnv :: process_env
  xd_makeTempDir :: "('w, js_error, string) io"
  xd_writeFile :: "string \<Rightarrow> string \<Rightarrow> write_options \<Rightarrow> ('w, js_error, unit) io"
  xd_spawnProcess :: "string \<Rightarrow> string list \<Rightarrow> spawn_options \<Rightarrow> ('w, js_error, spawn_result) io"
  xd_readFile :: "string \<Rightarrow> ('w, js_error, bytes) io"
  xd_removeDir :: "string \<Rightarrow> ('w, js_error, unit) io"

record node_runtime =
  nr_tmpdir :: string
  nr_cwd :: string
  nr_sha256Hex :: "string \<Rightarrow> string"
  nr_stringify :: "js_value \<Rightarrow> string"

definition char_upper :: "char \<Rightarrow> char" where
  "char_upper c = (let n = of_char c :: nat in if 97 \<le> n \<and> n \<le> 122 then char_of (n - 32) else c)"

definition toUpperCase :: "string \<Rightarrow> string" where
  "toUpperCase s = map char_upper s"

definition sanitizedEnvironment :: "process_env \<Rightarrow> process_env" where
  "sanitizedEnvironment env = from_entries (filter (\<lambda>(name, v). toUpperCase name \<noteq> ''CKB_PRIVKEY'') env)"

definition accountConfiguration ::
  "ccc \<Rightarrow> node_runtime \<Rightarrow> bootstrap_request \<Rightarrow> deployment_manifest \<Rightarrow> js_value js"
where
  "accountConfiguration C N request deployment =
     bind_r (bytesFromHex (br_publicKey request)) (\<lambda>pk.
     bind_r (ckbHash C pk) (\<lambda>h.
     let keyId = hexFromBytes h; aux = ''0x01'' @ nr_sha256Hex N RP_ID @ nr_sha256Hex N CLIENT_ORIGIN in
     Inr (JObj [
       (''flags'', JNum (JNat 1)), (''sequence'', JNum (JNat 0)), (''spend_threshold'', JNum (JNat 1)),
       (''rotate_threshold'', JNum (JNat 1)), (''recovery_threshold'', JNum (JNat 1)), (''recovery_since'', JNum (JNat 0)),
       (''authenticators'', JArr [JObj [
          (''slot'', JNum (JNat 0)), (''algorithm_id'', JNum (JNat 1)), (''capabilities'', JNum (JNat 7)),
          (''weight'', JNum (JNat 1)), (''verifier_hash_type'', JNum (JNat 0)), (''verifier_abi'', JNum (JNat 1)),
          (''verifier_code_hash'', JStr (da_dataHash (dm_verifier_p256 deployment))),
          (''key_id'', JStr keyId), (''aux'', JStr aux)]])])))"

definition export_failed :: js_error where
  "export_failed = ApiError BOOTSTRAP_FAILED 500 ''Account state export failed''"

definition safeTemporaryDirectory :: "node_runtime \<Rightarrow> string \<Rightarrow> string js" where
  "safeTemporaryDirectory N path =
     (let resolved = resolve (nr_cwd N) path in
      if dirname resolved \<noteq> resolve (nr_cwd N) (nr_tmpdir N) \<or> \<not> startsWith (basename resolved) TEMP_DIRECTORY_PREFIX
      then Inl export_failed else Inr resolved)"

definition config_path :: "string \<Rightarrow> string" where
  "config_path directory = resolve directory ''account.json''"

definition output_path :: "string \<Rightarrow> string" where
  "output_path directory = resolve directory ''state.bin''"

text \<open>The body of the \<^verbatim>\<open>try\<close>, once the directory is known.\<close>

definition export_in ::
  "ccc \<Rightarrow> node_runtime \<Rightarrow> 'w exporter_deps \<Rightarrow> bootstrap_request \<Rightarrow> deployment_manifest \<Rightarrow> string \<Rightarrow> ('w, js_error, bytes) io"
where
  "export_in C N deps request deployment directory =
     bind_io (lift_io (accountConfiguration C N request deployment)) (\<lambda>config.
     bind_io (xd_writeFile deps (config_path directory) (nr_stringify N config @ [CHR 0x0A])
       \<lparr>wo_mode = 384, wo_flag = ''wx''\<rparr>) (\<lambda>_.
     bind_io (xd_spawnProcess deps ''cargo''
       [''run'', ''-q'', ''-p'', ''ckb-account-host'', ''--example'', ''export_account_state'', ''--'',
        config_path directory, output_path directory]
       \<lparr>so_cwd = xd_repoRoot deps, so_shell = False, so_env = sanitizedEnvironment (xd_processEnv deps)\<rparr>) (\<lambda>result.
     if sr_exitCode result \<noteq> 0 then throw_io export_failed
     else bind_io (xd_readFile deps (output_path directory)) (\<lambda>out.
       if length out = 0 then throw_io export_failed else return_io out))))"

text \<open>\<^verbatim>\<open>try { m } finally { c }\<close>: a failure of the last block replaces the outcome.\<close>

definition finally_io :: "('w, 'e, 'a) io \<Rightarrow> ('w, 'e, unit) io \<Rightarrow> ('w, 'e, 'a) io" where
  "finally_io m c = (\<lambda>w. case m w of (r, w1) \<Rightarrow> (case c w1 of (Inl e, w2) \<Rightarrow> (Inl e, w2) | (Inr _, w2) \<Rightarrow> (r, w2)))"

definition rethrow :: "js_error \<Rightarrow> ('w, js_error, 'a) io" where
  "rethrow e = throw_io (if is_api_error e then e else export_failed)"

definition exportAccountState ::
  "ccc \<Rightarrow> zod \<Rightarrow> node_runtime \<Rightarrow> js_value \<Rightarrow> 'w exporter_deps \<Rightarrow> ('w, js_error, bytes) io"
where
  "exportAccountState C Z N requestValue deps = (case parse_as Z BootstrapRequestSchema bootstrap_request_of requestValue of
     None \<Rightarrow> throw_io (ApiError INVALID_REQUEST 400 ''Invalid account bootstrap request'')
   | Some request \<Rightarrow> (case parse_as Z DeploymentManifestSchema deployment_manifest_of (xd_deployment deps) of
       None \<Rightarrow> throw_io (ApiError DEPLOYMENT_INVALID 500 ''Testnet deployment is invalid'')
     | Some deployment \<Rightarrow>
         bind_io (catch_io (bind_io (xd_makeTempDir deps) (\<lambda>d. lift_io (safeTemporaryDirectory N d))) rethrow) (\<lambda>directory.
         finally_io (catch_io (export_in C N deps request deployment directory) rethrow) (xd_removeDir deps directory))))"

text \<open>
  The child process as the stream of its events: chunks of standard error, a failure to start,
  or its end with an exit code, absent when a signal ended it. The first of the last two settles
  the promise; \<open>None\<close> means that neither has happened yet.
\<close>

datatype child_event = StderrData string | ChildError js_error | ChildClose "int option"

fun spawnCargo :: "string \<Rightarrow> child_event list \<Rightarrow> (js_error + spawn_result) option" where
  "spawnCargo stderr [] = None"
| "spawnCargo stderr (StderrData chunk # es) = spawnCargo (if length stderr < 16384 then stderr @ chunk else stderr) es"
| "spawnCargo stderr (ChildError e # es) = Some (Inl e)"
| "spawnCargo stderr (ChildClose code # es) =
     Some (Inr \<lparr>sr_exitCode = (case code of None \<Rightarrow> 1 | Some c \<Rightarrow> c), sr_stderr = take 16384 stderr\<rparr>)"

text \<open>The file-system calls \<^verbatim>\<open>createExporterDeps\<close> wraps, and the wrapping.\<close>

record 'w node_fs =
  nf_mkdtemp :: "string \<Rightarrow> ('w, js_error, string) io"
  nf_chmod :: "string \<Rightarrow> nat \<Rightarrow> ('w, js_error, unit) io"
  nf_writeFile :: "string \<Rightarrow> string \<Rightarrow> write_options \<Rightarrow> ('w, js_error, unit) io"
  nf_spawn :: "string \<Rightarrow> string list \<Rightarrow> spawn_options \<Rightarrow> ('w, js_error, spawn_result) io"
  nf_readFile :: "string \<Rightarrow> ('w, js_error, bytes) io"
  nf_rm :: "string \<Rightarrow> ('w, js_error, unit) io"

definition createExporterDeps ::
  "node_runtime \<Rightarrow> 'w node_fs \<Rightarrow> string \<Rightarrow> js_value \<Rightarrow> process_env \<Rightarrow> 'w exporter_deps"
where
  "createExporterDeps N fs repoRoot deployment processEnv =
     \<lparr>xd_repoRoot = repoRoot, xd_deployment = deployment, xd_processEnv = processEnv,
      xd_makeTempDir = bind_io (nf_mkdtemp fs (resolve (nr_tmpdir N) TEMP_DIRECTORY_PREFIX)) (\<lambda>directory.
        bind_io (nf_chmod fs directory 448) (\<lambda>_. return_io directory)),
      xd_writeFile = nf_writeFile fs, xd_spawnProcess = nf_spawn fs, xd_readFile = nf_readFile fs,
      xd_removeDir = nf_rm fs\<rparr>"

section \<open>Confinement\<close>

lemma spawnCargo_stderr: "spawnCargo s es = Some (Inr r) \<Longrightarrow> length (sr_stderr r) \<le> 16384"
  by (induction s es rule: spawnCargo.induct) auto

text \<open>What may leave the exporter when the directory can be removed.\<close>

definition clean_outcome :: "js_error + bytes \<Rightarrow> bool" where
  "clean_outcome r = (case r of Inl e \<Rightarrow> is_api_error e | Inr bs \<Rightarrow> bs \<noteq> [])"

definition safe_directory :: "node_runtime \<Rightarrow> string \<Rightarrow> bool" where
  "safe_directory N d \<longleftrightarrow>
     dirname d = resolve (nr_cwd N) (nr_tmpdir N) \<and> startsWith (basename d) TEMP_DIRECTORY_PREFIX"

lemma safeTemporaryDirectory_Inr_iff:
  "safeTemporaryDirectory N p = Inr d \<longleftrightarrow> d = resolve (nr_cwd N) p \<and> safe_directory N d"
  by (auto simp: safeTemporaryDirectory_def safe_directory_def Let_def)

lemma is_api_error_export_failed [simp]: "is_api_error export_failed"
  by (simp add: is_api_error_def export_failed_def)

lemma export_in_nonempty: "export_in C N deps request deployment d w = (Inr bs, w') \<Longrightarrow> bs \<noteq> []"
  by (auto simp: export_in_def bind_io_Inr_iff split: if_splits)

lemma catch_rethrow_clean:
  assumes "catch_io m rethrow w = (r, w')" and "\<And>w w' bs. m w = (Inr bs, w') \<Longrightarrow> bs \<noteq> []"
  shows "clean_outcome r"
  using assms by (auto simp: catch_io_def rethrow_def clean_outcome_def split: prod.splits sum.splits if_splits)

lemma finally_io_run:
  assumes "finally_io m c w = (r, w')"
  shows "\<exists>r1 w1 u. m w = (r1, w1) \<and> c w1 = (u, w') \<and> r = (case u of Inl e \<Rightarrow> Inl e | Inr _ \<Rightarrow> r1)"
  using assms by (auto simp: finally_io_def split: prod.splits sum.splits)

lemma make_directory:
  assumes "catch_io (bind_io mk (\<lambda>d. lift_io (safeTemporaryDirectory N d))) rethrow w = (r, w1)"
  shows "(\<exists>e. r = Inl e \<and> is_api_error e) \<and> (\<exists>m. mk w = (m, w1))
    \<or> (\<exists>p d. r = Inr d \<and> mk w = (Inr p, w1) \<and> d = resolve (nr_cwd N) p \<and> safe_directory N d)"
proof (cases "mk w")
  case (Pair m u)
  then show ?thesis
    using assms
    by (cases m) (auto simp: catch_io_def bind_io_def rethrow_def safeTemporaryDirectory_Inr_iff split: sum.splits prod.splits if_splits)
qed

lemma exportAccountState_cases:
  assumes "exportAccountState C Z N v deps w = (r, w')"
  shows "w' = w \<and> clean_outcome r
    \<or> (\<exists>m. xd_makeTempDir deps w = (m, w')) \<and> clean_outcome r
    \<or> (\<exists>p d w1 r1 w2 u. xd_makeTempDir deps w = (Inr p, w1) \<and> d = resolve (nr_cwd N) p \<and> safe_directory N d
        \<and> xd_removeDir deps d w2 = (u, w') \<and> clean_outcome r1 \<and> r = (case u of Inl e \<Rightarrow> Inl e | Inr _ \<Rightarrow> r1))"
proof -
  note def = exportAccountState_def [of C Z N v deps]
  show ?thesis
  proof (cases "parse_as Z BootstrapRequestSchema bootstrap_request_of v")
    case None
    then show ?thesis using assms by (intro disjI1) (auto simp: def clean_outcome_def is_api_error_def)
  next
    case req: (Some request)
    show ?thesis
    proof (cases "parse_as Z DeploymentManifestSchema deployment_manifest_of (xd_deployment deps)")
      case None
      then show ?thesis using assms req by (intro disjI1) (auto simp: def clean_outcome_def is_api_error_def)
    next
      case dep: (Some deployment)
      obtain r0 w1 where make: "catch_io (bind_io (xd_makeTempDir deps)
          (\<lambda>d. lift_io (safeTemporaryDirectory N d))) rethrow w = (r0, w1)" by fastforce
      from make_directory [OF this] show ?thesis
      proof (elim disjE exE conjE)
        fix e m assume "r0 = Inl e" "is_api_error e" "xd_makeTempDir deps w = (m, w1)"
        then show ?thesis using assms make by (intro disjI2 disjI1) (auto simp: def req dep bind_io_def clean_outcome_def)
      next
        fix p d assume d: "r0 = Inr d" "xd_makeTempDir deps w = (Inr p, w1)" "d = resolve (nr_cwd N) p" "safe_directory N d"
        have "finally_io (catch_io (export_in C N deps request deployment d) rethrow) (xd_removeDir deps d) w1 = (r, w')"
          using assms make d(1) by (simp add: def req dep bind_io_def)
        from finally_io_run [OF this] obtain r1 w2 u where f: "catch_io (export_in C N deps request deployment d) rethrow w1 = (r1, w2)"
          "xd_removeDir deps d w2 = (u, w')" "r = (case u of Inl e \<Rightarrow> Inl e | Inr _ \<Rightarrow> r1)"
          by blast
        have "clean_outcome r1" by (rule catch_rethrow_clean [OF f(1)]) (rule export_in_nonempty)
        with d f(2,3) show ?thesis by blast
      qed
    qed
  qed
qed


end
