(* ===== verification/ExportedState.thy ===== *)
theory ExportedState
  imports Exporter ServiceProps
begin

unbundle bit_operations_syntax

text \<open>
  The server's exporter composed with the Rust program it runs: what
  crates/host/examples/export_account_state.rs does with the files, and that the state bytes the
  server obtains for a request are the one state the browser and the chain accept for its key.
\<close>

section \<open>The exported program\<close>

text \<open>
  \<^verbatim>\<open>main\<close> on the file system \<open>files\<close>: the exit code and the files afterwards. Reading and parsing the
  JSON text is the parameter \<open>serde\<close>; \<open>written\<close> says whether the final write succeeds. A panic
  exits with 101.
\<close>

definition export_account_state ::
  "(string \<Rightarrow> string + bytes) \<Rightarrow> (bytes \<Rightarrow> account_state_config option) \<Rightarrow> bool \<Rightarrow> string list
   \<Rightarrow> (string \<rightharpoonup> bytes) \<Rightarrow> int \<times> (string \<rightharpoonup> bytes)"
where
  "export_account_state H serde written arguments files = (case arguments of
     config # out # rest \<Rightarrow>
       (case Option.bind (files config) serde of
          None \<Rightarrow> (1, files)
        | Some c \<Rightarrow>
            (case encode_config H c of
               Inl ConfigPanic \<Rightarrow> (101, files)
             | Inl e \<Rightarrow> (1, files)
             | Inr encoded \<Rightarrow> if written then (0, files(out \<mapsto> encoded)) else (1, files)))
   | _ \<Rightarrow> (2, files))"

text \<open>
  What the exporter relies on. A file that was written holds the text, a file that is read holds
  the bytes returned, and a child process that exits with 0 was a complete run of the program on
  the two paths after \<^verbatim>\<open>--\<close>. \<open>files\<close> gives the file system of an environment.
\<close>

definition cargo_run :: "string \<Rightarrow> string \<Rightarrow> string list" where
  "cargo_run config out = [''run'', ''-q'', ''-p'', ''ckb-account-host'', ''--example'', ''export_account_state'', ''--'', config, out]"

definition runs_exporter ::
  "(string \<Rightarrow> string + bytes) \<Rightarrow> (bytes \<Rightarrow> account_state_config option) \<Rightarrow> ('w \<Rightarrow> string \<rightharpoonup> bytes) \<Rightarrow> 'w exporter_deps \<Rightarrow> bool"
where
  "runs_exporter H serde files deps \<longleftrightarrow>
     (\<forall>p s opts w w'. xd_writeFile deps p s opts w = (Inr (), w') \<longrightarrow> files w' p = Some (ascii s))
   \<and> (\<forall>config out opts w r w'. xd_spawnProcess deps ''cargo'' (cargo_run config out) opts w = (Inr r, w') \<and> sr_exitCode r = 0
        \<longrightarrow> (\<exists>written. export_account_state H serde written [config, out] (files w) = (0, files w')))
   \<and> (\<forall>p w bs w'. xd_readFile deps p w = (Inr bs, w') \<longrightarrow> files w p = Some bs)"

text \<open>The \<^verbatim>\<open>hex\<close> crate decodes lower-case hex.\<close>

definition hex_crate :: "(string \<Rightarrow> string + bytes) \<Rightarrow> bool" where
  "hex_crate H \<longleftrightarrow> (\<forall>bs. H (drop 2 (hexFromBytes bs)) = Inr bs)"

text \<open>The two hashes the browser pins (demo/src/client/chain.ts) are the SHA-256 of the demo's names.\<close>

definition demo_hashes :: "node_runtime \<Rightarrow> bool" where
  "demo_hashes N \<longleftrightarrow> nr_sha256Hex N RP_ID = EXPECTED_RP_ID_HASH \<and> nr_sha256Hex N CLIENT_ORIGIN = EXPECTED_ORIGIN_HASH"

section \<open>The configuration of a request\<close>

definition authenticator_json :: "authenticator_config \<Rightarrow> js_value" where
  "authenticator_json a = JObj [
     (''slot'', JNum (JNat (unat (ac_slot a)))), (''algorithm_id'', JNum (JNat (unat (ac_algorithm_id a)))),
     (''capabilities'', JNum (JNat (unat (ac_capabilities a)))), (''weight'', JNum (JNat (unat (ac_weight a)))),
     (''verifier_hash_type'', JNum (JNat (unat (ac_verifier_hash_type a)))),
     (''verifier_abi'', JNum (JNat (unat (ac_verifier_abi a)))),
     (''verifier_code_hash'', JStr (ac_verifier_code_hash a)), (''key_id'', JStr (ac_key_id a)), (''aux'', JStr (ac_aux a))]"

definition config_json :: "account_state_config \<Rightarrow> js_value" where
  "config_json c = JObj [
     (''flags'', JNum (JNat (unat (cf_flags c)))), (''sequence'', JNum (JNat (unat (cf_sequence c)))),
     (''spend_threshold'', JNum (JNat (unat (cf_spend_threshold c)))),
     (''rotate_threshold'', JNum (JNat (unat (cf_rotate_threshold c)))),
     (''recovery_threshold'', JNum (JNat (unat (cf_recovery_threshold c)))),
     (''recovery_since'', JNum (JNat (unat (cf_recovery_since c)))),
     (''authenticators'', JArr (map authenticator_json (cf_authenticators c)))]"

definition demo_config :: "string \<Rightarrow> string \<Rightarrow> account_state_config" where
  "demo_config verifier key = \<lparr>cf_flags = 1, cf_sequence = 0, cf_spend_threshold = 1, cf_rotate_threshold = 1,
     cf_recovery_threshold = 1, cf_recovery_since = 0, cf_authenticators =
       [\<lparr>ac_slot = 0, ac_algorithm_id = 1, ac_capabilities = 7, ac_weight = 1, ac_verifier_hash_type = 0, ac_verifier_abi = 1,
         ac_verifier_code_hash = verifier, ac_key_id = key, ac_aux = ''0x01'' @ EXPECTED_RP_ID_HASH @ EXPECTED_ORIGIN_HASH\<rparr>]\<rparr>"

definition config_text :: "node_runtime \<Rightarrow> account_state_config \<Rightarrow> bytes" where
  "config_text N c = ascii (nr_stringify N (config_json c) @ [CHR 0x0A])"

lemma accountConfiguration_demo:
  assumes "demo_hashes N" and "accountConfiguration C N request deployment = Inr v"
  shows "\<exists>pk h. bytesFromHex (br_publicKey request) = Inr pk \<and> ckbHash C pk = Inr h
    \<and> v = config_json (demo_config (da_dataHash (dm_verifier_p256 deployment)) (hexFromBytes h))"
  using assms
  by (auto simp: accountConfiguration_def demo_hashes_def bind_r_Inr_iff Let_def config_json_def demo_config_def authenticator_json_def)

lemma startsWith_hex [simp]: "startsWith (hexFromBytes bs) ''0x''"
  by (simp add: startsWith_def hexFromBytes_def)

lemma parse_hex_crate: "hex_crate H \<Longrightarrow> parse_hex H field (hexFromBytes bs) = Inr bs"
  by (simp add: parse_hex_def hex_crate_def Let_def)

lemma expected_aux_string: "''0x01'' @ EXPECTED_RP_ID_HASH @ EXPECTED_ORIGIN_HASH = hexFromBytes expected_aux"
  using expected_aux_hex by (simp add: hexFromBytes_def)

text \<open>The exporter accepts the demo's configuration and produces the profile's state.\<close>

lemma encode_demo_config:
  assumes "hex_crate H" and "length verifier = 32" and "length key = 32"
  shows "encode_config H (demo_config (hexFromBytes verifier) (hexFromBytes key)) = Inr (profile_state 0 verifier key)"
proof -
  let ?c = "demo_config (hexFromBytes verifier) (hexFromBytes key)"
  let ?a = "\<lparr>au_slot = 0, au_algorithm_id = 1, au_capabilities = 7, au_weight = 1, au_verifier_hash_type = 0,
    au_verifier_abi = 1, au_verifier_code_hash = verifier, au_key_id = key, au_aux = expected_aux\<rparr>"
  have "expected_aux \<noteq> []" using length_expected_aux by (metis length_0_conv zero_neq_numeral)
  then have auths: "map_r (to_authenticator H) (cf_authenticators ?c) = Inr [?a]"
    using assms(2,3)
    by (simp add: demo_config_def expected_aux_string [simplified] to_authenticator_def parse_hash_def parse_hex_crate [OF assms(1)])
  have st: "header_of (configured_state ?c [?a]) = profile_header 0" "map entry_of [?a] = [profile_entry verifier key]"
    by (simp_all add: header_of_def configured_state_def demo_config_def profile_header_def entry_of_def profile_entry_def)
  have "encode_config H ?c = Inr (config_layout ?c [?a])"
    using profile_state_ok [OF assms(2,3), of 0]
    by (intro encode_config_complete [OF _ auths]) (simp_all only: st, simp_all add: demo_config_def)
  then show ?thesis by (simp only: st profile_state_def)
qed

section \<open>Composition\<close>

lemma export_catch_Inr: "catch_io m rethrow w = (Inr x, w') \<longleftrightarrow> m w = (Inr x, w')"
  by (auto simp: catch_io_def rethrow_def split: prod.splits sum.splits)

lemma finally_io_Inr_iff: "finally_io m c w = (Inr x, w') \<longleftrightarrow> (\<exists>w1. m w = (Inr x, w1) \<and> c w1 = (Inr (), w'))"
  by (auto simp: finally_io_def split: prod.splits sum.splits)

lemma if_throw_Inr_iff: "(if b then throw_io e else m) w = (Inr x, w') \<longleftrightarrow> \<not> b \<and> m w = (Inr x, w')"
  by simp

lemma lift_Inr_iff: "lift_io r w = (Inr x, w') \<longleftrightarrow> r = Inr x \<and> w' = w"
  by auto

lemma exportAccountState_Inr:
  assumes "exportAccountState C Z N v deps w = (Inr bs, w')"
    and "parse_as Z BootstrapRequestSchema bootstrap_request_of v = Some request"
    and "parse_as Z DeploymentManifestSchema deployment_manifest_of (xd_deployment deps) = Some deployment"
  shows "\<exists>d w1 w2. export_in C N deps request deployment d w1 = (Inr bs, w2)"
  using assms(1) unfolding exportAccountState_def assms(2,3) option.case bind_io_Inr_iff finally_io_Inr_iff export_catch_Inr
  by blast

lemma export_in_result:
  assumes "runs_exporter H serde files deps" and "demo_hashes N" and "export_in C N deps request deployment d w = (Inr bs, w')"
    and "bytesFromHex (br_publicKey request) = Inr pk" and "ckbHash C pk = Inr key"
    and "c = demo_config (da_dataHash (dm_verifier_p256 deployment)) (hexFromBytes key)"
    and "serde (config_text N c) = Some c"
  shows "encode_config H c = Inr bs"
proof -
  note laws = assms(1) [unfolded runs_exporter_def cargo_run_def]
  obtain v w1 r w2 where v: "accountConfiguration C N request deployment = Inr v"
    and wrote: "xd_writeFile deps (config_path d) (nr_stringify N v @ [CHR 0x0A]) \<lparr>wo_mode = 384, wo_flag = ''wx''\<rparr> w = (Inr (), w1)"
    and spawn: "xd_spawnProcess deps ''cargo''
       [''run'', ''-q'', ''-p'', ''ckb-account-host'', ''--example'', ''export_account_state'', ''--'', config_path d, output_path d]
       \<lparr>so_cwd = xd_repoRoot deps, so_shell = False, so_env = sanitizedEnvironment (xd_processEnv deps)\<rparr> w1 = (Inr r, w2)"
    and code: "sr_exitCode r = 0" and got: "\<exists>w3. xd_readFile deps (output_path d) w2 = (Inr bs, w3)"
    using assms(3) unfolding export_in_def bind_io_Inr_iff if_throw_Inr_iff lift_Inr_iff by (auto simp: not_not)
  have "v = config_json c"
    using accountConfiguration_demo [OF assms(2) v] assms(4-6) by auto
  then have "files w1 (config_path d) = Some (config_text N c)"
    using laws wrote unfolding config_text_def by blast
  moreover have "\<exists>written. export_account_state H serde written [config_path d, output_path d] (files w1) = (0, files w2)"
    using laws spawn code by blast
  moreover have "files w2 (output_path d) = Some bs"
    using laws got by blast
  ultimately show ?thesis
    using assms(7)
    by (cases "encode_config H c")
       (auto simp: export_account_state_def split: config_error.splits if_splits dest!: fun_cong [of _ _ "output_path d"])
qed

text \<open>
  C20: the state the server exports is the one the browser accepts. For a valid request and
  deployment, when the child process ran the host crate's exporter on the files the server gave
  it, the bytes the server obtains are the demo profile's initial state for the request's key and
  the deployed P-256 verifier: the consensus validator accepts them, and the browser's
  \<^verbatim>\<open>parseAccountState\<close> reads sequence 0 and the key's hash from them for every verified account of
  this verifier and size.
\<close>

theorem exported_state_accepted:
  assumes "ccc_hex C" and "ccc_hashes C" and "zod_ok Z" and "demo_hashes N" and "hex_crate H" and "runs_exporter H serde files deps"
    and "parse_as Z BootstrapRequestSchema bootstrap_request_of v = Some request"
    and "parse_as Z DeploymentManifestSchema deployment_manifest_of (xd_deployment deps) = Some deployment"
    and "bytesFromHex (br_publicKey request) = Inr pk" and "ckbHash C pk = Inr key"
    and "c = demo_config (da_dataHash (dm_verifier_p256 deployment)) (hexFromBytes key)" and "serde (config_text N c) = Some c"
    and "exportAccountState C Z N v deps w = (Inr bs, w')"
  shows "(\<exists>verifier. hexFromBytes verifier = da_dataHash (dm_verifier_p256 deployment) \<and> bs = profile_state 0 verifier key
      \<and> validate_state bs = Inr (profile_header 0, \<lparr>spend_weight = 1, rotate_weight = 1, recovery_weight = 1\<rparr>))
    \<and> (codeHash (verifierP256Code (va_deployment a)) = da_dataHash (dm_verifier_p256 deployment)
        \<and> am_state_bytes (va_manifest a) = int (length bs)
       \<longrightarrow> parseAccountState (hexFromBytes bs) a = Inr \<lparr>ps_sequence = 0, ps_keyId = key\<rparr>)"
proof -
  have "hash32_hex (da_dataHash (dm_verifier_p256 deployment))"
    using deployment_manifest.parse_as_ok [OF assms(3,8)] by (simp add: deployment_manifest_ok_def artifact_ok_def)
  then obtain verifier where ver: "length verifier = 32" "da_dataHash (dm_verifier_p256 deployment) = hexFromBytes verifier"
    using hash32_hex_iff hash32_def by blast
  have key: "length key = 32"
    using ckbHash_length [OF assms(1,2), of pk] assms(10) by auto
  have "encode_config H c = Inr bs"
    using exportAccountState_Inr [OF assms(13,7,8)] export_in_result [OF assms(6,4) _ assms(9-12)] by blast
  then have bs: "bs = profile_state 0 verifier key"
    using encode_demo_config [OF assms(5) ver(1) key] assms(11) ver(2) by simp
  have "length bs = 177"
    using profile_state_bytes(1) [OF ver(1) key, of 0] by (simp add: bs profile_bytes_def)
  then show ?thesis
    using ver key bs profile_state_valid [OF ver(1) key, of 0] unfolding parseAccountState_profile by auto
qed

section \<open>An example run\<close>

text \<open>An in-memory file system, a runtime and a process that runs the exporter.\<close>

definition example_key :: bytes where
  "example_key = le_bytes 32 (of_le example_pubKey)"

definition example_config :: account_state_config where
  "example_config = demo_config (ref_digest 2) (hexFromBytes example_key)"

definition example_node :: node_runtime where
  "example_node = \<lparr>nr_tmpdir = ''/tmp'', nr_cwd = ''/'',
     nr_sha256Hex = (\<lambda>s. if s = RP_ID then EXPECTED_RP_ID_HASH else EXPECTED_ORIGIN_HASH), nr_stringify = (\<lambda>v. ''c'')\<rparr>"

abbreviation example_hex :: "string \<Rightarrow> string + bytes" where
  "example_hex s \<equiv> Inr (pair_bytes s)"

definition example_exporter :: "(string \<rightharpoonup> bytes) exporter_deps" where
  "example_exporter = \<lparr>xd_repoRoot = ''/repo'', xd_deployment = deployment_manifest_json example_deployment,
     xd_processEnv = [(''PATH'', ''/bin''), (''ckb_privkey'', ''0x11'')],
     xd_makeTempDir = return_io ''/tmp/ckb-passkey-state-x'',
     xd_writeFile = (\<lambda>p s opts files. (Inr (), files(p \<mapsto> ascii s))),
     xd_spawnProcess = (\<lambda>cmd arguments opts files.
       case export_account_state example_hex (\<lambda>b. Some example_config) True (drop 7 arguments) files of
         (code, files') \<Rightarrow> (Inr \<lparr>sr_exitCode = code, sr_stderr = []\<rparr>, files')),
     xd_readFile = (\<lambda>p files. case files p of None \<Rightarrow> (Inl (PlainError ''ENOENT''), files) | Some b \<Rightarrow> (Inr b, files)),
     xd_removeDir = (\<lambda>d files. (Inr (), files(config_path d := None, output_path d := None)))\<rparr>"

lemma example_runs: "runs_exporter example_hex (\<lambda>b. Some example_config) (\<lambda>files. files) example_exporter"
  by (auto simp: runs_exporter_def example_exporter_def cargo_run_def split: option.splits prod.splits
      intro!: exI [of _ True])

lemma example_hex_crate: "hex_crate example_hex"
  by (simp add: hex_crate_def hexFromBytes_def pair_bytes_hex)

lemma example_demo_hashes: "demo_hashes example_node"
  by (simp add: demo_hashes_def example_node_def RP_ID_def CLIENT_ORIGIN_def)

lemma example_pubKey_hex: "bytesFromHex (br_publicKey example_request) = Inr example_pubKey"
  by (simp add: example_request_def example_passkey_def) (simp add: example_pubKey_def)

lemma example_key_hash: "ckbHash ref_ccc example_pubKey = Inr example_key"
  using ref_ccc_hex by (simp add: ckbHash_def ref_ccc_def ref_digest_def example_key_def ccc_hex_def)

lemma example_verifier: "da_dataHash (dm_verifier_p256 example_deployment) = ref_digest 2"
  by (simp add: example_deployment_def example_artifact_def)

lemma example_deployment_parses:
  "parse_as ref_zod DeploymentManifestSchema deployment_manifest_of (xd_deployment example_exporter) = Some example_deployment"
  using deployment_manifest.parse_printed [OF ref_zod_ok, of example_deployment] example_deployment_ok
  by (simp add: example_exporter_def)

lemma example_export:
  "\<exists>files. exportAccountState ref_ccc ref_zod example_node (bootstrap_request_json example_request) example_exporter Map.empty
     = (Inr (profile_state 0 (le_bytes 32 2) example_key), files)"
proof -
  let ?d = "''/tmp/ckb-passkey-state-x''" and ?bs = "profile_state 0 (le_bytes 32 2) example_key"
  have dir: "safeTemporaryDirectory example_node ?d = Inr ?d"
    by (simp add: safeTemporaryDirectory_def example_node_def resolve_def startsWith_def Let_def dirname_def basename_def
        TEMP_DIRECTORY_PREFIX_def)
  have paths: "config_path ?d = ''/tmp/ckb-passkey-state-x/account.json''" "output_path ?d = ''/tmp/ckb-passkey-state-x/state.bin''"
    by (simp_all add: config_path_def output_path_def resolve_def startsWith_def)
  have conf: "accountConfiguration ref_ccc example_node example_request example_deployment = Inr (config_json example_config)"
    using example_demo_hashes
    by (simp add: accountConfiguration_def example_pubKey_hex example_key_hash example_verifier demo_hashes_def
        example_config_def config_json_def demo_config_def authenticator_json_def)
  have enc: "encode_config example_hex example_config = Inr ?bs"
    using encode_demo_config [OF example_hex_crate, of "le_bytes 32 2" example_key]
    by (simp add: example_config_def ref_digest_def example_key_def)
  have "?bs \<noteq> []" by (simp add: profile_state_def state_layout_def)
  then have "\<exists>files. export_in ref_ccc example_node example_exporter example_request example_deployment ?d Map.empty = (Inr ?bs, files)"
    by (simp add: export_in_def conf example_exporter_def bind_io_def export_account_state_def enc paths)
  then obtain files where "export_in ref_ccc example_node example_exporter example_request example_deployment ?d Map.empty = (Inr ?bs, files)"
    by blast
  then show ?thesis
    unfolding exportAccountState_def example_request_parses example_deployment_parses option.case
    by (simp add: bind_io_def catch_io_def finally_io_def dir example_exporter_def)
qed


theorem exported_state_accepted_witness:
  "\<exists>bs files. exportAccountState ref_ccc ref_zod example_node (bootstrap_request_json example_request) example_exporter Map.empty
       = (Inr bs, files)
     \<and> parseAccountState (hexFromBytes bs) example_account = Inr \<lparr>ps_sequence = 0, ps_keyId = example_key\<rparr>"
proof -
  obtain files where run: "exportAccountState ref_ccc ref_zod example_node (bootstrap_request_json example_request)
      example_exporter Map.empty = (Inr (profile_state 0 (le_bytes 32 2) example_key), files)"
    using example_export by blast
  have "length (profile_state 0 (le_bytes 32 2) example_key) = 177"
    using profile_state_bytes(1) [of "le_bytes 32 2" example_key 0] by (simp add: profile_bytes_def example_key_def)
  moreover have "example_config = demo_config (da_dataHash (dm_verifier_p256 example_deployment)) (hexFromBytes example_key)"
    by (simp add: example_config_def example_verifier)
  ultimately show ?thesis
    using exported_state_accepted [OF ref_ccc_hex ref_ccc_hashes ref_zod_ok example_demo_hashes example_hex_crate example_runs
        example_request_parses example_deployment_parses example_pubKey_hex example_key_hash _ _ run, of example_config example_account]
      run example_verifier
    by (simp add: example_account_def example_verified_deployment_def example_manifest_def)
qed

end
