(* ===== verification/Startup.thy ===== *)
theory Startup
  imports ExportedState Http
begin

text \<open>
  demo/src/server/index.ts, the start of the local server: configuration, deployment manifest,
  signer, service, listener and what is printed. The platform is the record \<open>server_env\<close>: the process
  environment, the files, \<^verbatim>\<open>JSON.parse\<close>, the signer's constructor, the child process runtime of the
  exporter and the listener. \<open>serverMain\<close> is \<^verbatim>\<open>main\<close>, and \<open>startServer\<close> adds the \<^verbatim>\<open>catch\<close> around it.
\<close>

section \<open>Model\<close>

record 'w server_env =
  hv_repoRoot :: string
  hv_env :: process_env
  hv_exists :: "string \<Rightarrow> 'w \<Rightarrow> bool"
  hv_readFile :: "string \<Rightarrow> ('w, js_error, string) io"
  hv_jsonParse :: "string \<Rightarrow> js_value js"
  hv_writeJsonAtomic :: "string \<Rightarrow> js_value \<Rightarrow> ('w, js_error, unit) io"
  hv_signer :: "string \<Rightarrow> 'w deploy_signer js"
  hv_node :: node_runtime
  hv_fs :: "'w node_fs"
  hv_listen :: "nat \<Rightarrow> string \<Rightarrow> ('w, js_error, unit) io"

definition serverReadJson :: "'w server_env \<Rightarrow> string \<Rightarrow> ('w, js_error, js_value) io" where
  "serverReadJson E path = (\<lambda>w.
     if \<not> hv_exists E path w then (Inr JNull, w)
     else bind_io (hv_readFile E path) (\<lambda>s. lift_io (hv_jsonParse E s)) w)"

definition server_bootstrap_deps :: "'w server_env \<Rightarrow> 'w deploy_signer \<Rightarrow> 'w bootstrap_deps" where
  "server_bootstrap_deps E signer =
     \<lparr>bd_repoRoot = hv_repoRoot E, bd_readJson = serverReadJson E, bd_writeJsonAtomic = hv_writeJsonAtomic E,
      bd_completeInputs = sg_completeInputs signer, bd_completeFee = sg_completeFee signer,
      bd_sendTransaction = sg_send signer, bd_waitTransaction = sg_wait signer\<rparr>"

definition server_deps :: "ccc \<Rightarrow> zod \<Rightarrow> 'w server_env \<Rightarrow> deployment_manifest \<Rightarrow> 'w deploy_signer \<Rightarrow> 'w service_deps" where
  "server_deps C Z E deployment signer =
     demoServiceDeps C signer (server_bootstrap_deps E signer)
       (\<lambda>request. exportAccountState C Z (hv_node E) (bootstrap_request_json request)
          (createExporterDeps (hv_node E) (hv_fs E) (hv_repoRoot E) (deployment_manifest_json deployment) (hv_env E)))"

definition recorded_deployment :: "zod \<Rightarrow> js_value \<Rightarrow> deployment_manifest js" where
  "recorded_deployment Z value = (case parse_as Z DeploymentManifestSchema deployment_manifest_of value of
     None \<Rightarrow> Inl (ApiError DEPLOYMENT_INVALID 500 ''Testnet deployment is invalid'')
   | Some deployment \<Rightarrow> Inr deployment)"

text \<open>A running server: its service's dependencies and deployment, and the lines it printed.\<close>

record 'w running_server =
  rs_deps :: "'w service_deps"
  rs_deployment :: deployment_manifest
  rs_lines :: "string list"

definition serverMain :: "ccc \<Rightarrow> zod \<Rightarrow> 'w server_env \<Rightarrow> ('w, js_error, 'w running_server) io" where
  "serverMain C Z E =
     bind_io (lift_io (loadServerConfig (map_of (hv_env E) ''CKB_PRIVKEY''))) (\<lambda>config.
     bind_io (serverReadJson E (resolve (hv_repoRoot E) ''deploy/testnet-deployments.json'')) (\<lambda>value.
     bind_io (lift_io (recorded_deployment Z value)) (\<lambda>deployment.
     bind_io (lift_io (hv_signer E (sc_privateKey config))) (\<lambda>signer.
     bind_io (lift_io (createDemoService Z (deployment_manifest_json deployment))) (\<lambda>served.
     bind_io (sg_recommendedAddress signer) (\<lambda>address.
     bind_io (sg_balance signer) (\<lambda>balance.
     bind_io (hv_listen E (sc_port config) (sc_host config)) (\<lambda>_.
     return_io \<lparr>rs_deps = server_deps C Z E deployment signer, rs_deployment = served,
       rs_lines =
         [''CKB passkey demo API listening on http://'' @ sc_host config @ '':'' @ dec (sc_port config),
          ''Network '' @ sc_network config,
          ''Funder '' @ address,
          ''Balance '' @ dec_int balance @ '' shannons'']\<rparr>))))))))"

datatype 'w start_outcome = Serving "'w running_server" | Start_failed string nat

definition startServer :: "ccc \<Rightarrow> zod \<Rightarrow> 'w server_env \<Rightarrow> 'w \<Rightarrow> 'w start_outcome \<times> 'w" where
  "startServer C Z E w = (case serverMain C Z E w of
     (Inr server, w') \<Rightarrow> (Serving server, w')
   | (Inl e, w') \<Rightarrow>
       (Start_failed (error_code_string (eb_code (toSafeErrorBody e)) @ '': '' @ eb_message (toSafeErrorBody e)) 1, w'))"

section \<open>Property\<close>

text \<open>\<^verbatim>\<open>ApiError\<close> is this program's own class: neither the platform nor the signer throws one.\<close>

definition throws :: "(js_error \<Rightarrow> bool) \<Rightarrow> ('w, js_error, 'a) io \<Rightarrow> bool" where
  "throws P m \<longleftrightarrow> (\<forall>w e w'. m w = (Inl e, w') \<longrightarrow> P e)"

abbreviation foreign_errors :: "('w, js_error, 'a) io \<Rightarrow> bool" where
  "foreign_errors \<equiv> throws (\<lambda>e. \<not> is_api_error e)"

definition platform_errors :: "'w server_env \<Rightarrow> bool" where
  "platform_errors E \<longleftrightarrow> (\<forall>p. foreign_errors (serverReadJson E p)) \<and> (\<forall>n h. foreign_errors (hv_listen E n h))
     \<and> (\<forall>k e. hv_signer E k = Inl e \<longrightarrow> \<not> is_api_error e)
     \<and> (\<forall>k s. hv_signer E k = Inr s \<longrightarrow> foreign_errors (sg_recommendedAddress s) \<and> foreign_errors (sg_balance s))"

definition start_failures :: "string list" where
  "start_failures =
     [''KEY_UNAVAILABLE: CKB_PRIVKEY is missing or invalid'', ''DEPLOYMENT_INVALID: Testnet deployment is invalid'',
      ''INTERNAL_ERROR: Unexpected local server error'']"

lemma safe_line:
  assumes "\<not> is_api_error e"
  shows "error_code_string (eb_code (toSafeErrorBody e)) @ '': '' @ eb_message (toSafeErrorBody e)
    = ''INTERNAL_ERROR: Unexpected local server error''"
  using assms by (cases e) (simp_all add: toSafeErrorBody_def is_api_error_def error_code_string_def)

lemma throws_bind: "throws P m \<Longrightarrow> (\<And>x. throws P (f x)) \<Longrightarrow> throws P (bind_io m f)"
  by (auto simp: throws_def bind_io_Inl_iff) blast+

lemma throws_lift: "(\<And>e. r = Inl e \<Longrightarrow> P e) \<Longrightarrow> (\<And>x. r = Inr x \<Longrightarrow> throws P (f x)) \<Longrightarrow> throws P (bind_io (lift_io r) f)"
  by (cases r) (auto simp: throws_def bind_io_Inl_iff)

lemma throws_return: "throws P (return_io x)"
  by (simp add: throws_def)

lemma throws_mono: "throws P m \<Longrightarrow> (\<And>e. P e \<Longrightarrow> Q e) \<Longrightarrow> throws Q m"
  by (auto simp: throws_def)

text \<open>The errors with which starting can fail.\<close>

definition start_error :: "js_error \<Rightarrow> bool" where
  "start_error e \<longleftrightarrow> \<not> is_api_error e \<or> e = ApiError KEY_UNAVAILABLE 500 ''CKB_PRIVKEY is missing or invalid''
     \<or> e = ApiError DEPLOYMENT_INVALID 500 ''Testnet deployment is invalid''"

lemma start_error_foreign: "foreign_errors m \<Longrightarrow> throws start_error m"
  by (erule throws_mono) (simp add: start_error_def)

lemma start_error_calls:
  "loadServerConfig k = Inl e \<Longrightarrow> start_error e" "recorded_deployment Z v = Inl e \<Longrightarrow> start_error e"
  "createDemoService Z v = Inl e \<Longrightarrow> start_error e"
  by (auto simp: start_error_def loadServerConfig_def recorded_deployment_def createDemoService_def Let_def
      split: option.splits if_splits)

lemma main_throws:
  assumes "platform_errors E"
  shows "throws start_error (serverMain C Z E)"
proof -
  have signer: "start_error e" if "hv_signer E k = Inl e" for k e
    using assms that by (simp add: platform_errors_def start_error_def)
  have calls: "throws start_error (serverReadJson E p)" "throws start_error (hv_listen E n h)" for p n h
    using assms by (simp_all add: platform_errors_def start_error_foreign)
  have funder: "throws start_error (sg_recommendedAddress s)" "throws start_error (sg_balance s)" if "hv_signer E k = Inr s" for k s
    using assms that by (auto simp: platform_errors_def intro!: start_error_foreign)
  show ?thesis
    unfolding serverMain_def
    by (intro throws_bind throws_lift throws_return calls) (erule start_error_calls signer funder)+
qed

lemma start_error_line:
  assumes "start_error e"
  shows "error_code_string (eb_code (toSafeErrorBody e)) @ '': '' @ eb_message (toSafeErrorBody e) \<in> set start_failures"
  using assms unfolding start_error_def
proof (elim disjE)
  assume "\<not> is_api_error e"
  show ?thesis unfolding safe_line [OF \<open>\<not> is_api_error e\<close>] start_failures_def by simp
qed (simp_all add: start_failures_def toSafeErrorBody_def error_code_string_def)

lemma recorded_deployment_ok:
  "zod_ok Z \<Longrightarrow> recorded_deployment Z v = Inr deployment \<Longrightarrow> deployment_manifest_ok deployment"
  by (auto simp: recorded_deployment_def split: option.splits intro: deployment_manifest.parse_as_ok)

lemma serverMain_Inr:
  assumes "serverMain C Z E w = (Inr server, w')"
  obtains config dv deployment signer served address balance u u' v v' z one where
    "loadServerConfig (map_of (hv_env E) ''CKB_PRIVKEY'') = Inr config"
    "recorded_deployment Z dv = Inr deployment"
    "hv_signer E (sc_privateKey config) = Inr signer"
    "createDemoService Z (deployment_manifest_json deployment) = Inr served"
    "sg_recommendedAddress signer u = (Inr address, u')" "sg_balance signer v = (Inr balance, v')"
    "hv_listen E (sc_port config) (sc_host config) z = (Inr one, w')"
    "server = \<lparr>rs_deps = server_deps C Z E deployment signer, rs_deployment = served,
       rs_lines = [''CKB passkey demo API listening on http://'' @ sc_host config @ '':'' @ dec (sc_port config),
         ''Network '' @ sc_network config, ''Funder '' @ address, ''Balance '' @ dec_int balance @ '' shannons'']\<rparr>"
proof -
  from assms show thesis
    unfolding serverMain_def bind_io_Inr_iff lift_io_simp prod.inject sum.inject
    apply (elim exE conjE)
    apply hypsubst
    by (rule that) assumption+
qed

lemma loadServerConfig_Inr:
  assumes "loadServerConfig key = Inr config"
  obtains "key = Some (sc_privateKey config)" "private_key_re (sc_privateKey config)"
    "sc_host config = ''127.0.0.1''" "sc_port config = API_PORT" "sc_network config = ''testnet''"
  using assms by (cases key) (auto simp: loadServerConfig_def Let_def private_key_re_def split: if_splits)

text \<open>
  C27: the server starts closed. If it starts, \<^verbatim>\<open>CKB_PRIVKEY\<close> is a well-formed key, the recorded
  deployment is one the schema accepts, the service runs on exactly that deployment and on the signer
  of that key, the listener is bound to the loopback address and the fixed port, and the lines
  printed are made of the address, the port, the funder's address and its balance only. If it does
  not start, it exits with status 1 after one of three fixed lines, whatever the failing call's
  error said, so no message of a library can print the key.
\<close>

theorem server_starts_closed:
  assumes "zod_ok Z" and "platform_errors E"
  shows "case startServer C Z E w of
      (Start_failed line status, w') \<Rightarrow> line \<in> set start_failures \<and> status = 1
    | (Serving server, w') \<Rightarrow> \<exists>k signer address balance u u' v v' z.
        map_of (hv_env E) ''CKB_PRIVKEY'' = Some k \<and> private_key_re k \<and> hv_signer E k = Inr signer
        \<and> deployment_manifest_ok (rs_deployment server)
        \<and> rs_deps server = server_deps C Z E (rs_deployment server) signer
        \<and> sg_recommendedAddress signer u = (Inr address, u') \<and> sg_balance signer v = (Inr balance, v')
        \<and> hv_listen E API_PORT ''127.0.0.1'' z = (Inr (), w')
        \<and> rs_lines server = [''CKB passkey demo API listening on http://127.0.0.1:'' @ dec API_PORT, ''Network testnet'',
             ''Funder '' @ address, ''Balance '' @ dec_int balance @ '' shannons'']"
proof (cases "serverMain C Z E w")
  case (Pair r w')
  show ?thesis
  proof (cases r)
    case (Inl e)
    have "error_code_string (eb_code (toSafeErrorBody e)) @ '': '' @ eb_message (toSafeErrorBody e) \<in> set start_failures"
      using main_throws [OF assms(2), of C Z] Pair Inl by (intro start_error_line) (auto simp: throws_def)
    then show ?thesis by (simp add: startServer_def Pair Inl)
  next
    case (Inr server)
    obtain config dv deployment signer served address balance u u' v v' z one where
      c: "loadServerConfig (map_of (hv_env E) ''CKB_PRIVKEY'') = Inr config"
      and d: "recorded_deployment Z dv = Inr deployment"
      and s: "hv_signer E (sc_privateKey config) = Inr signer"
      and sv: "createDemoService Z (deployment_manifest_json deployment) = Inr served"
      and run: "sg_recommendedAddress signer u = (Inr address, u')" "sg_balance signer v = (Inr balance, v')"
        "hv_listen E (sc_port config) (sc_host config) z = (Inr one, w')"
      and srv: "server = \<lparr>rs_deps = server_deps C Z E deployment signer, rs_deployment = served,
        rs_lines = [''CKB passkey demo API listening on http://'' @ sc_host config @ '':'' @ dec (sc_port config),
          ''Network '' @ sc_network config, ''Funder '' @ address, ''Balance '' @ dec_int balance @ '' shannons'']\<rparr>"
      by (rule serverMain_Inr [OF Pair [unfolded Inr]])
    have ok: "deployment_manifest_ok deployment" by (rule recorded_deployment_ok [OF assms(1) d])
    then have served: "served = deployment"
      using sv deployment_manifest.parse_printed [OF assms(1), of deployment] by (simp add: createDemoService_def)
    from c show ?thesis
    proof (rule loadServerConfig_Inr)
      assume key: "map_of (hv_env E) ''CKB_PRIVKEY'' = Some (sc_privateKey config)" "private_key_re (sc_privateKey config)"
        and host: "sc_host config = ''127.0.0.1''" "sc_port config = API_PORT" "sc_network config = ''testnet''"
      have lines: "rs_lines server = [''CKB passkey demo API listening on http://127.0.0.1:'' @ dec API_PORT, ''Network testnet'',
          ''Funder '' @ address, ''Balance '' @ dec_int balance @ '' shannons'']"
        unfolding srv running_server.select_convs host by simp
      have "hv_listen E API_PORT ''127.0.0.1'' z = (Inr (), w')" using run(3) unfolding host by simp
      moreover have "rs_deps server = server_deps C Z E deployment signer" "rs_deployment server = served"
        unfolding srv running_server.select_convs by (rule refl)+
      ultimately show ?thesis
        using key s ok run(1,2) lines
        unfolding startServer_def Pair Inr prod.case sum.case start_outcome.case served by blast
    qed
  qed
qed

definition example_server :: "nat server_env" where
  "example_server = \<lparr>hv_repoRoot = ''/r'', hv_env = [(''CKB_PRIVKEY'', ref_digest 3)], hv_exists = (\<lambda>p w. True),
     hv_readFile = (\<lambda>p. return_io ''json''), hv_jsonParse = (\<lambda>s. Inr (deployment_manifest_json example_deployment)),
     hv_writeJsonAtomic = (\<lambda>p v. return_io ()), hv_signer = (\<lambda>k. Inr example_signer), hv_node = example_node,
     hv_fs = \<lparr>nf_mkdtemp = return_io, nf_chmod = (\<lambda>d n. return_io ()), nf_writeFile = (\<lambda>p s ws. return_io ()),
       nf_spawn = (\<lambda>c as sp. return_io \<lparr>sr_exitCode = 0, sr_stderr = []\<rparr>), nf_readFile = (\<lambda>p. return_io []),
       nf_rm = (\<lambda>d. return_io ())\<rparr>,
     hv_listen = (\<lambda>n h. return_io ())\<rparr>"

lemma example_platform: "platform_errors example_server"
  by (auto simp: platform_errors_def throws_def example_server_def example_signer_def serverReadJson_def bind_io_def)

lemma hex_private_key: "hash32_hex s \<Longrightarrow> private_key_re s"
  by (auto simp: prefixed_hex_def private_key_re_def list_all_iff is_hex_def is_hex_any_def Let_def numeral_2_eq_2)

lemma example_started: "\<exists>server w'. startServer ref_ccc ref_zod example_server 0 = (Serving server, w')"
proof -
  have "createDemoService ref_zod (deployment_manifest_json example_deployment) = Inr example_deployment"
    "recorded_deployment ref_zod (deployment_manifest_json example_deployment) = Inr example_deployment"
    using deployment_manifest.parse_printed [OF ref_zod_ok, of example_deployment] example_deployment_ok
    by (simp_all add: createDemoService_def recorded_deployment_def)
  then show ?thesis
    using hex_private_key [OF hash32_ref_digest [of 3]]
    by (simp add: startServer_def serverMain_def serverReadJson_def example_server_def example_signer_def loadServerConfig_def
        bind_io_def)
qed

theorem server_starts_closed_witness:
  "\<exists>server w' address. startServer ref_ccc ref_zod example_server 0 = (Serving server, w')
     \<and> deployment_manifest_ok (rs_deployment server) \<and> rs_lines server ! 2 = ''Funder '' @ address"
proof -
  obtain server w' where s: "startServer ref_ccc ref_zod example_server 0 = (Serving server, w')"
    using example_started by blast
  from server_starts_closed [OF ref_zod_ok example_platform, of ref_ccc 0] show ?thesis
    unfolding s by (auto intro!: exI [of _ server])
qed

end
