(* ===== verification/Bundle.thy ===== *)
theory Bundle
  imports Node "HOL-Library.Char_ord" "HOL-Library.List_Lexorder"
begin

text \<open>
  The boundary between browser and server code: the plugin of demo/vite.config.ts that writes
  which modules went into each chunk of the client bundle, and demo/scripts/check-client-bundle.mjs
  that reads this evidence back and refuses a bundle with server code in it.

  The directory demo/dist is a tree; reading a file, \<^verbatim>\<open>JSON.parse\<close> and \<^verbatim>\<open>JSON.stringify\<close> are the
  fields of \<open>bundle_env\<close>. A directory entry that is neither a file nor a directory is \<open>OtherNode\<close>.
\<close>

section \<open>Environment\<close>

datatype fs_node = FileNode | DirNode "js_error + (string \<times> fs_node) list" | OtherNode

record bundle_env =
  be_cwd :: string
  be_stat :: "string \<Rightarrow> fs_node option"
  be_readFile :: "string \<Rightarrow> string js"
  be_jsonParse :: "string \<Rightarrow> js_value js"
  be_stringify :: "js_value \<Rightarrow> string"
  be_stringifyPretty :: "js_value \<Rightarrow> string"
  be_localeCompare :: "string \<Rightarrow> string \<Rightarrow> int"

section \<open>The checker\<close>

definition distDirectory :: "bundle_env \<Rightarrow> string" where
  "distDirectory E = resolve (be_cwd E) ''dist''"

definition forbiddenContent :: "string list" where
  "forbiddenContent = [''CKB_PRIVKEY'', ''SignerCkbPrivateKey'', ''bootstrap-lib'', ''child_process'',
     ''state-exporter'', ''src/server'']"

text \<open>
  The regular expressions of \<^verbatim>\<open>forbiddenModules\<close>. The first two match \<open>p\<close> as whole path segments
  anywhere in the id; the others match \<open>p\<close>, optionally with a script extension, as its last segment.
\<close>

definition at_segment :: "string \<Rightarrow> nat \<Rightarrow> bool" where
  "at_segment s i \<longleftrightarrow> i = 0 \<or> s ! (i - 1) = CHR ''/''"

definition inner_segments :: "string \<Rightarrow> string \<Rightarrow> bool" where
  "inner_segments p s \<longleftrightarrow> list_ex (\<lambda>i. at_segment s i \<and> startsWith (drop i s) p
     \<and> (length s = i + length p \<or> s ! (i + length p) = CHR ''/'')) [0..<length s]"

definition last_segment :: "string list \<Rightarrow> string \<Rightarrow> string \<Rightarrow> bool" where
  "last_segment exts p s \<longleftrightarrow> list_ex (\<lambda>i. at_segment s i \<and> list_ex (\<lambda>x. drop i s = p @ x) exts) [0..<length s]"

definition script_extensions :: "string list" where
  "script_extensions = ['''', ''.js'', ''.ts'', ''.cjs'', ''.cts'', ''.mjs'', ''.mts'']"

definition forbiddenModule :: "string \<Rightarrow> bool" where
  "forbiddenModule m \<longleftrightarrow> inner_segments ''src/server'' m \<or> inner_segments ''tools/deploy'' m
     \<or> last_segment script_extensions ''bootstrap-lib'' m \<or> last_segment script_extensions ''state-exporter'' m
     \<or> last_segment [''''] ''node:child_process'' m"

definition textExtensions :: "string list" where
  "textExtensions = [''.css'', ''.html'', ''.js'', ''.json'', ''.map'', ''.txt'']"

definition extension :: "string \<Rightarrow> string" where
  "extension path = (if CHR ''.'' \<in> set path then CHR ''.'' # rev (takeWhile (\<lambda>c. c \<noteq> CHR ''.'') (rev path)) else [])"

function filesUnder :: "string \<Rightarrow> (string \<times> fs_node) list \<Rightarrow> string list js" where
  "filesUnder directory [] = Inr []"
| "filesUnder directory ((name, FileNode) # entries) =
     bind_r (filesUnder directory entries) (\<lambda>files. Inr (resolve directory name # files))"
| "filesUnder directory ((name, DirNode (Inl e)) # entries) = Inl e"
| "filesUnder directory ((name, DirNode (Inr inner)) # entries) =
     bind_r (filesUnder (resolve directory name) inner) (\<lambda>below.
     bind_r (filesUnder directory entries) (\<lambda>files. Inr (below @ files)))"
| "filesUnder directory ((name, OtherNode) # entries) = filesUnder directory entries"
  by pat_completeness auto
termination by (relation "measure (\<lambda>(d, es). size_list (size_prod (\<lambda>_. 0) size) es)") simp_all

text \<open>One file of the scan, one entry of the manifest, one module and one chunk of the module graph.\<close>

definition check_file :: "bundle_env \<Rightarrow> string \<Rightarrow> string \<Rightarrow> string \<Rightarrow> unit js" where
  "check_file E manifestPath moduleGraphPath path =
     (if path = manifestPath \<or> path = moduleGraphPath then Inr ()
      else if extension path \<notin> set textExtensions then Inr ()
      else bind_r (be_readFile E path) (\<lambda>contents.
        case find (\<lambda>needle. contains needle contents) forbiddenContent of
          Some needle \<Rightarrow> Inl (PlainError (''client bundle contains forbidden server term '' @ needle @ '' in '' @ path))
        | None \<Rightarrow> Inr ()))"

definition check_entry :: "bundle_env \<Rightarrow> string \<times> js_value \<Rightarrow> string list js" where
  "check_entry E = (\<lambda>(source, chunk).
     if list_ex (\<lambda>needle. contains needle (be_stringify E (JObj [(''source'', JStr source), (''chunk'', chunk)]))) forbiddenContent
     then Inl (PlainError (''client module graph contains a server-only source: '' @ source))
     else Inr (case chunk of
         JObj fs \<Rightarrow> (case jget fs ''file'' of JStr file \<Rightarrow> [file] | _ \<Rightarrow> [])
       | _ \<Rightarrow> []))"

definition endsWith :: "string \<Rightarrow> string \<Rightarrow> bool" where
  "endsWith s t \<longleftrightarrow> length t \<le> length s \<and> drop (length s - length t) s = t"

definition check_module :: "string \<Rightarrow> bool js" where
  "check_module moduleId =
     (if list_ex (\<lambda>needle. contains needle moduleId) forbiddenContent \<or> forbiddenModule moduleId
      then Inl (PlainError (''client module graph contains server-only module '' @ moduleId))
      else Inr (endsWith moduleId ''src/client/main.tsx''))"

definition malformed_graph :: "'a js" where
  "malformed_graph = Inl (PlainError ''client module graph is malformed'')"

fun as_string :: "js_value \<Rightarrow> string option" where
  "as_string (JStr s) = Some s"
| "as_string _ = None"

definition check_chunk :: "js_value \<Rightarrow> (string \<times> bool) js" where
  "check_chunk chunk = (case chunk of
     JObj fs \<Rightarrow>
       (case (jget fs ''fileName'', jget fs ''modules'') of
          (JStr fileName, JArr modules) \<Rightarrow>
            if \<not> list_all (\<lambda>m. as_string m \<noteq> None) modules then malformed_graph
            else bind_r (map_r check_module (map (\<lambda>m. the (as_string m)) modules)) (\<lambda>entries.
              Inr (fileName, list_ex id entries))
        | _ \<Rightarrow> malformed_graph)
   | _ \<Rightarrow> malformed_graph)"

text \<open>The chunks of a module graph of the right shape.\<close>

definition graph_chunks :: "js_value \<Rightarrow> js_value list js" where
  "graph_chunks moduleGraph = (case moduleGraph of
     JObj fs \<Rightarrow>
       (case jget fs ''chunks'' of
          JArr chunks \<Rightarrow> if jget fs ''version'' \<noteq> JNum (JInt 1) \<or> chunks = [] then malformed_graph else Inr chunks
        | _ \<Rightarrow> malformed_graph)
   | _ \<Rightarrow> malformed_graph)"

definition check_bundle :: "bundle_env \<Rightarrow> unit js" where
  "check_bundle E = (case be_stat E (distDirectory E) of
     Some (DirNode listing) \<Rightarrow>
       bind_r (bind_r listing (filesUnder (distDirectory E))) (\<lambda>files.
       let manifestPath = resolve (distDirectory E) ''.vite/manifest.json'';
           moduleGraphPath = resolve (distDirectory E) ''.vite/client-modules.json'' in
       bind_r (map_r (check_file E manifestPath moduleGraphPath) files) (\<lambda>_.
       bind_r (map_err (\<lambda>_. PlainError ''Vite client manifest is missing; run npm run build first'')
         (be_readFile E manifestPath)) (\<lambda>manifestText.
       bind_r (be_jsonParse E manifestText) (\<lambda>manifest.
       (case manifest of
          JObj entries \<Rightarrow>
            bind_r (map_r (check_entry E) entries) (\<lambda>manifestFiles.
            bind_r (map_err (\<lambda>_. PlainError ''client module graph is missing; run npm run build first'')
              (be_readFile E moduleGraphPath)) (\<lambda>moduleGraphText.
            bind_r (be_jsonParse E moduleGraphText) (\<lambda>moduleGraph.
            bind_r (graph_chunks moduleGraph) (\<lambda>chunks.
            bind_r (map_r check_chunk chunks) (\<lambda>evidence.
            if \<not> list_ex snd evidence
            then Inl (PlainError ''client module graph does not contain the browser entry module'')
            else (case find (\<lambda>file. file \<notin> set (map fst evidence)) (concat manifestFiles) of
                Some file \<Rightarrow> Inl (PlainError (''client module graph has no evidence for manifest chunk '' @ file))
              | None \<Rightarrow> Inr ()))))))
        | _ \<Rightarrow> Inl (PlainError ''Vite client manifest is malformed'')))))) 
   | _ \<Rightarrow> Inl (PlainError ''demo/dist is missing; run npm run build first''))"

section \<open>The plugin\<close>

text \<open>\<^verbatim>\<open>relative(from, to)\<close> of absolute POSIX paths.\<close>

fun strip_common :: "string list \<Rightarrow> string list \<Rightarrow> string list \<times> string list" where
  "strip_common (a # as) (b # bs) = (if a = b then strip_common as bs else (a # as, b # bs))"
| "strip_common as bs = (as, bs)"

definition relative :: "string \<Rightarrow> string \<Rightarrow> string" where
  "relative from to =
     (case strip_common (normal_segments [] (split_path from)) (normal_segments [] (split_path to)) of
        (up, down) \<Rightarrow> join_with ''/'' (replicate (length up) ''..'' @ down))"

definition slashes :: "string \<Rightarrow> string" where
  "slashes s = map (\<lambda>c. if c = CHR 0x5C then CHR ''/'' else c) s"

definition publicModuleId :: "string \<Rightarrow> string \<Rightarrow> string" where
  "publicModuleId cwd moduleId =
     (let normalized = slashes moduleId in
      if startsWith normalized [CHR 0x00] then normalized
      else let withoutQuery = takeWhile (\<lambda>c. c \<noteq> CHR ''?'') normalized;
               local = slashes (relative cwd withoutQuery)
           in if startsWith local ''../'' then withoutQuery else local)"

record rollup_chunk =
  rc_fileName :: string
  rc_isEntry :: bool
  rc_modules :: "string list"

datatype output_entry = ChunkEntry rollup_chunk | AssetEntry

text \<open>\<^verbatim>\<open>xs.sort(compare)\<close>, which is stable.\<close>

fun insert_by :: "('a \<Rightarrow> 'a \<Rightarrow> int) \<Rightarrow> 'a \<Rightarrow> 'a list \<Rightarrow> 'a list" where
  "insert_by cmp x [] = [x]"
| "insert_by cmp x (y # ys) = (if cmp x y \<le> 0 then x # y # ys else y # insert_by cmp x ys)"

definition sort_by :: "('a \<Rightarrow> 'a \<Rightarrow> int) \<Rightarrow> 'a list \<Rightarrow> 'a list" where
  "sort_by cmp xs = foldr (insert_by cmp) xs []"

definition evidence_chunk :: "string \<Rightarrow> rollup_chunk \<Rightarrow> rollup_chunk" where
  "evidence_chunk cwd chunk = \<lparr>rc_fileName = rc_fileName chunk, rc_isEntry = rc_isEntry chunk,
     rc_modules = sort (map (publicModuleId cwd) (rc_modules chunk))\<rparr>"

definition chunk_json :: "rollup_chunk \<Rightarrow> js_value" where
  "chunk_json c = JObj [(''fileName'', JStr (rc_fileName c)), (''isEntry'', JBool (rc_isEntry c)),
     (''modules'', JArr (map JStr (rc_modules c)))]"

definition chunks_of :: "(string \<times> output_entry) list \<Rightarrow> rollup_chunk list" where
  "chunks_of bundle = concat (map (\<lambda>e. case snd e of ChunkEntry c \<Rightarrow> [c] | AssetEntry \<Rightarrow> []) bundle)"

text \<open>The asset's name and its source.\<close>

definition clientModuleEvidence :: "bundle_env \<Rightarrow> (string \<times> output_entry) list \<Rightarrow> string \<times> string" where
  "clientModuleEvidence E bundle =
     (let chunks = sort_by (\<lambda>l r. be_localeCompare E (rc_fileName l) (rc_fileName r))
            (map (evidence_chunk (be_cwd E)) (chunks_of bundle))
      in (''.vite/client-modules.json'',
          be_stringifyPretty E (JObj [(''version'', JNum (JInt 1)), (''chunks'', JArr (map chunk_json chunks))]) @ [CHR 0x0A]))"

definition manualChunks :: "string \<Rightarrow> string option" where
  "manualChunks moduleId =
     (if contains ''/node_modules/@ckb-ccc/'' moduleId then Some ''ckb''
      else if contains ''/node_modules/react'' moduleId then Some ''react''
      else if contains ''/node_modules/zod/'' moduleId then Some ''validation''
      else None)"

end
