(* ===== verification/DevServer.thy ===== *)
theory DevServer
  imports Api Startup Bundle
begin

text \<open>
  The development server of demo/vite.config.ts in front of the API server, and the selection of
  the browser tests in demo/playwright.config.ts. The server's options are data; what Vite does with a
  proxy rule is the parameter \<open>F\<close>, of which \<open>follows_rules\<close> states the documented effect of the options
  that are used: \<^verbatim>\<open>changeOrigin\<close> sets the \<^verbatim>\<open>Host\<close> header to the target's, and \<^verbatim>\<open>headers\<close> are set on the
  forwarded request.
\<close>

section \<open>Configuration\<close>

record proxy_rule =
  px_target :: string
  px_changeOrigin :: bool
  px_headers :: "(string \<times> string) list"

record dev_server =
  sv_host :: string
  sv_port :: nat
  sv_strictPort :: bool
  sv_proxy :: "(string \<times> proxy_rule) list"

definition api_proxy :: proxy_rule where
  "api_proxy = \<lparr>px_target = API_ORIGIN, px_changeOrigin = True, px_headers = [(''Origin'', CLIENT_ORIGIN)]\<rparr>"

definition test_proxy :: proxy_rule where
  "test_proxy = \<lparr>px_target = API_ORIGIN, px_changeOrigin = True, px_headers = [(''Origin'', CLIENT_ORIGIN)]\<rparr>"

text \<open>The argument is the environment variable \<^verbatim>\<open>CKB_PASSKEY_BROWSER_FIXTURE\<close>.\<close>

definition serverOptions :: "string option \<Rightarrow> dev_server" where
  "serverOptions fixture =
     \<lparr>sv_host = ''127.0.0.1'', sv_port = 5173, sv_strictPort = True,
      sv_proxy = [(''/api'', api_proxy)] @ (if fixture = Some ''1'' then [(''/__test__'', test_proxy)] else [])\<rparr>"

text \<open>
  The whole configuration: the plugins by name, the alias of the client library (\<open>dir\<close> is the directory of
  the configuration file), the build options and the server's.
\<close>

record vite_config =
  vc_plugins :: "string list"
  vc_alias :: "(string \<times> string) list"
  vc_manifest :: bool
  vc_manualChunks :: "string \<Rightarrow> string option"
  vc_server :: dev_server

definition viteConfig :: "string \<Rightarrow> string option \<Rightarrow> vite_config" where
  "viteConfig dir fixture =
     \<lparr>vc_plugins = [''react'', ''client-module-evidence''],
      vc_alias = [(''@ckb-ccc/core'', resolve dir ''./node_modules/@ckb-ccc/core/src/index.ts'')],
      vc_manifest = True, vc_manualChunks = manualChunks, vc_server = serverOptions fixture\<rparr>"

text \<open>The real testnet tests need two flags and a well-formed key.\<close>

definition realTestnetEnabled :: "(string \<rightharpoonup> string) \<Rightarrow> bool" where
  "realTestnetEnabled env \<longleftrightarrow>
     env ''CKB_PASSKEY_REAL_TESTNET_SPEC'' = Some ''1'' \<and> env ''RUN_CKB_TESTNET'' = Some ''1''
     \<and> private_key_re (case env ''CKB_PRIVKEY'' of None \<Rightarrow> [] | Some k \<Rightarrow> k)"

record playwright_config =
  pw_testDir :: string
  pw_fullyParallel :: bool
  pw_workers :: "nat option"
  pw_baseURL :: string
  pw_browserName :: string
  pw_command :: string
  pw_url :: string
  pw_reuseExistingServer :: bool

definition playwrightConfig :: "(string \<rightharpoonup> string) \<Rightarrow> playwright_config" where
  "playwrightConfig env =
     \<lparr>pw_testDir = ''./test/browser'', pw_fullyParallel = False,
      pw_workers = (if realTestnetEnabled env then Some 1 else None),
      pw_baseURL = ''http://localhost:5173'', pw_browserName = ''chromium'',
      pw_command = (if realTestnetEnabled env then ''npm run dev'' else ''npm run dev:fixture''),
      pw_url = ''http://localhost:5173/api/status'', pw_reuseExistingServer = False\<rparr>"

section \<open>Forwarding\<close>

definition url_host :: "string \<Rightarrow> string" where
  "url_host url = takeWhile (\<lambda>c. c \<noteq> CHR ''/'') (drop (length ''http://'') url)"

definition follows_rules :: "(proxy_rule \<Rightarrow> fetch_request \<Rightarrow> http_request) \<Rightarrow> bool" where
  "follows_rules F \<longleftrightarrow> (\<forall>r q.
     (px_changeOrigin r \<longrightarrow> hq_host (F r q) = Some (url_host (px_target r)))
     \<and> (\<forall>v. map_of (px_headers r) ''Origin'' = Some v \<longrightarrow> hq_origin (F r q) = Some v)
     \<and> hq_url (F r q) = Some (fq_path q) \<and> hq_method (F r q) = fq_method q
     \<and> hq_contentType (F r q) = map_of (fq_headers q) ''Content-Type'')"

text \<open>The request the API server gets, if the development server forwards it.\<close>

definition forwarded ::
  "(proxy_rule \<Rightarrow> fetch_request \<Rightarrow> http_request) \<Rightarrow> string \<Rightarrow> string option \<Rightarrow> fetch_request \<Rightarrow> http_request option"
where
  "forwarded F dir fixture q = map_option (\<lambda>(prefix, r). F r q)
     (List.find (\<lambda>(prefix, r). startsWith (fq_path q) prefix) (sv_proxy (vc_server (viteConfig dir fixture))))"

lemma url_host_api: "url_host API_ORIGIN = REQUIRED_HOST"
proof -
  have "list_all (\<lambda>c. c \<noteq> CHR ''/'') (''127.0.0.1:'' @ dec API_PORT)"
    using dec_digits [of API_PORT] by (auto simp: list_all_iff is_digit_def)
  then have "takeWhile (\<lambda>c. c \<noteq> CHR ''/'') (''127.0.0.1:'' @ dec API_PORT) = ''127.0.0.1:'' @ dec API_PORT"
    by (simp add: takeWhile_eq_all_conv list_all_iff)
  then show ?thesis by (simp add: url_host_def API_ORIGIN_def REQUIRED_HOST_def)
qed

text \<open>
  Only \<^verbatim>\<open>/api\<close>, and with the fixture flag \<^verbatim>\<open>/__test__\<close>, is forwarded. Every forwarded request carries the
  host and the origin the API server insists on, whatever page sent it: behind the proxy the server's
  origin check refuses nothing.
\<close>

lemma forwarded_Some:
  assumes "forwarded F dir fixture q = Some h"
  shows "(\<exists>r. h = F r q \<and> (r = api_proxy \<and> startsWith (fq_path q) ''/api'' \<or> r = test_proxy \<and> fixture = Some ''1''))"
  using assms by (auto simp: forwarded_def viteConfig_def serverOptions_def split: if_splits)

lemma proxy_vouches_for_every_page:
  assumes "follows_rules F" and "forwarded F dir fixture q = Some h"
  shows "from_demo h"
proof -
  obtain r where "h = F r q" "r = api_proxy \<or> r = test_proxy" using forwarded_Some [OF assms(2)] by blast
  then show ?thesis
    using assms(1) url_host_api by (auto simp: follows_rules_def from_demo_def api_proxy_def test_proxy_def)
qed

text \<open>
  So an account creation request that some other page sends to the development server reaches the
  service when its body is one: its \<^verbatim>\<open>Origin\<close> header is not looked at.
\<close>

lemma foreign_page_reaches_bootstrap:
  assumes "follows_rules F" and "fq_path q = ''/api/account/bootstrap''" and "fq_method q = ''POST''"
    and "map_of (fq_headers q) ''Origin'' = Some foreign" and "foreign \<noteq> CLIENT_ORIGIN"
    and "ht_pathname R ''/api/account/bootstrap'' = Inr ''/api/account/bootstrap''"
    and "parse_request Z R (F api_proxy q) = Inr r"
  shows "forwarded F dir fixture q = Some (F api_proxy q) \<and> reaches Z R service (F api_proxy q) = Some (ds_bootstrap service r)"
proof -
  have f: "forwarded F dir fixture q = Some (F api_proxy q)"
    using assms(2) by (simp add: forwarded_def viteConfig_def serverOptions_def startsWith_def)
  have "hq_url (F api_proxy q) = Some ''/api/account/bootstrap''" "hq_method (F api_proxy q) = ''POST''"
    using assms(1-3) by (simp_all add: follows_rules_def)
  with f assms(6,7) proxy_vouches_for_every_page [OF assms(1) f] show ?thesis
    by (simp add: reaches_def route_def)
qed

text \<open>The tests run against the real network only when a well-formed key is there.\<close>

lemma real_testnet_needs_key:
  "pw_command (playwrightConfig env) = ''npm run dev'' \<longleftrightarrow>
     env ''CKB_PASSKEY_REAL_TESTNET_SPEC'' = Some ''1'' \<and> env ''RUN_CKB_TESTNET'' = Some ''1''
     \<and> (\<exists>k. env ''CKB_PRIVKEY'' = Some k \<and> private_key_re k)"
  by (auto simp: playwrightConfig_def realTestnetEnabled_def private_key_re_def split: option.splits)

end
