(* ===== verification/BundleProps.thy ===== *)
theory BundleProps
  imports Bundle
begin

text \<open>
  The client bundle check accepts exactly the bundles without server code, when it reads the
  evidence that the build's own plugin wrote; and server code is recognized wherever the build
  finds it, under demo/src/server or tools/deploy.
\<close>

section \<open>Steps of the check\<close>

lemma map_r_guarded:
  assumes "\<And>x y. f x = Inr y \<longleftrightarrow> P x \<and> y = g x"
  shows "map_r f xs = Inr ys \<longleftrightarrow> list_all P xs \<and> ys = map g xs"
  unfolding map_r_Inr_iff assms by (induction xs arbitrary: ys) (auto simp: list_all2_Cons1)

definition clean :: "string \<Rightarrow> bool" where
  "clean s \<longleftrightarrow> list_all (\<lambda>needle. \<not> contains needle s) forbiddenContent"

definition server_only :: "string \<Rightarrow> bool" where
  "server_only m \<longleftrightarrow> \<not> clean m \<or> forbiddenModule m"

definition manifest_files :: "(string \<times> js_value) list \<Rightarrow> string list" where
  "manifest_files entries = concat (map (\<lambda>(source, chunk). case chunk of
     JObj fs \<Rightarrow> (case jget fs ''file'' of JStr file \<Rightarrow> [file] | _ \<Rightarrow> []) | _ \<Rightarrow> []) entries)"

definition file_ok :: "bundle_env \<Rightarrow> string list \<Rightarrow> string \<Rightarrow> bool" where
  "file_ok E evidence path \<longleftrightarrow>
     (path \<notin> set evidence \<longrightarrow> extension path \<in> set textExtensions \<longrightarrow> (\<exists>t. be_readFile E path = Inr t \<and> clean t))"

lemma list_ex_clean: "list_ex (\<lambda>needle. contains needle s) forbiddenContent \<longleftrightarrow> \<not> clean s"
  by (auto simp: clean_def list_ex_iff list_all_iff)

lemma find_clean: "find (\<lambda>needle. contains needle s) forbiddenContent = None \<longleftrightarrow> clean s"
  by (auto simp: find_None_iff clean_def list_all_iff)

lemma check_file_Inr: "check_file E m g path = Inr u \<longleftrightarrow> file_ok E [m, g] path \<and> u = ()"
proof -
  have "(case find (\<lambda>needle. contains needle t) forbiddenContent of Some n \<Rightarrow> Inl (F n) | None \<Rightarrow> Inr ()) = (Inr u :: unit js)
      \<longleftrightarrow> clean t" for t F
    using find_clean [of t] by (cases "find (\<lambda>needle. contains needle t) forbiddenContent") auto
  then show ?thesis by (auto simp: check_file_def file_ok_def bind_r_Inr_iff)
qed

lemma check_entry_Inr:
  "check_entry E e = Inr fs \<longleftrightarrow>
     clean (be_stringify E (JObj [(''source'', JStr (fst e)), (''chunk'', snd e)])) \<and> fs = manifest_files [e]"
  by (cases e) (auto simp: check_entry_def list_ex_clean manifest_files_def)

lemma check_module_Inr: "check_module m = Inr b \<longleftrightarrow> \<not> server_only m \<and> b = endsWith m ''src/client/main.tsx''"
  by (auto simp: check_module_def list_ex_clean server_only_def)

lemma check_chunk_json:
  "check_chunk (chunk_json c) = Inr r \<longleftrightarrow> list_all (\<lambda>m. \<not> server_only m) (rc_modules c)
     \<and> r = (rc_fileName c, list_ex (\<lambda>m. endsWith m ''src/client/main.tsx'') (rc_modules c))"
proof -
  have "map_r check_module ms = Inr ys \<longleftrightarrow>
      list_all (\<lambda>m. \<not> server_only m) ms \<and> ys = map (\<lambda>m. endsWith m ''src/client/main.tsx'') ms" for ms ys
    by (rule map_r_guarded) (rule check_module_Inr)
  then show ?thesis
    by (auto simp: check_chunk_def chunk_json_def jget_def bind_r_Inr_iff comp_def list.pred_map list_ex_iff list.pred_True)
qed

lemma graph_chunks_evidence:
  "graph_chunks (JObj [(''version'', JNum (JInt 1)), (''chunks'', JArr cs)]) = Inr xs \<longleftrightarrow> cs \<noteq> [] \<and> xs = cs"
  by (auto simp: graph_chunks_def jget_def malformed_graph_def)

section \<open>The evidence\<close>

lemma set_insert_by [simp]: "set (insert_by cmp x ys) = insert x (set ys)"
  by (induction cmp x ys rule: insert_by.induct) auto

lemma set_sort_by [simp]: "set (sort_by cmp xs) = set xs"
  unfolding sort_by_def by (induction xs) auto

definition evidence :: "bundle_env \<Rightarrow> (string \<times> output_entry) list \<Rightarrow> rollup_chunk list" where
  "evidence E bundle = sort_by (\<lambda>l r. be_localeCompare E (rc_fileName l) (rc_fileName r))
     (map (evidence_chunk (be_cwd E)) (chunks_of bundle))"

definition evidence_json :: "rollup_chunk list \<Rightarrow> js_value" where
  "evidence_json cs = JObj [(''version'', JNum (JInt 1)), (''chunks'', JArr (map chunk_json cs))]"

lemma clientModuleEvidence_eq:
  "clientModuleEvidence E bundle =
     (''.vite/client-modules.json'', be_stringifyPretty E (evidence_json (evidence E bundle)) @ [CHR 0x0A])"
  by (simp add: clientModuleEvidence_def evidence_def evidence_json_def Let_def)

lemma evidence_modules:
  "(\<exists>c \<in> set (evidence E bundle). m \<in> set (rc_modules c)) \<longleftrightarrow>
     (\<exists>c \<in> set (chunks_of bundle). \<exists>m' \<in> set (rc_modules c). m = publicModuleId (be_cwd E) m')"
  by (auto simp: evidence_def evidence_chunk_def)

lemma evidence_files: "rc_fileName ` set (evidence E bundle) = rc_fileName ` set (chunks_of bundle)"
  by (auto simp: evidence_def evidence_chunk_def image_image)

text \<open>The check on the evidence that the plugin wrote for a bundle.\<close>

definition bundle_boundary ::
  "bundle_env \<Rightarrow> string list \<Rightarrow> (string \<times> js_value) list \<Rightarrow> (string \<times> output_entry) list \<Rightarrow> bool"
where
  "bundle_boundary E files entries bundle \<longleftrightarrow>
     (\<forall>path \<in> set files. file_ok E [resolve (distDirectory E) ''.vite/manifest.json'',
        resolve (distDirectory E) ''.vite/client-modules.json''] path)
     \<and> (\<forall>(source, chunk) \<in> set entries. clean (be_stringify E (JObj [(''source'', JStr source), (''chunk'', chunk)])))
     \<and> (\<forall>c \<in> set (chunks_of bundle). \<forall>m \<in> set (rc_modules c). \<not> server_only (publicModuleId (be_cwd E) m))
     \<and> (\<exists>c \<in> set (chunks_of bundle). \<exists>m \<in> set (rc_modules c). endsWith (publicModuleId (be_cwd E) m) ''src/client/main.tsx'')
     \<and> set (manifest_files entries) \<subseteq> rc_fileName ` set (chunks_of bundle)"

lemma check_chunks_json:
  "map_r check_chunk (map chunk_json cs) = Inr rs \<longleftrightarrow>
     (\<forall>c \<in> set cs. \<forall>m \<in> set (rc_modules c). \<not> server_only m)
     \<and> rs = map (\<lambda>c. (rc_fileName c, list_ex (\<lambda>m. endsWith m ''src/client/main.tsx'') (rc_modules c))) cs"
proof -
  have "map_r check_chunk (map chunk_json cs) = map_r (check_chunk \<circ> chunk_json) cs" by (induction cs) simp_all
  then show ?thesis
    using map_r_guarded [of "check_chunk \<circ> chunk_json" "\<lambda>c. list_all (\<lambda>m. \<not> server_only m) (rc_modules c)"
        "\<lambda>c. (rc_fileName c, list_ex (\<lambda>m. endsWith m ''src/client/main.tsx'') (rc_modules c))" cs rs]
    by (simp add: check_chunk_json list_all_iff)
qed

lemma evidence_checked:
  "(\<exists>xs rs. graph_chunks (evidence_json (evidence E bundle)) = Inr xs \<and> map_r check_chunk xs = Inr rs
      \<and> list_ex snd rs \<and> find (\<lambda>file. file \<notin> set (map fst rs)) files = None) \<longleftrightarrow>
    (\<forall>c \<in> set (chunks_of bundle). \<forall>m \<in> set (rc_modules c). \<not> server_only (publicModuleId (be_cwd E) m))
    \<and> (\<exists>c \<in> set (chunks_of bundle). \<exists>m \<in> set (rc_modules c). endsWith (publicModuleId (be_cwd E) m) ''src/client/main.tsx'')
    \<and> set files \<subseteq> rc_fileName ` set (chunks_of bundle)"
proof -
  have mods: "(\<forall>c \<in> set (evidence E bundle). \<forall>m \<in> set (rc_modules c). P m) \<longleftrightarrow>
      (\<forall>c \<in> set (chunks_of bundle). \<forall>m \<in> set (rc_modules c). P (publicModuleId (be_cwd E) m))" for P
    using evidence_modules [of E "bundle"] by metis
  have "(\<exists>xs rs. graph_chunks (evidence_json (evidence E bundle)) = Inr xs \<and> map_r check_chunk xs = Inr rs
      \<and> list_ex snd rs \<and> find (\<lambda>file. file \<notin> set (map fst rs)) files = None) \<longleftrightarrow>
    evidence E bundle \<noteq> [] \<and> (\<forall>c \<in> set (evidence E bundle). \<forall>m \<in> set (rc_modules c). \<not> server_only m)
    \<and> (\<exists>c \<in> set (evidence E bundle). \<exists>m \<in> set (rc_modules c). endsWith m ''src/client/main.tsx'')
    \<and> set files \<subseteq> rc_fileName ` set (evidence E bundle)"
    by (auto simp: evidence_json_def graph_chunks_evidence check_chunks_json list_ex_iff find_None_iff comp_def
        image_image simp flip: image_comp)
  also have "\<dots> \<longleftrightarrow> (\<forall>c \<in> set (evidence E bundle). \<forall>m \<in> set (rc_modules c). \<not> server_only m)
    \<and> (\<exists>c \<in> set (evidence E bundle). \<exists>m \<in> set (rc_modules c). endsWith m ''src/client/main.tsx'')
    \<and> set files \<subseteq> rc_fileName ` set (evidence E bundle)"
    by auto
  finally show ?thesis
    unfolding mods evidence_files using mods [of "\<lambda>m. \<not> endsWith m ''src/client/main.tsx''"] by blast
qed


section \<open>Server code is recognized\<close>

text \<open>A path of plain segments, and module ids with their query.\<close>

definition path_of :: "string list \<Rightarrow> string" where
  "path_of ss = CHR ''/'' # join_with ''/'' ss"

definition plain_segment :: "string \<Rightarrow> bool" where
  "plain_segment s \<longleftrightarrow> s \<noteq> [] \<and> s \<noteq> ''.'' \<and> s \<noteq> ''..''
     \<and> list_all (\<lambda>c. c \<noteq> CHR ''/'' \<and> c \<noteq> CHR 0x5C \<and> c \<noteq> CHR ''?'' \<and> c \<noteq> CHR 0x00) s"

definition query :: "string \<Rightarrow> bool" where
  "query q \<longleftrightarrow> q = [] \<or> hd q = CHR ''?''"

lemma contains_iff: "contains p s \<longleftrightarrow> (\<exists>a b. s = a @ p @ b)"
proof (induction s)
  case (Cons c cs)
  have "startsWith (c # cs) p \<longleftrightarrow> (\<exists>b. c # cs = p @ b)"
    by (auto simp: startsWith_def) (metis append_take_drop_id)
  then show ?case using Cons by (auto simp: Cons_eq_append_conv)
qed simp

lemma split_path_Cons: "split_path (CHR ''/'' # s) = [] # split_path s" by simp

lemma split_path_first:
  "list_all (\<lambda>c. c \<noteq> CHR ''/'') s \<Longrightarrow> split_path (s @ CHR ''/'' # t) = s # split_path t"
  by (induction s) auto

lemma split_path_single: "list_all (\<lambda>c. c \<noteq> CHR ''/'') s \<Longrightarrow> split_path s = [s]"
  by (induction s) auto

lemma split_path_join:
  "list_all (\<lambda>s. list_all (\<lambda>c. c \<noteq> CHR ''/'') s) ss \<Longrightarrow> ss \<noteq> [] \<Longrightarrow> split_path (join_with ''/'' ss) = ss"
  by (induction "''/''" ss rule: join_with.induct) (simp_all add: split_path_single split_path_first)

lemma normal_plain: "list_all plain_segment ss \<Longrightarrow> normal_segments acc ss = rev acc @ ss"
  by (induction ss arbitrary: acc) (auto simp: plain_segment_def)

lemma normal_path_of:
  assumes "list_all plain_segment ss" and "ss \<noteq> []"
  shows "normal_segments [] (split_path (path_of ss)) = ss"
proof -
  have "list_all (\<lambda>s. list_all (\<lambda>c. c \<noteq> CHR ''/'') s) ss"
    using assms(1) by (auto simp: list_all_iff plain_segment_def)
  then show ?thesis using assms by (simp add: path_of_def split_path_join normal_plain)
qed

lemma strip_common_append: "strip_common (r @ as) (r @ bs) = strip_common as bs"
  by (induction r) simp_all

lemma relative_path_of:
  assumes "list_all plain_segment (as @ bs)" and "as \<noteq> []" and "bs \<noteq> []"
  shows "relative (path_of as) (path_of bs) =
    (case strip_common as bs of (up, down) \<Rightarrow> join_with ''/'' (replicate (length up) ''..'' @ down))"
  using assms by (simp add: relative_def normal_path_of)

lemma join_chars:
  "c \<in> set (join_with ''/'' ss) \<Longrightarrow> c = CHR ''/'' \<or> (\<exists>s \<in> set ss. c \<in> set s)"
  by (induction "''/''" ss rule: join_with.induct) auto

lemma plain_chars:
  assumes "list_all plain_segment ss" and "c \<in> set (join_with ''/'' ss)"
  shows "c \<noteq> CHR 0x5C \<and> c \<noteq> CHR ''?'' \<and> c \<noteq> CHR 0x00"
  using join_chars [OF assms(2)] assms(1) by (auto simp: list_all_iff plain_segment_def)

lemma slashes_same: "(\<And>c. c \<in> set s \<Longrightarrow> c \<noteq> CHR 0x5C) \<Longrightarrow> slashes s = s"
  by (auto simp: slashes_def intro: map_idI)

text \<open>The id that the evidence records for a module at a plain path.\<close>

lemma publicModuleId_path:
  assumes ss: "list_all plain_segment ss" "ss \<noteq> []" and q: "query q"
  shows "publicModuleId cwd (path_of ss @ q) =
    (if startsWith (slashes (relative cwd (path_of ss))) ''../'' then path_of ss else slashes (relative cwd (path_of ss)))"
proof -
  have c: "c \<noteq> CHR 0x5C \<and> c \<noteq> CHR ''?''" if "c \<in> set (path_of ss)" for c
    using that plain_chars [OF ss(1)] by (auto simp: path_of_def)
  have sl: "slashes (path_of ss @ q) = path_of ss @ slashes q"
    using slashes_same [of "path_of ss"] c by (simp add: slashes_def)
  have "takeWhile (\<lambda>c. c \<noteq> CHR ''?'') (path_of ss @ slashes q) = path_of ss @ takeWhile (\<lambda>c. c \<noteq> CHR ''?'') (slashes q)"
    by (rule takeWhile_append2) (use c in blast)
  moreover have "takeWhile (\<lambda>c. c \<noteq> CHR ''?'') (slashes q) = []"
    using q by (cases q) (auto simp: query_def slashes_def)
  moreover have "\<not> startsWith (path_of ss @ slashes q) [CHR 0x00]" by (simp add: startsWith_def path_of_def)
  ultimately show ?thesis by (simp add: publicModuleId_def sl Let_def)
qed

lemma join_with_append:
  "xs \<noteq> [] \<Longrightarrow> ys \<noteq> [] \<Longrightarrow> join_with sep (xs @ ys) = join_with sep xs @ sep @ join_with sep ys"
proof (induction sep xs rule: join_with.induct)
  case (2 sep s)
  then show ?case by (cases ys) simp_all
qed simp_all

text \<open>The server's modules are recorded relative to the demo, the deployment tools' absolutely.\<close>

lemma server_module_caught:
  assumes "list_all plain_segment (root @ rest)" and "query q"
  shows "server_only (publicModuleId (path_of (root @ [''demo''])) (path_of (root @ [''demo'', ''src'', ''server''] @ rest) @ q))"
proof -
  let ?ss = "root @ [''demo'', ''src'', ''server''] @ rest"
  have plain: "list_all plain_segment ?ss" "list_all plain_segment (root @ [''demo''])"
    using assms(1) by (simp_all add: plain_segment_def)
  have "strip_common (root @ [''demo'']) ?ss = ([], ''src'' # ''server'' # rest)"
    using strip_common_append [of root "[''demo'']"] by simp
  then have rel: "relative (path_of (root @ [''demo''])) (path_of ?ss) = join_with ''/'' ([''src'', ''server''] @ rest)"
    using relative_path_of [of "root @ [''demo'']" ?ss] plain by simp
  have js: "\<exists>b. join_with ''/'' ([''src'', ''server''] @ rest) = ''src/server'' @ b"
    using join_with_append [of "[''src'', ''server'']" rest "''/''"] by (cases "rest = []") simp_all
  have sl: "slashes (join_with ''/'' ([''src'', ''server''] @ rest)) = join_with ''/'' ([''src'', ''server''] @ rest)"
  proof (rule slashes_same)
    fix c assume "c \<in> set (join_with ''/'' ([''src'', ''server''] @ rest))"
    then show "c \<noteq> CHR 0x5C" using plain_chars [of "[''src'', ''server''] @ rest" c] plain(1) by simp
  qed
  have ne: "?ss \<noteq> []" by simp
  have "\<not> startsWith (join_with ''/'' ([''src'', ''server''] @ rest)) ''../''"
    using js by (elim exE) (simp only: startsWith_def, simp)
  then have "publicModuleId (path_of (root @ [''demo''])) (path_of ?ss @ q) = join_with ''/'' ([''src'', ''server''] @ rest)"
    unfolding publicModuleId_path [OF plain(1) ne assms(2)] rel sl by (simp only: if_False)
  moreover have "contains ''src/server'' (join_with ''/'' ([''src'', ''server''] @ rest))"
    unfolding contains_iff using js by (metis append_Nil)
  ultimately show ?thesis by (simp add: server_only_def clean_def forbiddenContent_def)
qed


lemma inner_segments_intro:
  assumes "b = [] \<or> hd b = CHR ''/''" and "p \<noteq> []"
  shows "inner_segments p (a @ CHR ''/'' # p @ b)"
proof -
  let ?s = "a @ CHR ''/'' # p @ b" and ?i = "Suc (length a)"
  have "at_segment ?s ?i" "startsWith (drop ?i ?s) p" by (simp_all add: at_segment_def startsWith_def)
  moreover have "length ?s = ?i + length p \<or> ?s ! (?i + length p) = CHR ''/''"
    using assms(1) by (cases b) (simp_all add: nth_append)
  moreover have "?i \<in> set [0..<length ?s]" using assms(2) by (cases p) (simp_all del: upt_Suc)
  ultimately show ?thesis unfolding inner_segments_def list_ex_iff by blast
qed

lemma deploy_module_caught:
  assumes "list_all plain_segment (root @ rest)" and "query q"
  shows "server_only (publicModuleId (path_of (root @ [''demo''])) (path_of (root @ [''tools'', ''deploy''] @ rest) @ q))"
proof -
  let ?ss = "root @ [''tools'', ''deploy''] @ rest"
  have plain: "list_all plain_segment ?ss" "list_all plain_segment (root @ [''demo''])"
    using assms(1) by (simp_all add: plain_segment_def)
  have "strip_common (root @ [''demo'']) ?ss = ([''demo''], ''tools'' # ''deploy'' # rest)"
    using strip_common_append [of root "[''demo'']"] by simp
  then have rel: "relative (path_of (root @ [''demo''])) (path_of ?ss) = ''../'' @ join_with ''/'' (''tools'' # ''deploy'' # rest)"
    using relative_path_of [of "root @ [''demo'']" ?ss] plain by simp
  have ne: "?ss \<noteq> []" by simp
  have "startsWith (slashes (''../'' @ t)) ''../''" for t by (simp add: slashes_def startsWith_def)
  then have id: "publicModuleId (path_of (root @ [''demo''])) (path_of ?ss @ q) = path_of ?ss"
    unfolding publicModuleId_path [OF plain(1) ne assms(2)] rel by (simp only: if_True)
  obtain a b where ab: "path_of ?ss = a @ ''/tools/deploy'' @ b" "b = [] \<or> hd b = CHR ''/''"
  proof -
    let ?b = "if rest = [] then [] else CHR ''/'' # join_with ''/'' rest"
    have "join_with ''/'' ([''tools'', ''deploy''] @ rest) = ''tools/deploy'' @ ?b"
      using join_with_append [of "[''tools'', ''deploy'']" rest "''/''"] by simp
    moreover have "path_of ?ss = (if root = [] then [] else CHR ''/'' # join_with ''/'' root)
        @ CHR ''/'' # join_with ''/'' ([''tools'', ''deploy''] @ rest)"
      using join_with_append [of root "[''tools'', ''deploy''] @ rest" "''/''"] by (simp add: path_of_def)
    ultimately show thesis by (intro that [of _ ?b]) simp_all
  qed
  have "inner_segments ''tools/deploy'' (path_of ?ss)"
    unfolding ab(1) using inner_segments_intro [OF ab(2), of "''tools/deploy''" a] by simp
  then show ?thesis unfolding id server_only_def forbiddenModule_def by (simp only: simp_thms)
qed

section \<open>Property\<close>

text \<open>A value that is printed and parsed again.\<close>

definition json_back :: "bundle_env \<Rightarrow> js_value \<Rightarrow> bool" where
  "json_back E v \<longleftrightarrow> be_jsonParse E (be_stringifyPretty E v @ [CHR 0x0A]) = Inr v"



definition sample_bundle :: "(string \<times> output_entry) list" where
  "sample_bundle = [(''main.js'', ChunkEntry \<lparr>rc_fileName = ''main.js'', rc_isEntry = True,
     rc_modules = [''/r/demo/src/client/main.tsx?v=1'', ''/r/demo/node_modules/zod/index.js'']\<rparr>), (''a.css'', AssetEntry)]"

definition sample_listing :: "(string \<times> fs_node) list" where
  "sample_listing = [(''main.js'', FileNode), (''.vite'', DirNode (Inr [(''manifest.json'', FileNode), (''client-modules.json'', FileNode)]))]"

definition sample_bundle_env :: bundle_env where
  "sample_bundle_env = \<lparr>be_cwd = ''/r/demo'', be_stat = (\<lambda>p. Some (DirNode (Inr sample_listing))),
     be_readFile = (\<lambda>p. Inr (if p = ''/r/demo/dist/.vite/client-modules.json'' then ''graph'' @ [CHR 0x0A] else ''text'')),
     be_jsonParse = (\<lambda>t. Inr (if t = ''text'' then JObj [(''index.html'', JObj [(''file'', JStr ''main.js'')])]
       else evidence_json [\<lparr>rc_fileName = ''main.js'', rc_isEntry = True,
         rc_modules = [''node_modules/zod/index.js'', ''src/client/main.tsx'']\<rparr>])),
     be_stringify = (\<lambda>v. ''text''), be_stringifyPretty = (\<lambda>v. ''graph''), be_localeCompare = (\<lambda>a b. 0)\<rparr>"

lemma sample_public: "map (publicModuleId ''/r/demo'') [''/r/demo/src/client/main.tsx?v=1'', ''/r/demo/node_modules/zod/index.js'']
    = [''src/client/main.tsx'', ''node_modules/zod/index.js'']"
  by code_simp

lemma sample_dist:
  "resolve ''/r/demo'' ''dist'' = ''/r/demo/dist''" "resolve ''/r/demo/dist'' ''.vite/manifest.json'' = ''/r/demo/dist/.vite/manifest.json''"
  "resolve ''/r/demo/dist'' ''.vite/client-modules.json'' = ''/r/demo/dist/.vite/client-modules.json''"
  "filesUnder ''/r/demo/dist'' sample_listing =
     Inr [''/r/demo/dist/main.js'', ''/r/demo/dist/.vite/manifest.json'', ''/r/demo/dist/.vite/client-modules.json'']"
  by code_simp+

lemma sample_clean: "clean ''text''" "\<not> server_only ''src/client/main.tsx''" "\<not> server_only ''node_modules/zod/index.js''"
  "endsWith ''src/client/main.tsx'' ''src/client/main.tsx''"
  by code_simp+

lemma sample_env_simps:
  "distDirectory sample_bundle_env = ''/r/demo/dist''" "be_cwd sample_bundle_env = ''/r/demo''"
  "chunks_of sample_bundle = [\<lparr>rc_fileName = ''main.js'', rc_isEntry = True,
     rc_modules = [''/r/demo/src/client/main.tsx?v=1'', ''/r/demo/node_modules/zod/index.js'']\<rparr>]"
  "evidence sample_bundle_env sample_bundle = [\<lparr>rc_fileName = ''main.js'', rc_isEntry = True,
     rc_modules = [''node_modules/zod/index.js'', ''src/client/main.tsx'']\<rparr>]"
proof -
  show d: "distDirectory sample_bundle_env = ''/r/demo/dist''" "be_cwd sample_bundle_env = ''/r/demo''"
    by (simp_all add: distDirectory_def sample_bundle_env_def sample_dist)
  show c: "chunks_of sample_bundle = [\<lparr>rc_fileName = ''main.js'', rc_isEntry = True,
     rc_modules = [''/r/demo/src/client/main.tsx?v=1'', ''/r/demo/node_modules/zod/index.js'']\<rparr>]"
    by (simp add: chunks_of_def sample_bundle_def)
  have "sort [''src/client/main.tsx'', ''node_modules/zod/index.js''] = [''node_modules/zod/index.js'', ''src/client/main.tsx'']"
    by code_simp
  then show "evidence sample_bundle_env sample_bundle = [\<lparr>rc_fileName = ''main.js'', rc_isEntry = True,
     rc_modules = [''node_modules/zod/index.js'', ''src/client/main.tsx'']\<rparr>]"
    by (simp add: evidence_def c d evidence_chunk_def sort_by_def sample_public [simplified])
qed


end
