(* ===== verification/VerifierFixture.thy ===== *)
theory VerifierFixture
  imports PostQuantum
begin

text \<open>
  contracts/verifier-fixture/src/main.rs, the stand-in verifier of the integration tests. It reads
  its request like the real verifiers, with an exit code of its own for each failure, and then
  accepts one fixed proof. docs/DEPLOYMENT.md says that it should not authorize a real account; the
  lemmas show why: what it accepts depends neither on the key nor on the digest.
\<close>

section \<open>The program\<close>

definition with_code :: "int \<Rightarrow> ('w, 'e, 'a) io \<Rightarrow> ('w, int, 'a) io" where
  "with_code c m = (\<lambda>w. case m w of (r, w') \<Rightarrow> (map_err (\<lambda>_. c) r, w'))"

definition fixture_request :: "'w child_syscalls \<Rightarrow> ('w, int, bytes) io" where
  "fixture_request R w = (case cs_inherited_fds R w of ((n, fd), w0) \<Rightarrow>
     if n \<noteq> 1 then (Inl 2, w0) else
     bind_io (with_code 3 (read_exact R fd VERIFIER_REQUEST_HEADER_LEN)) (\<lambda>header.
     let aux = of_le (seg 80 84 header); proof_len = of_le (seg 84 88 header) in
     case Option.bind (checked_add VERIFIER_REQUEST_HEADER_LEN aux) (\<lambda>v. checked_add v proof_len) of
       None \<Rightarrow> throw_io 5
     | Some tot \<Rightarrow>
         if \<not> tot \<le> VERIFIER_MAX_REQUEST_LEN then throw_io 5 else
         bind_io (with_code 6 (read_exact R fd (tot - VERIFIER_REQUEST_HEADER_LEN))) (\<lambda>body.
         bind_io (\<lambda>w. case cs_read R fd 1 w of
             (Inr extra, w') \<Rightarrow> if extra = [] then (Inr (), w') else (Inl 7, w')
           | (Inl OtherEndClosed, w') \<Rightarrow> (Inr (), w')
           | (Inl _, w') \<Rightarrow> (Inl 7, w')) (\<lambda>_.
         bind_io (with_code 8 (cs_close R fd)) (\<lambda>_.
         return_io (header @ body))))) w0)"

definition fixture_accepts :: "verifier_request \<Rightarrow> bool" where
  "fixture_accepts request \<longleftrightarrow>
     vr_verifier_profile request = 1 \<and> vr_aux request = [1] \<and> vr_proof request = ascii ''fixture-valid''"

definition fixture_entry :: "'w child_syscalls \<Rightarrow> 'w \<Rightarrow> int" where
  "fixture_entry R w = (case fixture_request R w of
     (Inl c, _) \<Rightarrow> c
   | (Inr bs, _) \<Rightarrow> (case parse_verifier_request bs of
       Inl _ \<Rightarrow> 3
     | Inr request \<Rightarrow> if fixture_accepts request then 0 else 1))"

section \<open>Reading\<close>

text \<open>Two programs that differ at most in their exit codes.\<close>

definition same_success :: "('w, 'e, 'a) io \<Rightarrow> ('w, 'f, 'a) io \<Rightarrow> bool" where
  "same_success m n \<longleftrightarrow> (\<forall>w. snd (m w) = snd (n w) \<and> map_err (\<lambda>_. ()) (fst (m w)) = map_err (\<lambda>_. ()) (fst (n w)))"

lemma same_success_bind:
  assumes "same_success m n" and "\<And>x. same_success (f x) (g x)"
  shows "same_success (bind_io m f) (bind_io n g)"
  unfolding same_success_def
proof (intro allI)
  fix w
  obtain r s u where m: "m w = (r, u)" "n w = (s, u)" "map_err (\<lambda>_. ()) r = map_err (\<lambda>_. ()) s"
    using assms(1) unfolding same_success_def by (metis prod.collapse)
  show "snd (bind_io m f w) = snd (bind_io n g w) \<and>
      map_err (\<lambda>_. ()) (fst (bind_io m f w)) = map_err (\<lambda>_. ()) (fst (bind_io n g w))"
    using m(3) assms(2) unfolding same_success_def by (cases r; cases s) (simp_all add: m(1,2))
qed

lemma same_success_codes: "same_success (with_code c m) (\<lambda>w. case m w of (r, w') \<Rightarrow> (map_err (\<lambda>_. d) r, w'))"
  by (simp add: same_success_def with_code_def map_err_def split: prod.split sum.split)

lemma fixture_reads_alike: "same_success (fixture_request R) (read_request R)"
proof -
  have extra: "same_success (\<lambda>w. case cs_read R fd 1 w of
             (Inr extra, w') \<Rightarrow> if extra = [] then (Inr (), w') else (Inl 7, w')
           | (Inl OtherEndClosed, w') \<Rightarrow> (Inr (), w') | (Inl _, w') \<Rightarrow> (Inl 7, w'))
      (\<lambda>w. case cs_read R fd 1 w of
             (Inr extra, w') \<Rightarrow> if extra = [] then (Inr (), w') else (Inl MALFORMED_REQUEST, w')
           | (Inl OtherEndClosed, w') \<Rightarrow> (Inr (), w') | (Inl _, w') \<Rightarrow> (Inl MALFORMED_REQUEST, w'))" for fd
    by (simp add: same_success_def split: prod.split sum.split sys_error.split)
  have throws: "same_success (throw_io c) (throw_io d)" and returns: "same_success (return_io x) (return_io x)" for c d x
    by (simp_all add: same_success_def)
  have rest: "same_success
      (case z of None \<Rightarrow> throw_io 5 | Some tot \<Rightarrow> if \<not> tot \<le> VERIFIER_MAX_REQUEST_LEN then throw_io 5 else p tot)
      (case z of None \<Rightarrow> throw_io MALFORMED_REQUEST | Some tot \<Rightarrow> if tot > VERIFIER_MAX_REQUEST_LEN then throw_io MALFORMED_REQUEST else q tot)"
    if "\<And>tot. same_success (p tot) (q tot)" for z p q
    using that by (cases z) (simp_all add: throws)
  note steps = same_success_bind same_success_codes same_success_codes [where c = 8] rest extra returns
  show ?thesis
    unfolding same_success_def
  proof (intro allI)
    fix w
    obtain n fd w0 where w0: "cs_inherited_fds R w = ((n, fd), w0)" by (metis prod.collapse)
    show "snd (fixture_request R w) = snd (read_request R w)
        \<and> map_err (\<lambda>_. ()) (fst (fixture_request R w)) = map_err (\<lambda>_. ()) (fst (read_request R w))"
    proof (cases "n = 1")
      case True
      show ?thesis
        unfolding fixture_request_def read_request_def w0 case_prod_conv True malformed_def Let_def simp_thms if_False
        by (rule same_success_def [THEN iffD1, THEN spec], intro steps)
    qed (simp add: fixture_request_def read_request_def w0)
  qed
qed

lemma with_code_no_zero: "c \<noteq> 0 \<Longrightarrow> no_zero (fst (with_code c m w))"
  by (simp add: with_code_def map_err_def no_zero_def split: prod.split sum.split)

lemma fixture_request_no_zero: "no_zero (fst (fixture_request R w))"
proof -
  have nz: "no_zero (Inl c) \<longleftrightarrow> c \<noteq> 0" "no_zero (Inr x)" for c and x :: 'b by (simp_all add: no_zero_def)
  have ok: "no_zero (fst (return_io x u))" "c \<noteq> 0 \<Longrightarrow> no_zero (fst (throw_io c u))" for x :: bytes and c and u :: 'a
    by (simp_all add: no_zero_def)
  have extra: "no_zero (fst (case cs_read R fd 1 w of
             (Inr extra, w') \<Rightarrow> if extra = [] then (Inr (), w') else (Inl 7, w')
           | (Inl OtherEndClosed, w') \<Rightarrow> (Inr (), w') | (Inl _, w') \<Rightarrow> (Inl 7, w')))" for fd w
    by (simp add: no_zero_def split: prod.split sum.split sys_error.split)
  obtain n fd w0 where w0: "cs_inherited_fds R w = ((n, fd), w0)" by (metis prod.collapse)
  show ?thesis
    unfolding fixture_request_def w0 case_prod_conv Let_def
    by (cases "n = 1")
       (auto intro!: bind_io_no_zero with_code_no_zero extra [unfolded One_nat_def] ok simp: nz simp del: lift_io_simp split: option.split)
qed

section \<open>What it accepts\<close>

lemma fixture_entry_iff:
  assumes "child_reads R fd unread"
  shows "fixture_entry R w = 0 \<longleftrightarrow> (\<exists>q. parse_verifier_request (unread w) = Inr q \<and> fixture_accepts q)"
proof -
  obtain r w1 where r: "read_request R w = (r, w1)" by (cases "read_request R w")
  obtain f w2 where f: "fixture_request R w = (f, w2)" by (cases "fixture_request R w")
  have "map_err (\<lambda>_. ()) f = map_err (\<lambda>_. ()) r"
    using fixture_reads_alike [of R] r f unfolding same_success_def by (metis fst_conv)
  then have same: "f = Inr d \<longleftrightarrow> r = Inr d" for d by (metis map_err_Inr_iff)
  show ?thesis
  proof
    assume z: "fixture_entry R w = 0"
    have "f \<noteq> Inl 0" using fixture_request_no_zero [of R w] f by (auto simp: no_zero_def)
    then obtain d where d: "f = Inr d" using z f by (cases f) (auto simp: fixture_entry_def)
    then have "d = unread w" using r same read_request_Inr [OF assms, of w d w1] by simp
    then show "\<exists>q. parse_verifier_request (unread w) = Inr q \<and> fixture_accepts q"
      using z f d by (auto simp: fixture_entry_def split: sum.splits if_splits)
  next
    assume "\<exists>q. parse_verifier_request (unread w) = Inr q \<and> fixture_accepts q"
    then obtain q where q: "parse_verifier_request (unread w) = Inr q" "fixture_accepts q" by blast
    then have "f = Inr (unread w)" using read_request_ok [OF assms q(1)] r same by auto
    then show "fixture_entry R w = 0" using f q by (simp add: fixture_entry_def)
  qed
qed

text \<open>
  On a request of the account lock, the fixture accepts the one fixed proof for every
  authenticator that is registered with its one-byte profile: the key and the digest play no part.
\<close>

lemma fixture_accepts_anyone:
  assumes "child_reads R fd unread" and "entry_ok e" and "length digest = 32"
    and "encode_request e op digest payload = Inr (unread w)"
  shows "fixture_entry R w = 0 \<longleftrightarrow> ae_aux e = [1] \<and> payload = ascii ''fixture-valid''"
proof -
  have "parse_verifier_request (unread w) = Inr (request_of e op digest payload)" "ae_aux e \<noteq> []"
    using encode_request_Inr_iff [of e digest op payload "unread w"] assms(2-4) by (simp_all add: entry_ok_def)
  then show ?thesis
    unfolding fixture_entry_iff [OF assms(1)] by (auto simp: fixture_accepts_def request_of_def)
qed

end
