(* ===== verification/Spec2Isabelle.thy ===== *)
theory Spec2Isabelle
  imports ArtifactManifest Receipts AtomicWrite Mount BootstrapConsole DevServer BundleProps
    VerifierFixture
begin

text \<open>
  Verification of the CKB crypto-agile account reference.

  The program keeps a CKB account whose authentication can be changed without changing its
  address. On chain, an \<^emph>\<open>account lock\<close> (contracts/account-lock) guards the account's cells; it
  reads the account's state from one cell, finds the authenticators the witness names and lets
  a \<^emph>\<open>verifier\<close> (contracts/verifier-p256 for WebAuthn passkeys, verifier-mldsa-adapter and
  verifier-slhdsa-adapter for post-quantum keys) check each proof in a child process. Off chain,
  tools/deploy publishes the code cells and creates accounts; demo/src/server offers account
  creation over a local JSON API; demo/src/client is a browser wizard that registers a passkey,
  creates an account and spends from it; demo/src/shared holds the formats all of them share.
  The parts meet in bytes (witness, proof, state, digest), in JSON documents (manifests, API
  bodies, stored records) and in the order of asynchronous calls; the theorems are about these
  meeting points.


  \<^bold>\<open>Conventions.\<close> A function that may throw or return \<^verbatim>\<open>Err\<close> is a HOL function into a sum type
  (\<open>'a js\<close> with JavaScript's exceptions, \<open>'a rust\<close> with the protocol errors and \<open>Panic\<close>). An
  asynchronous function is of type \<open>('w, 'e, 'a) io\<close> on an arbitrary environment \<open>'w\<close>. Bytes and
  flag sets are words; lengths and offsets are natural numbers with \<^verbatim>\<open>checked_add\<close> and the width
  of the encodings written out; a \<^verbatim>\<open>bigint\<close> is an \<open>int\<close>. A React component is a record of its
  state and refs with one operation per handler or continuation, and an inductive step relation
  that lets them happen in any order with any answers.


  \<^bold>\<open>Theories and sources.\<close>

  \<^item> \<open>Prelude\<close>, \<open>Js\<close>, \<open>Node\<close>, \<open>Machine\<close>: results, effects, little-endian numbers, slices;
    JavaScript values, objects and paths; state machines with an inductive invariant.
  \<^item> \<open>Bytes\<close>, \<open>Protocol\<close>: demo/src/shared/bytes.ts and protocol.ts. \<open>Ccc\<close> holds the data of
    \<^verbatim>\<open>@ckb-ccc/core\<close> and that library as a parameter.
  \<^item> \<open>Wire\<close>, \<open>Layout\<close>, \<open>StateLayout\<close>: crates/protocol/src, the consensus parsers, and the byte
    formats they are shown to accept exactly.
  \<^item> \<open>VerifierP256\<close>, \<open>Conformance\<close>, \<open>AccountLock\<close>: the readers of contracts/verifier-p256 and
    contracts/account-lock, against the browser's encoders.
  \<^item> \<open>Request\<close>: the request the lock writes to a verifier, and its parser. \<open>LockScript\<close>, \<open>LockProps\<close>,
    \<open>ReferenceVm\<close>, \<open>LockAccepts\<close>: the whole of contracts/account-lock/src/main.rs over the record
    \<open>syscalls\<close>, its soundness and completeness on a transaction \<open>chain_tx\<close>, and a machine that
    meets the assumptions on the system calls.
  \<^item> \<open>Verifier\<close>, \<open>VerifierProps\<close>, \<open>PostQuantum\<close>: contracts/verifier-p256/src/main.rs from reading
    the request to the exit code, and the two post-quantum verifiers. \<open>VerifierFixture\<close>: the stand-in
    verifier of the tests, contracts/verifier-fixture/src/main.rs.
  \<^item> \<open>EndToEnd\<close>: the browser's spend on the chain.
  \<^item> \<open>Zod\<close>, \<open>Schemas\<close>, \<open>Codecs\<close>, \<open>Manifests\<close>: demo/src/shared/schemas.ts, constants.ts and
    manifests.ts; \<open>Zod\<close> is the schema language with the package's parser as a parameter.
  \<^item> \<open>AccountState\<close>, \<open>Base64\<close>, \<open>Spend\<close>, \<open>SpendProps\<close>, \<open>Receipts\<close>: demo/src/client/chain.ts, from
    reading the live state to confirming the transfer.
  \<^item> \<open>Passkey\<close>, \<open>Api\<close>, \<open>Wizard\<close>, \<open>SpendStep\<close>, \<open>Steps\<close>: demo/src/client/passkey.ts, api.ts, storage.ts,
    the state and handlers of App.tsx and of the components. \<open>Render\<close>, \<open>RenderProps\<close>: their markup
    as a tree with the clicks it offers and the texts it shows. \<open>Mount\<close>: main.tsx, \<^verbatim>\<open>createDemoApi\<close> and the
    effect that moves the focus.
  \<^item> \<open>Service\<close>, \<open>ServiceProps\<close>, \<open>Http\<close>, \<open>Exporter\<close>, \<open>ExportedState\<close>, \<open>Startup\<close>: demo/src/server (errors.ts,
    config.ts, service.ts, index.ts, http.ts, state-exporter.ts) with
    crates/host/examples/export_account_state.rs.
  \<^item> \<open>Host\<close>, \<open>HostEncoders\<close>: crates/host/src, the state encoder, the bootstrap configuration, and the
    third implementation of the formats, digests and identities. \<open>ArtifactManifest\<close>:
    crates/host/examples/export_artifact_manifest.rs.
  \<^item> \<open>Creation\<close>, \<open>Artifacts\<close>, \<open>Deployment\<close>, \<open>DeploymentProps\<close>, \<open>Bootstrap\<close>, \<open>BootstrapProps\<close>,
    \<open>AtomicWrite\<close>, \<open>BootstrapCli\<close>: tools/deploy/src (account.ts, artifacts.ts, plan.ts,
    deployment.ts, deploy.ts, bootstrap-lib.ts, bootstrap.ts). \<open>Console\<close>, \<open>DeployConsole\<close>, \<open>BootstrapConsole\<close>:
    the two command line programs with everything they print and their exit codes.
  \<^item> \<open>Bundle\<close>, \<open>BundleProps\<close>: demo/scripts/check-client-bundle.mjs and the plugin of
    demo/vite.config.ts that writes the module graph it reads. \<open>DevServer\<close>: the rest of that
    configuration with its proxy, and demo/playwright.config.ts.


  \<^bold>\<open>What is shown.\<close>

  \<^item> On chain: the account lock exits with success exactly when the transaction follows the
    documented rules (operation, state cells, transition, sighash, capabilities, threshold) and
    the verifiers accept its proofs, and it always ends; each verifier accepts exactly the valid
    proofs for the recorded key, in whatever pieces its request arrives, and the scanner of the
    client data accepts exactly the JSON objects with the expected members.
  \<^item> End to end: a transfer that the browser prepared and finalized with a genuine passkey
    assertion is unlocked by the account lock with the P-256 verifier as its child.
  \<^item> Bytes: the browser's encoders and the on-chain parsers are exact inverses of each other
    (witness, proof); \<^verbatim>\<open>validate_state\<close> accepts exactly the documented layout; the host's encoder
    writes it; no parser panics; the browser, the host and the lock script write the same bytes and
    compute the same group sighash and authorization digest, and a digest binds everything it covers up to hash collisions.
  \<^item> Spending: discovery returns only the account's own recorded cells, preparing conserves
    capacity, finalizing returns only the prepared transaction with a witness the lock and the
    verifier read back as the assertion over the reviewed digest, never outgrows the reserved
    fee, and the component submits at most one transaction, the reviewed one; the values on the
    page determine what the passkey signs, and its enabled buttons are the machines' steps.
  \<^item> Accounts: the state the server exports is the one the browser and the chain accept; a
    creation transaction passes its check exactly when the lock script can later use its cells;
    a manifest is written only for a committed account, atomically and never over another.
  \<^item> Concurrency and errors: overlapping account creations share one run, the guard is always
    released; the HTTP layer answers every request and shields the service; the wizard shows a
    step only when its preconditions were verified; unsafe retries are impossible; the server
    starts closed and prints no library's message.
  \<^item> Deployment: plans exist exactly for verified binaries, dry runs touch nothing, only cells
    read back from the chain are recorded, the console names every transaction that was sent however
    the run ends, the signing key reaches the console only through its signer, and which manifests
    the demo accepts; the bundle
    check passes exactly when no server-only text or module reached the browser's files.


  \<^bold>\<open>Interfaces.\<close> \<open>le_encoder\<close> (interpreted for u16, u32 and u64), \<open>wire_format\<close> (an encoder and
  the parser on the other side; interpreted for the witness and for the passkey proof), \<open>codec\<close>
  and its extension \<open>canonical_codec\<close> (a schema with its record; one interpretation per schema),
  \<open>verifier_program\<close> (a check behind the request reader; interpreted for P-256, ML-DSA and SLH-DSA),
  \<open>printing_program\<close> (a program that prints around a silent one; interpreted for both command line tools),
  \<open>machine\<close> (an inductive invariant of a step relation; interpreted for the server's
  single-flight guard, the wizard, the spend step and the account step).


  \<^bold>\<open>Parameters.\<close> Code outside the repository is an argument of the definitions, and what is
  relied on is a named hypothesis: \<open>ccc_hex\<close>, \<open>ccc_hashes\<close>, \<open>ccc_raw_hash\<close> and \<open>ccc_molecule\<close> (hex,
  32-byte hashes, a transaction hash independent of witnesses, molecule's \<^verbatim>\<open>WitnessArgs\<close> table),
  \<open>hash_agrees\<close> (both sides use the same hash), \<open>zod_ok\<close> (schema acceptance), \<open>hex_crate\<close>,
  \<open>runs_exporter\<close> (the child process runs the exporter on the shared files), \<open>demo_hashes\<close>,
  \<open>honest_client\<close>, \<open>json_ok\<close> and \<open>json_back\<close> (printing and parsing a JSON value gives it back),
  \<open>vm_serves\<close>, \<open>tx_sized\<close>, \<open>child_laws\<close>, \<open>child_live\<close> and \<open>child_reads\<close> (the virtual machine's system calls on a
  transaction and on pipes), \<open>presents\<close> and \<open>chain_holds\<close> (the chain's view of a CCC transaction and of
  the live cells), \<open>json_reads\<close>, \<open>demo_sha\<close>, \<open>authenticator_signs\<close> and \<open>runs_p256\<close> (the browser's JSON reader,
  SHA-256 at the demo's origin, a genuine assertion, the verifier as the child's program),
  \<open>relocks\<close> (the host's \<^verbatim>\<open>WitnessArgs\<close>), \<open>platform_errors\<close> (only this program throws its \<^verbatim>\<open>ApiError\<close>),
  \<open>records_sends\<close> (what a signer has sent, read from its environment), \<open>follows_rules\<close> (Vite's proxy options). Each theorem with
  such hypotheses is applied to a concrete instance right after it. RPC clients, file systems,
  WebAuthn, WebCrypto and the browser's globals are operations without any assumption unless a
  theorem names one.


  \<^bold>\<open>Bounds.\<close> Every definition is total and none uses fuel. Loops recurse on the data they read;
  where they do not (the index loops, the write and read loops on pipes, the members of the client
  data, the directory walk), a measure is proved to decrease, and the lock script's index loops end
  because a transaction has fewer than \<open>2 ^ 64\<close> entries. \<^verbatim>\<open>confirmSpend\<close> makes one waiting call with a
  deadline, which is the client's. Lengths are assumed below \<open>2 ^ 64\<close> (Rust) or the safe-integer
  bound (JavaScript) only where the source would overflow, and those checks are part of the
  definitions.


  \<^bold>\<open>Not modelled.\<close> The unit tests' configuration, which is three constants; the exporters of the test
  vectors, which print fixed inputs; tests, test vectors and shell scripts; style sheets. Imports,
  comments and the declarations of types that the definitions carry in their own have no definition
  of their own.
\<close>

end
